(* ===== verification/Prelude.thy ===== *)
theory Prelude
  imports Main "HOL-Library.Monad_Syntax" "HOL-Library.While_Combinator" "HOL-Library.Mapping"
begin

text \<open>
  Shared vocabulary of the development: Go's fixed-width integers as integers with the
  wrap-around written out, byte buffers, run-time panics as \<open>None\<close>, counted loops,
  and the partial and total correctness predicates every component lemma is stated with.

  \<^item> A Go value of type \<open>int16\<close>, \<open>byte\<close>, \<open>uint16\<close> or \<open>uint32\<close> is an \<open>int\<close>; \<open>i16\<close>, \<open>u8\<close>,
    \<open>u16\<close> and \<open>u32\<close> wrap the result of an arithmetic operation or a conversion.
  \<^item> An operation that can panic (index out of range, division by zero) or fail to return
    yields an \<open>option\<close>; \<open>None\<close> is that outcome, and the do-notation of
    \<open>HOL-Library.Monad_Syntax\<close> stops there as the Go call stack would.
  \<^item> \<open>foldM\<close> is a counted \<open>for\<close> loop whose body can panic.
\<close>

section \<open>Collections of facts\<close>

named_theorems eng_simps \<open>accessors and updates of the engine state\<close>
named_theorems wlp \<open>partial correctness rules\<close>
named_theorems wp \<open>total correctness rules\<close>

section \<open>Fixed-width integers\<close>

definition i16 :: "int \<Rightarrow> int" where
  "i16 n = (n + 32768) mod 65536 - 32768"

definition u8 :: "int \<Rightarrow> int" where
  "u8 n = n mod 256"

definition u16 :: "int \<Rightarrow> int" where
  "u16 n = n mod 65536"

definition u32 :: "int \<Rightarrow> int" where
  "u32 n = n mod 4294967296"

definition is_i16 :: "int \<Rightarrow> bool" where
  "is_i16 n \<longleftrightarrow> -32768 \<le> n \<and> n \<le> 32767"

definition is_u8 :: "int \<Rightarrow> bool" where
  "is_u8 n \<longleftrightarrow> 0 \<le> n \<and> n \<le> 255"

lemma i16_id [simp]: "-32768 \<le> n \<Longrightarrow> n \<le> 32767 \<Longrightarrow> i16 n = n"
  by (simp add: i16_def)

lemma u8_id [simp]: "0 \<le> n \<Longrightarrow> n \<le> 255 \<Longrightarrow> u8 n = n"
  by (simp add: u8_def)

lemma is_i16_i16 [simp]: "is_i16 (i16 n)"
  by (simp add: is_i16_def i16_def)

lemma i16_bounds: "-32768 \<le> i16 n" "i16 n \<le> 32767"
  using is_i16_i16 [of n] by (simp_all add: is_i16_def)

lemma is_u8_u8 [simp]: "is_u8 (u8 n)"
  by (simp add: is_u8_def u8_def)

lemma u8_bounds: "0 \<le> u8 n" "u8 n \<le> 255"
  using is_u8_u8 [of n] by (simp_all add: is_u8_def)

lemma i16_of_is [simp]: "is_i16 n \<Longrightarrow> i16 n = n"
  by (simp add: is_i16_def)

lemma u8_of_is [simp]: "is_u8 n \<Longrightarrow> u8 n = n"
  by (simp add: is_u8_def)

text \<open>Go's \<open>/\<close> and \<open>%\<close> truncate towards zero.\<close>

definition quot :: "int \<Rightarrow> int \<Rightarrow> int" where
  "quot a b = sgn a * sgn b * (\<bar>a\<bar> div \<bar>b\<bar>)"

definition rmd :: "int \<Rightarrow> int \<Rightarrow> int" where
  "rmd a b = a - b * quot a b"

lemma quot_pos: "0 \<le> a \<Longrightarrow> 0 < b \<Longrightarrow> quot a b = a div b"
  by (cases "a = 0") (simp_all add: quot_def)

lemma rmd_pos: "0 \<le> a \<Longrightarrow> 0 < b \<Longrightarrow> rmd a b = a mod b"
  by (simp add: rmd_def quot_pos minus_mult_div_eq_mod)

section \<open>Bytes and strings\<close>

text \<open>
  A Go string is a sequence of bytes, so it is a HOL \<open>string\<close>; a byte buffer is a list of
  integers, and \<open>ord\<close>, \<open>chr\<close> convert.
\<close>

definition ord :: "char \<Rightarrow> int" where
  "ord c = of_char c"

definition chr :: "int \<Rightarrow> char" where
  "chr n = char_of n"

lemma chr_ord [simp]: "chr (ord c) = c"
  by (simp add: chr_def ord_def)

lemma ord_chr [simp]: "ord (chr n) = n mod 256"
  by (simp add: chr_def ord_def)

lemma ord_range [simp]: "0 \<le> ord c" "ord c < 256" "ord c \<le> 255"
proof -
  have "ord c = ord (chr (ord c))" by simp
  then have eq: "ord c = ord c mod 256" by (simp only: ord_chr)
  show lo: "0 \<le> ord c" by (subst eq) simp
  show hi: "ord c < 256" by (subst eq) simp
  show "ord c \<le> 255" using hi by simp
qed

lemma ord_inject [simp]: "ord c = ord d \<longleftrightarrow> c = d"
  by (metis chr_ord)

section \<open>Panics and loops\<close>

text \<open>Go's \<open>buf[lo:hi]\<close>: out-of-range bounds panic.\<close>

definition slice :: "int \<Rightarrow> int \<Rightarrow> 'a list \<Rightarrow> 'a list option" where
  "slice lo hi xs =
     (if 0 \<le> lo \<and> lo \<le> hi \<and> hi \<le> int (length xs)
      then Some (take (nat (hi - lo)) (drop (nat lo) xs)) else None)"

text \<open>Go's \<open>xs[i]\<close> on a slice or a string.\<close>

definition index :: "'a list \<Rightarrow> int \<Rightarrow> 'a option" where
  "index xs i = (if 0 \<le> i \<and> i < int (length xs) then Some (xs ! nat i) else None)"

text \<open>The built-in run-time check that a divisor is not zero.\<close>

definition check :: "bool \<Rightarrow> unit option" where
  "check b = (if b then Some () else None)"

fun foldM :: "('a \<Rightarrow> 's \<Rightarrow> 's option) \<Rightarrow> 'a list \<Rightarrow> 's \<Rightarrow> 's option" where
  "foldM f [] s = Some s"
| "foldM f (x # xs) s = do { s \<leftarrow> f x s; foldM f xs s }"

lemma foldM_append: "foldM f (xs @ ys) s = do { s \<leftarrow> foldM f xs s; foldM f ys s }"
  by (induction xs arbitrary: s) (auto split: Option.bind_splits)

text \<open>
  A search that stops at the first element its test accepts, where the test can panic.
\<close>

fun firstM :: "('a \<Rightarrow> bool option) \<Rightarrow> 'a list \<Rightarrow> 'a option option" where
  "firstM p [] = Some None"
| "firstM p (x # xs) = do { b \<leftarrow> p x; if b then Some (Some x) else firstM p xs }"

lemma firstM_Some:
  "firstM p xs = Some (Some x) \<Longrightarrow>
   \<exists>us vs. xs = us @ x # vs \<and> p x = Some True \<and> (\<forall>u\<in>set us. p u = Some False)"
proof (induction xs)
  case (Cons y ys)
  show ?case
  proof (cases "p y = Some True")
    case True
    then show ?thesis using Cons.prems by (intro exI [of _ "[]"] exI [of _ ys]) auto
  next
    case False
    then have "p y = Some False" and "firstM p ys = Some (Some x)"
      using Cons.prems by (auto split: Option.bind_splits if_splits)
    with Cons.IH obtain us vs where "ys = us @ x # vs" "p x = Some True"
      "\<forall>u\<in>set us. p u = Some False" by blast
    with \<open>p y = Some False\<close> show ?thesis by (intro exI [of _ "y # us"] exI [of _ vs]) auto
  qed
qed simp

lemma firstM_None: "firstM p xs = Some None \<longleftrightarrow> (\<forall>x\<in>set xs. p x = Some False)"
  by (induction xs) (auto split: Option.bind_splits if_splits)

lemma firstM_returns: "(\<And>x. x \<in> set xs \<Longrightarrow> p x \<noteq> None) \<Longrightarrow> firstM p xs \<noteq> None"
  by (induction xs) (auto split: Option.bind_splits)

section \<open>Partial and total correctness\<close>

text \<open>
  \<open>ok P r\<close>: if \<open>r\<close> returns, its value satisfies \<open>P\<close>. \<open>returns P r\<close>: \<open>r\<close> returns, and its
  value satisfies \<open>P\<close>. The rules turn a goal about a do-block into one goal per path.
\<close>

definition ok :: "('a \<Rightarrow> bool) \<Rightarrow> 'a option \<Rightarrow> bool" where
  "ok P r \<longleftrightarrow> (\<forall>x. r = Some x \<longrightarrow> P x)"

definition returns :: "('a \<Rightarrow> bool) \<Rightarrow> 'a option \<Rightarrow> bool" where
  "returns P r \<longleftrightarrow> (\<exists>x. r = Some x \<and> P x)"

lemma ok_Some [simp]: "ok P (Some x) \<longleftrightarrow> P x"
  by (simp add: ok_def)

lemma ok_None [simp]: "ok P None"
  by (simp add: ok_def)

lemma returns_Some [simp]: "returns P (Some x) \<longleftrightarrow> P x"
  by (simp add: returns_def)

lemma returns_None [simp]: "\<not> returns P None"
  by (simp add: returns_def)

lemma ok_SomeI [wlp]: "P x \<Longrightarrow> ok P (Some x)"
  by simp

lemma ok_NoneI [wlp]: "ok P None"
  by simp

lemma ok_bind [wlp]: "ok (\<lambda>x. ok P (f x)) m \<Longrightarrow> ok P (m \<bind> f)"
  by (cases m) simp_all

lemma ok_bind_eq: "(\<And>x. m = Some x \<Longrightarrow> ok P (f x)) \<Longrightarrow> ok P (m \<bind> f)"
  by (cases m) simp_all

lemma ok_if [wlp]: "(b \<Longrightarrow> ok P m) \<Longrightarrow> (\<not> b \<Longrightarrow> ok P n) \<Longrightarrow> ok P (if b then m else n)"
  by simp

lemma ok_prod [wlp]: "(\<And>a b. p = (a, b) \<Longrightarrow> ok P (f a b)) \<Longrightarrow> ok P (case p of (a, b) \<Rightarrow> f a b)"
  by (cases p) simp

lemma ok_let [wlp]: "(\<And>x. x = t \<Longrightarrow> ok P (f x)) \<Longrightarrow> ok P (let x = t in f x)"
  by simp

lemma ok_option [wlp]:
  "(v = None \<Longrightarrow> ok P m) \<Longrightarrow> (\<And>x. v = Some x \<Longrightarrow> ok P (f x)) \<Longrightarrow>
   ok P (case v of None \<Rightarrow> m | Some x \<Rightarrow> f x)"
  by (cases v) simp_all

lemma ok_mono: "ok P r \<Longrightarrow> (\<And>x. P x \<Longrightarrow> Q x) \<Longrightarrow> ok Q r"
  by (auto simp: ok_def)

lemma okD: "ok P r \<Longrightarrow> r = Some x \<Longrightarrow> P x"
  by (simp add: ok_def)

lemma ok_pairI: "(\<And>a b. m = Some (a, b) \<Longrightarrow> P (a, b)) \<Longrightarrow> ok P m"
  by (auto simp: ok_def)

lemma ok_check [wlp]: "(b \<Longrightarrow> P ()) \<Longrightarrow> ok P (check b)"
  by (simp add: check_def)

lemma ok_foldM:
  assumes "P s" and "\<And>x s. x \<in> set xs \<Longrightarrow> P s \<Longrightarrow> ok P (f x s)"
  shows "ok P (foldM f xs s)"
  using assms
proof (induction xs arbitrary: s)
  case Nil
  then show ?case by simp
next
  case (Cons x xs)
  have "ok P (f x s)" using Cons.prems by simp
  moreover have "ok P (foldM f xs s')" if "P s'" for s'
    using Cons.IH [OF that] Cons.prems(2) by simp
  ultimately show ?case by (auto simp: ok_def split: Option.bind_splits)
qed

lemma returns_bind: "returns (\<lambda>x. returns P (f x)) m \<Longrightarrow> returns P (m \<bind> f)"
  by (cases m) simp_all

lemma returns_mono: "returns P r \<Longrightarrow> (\<And>x. P x \<Longrightarrow> Q x) \<Longrightarrow> returns Q r"
  by (auto simp: returns_def)

lemma returns_foldM:
  assumes "P s" and "\<And>x s. x \<in> set xs \<Longrightarrow> P s \<Longrightarrow> returns P (f x s)"
  shows "returns P (foldM f xs s)"
  using assms
proof (induction xs arbitrary: s)
  case Nil
  then show ?case by simp
next
  case (Cons x xs)
  then obtain s' where "f x s = Some s'" "P s'" by (fastforce simp: returns_def)
  with Cons show ?case by simp
qed

section \<open>Evaluation of closed terms\<close>

lemma upto_1_numeral [simp]: "[1..numeral n] = 1 # [2..numeral n :: int]"
  by (subst upto.simps) simp

lemma upto_0_numeral [simp]: "[0..numeral n] = 0 # [1..numeral n :: int]"
  by (subst upto.simps) simp

lemma lookup_delete_if: "Mapping.lookup (Mapping.delete k m) x = (if x = k then None else Mapping.lookup m x)"
  by (simp add: lookup_delete_neq)

end
