(* ===== verification/Types.thy ===== *)
theory Types
  imports Prelude
begin

text \<open>
  The data of \<open>engine/gamevars.go\<close>: world, board and stat records, player state, the
  events the engine emits and the \<open>Engine\<close> record itself, with the bounds-checked
  accessors for its arrays. A Go struct field keeps its name; where two structs share a
  field name the record field carries a prefix (\<open>s\<close> stat, \<open>d\<close> element definition, \<open>b\<close>
  board, \<open>w\<close> world info, \<open>p\<close> player). A fixed-size Go array is a total function, and
  every access goes through an accessor that panics outside the array's bounds.
  \<open>*PlayerState\<close> pointers are addresses into \<open>PHeap\<close>: \<open>Players\<close> maps a stat id to an
  address, so that two ids can share a state and a held pointer survives renumbering.
\<close>

section \<open>Constants\<close>

abbreviation (input) MAX_STAT :: int where "MAX_STAT \<equiv> 150"
abbreviation (input) MAX_ELEMENT :: int where "MAX_ELEMENT \<equiv> 53"
abbreviation (input) MAX_BOARD :: int where "MAX_BOARD \<equiv> 100"
abbreviation (input) MAX_FLAG :: int where "MAX_FLAG \<equiv> 10"
abbreviation (input) BOARD_WIDTH :: int where "BOARD_WIDTH \<equiv> 60"
abbreviation (input) BOARD_HEIGHT :: int where "BOARD_HEIGHT \<equiv> 25"
abbreviation (input) HIGH_SCORE_COUNT :: int where "HIGH_SCORE_COUNT \<equiv> 30"
abbreviation (input) TORCH_DURATION :: int where "TORCH_DURATION \<equiv> 200"
abbreviation (input) TORCH_DX :: int where "TORCH_DX \<equiv> 8"
abbreviation (input) TORCH_DY :: int where "TORCH_DY \<equiv> 5"
abbreviation (input) TORCH_DIST_SQR :: int where "TORCH_DIST_SQR \<equiv> 50"

abbreviation (input) SizeOfBoardName :: int where "SizeOfBoardName \<equiv> 51"
abbreviation (input) SizeOfRleTile :: int where "SizeOfRleTile \<equiv> 3"
abbreviation (input) SizeOfBoardInfo :: int where "SizeOfBoardInfo \<equiv> 86"
abbreviation (input) SizeOfStat :: int where "SizeOfStat \<equiv> 33"
abbreviation (input) SizeOfBoardInfoMessage :: int where "SizeOfBoardInfoMessage \<equiv> 59"
abbreviation (input) SizeOfWorldInfo :: int where "SizeOfWorldInfo \<equiv> 275"
abbreviation (input) SizeOfHighScoreList :: int where "SizeOfHighScoreList \<equiv> 1590"

abbreviation (input) E_EMPTY :: int where "E_EMPTY \<equiv> 0"
abbreviation (input) E_BOARD_EDGE :: int where "E_BOARD_EDGE \<equiv> 1"
abbreviation (input) E_MESSAGE_TIMER :: int where "E_MESSAGE_TIMER \<equiv> 2"
abbreviation (input) E_MONITOR :: int where "E_MONITOR \<equiv> 3"
abbreviation (input) E_PLAYER :: int where "E_PLAYER \<equiv> 4"
abbreviation (input) E_AMMO :: int where "E_AMMO \<equiv> 5"
abbreviation (input) E_TORCH :: int where "E_TORCH \<equiv> 6"
abbreviation (input) E_GEM :: int where "E_GEM \<equiv> 7"
abbreviation (input) E_KEY :: int where "E_KEY \<equiv> 8"
abbreviation (input) E_DOOR :: int where "E_DOOR \<equiv> 9"
abbreviation (input) E_SCROLL :: int where "E_SCROLL \<equiv> 10"
abbreviation (input) E_PASSAGE :: int where "E_PASSAGE \<equiv> 11"
abbreviation (input) E_DUPLICATOR :: int where "E_DUPLICATOR \<equiv> 12"
abbreviation (input) E_BOMB :: int where "E_BOMB \<equiv> 13"
abbreviation (input) E_ENERGIZER :: int where "E_ENERGIZER \<equiv> 14"
abbreviation (input) E_STAR :: int where "E_STAR \<equiv> 15"
abbreviation (input) E_CONVEYOR_CW :: int where "E_CONVEYOR_CW \<equiv> 16"
abbreviation (input) E_CONVEYOR_CCW :: int where "E_CONVEYOR_CCW \<equiv> 17"
abbreviation (input) E_BULLET :: int where "E_BULLET \<equiv> 18"
abbreviation (input) E_WATER :: int where "E_WATER \<equiv> 19"
abbreviation (input) E_FOREST :: int where "E_FOREST \<equiv> 20"
abbreviation (input) E_SOLID :: int where "E_SOLID \<equiv> 21"
abbreviation (input) E_NORMAL :: int where "E_NORMAL \<equiv> 22"
abbreviation (input) E_BREAKABLE :: int where "E_BREAKABLE \<equiv> 23"
abbreviation (input) E_BOULDER :: int where "E_BOULDER \<equiv> 24"
abbreviation (input) E_SLIDER_NS :: int where "E_SLIDER_NS \<equiv> 25"
abbreviation (input) E_SLIDER_EW :: int where "E_SLIDER_EW \<equiv> 26"
abbreviation (input) E_FAKE :: int where "E_FAKE \<equiv> 27"
abbreviation (input) E_INVISIBLE :: int where "E_INVISIBLE \<equiv> 28"
abbreviation (input) E_BLINK_WALL :: int where "E_BLINK_WALL \<equiv> 29"
abbreviation (input) E_TRANSPORTER :: int where "E_TRANSPORTER \<equiv> 30"
abbreviation (input) E_LINE :: int where "E_LINE \<equiv> 31"
abbreviation (input) E_RICOCHET :: int where "E_RICOCHET \<equiv> 32"
abbreviation (input) E_BLINK_RAY_EW :: int where "E_BLINK_RAY_EW \<equiv> 33"
abbreviation (input) E_BEAR :: int where "E_BEAR \<equiv> 34"
abbreviation (input) E_RUFFIAN :: int where "E_RUFFIAN \<equiv> 35"
abbreviation (input) E_OBJECT :: int where "E_OBJECT \<equiv> 36"
abbreviation (input) E_SLIME :: int where "E_SLIME \<equiv> 37"
abbreviation (input) E_SHARK :: int where "E_SHARK \<equiv> 38"
abbreviation (input) E_SPINNING_GUN :: int where "E_SPINNING_GUN \<equiv> 39"
abbreviation (input) E_PUSHER :: int where "E_PUSHER \<equiv> 40"
abbreviation (input) E_LION :: int where "E_LION \<equiv> 41"
abbreviation (input) E_TIGER :: int where "E_TIGER \<equiv> 42"
abbreviation (input) E_BLINK_RAY_NS :: int where "E_BLINK_RAY_NS \<equiv> 43"
abbreviation (input) E_CENTIPEDE_HEAD :: int where "E_CENTIPEDE_HEAD \<equiv> 44"
abbreviation (input) E_CENTIPEDE_SEGMENT :: int where "E_CENTIPEDE_SEGMENT \<equiv> 45"
abbreviation (input) E_TEXT_BLUE :: int where "E_TEXT_BLUE \<equiv> 47"
abbreviation (input) E_TEXT_WHITE :: int where "E_TEXT_WHITE \<equiv> 53"
abbreviation (input) E_TEXT_MIN :: int where "E_TEXT_MIN \<equiv> 47"

abbreviation (input) CATEGORY_ITEM :: int where "CATEGORY_ITEM \<equiv> 1"
abbreviation (input) CATEGORY_CREATURE :: int where "CATEGORY_CREATURE \<equiv> 2"
abbreviation (input) CATEGORY_TERRAIN :: int where "CATEGORY_TERRAIN \<equiv> 3"
abbreviation (input) COLOR_SPECIAL_MIN :: int where "COLOR_SPECIAL_MIN \<equiv> 240"
abbreviation (input) COLOR_CHOICE_ON_BLACK :: int where "COLOR_CHOICE_ON_BLACK \<equiv> 255"
abbreviation (input) COLOR_WHITE_ON_CHOICE :: int where "COLOR_WHITE_ON_CHOICE \<equiv> 254"
abbreviation (input) SHOT_SOURCE_ENEMY :: int where "SHOT_SOURCE_ENEMY \<equiv> 1"
abbreviation (input) SHOT_SOURCE_PLAYER_BASE :: int where "SHOT_SOURCE_PLAYER_BASE \<equiv> 2"
abbreviation (input) RESPAWN_TICKS :: int where "RESPAWN_TICKS \<equiv> 30"
abbreviation (input) RESPAWN_INVULN_TICKS :: int where "RESPAWN_INVULN_TICKS \<equiv> 50"
abbreviation (input) RESPAWN_SCORE_PENALTY :: int where "RESPAWN_SCORE_PENALTY \<equiv> 100"

section \<open>Records\<close>

record TTile =
  Element :: int
  Color :: int

record TStat =
  sX :: int
  sY :: int
  StepX :: int
  StepY :: int
  sCycle :: int
  P1 :: int
  P2 :: int
  P3 :: int
  Follower :: int
  Leader :: int
  Under :: TTile
  Data :: string
  DataPos :: int
  DataLen :: int

record TRleTile =
  rCount :: int
  rTile :: TTile

record TBoardInfo =
  MaxShots :: int
  IsDark :: bool
  NeighborBoards :: "int \<Rightarrow> int"
  ReenterWhenZapped :: bool
  bMessage :: string
  StartPlayerX :: int
  StartPlayerY :: int
  TimeLimitSec :: int

record TWorldInfo =
  wAmmo :: int
  wGems :: int
  wKeys :: "int \<Rightarrow> bool"
  wHealth :: int
  CurrentBoard :: int
  wTorches :: int
  wTorchTicks :: int
  wEnergizerTicks :: int
  wScore :: int
  wName :: string
  Flags :: "int \<Rightarrow> string"
  wBoardTimeSec :: int
  wBoardTimeHsec :: int
  IsSave :: bool

record TEditorStatSetting =
  esP1 :: int
  esP2 :: int
  esP3 :: int
  esStepX :: int
  esStepY :: int

record TBoard =
  bName :: string
  Tiles :: "int \<Rightarrow> int \<Rightarrow> TTile"
  StatCount :: int
  Stats :: "int \<Rightarrow> TStat"
  bInfo :: TBoardInfo

record TWorld =
  BoardCount :: int
  BoardData :: "int \<Rightarrow> int list"
  BoardLen :: "int \<Rightarrow> int"
  wInfo :: TWorldInfo
  EditorStatSettings :: "int \<Rightarrow> TEditorStatSetting"

record THighScoreEntry =
  hName :: string
  hScore :: int

record PlayerState =
  pHealth :: int
  pAmmo :: int
  pGems :: int
  pTorches :: int
  pTorchTicks :: int
  pEnergizerTicks :: int
  pScore :: int
  pKeys :: "int \<Rightarrow> bool"
  pBoardTimeSec :: int
  pBoardTimeHsec :: int
  PlayerCharacter :: int
  DirX :: int
  DirY :: int
  RespawnTicks :: int
  MessageAmmoNotShown :: bool
  MessageOutOfAmmoNotShown :: bool
  MessageNoShootingNotShown :: bool
  MessageTorchNotShown :: bool
  MessageOutOfTorchesNotShown :: bool
  MessageRoomNotDarkNotShown :: bool
  MessageHintTorchNotShown :: bool
  MessageForestNotShown :: bool
  MessageFakeNotShown :: bool
  MessageGemNotShown :: bool
  MessageEnergizerNotShown :: bool
  Paused :: bool
  pSoundEnabled :: bool
  ReenterX :: int
  ReenterY :: int

record PlayerInput =
  iDeltaX :: int
  iDeltaY :: int
  iShift :: bool
  iKey :: int

text \<open>The event structs, in the source's field order.\<close>

datatype Event =
    ScrollEvent string "string list" int int
  | QuitPromptEvent int
  | QuitEvent int
  | HelpEvent string string int
  | DebugPromptEvent int
  | SavePromptEvent int
  | PauseEvent int bool
  | HighScoreEntryEvent int int int
  | SoundEvent "int list" int int
  | WalkClickEvent int int
  | DeathEvent int
  | RespawnEvent int int int
  | TransferEvent int int int int int int "int list" int

text \<open>
  The engine. The \<open>g\<close>-prefixed fields are the package-level variables of \<open>input.go\<close> and
  \<open>sounds.go\<close> that the simulation reads and writes (one simulation at a time, as the tick
  goroutine runs it); \<open>LocalDeltaX\<close> and \<open>LocalDeltaY\<close> are the two local variables of
  \<open>GameStepWithInputs\<close> whose addresses its pause branch passes to a touch procedure.
  \<open>ScriptTicks\<close> and \<open>ScriptPos\<close> are the \<open>ScriptedInput\<close> every hosted engine reads from.
\<close>

record Engine =
  TransitionTable :: "int \<Rightarrow> int \<times> int"
  TransitionTableSize :: int
  LoadedGameFileName :: string
  SavedGameFileName :: string
  Board :: TBoard
  World :: TWorld
  Players :: "int \<Rightarrow> int option"
  PHeap :: "int \<Rightarrow> PlayerState"
  PNext :: int
  GamePlayExitRequested :: bool
  GameStateElement :: int
  TickSpeed :: int
  TickTimeDuration :: int
  CurrentTick :: int
  CurrentStatTicked :: int
  TimerTicks :: int
  ForceDarknessOff :: bool
  EditorElements :: bool
  OopChar :: char
  OopWord :: string
  OopValue :: int
  DebugEnabled :: bool
  HighScoreList :: "int \<Rightarrow> THighScoreEntry"
  IoTmpBuf :: "int list"
  Screen :: "int \<Rightarrow> int \<Rightarrow> int \<times> int"
  Headless :: bool
  videoDirty :: "(int \<times> int) list"
  screenDirty :: "(int \<times> int) list"
  ScriptTicks :: "PlayerInput list"
  ScriptPos :: int
  RandSeed :: int
  eInputDeltaX :: int
  eInputDeltaY :: int
  eInputShiftPressed :: bool
  eInputKeyPressed :: int
  eInputLastDeltaX :: int
  eInputLastDeltaY :: int
  Events :: "Event list"
  PendingScrollReplies :: "(int \<times> string) list"
  ScrollAudience :: "int \<Rightarrow> int"
  PendingDebugCommands :: "(int \<times> string) list"
  PendingSaveFilenames :: "(int \<times> string) list"
  PendingQuitReplies :: "(int \<times> bool) list"
  SoundBlockQueueing :: bool
  ActingPlayerStatId :: int
  FriendlyFire :: bool
  MultiRoom :: bool
  gInputDeltaX :: int
  gInputDeltaY :: int
  gInputShiftPressed :: bool
  gInputKeyPressed :: int
  gInputLastDeltaX :: int
  gInputLastDeltaY :: int
  gSoundEnabled :: bool
  gSoundIsPlaying :: bool
  LocalDeltaX :: int
  LocalDeltaY :: int

section \<open>Array accessors\<close>

text \<open>\<open>e.Board.Tiles[x][y]\<close>, an array of 62 columns by 27 rows.\<close>

definition inTiles :: "int \<Rightarrow> int \<Rightarrow> bool" where
  "inTiles x y \<longleftrightarrow> 0 \<le> x \<and> x \<le> BOARD_WIDTH + 1 \<and> 0 \<le> y \<and> y \<le> BOARD_HEIGHT + 1"

definition tileAt :: "int \<Rightarrow> int \<Rightarrow> Engine \<Rightarrow> TTile option" where
  "tileAt x y e = (if inTiles x y then Some (Tiles (Board e) x y) else None)"

definition putTile :: "int \<Rightarrow> int \<Rightarrow> TTile \<Rightarrow> Engine \<Rightarrow> Engine" where
  "putTile x y t e =
     e\<lparr>Board := (Board e)\<lparr>Tiles := (Tiles (Board e))(x := (Tiles (Board e) x)(y := t))\<rparr>\<rparr>"

definition setTile :: "int \<Rightarrow> int \<Rightarrow> TTile \<Rightarrow> Engine \<Rightarrow> Engine option" where
  "setTile x y t e = (if inTiles x y then Some (putTile x y t e) else None)"

definition setElement :: "int \<Rightarrow> int \<Rightarrow> int \<Rightarrow> Engine \<Rightarrow> Engine option" where
  "setElement x y el e = do { t \<leftarrow> tileAt x y e; setTile x y (t\<lparr>Element := el\<rparr>) e }"

definition setColor :: "int \<Rightarrow> int \<Rightarrow> int \<Rightarrow> Engine \<Rightarrow> Engine option" where
  "setColor x y c e = do { t \<leftarrow> tileAt x y e; setTile x y (t\<lparr>Color := c\<rparr>) e }"

definition elementAt :: "int \<Rightarrow> int \<Rightarrow> Engine \<Rightarrow> int option" where
  "elementAt x y e = map_option Element (tileAt x y e)"

definition colorAt :: "int \<Rightarrow> int \<Rightarrow> Engine \<Rightarrow> int option" where
  "colorAt x y e = map_option Color (tileAt x y e)"

text \<open>\<open>e.Board.Stats[i]\<close>, an array of \<open>MAX_STAT + 2\<close> entries.\<close>

definition inStats :: "int \<Rightarrow> bool" where
  "inStats i \<longleftrightarrow> 0 \<le> i \<and> i \<le> MAX_STAT + 1"

definition statAt :: "int \<Rightarrow> Engine \<Rightarrow> TStat option" where
  "statAt i e = (if inStats i then Some (Stats (Board e) i) else None)"

definition putStat :: "int \<Rightarrow> TStat \<Rightarrow> Engine \<Rightarrow> Engine" where
  "putStat i s e = e\<lparr>Board := (Board e)\<lparr>Stats := (Stats (Board e))(i := s)\<rparr>\<rparr>"

definition modStat :: "int \<Rightarrow> (TStat \<Rightarrow> TStat) \<Rightarrow> Engine \<Rightarrow> Engine option" where
  "modStat i f e = do { s \<leftarrow> statAt i e; Some (putStat i (f s) e) }"

definition setStatCount :: "int \<Rightarrow> Engine \<Rightarrow> Engine" where
  "setStatCount n e = e\<lparr>Board := (Board e)\<lparr>StatCount := n\<rparr>\<rparr>"

definition modInfo :: "(TBoardInfo \<Rightarrow> TBoardInfo) \<Rightarrow> Engine \<Rightarrow> Engine" where
  "modInfo f e = e\<lparr>Board := (Board e)\<lparr>bInfo := f (bInfo (Board e))\<rparr>\<rparr>"

definition modWorldInfo :: "(TWorldInfo \<Rightarrow> TWorldInfo) \<Rightarrow> Engine \<Rightarrow> Engine" where
  "modWorldInfo f e = e\<lparr>World := (World e)\<lparr>wInfo := f (wInfo (World e))\<rparr>\<rparr>"

text \<open>A \<open>*PlayerState\<close> held in a variable is an address; it is never nil once obtained.\<close>

definition modPlayer :: "int \<Rightarrow> (PlayerState \<Rightarrow> PlayerState) \<Rightarrow> Engine \<Rightarrow> Engine" where
  "modPlayer r f e = e\<lparr>PHeap := (PHeap e)(r := f (PHeap e r))\<rparr>"

definition emit :: "Event \<Rightarrow> Engine \<Rightarrow> Engine" where
  "emit ev e = e\<lparr>Events := Events e @ [ev]\<rparr>"

end
