(* ===== verification/Lib.thy ===== *)
theory Lib
  imports Types
begin

text \<open>
  The Turbo Pascal run-time routines of \<open>engine/lib.go\<close> that the simulation calls, and the
  small arithmetic helpers and constant arrays of \<open>engine/game.go\<close>.
\<close>

section \<open>Strings\<close>

definition Length :: "string \<Rightarrow> int" where
  "Length s = i16 (int (length s))"

definition UpCase :: "char \<Rightarrow> char" where
  "UpCase b = (if ord CHR ''a'' \<le> ord b \<and> ord b \<le> ord CHR ''z'' then chr (ord b - 32) else b)"

definition UpCaseString :: "string \<Rightarrow> string" where
  "UpCaseString input = map UpCase input"

definition Copy :: "string \<Rightarrow> int \<Rightarrow> int \<Rightarrow> string option" where
  "Copy s idx cnt =
     (let idx = (if idx < 1 then 1 else idx);
          cnt = (if cnt < 0 \<or> cnt > i16 (i16 (Length s - idx) + 1)
                 then i16 (i16 (Length s - idx) + 1) else cnt)
      in slice (i16 (idx - 1)) (i16 (i16 (idx - 1) + cnt)) s)"

text \<open>\<open>strings.IndexByte\<close>: the first position of a byte, \<open>-1\<close> if there is none.\<close>

fun IndexByte :: "string \<Rightarrow> char \<Rightarrow> int" where
  "IndexByte [] b = -1"
| "IndexByte (c # s) b = (if c = b then 0 else (let i = IndexByte s b in if i < 0 then -1 else i + 1))"

definition Pos :: "char \<Rightarrow> string \<Rightarrow> int" where
  "Pos b s = i16 (IndexByte s b + 1)"

text \<open>\<open>Val\<close> returns the value and the error code that the Go writes through \<open>*code\<close>.\<close>

definition isDigit :: "char \<Rightarrow> bool" where
  "isDigit c \<longleftrightarrow> ord CHR ''0'' \<le> ord c \<and> ord c \<le> ord CHR ''9''"

fun Val_digits :: "string \<Rightarrow> int \<Rightarrow> bool \<Rightarrow> int \<times> bool \<times> string" where
  "Val_digits [] val gotDigits = (val, gotDigits, [])"
| "Val_digits (c # s) val gotDigits =
     (if isDigit c then Val_digits s (i16 (i16 (val * 10) + (ord c - ord CHR ''0''))) True
      else (val, gotDigits, c # s))"

definition Val :: "string \<Rightarrow> int \<times> int" where
  "Val s =
     (let orig = s;
          s = dropWhile (\<lambda>c. c = CHR '' '') s;
          (negative, s) = (case s of [] \<Rightarrow> (False, s)
             | c # r \<Rightarrow> if c = CHR ''-'' then (True, r) else if c = CHR ''+'' then (False, r)
                      else (False, s));
          (val, gotDigits, s) = Val_digits s 0 False
      in if \<not> gotDigits \<or> s \<noteq> []
         then (0, i16 (int (length orig) - int (length s) + 1))
         else (if negative then i16 (- val) else val, 0))"

text \<open>\<open>strconv.Itoa\<close>.\<close>

fun decimal :: "nat \<Rightarrow> string" where
  "decimal n = (if n < 10 then [chr (48 + int n)]
                else decimal (n div 10) @ [chr (48 + int (n mod 10))])"

declare decimal.simps [simp del]

definition Str :: "int \<Rightarrow> string" where
  "Str n = (if n < 0 then CHR ''-'' # decimal (nat (- n)) else decimal (nat n))"

definition StrWidth :: "int \<Rightarrow> int \<Rightarrow> string" where
  "StrWidth n width =
     (let s = Str n;
          pad = replicate (nat (\<bar>width\<bar> - int (length s))) CHR '' ''
      in if width < 0 then s @ pad else pad @ s)"

definition Delete :: "string \<Rightarrow> int \<Rightarrow> int \<Rightarrow> string option" where
  "Delete s idx cnt =
     do { l \<leftarrow> slice 0 (i16 (idx - 1)) s;
          r \<leftarrow> slice (i16 (i16 (idx - 1) + cnt)) (int (length s)) s;
          Some (l @ r) }"

definition Replace :: "string \<Rightarrow> int \<Rightarrow> char \<Rightarrow> string option" where
  "Replace s idx b =
     do { l \<leftarrow> slice 0 (i16 (idx - 1)) s;
          r \<leftarrow> slice idx (int (length s)) s;
          Some (l @ [b] @ r) }"

section \<open>Random numbers and arithmetic\<close>

definition RandomSeed :: "int \<Rightarrow> Engine \<Rightarrow> Engine" where
  "RandomSeed s e = e\<lparr>RandSeed := s\<rparr>"

definition Random :: "int \<Rightarrow> Engine \<Rightarrow> int \<times> Engine" where
  "Random bound e =
     (let seed = u32 (RandSeed e * 134775813 + 1)
      in (i16 (u32 ((seed div 65536) * u32 bound) div 65536), e\<lparr>RandSeed := seed\<rparr>))"

definition Sqr :: "int \<Rightarrow> int" where
  "Sqr n = i16 (n * n)"

definition BoolToInt :: "bool \<Rightarrow> int" where
  "BoolToInt b = (if b then 1 else 0)"

definition Signum :: "int \<Rightarrow> int" where
  "Signum val = (if val > 0 then 1 else if val < 0 then -1 else 0)"

definition Difference :: "int \<Rightarrow> int \<Rightarrow> int" where
  "Difference a b = (if i16 (a - b) \<ge> 0 then i16 (a - b) else i16 (b - a))"

definition absInt16 :: "int \<Rightarrow> int" where
  "absInt16 v = (if v < 0 then i16 (- v) else v)"

section \<open>Constant arrays\<close>

definition ColorNames :: "string list" where
  "ColorNames = [''Blue'', ''Green'', ''Cyan'', ''Red'', ''Purple'', ''Yellow'', ''White'']"

definition DiagonalDeltaX :: "int list" where
  "DiagonalDeltaX = [-1, 0, 1, 1, 1, 0, -1, -1]"

definition DiagonalDeltaY :: "int list" where
  "DiagonalDeltaY = [1, 1, 1, 0, -1, -1, -1, 0]"

definition NeighborDeltaX :: "int list" where
  "NeighborDeltaX = [0, 0, -1, 1]"

definition NeighborDeltaY :: "int list" where
  "NeighborDeltaY = [-1, 1, 0, 0]"

definition LineChars :: "int list" where
  "LineChars = [249, 208, 210, 186, 181, 188, 187, 185, 198, 200, 201, 204, 205, 202, 203, 206]"

definition TileBorder :: TTile where
  "TileBorder = \<lparr>Element = E_NORMAL, Color = 14\<rparr>"

definition TileBoardEdge :: TTile where
  "TileBoardEdge = \<lparr>Element = E_BOARD_EDGE, Color = 0\<rparr>"

definition StatTemplateDefault :: TStat where
  "StatTemplateDefault =
     \<lparr>sX = 0, sY = 0, StepX = 0, StepY = 0, sCycle = 0, P1 = 0, P2 = 0, P3 = 0,
      Follower = -1, Leader = -1, Under = \<lparr>Element = 0, Color = 0\<rparr>, Data = [],
      DataPos = 0, DataLen = 0\<rparr>"

section \<open>Lemmas\<close>

lemma length_UpCaseString [simp]: "length (UpCaseString s) = length s"
  by (simp add: UpCaseString_def)

lemma UpCase_idem [simp]: "UpCase (UpCase c) = UpCase c"
proof -
  have "ord CHR ''a'' = 97" "ord CHR ''z'' = 122" by (simp_all add: ord_def)
  then show ?thesis by (auto simp: UpCase_def)
qed

lemma UpCaseString_idem: "UpCaseString (UpCaseString s) = UpCaseString s"
  by (simp add: UpCaseString_def comp_def)

text \<open>The generator stays in range: for a positive bound the draw is below it.\<close>

lemma Random_range:
  assumes "0 < n" and "n \<le> 32767"
  shows "0 \<le> fst (Random n e) \<and> fst (Random n e) < n"
proof -
  define h where "h = u32 (RandSeed e * 134775813 + 1) div 65536"
  have h: "0 \<le> h" "h \<le> 65535"
    by (simp_all add: h_def u32_def pos_imp_zdiv_nonneg_iff)
  have n: "u32 n = n" using assms by (simp add: u32_def)
  have hn: "h * n \<le> 65535 * n" using h assms by (intro mult_right_mono) auto
  have "0 \<le> h * n" using h assms by simp
  have "h * n < 4294967296" using hn assms(2) by linarith
  with \<open>0 \<le> h * n\<close> have hn': "u32 (h * n) = h * n" by (simp add: u32_def)
  have lo: "0 \<le> h * n div 65536" using \<open>0 \<le> h * n\<close> by (simp add: pos_imp_zdiv_nonneg_iff)
  have "h * n < n * 65536" using hn assms by simp
  moreover have "65536 * (h * n div 65536) \<le> h * n" by linarith
  ultimately have hi: "h * n div 65536 < n" by linarith
  have "fst (Random n e) = i16 (h * n div 65536)"
    using n hn' by (simp add: Random_def Let_def h_def)
  also have "\<dots> = h * n div 65536" using lo hi assms by simp
  finally show ?thesis using lo hi by simp
qed

lemma Random_frame: "snd (Random n e) = e\<lparr>RandSeed := RandSeed (snd (Random n e))\<rparr>"
  by (simp add: Random_def Let_def)

lemma Signum_range: "Signum v \<in> {-1, 0, 1}"
  by (simp add: Signum_def)

lemma Length_small: "length s \<le> 32767 \<Longrightarrow> Length s = int (length s)"
  by (simp add: Length_def)

end
