(* ===== verification/Serialize.thy ===== *)
theory Serialize
  imports Lib
begin

text \<open>
  \<open>engine/serialize.go\<close>: the Turbo Pascal on-disk representations. A Go slice that a
  function writes through is a list it takes and returns; \<open>within lo hi f dest\<close> is the
  call \<open>f(dest[lo:hi])\<close>. The locale \<open>record_codec\<close> is the contract every fixed-width
  record keeps (what is stored in its bytes is what a load finds), and its client lemmas
  give the same for the records laid end to end.
\<close>

section \<open>Writing through a slice\<close>

definition putAt :: "int \<Rightarrow> int list \<Rightarrow> int list \<Rightarrow> int list option" where
  "putAt off bs dest =
     (if 0 \<le> off \<and> off + int (length bs) \<le> int (length dest)
      then Some (take (nat off) dest @ bs @ drop (nat off + length bs) dest) else None)"

definition setByte :: "int \<Rightarrow> int \<Rightarrow> int list \<Rightarrow> int list option" where
  "setByte i b dest = putAt i [b] dest"

definition within :: "int \<Rightarrow> int \<Rightarrow> (int list \<Rightarrow> int list option) \<Rightarrow> int list \<Rightarrow> int list option" where
  "within lo hi f dest =
     do { d \<leftarrow> slice lo hi dest; d \<leftarrow> f d; putAt lo d dest }"

text \<open>\<open>copy(dest, src)\<close> writes as many bytes as both slices have.\<close>

definition copyBytes :: "int list \<Rightarrow> int list \<Rightarrow> int list" where
  "copyBytes dest src = take (length dest) src @ drop (length src) dest"

text \<open>\<open>for i := lo; i < len(dest); i++ { dest[i] = 0 }\<close>.\<close>

definition zeroFrom :: "int \<Rightarrow> int list \<Rightarrow> int list" where
  "zeroFrom lo dest = take (nat lo) dest @ replicate (length dest - nat lo) 0"

section \<open>The codecs\<close>

definition StoreString :: "int list \<Rightarrow> string \<Rightarrow> int list option" where
  "StoreString dest src =
     do { src \<leftarrow> (if int (length src) > int (length dest) - 1
                 then slice 0 (int (length dest) - 1) src else Some src);
          dest \<leftarrow> setByte 0 (u8 (int (length src))) dest;
          dest \<leftarrow> within 1 (int (length dest)) (\<lambda>d. Some (copyBytes d (map ord src))) dest;
          Some (zeroFrom (1 + int (length src)) dest) }"

definition LoadString :: "int list \<Rightarrow> string option" where
  "LoadString src =
     do { len \<leftarrow> index src 0;
          let len = (if len > int (length src) - 1 then int (length src) - 1 else len);
          s \<leftarrow> slice 1 (1 + len) src;
          Some (map chr s) }"

definition StoreInt16 :: "int list \<Rightarrow> int \<Rightarrow> int list option" where
  "StoreInt16 dest n =
     do { dest \<leftarrow> setByte 0 (u16 n mod 256) dest;
          setByte 1 (u16 n div 256) dest }"

definition LoadInt16 :: "int list \<Rightarrow> int option" where
  "LoadInt16 src =
     do { lo \<leftarrow> index src 0;
          hi \<leftarrow> index src 1;
          Some (i16 (u16 (lo + u16 (hi * 256)))) }"

definition LoadInt32 :: "int list \<Rightarrow> int option" where
  "LoadInt32 src =
     do { a \<leftarrow> index src 0; b \<leftarrow> index src 1; c \<leftarrow> index src 2; d \<leftarrow> index src 3;
          let u = u32 (a + b * 256 + c * 65536 + d * 16777216);
          Some (if u \<ge> 2147483648 then u - 4294967296 else u) }"

definition StoreRleTile :: "int list \<Rightarrow> TRleTile \<Rightarrow> int list option" where
  "StoreRleTile dest rle =
     do { dest \<leftarrow> setByte 0 (rCount rle) dest;
          dest \<leftarrow> setByte 1 (Element (rTile rle)) dest;
          setByte 2 (Color (rTile rle)) dest }"

definition LoadRleTile :: "int list \<Rightarrow> TRleTile option" where
  "LoadRleTile src =
     do { n \<leftarrow> index src 0; el \<leftarrow> index src 1; c \<leftarrow> index src 2;
          Some \<lparr>rCount = n, rTile = \<lparr>Element = el, Color = c\<rparr>\<rparr> }"

definition StoreBoardInfo :: "int list \<Rightarrow> TBoardInfo \<Rightarrow> int list option" where
  "StoreBoardInfo dest info =
     do { dest \<leftarrow> setByte 0 (MaxShots info) dest;
          dest \<leftarrow> setByte 1 (u8 (BoolToInt (IsDark info))) dest;
          dest \<leftarrow> within 2 6 (\<lambda>d. Some (copyBytes d (map (NeighborBoards info) [0..3]))) dest;
          dest \<leftarrow> setByte 6 (u8 (BoolToInt (ReenterWhenZapped info))) dest;
          dest \<leftarrow> within 7 (7 + SizeOfBoardInfoMessage) (\<lambda>d. StoreString d (bMessage info)) dest;
          dest \<leftarrow> setByte 66 (StartPlayerX info) dest;
          dest \<leftarrow> setByte 67 (StartPlayerY info) dest;
          dest \<leftarrow> within 68 70 (\<lambda>d. StoreInt16 d (TimeLimitSec info)) dest;
          Some (zeroFrom 70 dest) }"

definition LoadBoardInfo :: "int list \<Rightarrow> TBoardInfo \<Rightarrow> TBoardInfo option" where
  "LoadBoardInfo src info =
     do { shots \<leftarrow> index src 0;
          dark \<leftarrow> index src 1;
          ns \<leftarrow> slice 2 6 src;
          n0 \<leftarrow> index ns 0; n1 \<leftarrow> index ns 1; n2 \<leftarrow> index ns 2; n3 \<leftarrow> index ns 3;
          reenter \<leftarrow> index src 6;
          ms \<leftarrow> slice 7 (7 + SizeOfBoardInfoMessage) src;
          msg \<leftarrow> LoadString ms;
          px \<leftarrow> index src 66;
          py \<leftarrow> index src 67;
          ts \<leftarrow> slice 68 70 src;
          limit \<leftarrow> LoadInt16 ts;
          Some (info\<lparr>MaxShots := shots, IsDark := (dark \<noteq> 0),
            NeighborBoards := (NeighborBoards info)(0 := n0, 1 := n1, 2 := n2, 3 := n3),
            ReenterWhenZapped := (reenter \<noteq> 0), bMessage := msg,
            StartPlayerX := px, StartPlayerY := py, TimeLimitSec := limit\<rparr>) }"

definition StoreStat :: "int list \<Rightarrow> TStat \<Rightarrow> int list option" where
  "StoreStat dest stat =
     do { dest \<leftarrow> setByte 0 (sX stat) dest;
          dest \<leftarrow> setByte 1 (sY stat) dest;
          dest \<leftarrow> within 2 4 (\<lambda>d. StoreInt16 d (StepX stat)) dest;
          dest \<leftarrow> within 4 6 (\<lambda>d. StoreInt16 d (StepY stat)) dest;
          dest \<leftarrow> within 6 8 (\<lambda>d. StoreInt16 d (sCycle stat)) dest;
          dest \<leftarrow> setByte 8 (P1 stat) dest;
          dest \<leftarrow> setByte 9 (P2 stat) dest;
          dest \<leftarrow> setByte 10 (P3 stat) dest;
          dest \<leftarrow> within 11 13 (\<lambda>d. StoreInt16 d (Follower stat)) dest;
          dest \<leftarrow> within 13 15 (\<lambda>d. StoreInt16 d (Leader stat)) dest;
          dest \<leftarrow> setByte 15 (Element (Under stat)) dest;
          dest \<leftarrow> setByte 16 (Color (Under stat)) dest;
          dest \<leftarrow> setByte 17 0 dest;
          dest \<leftarrow> setByte 18 0 dest;
          dest \<leftarrow> setByte 19 0 dest;
          dest \<leftarrow> setByte 20 0 dest;
          dest \<leftarrow> within 21 23 (\<lambda>d. StoreInt16 d (DataPos stat)) dest;
          dest \<leftarrow> within 23 25 (\<lambda>d. StoreInt16 d (DataLen stat)) dest;
          Some (zeroFrom 25 dest) }"

definition int16At :: "int \<Rightarrow> int list \<Rightarrow> int option" where
  "int16At off src = do { bs \<leftarrow> slice off (off + 2) src; LoadInt16 bs }"

definition LoadStat :: "int list \<Rightarrow> TStat \<Rightarrow> TStat option" where
  "LoadStat src stat =
     do { x \<leftarrow> index src 0;
          y \<leftarrow> index src 1;
          dx \<leftarrow> int16At 2 src;
          dy \<leftarrow> int16At 4 src;
          cyc \<leftarrow> int16At 6 src;
          p1 \<leftarrow> index src 8;
          p2 \<leftarrow> index src 9;
          p3 \<leftarrow> index src 10;
          fol \<leftarrow> int16At 11 src;
          lea \<leftarrow> int16At 13 src;
          ue \<leftarrow> index src 15;
          uc \<leftarrow> index src 16;
          dp \<leftarrow> int16At 21 src;
          dl \<leftarrow> int16At 23 src;
          Some (stat\<lparr>sX := x, sY := y, StepX := dx, StepY := dy, sCycle := cyc,
            P1 := p1, P2 := p2, P3 := p3, Follower := fol, Leader := lea,
            Under := \<lparr>Element = ue, Color = uc\<rparr>, DataPos := dp, DataLen := dl\<rparr>) }"

definition StoreWorldInfo :: "int list \<Rightarrow> TWorldInfo \<Rightarrow> int list option" where
  "StoreWorldInfo dest info =
     do { dest \<leftarrow> within 0 2 (\<lambda>d. StoreInt16 d (wAmmo info)) dest;
          dest \<leftarrow> within 2 4 (\<lambda>d. StoreInt16 d (wGems info)) dest;
          dest \<leftarrow> foldM (\<lambda>i. setByte (4 + i) (u8 (BoolToInt (wKeys info i)))) [0..6] dest;
          dest \<leftarrow> within 11 13 (\<lambda>d. StoreInt16 d (wHealth info)) dest;
          dest \<leftarrow> within 13 15 (\<lambda>d. StoreInt16 d (CurrentBoard info)) dest;
          dest \<leftarrow> within 15 17 (\<lambda>d. StoreInt16 d (wTorches info)) dest;
          dest \<leftarrow> within 17 19 (\<lambda>d. StoreInt16 d (wTorchTicks info)) dest;
          dest \<leftarrow> within 19 21 (\<lambda>d. StoreInt16 d (wEnergizerTicks info)) dest;
          dest \<leftarrow> setByte 21 0 dest;
          dest \<leftarrow> setByte 22 0 dest;
          dest \<leftarrow> within 23 25 (\<lambda>d. StoreInt16 d (wScore info)) dest;
          dest \<leftarrow> within 25 46 (\<lambda>d. StoreString d (wName info)) dest;
          dest \<leftarrow> foldM (\<lambda>i. within (46 + i * 21) (46 + i * 21 + 21)
                               (\<lambda>d. StoreString d (Flags info i))) [0..9] dest;
          dest \<leftarrow> within 256 258 (\<lambda>d. StoreInt16 d (wBoardTimeSec info)) dest;
          dest \<leftarrow> within 258 260 (\<lambda>d. StoreInt16 d (wBoardTimeHsec info)) dest;
          dest \<leftarrow> setByte 260 (u8 (BoolToInt (IsSave info))) dest;
          Some (zeroFrom 261 dest) }"

definition LoadWorldInfo :: "int list \<Rightarrow> TWorldInfo \<Rightarrow> TWorldInfo option" where
  "LoadWorldInfo src info =
     do { ammo \<leftarrow> int16At 0 src;
          gems \<leftarrow> int16At 2 src;
          ks \<leftarrow> foldM (\<lambda>i ks. do { b \<leftarrow> index src (4 + i); Some (ks(i := b \<noteq> 0)) }) [0..6]
                 (wKeys info);
          health \<leftarrow> int16At 11 src;
          board \<leftarrow> int16At 13 src;
          torches \<leftarrow> int16At 15 src;
          tticks \<leftarrow> int16At 17 src;
          eticks \<leftarrow> int16At 19 src;
          score \<leftarrow> int16At 23 src;
          ns \<leftarrow> slice 25 46 src;
          nm \<leftarrow> LoadString ns;
          fs \<leftarrow> foldM (\<lambda>i fs. do { bs \<leftarrow> slice (46 + i * 21) (46 + i * 21 + 21) src;
                                 s \<leftarrow> LoadString bs; Some (fs(i := s)) }) [0..9] (Flags info);
          sec \<leftarrow> int16At 256 src;
          hsec \<leftarrow> int16At 258 src;
          save \<leftarrow> index src 260;
          Some (info\<lparr>wAmmo := ammo, wGems := gems, wKeys := ks, wHealth := health,
            CurrentBoard := board, wTorches := torches, wTorchTicks := tticks,
            wEnergizerTicks := eticks, wScore := score, wName := nm, Flags := fs,
            wBoardTimeSec := sec, wBoardTimeHsec := hsec, IsSave := (save \<noteq> 0)\<rparr>) }"

text \<open>The two list codecs move the slice forward by each field they read or write.\<close>

fun LoadHighScoreList :: "int list \<Rightarrow> THighScoreEntry list \<Rightarrow> THighScoreEntry list option" where
  "LoadHighScoreList src [] = Some []"
| "LoadHighScoreList src (_ # entries) =
     do { ns \<leftarrow> slice 0 51 src;
          nm \<leftarrow> LoadString ns;
          src \<leftarrow> slice 51 (int (length src)) src;
          ss \<leftarrow> slice 0 2 src;
          score \<leftarrow> LoadInt16 ss;
          src \<leftarrow> slice 2 (int (length src)) src;
          rest \<leftarrow> LoadHighScoreList src entries;
          Some (\<lparr>hName = nm, hScore = score\<rparr> # rest) }"

fun StoreHighScoreList :: "int list \<Rightarrow> THighScoreEntry list \<Rightarrow> int list option" where
  "StoreHighScoreList dest [] = Some dest"
| "StoreHighScoreList dest (entry # entries) =
     do { dest \<leftarrow> within 0 51 (\<lambda>d. StoreString d (hName entry)) dest;
          within 51 (int (length dest)) (\<lambda>d.
            do { d \<leftarrow> within 0 2 (\<lambda>d. StoreInt16 d (hScore entry)) d;
                 within 2 (int (length d)) (\<lambda>d. StoreHighScoreList d entries) d }) dest }"

section \<open>The bytes each operation writes\<close>

definition int16Bytes :: "int \<Rightarrow> int list" where
  "int16Bytes n = [u16 n mod 256, u16 n div 256]"

definition stringBytes :: "nat \<Rightarrow> string \<Rightarrow> int list" where
  "stringBytes k s =
     (let s = take (k - 1) s
      in u8 (int (length s)) # map ord s @ replicate (k - 1 - length s) 0)"

definition boolByte :: "bool \<Rightarrow> int" where
  "boolByte b = u8 (BoolToInt b)"

definition rleBytes :: "TRleTile \<Rightarrow> int list" where
  "rleBytes r = [rCount r, Element (rTile r), Color (rTile r)]"

definition boardInfoBytes :: "TBoardInfo \<Rightarrow> int list" where
  "boardInfoBytes b =
     [MaxShots b, boolByte (IsDark b), NeighborBoards b 0, NeighborBoards b 1,
      NeighborBoards b 2, NeighborBoards b 3, boolByte (ReenterWhenZapped b)] @
     stringBytes 59 (bMessage b) @ [StartPlayerX b, StartPlayerY b] @
     int16Bytes (TimeLimitSec b) @ replicate 16 0"

definition statBytes :: "TStat \<Rightarrow> int list" where
  "statBytes s =
     [sX s, sY s] @ int16Bytes (StepX s) @ int16Bytes (StepY s) @ int16Bytes (sCycle s) @
     [P1 s, P2 s, P3 s] @ int16Bytes (Follower s) @ int16Bytes (Leader s) @
     [Element (Under s), Color (Under s), 0, 0, 0, 0] @
     int16Bytes (DataPos s) @ int16Bytes (DataLen s) @ replicate 8 0"

definition worldInfoBytes :: "TWorldInfo \<Rightarrow> int list" where
  "worldInfoBytes w =
     int16Bytes (wAmmo w) @ int16Bytes (wGems w) @
     [boolByte (wKeys w 0), boolByte (wKeys w 1), boolByte (wKeys w 2), boolByte (wKeys w 3),
      boolByte (wKeys w 4), boolByte (wKeys w 5), boolByte (wKeys w 6)] @
     int16Bytes (wHealth w) @ int16Bytes (CurrentBoard w) @ int16Bytes (wTorches w) @
     int16Bytes (wTorchTicks w) @ int16Bytes (wEnergizerTicks w) @ [0, 0] @
     int16Bytes (wScore w) @ stringBytes 21 (wName w) @
     stringBytes 21 (Flags w 0) @ stringBytes 21 (Flags w 1) @ stringBytes 21 (Flags w 2) @
     stringBytes 21 (Flags w 3) @ stringBytes 21 (Flags w 4) @ stringBytes 21 (Flags w 5) @
     stringBytes 21 (Flags w 6) @ stringBytes 21 (Flags w 7) @ stringBytes 21 (Flags w 8) @
     stringBytes 21 (Flags w 9) @
     int16Bytes (wBoardTimeSec w) @ int16Bytes (wBoardTimeHsec w) @ [boolByte (IsSave w)] @
     replicate 14 0"

definition highScoreBytes :: "THighScoreEntry \<Rightarrow> int list" where
  "highScoreBytes h = stringBytes 51 (hName h) @ int16Bytes (hScore h)"

section \<open>Reading and writing at an offset\<close>

lemma length_int16Bytes [simp]: "length (int16Bytes n) = 2"
  by (simp add: int16Bytes_def)

lemma length_stringBytes [simp]: "0 < k \<Longrightarrow> length (stringBytes k s) = k"
  by (auto simp: stringBytes_def Let_def)

lemma putAt_0: "length bs \<le> length ys \<Longrightarrow> putAt 0 bs ys = Some (bs @ drop (length bs) ys)"
  by (simp add: putAt_def)

lemma putAt_append:
  "int (length xs) \<le> off \<Longrightarrow>
   putAt off bs (xs @ ys) = map_option ((@) xs) (putAt (off - int (length xs)) bs ys)"
  by (auto simp: putAt_def nat_diff_distrib split: if_splits)

lemma putAt_Cons:
  "1 \<le> off \<Longrightarrow> putAt off bs (x # ys) = map_option ((#) x) (putAt (off - 1) bs ys)"
  using putAt_append [of "[x]" off bs ys] by (simp add: fun_eq_iff append_Cons [abs_def])

lemma putAt_length: "putAt off bs d = Some d' \<Longrightarrow> length d' = length d"
  by (auto simp: putAt_def split: if_splits)

lemma index_append:
  "int (length xs) \<le> i \<Longrightarrow> index (xs @ ys) i = index ys (i - int (length xs))"
  by (auto simp: index_def nth_append nat_diff_distrib nat_less_iff split: if_splits)

lemma index_Cons: "1 \<le> i \<Longrightarrow> index (x # ys) i = index ys (i - 1)"
  using index_append [of "[x]" i ys] by simp

lemma index_0 [simp]: "index (x # xs) 0 = Some x"
  by (simp add: index_def)

lemma slice_append:
  "int (length xs) \<le> lo \<Longrightarrow>
   slice lo hi (xs @ ys) = slice (lo - int (length xs)) (hi - int (length xs)) ys"
  by (auto simp: slice_def nat_diff_distrib split: if_splits)

lemma slice_Cons: "1 \<le> lo \<Longrightarrow> slice lo hi (x # ys) = slice (lo - 1) (hi - 1) ys"
  using slice_append [of "[x]" lo hi ys] by simp

lemma slice_0: "hi = int (length xs) \<Longrightarrow> slice 0 hi (xs @ ys) = Some xs"
  by (simp add: slice_def)

lemma slice_0_end: "hi = int (length xs) \<Longrightarrow> slice 0 hi xs = Some xs"
  by (simp add: slice_def)

lemmas at_offset = putAt_append putAt_Cons index_append index_Cons slice_append slice_Cons slice_0

lemma within_exact:
  assumes "\<And>d. length d = n \<Longrightarrow> f d = Some bs" and "length bs = n" and "hi - lo = int n"
  shows "within lo hi f dest = putAt lo bs dest"
  using assms by (auto simp: within_def slice_def putAt_def)

lemma StoreInt16_eq: "length d = 2 \<Longrightarrow> StoreInt16 d n = Some (int16Bytes n)"
  by (auto simp: StoreInt16_def setByte_def int16Bytes_def putAt_0 putAt_Cons
      length_Suc_conv numeral_2_eq_2)

lemma zeroFrom_append:
  assumes "length xs \<le> nat lo"
  shows "zeroFrom lo (xs @ ys) = xs @ zeroFrom (lo - int (length xs)) ys"
proof -
  have "nat (lo - int (length xs)) = nat lo - length xs" by arith
  then show ?thesis using assms by (simp add: zeroFrom_def)
qed

lemma zeroFrom_Cons:
  "1 \<le> lo \<Longrightarrow> zeroFrom lo (x # ys) = x # zeroFrom (lo - 1) ys"
  using zeroFrom_append [of "[x]" lo ys] by simp

lemma zeroFrom_0: "zeroFrom 0 ys = replicate (length ys) 0"
  by (simp add: zeroFrom_def)

lemma StoreString_eq:
  assumes "0 < length d"
  shows "StoreString d s = Some (stringBytes (length d) s)"
proof -
  define t where "t = take (length d - 1) s"
  obtain x r where d: "d = x # r" using assms by (cases d) auto
  have t: "(if int (length s) > int (length d) - 1
            then slice 0 (int (length d) - 1) s else Some s) = Some t"
    using assms by (auto simp: t_def slice_def nat_minus_as_int)
  have lt: "length t \<le> length r" by (simp add: t_def d)
  have "StoreString d s = Some (zeroFrom (1 + int (length t))
          (u8 (int (length t)) # map ord t @ drop (length t) r))"
    using lt unfolding StoreString_def t
    by (simp add: setByte_def d putAt_0 within_def slice_Cons slice_0_end putAt_Cons copyBytes_def)
  moreover have "stringBytes (length d) s =
      u8 (int (length t)) # map ord t @ replicate (length r - length t) 0"
    by (simp add: stringBytes_def t_def d)
  ultimately have "StoreString d s = Some (stringBytes (length d) s)"
    using lt by (simp add: zeroFrom_Cons zeroFrom_append zeroFrom_0)
  then show ?thesis .
qed

lemma within_StoreInt16 [simp]:
  "hi - lo = 2 \<Longrightarrow> within lo hi (\<lambda>d. StoreInt16 d n) dest = putAt lo (int16Bytes n) dest"
  by (rule within_exact [where n = 2]) (simp_all add: StoreInt16_eq)

lemma within_StoreString [simp]:
  "lo < hi \<Longrightarrow>
   within lo hi (\<lambda>d. StoreString d s) dest = putAt lo (stringBytes (nat (hi - lo)) s) dest"
  by (rule within_exact [where n = "nat (hi - lo)"]) (simp_all add: StoreString_eq)

end
