(* ===== verification/Codec.thy ===== *)
theory Codec
  imports Serialize
begin

text \<open>
  The codecs of \<open>Serialize\<close> proved: what each store writes, that each load inverts it, and
  the locale \<open>record_codec\<close> with the laws a fixed-width record keeps and their consequence
  for records laid end to end.
\<close>

section \<open>Fields\<close>

lemma u16_i16 [simp]: "i16 (u16 n) = i16 n"
  unfolding i16_def u16_def by presburger

lemma LoadInt16_bytes [simp]: "LoadInt16 (int16Bytes n) = Some (i16 n)"
proof -
  have "0 \<le> u16 n" "u16 n < 65536" by (simp_all add: u16_def)
  then have "0 \<le> u16 n div 256 * 256" "u16 n div 256 * 256 < 65536" by presburger+
  then have "u16 (u16 n div 256 * 256) = u16 n div 256 * 256" by (simp add: u16_def)
  then show ?thesis
    by (simp add: LoadInt16_def int16Bytes_def index_Cons)
qed

lemma LoadString_bytes:
  assumes "0 < k" and "k \<le> 256"
  shows "LoadString (stringBytes k s) = Some (take (k - 1) s)"
proof -
  define t where "t = take (k - Suc 0) s"
  have t: "length t \<le> k - 1" "length t \<le> 255" using assms by (auto simp: t_def)
  have m: "map (chr \<circ> ord) t = t" by (rule map_idI) simp
  have "stringBytes k s = int (length t) # map ord t @ replicate (k - 1 - length t) 0"
    using t by (simp add: stringBytes_def t_def)
  then show ?thesis
    using t by (simp add: LoadString_def slice_Cons slice_0 Let_def m flip: t_def)
qed

definition fits :: "nat \<Rightarrow> string \<Rightarrow> bool" where
  "fits k s \<longleftrightarrow> length s \<le> k"

lemma LoadString_fits [simp]:
  "fits (k - 1) s \<Longrightarrow> 0 < k \<Longrightarrow> k \<le> 256 \<Longrightarrow> LoadString (stringBytes k s) = Some s"
  by (simp add: LoadString_bytes fits_def)

lemma boolByte_neq_0 [simp]: "boolByte b \<noteq> 0 \<longleftrightarrow> b" "boolByte b = 0 \<longleftrightarrow> \<not> b"
  by (simp_all add: boolByte_def BoolToInt_def)

lemmas store_simps = setByte_def putAt_0 at_offset zeroFrom_append zeroFrom_Cons zeroFrom_0
  boolByte_def [symmetric]

section \<open>Stores\<close>

lemma StoreRleTile_eq: "length d = 3 \<Longrightarrow> StoreRleTile d r = Some (rleBytes r)"
  by (simp add: StoreRleTile_def rleBytes_def store_simps)

lemma StoreStat_eq: "length d = 33 \<Longrightarrow> StoreStat d s = Some (statBytes s)"
  by (simp add: StoreStat_def statBytes_def store_simps)

lemma StoreBoardInfo_eq: 
  assumes "length d = 86"
  shows "StoreBoardInfo d b = Some (boardInfoBytes b)"
proof -
  have "within 2 6 (\<lambda>d. Some (copyBytes d (map (NeighborBoards b) [0..3]))) d =
        putAt 2 (map (NeighborBoards b) [0..3]) d" for d
    by (rule within_exact [where n = 4]) (simp_all add: copyBytes_def)
  then show ?thesis
    using assms by (simp add: StoreBoardInfo_def boardInfoBytes_def store_simps)
qed

lemma StoreWorldInfo_eq: "length d = 275 \<Longrightarrow> StoreWorldInfo d w = Some (worldInfoBytes w)"
  by (simp add: StoreWorldInfo_def worldInfoBytes_def store_simps)

section \<open>Loads\<close>

lemmas load_simps = at_offset index_0 slice_0_end int16At_def

lemma LoadRleTile_bytes: "LoadRleTile (rleBytes r) = Some r"
  by (simp add: LoadRleTile_def rleBytes_def load_simps)

definition validStat :: "TStat \<Rightarrow> bool" where
  "validStat s \<longleftrightarrow>
     is_i16 (StepX s) \<and> is_i16 (StepY s) \<and> is_i16 (sCycle s) \<and> is_i16 (Follower s) \<and>
     is_i16 (Leader s) \<and> is_i16 (DataPos s) \<and> is_i16 (DataLen s)"

lemma LoadStat_bytes:
  "validStat s \<Longrightarrow> LoadStat (statBytes s) old = Some (s\<lparr>Data := Data old\<rparr>)"
  by (simp add: LoadStat_def statBytes_def load_simps validStat_def)

definition validBoardInfo :: "TBoardInfo \<Rightarrow> bool" where
  "validBoardInfo b \<longleftrightarrow> fits 58 (bMessage b) \<and> is_i16 (TimeLimitSec b)"

definition mergeBoardInfo :: "TBoardInfo \<Rightarrow> TBoardInfo \<Rightarrow> TBoardInfo" where
  "mergeBoardInfo old b =
     b\<lparr>NeighborBoards := (\<lambda>i. if 0 \<le> i \<and> i \<le> 3 then NeighborBoards b i else NeighborBoards old i)\<rparr>"

lemma LoadBoardInfo_bytes:
  assumes "validBoardInfo b"
  shows "LoadBoardInfo (boardInfoBytes b) old = Some (mergeBoardInfo old b)"
proof -
  have "(NeighborBoards old)(0 := NeighborBoards b 0, 1 := NeighborBoards b 1,
          2 := NeighborBoards b 2, 3 := NeighborBoards b 3) =
        (\<lambda>i. if 0 \<le> i \<and> i \<le> 3 then NeighborBoards b i else NeighborBoards old i)"
    by (rule ext) auto
  moreover have "slice 2 6 (x0 # x1 # x2 # x3 # x4 # x5 # xs) = Some [x2, x3, x4, x5]"
    for x0 x1 x2 x3 x4 x5 :: int and xs
    by (simp add: slice_def)
  ultimately show ?thesis
    using assms by (simp add: LoadBoardInfo_def boardInfoBytes_def load_simps validBoardInfo_def
        mergeBoardInfo_def)
qed

definition validWorldInfo :: "TWorldInfo \<Rightarrow> bool" where
  "validWorldInfo w \<longleftrightarrow>
     is_i16 (wAmmo w) \<and> is_i16 (wGems w) \<and> is_i16 (wHealth w) \<and> is_i16 (CurrentBoard w) \<and>
     is_i16 (wTorches w) \<and> is_i16 (wTorchTicks w) \<and> is_i16 (wEnergizerTicks w) \<and>
     is_i16 (wScore w) \<and> is_i16 (wBoardTimeSec w) \<and> is_i16 (wBoardTimeHsec w) \<and>
     fits 20 (wName w) \<and> (\<forall>i\<in>{0..9}. fits 20 (Flags w i))"

definition mergeWorldInfo :: "TWorldInfo \<Rightarrow> TWorldInfo \<Rightarrow> TWorldInfo" where
  "mergeWorldInfo old w =
     w\<lparr>wKeys := (\<lambda>i. if 0 \<le> i \<and> i \<le> 6 then wKeys w i else wKeys old i),
       Flags := (\<lambda>i. if 0 \<le> i \<and> i \<le> 9 then Flags w i else Flags old i)\<rparr>"

lemma int_0_9:
  "0 \<le> i \<Longrightarrow> i \<le> 9 \<Longrightarrow> i = 0 \<or> i = 1 \<or> i = 2 \<or> i = 3 \<or> i = 4 \<or> i = 5 \<or> i = 6 \<or> i = 7 \<or>
     i = 8 \<or> i = 9" for i :: int
  by presburger

lemma LoadWorldInfo_bytes:
  assumes "validWorldInfo w"
  shows "LoadWorldInfo (worldInfoBytes w) old = Some (mergeWorldInfo old w)"
proof -
  have "(wKeys old)(0 := wKeys w 0, 1 := wKeys w 1, 2 := wKeys w 2, 3 := wKeys w 3,
          4 := wKeys w 4, 5 := wKeys w 5, 6 := wKeys w 6) =
        (\<lambda>i. if 0 \<le> i \<and> i \<le> 6 then wKeys w i else wKeys old i)"
    by (rule ext) auto
  moreover have "(Flags old)(0 := Flags w 0, 1 := Flags w 1, 2 := Flags w 2, 3 := Flags w 3,
          4 := Flags w 4, 5 := Flags w 5, 6 := Flags w 6, 7 := Flags w 7, 8 := Flags w 8,
          9 := Flags w 9) =
        (\<lambda>i. if 0 \<le> i \<and> i \<le> 9 then Flags w i else Flags old i)"
  proof (rule ext, goal_cases)
    case (1 i)
    show ?case using int_0_9 [of i] by (cases "0 \<le> i \<and> i \<le> 9") (auto simp del: fun_upd_apply simp: fun_upd_def)
  qed
  ultimately show ?thesis
    using assms by (simp add: LoadWorldInfo_def worldInfoBytes_def load_simps validWorldInfo_def
        mergeWorldInfo_def)
qed

section \<open>The contract of a fixed-width record\<close>

locale record_codec =
  fixes size :: nat
    and store :: "int list \<Rightarrow> 'a \<Rightarrow> int list option"
    and bytes :: "'a \<Rightarrow> int list"
    and load :: "int list \<Rightarrow> 'a \<Rightarrow> 'a option"
    and valid :: "'a \<Rightarrow> bool"
    and merge :: "'a \<Rightarrow> 'a \<Rightarrow> 'a"
  assumes store_bytes: "length d = size \<Longrightarrow> store d x = Some (bytes x)"
    and length_bytes: "length (bytes x) = size"
    and load_bytes: "valid x \<Longrightarrow> load (bytes x) old = Some (merge old x)"
begin

lemma roundtrip:
  assumes "length d = size" and "valid x"
  shows "do { bs \<leftarrow> store d x; load bs old } = Some (merge old x)"
  using assms by (simp add: store_bytes load_bytes)

text \<open>A record stored at a cursor inside a buffer, and the same record read back from there.\<close>

lemma store_at:
  assumes "hi = lo + int size"
  shows "within lo hi (\<lambda>d. store d x) dest = putAt lo (bytes x) dest"
  using assms by (intro within_exact [where n = size]) (simp_all add: store_bytes length_bytes)

lemma store_cursor:
  assumes "lo = int (length p)" and "hi = lo + int size" and "size \<le> length q"
  shows "within lo hi (\<lambda>d. store d x) (p @ q) = Some (p @ bytes x @ drop size q)"
  using assms by (simp add: store_at putAt_append putAt_0 length_bytes)

lemma load_cursor:
  assumes "valid x"
  shows "do { bs \<leftarrow> slice 0 (int size) (bytes x @ q); load bs old } = Some (merge old x)"
  using assms by (simp add: slice_0 length_bytes load_bytes)

lemma load_next: "slice (int size) (int (length (bytes x @ q))) (bytes x @ q) = Some q"
  by (simp add: slice_append slice_0_end length_bytes)

end

lemma length_statBytes: "length (statBytes s) = 33"
  by (simp add: statBytes_def)

lemma length_boardInfoBytes: "length (boardInfoBytes b) = 86"
  by (simp add: boardInfoBytes_def)

lemma length_worldInfoBytes: "length (worldInfoBytes w) = 275"
  by (simp add: worldInfoBytes_def)

lemma length_rleBytes: "length (rleBytes r) = 3"
  by (simp add: rleBytes_def)

interpretation rleTile: record_codec 3 StoreRleTile rleBytes "\<lambda>bs _. LoadRleTile bs" "\<lambda>_. True"
  "\<lambda>_ r. r"
  by unfold_locales (simp_all add: StoreRleTile_eq LoadRleTile_bytes length_rleBytes)

interpretation stat: record_codec 33 StoreStat statBytes LoadStat validStat
  "\<lambda>old s. s\<lparr>Data := Data old\<rparr>"
  by unfold_locales (simp_all add: StoreStat_eq LoadStat_bytes length_statBytes)

interpretation boardInfo: record_codec 86 StoreBoardInfo boardInfoBytes LoadBoardInfo
  validBoardInfo mergeBoardInfo
  by unfold_locales (simp_all add: StoreBoardInfo_eq LoadBoardInfo_bytes length_boardInfoBytes)

interpretation worldInfo: record_codec 275 StoreWorldInfo worldInfoBytes LoadWorldInfo
  validWorldInfo mergeWorldInfo
  by unfold_locales (simp_all add: StoreWorldInfo_eq LoadWorldInfo_bytes length_worldInfoBytes)

interpretation int16: record_codec 2 StoreInt16 int16Bytes "\<lambda>bs _. LoadInt16 bs" is_i16 "\<lambda>_ n. n"
  by unfold_locales (simp_all add: StoreInt16_eq)

section \<open>High scores\<close>

definition highScoreListBytes :: "THighScoreEntry list \<Rightarrow> int list" where
  "highScoreListBytes hs = concat (map highScoreBytes hs)"

lemma length_highScoreListBytes [simp]: "length (highScoreListBytes hs) = 53 * length hs"
  by (induction hs) (simp_all add: highScoreListBytes_def highScoreBytes_def)

lemma StoreHighScoreList_eq:
  "length d = 53 * length hs \<Longrightarrow> StoreHighScoreList d hs = Some (highScoreListBytes hs)"
proof (induction hs arbitrary: d)
  case Nil
  then show ?case by (simp add: highScoreListBytes_def)
next
  case (Cons h hs)
  let ?n = "53 * length hs"
  have tail: "within 2 hi (\<lambda>d. StoreHighScoreList d hs) r =
      putAt 2 (highScoreListBytes hs) r" if "length r = ?n + 2" "hi = 2 + 53 * int (length hs)" for r hi
    using that Cons.IH by (intro within_exact [where n = ?n]) simp_all
  have mid: "within 51 hi (\<lambda>d.
            do { d \<leftarrow> within 0 2 (\<lambda>d. StoreInt16 d (hScore h)) d;
                 within 2 (int (length d)) (\<lambda>d. StoreHighScoreList d hs) d }) r =
        putAt 51 (int16Bytes (hScore h) @ highScoreListBytes hs) r"
    if "length r = ?n + 53" "hi = 53 + 53 * int (length hs)" for r hi
    using that by (intro within_exact [where n = "?n + 2"])
      (simp_all add: putAt_0 tail at_offset)
  show ?case
    using Cons.prems by (simp add: mid [simplified] putAt_0 at_offset
        length_highScoreListBytes [unfolded highScoreListBytes_def] highScoreListBytes_def highScoreBytes_def)
qed

definition validHighScore :: "THighScoreEntry \<Rightarrow> bool" where
  "validHighScore h \<longleftrightarrow> fits 50 (hName h) \<and> is_i16 (hScore h)"

lemma LoadHighScoreList_bytes:
  "length old = length hs \<Longrightarrow> list_all validHighScore hs \<Longrightarrow>
   LoadHighScoreList (highScoreListBytes hs @ rest) old = Some hs"
proof (induction hs arbitrary: old)
  case Nil
  then show ?case by (simp add: highScoreListBytes_def)
next
  case (Cons h hs)
  then obtain o' old' where "old = o' # old'" by (cases old) auto
  with Cons show ?case
    by (simp add: highScoreListBytes_def highScoreBytes_def load_simps validHighScore_def)
qed

end
