(* ===== verification/Elements_Table.thy ===== *)
theory Elements_Table
  imports Types
begin

text \<open>
  The element table \<open>ElementDefs\<close> that \<open>initElementDefsTable\<close> (\<open>engine/elements.go\<close>) builds once
  per process. The three procedure fields are method values in Go; here they are names
  (\<open>TickName\<close>, \<open>TouchName\<close>, \<open>DrawName\<close>) that the dispatchers of the later theories
  interpret, so an element's behaviour is still chosen by the table. Every entry starts
  from \<open>ElementDef_default\<close>, the values the initial loop writes, and lists the fields the
  source assigns. Indexing the table with an element above \<open>MAX_ELEMENT\<close> panics.
\<close>

section \<open>Definitions\<close>

datatype TickName =
    DefaultTick
  | MonitorTick
  | PlayerTick
  | LionTick
  | TigerTick
  | CentipedeHeadTick
  | CentipedeSegmentTick
  | BulletTick
  | StarTick
  | ScrollTick
  | DuplicatorTick
  | SpinningGunTick
  | RuffianTick
  | BearTick
  | SlimeTick
  | SharkTick
  | ConveyorCWTick
  | ConveyorCCWTick
  | TransporterTick
  | PusherTick
  | BombTick
  | BlinkWallTick
  | ObjectTick
  | MessageTimerTick

datatype TouchName =
    DefaultTouch
  | WaterTouch
  | ForestTouch
  | DamagingTouch
  | KeyTouch
  | AmmoTouch
  | GemTouch
  | PassageTouch
  | DoorTouch
  | ScrollTouch
  | TorchTouch
  | SlimeTouch
  | PushableTouch
  | TransporterTouch
  | BombTouch
  | EnergizerTouch
  | FakeTouch
  | InvisibleTouch
  | ObjectTouch
  | BoardEdgeTouch

datatype DrawName =
    DefaultDraw
  | StarDraw
  | DuplicatorDraw
  | SpinningGunDraw
  | ConveyorCWDraw
  | ConveyorCCWDraw
  | LineDraw
  | TransporterDraw
  | PusherDraw
  | BombDraw
  | BlinkWallDraw
  | ObjectDraw

record TElementDef =
  Character :: int
  dColor :: int
  Destructible :: bool
  Pushable :: bool
  VisibleInDark :: bool
  PlaceableOnTop :: bool
  Walkable :: bool
  HasDrawProc :: bool
  DrawProc :: DrawName
  dCycle :: int
  TickProc :: TickName
  TouchProc :: TouchName
  EditorCategory :: int
  EditorShortcut :: int
  dName :: string
  CategoryName :: string
  Param1Name :: string
  Param2Name :: string
  ParamBulletTypeName :: string
  ParamBoardName :: string
  ParamDirName :: string
  ParamTextName :: string
  ScoreValue :: int

definition ElementDef_default :: TElementDef where
  "ElementDef_default =
     \<lparr>Character = 32, dColor = COLOR_CHOICE_ON_BLACK, Destructible = False, Pushable = False,
      VisibleInDark = False, PlaceableOnTop = False, Walkable = False, HasDrawProc = False,
      DrawProc = DefaultDraw, dCycle = -1, TickProc = DefaultTick, TouchProc = DefaultTouch,
      EditorCategory = 0, EditorShortcut = 0, dName = [], CategoryName = [], Param1Name = [],
      Param2Name = [], ParamBulletTypeName = [], ParamBoardName = [], ParamDirName = [],
      ParamTextName = [], ScoreValue = 0\<rparr>"

definition ElementDef_0 :: TElementDef where
  "ElementDef_0 = ElementDef_default\<lparr>
      Character := 32, dColor := 112, Pushable := True, Walkable := True, dName := ''Empty''\<rparr>"

definition ElementDef_1 :: TElementDef where
  "ElementDef_1 = ElementDef_default\<lparr>
      TouchProc := BoardEdgeTouch\<rparr>"

definition ElementDef_2 :: TElementDef where
  "ElementDef_2 = ElementDef_default\<lparr>
      TickProc := MessageTimerTick\<rparr>"

definition ElementDef_3 :: TElementDef where
  "ElementDef_3 = ElementDef_default\<lparr>
      Character := 32, dColor := 7, dCycle := 1, TickProc := MonitorTick, dName := ''Monitor''\<rparr>"

definition ElementDef_4 :: TElementDef where
  "ElementDef_4 = ElementDef_default\<lparr>
      Character := 2, dColor := 31, Destructible := True, Pushable := True, VisibleInDark :=
      True, dCycle := 1, TickProc := PlayerTick, EditorCategory := CATEGORY_ITEM,
      EditorShortcut := 90, dName := ''Player'', CategoryName := ''Items:''\<rparr>"

definition ElementDef_5 :: TElementDef where
  "ElementDef_5 = ElementDef_default\<lparr>
      Character := 132, dColor := 3, Pushable := True, TouchProc := AmmoTouch, EditorCategory
      := CATEGORY_ITEM, EditorShortcut := 65, dName := ''Ammo''\<rparr>"

definition ElementDef_6 :: TElementDef where
  "ElementDef_6 = ElementDef_default\<lparr>
      Character := 157, dColor := 6, VisibleInDark := True, TouchProc := TorchTouch,
      EditorCategory := CATEGORY_ITEM, EditorShortcut := 84, dName := ''Torch''\<rparr>"

definition ElementDef_7 :: TElementDef where
  "ElementDef_7 = ElementDef_default\<lparr>
      Character := 4, Pushable := True, TouchProc := GemTouch, Destructible := True,
      EditorCategory := CATEGORY_ITEM, EditorShortcut := 71, dName := ''Gem''\<rparr>"

definition ElementDef_8 :: TElementDef where
  "ElementDef_8 = ElementDef_default\<lparr>
      Character := 12, Pushable := True, TouchProc := KeyTouch, EditorCategory :=
      CATEGORY_ITEM, EditorShortcut := 75, dName := ''Key''\<rparr>"

definition ElementDef_9 :: TElementDef where
  "ElementDef_9 = ElementDef_default\<lparr>
      Character := 10, dColor := COLOR_WHITE_ON_CHOICE, TouchProc := DoorTouch, EditorCategory
      := CATEGORY_ITEM, EditorShortcut := 68, dName := ''Door''\<rparr>"

definition ElementDef_10 :: TElementDef where
  "ElementDef_10 = ElementDef_default\<lparr>
      Character := 232, dColor := 15, TouchProc := ScrollTouch, TickProc := ScrollTick,
      Pushable := True, dCycle := 1, EditorCategory := CATEGORY_ITEM, EditorShortcut := 83,
      dName := ''Scroll'', ParamTextName := ''Edit text of scroll''\<rparr>"

definition ElementDef_11 :: TElementDef where
  "ElementDef_11 = ElementDef_default\<lparr>
      Character := 240, dColor := COLOR_WHITE_ON_CHOICE, dCycle := 0, VisibleInDark := True,
      TouchProc := PassageTouch, EditorCategory := CATEGORY_ITEM, EditorShortcut := 80, dName
      := ''Passage'', ParamBoardName := ''Room thru passage?''\<rparr>"

definition ElementDef_12 :: TElementDef where
  "ElementDef_12 = ElementDef_default\<lparr>
      Character := 250, dColor := 15, dCycle := 2, TickProc := DuplicatorTick, HasDrawProc :=
      True, DrawProc := DuplicatorDraw, EditorCategory := CATEGORY_ITEM, EditorShortcut := 85,
      dName := ''Duplicator'', ParamDirName := ''Source direction?'', Param2Name :=
      ''Duplication rate?;SF''\<rparr>"

definition ElementDef_13 :: TElementDef where
  "ElementDef_13 = ElementDef_default\<lparr>
      Character := 11, HasDrawProc := True, DrawProc := BombDraw, Pushable := True, dCycle :=
      6, TickProc := BombTick, TouchProc := BombTouch, EditorCategory := CATEGORY_ITEM,
      EditorShortcut := 66, dName := ''Bomb''\<rparr>"

definition ElementDef_14 :: TElementDef where
  "ElementDef_14 = ElementDef_default\<lparr>
      Character := 127, dColor := 5, TouchProc := EnergizerTouch, EditorCategory :=
      CATEGORY_ITEM, EditorShortcut := 69, dName := ''Energizer''\<rparr>"

definition ElementDef_15 :: TElementDef where
  "ElementDef_15 = ElementDef_default\<lparr>
      Character := 83, dColor := 15, Destructible := False, dCycle := 1, TickProc := StarTick,
      TouchProc := DamagingTouch, HasDrawProc := True, DrawProc := StarDraw, dName := ''Star''\<rparr>"

definition ElementDef_16 :: TElementDef where
  "ElementDef_16 = ElementDef_default\<lparr>
      Character := 47, dCycle := 3, HasDrawProc := True, TickProc := ConveyorCWTick, DrawProc
      := ConveyorCWDraw, EditorCategory := CATEGORY_ITEM, EditorShortcut := 49, dName :=
      ''Clockwise'', CategoryName := ''Conveyors:''\<rparr>"

definition ElementDef_17 :: TElementDef where
  "ElementDef_17 = ElementDef_default\<lparr>
      Character := 92, dCycle := 2, HasDrawProc := True, DrawProc := ConveyorCCWDraw, TickProc
      := ConveyorCCWTick, EditorCategory := CATEGORY_ITEM, EditorShortcut := 50, dName :=
      ''Counter''\<rparr>"

definition ElementDef_18 :: TElementDef where
  "ElementDef_18 = ElementDef_default\<lparr>
      Character := 248, dColor := 15, Destructible := True, dCycle := 1, TickProc :=
      BulletTick, TouchProc := DamagingTouch, dName := ''Bullet''\<rparr>"

definition ElementDef_19 :: TElementDef where
  "ElementDef_19 = ElementDef_default\<lparr>
      Character := 176, dColor := 249, PlaceableOnTop := True, EditorCategory :=
      CATEGORY_TERRAIN, TouchProc := WaterTouch, EditorShortcut := 87, dName := ''Water'',
      CategoryName := ''Terrains:''\<rparr>"

definition ElementDef_20 :: TElementDef where
  "ElementDef_20 = ElementDef_default\<lparr>
      Character := 176, dColor := 32, Walkable := False, TouchProc := ForestTouch,
      EditorCategory := CATEGORY_TERRAIN, EditorShortcut := 70, dName := ''Forest''\<rparr>"

definition ElementDef_21 :: TElementDef where
  "ElementDef_21 = ElementDef_default\<lparr>
      Character := 219, EditorCategory := CATEGORY_TERRAIN, CategoryName := ''Walls:'',
      EditorShortcut := 83, dName := ''Solid''\<rparr>"

definition ElementDef_22 :: TElementDef where
  "ElementDef_22 = ElementDef_default\<lparr>
      Character := 178, EditorCategory := CATEGORY_TERRAIN, EditorShortcut := 78, dName :=
      ''Normal''\<rparr>"

definition ElementDef_23 :: TElementDef where
  "ElementDef_23 = ElementDef_default\<lparr>
      Character := 177, Destructible := False, EditorCategory := CATEGORY_TERRAIN,
      EditorShortcut := 66, dName := ''Breakable''\<rparr>"

definition ElementDef_24 :: TElementDef where
  "ElementDef_24 = ElementDef_default\<lparr>
      Character := 254, Pushable := True, TouchProc := PushableTouch, EditorCategory :=
      CATEGORY_TERRAIN, EditorShortcut := 79, dName := ''Boulder''\<rparr>"

definition ElementDef_25 :: TElementDef where
  "ElementDef_25 = ElementDef_default\<lparr>
      Character := 18, TouchProc := PushableTouch, EditorCategory := CATEGORY_TERRAIN,
      EditorShortcut := 49, dName := ''Slider (NS)''\<rparr>"

definition ElementDef_26 :: TElementDef where
  "ElementDef_26 = ElementDef_default\<lparr>
      Character := 29, TouchProc := PushableTouch, EditorCategory := CATEGORY_TERRAIN,
      EditorShortcut := 50, dName := ''Slider (EW)''\<rparr>"

definition ElementDef_27 :: TElementDef where
  "ElementDef_27 = ElementDef_default\<lparr>
      Character := 178, EditorCategory := CATEGORY_TERRAIN, PlaceableOnTop := True, Walkable
      := True, TouchProc := FakeTouch, EditorShortcut := 65, dName := ''Fake''\<rparr>"

definition ElementDef_28 :: TElementDef where
  "ElementDef_28 = ElementDef_default\<lparr>
      Character := 32, EditorCategory := CATEGORY_TERRAIN, TouchProc := InvisibleTouch,
      EditorShortcut := 73, dName := ''Invisible''\<rparr>"

definition ElementDef_29 :: TElementDef where
  "ElementDef_29 = ElementDef_default\<lparr>
      Character := 206, dCycle := 1, TickProc := BlinkWallTick, HasDrawProc := True, DrawProc
      := BlinkWallDraw, EditorCategory := CATEGORY_TERRAIN, EditorShortcut := 76, dName :=
      ''Blink wall'', Param1Name := ''Starting time'', Param2Name := ''Period'', ParamDirName
      := ''Wall direction''\<rparr>"

definition ElementDef_30 :: TElementDef where
  "ElementDef_30 = ElementDef_default\<lparr>
      Character := 197, TouchProc := TransporterTouch, HasDrawProc := True, DrawProc :=
      TransporterDraw, dCycle := 2, TickProc := TransporterTick, EditorCategory :=
      CATEGORY_TERRAIN, EditorShortcut := 84, dName := ''Transporter'', ParamDirName :=
      ''Direction?''\<rparr>"

definition ElementDef_31 :: TElementDef where
  "ElementDef_31 = ElementDef_default\<lparr>
      Character := 206, HasDrawProc := True, DrawProc := LineDraw, dName := ''Line''\<rparr>"

definition ElementDef_32 :: TElementDef where
  "ElementDef_32 = ElementDef_default\<lparr>
      Character := 42, dColor := 10, EditorCategory := CATEGORY_TERRAIN, EditorShortcut := 82,
      dName := ''Ricochet''\<rparr>"

definition ElementDef_33 :: TElementDef where
  "ElementDef_33 = ElementDef_default\<lparr>
      Character := 205\<rparr>"

definition ElementDef_34 :: TElementDef where
  "ElementDef_34 = ElementDef_default\<lparr>
      Character := 153, dColor := 6, Destructible := True, Pushable := True, dCycle := 3,
      TickProc := BearTick, TouchProc := DamagingTouch, EditorCategory := CATEGORY_CREATURE,
      EditorShortcut := 66, dName := ''Bear'', CategoryName := ''Creatures:'', Param1Name :=
      ''Sensitivity?'', ScoreValue := 1\<rparr>"

definition ElementDef_35 :: TElementDef where
  "ElementDef_35 = ElementDef_default\<lparr>
      Character := 5, dColor := 13, Destructible := True, Pushable := True, dCycle := 1,
      TickProc := RuffianTick, TouchProc := DamagingTouch, EditorCategory :=
      CATEGORY_CREATURE, EditorShortcut := 82, dName := ''Ruffian'', Param1Name :=
      ''Intelligence?'', Param2Name := ''Resting time?'', ScoreValue := 2\<rparr>"

definition ElementDef_36 :: TElementDef where
  "ElementDef_36 = ElementDef_default\<lparr>
      Character := 2, EditorCategory := CATEGORY_CREATURE, dCycle := 3, HasDrawProc := True,
      DrawProc := ObjectDraw, TickProc := ObjectTick, TouchProc := ObjectTouch, EditorShortcut
      := 79, dName := ''Object'', Param1Name := ''Character?'', ParamTextName := ''Edit
      Program''\<rparr>"

definition ElementDef_37 :: TElementDef where
  "ElementDef_37 = ElementDef_default\<lparr>
      Character := 42, dColor := COLOR_CHOICE_ON_BLACK, Destructible := False, dCycle := 3,
      TickProc := SlimeTick, TouchProc := SlimeTouch, EditorCategory := CATEGORY_CREATURE,
      EditorShortcut := 86, dName := ''Slime'', Param2Name := ''Movement speed?;FS''\<rparr>"

definition ElementDef_38 :: TElementDef where
  "ElementDef_38 = ElementDef_default\<lparr>
      Character := 94, dColor := 7, Destructible := False, dCycle := 3, TickProc := SharkTick,
      EditorCategory := CATEGORY_CREATURE, EditorShortcut := 89, dName := ''Shark'',
      Param1Name := ''Intelligence?''\<rparr>"

definition ElementDef_39 :: TElementDef where
  "ElementDef_39 = ElementDef_default\<lparr>
      Character := 24, dCycle := 2, TickProc := SpinningGunTick, HasDrawProc := True, DrawProc
      := SpinningGunDraw, EditorCategory := CATEGORY_CREATURE, EditorShortcut := 71, dName :=
      ''Spinning gun'', Param1Name := ''Intelligence?'', Param2Name := ''Firing rate?'',
      ParamBulletTypeName := ''Firing type?''\<rparr>"

definition ElementDef_40 :: TElementDef where
  "ElementDef_40 = ElementDef_default\<lparr>
      Character := 16, dColor := COLOR_CHOICE_ON_BLACK, HasDrawProc := True, DrawProc :=
      PusherDraw, dCycle := 4, TickProc := PusherTick, EditorCategory := CATEGORY_CREATURE,
      EditorShortcut := 80, dName := ''Pusher'', ParamDirName := ''Push direction?''\<rparr>"

definition ElementDef_41 :: TElementDef where
  "ElementDef_41 = ElementDef_default\<lparr>
      Character := 234, dColor := 12, Destructible := True, Pushable := True, dCycle := 2,
      TickProc := LionTick, TouchProc := DamagingTouch, EditorCategory := CATEGORY_CREATURE,
      EditorShortcut := 76, dName := ''Lion'', CategoryName := ''Beasts:'', Param1Name :=
      ''Intelligence?'', ScoreValue := 1\<rparr>"

definition ElementDef_42 :: TElementDef where
  "ElementDef_42 = ElementDef_default\<lparr>
      Character := 227, dColor := 11, Destructible := True, Pushable := True, dCycle := 2,
      TickProc := TigerTick, TouchProc := DamagingTouch, EditorCategory := CATEGORY_CREATURE,
      EditorShortcut := 84, dName := ''Tiger'', Param1Name := ''Intelligence?'', Param2Name :=
      ''Firing rate?'', ParamBulletTypeName := ''Firing type?'', ScoreValue := 2\<rparr>"

definition ElementDef_43 :: TElementDef where
  "ElementDef_43 = ElementDef_default\<lparr>
      Character := 186\<rparr>"

definition ElementDef_44 :: TElementDef where
  "ElementDef_44 = ElementDef_default\<lparr>
      Character := 233, Destructible := True, dCycle := 2, TickProc := CentipedeHeadTick,
      TouchProc := DamagingTouch, EditorCategory := CATEGORY_CREATURE, EditorShortcut := 72,
      dName := ''Head'', CategoryName := ''Centipedes'', Param1Name := ''Intelligence?'',
      Param2Name := ''Deviance?'', ScoreValue := 1\<rparr>"

definition ElementDef_45 :: TElementDef where
  "ElementDef_45 = ElementDef_default\<lparr>
      Character := 79, Destructible := True, dCycle := 2, TickProc := CentipedeSegmentTick,
      TouchProc := DamagingTouch, EditorCategory := CATEGORY_CREATURE, EditorShortcut := 83,
      dName := ''Segment'', ScoreValue := 3\<rparr>"

definition ElementDefs :: "TElementDef list" where
  "ElementDefs =
     [ElementDef_0, ElementDef_1, ElementDef_2, ElementDef_3, ElementDef_4,
      ElementDef_5, ElementDef_6, ElementDef_7, ElementDef_8, ElementDef_9,
      ElementDef_10, ElementDef_11, ElementDef_12, ElementDef_13, ElementDef_14,
      ElementDef_15, ElementDef_16, ElementDef_17, ElementDef_18, ElementDef_19,
      ElementDef_20, ElementDef_21, ElementDef_22, ElementDef_23, ElementDef_24,
      ElementDef_25, ElementDef_26, ElementDef_27, ElementDef_28, ElementDef_29,
      ElementDef_30, ElementDef_31, ElementDef_32, ElementDef_33, ElementDef_34,
      ElementDef_35, ElementDef_36, ElementDef_37, ElementDef_38, ElementDef_39,
      ElementDef_40, ElementDef_41, ElementDef_42, ElementDef_43, ElementDef_44,
      ElementDef_45, ElementDef_default, ElementDef_default, ElementDef_default, ElementDef_default,
      ElementDef_default, ElementDef_default, ElementDef_default, ElementDef_default]"

definition elemDef :: "int \<Rightarrow> TElementDef option" where
  "elemDef el = index ElementDefs el"

lemmas ElementDef_defs =
  ElementDef_default_def ElementDef_0_def ElementDef_1_def ElementDef_2_def ElementDef_3_def
  ElementDef_4_def ElementDef_5_def ElementDef_6_def ElementDef_7_def ElementDef_8_def
  ElementDef_9_def ElementDef_10_def ElementDef_11_def ElementDef_12_def ElementDef_13_def
  ElementDef_14_def ElementDef_15_def ElementDef_16_def ElementDef_17_def ElementDef_18_def
  ElementDef_19_def ElementDef_20_def ElementDef_21_def ElementDef_22_def ElementDef_23_def
  ElementDef_24_def ElementDef_25_def ElementDef_26_def ElementDef_27_def ElementDef_28_def
  ElementDef_29_def ElementDef_30_def ElementDef_31_def ElementDef_32_def ElementDef_33_def
  ElementDef_34_def ElementDef_35_def ElementDef_36_def ElementDef_37_def ElementDef_38_def
  ElementDef_39_def ElementDef_40_def ElementDef_41_def ElementDef_42_def ElementDef_43_def
  ElementDef_44_def ElementDef_45_def

section \<open>Facts about the table\<close>

lemma length_ElementDefs [simp]: "length ElementDefs = 54"
  by (simp add: ElementDefs_def)

lemma elemDef_Some_iff: "(\<exists>d. elemDef el = Some d) \<longleftrightarrow> 0 \<le> el \<and> el \<le> MAX_ELEMENT"
  by (auto simp: elemDef_def index_def)

lemma elemDef_None_iff: "elemDef el = None \<longleftrightarrow> \<not> (0 \<le> el \<and> el \<le> MAX_ELEMENT)"
  by (auto simp: elemDef_def index_def)

text \<open>A decidable fact about all entries, evaluated once, holds of every lookup.\<close>

lemma elemDef_all:
  assumes "elemDef el = Some d"
    and "list_all (\<lambda>(i, d). P (int i) d) (enumerate 0 ElementDefs)"
  shows "P el d"
proof -
  from assms(1) have el: "0 \<le> el" "nat el < length ElementDefs" "d = ElementDefs ! nat el"
    by (auto simp: elemDef_def index_def split: if_splits)
  then have "(nat el, d) \<in> set (enumerate 0 ElementDefs)"
    by (auto simp: in_set_enumerate_eq)
  with assms(2) have "P (int (nat el)) d" by (fastforce simp: list_all_iff)
  with el show ?thesis by simp
qed

lemma Walkable_iff: "elemDef el = Some d \<Longrightarrow> Walkable d \<longleftrightarrow> el = E_EMPTY \<or> el = E_FAKE"
  by (rule elemDef_all [where P = "\<lambda>el d. Walkable d \<longleftrightarrow> el = E_EMPTY \<or> el = E_FAKE"])
    (assumption, code_simp)

lemma PlaceableOnTop_iff:
  "elemDef el = Some d \<Longrightarrow> PlaceableOnTop d \<longleftrightarrow> el = E_WATER \<or> el = E_FAKE"
  by (rule elemDef_all [where P = "\<lambda>el d. PlaceableOnTop d \<longleftrightarrow> el = E_WATER \<or> el = E_FAKE"])
    (assumption, code_simp)

lemma Destructible_iff:
  "elemDef el = Some d \<Longrightarrow> Destructible d \<longleftrightarrow>
     el \<in> {E_PLAYER, E_GEM, E_BULLET, E_BEAR, E_RUFFIAN, E_LION, E_TIGER,
           E_CENTIPEDE_HEAD, E_CENTIPEDE_SEGMENT}"
  by (rule elemDef_all [where P = "\<lambda>el d. Destructible d \<longleftrightarrow>
     el \<in> {E_PLAYER, E_GEM, E_BULLET, E_BEAR, E_RUFFIAN, E_LION, E_TIGER,
           E_CENTIPEDE_HEAD, E_CENTIPEDE_SEGMENT}"]) (assumption, code_simp)

lemma Pushable_iff:
  "elemDef el = Some d \<Longrightarrow> Pushable d \<longleftrightarrow>
     el \<in> {E_EMPTY, E_PLAYER, E_AMMO, E_GEM, E_KEY, E_SCROLL, E_BOMB, E_BOULDER, E_BEAR,
           E_RUFFIAN, E_LION, E_TIGER}"
  by (rule elemDef_all [where P = "\<lambda>el d. Pushable d \<longleftrightarrow>
     el \<in> {E_EMPTY, E_PLAYER, E_AMMO, E_GEM, E_KEY, E_SCROLL, E_BOMB, E_BOULDER, E_BEAR,
           E_RUFFIAN, E_LION, E_TIGER}"]) (assumption, code_simp)

lemma elemDef_eval [simp]:
  "elemDef 0 = Some ElementDef_0"
  "elemDef 1 = Some ElementDef_1"
  "elemDef 2 = Some ElementDef_2"
  "elemDef 3 = Some ElementDef_3"
  "elemDef 4 = Some ElementDef_4"
  "elemDef 5 = Some ElementDef_5"
  "elemDef 6 = Some ElementDef_6"
  "elemDef 7 = Some ElementDef_7"
  "elemDef 8 = Some ElementDef_8"
  "elemDef 9 = Some ElementDef_9"
  "elemDef 10 = Some ElementDef_10"
  "elemDef 11 = Some ElementDef_11"
  "elemDef 12 = Some ElementDef_12"
  "elemDef 13 = Some ElementDef_13"
  "elemDef 14 = Some ElementDef_14"
  "elemDef 15 = Some ElementDef_15"
  "elemDef 16 = Some ElementDef_16"
  "elemDef 17 = Some ElementDef_17"
  "elemDef 18 = Some ElementDef_18"
  "elemDef 19 = Some ElementDef_19"
  "elemDef 20 = Some ElementDef_20"
  "elemDef 21 = Some ElementDef_21"
  "elemDef 22 = Some ElementDef_22"
  "elemDef 23 = Some ElementDef_23"
  "elemDef 24 = Some ElementDef_24"
  "elemDef 25 = Some ElementDef_25"
  "elemDef 26 = Some ElementDef_26"
  "elemDef 27 = Some ElementDef_27"
  "elemDef 28 = Some ElementDef_28"
  "elemDef 29 = Some ElementDef_29"
  "elemDef 30 = Some ElementDef_30"
  "elemDef 31 = Some ElementDef_31"
  "elemDef 32 = Some ElementDef_32"
  "elemDef 33 = Some ElementDef_33"
  "elemDef 34 = Some ElementDef_34"
  "elemDef 35 = Some ElementDef_35"
  "elemDef 36 = Some ElementDef_36"
  "elemDef 37 = Some ElementDef_37"
  "elemDef 38 = Some ElementDef_38"
  "elemDef 39 = Some ElementDef_39"
  "elemDef 40 = Some ElementDef_40"
  "elemDef 41 = Some ElementDef_41"
  "elemDef 42 = Some ElementDef_42"
  "elemDef 43 = Some ElementDef_43"
  "elemDef 44 = Some ElementDef_44"
  "elemDef 45 = Some ElementDef_45"
  "elemDef 46 = Some ElementDef_default"
  "elemDef 47 = Some ElementDef_default"
  "elemDef 48 = Some ElementDef_default"
  "elemDef 49 = Some ElementDef_default"
  "elemDef 50 = Some ElementDef_default"
  "elemDef 51 = Some ElementDef_default"
  "elemDef 52 = Some ElementDef_default"
  "elemDef 53 = Some ElementDef_default"
  by (simp_all add: elemDef_def index_def ElementDefs_def)

end
