(* ===== verification/Draw.thy ===== *)
theory Draw
  imports Lib Elements_Table
begin

text \<open>
  The headless screen of \<open>engine/video.go\<close>, the lookups by square and by player of
  \<open>engine/gamevars.go\<close> and \<open>engine/game.go\<close>, the draw procedures of \<open>engine/elements.go\<close>, and
  \<open>BoardDrawTile\<close>. Drawing is part of the simulation's state: it fills \<open>Screen\<close>, a star
  changes the colour of its tile, and on a dark board it can allocate a \<open>PlayerState\<close>.
\<close>

section \<open>The screen\<close>

definition videoPut :: "int \<Rightarrow> int \<Rightarrow> int \<Rightarrow> int \<Rightarrow> Engine \<Rightarrow> Engine" where
  "videoPut x y ch color e =
     (if x < 0 \<or> x \<ge> 80 \<or> y < 0 \<or> y \<ge> 25 then e
      else e\<lparr>Screen := (Screen e)(x := (Screen e x)(y := (ch, color))),
             videoDirty := videoDirty e @ [(x, y)],
             screenDirty := (if Headless e then screenDirty e @ [(x, y)] else screenDirty e)\<rparr>)"

definition videoClear :: "Engine \<Rightarrow> Engine" where
  "videoClear e =
     (let e = e\<lparr>screenDirty := []\<rparr>;
          e = fold (\<lambda>x e. fold (\<lambda>y e.
                e\<lparr>Screen := (Screen e)(x := (Screen e x)(y := (32, 0))),
                  screenDirty := (if Headless e then screenDirty e @ [(x, y)] else screenDirty e)\<rparr>)
                [0..24] e) [0..79] e
      in e\<lparr>videoDirty := []\<rparr>)"

text \<open>Headless or not, showing the screen empties the presenter's dirty list.\<close>

definition VideoShow :: "Engine \<Rightarrow> Engine" where
  "VideoShow e = e\<lparr>videoDirty := []\<rparr>"

definition VideoWriteText :: "int \<Rightarrow> int \<Rightarrow> int \<Rightarrow> string \<Rightarrow> Engine \<Rightarrow> Engine" where
  "VideoWriteText x y color txt e =
     VideoShow (fold (\<lambda>(i, c) e. videoPut (i16 (x + i16 (int i))) y (ord c) color e)
                  (enumerate 0 txt) e)"

definition VideoMoveToVideo :: "int \<Rightarrow> int \<Rightarrow> int \<Rightarrow> (int \<times> int) list \<Rightarrow> Engine \<Rightarrow> Engine option" where
  "VideoMoveToVideo x y width cells e =
     do { e \<leftarrow> foldM (\<lambda>i e. do { (ch, col) \<leftarrow> index cells i;
                                  Some (videoPut (i16 (x + i16 i)) y ch col e) })
               [0..i16 (x + width) - 1] e;
          Some (VideoShow e) }"

definition VideoMoveToBuffer :: "int \<Rightarrow> int \<Rightarrow> int \<Rightarrow> (int \<times> int) list \<Rightarrow> Engine \<Rightarrow> (int \<times> int) list option" where
  "VideoMoveToBuffer x y width cells e =
     foldM (\<lambda>i cells. do { _ \<leftarrow> index cells i;
              let cx = i16 (x + i16 i);
              Some (cells[nat i := (if cx < 0 \<or> cx \<ge> 80 \<or> y < 0 \<or> y \<ge> 25 then (0, 0)
                                      else Screen e cx y)]) })
       [0..i16 (x + width) - 1] cells"

definition SidebarClearLine :: "int \<Rightarrow> Engine \<Rightarrow> Engine" where
  "SidebarClearLine y e = VideoWriteText 60 y 17 (chr 179 # replicate 19 CHR '' '') e"

definition SidebarClear :: "Engine \<Rightarrow> Engine" where
  "SidebarClear e = fold SidebarClearLine [3..24] e"

section \<open>Players and squares\<close>

text \<open>\<open>e.PlayerFor(id)\<close> returns a pointer, allocating a fresh state when the map has none.\<close>

definition newPlayerState :: PlayerState where
  "newPlayerState =
     \<lparr>pHealth = 15, pAmmo = 0, pGems = 0, pTorches = 0, pTorchTicks = 0, pEnergizerTicks = 0,
      pScore = 0, pKeys = (\<lambda>_. False), pBoardTimeSec = 0, pBoardTimeHsec = 0,
      PlayerCharacter = 2, DirX = 0, DirY = 0, RespawnTicks = 0,
      MessageAmmoNotShown = False, MessageOutOfAmmoNotShown = False,
      MessageNoShootingNotShown = False, MessageTorchNotShown = False,
      MessageOutOfTorchesNotShown = False, MessageRoomNotDarkNotShown = False,
      MessageHintTorchNotShown = False, MessageForestNotShown = False,
      MessageFakeNotShown = False, MessageGemNotShown = False,
      MessageEnergizerNotShown = False, Paused = False, pSoundEnabled = True,
      ReenterX = 0, ReenterY = 0\<rparr>"

definition PlayerFor :: "int \<Rightarrow> Engine \<Rightarrow> int \<times> Engine" where
  "PlayerFor statId e =
     (case Players e statId of
        Some ps \<Rightarrow> (ps, e)
      | None \<Rightarrow> (PNext e, e\<lparr>Players := (Players e)(statId := Some (PNext e)),
                            PHeap := (PHeap e)(PNext e := newPlayerState),
                            PNext := PNext e + 1\<rparr>))"

definition PlayerGlyph :: "int \<Rightarrow> Engine \<Rightarrow> int \<times> Engine" where
  "PlayerGlyph statId e =
     (let (ps, e) = PlayerFor statId e; ch = PlayerCharacter (PHeap e ps)
      in (if ch \<noteq> 0 then ch else 2, e))"

definition ReenterPoint :: "int \<Rightarrow> Engine \<Rightarrow> (int \<times> int) \<times> Engine" where
  "ReenterPoint statId e =
     (let (ps, e) = PlayerFor statId e;
          (x, y) = (ReenterX (PHeap e ps), ReenterY (PHeap e ps));
          (x, y) = (if x = 0 \<or> y = 0
                    then (StartPlayerX (bInfo (Board e)), StartPlayerY (bInfo (Board e)))
                    else (x, y));
          (x, y) = (if x = 0 \<or> y = 0 then (BOARD_WIDTH div 2, BOARD_HEIGHT div 2) else (x, y))
      in ((x, y), e))"

definition SetReenterPoint :: "int \<Rightarrow> int \<Rightarrow> int \<Rightarrow> Engine \<Rightarrow> Engine" where
  "SetReenterPoint statId x y e =
     (let (ps, e) = PlayerFor statId e
      in modPlayer ps (\<lambda>p. p\<lparr>ReenterX := u8 x, ReenterY := u8 y\<rparr>) e)"

definition resetMessageFlags :: "PlayerState \<Rightarrow> PlayerState" where
  "resetMessageFlags p =
     p\<lparr>MessageAmmoNotShown := True, MessageOutOfAmmoNotShown := True,
       MessageNoShootingNotShown := True, MessageTorchNotShown := True,
       MessageOutOfTorchesNotShown := True, MessageRoomNotDarkNotShown := True,
       MessageHintTorchNotShown := True, MessageForestNotShown := True,
       MessageFakeNotShown := True, MessageGemNotShown := True,
       MessageEnergizerNotShown := True\<rparr>"

definition ResetPlayerState :: "int \<Rightarrow> Engine \<Rightarrow> Engine" where
  "ResetPlayerState statId e =
     (let (ps, e) = PlayerFor statId e
      in modPlayer ps (\<lambda>p. (resetMessageFlags
           (p\<lparr>pHealth := 100, pAmmo := 0, pGems := 0, pTorches := 0, pTorchTicks := 0,
              pEnergizerTicks := 0, pScore := 0, pBoardTimeSec := 0, pBoardTimeHsec := 0\<rparr>))
             \<lparr>Paused := False,
              pKeys := (\<lambda>i. if 0 \<le> i \<and> i \<le> 6 then False else pKeys p i)\<rparr>) e)"

text \<open>Is the square a stat stands on a player's?\<close>

definition isPlayerStat :: "TStat \<Rightarrow> Engine \<Rightarrow> bool option" where
  "isPlayerStat s e = do { el \<leftarrow> elementAt (sX s) (sY s) e; Some (el = E_PLAYER) }"

definition NearestPlayer :: "int \<Rightarrow> int \<Rightarrow> Engine \<Rightarrow> int option" where
  "NearestPlayer x y e =
     map_option fst (foldM (\<lambda>i (bestId, bestDist).
       do { s \<leftarrow> statAt i e;
            p \<leftarrow> isPlayerStat s e;
            let dist = Sqr (i16 (sX s - x)) + Sqr (i16 (sY s - y));
            Some (if p \<and> dist < bestDist then (i, dist) else (bestId, bestDist)) })
       [0..StatCount (Board e)] (0, 999999))"

definition PlayerCount :: "Engine \<Rightarrow> int option" where
  "PlayerCount e =
     foldM (\<lambda>i count. do { s \<leftarrow> statAt i e; p \<leftarrow> isPlayerStat s e;
                             Some (if p then i16 (count + 1) else count) })
       [0..StatCount (Board e)] 0"

text \<open>
  \<open>GetStatIdAt\<close> reads the stat before it tests the bound, so it reads one entry past
  \<open>StatCount\<close>: the array has \<open>MAX_STAT + 2\<close> entries.
\<close>

function GetStatIdAt_loop :: "int \<Rightarrow> int \<Rightarrow> int \<Rightarrow> Engine \<Rightarrow> int option" where
  "GetStatIdAt_loop i x y e =
     do { s \<leftarrow> statAt i e;
          if sX s = x \<and> sY s = y \<or> i > StatCount (Board e) then Some i
          else GetStatIdAt_loop (i + 1) x y e }"
  by pat_completeness auto
termination
  by (relation "measure (\<lambda>(i, x, y, e). nat (MAX_STAT + 2 - i))")
     (auto simp: statAt_def inStats_def split: if_splits)

declare GetStatIdAt_loop.simps [simp del]

definition GetStatIdAt :: "int \<Rightarrow> int \<Rightarrow> Engine \<Rightarrow> int option" where
  "GetStatIdAt x y e =
     do { i \<leftarrow> GetStatIdAt_loop 0 x y e;
          Some (if i > StatCount (Board e) then -1 else i) }"

section \<open>Draw procedures\<close>

definition ElementCharacter :: "int \<Rightarrow> Engine \<Rightarrow> int option" where
  "ElementCharacter el e =
     (if EditorElements e \<and> el = E_INVISIBLE then Some 176
      else map_option Character (elemDef el))"

definition ElementSpinningGunDraw :: "int \<Rightarrow> int \<Rightarrow> Engine \<Rightarrow> (int \<times> Engine) option" where
  "ElementSpinningGunDraw x y e =
     (let t = rmd (CurrentTick e) 8 in
      Some (if t = 0 \<or> t = 1 then 24 else if t = 2 \<or> t = 3 then 26
            else if t = 4 \<or> t = 5 then 25 else 27, e))"

definition ElementLineDraw :: "int \<Rightarrow> int \<Rightarrow> Engine \<Rightarrow> (int \<times> Engine) option" where
  "ElementLineDraw x y e =
     do { (v, _) \<leftarrow> foldM (\<lambda>i (v, shift).
            do { dx \<leftarrow> index NeighborDeltaX i; dy \<leftarrow> index NeighborDeltaY i;
                 el \<leftarrow> elementAt (i16 (x + dx)) (i16 (y + dy)) e;
                 Some (if el = E_LINE \<or> el = E_BOARD_EDGE then v + shift else v, shift * 2) })
            [0..3] (1, 1);
          ch \<leftarrow> index LineChars (v - 1);
          Some (ch, e) }"

definition ElementConveyorCWDraw :: "int \<Rightarrow> int \<Rightarrow> Engine \<Rightarrow> (int \<times> Engine) option" where
  "ElementConveyorCWDraw x y e =
     do { d \<leftarrow> elemDef E_CONVEYOR_CW;
          let t = rmd (quot (CurrentTick e) (dCycle d)) 4;
          Some (if t = 0 then 179 else if t = 1 then 47 else if t = 2 then 196 else 92, e) }"

definition ElementConveyorCCWDraw :: "int \<Rightarrow> int \<Rightarrow> Engine \<Rightarrow> (int \<times> Engine) option" where
  "ElementConveyorCCWDraw x y e =
     do { d \<leftarrow> elemDef E_CONVEYOR_CCW;
          let t = rmd (quot (CurrentTick e) (dCycle d)) 4;
          Some (if t = 3 then 179 else if t = 2 then 47 else if t = 1 then 196 else 92, e) }"

definition ElementBombDraw :: "int \<Rightarrow> int \<Rightarrow> Engine \<Rightarrow> (int \<times> Engine) option" where
  "ElementBombDraw x y e =
     do { statId \<leftarrow> GetStatIdAt x y e;
          if statId < 0 then do { d \<leftarrow> elemDef E_BOMB; Some (Character d, e) }
          else do { s \<leftarrow> statAt statId e;
                    Some (if P1 s \<le> 1 then 11 else u8 (48 + P1 s), e) } }"

definition TransporterNSChars :: "int list" where
  "TransporterNSChars = [94, 126, 94, 45, 118, 95, 118, 45]"

definition TransporterEWChars :: "int list" where
  "TransporterEWChars = [40, 60, 40, 179, 41, 62, 41, 179]"

definition StarAnimChars :: "int list" where
  "StarAnimChars = [179, 47, 196, 92]"

definition ElementTransporterDraw :: "int \<Rightarrow> int \<Rightarrow> Engine \<Rightarrow> (int \<times> Engine) option" where
  "ElementTransporterDraw x y e =
     do { statId \<leftarrow> GetStatIdAt x y e;
          if statId < 0 then do { d \<leftarrow> elemDef E_TRANSPORTER; Some (Character d, e) }
          else do {
            s \<leftarrow> statAt statId e;
            check (sCycle s \<noteq> 0);
            let phase = rmd (i16 (quot (CurrentTick e) (sCycle s))) 4;
            ch \<leftarrow> (if StepX s = 0
                   then index TransporterNSChars (i16 (i16 (i16 (i16 (StepY s * 2) + 3) + phase) - 1))
                   else index TransporterEWChars (i16 (i16 (i16 (i16 (StepX s * 2) + 3) + phase) - 1)));
            Some (ch, e) } }"

definition ElementStarDraw :: "int \<Rightarrow> int \<Rightarrow> Engine \<Rightarrow> (int \<times> Engine) option" where
  "ElementStarDraw x y e =
     do { ch \<leftarrow> index StarAnimChars (rmd (CurrentTick e) 4);
          c \<leftarrow> colorAt x y e;
          let c = u8 (c + 1);
          e \<leftarrow> setColor x y (if c > 15 then 9 else c) e;
          Some (ch, e) }"

definition ElementBlinkWallDraw :: "int \<Rightarrow> int \<Rightarrow> Engine \<Rightarrow> (int \<times> Engine) option" where
  "ElementBlinkWallDraw x y e = Some (206, e)"

definition ElementDuplicatorDraw :: "int \<Rightarrow> int \<Rightarrow> Engine \<Rightarrow> (int \<times> Engine) option" where
  "ElementDuplicatorDraw x y e =
     do { statId \<leftarrow> GetStatIdAt x y e;
          if statId < 0 then do { d \<leftarrow> elemDef E_DUPLICATOR; Some (Character d, e) }
          else do { s \<leftarrow> statAt statId e;
                    Some (if P1 s = 1 then 250 else if P1 s = 2 then 249
                          else if P1 s = 3 then 248 else if P1 s = 4 then 111
                          else if P1 s = 5 then 79 else 250, e) } }"

definition ElementObjectDraw :: "int \<Rightarrow> int \<Rightarrow> Engine \<Rightarrow> (int \<times> Engine) option" where
  "ElementObjectDraw x y e =
     do { statId \<leftarrow> GetStatIdAt x y e;
          if statId < 0 then do { d \<leftarrow> elemDef E_OBJECT; Some (Character d, e) }
          else do { s \<leftarrow> statAt statId e; Some (P1 s, e) } }"

definition ElementPusherDraw :: "int \<Rightarrow> int \<Rightarrow> Engine \<Rightarrow> (int \<times> Engine) option" where
  "ElementPusherDraw x y e =
     do { statId \<leftarrow> GetStatIdAt x y e;
          if statId < 0 then do { d \<leftarrow> elemDef E_PUSHER; Some (Character d, e) }
          else do { s \<leftarrow> statAt statId e;
                    Some (if StepX s = 1 then 16 else if StepX s = -1 then 17
                          else if StepY s = -1 then 30 else 31, e) } }"

text \<open>The dispatch through the table's \<open>DrawProc\<close> field.\<close>

definition ElementDraw :: "DrawName \<Rightarrow> int \<Rightarrow> int \<Rightarrow> Engine \<Rightarrow> (int \<times> Engine) option" where
  "ElementDraw name x y e =
     (case name of
        DefaultDraw \<Rightarrow> Some (63, e)
      | StarDraw \<Rightarrow> ElementStarDraw x y e
      | DuplicatorDraw \<Rightarrow> ElementDuplicatorDraw x y e
      | SpinningGunDraw \<Rightarrow> ElementSpinningGunDraw x y e
      | ConveyorCWDraw \<Rightarrow> ElementConveyorCWDraw x y e
      | ConveyorCCWDraw \<Rightarrow> ElementConveyorCCWDraw x y e
      | LineDraw \<Rightarrow> ElementLineDraw x y e
      | TransporterDraw \<Rightarrow> ElementTransporterDraw x y e
      | PusherDraw \<Rightarrow> ElementPusherDraw x y e
      | BombDraw \<Rightarrow> ElementBombDraw x y e
      | BlinkWallDraw \<Rightarrow> ElementBlinkWallDraw x y e
      | ObjectDraw \<Rightarrow> ElementObjectDraw x y e)"

section \<open>Drawing the board\<close>

text \<open>
  Is the square shown? The test is Go's short-circuit disjunction: the torch is looked up,
  and a state for the nearest player allocated, only on a dark board whose element is not
  visible in the dark.
\<close>

definition squareLit :: "int \<Rightarrow> int \<Rightarrow> int \<Rightarrow> TStat \<Rightarrow> int \<Rightarrow> Engine \<Rightarrow> (bool \<times> Engine) option" where
  "squareLit x y pId pStat el e =
     (if \<not> IsDark (bInfo (Board e)) then Some (True, e)
      else do {
        d \<leftarrow> elemDef el;
        if VisibleInDark d then Some (True, e)
        else let (ps, e) = PlayerFor pId e in
          Some (pTorchTicks (PHeap e ps) > 0 \<and>
                  i16 (Sqr (i16 (sX pStat - x)) + i16 (Sqr (i16 (sY pStat - y)) * 2)) < TORCH_DIST_SQR
                \<or> ForceDarknessOff e, e) })"

definition TileToColorAndChar :: "int \<Rightarrow> int \<Rightarrow> Engine \<Rightarrow> ((int \<times> int) \<times> Engine) option" where
  "TileToColorAndChar x y e =
     do { tile \<leftarrow> tileAt x y e;
          pId \<leftarrow> NearestPlayer x y e;
          pStat \<leftarrow> statAt pId e;
          (lit, e) \<leftarrow> squareLit x y pId pStat (Element tile) e;
          if \<not> lit then Some ((7, 176), e)
          else if Element tile = E_EMPTY then Some ((15, 32), e)
          else do {
            d \<leftarrow> elemDef (Element tile);
            if HasDrawProc d then do {
              (ch, e) \<leftarrow> ElementDraw (DrawProc d) x y e;
              c \<leftarrow> colorAt x y e;
              Some ((c, ch), e) }
            else if Element tile = E_PLAYER then
              (if sX pStat = x \<and> sY pStat = y
               then let (ch, e) = PlayerGlyph pId e in Some ((Color tile, ch), e)
               else Some ((Color tile, 2), e))
            else if Element tile < E_TEXT_MIN then do {
              ch \<leftarrow> ElementCharacter (Element tile) e;
              Some ((Color tile, ch), e) }
            else if Element tile = E_TEXT_WHITE then Some ((15, Color tile), e)
            else Some ((u8 ((Element tile - E_TEXT_MIN + 1) * 16 + 15), Color tile), e) } }"

definition BoardDrawTile :: "int \<Rightarrow> int \<Rightarrow> Engine \<Rightarrow> Engine option" where
  "BoardDrawTile x y e =
     do { ((color, ch), e) \<leftarrow> TileToColorAndChar x y e;
          Some (VideoWriteText (i16 (x - 1)) (i16 (y - 1)) color [chr ch] e) }"

definition BoardDrawBorder :: "Engine \<Rightarrow> Engine option" where
  "BoardDrawBorder e =
     do { e \<leftarrow> foldM (\<lambda>ix e. do { e \<leftarrow> BoardDrawTile ix 1 e; BoardDrawTile ix BOARD_HEIGHT e })
               [1..BOARD_WIDTH] e;
          foldM (\<lambda>iy e. do { e \<leftarrow> BoardDrawTile 1 iy e; BoardDrawTile BOARD_WIDTH iy e })
            [1..BOARD_HEIGHT] e }"

definition inTable :: "int \<Rightarrow> bool" where
  "inTable i \<longleftrightarrow> 0 \<le> i \<and> i < 80 * 25"

definition GenerateTransitionTable :: "Engine \<Rightarrow> Engine option" where
  "GenerateTransitionTable e =
     do { e \<leftarrow> foldM (\<lambda>iy. foldM (\<lambda>ix e.
               do { let n = TransitionTableSize e + 1;
                    check (inTable (n - 1));
                    Some (e\<lparr>TransitionTableSize := n,
                            TransitionTable := (TransitionTable e)(n - 1 := (ix, iy))\<rparr>) })
               [1..BOARD_WIDTH]) [1..BOARD_HEIGHT] (e\<lparr>TransitionTableSize := 0\<rparr>);
          foldM (\<lambda>ix e.
            do { let (r, e) = Random (TransitionTableSize e) e;
                 let iy = i16 (r + 1);
                 check (inTable (iy - 1));
                 check (inTable (ix - 1));
                 let t = TransitionTable e (iy - 1);
                 let e = e\<lparr>TransitionTable := (TransitionTable e)(iy - 1 := TransitionTable e (ix - 1))\<rparr>;
                 Some (e\<lparr>TransitionTable := (TransitionTable e)(ix - 1 := t)\<rparr>) })
            [1..TransitionTableSize e] e }"

definition TransitionDrawToFill :: "int \<Rightarrow> int \<Rightarrow> Engine \<Rightarrow> Engine option" where
  "TransitionDrawToFill ch color e =
     foldM (\<lambda>i e. do { check (inTable (i - 1));
                         let (tx, ty) = TransitionTable e (i - 1);
                         Some (VideoWriteText (i16 (tx - 1)) (i16 (ty - 1)) (u8 color) [chr ch] e) })
       [1..TransitionTableSize e] e"

definition TransitionDrawToBoard :: "Engine \<Rightarrow> Engine option" where
  "TransitionDrawToBoard e =
     do { e \<leftarrow> BoardDrawBorder e;
          foldM (\<lambda>i e. do { check (inTable (i - 1));
                              let (tx, ty) = TransitionTable e (i - 1);
                              BoardDrawTile tx ty e })
            [1..TransitionTableSize e] e }"

definition TransitionDrawBoardChange :: "Engine \<Rightarrow> Engine option" where
  "TransitionDrawBoardChange e =
     do { e \<leftarrow> TransitionDrawToFill 219 5 e; TransitionDrawToBoard e }"

section \<open>What leaves over the network\<close>

definition netScreenWidth :: "Engine \<Rightarrow> int" where
  "netScreenWidth e = (if MultiRoom e then BOARD_WIDTH else 80)"

definition disclosedElement :: "int \<Rightarrow> int \<Rightarrow> Engine \<Rightarrow> int option" where
  "disclosedElement sx sy e =
     (if sx < 0 \<or> sx \<ge> BOARD_WIDTH \<or> sy < 0 \<or> sy \<ge> BOARD_HEIGHT then Some 0
      else let (ch, color) = Screen e sx sy in
        if ch = 176 \<and> color = 7 then Some 0
        else do { el \<leftarrow> elementAt (sx + 1) (sy + 1) e;
                  Some (if el \<noteq> E_EMPTY \<and> ch = 32 then 0 else el) })"

record ScreenCell =
  cX :: int
  cY :: int
  cCh :: int
  cColor :: int
  cElement :: int

definition screenCell :: "int \<Rightarrow> int \<Rightarrow> Engine \<Rightarrow> ScreenCell option" where
  "screenCell x y e =
     do { el \<leftarrow> disclosedElement x y e;
          Some \<lparr>cX = x, cY = y, cCh = fst (Screen e x y), cColor = snd (Screen e x y),
                cElement = el\<rparr> }"

definition DrainScreenDirty :: "Engine \<Rightarrow> (ScreenCell list \<times> Engine) option" where
  "DrainScreenDirty e =
     (if screenDirty e = [] then Some ([], e)
      else let dirty = (\<lambda>x y. (x, y) \<in> set (screenDirty e) \<and> 0 \<le> x \<and> x < 80 \<and> 0 \<le> y \<and> y < 25);
               e = e\<lparr>screenDirty := []\<rparr> in
        do { cells \<leftarrow> foldM (\<lambda>y. foldM (\<lambda>x cells.
               if dirty x y then do { c \<leftarrow> screenCell x y e; Some (cells @ [c]) } else Some cells)
               [0..netScreenWidth e - 1]) [0..24] [];
             Some (cells, e) })"

definition DrainEvents :: "Engine \<Rightarrow> Event list \<times> Engine" where
  "DrainEvents e = (Events e, e\<lparr>Events := []\<rparr>)"

end
