(* ===== verification/Stats.thy ===== *)
theory Stats
  imports Draw
begin

text \<open>
  The stat array: \<open>AddStat\<close>, \<open>RemoveStat\<close>, \<open>MoveStat\<close> and the tables that are kept in step with
  it (\<open>engine/game.go\<close>), the placement policy of \<open>engine/placement.go\<close>, and the players'
  arrival and departure (\<open>engine/gamevars.go\<close>).
\<close>

section \<open>Adding and moving\<close>

text \<open>\<open>c & 0x0F\<close> and \<open>c & 0x70\<close> on a 16-bit value.\<close>

definition fgOf :: "int \<Rightarrow> int" where
  "fgOf c = c mod 16"

definition bgOf :: "int \<Rightarrow> int" where
  "bgOf c = c div 16 mod 8 * 16"

definition AddStat :: "int \<Rightarrow> int \<Rightarrow> int \<Rightarrow> int \<Rightarrow> int \<Rightarrow> TStat \<Rightarrow> Engine \<Rightarrow> Engine option" where
  "AddStat tx ty el color tcycle template e =
     (if StatCount (Board e) < MAX_STAT then do {
        let e = setStatCount (StatCount (Board e) + 1) e;
        let n = StatCount (Board e);
        e \<leftarrow> modStat n (\<lambda>_. template) e;
        e \<leftarrow> modStat n (\<lambda>s. s\<lparr>sX := u8 tx, sY := u8 ty, sCycle := tcycle\<rparr>) e;
        under \<leftarrow> tileAt tx ty e;
        e \<leftarrow> modStat n (\<lambda>s. s\<lparr>Under := under, DataPos := 0\<rparr>) e;
        e \<leftarrow> (if Data template \<noteq> [] then modStat n (\<lambda>s. s\<lparr>Data := Data template\<rparr>) e else Some e);
        d \<leftarrow> elemDef (Element under);
        e \<leftarrow> setColor tx ty (if PlaceableOnTop d then u8 (fgOf color + bgOf (Color under))
                             else u8 color) e;
        e \<leftarrow> setElement tx ty el e;
        if ty > 0 then BoardDrawTile tx ty e else Some e }
      else Some e)"

text \<open>
  The loop of \<open>DrawPlayerSurroundings\<close>, with its body as a parameter; phase 0, the only one
  \<open>MoveStat\<close> and \<open>DamageStat\<close> use, just redraws. The full procedure is in \<open>Combat\<close>.
\<close>

definition surroundings :: "(int \<Rightarrow> int \<Rightarrow> Engine \<Rightarrow> Engine option) \<Rightarrow> int \<Rightarrow> int \<Rightarrow> Engine \<Rightarrow> Engine option" where
  "surroundings body x y e =
     foldM (\<lambda>ix e. if ix \<ge> 1 \<and> ix \<le> BOARD_WIDTH then
         foldM (\<lambda>iy e. if iy \<ge> 1 \<and> iy \<le> BOARD_HEIGHT then body ix iy e else Some e)
           [y - TORCH_DY - 1..y + TORCH_DY + 1] e
       else Some e) [x - TORCH_DX - 1..x + TORCH_DX + 1] e"

definition redrawSurroundings :: "int \<Rightarrow> int \<Rightarrow> Engine \<Rightarrow> Engine option" where
  "redrawSurroundings x y e = surroundings BoardDrawTile x y e"

text \<open>The torch-light test of \<open>MoveStat\<close> and \<open>DrawPlayerSurroundings\<close>.\<close>

definition inTorchRange :: "int \<Rightarrow> int \<Rightarrow> bool" where
  "inTorchRange dx dy \<longleftrightarrow> i16 (Sqr (i16 dx) + i16 (Sqr (i16 dy) * 2)) < TORCH_DIST_SQR"

definition MoveStat :: "int \<Rightarrow> int \<Rightarrow> int \<Rightarrow> Engine \<Rightarrow> Engine option" where
  "MoveStat statId newX newY e =
     do { s \<leftarrow> statAt statId e;
          let iUnder = Under s;
          newTile \<leftarrow> tileAt newX newY e;
          e \<leftarrow> modStat statId (\<lambda>s. s\<lparr>Under := newTile\<rparr>) e;
          oldTile \<leftarrow> tileAt (sX s) (sY s) e;
          e \<leftarrow> (if Element oldTile = E_PLAYER then setColor newX newY (Color oldTile) e
                else if Element newTile = E_EMPTY
                then setColor newX newY (fgOf (Color oldTile)) e
                else setColor newX newY (u8 (fgOf (Color oldTile) + bgOf (Color newTile))) e);
          el \<leftarrow> elementAt (sX s) (sY s) e;
          e \<leftarrow> setElement newX newY el e;
          e \<leftarrow> setTile (sX s) (sY s) iUnder e;
          let oldX = sX s;
          let oldY = sY s;
          e \<leftarrow> modStat statId (\<lambda>s. s\<lparr>sX := u8 newX, sY := u8 newY\<rparr>) e;
          let sx = u8 newX;
          let sy = u8 newY;
          e \<leftarrow> BoardDrawTile sx sy e;
          e \<leftarrow> BoardDrawTile oldX oldY e;
          if \<not> IsDark (bInfo (Board e)) then Some e
          else do {
            el \<leftarrow> elementAt sx sy e;
            if el \<noteq> E_PLAYER then Some e
            else let (ps, e) = PlayerFor statId e in
              if \<not> (pTorchTicks (PHeap e ps) > 0) then Some e
              else if i16 (Sqr (i16 (oldX - sx)) + Sqr (i16 (oldY - sy))) = 1 then
                foldM (\<lambda>ix e. if ix \<ge> 1 \<and> ix \<le> BOARD_WIDTH then
                    foldM (\<lambda>iy e. if iy \<ge> 1 \<and> iy \<le> BOARD_HEIGHT \<and>
                        inTorchRange (ix - oldX) (iy - oldY) \<noteq> inTorchRange (ix - newX) (iy - newY)
                      then BoardDrawTile ix iy e else Some e)
                      [sy - TORCH_DY - 3..sy + TORCH_DY + 3] e
                  else Some e) [sx - TORCH_DX - 3..sx + TORCH_DX + 3] e
              else do { e \<leftarrow> redrawSurroundings oldX oldY e; redrawSurroundings sx sy e } } }"

section \<open>Removing\<close>

definition audienceAt :: "int \<Rightarrow> Engine \<Rightarrow> int option" where
  "audienceAt i e = (if inStats i then Some (ScrollAudience e i) else None)"

definition putAudience :: "int \<Rightarrow> int \<Rightarrow> Engine \<Rightarrow> Engine option" where
  "putAudience i v e =
     (if inStats i then Some (e\<lparr>ScrollAudience := (ScrollAudience e)(i := v)\<rparr>) else None)"

definition SetScrollAudience :: "int \<Rightarrow> int \<Rightarrow> Engine \<Rightarrow> Engine option" where
  "SetScrollAudience objectStatId playerStatId e =
     (if \<not> inStats objectStatId then Some e
      else if playerStatId < 0 then putAudience objectStatId 0 e
      else do {
        s \<leftarrow> statAt playerStatId e;
        p \<leftarrow> isPlayerStat s e;
        if \<not> p then putAudience objectStatId 0 e
        else putAudience objectStatId (i16 (playerStatId + 1)) e })"

definition TakeScrollAudience :: "int \<Rightarrow> Engine \<Rightarrow> int \<times> Engine" where
  "TakeScrollAudience objectStatId e =
     (if \<not> inStats objectStatId then (-1, e)
      else let audience = ScrollAudience e objectStatId;
               e = e\<lparr>ScrollAudience := (ScrollAudience e)(objectStatId := 0)\<rparr>
           in if audience = 0 then (-1, e) else (audience - 1, e))"

definition reindexScrollAudienceAfterStatRemoval :: "int \<Rightarrow> Engine \<Rightarrow> Engine option" where
  "reindexScrollAudienceAfterStatRemoval statId e =
     do { e \<leftarrow> foldM (\<lambda>i e. do {
            a \<leftarrow> audienceAt i e;
            if a = 0 then Some e
            else let audience = a - 1 in
              if audience = statId then putAudience i 0 e
              else if audience > statId then putAudience i audience e
              else Some e }) [0..StatCount (Board e)] e;
          e \<leftarrow> foldM (\<lambda>i e. do { a \<leftarrow> audienceAt i e; putAudience (i - 1) a e })
            [statId + 1..StatCount (Board e)] e;
          putAudience (StatCount (Board e)) 0 e }"

definition reindexPlayersAfterStatRemoval :: "int \<Rightarrow> Engine \<Rightarrow> Engine" where
  "reindexPlayersAfterStatRemoval statId e =
     e\<lparr>Players := (\<lambda>id. if id < statId then Players e id else Players e (id + 1))\<rparr>"

text \<open>The reference a stat holds to another (\<open>Follower\<close>, \<open>Leader\<close>) once \<open>statId\<close> is gone.\<close>

definition reindexRef :: "int \<Rightarrow> int \<Rightarrow> int" where
  "reindexRef statId r = (if r \<ge> statId then (if r = statId then -1 else r - 1) else r)"

definition RemoveStat :: "int \<Rightarrow> Engine \<Rightarrow> Engine option" where
  "RemoveStat statId e =
     do { s \<leftarrow> statAt statId e;
          e \<leftarrow> (if DataLen s \<noteq> 0 then do {
                  used \<leftarrow> firstM (\<lambda>i. do { t \<leftarrow> statAt i e;
                                            Some (Data t = Data s \<and> i \<noteq> statId) })
                           [1..StatCount (Board e)];
                  if used = None then modStat statId (\<lambda>s. s\<lparr>Data := []\<rparr>) e else Some e }
                else Some e);
          let e = (if statId < CurrentStatTicked e
                   then e\<lparr>CurrentStatTicked := i16 (CurrentStatTicked e - 1)\<rparr> else e);
          e \<leftarrow> setTile (sX s) (sY s) (Under s) e;
          e \<leftarrow> (if sY s > 0 then BoardDrawTile (sX s) (sY s) e else Some e);
          e \<leftarrow> foldM (\<lambda>i. modStat i (\<lambda>t. t\<lparr>Follower := reindexRef statId (Follower t),
                                             Leader := reindexRef statId (Leader t)\<rparr>))
                [1..StatCount (Board e)] e;
          e \<leftarrow> reindexScrollAudienceAfterStatRemoval statId e;
          e \<leftarrow> foldM (\<lambda>i e. do { t \<leftarrow> statAt i e; modStat (i - 1) (\<lambda>_. t) e })
                [statId + 1..StatCount (Board e)] e;
          let e = setStatCount (i16 (StatCount (Board e) - 1)) e;
          Some (reindexPlayersAfterStatRemoval statId e) }"

definition BoardPrepareTileForPlacement :: "int \<Rightarrow> int \<Rightarrow> Engine \<Rightarrow> (bool \<times> Engine) option" where
  "BoardPrepareTileForPlacement x y e =
     do { statId \<leftarrow> GetStatIdAt x y e;
          (result, e) \<leftarrow> (if statId > 0 then do { e \<leftarrow> RemoveStat statId e; Some (True, e) }
            else if statId < 0 then do {
              el \<leftarrow> elementAt x y e;
              d \<leftarrow> elemDef el;
              e \<leftarrow> (if \<not> PlaceableOnTop d then setElement x y E_EMPTY e else Some e);
              Some (True, e) }
            else Some (False, e));
          e \<leftarrow> BoardDrawTile x y e;
          Some (result, e) }"

section \<open>Placement\<close>

text \<open>\<open>StatAt\<close> returns a stat id and whether there is one; here the id is an option.\<close>

definition StatAt :: "int \<Rightarrow> int \<Rightarrow> int \<Rightarrow> Engine \<Rightarrow> int option option" where
  "StatAt x y exceptStatId e =
     firstM (\<lambda>i. if i = exceptStatId then Some False
                   else do { s \<leftarrow> statAt i e; Some (sX s = x \<and> sY s = y) })
       [0..StatCount (Board e)]"

definition onBoard :: "int \<Rightarrow> int \<Rightarrow> bool" where
  "onBoard x y \<longleftrightarrow> 1 \<le> x \<and> x \<le> BOARD_WIDTH \<and> 1 \<le> y \<and> y \<le> BOARD_HEIGHT"

definition PlacementUnoccupied :: "int \<Rightarrow> int \<Rightarrow> int \<Rightarrow> Engine \<Rightarrow> bool option" where
  "PlacementUnoccupied x y exceptStatId e =
     (if \<not> onBoard x y then Some False
      else do {
        el \<leftarrow> elementAt x y e;
        if el = E_PLAYER then Some False
        else do { h \<leftarrow> StatAt x y exceptStatId e; Some (h = None) } })"

definition PlacementOpen :: "int \<Rightarrow> int \<Rightarrow> int \<Rightarrow> Engine \<Rightarrow> bool option" where
  "PlacementOpen x y exceptStatId e =
     (if \<not> onBoard x y then Some False
      else do {
        el \<leftarrow> elementAt x y e;
        if el \<noteq> E_EMPTY then Some False
        else do { h \<leftarrow> StatAt x y exceptStatId e; Some (h = None) } })"

text \<open>The offsets the three nested loops of \<open>FindPlacement\<close> visit, in their order.\<close>

definition ringOffsets :: "int \<Rightarrow> (int \<times> int) list" where
  "ringOffsets radius =
     [(dx, dy). dy \<leftarrow> [- radius..radius], dx \<leftarrow> [- radius..radius],
                \<not> (absInt16 dx \<noteq> radius \<and> absInt16 dy \<noteq> radius)]"

definition FindPlacement :: "int \<Rightarrow> int \<Rightarrow> int \<Rightarrow> Engine \<Rightarrow> (int \<times> int \<times> bool) option" where
  "FindPlacement x y exceptStatId e =
     do { here \<leftarrow> PlacementOpen x y exceptStatId e;
          if here then Some (x, y, True)
          else do {
            r \<leftarrow> firstM (\<lambda>(dx, dy). PlacementOpen (i16 (x + dx)) (i16 (y + dy)) exceptStatId e)
                  (concat (map ringOffsets [1..BOARD_WIDTH]));
            Some (case r of Some (dx, dy) \<Rightarrow> (i16 (x + dx), i16 (y + dy), True)
                  | None \<Rightarrow> (x, y, False)) } }"

section \<open>Players come and go\<close>

definition SpawnPlayer :: "Engine \<Rightarrow> (int \<times> Engine) option" where
  "SpawnPlayer e =
     do { let spawnX = StartPlayerX (bInfo (Board e));
          let spawnY = StartPlayerY (bInfo (Board e));
          let (spawnX, spawnY) =
            (if spawnX < 1 \<or> spawnX > BOARD_WIDTH \<or> spawnY < 1 \<or> spawnY > BOARD_HEIGHT
             then (BOARD_WIDTH div 2, BOARD_HEIGHT div 2) else (spawnX, spawnY));
          d \<leftarrow> elemDef E_PLAYER;
          e \<leftarrow> AddStat spawnX spawnY E_PLAYER (dColor d) 1 StatTemplateDefault e;
          let statId = StatCount (Board e);
          e \<leftarrow> setTile spawnX spawnY \<lparr>Element = E_PLAYER, Color = dColor d\<rparr> e;
          let e = ResetPlayerState statId e;
          let e = SetReenterPoint statId spawnX spawnY e;
          e \<leftarrow> BoardDrawTile spawnX spawnY e;
          Some (statId, e) }"

definition RemovePlayer :: "int \<Rightarrow> Engine \<Rightarrow> Engine option" where
  "RemovePlayer statId e =
     (if statId < 0 \<or> statId > StatCount (Board e) then Some e
      else do {
        s \<leftarrow> statAt statId e;
        p \<leftarrow> isPlayerStat s e;
        e \<leftarrow> (if p then do {
                e \<leftarrow> setTile (sX s) (sY s) \<lparr>Element = E_EMPTY, Color = 0\<rparr> e;
                BoardDrawTile (sX s) (sY s) e }
              else Some e);
        RemoveStat statId e })"

end
