(* ===== verification/BoardFile.thy ===== *)
theory BoardFile
  imports Codec Stats
begin

text \<open>
  Boards and worlds as bytes (\<open>engine/game.go\<close>): \<open>BoardClose\<close> packs the live board into
  \<open>World.BoardData\<close>, \<open>BoardOpen\<close> unpacks one, \<open>worldWriteTo\<close> and \<open>worldReadFrom\<close> do the same
  for a world file. The cursor \<open>ptr\<close> of the Go is the unread suffix when reading, and an
  offset into \<open>IoTmpBuf\<close> when writing. A file is the list of its bytes; opening it is the
  operating system's.
\<close>

section \<open>Packing a board\<close>

definition inBoards :: "int \<Rightarrow> bool" where
  "inBoards i \<longleftrightarrow> 0 \<le> i \<and> i \<le> MAX_BOARD"

text \<open>The next square in the scan order of the RLE encoding.\<close>

definition nextSquare :: "int \<Rightarrow> int \<Rightarrow> int \<times> int" where
  "nextSquare ix iy = (if ix + 1 > BOARD_WIDTH then (1, iy + 1) else (ix + 1, iy))"

function closeTiles :: "int \<Rightarrow> int \<Rightarrow> TRleTile \<Rightarrow> int \<Rightarrow> int list \<Rightarrow> Engine \<Rightarrow> (int \<times> int list) option" where
  "closeTiles ix iy rle ptr buf e =
     (let (ix', iy') = nextSquare ix iy in
      do { t \<leftarrow> tileAt ix' iy' e;
           (rle, ptr, buf) \<leftarrow>
             (if Color t = Color (rTile rle) \<and> Element t = Element (rTile rle) \<and> rCount rle < 255 \<and>
                 iy' \<le> BOARD_HEIGHT
              then Some (rle\<lparr>rCount := rCount rle + 1\<rparr>, ptr, buf)
              else do {
                buf \<leftarrow> within ptr (ptr + SizeOfRleTile) (\<lambda>d. StoreRleTile d rle) buf;
                Some (\<lparr>rCount = 1, rTile = t\<rparr>, ptr + SizeOfRleTile, buf) });
           if iy' > BOARD_HEIGHT then Some (ptr, buf) else closeTiles ix' iy' rle ptr buf e })"
  by pat_completeness auto
termination
  by (relation "measures [\<lambda>(ix, iy, rle, ptr, buf, e). nat (BOARD_HEIGHT + 1 - iy),
                           \<lambda>(ix, iy, rle, ptr, buf, e). nat (BOARD_WIDTH + 1 - ix)]")
     (auto simp: nextSquare_def split: if_splits)

declare closeTiles.simps [simp del]

text \<open>A program an earlier stat already carries is stored as a reference to it.\<close>

definition shareData :: "int \<Rightarrow> Engine \<Rightarrow> Engine option" where
  "shareData ix e =
     do { s \<leftarrow> statAt ix e;
          if DataLen s > 0 then
            foldM (\<lambda>iy e. do {
                src \<leftarrow> statAt iy e;
                s \<leftarrow> statAt ix e;
                if Data src = Data s then modStat ix (\<lambda>s. s\<lparr>DataLen := (- iy)\<rparr>) e else Some e })
              [1..ix - 1] e
          else Some e }"

definition closeStat :: "int \<Rightarrow> int \<times> int list \<times> Engine \<Rightarrow> (int \<times> int list \<times> Engine) option" where
  "closeStat ix r =
     (case r of (ptr, buf, e) \<Rightarrow> do {
        e \<leftarrow> shareData ix e;
        s \<leftarrow> statAt ix e;
        buf \<leftarrow> within ptr (ptr + SizeOfStat) (\<lambda>d. StoreStat d s) buf;
        let ptr = ptr + SizeOfStat;
        if DataLen s > 0 then do {
          buf \<leftarrow> within ptr (ptr + DataLen s) (\<lambda>d. Some (copyBytes d (map ord (Data s)))) buf;
          Some (ptr + DataLen s, buf, e) }
        else Some (ptr, buf, e) })"

definition storeBoardData :: "int \<Rightarrow> int list \<Rightarrow> Engine \<Rightarrow> Engine option" where
  "storeBoardData i bs e =
     (if inBoards i
      then Some (e\<lparr>World := (World e)\<lparr>BoardLen := (BoardLen (World e))(i := i16 (int (length bs))),
                                     BoardData := (BoardData (World e))(i := bs)\<rparr>\<rparr>)
      else None)"

definition BoardClose :: "Engine \<Rightarrow> Engine option" where
  "BoardClose e =
     do { let buf = IoTmpBuf e;
          buf \<leftarrow> within 0 SizeOfBoardName (\<lambda>d. StoreString d (bName (Board e))) buf;
          t \<leftarrow> tileAt 1 1 e;
          (ptr, buf) \<leftarrow> closeTiles 1 1 \<lparr>rCount = 1, rTile = t\<rparr> SizeOfBoardName buf e;
          buf \<leftarrow> within ptr (ptr + SizeOfBoardInfo) (\<lambda>d. StoreBoardInfo d (bInfo (Board e))) buf;
          let ptr = ptr + SizeOfBoardInfo;
          buf \<leftarrow> within ptr (ptr + 2) (\<lambda>d. StoreInt16 d (StatCount (Board e))) buf;
          (ptr, buf, e) \<leftarrow> foldM closeStat [0..StatCount (Board e)] (ptr + 2, buf, e);
          boardData \<leftarrow> slice 0 ptr buf;
          storeBoardData (CurrentBoard (wInfo (World e))) boardData (e\<lparr>IoTmpBuf := buf\<rparr>) }"

section \<open>Unpacking a board\<close>

text \<open>\<open>ptr = ptr[n:]\<close>.\<close>

definition advance :: "int \<Rightarrow> int list \<Rightarrow> int list option" where
  "advance n ptr = slice n (int (length ptr)) ptr"

definition setEdges :: "Engine \<Rightarrow> Engine option" where
  "setEdges e =
     do { e \<leftarrow> foldM (\<lambda>ix e. do { e \<leftarrow> setTile ix 0 TileBoardEdge e;
                                   setTile ix (BOARD_HEIGHT + 1) TileBoardEdge e })
               [0..BOARD_WIDTH + 1] e;
          foldM (\<lambda>iy e. do { e \<leftarrow> setTile 0 iy TileBoardEdge e;
                               setTile (BOARD_WIDTH + 1) iy TileBoardEdge e })
            [0..BOARD_HEIGHT + 1] e }"

function openTiles :: "int \<Rightarrow> int \<Rightarrow> TRleTile \<Rightarrow> int list \<Rightarrow> Engine \<Rightarrow> (int list \<times> Engine) option" where
  "openTiles ix iy rle ptr e =
     do { (rle, ptr) \<leftarrow>
            (if rCount rle \<le> 0 then do {
               bs \<leftarrow> slice 0 SizeOfRleTile ptr;
               rle \<leftarrow> LoadRleTile bs;
               ptr \<leftarrow> advance SizeOfRleTile ptr;
               Some (rle, ptr) }
             else Some (rle, ptr));
          e \<leftarrow> setTile ix iy (rTile rle) e;
          let (ix', iy') = nextSquare ix iy;
          let rle = rle\<lparr>rCount := u8 (rCount rle - 1)\<rparr>;
          if iy' > BOARD_HEIGHT then Some (ptr, e) else openTiles ix' iy' rle ptr e }"
  by pat_completeness auto
termination
  by (relation "measures [\<lambda>(ix, iy, rle, ptr, e). nat (BOARD_HEIGHT + 1 - iy),
                           \<lambda>(ix, iy, rle, ptr, e). nat (BOARD_WIDTH + 1 - ix)]")
     (auto simp: nextSquare_def split: if_splits)

declare openTiles.simps [simp del]

definition openStat :: "int \<Rightarrow> int list \<times> Engine \<Rightarrow> (int list \<times> Engine) option" where
  "openStat ix r =
     (case r of (ptr, e) \<Rightarrow> do {
        old \<leftarrow> statAt ix e;
        bs \<leftarrow> slice 0 SizeOfStat ptr;
        s \<leftarrow> LoadStat bs old;
        let e = putStat ix s e;
        ptr \<leftarrow> advance SizeOfStat ptr;
        if DataLen s > 0 then do {
          bs \<leftarrow> slice 0 (DataLen s) ptr;
          e \<leftarrow> modStat ix (\<lambda>s. s\<lparr>Data := map chr bs\<rparr>) e;
          ptr \<leftarrow> advance (DataLen s) ptr;
          Some (ptr, e) }
        else if DataLen s < 0 then do {
          src \<leftarrow> statAt (i16 (- DataLen s)) e;
          e \<leftarrow> modStat ix (\<lambda>s. s\<lparr>Data := Data src\<rparr>) e;
          src \<leftarrow> statAt (i16 (- DataLen s)) e;
          e \<leftarrow> modStat ix (\<lambda>s. s\<lparr>DataLen := DataLen src\<rparr>) e;
          Some (ptr, e) }
        else Some (ptr, e) })"

definition BoardOpen :: "int \<Rightarrow> Engine \<Rightarrow> Engine option" where
  "BoardOpen boardId e =
     do { let e = e\<lparr>ScrollAudience := (\<lambda>_. 0)\<rparr>;
          let boardId = (if boardId > BoardCount (World e) then CurrentBoard (wInfo (World e)) else boardId);
          e \<leftarrow> setEdges e;
          check (inBoards boardId);
          let ptr = BoardData (World e) boardId;
          bs \<leftarrow> slice 0 SizeOfBoardName ptr;
          name \<leftarrow> LoadString bs;
          let e = e\<lparr>Board := (Board e)\<lparr>bName := name\<rparr>\<rparr>;
          ptr \<leftarrow> advance SizeOfBoardName ptr;
          (ptr, e) \<leftarrow> openTiles 1 1 \<lparr>rCount = 0, rTile = \<lparr>Element = 0, Color = 0\<rparr>\<rparr> ptr e;
          bs \<leftarrow> slice 0 SizeOfBoardInfo ptr;
          info \<leftarrow> LoadBoardInfo bs (bInfo (Board e));
          let e = modInfo (\<lambda>_. info) e;
          ptr \<leftarrow> advance SizeOfBoardInfo ptr;
          bs \<leftarrow> slice 0 2 ptr;
          n \<leftarrow> LoadInt16 bs;
          let e = setStatCount n e;
          ptr \<leftarrow> advance 2 ptr;
          (_, e) \<leftarrow> foldM openStat [0..StatCount (Board e)] (ptr, e);
          Some (modWorldInfo (\<lambda>w. w\<lparr>CurrentBoard := boardId\<rparr>) e) }"

definition BoardChange :: "int \<Rightarrow> Engine \<Rightarrow> Engine option" where
  "BoardChange boardId e =
     do { s \<leftarrow> statAt 0 e;
          d \<leftarrow> elemDef E_PLAYER;
          e \<leftarrow> setTile (sX s) (sY s) \<lparr>Element = E_PLAYER, Color = dColor d\<rparr> e;
          e \<leftarrow> BoardClose e;
          BoardOpen boardId e }"

section \<open>New boards and worlds\<close>

definition BoardCreate :: "Engine \<Rightarrow> Engine option" where
  "BoardCreate e =
     do { let e = e\<lparr>Board := (Board e)\<lparr>bName := []\<rparr>\<rparr>;
          let e = modInfo (\<lambda>i. i\<lparr>bMessage := [], MaxShots := 255, IsDark := False,
                ReenterWhenZapped := False, TimeLimitSec := 0,
                NeighborBoards := (\<lambda>n. if 0 \<le> n \<and> n \<le> 3 then 0 else NeighborBoards i n)\<rparr>) e;
          e \<leftarrow> setEdges e;
          e \<leftarrow> foldM (\<lambda>ix. foldM (\<lambda>iy. setTile ix iy \<lparr>Element = E_EMPTY, Color = 0\<rparr>)
                  [1..BOARD_HEIGHT]) [1..BOARD_WIDTH] e;
          e \<leftarrow> foldM (\<lambda>ix e. do { e \<leftarrow> setTile ix 1 TileBorder e;
                                   setTile ix BOARD_HEIGHT TileBorder e }) [1..BOARD_WIDTH] e;
          e \<leftarrow> foldM (\<lambda>iy e. do { e \<leftarrow> setTile 1 iy TileBorder e;
                                   setTile BOARD_WIDTH iy TileBorder e }) [1..BOARD_HEIGHT] e;
          d \<leftarrow> elemDef E_PLAYER;
          e \<leftarrow> setTile (BOARD_WIDTH div 2) (BOARD_HEIGHT div 2) \<lparr>Element = E_PLAYER, Color = dColor d\<rparr> e;
          let e = setStatCount 0 e;
          modStat 0 (\<lambda>s. s\<lparr>sX := BOARD_WIDTH div 2, sY := BOARD_HEIGHT div 2, sCycle := 1,
                            Under := \<lparr>Element = E_EMPTY, Color = 0\<rparr>, Data := [], DataLen := 0\<rparr>) e }"

definition InitElementsGame :: "Engine \<Rightarrow> Engine" where
  "InitElementsGame e = e\<lparr>EditorElements := False, ForceDarknessOff := False\<rparr>"

definition InstallEditorElements :: "Engine \<Rightarrow> Engine" where
  "InstallEditorElements e = e\<lparr>EditorElements := True, ForceDarknessOff := True\<rparr>"

definition InitEditorStatSettings :: "Engine \<Rightarrow> Engine" where
  "InitEditorStatSettings e =
     e\<lparr>World := (World e)\<lparr>EditorStatSettings :=
        (\<lambda>i. if 0 \<le> i \<and> i \<le> MAX_ELEMENT
             then \<lparr>esP1 = (if i = E_OBJECT then 1 else if i = E_BEAR then 8 else 4), esP2 = 4,
                   esP3 = 0, esStepX = 0, esStepY = -1\<rparr>
             else EditorStatSettings (World e) i)\<rparr>\<rparr>"

text \<open>\<open>range e.Players\<close>: every allocated state that the map reaches.\<close>

definition ResetMessageNotShownFlags :: "Engine \<Rightarrow> Engine" where
  "ResetMessageNotShownFlags e =
     (let (_, e) = PlayerFor 0 e
      in e\<lparr>PHeap := (\<lambda>a. if a \<in> ran (Players e) then resetMessageFlags (PHeap e a) else PHeap e a)\<rparr>)"

definition clearKeys :: "(int \<Rightarrow> bool) \<Rightarrow> int \<Rightarrow> bool" where
  "clearKeys ks = (\<lambda>i. if 0 \<le> i \<and> i \<le> 6 then False else ks i)"

definition WorldCreate :: "Engine \<Rightarrow> Engine option" where
  "WorldCreate e =
     do { let e = InitElementsGame e;
          let e = e\<lparr>World := (World e)\<lparr>BoardCount := 0, BoardLen := (BoardLen (World e))(0 := 0)\<rparr>\<rparr>;
          let e = InitEditorStatSettings e;
          let e = ResetMessageNotShownFlags e;
          e \<leftarrow> BoardCreate e;
          let e = modWorldInfo (\<lambda>w. w\<lparr>IsSave := False, CurrentBoard := 0, wAmmo := 0, wGems := 0,
                wHealth := 100, wEnergizerTicks := 0, wTorches := 0, wTorchTicks := 0, wScore := 0,
                wBoardTimeSec := 0, wBoardTimeHsec := 0, wKeys := clearKeys (wKeys w)\<rparr>) e;
          let (ps, e) = PlayerFor 0 e;
          let e = modPlayer ps (\<lambda>p. p\<lparr>pHealth := 100, pAmmo := 0, pGems := 0, pTorches := 0,
                pTorchTicks := 0, pEnergizerTicks := 0, pScore := 0, pBoardTimeSec := 0,
                pBoardTimeHsec := 0, pKeys := clearKeys (pKeys p)\<rparr>) e;
          let e = modWorldInfo (\<lambda>w. w\<lparr>Flags := (\<lambda>i. if 0 \<le> i \<and> i \<le> 9 then [] else Flags w i)\<rparr>) e;
          e \<leftarrow> BoardChange 0 e;
          let e = e\<lparr>Board := (Board e)\<lparr>bName := ''Title screen''\<rparr>\<rparr>;
          let e = e\<lparr>LoadedGameFileName := []\<rparr>;
          Some (modWorldInfo (\<lambda>w. w\<lparr>wName := []\<rparr>) e) }"

section \<open>World files\<close>

text \<open>A world, all zero, and the engine \<open>NewEngine\<close> returns.\<close>

definition zeroTile :: TTile where
  "zeroTile = \<lparr>Element = 0, Color = 0\<rparr>"

definition zeroStat :: TStat where
  "zeroStat =
     \<lparr>sX = 0, sY = 0, StepX = 0, StepY = 0, sCycle = 0, P1 = 0, P2 = 0, P3 = 0,
      Follower = 0, Leader = 0, Under = zeroTile, Data = [], DataPos = 0, DataLen = 0\<rparr>"

definition zeroBoard :: TBoard where
  "zeroBoard =
     \<lparr>bName = [], Tiles = (\<lambda>_ _. zeroTile), StatCount = 0, Stats = (\<lambda>_. zeroStat),
      bInfo = \<lparr>MaxShots = 0, IsDark = False, NeighborBoards = (\<lambda>_. 0), ReenterWhenZapped = False,
               bMessage = [], StartPlayerX = 0, StartPlayerY = 0, TimeLimitSec = 0\<rparr>\<rparr>"

definition zeroWorld :: TWorld where
  "zeroWorld =
     \<lparr>BoardCount = 0, BoardData = (\<lambda>_. []), BoardLen = (\<lambda>_. 0),
      wInfo = \<lparr>wAmmo = 0, wGems = 0, wKeys = (\<lambda>_. False), wHealth = 0, CurrentBoard = 0,
               wTorches = 0, wTorchTicks = 0, wEnergizerTicks = 0, wScore = 0, wName = [],
               Flags = (\<lambda>_. []), wBoardTimeSec = 0, wBoardTimeHsec = 0, IsSave = False\<rparr>,
      EditorStatSettings = (\<lambda>_. \<lparr>esP1 = 0, esP2 = 0, esP3 = 0, esStepX = 0, esStepY = 0\<rparr>)\<rparr>"

definition NewEngine :: Engine where
  "NewEngine =
     \<lparr>TransitionTable = (\<lambda>_. (0, 0)), TransitionTableSize = 0, LoadedGameFileName = [],
      SavedGameFileName = [], Board = zeroBoard, World = zeroWorld, Players = (\<lambda>_. None),
      PHeap = (\<lambda>_. newPlayerState), PNext = 0, GamePlayExitRequested = False,
      GameStateElement = 0, TickSpeed = 0, TickTimeDuration = 0, CurrentTick = 0,
      CurrentStatTicked = 0, TimerTicks = 0, ForceDarknessOff = False, EditorElements = False,
      OopChar = CHR 0x00, OopWord = [], OopValue = 0, DebugEnabled = False,
      HighScoreList = (\<lambda>_. \<lparr>hName = [], hScore = 0\<rparr>), IoTmpBuf = replicate 20000 0,
      Screen = (\<lambda>_ _. (0, 0)), Headless = False, videoDirty = [], screenDirty = [],
      ScriptTicks = [], ScriptPos = 0, RandSeed = 0, eInputDeltaX = 0, eInputDeltaY = 0,
      eInputShiftPressed = False, eInputKeyPressed = 0, eInputLastDeltaX = 0,
      eInputLastDeltaY = 0, Events = [], PendingScrollReplies = [], ScrollAudience = (\<lambda>_. 0),
      PendingDebugCommands = [], PendingSaveFilenames = [], PendingQuitReplies = [],
      SoundBlockQueueing = False, ActingPlayerStatId = -1, FriendlyFire = True,
      MultiRoom = False, gInputDeltaX = 0, gInputDeltaY = 0, gInputShiftPressed = False,
      gInputKeyPressed = 0, gInputLastDeltaX = 0, gInputLastDeltaY = 0, gSoundEnabled = True,
      gSoundIsPlaying = False, LocalDeltaX = 0, LocalDeltaY = 0\<rparr>"

definition newSnapshotEngine :: Engine where
  "newSnapshotEngine = NewEngine\<lparr>Headless := True, MultiRoom := True\<rparr>"

datatype ReadError = ReadOk | ReadEOF | ErrWorldVersion | ErrWorldCorrupt

text \<open>
  \<open>io.ReadFull\<close> into a buffer of \<open>n\<close> bytes: the buffer after the read (short reads leave its
  tail), whether it was filled, and the rest of the file.
\<close>

definition ReadFull :: "int list \<Rightarrow> int list \<Rightarrow> int list \<times> bool \<times> int list" where
  "ReadFull f buf = (copyBytes buf f, length buf \<le> length f, drop (length buf) f)"

definition adoptWorldInfo :: "TWorldInfo \<Rightarrow> PlayerState \<Rightarrow> PlayerState" where
  "adoptWorldInfo w p =
     p\<lparr>pHealth := wHealth w, pAmmo := wAmmo w, pGems := wGems w, pTorches := wTorches w,
       pTorchTicks := wTorchTicks w, pEnergizerTicks := wEnergizerTicks w, pScore := wScore w,
       pKeys := wKeys w, pBoardTimeSec := wBoardTimeSec w, pBoardTimeHsec := wBoardTimeHsec w\<rparr>"

fun readBoards ::
  "(int \<Rightarrow> Engine \<Rightarrow> Engine) \<Rightarrow> int list \<Rightarrow> int list \<Rightarrow> Engine \<Rightarrow> (ReadError \<times> Engine) option" where
  "readBoards progress [] f e = Some (ReadOk, e)"
| "readBoards progress (boardId # ids) f e =
     (let e = progress boardId e; (lenBuf, full, f) = ReadFull f [0, 0] in
      if \<not> full then Some (ReadEOF, e)
      else do {
        n \<leftarrow> LoadInt16 lenBuf;
        check (inBoards boardId);
        let e = e\<lparr>World := (World e)\<lparr>BoardLen := (BoardLen (World e))(boardId := n)\<rparr>\<rparr>;
        check (n \<ge> 0);
        let (buf, full, f) = ReadFull f (replicate (nat n) 0);
        let e = e\<lparr>World := (World e)\<lparr>BoardData := (BoardData (World e))(boardId := buf)\<rparr>\<rparr>;
        if \<not> full then Some (ReadEOF, e) else readBoards progress ids f e })"

definition setBoardCount :: "int \<Rightarrow> Engine \<Rightarrow> Engine" where
  "setBoardCount n e = e\<lparr>World := (World e)\<lparr>BoardCount := n\<rparr>\<rparr>"

text \<open>\<open>progress\<close> runs once per board; a caller without one passes the identity.\<close>

definition worldReadFrom ::
  "(int \<Rightarrow> Engine \<Rightarrow> Engine) \<Rightarrow> int list \<Rightarrow> bool \<Rightarrow> Engine \<Rightarrow> (ReadError \<times> Engine) option" where
  "worldReadFrom progress f titleOnly e =
     (let (header, full, f) = ReadFull f (take 512 (IoTmpBuf e));
          e = e\<lparr>IoTmpBuf := header @ drop 512 (IoTmpBuf e)\<rparr> in
      if \<not> full then Some (ReadEOF, e)
      else do {
        n \<leftarrow> int16At 0 (IoTmpBuf e);
        let e = setBoardCount n e;
        ptr \<leftarrow> advance 2 (IoTmpBuf e);
        if n < 0 \<and> n \<noteq> -1 then Some (ErrWorldVersion, e)
        else do {
          (ptr, e) \<leftarrow> (if n < 0 then do {
              n \<leftarrow> int16At 0 ptr;
              ptr \<leftarrow> advance 2 ptr;
              Some (ptr, setBoardCount n e) }
            else Some (ptr, e));
          if BoardCount (World e) < 0 \<or> BoardCount (World e) > MAX_BOARD
          then Some (ErrWorldCorrupt, e)
          else do {
            bs \<leftarrow> slice 0 SizeOfWorldInfo ptr;
            info \<leftarrow> LoadWorldInfo bs (wInfo (World e));
            let e = modWorldInfo (\<lambda>_. info) e;
            let (ps, e) = PlayerFor 0 e;
            let e = modPlayer ps (adoptWorldInfo info) e;
            let e = (if titleOnly
                     then modWorldInfo (\<lambda>w. w\<lparr>CurrentBoard := 0, IsSave := True\<rparr>) (setBoardCount 0 e)
                     else e);
            readBoards progress [0..BoardCount (World e)] f e } } })"

fun validateBoards :: "int list \<Rightarrow> Engine \<Rightarrow> bool" where
  "validateBoards [] e = True"
| "validateBoards (b # bs) e =
     (case BoardOpen b e of None \<Rightarrow> False | Some e \<Rightarrow> validateBoards bs e)"

text \<open>\<open>safeBoardOpen\<close> turns a panic of \<open>BoardOpen\<close> into \<open>false\<close>.\<close>

definition validateWorldBoards :: "TWorld \<Rightarrow> ReadError" where
  "validateWorldBoards world =
     (if validateBoards [0..BoardCount world] (newSnapshotEngine\<lparr>World := world\<rparr>)
      then ReadOk else ErrWorldCorrupt)"

fun writeBoards :: "int list \<Rightarrow> Engine \<Rightarrow> int list option" where
  "writeBoards [] e = Some []"
| "writeBoards (i # is) e =
     do { check (inBoards i);
          lenBuf \<leftarrow> StoreInt16 [0, 0] (BoardLen (World e) i);
          rest \<leftarrow> writeBoards is e;
          Some (lenBuf @ BoardData (World e) i @ rest) }"

definition worldWriteTo :: "Engine \<Rightarrow> (int list \<times> Engine) option" where
  "worldWriteTo e =
     do { buf \<leftarrow> putAt 0 (replicate 512 0) (IoTmpBuf e);
          buf \<leftarrow> within 0 2 (\<lambda>d. StoreInt16 d (-1)) buf;
          buf \<leftarrow> within 2 4 (\<lambda>d. StoreInt16 d (BoardCount (World e))) buf;
          buf \<leftarrow> within 4 (4 + SizeOfWorldInfo) (\<lambda>d. StoreWorldInfo d (wInfo (World e))) buf;
          header \<leftarrow> slice 0 512 buf;
          boards \<leftarrow> writeBoards [0..BoardCount (World e)] e;
          Some (header @ boards, e\<lparr>IoTmpBuf := buf\<rparr>) }"

text \<open>
  \<open>WorldSave\<close>: whether \<open>os.Create\<close> succeeds is the parameter \<open>created\<close>. The deferred
  \<open>BoardOpen\<close> runs on every return; the file's bytes are the first result. An I/O error shows
  nothing on a headless engine.
\<close>

definition WorldSave :: "bool \<Rightarrow> Engine \<Rightarrow> (int list option \<times> Engine) option" where
  "WorldSave created e =
     do { e \<leftarrow> BoardClose e;
          let e = VideoWriteText 63 5 31 ''Saving...'' e;
          (out, e) \<leftarrow> (if \<not> created then Some (None, e)
            else do {
              let (ps, e) = PlayerFor 0 e;
              let p = PHeap e ps;
              let e = modWorldInfo (\<lambda>w. w\<lparr>wHealth := pHealth p, wAmmo := pAmmo p, wGems := pGems p,
                    wTorches := pTorches p, wTorchTicks := pTorchTicks p,
                    wEnergizerTicks := pEnergizerTicks p, wScore := pScore p, wKeys := pKeys p,
                    wBoardTimeSec := pBoardTimeSec p, wBoardTimeHsec := pBoardTimeHsec p\<rparr>) e;
              (bs, e) \<leftarrow> worldWriteTo e;
              Some (Some bs, e) });
          e \<leftarrow> BoardOpen (CurrentBoard (wInfo (World e))) e;
          Some (out, SidebarClearLine 5 e) }"

end
