(* ===== verification/Sounds.thy ===== *)
theory Sounds
  imports Lib
begin

text \<open>
  \<open>engine/sounds.go\<close>: the sound queue, which in this engine is an event, and \<open>SoundParse\<close>,
  the parser of \<open>#PLAY\<close> strings. \<open>parsed_notes\<close> is what the parser promises its player:
  a sequence of (note, duration) byte pairs whose note indexes stay inside the frequency
  and drum tables.
\<close>

section \<open>The queue\<close>

definition SoundQueue :: "int \<Rightarrow> int list \<Rightarrow> Engine \<Rightarrow> Engine" where
  "SoundQueue priority pattern e =
     (if \<not> SoundBlockQueueing e
      then emit (SoundEvent pattern priority (ActingPlayerStatId e)) e else e)"

section \<open>The parser\<close>

text \<open>The tone of a note letter (the inner \<open>switch\<close>).\<close>

definition noteLetter :: "char \<Rightarrow> int option" where
  "noteLetter c =
     (if c = CHR ''C'' then Some 0 else if c = CHR ''D'' then Some 2
      else if c = CHR ''E'' then Some 4 else if c = CHR ''F'' then Some 5
      else if c = CHR ''G'' then Some 7 else if c = CHR ''A'' then Some 9
      else if c = CHR ''B'' then Some 11 else None)"

text \<open>The accidental that may follow it, and what is left of the input.\<close>

fun accidental :: "int \<Rightarrow> string \<Rightarrow> int \<times> string" where
  "accidental noteTone [] = (noteTone, [])"
| "accidental noteTone (c # input) =
     (if Length (c # input) \<noteq> 0 \<and> UpCase c = CHR ''!'' then (noteTone - 1, input)
      else if Length (c # input) \<noteq> 0 \<and> UpCase c = CHR ''#'' then (noteTone + 1, input)
      else (noteTone, c # input))"

lemma accidental_length: "length (snd (accidental t s)) \<le> length s"
  by (cases s) auto

text \<open>
  One pass of the loop: the octave and duration it leaves, the bytes it appends to
  \<open>output\<close>, and the input after the characters it consumed.
\<close>

definition SoundParse_step :: "int \<Rightarrow> int \<Rightarrow> char \<Rightarrow> string \<Rightarrow> int \<times> int \<times> int list \<times> string" where
  "SoundParse_step noteOctave noteDuration c input =
     (let u = UpCase c in
      if u = CHR ''T'' then (noteOctave, 1, [], input)
      else if u = CHR ''S'' then (noteOctave, 2, [], input)
      else if u = CHR ''I'' then (noteOctave, 4, [], input)
      else if u = CHR ''Q'' then (noteOctave, 8, [], input)
      else if u = CHR ''H'' then (noteOctave, 16, [], input)
      else if u = CHR ''W'' then (noteOctave, 32, [], input)
      else if u = CHR ''.'' then (noteOctave, quot (i16 (noteDuration * 3)) 2, [], input)
      else if u = CHR ''3'' then (noteOctave, quot noteDuration 3, [], input)
      else if u = CHR ''+'' then
        (if noteOctave < 6 then noteOctave + 1 else noteOctave, noteDuration, [], input)
      else if u = CHR ''-'' then
        (if noteOctave > 1 then noteOctave - 1 else noteOctave, noteDuration, [], input)
      else case noteLetter u of
        Some tone \<Rightarrow>
          (case accidental tone input of (noteTone, input) \<Rightarrow>
             (noteOctave, noteDuration,
              [u8 (noteOctave * 16 + noteTone), u8 noteDuration], input))
      | None \<Rightarrow>
          if u = CHR ''X'' then (noteOctave, noteDuration, [0, u8 noteDuration], input)
          else if u \<in> set ''012456789'' then
            (noteOctave, noteDuration, [u8 (ord c + 240 - ord CHR ''0''), u8 noteDuration], input)
          else (noteOctave, noteDuration, [], input))"

text \<open>
  What a pass keeps, given what it appends satisfies \<open>P\<close>: the octave stays in 1 to 6 and no
  input is added.
\<close>

definition step_ok :: "(int list \<Rightarrow> bool) \<Rightarrow> string \<Rightarrow> int \<times> int \<times> int list \<times> string \<Rightarrow> bool" where
  "step_ok P input r \<longleftrightarrow>
     (case r of (oct, dur, out, input') \<Rightarrow>
        1 \<le> oct \<and> oct \<le> 6 \<and> P out \<and> length input' \<le> length input)"

lemma step_ok_if:
  "(b \<Longrightarrow> step_ok P s x) \<Longrightarrow> (\<not> b \<Longrightarrow> step_ok P s y) \<Longrightarrow> step_ok P s (if b then x else y)"
  by simp

lemma step_ok_option:
  "(\<And>t. v = Some t \<Longrightarrow> step_ok P s (f t)) \<Longrightarrow> (v = None \<Longrightarrow> step_ok P s y) \<Longrightarrow>
   step_ok P s (case v of Some t \<Rightarrow> f t | None \<Rightarrow> y)"
  by (cases v) simp_all

lemma SoundParse_step_ok:
  assumes "1 \<le> oct" and "oct \<le> 6" and "P []"
    and "\<And>t t' s. noteLetter (UpCase c) = Some t \<Longrightarrow> accidental t input = (t', s) \<Longrightarrow>
           P [u8 (oct * 16 + t'), u8 dur]"
    and "P [0, u8 dur]"
    and "UpCase c \<in> set ''012456789'' \<Longrightarrow>
           P [u8 (ord c + 240 - ord CHR ''0''), u8 dur]"
  shows "step_ok P input (SoundParse_step oct dur c input)"
  unfolding SoundParse_step_def Let_def
proof (intro step_ok_if step_ok_option)
  fix t assume t: "noteLetter (UpCase c) = Some t"
  show "step_ok P input (case accidental t input of (t', s) \<Rightarrow>
          (oct, dur, [u8 (oct * 16 + t'), u8 dur], s))"
    using assms(1,2) assms(4) [OF t] accidental_length [of t input]
    by (cases "accidental t input") (simp add: step_ok_def)
qed (use assms in \<open>simp_all add: step_ok_def\<close>)

lemma SoundParse_step_length:
  assumes "SoundParse_step oct dur c input = (oct', dur', out, input')"
  shows "length input' \<le> length input"
  using assms accidental_length [of "the (noteLetter (UpCase c))" input]
  unfolding SoundParse_step_def Let_def
  by (simp split: if_split_asm option.split_asm prod.split_asm)

text \<open>The loop, with \<open>noteOctave\<close>, \<open>noteDuration\<close> and \<open>output\<close> as its variables.\<close>

function SoundParse_loop :: "int \<Rightarrow> int \<Rightarrow> int list \<Rightarrow> string \<Rightarrow> int list" where
  "SoundParse_loop noteOctave noteDuration output [] = output"
| "SoundParse_loop noteOctave noteDuration output (c # input) =
     (if Length (c # input) = 0 then output
      else case SoundParse_step noteOctave noteDuration c input of
        (noteOctave, noteDuration, out, input) \<Rightarrow>
          SoundParse_loop noteOctave noteDuration (output @ out) input)"
  by pat_completeness auto
termination
  by (relation "measure (\<lambda>(_, _, _, s). length s)")
     (auto simp: less_Suc_eq_le dest: SoundParse_step_length [OF sym])

definition SoundParse :: "string \<Rightarrow> int list" where
  "SoundParse input = SoundParse_loop 3 1 [] input"

section \<open>What the player may rely on\<close>

text \<open>
  A rest, a note whose index the frequency table has (octaves 1 to 6 with their
  accidentals), or one of the nine drums.
\<close>

definition playable :: "int \<Rightarrow> bool" where
  "playable n \<longleftrightarrow> n = 0 \<or> 15 \<le> n \<and> n \<le> 108 \<or> 240 \<le> n \<and> n \<le> 249 \<and> n \<noteq> 243"

fun parsed_notes :: "int list \<Rightarrow> bool" where
  "parsed_notes [] \<longleftrightarrow> True"
| "parsed_notes [n] \<longleftrightarrow> False"
| "parsed_notes (n # d # ns) \<longleftrightarrow> playable n \<and> 0 \<le> d \<and> d \<le> 255 \<and> parsed_notes ns"

lemma parsed_notes_append:
  "parsed_notes ns \<Longrightarrow> parsed_notes ms \<Longrightarrow> parsed_notes (ns @ ms)"
  by (induction ns rule: parsed_notes.induct) auto

lemma noteLetter_range: "noteLetter c = Some t \<Longrightarrow> 0 \<le> t \<and> t \<le> 11"
  by (auto simp: noteLetter_def split: if_splits)

lemma accidental_range:
  "accidental t s = (t', s') \<Longrightarrow> t - 1 \<le> t' \<and> t' \<le> t + 1"
  by (cases s) (auto split: if_splits)

lemma tone_playable:
  assumes "1 \<le> oct" "oct \<le> 6" "0 \<le> t" "t \<le> 11" "accidental t s = (t', s')"
  shows "playable (u8 (oct * 16 + t'))"
proof -
  have "t - 1 \<le> t'" "t' \<le> t + 1" using accidental_range [OF assms(5)] by auto
  then have "15 \<le> oct * 16 + t'" "oct * 16 + t' \<le> 108" using assms by linarith+
  then show ?thesis by (simp add: playable_def)
qed

lemma drum_playable:
  assumes "UpCase c \<in> set ''012456789''"
  shows "playable (u8 (ord c + 240 - ord CHR ''0''))"
proof -
  have "ord CHR ''a'' = 97" "ord CHR ''z'' = 122" by (simp_all add: ord_def)
  moreover have "ord (UpCase c) \<le> 57" using assms by (auto simp: ord_def)
  ultimately have "UpCase c = c"
    by (auto simp: UpCase_def split: if_splits)
  then show ?thesis using assms by (auto simp: ord_def playable_def u8_def)
qed

lemma SoundParse_step_parsed:
  assumes "SoundParse_step oct dur c input = (oct', dur', out, input')" "1 \<le> oct" "oct \<le> 6"
  shows "1 \<le> oct' \<and> oct' \<le> 6 \<and> parsed_notes out"
proof -
  have "playable (u8 (oct * 16 + t'))"
    if "noteLetter (UpCase c) = Some t" and "accidental t input = (t', s)" for t t' s
    using tone_playable [OF assms(2,3) _ _ that(2)] noteLetter_range [OF that(1)] by blast
  then have "step_ok parsed_notes input (SoundParse_step oct dur c input)"
    using assms(2,3) u8_bounds [of dur] drum_playable [of c]
    by (intro SoundParse_step_ok) (simp_all add: playable_def [of 0])
  then show ?thesis using assms(1) by (simp add: step_ok_def)
qed

lemma SoundParse_loop_parsed:
  "parsed_notes out \<Longrightarrow> 1 \<le> oct \<Longrightarrow> oct \<le> 6 \<Longrightarrow> parsed_notes (SoundParse_loop oct dur out s)"
proof (induction oct dur out s rule: SoundParse_loop.induct)
  case (2 oct dur out c s)
  obtain oct' dur' out' s' where step: "SoundParse_step oct dur c s = (oct', dur', out', s')"
    by (metis prod_cases4)
  then have "1 \<le> oct' \<and> oct' \<le> 6 \<and> parsed_notes out'"
    using SoundParse_step_parsed 2 by blast
  then show ?case using 2 step by (simp add: parsed_notes_append)
qed simp

text \<open>
  C9. Whatever text a world hands to \<open>#PLAY\<close>, \<open>SoundParse\<close> yields complete (note, duration)
  pairs, and every note is a rest, an entry of the frequency table or an existing drum: the
  player never indexes its tables out of range.
\<close>

theorem SoundParse_playable: "parsed_notes (SoundParse input)"
  by (simp add: SoundParse_def SoundParse_loop_parsed)

end
