(* ===== verification/Combat.thy ===== *)
theory Combat
  imports Stats Sounds
begin

text \<open>
  Messages, damage, attack and shooting (\<open>engine/game.go\<close>). A procedure that holds
  \<open>stat := &e.Board.Stats[id]\<close> across a call that renumbers the stats reads index \<open>id\<close> again
  here, as the Go pointer does; a \<open>*PlayerState\<close> is an address and keeps naming the same
  player.
\<close>

section \<open>The sidebar\<close>

text \<open>\<open>numStr + " "\<close> written at column 72 of a sidebar row.\<close>

definition sidebarNumber :: "int \<Rightarrow> int \<Rightarrow> string \<Rightarrow> Engine \<Rightarrow> Engine" where
  "sidebarNumber row v pad e = VideoWriteText 72 row 30 (Str v @ pad) e"

definition GameUpdateSidebar :: "Engine \<Rightarrow> Engine option" where
  "GameUpdateSidebar e =
     (if GameStateElement e \<noteq> E_PLAYER then Some e
      else do {
        let (ps, e) = PlayerFor 0 e;
        let e = (if TimeLimitSec (bInfo (Board e)) > 0
          then let e = VideoWriteText 64 6 30 ''   Time:'' e in
               sidebarNumber 6 (i16 (TimeLimitSec (bInfo (Board e)) - pBoardTimeSec (PHeap e ps))) '' '' e
          else SidebarClearLine 6 e);
        let e = (if pHealth (PHeap e ps) < 0 then modPlayer ps (\<lambda>p. p\<lparr>pHealth := 0\<rparr>) e else e);
        let e = sidebarNumber 7 (pHealth (PHeap e ps)) '' '' e;
        let e = sidebarNumber 8 (pAmmo (PHeap e ps)) ''  '' e;
        let e = sidebarNumber 9 (pTorches (PHeap e ps)) '' '' e;
        let e = sidebarNumber 10 (pGems (PHeap e ps)) '' '' e;
        let e = sidebarNumber 11 (pScore (PHeap e ps)) '' '' e;
        let e = (if pTorchTicks (PHeap e ps) = 0 then VideoWriteText 75 9 22 ''    '' e
          else fold (\<lambda>i e. VideoWriteText (73 + i) 9 22
                  [chr (if i \<le> quot (i16 (pTorchTicks (PHeap e ps) * 5)) TORCH_DURATION
                        then 177 else 176)] e) [2..5] e);
        d \<leftarrow> elemDef E_KEY;
        let e = fold (\<lambda>i e. if pKeys (PHeap e ps) (i - 1)
                  then VideoWriteText (71 + i) 12 (u8 (24 + i)) [chr (Character d)] e
                  else VideoWriteText (71 + i) 12 31 '' '' e) [1..7] e;
        let (ps0, e) = PlayerFor 0 e;
        Some (VideoWriteText 65 15 31
                (if pSoundEnabled (PHeap e ps0) then '' Be quiet'' else '' Be noisy'') e) })"

section \<open>Messages\<close>

definition DisplayMessage :: "int \<Rightarrow> string \<Rightarrow> Engine \<Rightarrow> Engine option" where
  "DisplayMessage time message e =
     do { timer \<leftarrow> GetStatIdAt 0 0 e;
          e \<leftarrow> (if timer \<noteq> -1 then do { e \<leftarrow> RemoveStat timer e; BoardDrawBorder e }
                else Some e);
          if Length message \<noteq> 0 then do {
            e \<leftarrow> AddStat 0 0 E_MESSAGE_TIMER 0 1 StatTemplateDefault e;
            check (i16 (TickTimeDuration e + 1) \<noteq> 0);
            e \<leftarrow> modStat (StatCount (Board e))
                  (\<lambda>s. s\<lparr>P2 := u8 (quot time (i16 (TickTimeDuration e + 1)))\<rparr>) e;
            Some (modInfo (\<lambda>i. i\<lparr>bMessage := message\<rparr>) e) }
          else Some e }"

section \<open>Damage\<close>

definition killPlayer :: "int \<Rightarrow> Engine \<Rightarrow> Engine" where
  "killPlayer statId e =
     (let (ps, e) = PlayerFor statId e;
          e = SoundQueue 5 [32, 3, 35, 3, 39, 3, 48, 3, 39, 3, 42, 3, 50, 3, 55, 3, 53, 3, 56, 3, 64, 3, 69, 3, 16, 10] e;
          e = modPlayer ps (\<lambda>p. p\<lparr>pScore :=
                 (if pScore p \<ge> RESPAWN_SCORE_PENALTY then pScore p - RESPAWN_SCORE_PENALTY
                  else 0)\<rparr>) e;
          e = modPlayer ps (\<lambda>p. p\<lparr>RespawnTicks := RESPAWN_TICKS\<rparr>) e
      in emit (DeathEvent statId) e)"

text \<open>The \<open>ReenterWhenZapped\<close> block of \<open>DamageStat\<close>.\<close>

definition reenterPlayer :: "int \<Rightarrow> int \<Rightarrow> Engine \<Rightarrow> Engine option" where
  "reenterPlayer statId ps e =
     do { let e = SoundQueue 4 [32, 1, 35, 1, 39, 1, 48, 1, 16, 1] e;
          s \<leftarrow> statAt statId e;
          let oldX = sX s;
          let oldY = sY s;
          e \<leftarrow> setElement oldX oldY E_EMPTY e;
          e \<leftarrow> BoardDrawTile oldX oldY e;
          let ((reX, reY), e) = ReenterPoint statId e;
          held \<leftarrow> StatAt reX reY statId e;
          (reX, reY) \<leftarrow> (if held \<noteq> None then do {
              (x, y, found) \<leftarrow> FindPlacement reX reY statId e;
              Some (if found then (x, y) else (oldX, oldY)) }
            else Some (reX, reY));
          let moved = (reX \<noteq> oldX \<or> reY \<noteq> oldY);
          e \<leftarrow> modStat statId (\<lambda>s. s\<lparr>sX := u8 reX, sY := u8 reY\<rparr>) e;
          e \<leftarrow> (if moved then do { t \<leftarrow> tileAt reX reY e; modStat statId (\<lambda>s. s\<lparr>Under := t\<rparr>) e }
                else Some e);
          d \<leftarrow> elemDef E_PLAYER;
          e \<leftarrow> setTile (u8 reX) (u8 reY) \<lparr>Element = E_PLAYER, Color = dColor d\<rparr> e;
          e \<leftarrow> BoardDrawTile (u8 reX) (u8 reY) e;
          e \<leftarrow> redrawSurroundings oldX oldY e;
          e \<leftarrow> redrawSurroundings (u8 reX) (u8 reY) e;
          let e = modPlayer ps (\<lambda>p. p\<lparr>Paused := True\<rparr>) e;
          Some (emit (PauseEvent statId True) e) }"

text \<open>Damage to a player stat whose health is positive.\<close>

definition damagePlayer :: "int \<Rightarrow> int \<Rightarrow> Engine \<Rightarrow> Engine option" where
  "damagePlayer statId ps e =
     do { let e = modPlayer ps (\<lambda>p. p\<lparr>pHealth := i16 (pHealth p - 10)\<rparr>) e;
          e \<leftarrow> GameUpdateSidebar e;
          e \<leftarrow> DisplayMessage 100 ''Ouch!'' e;
          s \<leftarrow> statAt statId e;
          d \<leftarrow> elemDef E_PLAYER;
          e \<leftarrow> setColor (sX s) (sY s) (u8 (112 + dColor d mod 16)) e;
          if pHealth (PHeap e ps) > 0 then do {
            let e = modPlayer ps (\<lambda>p. p\<lparr>pBoardTimeSec := 0\<rparr>) e;
            e \<leftarrow> (if ReenterWhenZapped (bInfo (Board e)) then reenterPlayer statId ps e else Some e);
            Some (SoundQueue 4 [16, 1, 32, 1, 19, 1, 35, 1] e) }
          else Some (killPlayer statId e) }"

definition DamageStat :: "int \<Rightarrow> Engine \<Rightarrow> Engine option" where
  "DamageStat attackerStatId e =
     do { s \<leftarrow> statAt attackerStatId e;
          p \<leftarrow> isPlayerStat s e;
          if p then do {
            let prev = ActingPlayerStatId e;
            let e = e\<lparr>ActingPlayerStatId := attackerStatId\<rparr>;
            let (ps, e) = PlayerFor attackerStatId e;
            e \<leftarrow> (if pHealth (PHeap e ps) > 0 then damagePlayer attackerStatId ps e else Some e);
            Some (e\<lparr>ActingPlayerStatId := prev\<rparr>) }
          else do {
            el \<leftarrow> elementAt (sX s) (sY s) e;
            let e = (if el = E_BULLET then SoundQueue 3 [32, 1] e
                     else if el = E_OBJECT then e
                     else SoundQueue 3 [64, 1, 16, 1, 80, 1, 48, 1] e);
            RemoveStat attackerStatId e } }"

definition BoardDamageTile :: "int \<Rightarrow> int \<Rightarrow> Engine \<Rightarrow> Engine option" where
  "BoardDamageTile x y e =
     do { statId \<leftarrow> GetStatIdAt x y e;
          if statId \<noteq> -1 then DamageStat statId e
          else do { e \<leftarrow> setElement x y E_EMPTY e; BoardDrawTile x y e } }"

text \<open>\<open>pState.Score = ElementDefs[el].ScoreValue + pState.Score\<close>.\<close>

definition addScore :: "int \<Rightarrow> int \<Rightarrow> Engine \<Rightarrow> Engine option" where
  "addScore ps el e =
     do { d \<leftarrow> elemDef el;
          Some (modPlayer ps (\<lambda>p. p\<lparr>pScore := i16 (ScoreValue d + pScore p)\<rparr>) e) }"

definition BoardAttack :: "int \<Rightarrow> int \<Rightarrow> int \<Rightarrow> Engine \<Rightarrow> Engine option" where
  "BoardAttack attackerStatId x y e =
     do { s \<leftarrow> statAt attackerStatId e;
          isPlayerAttacker \<leftarrow> isPlayerStat s e;
          let (ps, e) = PlayerFor attackerStatId e;
          e \<leftarrow> (if isPlayerAttacker \<and> pEnergizerTicks (PHeap e ps) > 0 then do {
                  el \<leftarrow> elementAt x y e;
                  e \<leftarrow> addScore ps el e;
                  GameUpdateSidebar e }
                else DamageStat attackerStatId e);
          let e = (if attackerStatId > 0 \<and> attackerStatId \<le> CurrentStatTicked e
                   then e\<lparr>CurrentStatTicked := i16 (CurrentStatTicked e - 1)\<rparr> else e);
          defenderStatId \<leftarrow> GetStatIdAt x y e;
          el \<leftarrow> elementAt x y e;
          let (energized, e) =
            (if el = E_PLAYER \<and> defenderStatId \<noteq> -1
             then let (pd, e) = PlayerFor defenderStatId e in (pEnergizerTicks (PHeap e pd) > 0, e)
             else (False, e));
          if energized then do {
            a \<leftarrow> statAt attackerStatId e;
            ael \<leftarrow> elementAt (sX a) (sY a) e;
            let (pd, e) = PlayerFor defenderStatId e;
            e \<leftarrow> addScore pd ael e;
            GameUpdateSidebar e }
          else do {
            e \<leftarrow> BoardDamageTile x y e;
            Some (SoundQueue 2 [16, 1] e) } }"

section \<open>Shooting\<close>

definition pointBlankEnergizerTicks :: "int \<Rightarrow> int \<Rightarrow> Engine \<Rightarrow> (int \<times> Engine) option" where
  "pointBlankEnergizerTicks x y e =
     do { el \<leftarrow> elementAt x y e;
          held \<leftarrow> (if el = E_PLAYER then StatAt x y (-1) e else Some None);
          let (ps, e) = PlayerFor (case held of Some i \<Rightarrow> i | None \<Rightarrow> 0) e;
          Some (pEnergizerTicks (PHeap e ps), e) }"

definition BoardShoot :: "int \<Rightarrow> int \<Rightarrow> int \<Rightarrow> int \<Rightarrow> int \<Rightarrow> int \<Rightarrow> Engine \<Rightarrow> (bool \<times> Engine) option" where
  "BoardShoot element tx ty deltaX deltaY source e =
     do { let x = i16 (tx + deltaX);
          let y = i16 (ty + deltaY);
          el \<leftarrow> elementAt x y e;
          d \<leftarrow> elemDef el;
          if Walkable d \<or> el = E_WATER then do {
            b \<leftarrow> elemDef element;
            e \<leftarrow> AddStat x y element (dColor b) 1 StatTemplateDefault e;
            e \<leftarrow> modStat (StatCount (Board e))
                  (\<lambda>s. s\<lparr>P1 := u8 source, StepX := deltaX, StepY := deltaY, P2 := 100\<rparr>) e;
            Some (True, e) }
          else do {
            (hit, e) \<leftarrow> (if el = E_BREAKABLE then Some (True, e)
              else if Destructible d \<and> (el = E_PLAYER \<or> source \<ge> SHOT_SOURCE_PLAYER_BASE) then do {
                (ticks, e) \<leftarrow> pointBlankEnergizerTicks x y e;
                Some (ticks \<le> 0, e) }
              else Some (False, e));
            if \<not> hit then Some (False, e)
            else do {
              refused \<leftarrow> (if el = E_PLAYER \<and> source \<ge> SHOT_SOURCE_PLAYER_BASE then do {
                  held \<leftarrow> StatAt x y (-1) e;
                  let targetStatId = (case held of Some i \<Rightarrow> i | None \<Rightarrow> 0);
                  let ownerStatId = source - SHOT_SOURCE_PLAYER_BASE;
                  Some (\<not> FriendlyFire e \<or> targetStatId = ownerStatId) }
                else Some False);
              if refused then Some (False, e)
              else do {
                e \<leftarrow> BoardDamageTile x y e;
                Some (True, SoundQueue 2 [16, 1] e) } } } }"

section \<open>Directions\<close>

definition CalcDirectionRnd :: "Engine \<Rightarrow> (int \<times> int) \<times> Engine" where
  "CalcDirectionRnd e =
     (let (r, e) = Random 3 e; deltaX = i16 (r - 1)
      in if deltaX = 0 then let (r, e) = Random 2 e in ((deltaX, i16 (i16 (r * 2) - 1)), e)
         else ((deltaX, 0), e))"

definition CalcDirectionSeek :: "int \<Rightarrow> int \<Rightarrow> Engine \<Rightarrow> ((int \<times> int) \<times> Engine) option" where
  "CalcDirectionSeek x y e =
     do { pId \<leftarrow> NearestPlayer x y e;
          target \<leftarrow> statAt pId e;
          let (r, e) = Random 2 e;
          let deltaX = (if r < 1 \<or> sY target = y then Signum (i16 (sX target - x)) else 0);
          let deltaY = (if deltaX = 0 then Signum (i16 (sY target - y)) else 0);
          let (ps, e) = PlayerFor pId e;
          Some (if pEnergizerTicks (PHeap e ps) > 0 then ((- deltaX, - deltaY), e)
                else ((deltaX, deltaY), e)) }"

end
