(* ===== verification/Oop.thy ===== *)
theory Oop
  imports Combat
begin

text \<open>
  The readers, lookups and messages of \<open>engine/oop.go\<close>. A reader takes the position in the
  program and returns the new one. \<open>OopExecute\<close> passes \<open>&stat.DataPos\<close>, so for it the position
  is that field of stat \<open>statId\<close> (\<open>onDataPos\<close>), which \<open>OopError\<close> also writes.
\<close>

section \<open>Errors and characters\<close>

definition OopError :: "int \<Rightarrow> string \<Rightarrow> Engine \<Rightarrow> Engine option" where
  "OopError statId message e =
     do { _ \<leftarrow> statAt statId e;
          e \<leftarrow> DisplayMessage 200 (''ERR: '' @ message) e;
          let e = SoundQueue 5 [80, 10] e;
          modStat statId (\<lambda>s. s\<lparr>DataPos := -1\<rparr>) e }"

definition NUL :: char where
  "NUL = CHR 0x00"

definition CR :: char where
  "CR = CHR 0x0D"

text \<open>The increment cannot wrap: \<open>position\<close> is below \<open>DataLen\<close>, which is an \<open>int16\<close>.\<close>

definition OopReadChar :: "int \<Rightarrow> int \<Rightarrow> Engine \<Rightarrow> (int \<times> Engine) option" where
  "OopReadChar statId position e =
     do { s \<leftarrow> statAt statId e;
          if position \<ge> 0 \<and> position < DataLen s
          then do { c \<leftarrow> index (Data s) position; Some (position + 1, e\<lparr>OopChar := c\<rparr>) }
          else Some (position, e\<lparr>OopChar := NUL\<rparr>) }"

text \<open>
  How much of the program is left: each reader's loop ends because a character other than
  the end marker was read out of it.
\<close>

definition remaining :: "int \<Rightarrow> int \<Rightarrow> Engine \<Rightarrow> nat" where
  "remaining statId position e = nat (DataLen (Stats (Board e) statId) - position)"

lemma OopReadChar_frame:
  "OopReadChar statId p e = Some (p', e') \<Longrightarrow> e' = e\<lparr>OopChar := OopChar e'\<rparr>"
  by (auto simp: OopReadChar_def split: if_splits Option.bind_splits)

lemma OopReadChar_progress:
  assumes "OopReadChar statId p e = Some (p', e')" and "OopChar e' \<noteq> NUL"
  shows "remaining statId p' e' < remaining statId p e"
  using assms
  by (auto simp: OopReadChar_def statAt_def remaining_def split: if_splits Option.bind_splits)

lemma remaining_OopChar [simp]:
  "remaining statId p (e\<lparr>OopChar := c\<rparr>) = remaining statId p e"
  "remaining statId p (e\<lparr>OopWord := w\<rparr>) = remaining statId p e"
  by (simp_all add: remaining_def)

lemma NUL_neq [simp]: "CHR '' '' \<noteq> NUL" "CHR '':'' \<noteq> NUL" "CHR ''0'' \<noteq> NUL"
  by (simp_all add: NUL_def)

lemmas NUL_neq' [simp] = NUL_neq [symmetric]

section \<open>Words, values and lines\<close>

text \<open>\<open>for { e.OopReadChar(...); if e.OopChar != ' ' { break } }\<close>.\<close>

function skipSpaces :: "int \<Rightarrow> int \<Rightarrow> Engine \<Rightarrow> (int \<times> Engine) option" where
  "skipSpaces statId position e =
     do { (position, e) \<leftarrow> OopReadChar statId position e;
          if OopChar e \<noteq> CHR '' '' then Some (position, e) else skipSpaces statId position e }"
  by pat_completeness auto
termination
  by (relation "measure (\<lambda>(statId, p, e). remaining statId p e)")
     (auto intro!: OopReadChar_progress)

declare skipSpaces.simps [simp del]

definition isUpper :: "char \<Rightarrow> bool" where
  "isUpper c \<longleftrightarrow> ord CHR ''A'' \<le> ord c \<and> ord c \<le> ord CHR ''Z''"

definition isWordChar :: "char \<Rightarrow> bool" where
  "isWordChar c \<longleftrightarrow> isUpper c \<or> c = CHR '':'' \<or> isDigit c \<or> c = CHR ''_''"

text \<open>Reads the next character and upper-cases it.\<close>

definition readUpper :: "int \<Rightarrow> int \<Rightarrow> Engine \<Rightarrow> (int \<times> Engine) option" where
  "readUpper statId position e =
     do { (position, e) \<leftarrow> OopReadChar statId position e;
          Some (position, e\<lparr>OopChar := UpCase (OopChar e)\<rparr>) }"

lemma UpCase_NUL: "UpCase c = NUL \<longleftrightarrow> c = NUL"
proof -
  have "ord CHR ''a'' = 97" "ord CHR ''z'' = 122" "ord NUL = 0"
    by (simp_all add: ord_def NUL_def)
  then have "ord (UpCase c) = 0 \<longleftrightarrow> ord c = 0" by (auto simp: UpCase_def)
  then show ?thesis using \<open>ord NUL = 0\<close> by (metis ord_inject)
qed

lemma readUpper_progress:
  assumes "readUpper statId p e = Some (p', e')" and "OopChar e' \<noteq> NUL"
  shows "remaining statId p' e' < remaining statId p e"
  using assms
  by (auto simp: readUpper_def UpCase_NUL dest!: OopReadChar_progress split: Option.bind_splits)

text \<open>
  The word loop of \<open>OopReadWord\<close> and the digit loop of \<open>OopReadValue\<close>: while the character
  in hand satisfies \<open>p\<close>, append it to the accumulator and read the next.
\<close>

function readWhile :: "(char \<Rightarrow> bool) \<Rightarrow> int \<Rightarrow> string \<Rightarrow> int \<Rightarrow> Engine \<Rightarrow> (string \<times> int \<times> Engine) option" where
  "readWhile p statId acc position e =
     (if p (OopChar e) then do {
        (position', e') \<leftarrow> readUpper statId position e;
        if OopChar e' = NUL then Some (acc @ [OopChar e], position', e')
        else readWhile p statId (acc @ [OopChar e]) position' e' }
      else Some (acc, position, e))"
  by pat_completeness auto
termination
  by (relation "measure (\<lambda>(p, statId, acc, pos, e). remaining statId pos e)")
     (auto dest: readUpper_progress)

declare readWhile.simps [simp del]

text \<open>\<open>if *position > 0 { *position-- }\<close>.\<close>

definition stepBack :: "int \<Rightarrow> int" where
  "stepBack position = (if position > 0 then position - 1 else position)"

definition OopReadWord :: "int \<Rightarrow> int \<Rightarrow> Engine \<Rightarrow> (int \<times> Engine) option" where
  "OopReadWord statId position e =
     do { (position, e) \<leftarrow> skipSpaces statId position (e\<lparr>OopWord := []\<rparr>);
          let e = e\<lparr>OopChar := UpCase (OopChar e)\<rparr>;
          (w, position, e) \<leftarrow>
            (if \<not> isDigit (OopChar e) then readWhile isWordChar statId [] position e
             else Some ([], position, e));
          Some (stepBack position, e\<lparr>OopWord := w\<rparr>) }"

definition OopReadValue :: "int \<Rightarrow> int \<Rightarrow> Engine \<Rightarrow> (int \<times> Engine) option" where
  "OopReadValue statId position e =
     do { (position, e) \<leftarrow> skipSpaces statId position e;
          let e = e\<lparr>OopChar := UpCase (OopChar e)\<rparr>;
          (s, position, e) \<leftarrow> readWhile isDigit statId [] position e;
          Some (stepBack position, e\<lparr>OopValue := (if Length s \<noteq> 0 then fst (Val s) else -1)\<rparr>) }"

function OopSkipLine :: "int \<Rightarrow> int \<Rightarrow> Engine \<Rightarrow> (int \<times> Engine) option" where
  "OopSkipLine statId position e =
     do { (position, e) \<leftarrow> OopReadChar statId position e;
          if OopChar e = NUL \<or> OopChar e = CR then Some (position, e)
          else OopSkipLine statId position e }"
  by pat_completeness auto
termination
  by (relation "measure (\<lambda>(statId, p, e). remaining statId p e)")
     (auto dest: OopReadChar_progress)

declare OopSkipLine.simps [simp del]

lemma OopReadChar_remaining:
  "OopReadChar statId p e = Some (p', e') \<Longrightarrow> remaining statId p' e' \<le> remaining statId p e"
  by (auto simp: OopReadChar_def remaining_def split: if_splits Option.bind_splits)

lemma OopSkipLine_ok:
  "ok (\<lambda>(p', e'). remaining statId p' e' \<le> remaining statId p e) (OopSkipLine statId p e)"
proof (induction statId p e rule: OopSkipLine.induct)
  case (1 statId p e)
  show ?case
  proof (subst OopSkipLine.simps, intro ok_bind_eq ok_prod ok_if)
    fix x p1 e1 assume x: "OopReadChar statId p e = Some x" "x = (p1, e1)"
    then have le: "remaining statId p1 e1 \<le> remaining statId p e"
      by (simp add: OopReadChar_remaining)
    then show "ok (\<lambda>(p', e'). remaining statId p' e' \<le> remaining statId p e) (Some (p1, e1))"
      by simp
    assume "\<not> (OopChar e1 = NUL \<or> OopChar e1 = CR)"
    with 1 x have "ok (\<lambda>(p', e'). remaining statId p' e' \<le> remaining statId p1 e1)
        (OopSkipLine statId p1 e1)" by blast
    then show "ok (\<lambda>(p', e'). remaining statId p' e' \<le> remaining statId p e)
        (OopSkipLine statId p1 e1)" by (rule ok_mono) (use le in auto)
  qed
qed

lemma OopSkipLine_remaining:
  "OopSkipLine statId p e = Some (p', e') \<Longrightarrow> remaining statId p' e' \<le> remaining statId p e"
  using OopSkipLine_ok by (fastforce simp: ok_def)

text \<open>The loop of \<open>OopReadLineToEnd\<close>, with the character in hand.\<close>

function readLine :: "int \<Rightarrow> string \<Rightarrow> int \<Rightarrow> Engine \<Rightarrow> (string \<times> int \<times> Engine) option" where
  "readLine statId s position e =
     (if OopChar e \<noteq> NUL \<and> OopChar e \<noteq> CR then do {
        (position', e') \<leftarrow> OopReadChar statId position e;
        if OopChar e' = NUL then Some (s @ [OopChar e], position', e')
        else readLine statId (s @ [OopChar e]) position' e' }
      else Some (s, position, e))"
  by pat_completeness auto
termination
  by (relation "measure (\<lambda>(statId, s, p, e). remaining statId p e)")
     (auto dest: OopReadChar_progress)

declare readLine.simps [simp del]

definition OopReadLineToEnd :: "int \<Rightarrow> int \<Rightarrow> Engine \<Rightarrow> (string \<times> int \<times> Engine) option" where
  "OopReadLineToEnd statId position e =
     do { (position, e) \<leftarrow> OopReadChar statId position e; readLine statId [] position e }"

text \<open>Reading changes the character and the word in hand, and nothing else.\<close>

lemma OopReadChar_Board: "OopReadChar statId p e = Some (p', e') \<Longrightarrow> Board e' = Board e"
  by (auto simp: OopReadChar_def split: if_splits Option.bind_splits)

definition keepsBoard :: "Engine \<Rightarrow> 'a \<times> Engine \<Rightarrow> bool" where
  "keepsBoard e r \<longleftrightarrow> Board (snd r) = Board e"

lemma skipSpaces_ok: "ok (keepsBoard e) (skipSpaces statId p e)"
proof (induction statId p e rule: skipSpaces.induct)
  case (1 statId p e)
  show ?case
  proof (subst skipSpaces.simps, intro ok_bind_eq ok_prod ok_if)
    fix x p' e' assume x: "OopReadChar statId p e = Some x" "x = (p', e')"
    then have "Board e' = Board e" by (simp add: OopReadChar_Board)
    then show "ok (keepsBoard e) (Some (p', e'))" by (simp add: keepsBoard_def)
    assume "\<not> OopChar e' \<noteq> CHR '' ''"
    then have "ok (keepsBoard e') (skipSpaces statId p' e')" using 1 x by blast
    with \<open>Board e' = Board e\<close> show "ok (keepsBoard e) (skipSpaces statId p' e')"
      by (simp add: keepsBoard_def [abs_def])
  qed
qed

lemma readWhile_ok:
  "ok (\<lambda>(w, r). keepsBoard e r) (readWhile p statId acc pos e)"
proof (induction p statId acc pos e rule: readWhile.induct)
  case (1 p statId acc pos e)
  show ?case
  proof (subst readWhile.simps, intro ok_bind_eq ok_prod ok_if)
    fix x pos' e' assume pc: "p (OopChar e)" and x: "readUpper statId pos e = Some x" "x = (pos', e')"
    then have b: "Board e' = Board e"
      by (auto simp: readUpper_def dest!: OopReadChar_Board split: Option.bind_splits)
    then show "ok (\<lambda>(w, r). keepsBoard e r) (Some (acc @ [OopChar e], pos', e'))"
      by (simp add: keepsBoard_def)
    assume "OopChar e' \<noteq> NUL"
    then have "ok (\<lambda>(w, r). keepsBoard e' r) (readWhile p statId (acc @ [OopChar e]) pos' e')"
      using 1 pc x by blast
    with b show "ok (\<lambda>(w, r). keepsBoard e r) (readWhile p statId (acc @ [OopChar e]) pos' e')"
      by (simp add: keepsBoard_def [abs_def])
  qed (simp add: keepsBoard_def)
qed

lemma OopReadWord_ok: "ok (keepsBoard e) (OopReadWord statId p e)"
  unfolding OopReadWord_def
proof (intro ok_bind_eq ok_prod ok_let)
  fix x p1 e1 e2 y w r p2 e3
  assume x: "skipSpaces statId p (e\<lparr>OopWord := []\<rparr>) = Some x" "x = (p1, e1)"
    and e2: "e2 = e1\<lparr>OopChar := UpCase (OopChar e1)\<rparr>"
    and y: "(if \<not> isDigit (OopChar e2) then readWhile isWordChar statId [] p1 e2
             else Some ([], p1, e2)) = Some y" "y = (w, r)" "r = (p2, e3)"
  have "Board e1 = Board e"
    using okD [OF skipSpaces_ok x(1)] x(2) by (simp add: keepsBoard_def)
  moreover have "Board e3 = Board e2"
    using y okD [OF readWhile_ok, of isWordChar statId "[]" p1 e2 y]
    by (auto simp: keepsBoard_def split: if_splits)
  ultimately show "ok (keepsBoard e) (Some (stepBack p2, e3\<lparr>OopWord := w\<rparr>))"
    by (simp add: keepsBoard_def e2)
qed

lemma OopReadWord_Board: "OopReadWord statId p e = Some (p', e') \<Longrightarrow> Board e' = Board e"
  using OopReadWord_ok by (fastforce simp: ok_def keepsBoard_def)

section \<open>Directions\<close>

text \<open>
  \<open>onDataPos\<close> runs a reader on \<open>&stat.DataPos\<close>. \<open>OopParseDirection\<close> swaps its two pointers in
  recursive calls; here the pair \<open>(dx, dy)\<close> goes in and comes out, swapped by the caller. The
  recursion re-reads a word each time, and a word it recurses on has consumed input.
\<close>

definition onDataPos :: "int \<Rightarrow> (int \<Rightarrow> Engine \<Rightarrow> (int \<times> Engine) option) \<Rightarrow> Engine \<Rightarrow> Engine option" where
  "onDataPos statId f e =
     do { s \<leftarrow> statAt statId e;
          (p, e) \<leftarrow> f (DataPos s) e;
          modStat statId (\<lambda>s. s\<lparr>DataPos := p\<rparr>) e }"

definition neg16 :: "int \<Rightarrow> int" where
  "neg16 n = i16 (- n)"

partial_function (option) OopParseDirection :: "int \<Rightarrow> int \<Rightarrow> int \<Rightarrow> Engine \<Rightarrow> (bool \<times> int \<times> int \<times> Engine) option" where
  "OopParseDirection statId dx dy e =
     do { s \<leftarrow> statAt statId e;
          let w = OopWord e;
          if w = ''N'' \<or> w = ''NORTH'' then Some (True, 0, -1, e)
          else if w = ''S'' \<or> w = ''SOUTH'' then Some (True, 0, 1, e)
          else if w = ''E'' \<or> w = ''EAST'' then Some (True, 1, 0, e)
          else if w = ''W'' \<or> w = ''WEST'' then Some (True, -1, 0, e)
          else if w = ''I'' \<or> w = ''IDLE'' then Some (True, 0, 0, e)
          else if w = ''SEEK'' then do {
            ((dx, dy), e) \<leftarrow> CalcDirectionSeek (sX s) (sY s) e;
            Some (True, dx, dy, e) }
          else if w = ''FLOW'' then Some (True, StepX s, StepY s, e)
          else if w = ''RND'' then
            (case CalcDirectionRnd e of ((dx, dy), e) \<Rightarrow> Some (True, dx, dy, e))
          else if w = ''RNDNS'' then
            (case Random 2 e of (r, e) \<Rightarrow> Some (True, 0, i16 (i16 (r * 2) - 1), e))
          else if w = ''RNDNE'' then
            (case Random 2 e of (r, e) \<Rightarrow> Some (True, r, if r = 0 then -1 else 0, e))
          else if w = ''CW'' then do {
            e \<leftarrow> onDataPos statId (OopReadWord statId) e;
            (ok, dy, dx, e) \<leftarrow> OopParseDirection statId dy dx e;
            Some (ok, neg16 dx, dy, e) }
          else if w = ''CCW'' then do {
            e \<leftarrow> onDataPos statId (OopReadWord statId) e;
            (ok, dy, dx, e) \<leftarrow> OopParseDirection statId dy dx e;
            Some (ok, dx, neg16 dy, e) }
          else if w = ''RNDP'' then do {
            e \<leftarrow> onDataPos statId (OopReadWord statId) e;
            (ok, dy, dx, e) \<leftarrow> OopParseDirection statId dy dx e;
            (case Random 2 e of (r, e) \<Rightarrow>
               Some (if r = 0 then (ok, neg16 dx, dy, e) else (ok, dx, neg16 dy, e))) }
          else if w = ''OPP'' then do {
            e \<leftarrow> onDataPos statId (OopReadWord statId) e;
            (ok, dx, dy, e) \<leftarrow> OopParseDirection statId dx dy e;
            Some (ok, neg16 dx, neg16 dy, e) }
          else Some (False, 0, 0, e) }"

definition OopReadDirection :: "int \<Rightarrow> int \<Rightarrow> int \<Rightarrow> Engine \<Rightarrow> (int \<times> int \<times> Engine) option" where
  "OopReadDirection statId dx dy e =
     do { e \<leftarrow> onDataPos statId (OopReadWord statId) e;
          (ok, dx, dy, e) \<leftarrow> OopParseDirection statId dx dy e;
          e \<leftarrow> (if \<not> ok then OopError statId ''Bad direction'' e else Some e);
          Some (dx, dy, e) }"

section \<open>Labels\<close>

text \<open>
  \<open>OopFindString\<close> compares the label with the program from each position; the inner loop is
  \<open>matchFrom\<close>. An empty string panics on \<open>s[0]\<close>.
\<close>

fun matchFrom :: "int \<Rightarrow> string \<Rightarrow> int \<Rightarrow> Engine \<Rightarrow> (bool \<times> int \<times> Engine) option" where
  "matchFrom statId [] cmpPos e = Some (True, cmpPos, e)"
| "matchFrom statId (c # s) cmpPos e =
     do { (cmpPos, e) \<leftarrow> OopReadChar statId cmpPos e;
          if UpCase c \<noteq> UpCase (OopChar e) then Some (False, cmpPos, e)
          else matchFrom statId s cmpPos e }"

fun findFrom :: "int \<Rightarrow> string \<Rightarrow> int list \<Rightarrow> Engine \<Rightarrow> (int \<times> Engine) option" where
  "findFrom statId s [] e = Some (-1, e)"
| "findFrom statId s (pos # ps) e =
     do { (matched, cmpPos, e) \<leftarrow> matchFrom statId s pos e;
          if matched then do {
            (_, e) \<leftarrow> OopReadChar statId cmpPos e;
            let e = e\<lparr>OopChar := UpCase (OopChar e)\<rparr>;
            if isUpper (OopChar e) \<or> OopChar e = CHR ''_'' then findFrom statId s ps e
            else Some (pos, e) }
          else findFrom statId s ps e }"

definition OopFindString :: "int \<Rightarrow> string \<Rightarrow> Engine \<Rightarrow> (int \<times> Engine) option" where
  "OopFindString statId s e =
     do { stat \<leftarrow> statAt statId e;
          check (s \<noteq> [] \<or> DataLen stat < 0);
          findFrom statId s [0..DataLen stat] e }"

text \<open>The by-name branch of \<open>OopIterateStat\<close>: the first stat from \<open>i\<close> on whose \<open>@name\<close> is \<open>lookup\<close>.\<close>

function namedFrom :: "string \<Rightarrow> int \<Rightarrow> Engine \<Rightarrow> (int \<times> bool \<times> Engine) option" where
  "namedFrom lookup i e =
     (if i \<le> StatCount (Board e) then do {
        s \<leftarrow> statAt i e;
        (found, e') \<leftarrow> (if Data s \<noteq> [] then do {
            (pos, e1) \<leftarrow> OopReadChar i 0 e;
            if OopChar e1 = CHR ''@'' then do {
              (_, e2) \<leftarrow> OopReadWord i pos e1;
              Some (OopWord e2 = lookup, e2) }
            else Some (False, e1) }
          else Some (False, e));
        if found then Some (i, True, e') else namedFrom lookup (i + 1) e' }
      else Some (i, False, e))"
  by pat_completeness auto
termination
  by (relation "measure (\<lambda>(lookup, i, e). nat (StatCount (Board e) + 1 - i))")
     (auto split: if_splits Option.bind_splits dest!: OopReadChar_Board OopReadWord_Board)

declare namedFrom.simps [simp del]

definition OopIterateStat :: "int \<Rightarrow> int \<Rightarrow> string \<Rightarrow> Engine \<Rightarrow> (bool \<times> int \<times> Engine) option" where
  "OopIterateStat statId iStat lookup e =
     (let iStat = i16 (iStat + 1); n = StatCount (Board e) in
      if lookup = ''ALL'' then Some (iStat \<le> n, iStat, e)
      else if lookup = ''OTHERS'' then
        (if iStat \<le> n then
           if iStat \<noteq> statId then Some (True, iStat, e)
           else let iStat = i16 (iStat + 1) in Some (iStat \<le> n, iStat, e)
         else Some (False, iStat, e))
      else if lookup = ''SELF'' then
        (if statId > 0 \<and> iStat \<le> statId then Some (True, statId, e) else Some (False, iStat, e))
      else do { (iStat, found, e) \<leftarrow> namedFrom lookup iStat e; Some (found, iStat, e) })"

text \<open>From \<open>FindNextStat:\<close> on.\<close>

partial_function (option) findNextStat ::
  "int \<Rightarrow> int \<Rightarrow> string \<Rightarrow> string \<Rightarrow> bool \<Rightarrow> int \<Rightarrow> int \<Rightarrow> string \<Rightarrow> Engine \<Rightarrow> (bool \<times> int \<times> int \<times> Engine) option" where
  "findNextStat statId targetSplitPos targetLookup objectMessage foundStat iStat iDataPos labelPrefix e =
     (if foundStat then
        (if objectMessage = ''RESTART'' then Some (True, iStat, 0, e)
         else do {
           (iDataPos, e) \<leftarrow> OopFindString iStat (labelPrefix @ objectMessage) e;
           if iDataPos < 0 \<and> targetSplitPos > 0 then do {
             (foundStat, iStat, e) \<leftarrow> OopIterateStat statId iStat targetLookup e;
             findNextStat statId targetSplitPos targetLookup objectMessage foundStat iStat iDataPos
               labelPrefix e }
           else Some (iDataPos \<ge> 0, iStat, iDataPos, e) })
      else Some (False, iStat, iDataPos, e))"

definition OopFindLabel :: "int \<Rightarrow> string \<Rightarrow> int \<Rightarrow> int \<Rightarrow> string \<Rightarrow> Engine \<Rightarrow> (bool \<times> int \<times> int \<times> Engine) option" where
  "OopFindLabel statId sendLabel iStat iDataPos labelPrefix e =
     (let targetSplitPos = Pos CHR '':'' sendLabel in
      if targetSplitPos \<le> 0 then
        (if iStat < statId
         then findNextStat statId 0 [] sendLabel True statId iDataPos labelPrefix e
         else findNextStat statId targetSplitPos [] [] False iStat iDataPos labelPrefix e)
      else do {
        targetLookup \<leftarrow> Copy sendLabel 1 (targetSplitPos - 1);
        objectMessage \<leftarrow> Copy sendLabel (targetSplitPos + 1) (i16 (Length sendLabel - targetSplitPos));
        (foundStat, iStat, e) \<leftarrow> OopIterateStat statId iStat targetLookup e;
        findNextStat statId targetSplitPos targetLookup objectMessage foundStat iStat iDataPos
          labelPrefix e })"

text \<open>The loop of \<open>OopSend\<close>.\<close>

partial_function (option) sendLoop ::
  "int \<Rightarrow> string \<Rightarrow> bool \<Rightarrow> bool \<Rightarrow> bool \<Rightarrow> int \<Rightarrow> int \<Rightarrow> Engine \<Rightarrow> (bool \<times> Engine) option" where
  "sendLoop statId sendLabel ignoreLock ignoreSelfLock sent iStat iDataPos e =
     do { (found, iStat, iDataPos, e) \<leftarrow> OopFindLabel statId sendLabel iStat iDataPos [CR, CHR '':''] e;
          if \<not> found then Some (sent, e)
          else do {
            s \<leftarrow> statAt iStat e;
            (sent, e) \<leftarrow>
              (if P2 s = 0 \<or> ignoreLock \<or> statId = iStat \<and> \<not> ignoreSelfLock then do {
                 e \<leftarrow> modStat iStat (\<lambda>s. s\<lparr>DataPos := iDataPos\<rparr>) e;
                 Some (sent \<or> iStat = statId, e) }
               else Some (sent, e));
            sendLoop statId sendLabel ignoreLock ignoreSelfLock sent iStat iDataPos e } }"

definition OopSend :: "int \<Rightarrow> string \<Rightarrow> bool \<Rightarrow> Engine \<Rightarrow> (bool \<times> Engine) option" where
  "OopSend statId sendLabel ignoreLock e =
     (if statId < 0 then sendLoop (i16 (- statId)) sendLabel ignoreLock True False 0 0 e
      else sendLoop statId sendLabel ignoreLock False False 0 0 e)"

section \<open>Flags\<close>

definition WorldGetFlagPosition :: "string \<Rightarrow> Engine \<Rightarrow> int" where
  "WorldGetFlagPosition name e =
     fold (\<lambda>i r. if Flags (wInfo (World e)) (i - 1) = name then i else r) [1..10] (-1)"

text \<open>The index \<open>WorldSetFlag\<close> ends its search on: the first empty slot, or the last one.\<close>

function freeFlag :: "int \<Rightarrow> Engine \<Rightarrow> int" where
  "freeFlag i e =
     (if i < MAX_FLAG \<and> Length (Flags (wInfo (World e)) (i - 1)) \<noteq> 0 then freeFlag (i + 1) e else i)"
  by pat_completeness auto
termination
  by (relation "measure (\<lambda>(i, e). nat (MAX_FLAG - i))") auto

declare freeFlag.simps [simp del]

definition setFlag :: "int \<Rightarrow> string \<Rightarrow> Engine \<Rightarrow> Engine" where
  "setFlag i name e = modWorldInfo (\<lambda>w. w\<lparr>Flags := (Flags w)(i := name)\<rparr>) e"

definition WorldSetFlag :: "string \<Rightarrow> Engine \<Rightarrow> Engine" where
  "WorldSetFlag name e =
     (if WorldGetFlagPosition name e < 0 then setFlag (freeFlag 1 e - 1) name e else e)"

definition WorldClearFlag :: "string \<Rightarrow> Engine \<Rightarrow> Engine" where
  "WorldClearFlag name e =
     (if WorldGetFlagPosition name e \<ge> 0 then setFlag (WorldGetFlagPosition name e - 1) [] e else e)"

section \<open>Tiles\<close>

definition OopStringToWord :: "string \<Rightarrow> string" where
  "OopStringToWord input =
     concat (map (\<lambda>c. if isUpper c \<or> isDigit c then [c]
                       else if ord CHR ''a'' \<le> ord c \<and> ord c \<le> ord CHR ''z'' then [chr (ord c - 32)]
                       else []) input)"

definition OopParseTileAt :: "int \<Rightarrow> int \<Rightarrow> TTile \<Rightarrow> Engine \<Rightarrow> (bool \<times> TTile \<times> int \<times> Engine) option" where
  "OopParseTileAt statId position tile e =
     do { let tile = tile\<lparr>Color := 0\<rparr>;
          (position, e) \<leftarrow> OopReadWord statId position e;
          (tile, position, e) \<leftarrow> (case find (\<lambda>i. OopWord e = OopStringToWord (ColorNames ! nat (i - 1))) [1..7] of
              Some i \<Rightarrow> do { (position, e) \<leftarrow> OopReadWord statId position e;
                             Some (tile\<lparr>Color := u8 (i + 8)\<rparr>, position, e) }
            | None \<Rightarrow> Some (tile, position, e));
          el \<leftarrow> firstM (\<lambda>i. do { d \<leftarrow> elemDef i; Some (OopWord e = OopStringToWord (dName d)) })
            [0..MAX_ELEMENT];
          Some (case el of Some i \<Rightarrow> (True, tile\<lparr>Element := u8 i\<rparr>, position, e)
                | None \<Rightarrow> (False, tile, position, e)) }"

text \<open>The call with \<open>&stat.DataPos\<close>, which nothing else reads while it runs.\<close>

definition OopParseTile :: "int \<Rightarrow> TTile \<Rightarrow> Engine \<Rightarrow> (bool \<times> TTile \<times> Engine) option" where
  "OopParseTile statId tile e =
     do { s \<leftarrow> statAt statId e;
          (ok, tile, position, e) \<leftarrow> OopParseTileAt statId (DataPos s) tile e;
          e \<leftarrow> modStat statId (\<lambda>s. s\<lparr>DataPos := position\<rparr>) e;
          Some (ok, tile, e) }"

definition GetColorForTileMatch :: "TTile \<Rightarrow> int option" where
  "GetColorForTileMatch tile =
     do { d \<leftarrow> elemDef (Element tile);
          Some (if dColor d < COLOR_SPECIAL_MIN then dColor d mod 8
                else if dColor d = COLOR_WHITE_ON_CHOICE then u8 (Color tile div 16 mod 16 + 8)
                else fgOf (Color tile)) }"

text \<open>The pointers \<open>x\<close>, \<open>y\<close> are the position before and after; the scan is column by column in rows.\<close>

function FindTileOnBoard :: "int \<Rightarrow> int \<Rightarrow> TTile \<Rightarrow> Engine \<Rightarrow> (bool \<times> int \<times> int) option" where
  "FindTileOnBoard x y tile e =
     (if x + 1 > BOARD_WIDTH \<and> y + 1 > BOARD_HEIGHT then Some (False, 1, y + 1)
      else let (x', y') = (if x + 1 > BOARD_WIDTH then (1, y + 1) else (x + 1, y)) in
      do { t \<leftarrow> tileAt x' y' e;
           c \<leftarrow> (if Element t = Element tile
                 then if Color tile = 0 then Some True
                      else map_option (\<lambda>c. c = Color tile) (GetColorForTileMatch t)
                 else Some False);
           if c then Some (True, x', y') else FindTileOnBoard x' y' tile e })"
  by pat_completeness auto
termination
  by (relation "measures [\<lambda>(x, y, tile, e). nat (BOARD_HEIGHT + 2 - y), \<lambda>(x, y, tile, e). nat (BOARD_WIDTH + 2 - x)]")
     (auto split: if_splits)

declare FindTileOnBoard.simps [simp del]

definition OopPlaceTile :: "int \<Rightarrow> int \<Rightarrow> TTile \<Rightarrow> Engine \<Rightarrow> Engine option" where
  "OopPlaceTile x y tile e =
     do { t \<leftarrow> tileAt x y e;
          if Element t = 4 then Some e
          else do {
            d \<leftarrow> elemDef (Element tile);
            let color =
              (if dColor d < COLOR_SPECIAL_MIN then dColor d
               else let color = (if Color tile = 0 then Color t else Color tile);
                        color = (if color = 0 then 15 else color)
                    in if dColor d = COLOR_WHITE_ON_CHOICE then u8 (i16 (i16 ((color - 8) * 16) + 15))
                       else color);
            e \<leftarrow> (if Element t = Element tile then setColor x y color e
                  else do {
                    e \<leftarrow> BoardDamageTile x y e;
                    if dCycle d \<ge> 0 then AddStat x y (Element tile) color (dCycle d) StatTemplateDefault e
                    else setTile x y \<lparr>Element = Element tile, Color = color\<rparr> e });
            BoardDrawTile x y e } }"

section \<open>Conditions\<close>

partial_function (option) OopCheckCondition :: "int \<Rightarrow> Engine \<Rightarrow> (bool \<times> Engine) option" where
  "OopCheckCondition statId e =
     do { s \<leftarrow> statAt statId e;
          pId \<leftarrow> NearestPlayer (sX s) (sY s) e;
          (let (activePlayer, e) = PlayerFor pId e in
           do { nearest \<leftarrow> statAt pId e;
                if OopWord e = ''NOT'' then do {
                  e \<leftarrow> onDataPos statId (OopReadWord statId) e;
                  (b, e) \<leftarrow> OopCheckCondition statId e;
                  Some (\<not> b, e) }
                else if OopWord e = ''ALLIGNED'' then
                  Some (sX s = sX nearest \<or> sY s = sY nearest, e)
                else if OopWord e = ''CONTACT'' then
                  Some (i16 (Sqr (i16 (sX s - sX nearest)) + Sqr (i16 (sY s - sY nearest))) = 1, e)
                else if OopWord e = ''BLOCKED'' then do {
                  (deltaX, deltaY, e) \<leftarrow> OopReadDirection statId 0 0 e;
                  s \<leftarrow> statAt statId e;
                  el \<leftarrow> elementAt (i16 (sX s + deltaX)) (i16 (sY s + deltaY)) e;
                  d \<leftarrow> elemDef el;
                  Some (\<not> Walkable d, e) }
                else if OopWord e = ''ENERGIZED'' then
                  Some (pEnergizerTicks (PHeap e activePlayer) > 0, e)
                else if OopWord e = ''ANY'' then do {
                  (ok, tile, e) \<leftarrow> OopParseTile statId \<lparr>Element = 0, Color = 0\<rparr> e;
                  e \<leftarrow> (if \<not> ok then OopError statId ''Bad object kind'' e else Some e);
                  (found, _, _) \<leftarrow> FindTileOnBoard 0 1 tile e;
                  Some (found, e) }
                else Some (WorldGetFlagPosition (OopWord e) e \<ge> 0, e) }) }"

end
