(* ===== verification/Push.thy ===== *)
theory Push
  imports Combat
begin

text \<open>
  Pushing (\<open>ElementMove\<close>, \<open>ElementPushablePush\<close>, \<open>ElementTransporterMove\<close> of
  \<open>engine/elements.go\<close>). The last two call each other, so they are the branches of one
  recursive procedure over \<open>PushCall\<close>; its third branch is the search loop of
  \<open>ElementTransporterMove\<close>, which pushes what stands in front of a transporter. The
  recursion is a \<open>partial_function\<close>: a call that never returns (a Go stack overflow) is
  \<open>None\<close>, as a panic is.
\<close>

definition ElementMove :: "int \<Rightarrow> int \<Rightarrow> int \<Rightarrow> int \<Rightarrow> Engine \<Rightarrow> Engine option" where
  "ElementMove oldX oldY newX newY e =
     do { statId \<leftarrow> GetStatIdAt oldX oldY e;
          if statId \<ge> 0 then MoveStat statId newX newY e
          else do {
            t \<leftarrow> tileAt oldX oldY e;
            e \<leftarrow> setTile newX newY t e;
            e \<leftarrow> BoardDrawTile newX newY e;
            e \<leftarrow> setElement oldX oldY E_EMPTY e;
            BoardDrawTile oldX oldY e } }"

definition canPush :: "int \<Rightarrow> int \<Rightarrow> int \<Rightarrow> bool option" where
  "canPush el deltaX deltaY =
     (if el = E_SLIDER_NS \<and> deltaX = 0 \<or> el = E_SLIDER_EW \<and> deltaY = 0 then Some True
      else map_option Pushable (elemDef el))"

definition walkableAt :: "int \<Rightarrow> int \<Rightarrow> Engine \<Rightarrow> bool option" where
  "walkableAt x y e = do { el \<leftarrow> elementAt x y e; d \<leftarrow> elemDef el; Some (Walkable d) }"

text \<open>After the push: what could not be moved and can be destroyed is, and then the mover moves.\<close>

definition pushInto :: "int \<Rightarrow> int \<Rightarrow> int \<Rightarrow> int \<Rightarrow> Engine \<Rightarrow> Engine option" where
  "pushInto x y tx ty e =
     do { el \<leftarrow> elementAt tx ty e;
          d \<leftarrow> elemDef el;
          e \<leftarrow> (if \<not> Walkable d \<and> Destructible d \<and> el \<noteq> E_PLAYER then BoardDamageTile tx ty e
                else Some e);
          w \<leftarrow> walkableAt tx ty e;
          if w then ElementMove x y tx ty e else Some e }"

datatype PushCall =
    PushablePush int int
  | TransporterMove int int
  | TransporterSearch int int int int bool

partial_function (option) pushRun :: "PushCall \<Rightarrow> int \<Rightarrow> int \<Rightarrow> Engine \<Rightarrow> ((int \<times> int) \<times> Engine) option" where
  "pushRun c deltaX deltaY e =
     (case c of
        PushablePush x y \<Rightarrow> do {
          el \<leftarrow> elementAt x y e;
          p \<leftarrow> canPush el deltaX deltaY;
          if \<not> p then Some ((0, 0), e)
          else do {
            let tx = i16 (x + deltaX);
            let ty = i16 (y + deltaY);
            tel \<leftarrow> elementAt tx ty e;
            (_, e) \<leftarrow> (if tel = E_TRANSPORTER then pushRun (TransporterMove x y) deltaX deltaY e
                       else if tel \<noteq> E_EMPTY then pushRun (PushablePush tx ty) deltaX deltaY e
                       else Some ((0, 0), e));
            e \<leftarrow> pushInto x y tx ty e;
            Some ((0, 0), e) } }
      | TransporterMove x y \<Rightarrow> do {
          statId \<leftarrow> GetStatIdAt (i16 (x + deltaX)) (i16 (y + deltaY)) e;
          s \<leftarrow> statAt statId e;
          if \<not> (deltaX = StepX s \<and> deltaY = StepY s) then Some ((0, 0), e)
          else do {
            ((newX, newY), e) \<leftarrow> pushRun (TransporterSearch (sX s) (sY s) (-1) 0 True) deltaX deltaY e;
            if newX \<noteq> -1 then do {
              s \<leftarrow> statAt statId e;
              e \<leftarrow> ElementMove (i16 (sX s - deltaX)) (i16 (sY s - deltaY)) newX newY e;
              Some ((0, 0), SoundQueue 3 [48, 1, 66, 1, 52, 1, 70, 1, 56, 1, 74, 1, 64, 1, 82, 1] e) }
            else Some ((0, 0), e) } }
      | TransporterSearch ix iy newX newY isValidDest \<Rightarrow> do {
          let ix = i16 (ix + deltaX);
          let iy = i16 (iy + deltaY);
          el \<leftarrow> elementAt ix iy e;
          (finishSearch, newX, newY, isValidDest, e) \<leftarrow>
            (if el = E_BOARD_EDGE then Some (True, newX, newY, isValidDest, e)
             else if isValidDest then do {
               w \<leftarrow> walkableAt ix iy e;
               (_, e) \<leftarrow> (if \<not> w then pushRun (PushablePush ix iy) deltaX deltaY e
                          else Some ((0, 0), e));
               w \<leftarrow> walkableAt ix iy e;
               if w then Some (True, ix, iy, False, e) else Some (False, -1, newY, False, e) }
             else Some (False, newX, newY, isValidDest, e));
          el \<leftarrow> elementAt ix iy e;
          isValidDest \<leftarrow> (if el = E_TRANSPORTER then do {
              iStat \<leftarrow> GetStatIdAt ix iy e;
              s \<leftarrow> statAt iStat e;
              Some (isValidDest \<or> StepX s = i16 (- deltaX) \<and> StepY s = i16 (- deltaY)) }
            else Some isValidDest);
          if finishSearch then Some ((newX, newY), e)
          else pushRun (TransporterSearch ix iy newX newY isValidDest) deltaX deltaY e })"

definition ElementPushablePush :: "int \<Rightarrow> int \<Rightarrow> int \<Rightarrow> int \<Rightarrow> Engine \<Rightarrow> Engine option" where
  "ElementPushablePush x y deltaX deltaY e =
     map_option snd (pushRun (PushablePush x y) deltaX deltaY e)"

definition ElementTransporterMove :: "int \<Rightarrow> int \<Rightarrow> int \<Rightarrow> int \<Rightarrow> Engine \<Rightarrow> Engine option" where
  "ElementTransporterMove x y deltaX deltaY e =
     map_option snd (pushRun (TransporterMove x y) deltaX deltaY e)"

section \<open>The procedures as the source writes them\<close>

lemma ElementPushablePush_eq:
  "ElementPushablePush x y deltaX deltaY e =
     do { el \<leftarrow> elementAt x y e;
          p \<leftarrow> canPush el deltaX deltaY;
          if \<not> p then Some e
          else do {
            let tx = i16 (x + deltaX);
            let ty = i16 (y + deltaY);
            tel \<leftarrow> elementAt tx ty e;
            e \<leftarrow> (if tel = E_TRANSPORTER then ElementTransporterMove x y deltaX deltaY e
                  else if tel \<noteq> E_EMPTY then ElementPushablePush tx ty deltaX deltaY e
                  else Some e);
            pushInto x y tx ty e } }"
  unfolding ElementPushablePush_def ElementTransporterMove_def
  by (subst pushRun.simps)
     (auto simp: Let_def bind_map_option comp_def split: Option.bind_splits prod.splits)

text \<open>
  C8. A pushable square pushed by (0, 0) is pushed into itself: the call recurses with the
  same arguments and never returns. \<open>#GO I\<close> in the program of a scroll reaches it.
\<close>

theorem push_nowhere_diverges:
  assumes "elementAt x y e = Some el" and "canPush el 0 0 = Some True"
    and "el \<noteq> E_EMPTY" and "el \<noteq> E_TRANSPORTER"
  shows "ElementPushablePush x y 0 0 e = None"
proof -
  have "pushRun c dx dy e' = Some r \<Longrightarrow>
        \<not> (c = PushablePush x y \<and> dx = 0 \<and> dy = 0 \<and> e' = e)" for c dx dy e' r
  proof (induction rule: pushRun.raw_induct [rotated, consumes 1, case_names step])
    case (step f c dx dy e' r)
    have xy: "i16 x = x" "i16 y = y"
      using assms(1) by (auto simp: elementAt_def tileAt_def inTiles_def split: if_splits)
    show ?case
      using step(2) assms xy by (auto split: Option.bind_splits dest: step(1))
  qed
  then show ?thesis
    unfolding ElementPushablePush_def by (metis map_option_is_None not_None_eq)
qed

theorem push_nowhere_diverges_witness:
  "\<forall>e. ElementPushablePush 5 5 0 0 (putTile 5 5 \<lparr>Element = E_BOULDER, Color = 14\<rparr> e) = None"
  by (intro allI push_nowhere_diverges [where el = E_BOULDER])
     (simp_all add: elementAt_def tileAt_def inTiles_def putTile_def canPush_def ElementDef_defs)

end
