(* ===== verification/OopExec.thy ===== *)
theory OopExec
  imports Oop Push
begin

text \<open>
  \<open>OopExecute\<close> of \<open>engine/oop.go\<close>: the interpreter loop and its commands. The two labels of the
  Go procedure are the states of the loop, which runs under \<open>while_option\<close>, so that a program
  that never yields (the loop diverges) is told apart from one that panics.
\<close>

section \<open>The loop's variables\<close>

record OopLocals =
  stopRunning :: bool
  replaceStat :: bool
  endOfProgram :: bool
  repeatInsNextTick :: bool
  lineFinished :: bool
  insCount :: int
  lastPosition :: int
  replaceTile :: TTile
  argTile :: TTile
  argTile2 :: TTile
  windowLines :: "string list"

definition blankTile :: TTile where
  "blankTile = \<lparr>Element = 0, Color = 0\<rparr>"

definition initLocals :: OopLocals where
  "initLocals =
     \<lparr>stopRunning = False, replaceStat = False, endOfProgram = False,
      repeatInsNextTick = False, lineFinished = False, insCount = 0, lastPosition = 0,
      replaceTile = blankTile, argTile = blankTile, argTile2 = blankTile, windowLines = []\<rparr>"

text \<open>\<open>TextWindowAppend\<close> into an array of \<open>MAX_TEXT_WINDOW_LINES\<close> lines.\<close>

definition MAX_TEXT_WINDOW_LINES :: nat where
  "MAX_TEXT_WINDOW_LINES = 1024"

definition TextWindowAppend :: "string \<Rightarrow> OopLocals \<Rightarrow> OopLocals option" where
  "TextWindowAppend line L =
     do { check (length (windowLines L) < MAX_TEXT_WINDOW_LINES);
          Some (L\<lparr>windowLines := windowLines L @ [line]\<rparr>) }"

section \<open>Commands\<close>

text \<open>Push what is in the way and step there if the square is then walkable.\<close>

definition pushAndMove :: "int \<Rightarrow> int \<Rightarrow> int \<Rightarrow> Engine \<Rightarrow> (bool \<times> Engine) option" where
  "pushAndMove statId deltaX deltaY e =
     do { s \<leftarrow> statAt statId e;
          w \<leftarrow> walkableAt (i16 (sX s + deltaX)) (i16 (sY s + deltaY)) e;
          e \<leftarrow> (if \<not> w then ElementPushablePush (i16 (sX s + deltaX)) (i16 (sY s + deltaY)) deltaX deltaY e
                else Some e);
          s \<leftarrow> statAt statId e;
          w \<leftarrow> walkableAt (i16 (sX s + deltaX)) (i16 (sY s + deltaY)) e;
          if w then do { e \<leftarrow> MoveStat statId (i16 (sX s + deltaX)) (i16 (sY s + deltaY)) e;
                         Some (True, e) }
          else Some (False, e) }"

text \<open>\<open>counterPtr\<close>: which field of the active player a \<open>#GIVE\<close> or \<open>#TAKE\<close> names.\<close>

definition counterGet :: "string \<Rightarrow> (PlayerState \<Rightarrow> int) option" where
  "counterGet w =
     (if w = ''HEALTH'' then Some pHealth else if w = ''AMMO'' then Some pAmmo
      else if w = ''GEMS'' then Some pGems else if w = ''TORCHES'' then Some pTorches
      else if w = ''SCORE'' then Some pScore else if w = ''TIME'' then Some pBoardTimeSec
      else None)"

definition counterPut :: "string \<Rightarrow> int \<Rightarrow> PlayerState \<Rightarrow> PlayerState" where
  "counterPut w v p =
     (if w = ''HEALTH'' then p\<lparr>pHealth := v\<rparr> else if w = ''AMMO'' then p\<lparr>pAmmo := v\<rparr>
      else if w = ''GEMS'' then p\<lparr>pGems := v\<rparr> else if w = ''TORCHES'' then p\<lparr>pTorches := v\<rparr>
      else if w = ''SCORE'' then p\<lparr>pScore := v\<rparr> else if w = ''TIME'' then p\<lparr>pBoardTimeSec := v\<rparr>
      else p)"

text \<open>
  \<open>#GIVE\<close> and \<open>#TAKE\<close>. The boolean says that the counter would go below zero, when the rest
  of the line is the next command.
\<close>

definition giveOrTake :: "int \<Rightarrow> int \<Rightarrow> bool \<Rightarrow> Engine \<Rightarrow> (bool \<times> Engine) option" where
  "giveOrTake statId activePlayer counterSubtract e =
     do { e \<leftarrow> onDataPos statId (OopReadWord statId) e;
          let w = OopWord e;
          case counterGet w of
            None \<Rightarrow> do { e \<leftarrow> GameUpdateSidebar e; Some (False, e) }
          | Some get \<Rightarrow> do {
              e \<leftarrow> onDataPos statId (OopReadValue statId) e;
              if OopValue e > 0 then do {
                let e = (if counterSubtract then e\<lparr>OopValue := i16 (- OopValue e)\<rparr> else e);
                let v = i16 (get (PHeap e activePlayer) + OopValue e);
                if v \<ge> 0 then do {
                  e \<leftarrow> GameUpdateSidebar (modPlayer activePlayer (counterPut w v) e);
                  Some (False, e) }
                else Some (True, e) }
              else do { e \<leftarrow> GameUpdateSidebar e; Some (False, e) } } }"

definition setData :: "int \<Rightarrow> string \<Rightarrow> Engine \<Rightarrow> Engine option" where
  "setData i d e = modStat i (\<lambda>s. s\<lparr>Data := d\<rparr>) e"

definition replaceData :: "int \<Rightarrow> int \<Rightarrow> char \<Rightarrow> Engine \<Rightarrow> Engine option" where
  "replaceData i pos c e =
     do { s \<leftarrow> statAt i e; d \<leftarrow> Replace (Data s) pos c; setData i d e }"

partial_function (option) zapLoop :: "int \<Rightarrow> int \<Rightarrow> int \<Rightarrow> Engine \<Rightarrow> Engine option" where
  "zapLoop statId labelStatId labelDataPos e =
     do { (found, labelStatId, labelDataPos, e) \<leftarrow>
            OopFindLabel statId (OopWord e) labelStatId labelDataPos [CR, CHR '':''] e;
          if \<not> found then Some e
          else do {
            e \<leftarrow> replaceData labelStatId (i16 (labelDataPos + 2)) (CHR 0x27) e;
            zapLoop statId labelStatId labelDataPos e } }"

partial_function (option) restoreAll :: "int \<Rightarrow> int \<Rightarrow> Engine \<Rightarrow> (int \<times> Engine) option" where
  "restoreAll labelStatId labelDataPos e =
     do { e \<leftarrow> replaceData labelStatId (i16 (labelDataPos + 2)) (CHR '':'') e;
          (labelDataPos, e) \<leftarrow> OopFindString labelStatId ([CR, CHR 0x27] @ OopWord e @ [CR]) e;
          if labelDataPos \<le> 0 then Some (labelDataPos, e) else restoreAll labelStatId labelDataPos e }"

partial_function (option) restoreLoop :: "int \<Rightarrow> int \<Rightarrow> int \<Rightarrow> Engine \<Rightarrow> Engine option" where
  "restoreLoop statId labelStatId labelDataPos e =
     do { (found, labelStatId, labelDataPos, e) \<leftarrow>
            OopFindLabel statId (OopWord e) labelStatId labelDataPos [CR, CHR 0x27] e;
          if \<not> found then Some e
          else do {
            (labelDataPos, e) \<leftarrow> restoreAll labelStatId labelDataPos e;
            restoreLoop statId labelStatId labelDataPos e } }"

partial_function (option) changeLoop :: "int \<Rightarrow> int \<Rightarrow> TTile \<Rightarrow> TTile \<Rightarrow> Engine \<Rightarrow> Engine option" where
  "changeLoop ix iy tile tile2 e =
     do { (found, ix, iy) \<leftarrow> FindTileOnBoard ix iy tile e;
          if \<not> found then Some e
          else do { e \<leftarrow> OopPlaceTile ix iy tile2 e; changeLoop ix iy tile tile2 e } }"

definition putCommand :: "int \<Rightarrow> OopLocals \<Rightarrow> Engine \<Rightarrow> (OopLocals \<times> Engine) option" where
  "putCommand statId L e =
     do { (deltaX, deltaY, e) \<leftarrow> OopReadDirection statId 0 0 e;
          if deltaX = 0 \<and> deltaY = 0 then do { e \<leftarrow> OopError statId ''Bad #PUT'' e; Some (L, e) }
          else do {
            (ok, tile, e) \<leftarrow> OopParseTile statId (argTile L) e;
            let L = L\<lparr>argTile := tile\<rparr>;
            if \<not> ok then do { e \<leftarrow> OopError statId ''Bad #PUT'' e; Some (L, e) }
            else do {
              s \<leftarrow> statAt statId e;
              let x = i16 (sX s + deltaX);
              let y = i16 (sY s + deltaY);
              if x > 0 \<and> x \<le> BOARD_WIDTH \<and> y > 0 \<and> y < BOARD_HEIGHT then do {
                w \<leftarrow> walkableAt x y e;
                e \<leftarrow> (if \<not> w then ElementPushablePush x y deltaX deltaY e else Some e);
                s \<leftarrow> statAt statId e;
                e \<leftarrow> OopPlaceTile (i16 (sX s + deltaX)) (i16 (sY s + deltaY)) tile e;
                Some (L, e) }
              else Some (L, e) } } }"

definition changeCommand :: "int \<Rightarrow> OopLocals \<Rightarrow> Engine \<Rightarrow> (OopLocals \<times> Engine) option" where
  "changeCommand statId L e =
     do { (ok, tile, e) \<leftarrow> OopParseTile statId (argTile L) e;
          e \<leftarrow> (if \<not> ok then OopError statId ''Bad #CHANGE'' e else Some e);
          (ok, tile2, e) \<leftarrow> OopParseTile statId (argTile2 L) e;
          e \<leftarrow> (if \<not> ok then OopError statId ''Bad #CHANGE'' e else Some e);
          tile2 \<leftarrow> (if Color tile2 = 0 then do {
              d \<leftarrow> elemDef (Element tile2);
              Some (if dColor d < COLOR_SPECIAL_MIN then tile2\<lparr>Color := dColor d\<rparr> else tile2) }
            else Some tile2);
          e \<leftarrow> changeLoop 0 1 tile tile2 e;
          Some (L\<lparr>argTile := tile, argTile2 := tile2\<rparr>, e) }"

text \<open>
  The command whose name is \<open>OopWord\<close>. The boolean is a \<open>goto ReadCommand\<close>: the rest of the
  line is executed as another command.
\<close>

definition execCommand :: "int \<Rightarrow> int \<Rightarrow> int \<Rightarrow> OopLocals \<Rightarrow> Engine \<Rightarrow> (bool \<times> OopLocals \<times> Engine) option" where
  "execCommand statId activeId activePlayer L e =
     (let w = OopWord e in
      if w = ''GO'' then do {
        (deltaX, deltaY, e) \<leftarrow> OopReadDirection statId 0 0 e;
        (moved, e) \<leftarrow> pushAndMove statId deltaX deltaY e;
        Some (False, L\<lparr>repeatInsNextTick := repeatInsNextTick L \<or> \<not> moved, stopRunning := True\<rparr>, e) }
      else if w = ''TRY'' then do {
        (deltaX, deltaY, e) \<leftarrow> OopReadDirection statId 0 0 e;
        (moved, e) \<leftarrow> pushAndMove statId deltaX deltaY e;
        if moved then Some (False, L\<lparr>stopRunning := True\<rparr>, e) else Some (True, L, e) }
      else if w = ''WALK'' then do {
        (deltaX, deltaY, e) \<leftarrow> OopReadDirection statId 0 0 e;
        e \<leftarrow> modStat statId (\<lambda>s. s\<lparr>StepX := deltaX, StepY := deltaY\<rparr>) e;
        Some (False, L, e) }
      else if w = ''SET'' then do {
        e \<leftarrow> onDataPos statId (OopReadWord statId) e;
        Some (False, L, WorldSetFlag (OopWord e) e) }
      else if w = ''CLEAR'' then do {
        e \<leftarrow> onDataPos statId (OopReadWord statId) e;
        Some (False, L, WorldClearFlag (OopWord e) e) }
      else if w = ''IF'' then do {
        e \<leftarrow> onDataPos statId (OopReadWord statId) e;
        (b, e) \<leftarrow> OopCheckCondition statId e;
        Some (b, L, e) }
      else if w = ''SHOOT'' then do {
        (deltaX, deltaY, e) \<leftarrow> OopReadDirection statId 0 0 e;
        s \<leftarrow> statAt statId e;
        (shot, e) \<leftarrow> BoardShoot E_BULLET (sX s) (sY s) deltaX deltaY SHOT_SOURCE_ENEMY e;
        Some (False, L\<lparr>stopRunning := True\<rparr>,
              if shot then SoundQueue 2 [48, 1, 38, 1] e else e) }
      else if w = ''THROWSTAR'' then do {
        (deltaX, deltaY, e) \<leftarrow> OopReadDirection statId 0 0 e;
        s \<leftarrow> statAt statId e;
        (_, e) \<leftarrow> BoardShoot E_STAR (sX s) (sY s) deltaX deltaY SHOT_SOURCE_ENEMY e;
        Some (False, L\<lparr>stopRunning := True\<rparr>, e) }
      else if w = ''GIVE'' \<or> w = ''TAKE'' then do {
        (again, e) \<leftarrow> giveOrTake statId activePlayer (w = ''TAKE'') e;
        Some (again, L, e) }
      else if w = ''END'' then do {
        e \<leftarrow> modStat statId (\<lambda>s. s\<lparr>DataPos := -1\<rparr>) e;
        Some (False, L, e\<lparr>OopChar := NUL\<rparr>) }
      else if w = ''ENDGAME'' then
        (if pHealth (PHeap e activePlayer) > 0 then do {
           e \<leftarrow> GameUpdateSidebar (modPlayer activePlayer (\<lambda>p. p\<lparr>pHealth := 0\<rparr>) e);
           Some (False, L, killPlayer activeId e) }
         else Some (False, L, e))
      else if w = ''IDLE'' then Some (False, L\<lparr>stopRunning := True\<rparr>, e)
      else if w = ''RESTART'' then do {
        e \<leftarrow> modStat statId (\<lambda>s. s\<lparr>DataPos := 0\<rparr>) e;
        Some (False, L\<lparr>lineFinished := False\<rparr>, e) }
      else if w = ''ZAP'' then do {
        e \<leftarrow> onDataPos statId (OopReadWord statId) e;
        e \<leftarrow> zapLoop statId 0 0 e;
        Some (False, L, e) }
      else if w = ''RESTORE'' then do {
        e \<leftarrow> onDataPos statId (OopReadWord statId) e;
        e \<leftarrow> restoreLoop statId 0 0 e;
        Some (False, L, e) }
      else if w = ''LOCK'' then do {
        e \<leftarrow> modStat statId (\<lambda>s. s\<lparr>P2 := 1\<rparr>) e; Some (False, L, e) }
      else if w = ''UNLOCK'' then do {
        e \<leftarrow> modStat statId (\<lambda>s. s\<lparr>P2 := 0\<rparr>) e; Some (False, L, e) }
      else if w = ''SEND'' then do {
        e \<leftarrow> onDataPos statId (OopReadWord statId) e;
        (sent, e) \<leftarrow> OopSend statId (OopWord e) False e;
        Some (False, if sent then L\<lparr>lineFinished := False\<rparr> else L, e) }
      else if w = ''BECOME'' then do {
        (ok, tile, e) \<leftarrow> OopParseTile statId (argTile L) e;
        let L = L\<lparr>argTile := tile\<rparr>;
        if ok then Some (False, L\<lparr>replaceStat := True, replaceTile := tile\<rparr>, e)
        else do { e \<leftarrow> OopError statId ''Bad #BECOME'' e; Some (False, L, e) } }
      else if w = ''PUT'' then do { (L, e) \<leftarrow> putCommand statId L e; Some (False, L, e) }
      else if w = ''CHANGE'' then do { (L, e) \<leftarrow> changeCommand statId L e; Some (False, L, e) }
      else if w = ''PLAY'' then do {
        s \<leftarrow> statAt statId e;
        (line, p, e) \<leftarrow> OopReadLineToEnd statId (DataPos s) e;
        e \<leftarrow> modStat statId (\<lambda>s. s\<lparr>DataPos := p\<rparr>) e;
        let notes = SoundParse line;
        Some (False, L\<lparr>lineFinished := False\<rparr>,
              if i16 (int (length notes)) \<noteq> 0 then SoundQueue (-1) notes e else e) }
      else if w = ''CYCLE'' then do {
        e \<leftarrow> onDataPos statId (OopReadValue statId) e;
        e \<leftarrow> (if OopValue e > 0 then modStat statId (\<lambda>s. s\<lparr>sCycle := OopValue e\<rparr>) e else Some e);
        Some (False, L, e) }
      else if w = ''CHAR'' then do {
        e \<leftarrow> onDataPos statId (OopReadValue statId) e;
        e \<leftarrow> (if OopValue e > 0 \<and> OopValue e \<le> 255 then do {
                e \<leftarrow> modStat statId (\<lambda>s. s\<lparr>P1 := OopValue e\<rparr>) e;
                s \<leftarrow> statAt statId e;
                BoardDrawTile (sX s) (sY s) e }
              else Some e);
        Some (False, L, e) }
      else if w = ''DIE'' then
        Some (False, L\<lparr>replaceStat := True, replaceTile := \<lparr>Element = E_EMPTY, Color = 15\<rparr>\<rparr>, e)
      else if w = ''BIND'' then do {
        e \<leftarrow> onDataPos statId (OopReadWord statId) e;
        (found, bindStatId, e) \<leftarrow> OopIterateStat statId 0 (OopWord e) e;
        if found then do {
          b \<leftarrow> statAt bindStatId e;
          e \<leftarrow> modStat statId (\<lambda>s. s\<lparr>Data := Data b, DataLen := DataLen b, DataPos := 0\<rparr>) e;
          Some (False, L, e) }
        else Some (False, L, e) }
      else do {
        (sent, e) \<leftarrow> OopSend statId w False e;
        if sent then Some (False, L\<lparr>lineFinished := False\<rparr>, e)
        else if Pos CHR '':'' w \<le> 0 then do {
          e \<leftarrow> OopError statId (''Bad command '' @ w) e; Some (False, L, e) }
        else Some (False, L, e) })"

section \<open>The loop\<close>

datatype OopLabel = ReadInstruction | ReadCommand | Finished

text \<open>The test at the bottom of the loop.\<close>

definition loopEnd :: "OopLocals \<Rightarrow> Engine \<Rightarrow> OopLabel \<times> OopLocals \<times> Engine" where
  "loopEnd L e =
     (if endOfProgram L \<or> stopRunning L \<or> repeatInsNextTick L \<or> replaceStat L \<or> insCount L > 32
      then Finished else ReadInstruction, L, e)"

text \<open>\<open>for e.OopChar == ':'\<close>: skip labels to the end of their lines.\<close>

function skipLabels :: "int \<Rightarrow> int \<Rightarrow> Engine \<Rightarrow> (int \<times> Engine) option" where
  "skipLabels statId position e =
     (if OopChar e = CHR '':'' then do {
        (position1, e1) \<leftarrow> OopSkipLine statId position e;
        (position2, e2) \<leftarrow> OopReadChar statId position1 e1;
        if OopChar e2 \<noteq> CHR '':'' then Some (position2, e2) else skipLabels statId position2 e2 }
      else Some (position, e))"
  by pat_completeness auto
termination
  by (relation "measure (\<lambda>(statId, p, e). remaining statId p e)")
     (auto dest!: OopSkipLine_remaining intro: OopReadChar_progress [THEN less_le_trans])

declare skipLabels.simps [simp del]

definition runInstruction :: "int \<Rightarrow> OopLocals \<Rightarrow> Engine \<Rightarrow> (OopLabel \<times> OopLocals \<times> Engine) option" where
  "runInstruction statId L e =
     do { s \<leftarrow> statAt statId e;
          let L = L\<lparr>lineFinished := True, lastPosition := DataPos s\<rparr>;
          e \<leftarrow> onDataPos statId (\<lambda>p e. do { (p, e) \<leftarrow> OopReadChar statId p e; skipLabels statId p e }) e;
          let c = OopChar e;
          if c = CHR 0x27 \<or> c = CHR ''@'' then do {
            e \<leftarrow> onDataPos statId (OopSkipLine statId) e;
            Some (loopEnd L e) }
          else if c = CHR ''/'' \<or> c = CHR ''?'' then do {
            let L = (if c = CHR ''/'' then L\<lparr>repeatInsNextTick := True\<rparr> else L);
            e \<leftarrow> onDataPos statId (OopReadWord statId) e;
            (ok, deltaX, deltaY, e) \<leftarrow> OopParseDirection statId 0 0 e;
            if ok then do {
              (L, e) \<leftarrow> (if deltaX \<noteq> 0 \<or> deltaY \<noteq> 0 then do {
                  (moved, e) \<leftarrow> pushAndMove statId deltaX deltaY e;
                  Some (if moved then L\<lparr>repeatInsNextTick := False\<rparr> else L, e) }
                else Some (L\<lparr>repeatInsNextTick := False\<rparr>, e));
              e \<leftarrow> onDataPos statId (\<lambda>p e. do {
                      (p, e) \<leftarrow> OopReadChar statId p e;
                      Some (if OopChar e \<noteq> CR then i16 (p - 1) else p, e) }) e;
              Some (loopEnd (L\<lparr>stopRunning := True\<rparr>) e) }
            else do {
              e \<leftarrow> OopError statId ''Bad direction'' e;
              Some (loopEnd L e) } }
          else if c = CHR ''#'' then Some (ReadCommand, L, e)
          else if c = CR then do {
            L \<leftarrow> (if windowLines L \<noteq> [] then TextWindowAppend [] L else Some L);
            Some (loopEnd L e) }
          else if c = NUL then Some (loopEnd (L\<lparr>endOfProgram := True\<rparr>) e)
          else do {
            s \<leftarrow> statAt statId e;
            (line, p, e) \<leftarrow> OopReadLineToEnd statId (DataPos s) e;
            e \<leftarrow> modStat statId (\<lambda>s. s\<lparr>DataPos := p\<rparr>) e;
            L \<leftarrow> TextWindowAppend (c # line) L;
            Some (loopEnd L e) } }"

definition runCommand :: "int \<Rightarrow> int \<Rightarrow> int \<Rightarrow> OopLocals \<Rightarrow> Engine \<Rightarrow> (OopLabel \<times> OopLocals \<times> Engine) option" where
  "runCommand statId activeId activePlayer L e =
     do { e \<leftarrow> onDataPos statId (OopReadWord statId) e;
          e \<leftarrow> (if OopWord e = ''THEN'' then onDataPos statId (OopReadWord statId) e else Some e);
          if Length (OopWord e) = 0 then Some (ReadInstruction, L, e)
          else do {
            (again, L, e) \<leftarrow> execCommand statId activeId activePlayer (L\<lparr>insCount := i16 (insCount L + 1)\<rparr>) e;
            if again then Some (ReadCommand, L, e)
            else do {
              e \<leftarrow> (if lineFinished L then onDataPos statId (OopSkipLine statId) e else Some e);
              Some (loopEnd L e) } } }"

definition oopStep ::
  "int \<Rightarrow> int \<Rightarrow> int \<Rightarrow> OopLabel \<times> OopLocals \<times> Engine \<Rightarrow> (OopLabel \<times> OopLocals \<times> Engine) option" where
  "oopStep statId activeId activePlayer r =
     (case r of (l, L, e) \<Rightarrow>
       (case l of
          ReadInstruction \<Rightarrow> runInstruction statId L e
        | ReadCommand \<Rightarrow> runCommand statId activeId activePlayer L e
        | Finished \<Rightarrow> Some (l, L, e)))"

definition oopRunning :: "(OopLabel \<times> OopLocals \<times> Engine) option \<Rightarrow> bool" where
  "oopRunning r = (case r of None \<Rightarrow> False | Some (l, L, e) \<Rightarrow> l \<noteq> Finished)"

text \<open>\<open>None\<close> if the loop never ends, \<open>Some None\<close> if it panics.\<close>

definition oopLoop ::
  "int \<Rightarrow> int \<Rightarrow> int \<Rightarrow> OopLocals \<Rightarrow> Engine \<Rightarrow> (OopLabel \<times> OopLocals \<times> Engine) option option" where
  "oopLoop statId activeId activePlayer L e =
     while_option oopRunning (\<lambda>r. r \<bind> oopStep statId activeId activePlayer)
       (Some (ReadInstruction, L, e))"

text \<open>What follows the loop: the position to resume from, the scroll or message, \<open>#DIE\<close>.\<close>

definition oopFinish :: "int \<Rightarrow> string \<Rightarrow> OopLocals \<Rightarrow> Engine \<Rightarrow> Engine option" where
  "oopFinish statId name L e =
     do { e \<leftarrow> (if repeatInsNextTick L then modStat statId (\<lambda>s. s\<lparr>DataPos := lastPosition L\<rparr>) e
                else Some e);
          e \<leftarrow> (if OopChar e = NUL then modStat statId (\<lambda>s. s\<lparr>DataPos := -1\<rparr>) e else Some e);
          e \<leftarrow> (case windowLines L of
                  [] \<Rightarrow> Some e
                | [line] \<Rightarrow> DisplayMessage 200 line e
                | lines \<Rightarrow> do {
                    (namePosition, e) \<leftarrow> OopReadChar statId 0 e;
                    (name, e) \<leftarrow> (if OopChar e = CHR ''@'' then do {
                        (name, _, e) \<leftarrow> OopReadLineToEnd statId namePosition e; Some (name, e) }
                      else Some (name, e));
                    let name = (if Length name = 0 then ''Interaction'' else name);
                    let (audience, e) = TakeScrollAudience statId e;
                    Some (emit (ScrollEvent name lines statId audience) e) });
          if replaceStat L then do {
            s \<leftarrow> statAt statId e;
            e \<leftarrow> DamageStat statId e;
            OopPlaceTile (sX s) (sY s) (replaceTile L) e }
          else Some e }"

definition OopExecute :: "int \<Rightarrow> string \<Rightarrow> Engine \<Rightarrow> Engine option" where
  "OopExecute statId name e =
     do { s \<leftarrow> statAt statId e;
          activeId \<leftarrow> NearestPlayer (sX s) (sY s) e;
          let (activePlayer, e) = PlayerFor activeId e;
          r \<leftarrow> oopLoop statId activeId activePlayer initLocals e;
          (_, L, e) \<leftarrow> r;
          oopFinish statId name L e }"

end
