(* ===== verification/Creatures.thy ===== *)
theory Creatures
  imports OopExec
begin

text \<open>
  The tick procedures of \<open>engine/elements.go\<close> that touch nothing but the board and its stats,
  and \<open>DrawPlayerSurroundings\<close> with its bomb phases. \<open>stat\<close> in a procedure is a pointer into
  the stat array, so it is read again after every call that can renumber the stats.
\<close>

section \<open>Messages and bombs\<close>

definition ElementMessageTimerTick :: "int \<Rightarrow> Engine \<Rightarrow> Engine option" where
  "ElementMessageTimerTick statId e =
     do { s \<leftarrow> statAt statId e;
          if sX s \<noteq> 0 then Some e
          else do {
            let msg = bMessage (bInfo (Board e));
            let e = VideoWriteText (quot (i16 (60 - Length msg)) 2) 24 (u8 (9 + P2 s mod 7))
                      ('' '' @ msg @ '' '') e;
            e \<leftarrow> modStat statId (\<lambda>s. s\<lparr>P2 := u8 (P2 s - 1)\<rparr>) e;
            s \<leftarrow> statAt statId e;
            if P2 s \<le> 0 then do {
              e \<leftarrow> RemoveStat statId e;
              let e = e\<lparr>CurrentStatTicked := i16 (CurrentStatTicked e - 1)\<rparr>;
              e \<leftarrow> BoardDrawBorder e;
              Some (modInfo (\<lambda>i. i\<lparr>bMessage := []\<rparr>) e) }
            else Some e } }"

text \<open>The body of \<open>DrawPlayerSurroundings\<close> on a square inside the bomb's reach.\<close>

definition bombSquare :: "int \<Rightarrow> int \<Rightarrow> int \<Rightarrow> Engine \<Rightarrow> Engine option" where
  "bombSquare bombPhase ix iy e =
     (if bombPhase = 1 then do {
        el \<leftarrow> elementAt ix iy e;
        d \<leftarrow> elemDef el;
        e \<leftarrow> (if Length (ParamTextName d) \<noteq> 0 then do {
                istat \<leftarrow> GetStatIdAt ix iy e;
                if istat > 0 then map_option snd (OopSend (i16 (- istat)) ''BOMBED'' False e)
                else Some e }
              else Some e);
        el \<leftarrow> elementAt ix iy e;
        d \<leftarrow> elemDef el;
        e \<leftarrow> (if Destructible d \<or> el = E_STAR then BoardDamageTile ix iy e else Some e);
        el \<leftarrow> elementAt ix iy e;
        if el = E_EMPTY \<or> el = E_BREAKABLE then do {
          let (r, e) = Random 7 e;
          e \<leftarrow> setTile ix iy \<lparr>Element = E_BREAKABLE, Color = u8 (9 + r)\<rparr> e;
          BoardDrawTile ix iy e }
        else Some e }
      else do {
        el \<leftarrow> elementAt ix iy e;
        if el = E_BREAKABLE then setElement ix iy E_EMPTY e else Some e })"

definition DrawPlayerSurroundings :: "int \<Rightarrow> int \<Rightarrow> int \<Rightarrow> Engine \<Rightarrow> Engine option" where
  "DrawPlayerSurroundings x y bombPhase e =
     surroundings (\<lambda>ix iy e. do {
         e \<leftarrow> (if bombPhase > 0 \<and> inTorchRange (ix - x) (iy - y) then bombSquare bombPhase ix iy e
               else Some e);
         BoardDrawTile ix iy e }) x y e"

text \<open>Phase 0 is the redraw that \<open>MoveStat\<close> and \<open>DamageStat\<close> ask for.\<close>

lemma DrawPlayerSurroundings_0: "DrawPlayerSurroundings x y 0 e = redrawSurroundings x y e"
  by (simp add: DrawPlayerSurroundings_def redrawSurroundings_def)

definition ElementBombTick :: "int \<Rightarrow> Engine \<Rightarrow> Engine option" where
  "ElementBombTick statId e =
     do { s \<leftarrow> statAt statId e;
          if P1 s > 0 then do {
            e \<leftarrow> modStat statId (\<lambda>s. s\<lparr>P1 := u8 (P1 s - 1)\<rparr>) e;
            e \<leftarrow> BoardDrawTile (sX s) (sY s) e;
            s \<leftarrow> statAt statId e;
            if P1 s = 1 then
              DrawPlayerSurroundings (sX s) (sY s) 1
                (SoundQueue 1 [96, 1, 80, 1, 64, 1, 48, 1, 32, 1, 16, 1] e)
            else if P1 s = 0 then do {
              e \<leftarrow> RemoveStat statId e;
              DrawPlayerSurroundings (sX s) (sY s) 2 e }
            else if P1 s mod 2 = 0 then Some (SoundQueue 1 [248, 1] e)
            else Some (SoundQueue 1 [245, 1] e) }
          else Some e }"

section \<open>Hunters\<close>

text \<open>\<open>e.CalcDirectionRnd\<close> or \<open>e.CalcDirectionSeek\<close> by a draw against \<open>P1\<close>.\<close>

definition wander :: "int \<Rightarrow> Engine \<Rightarrow> ((int \<times> int) \<times> Engine) option" where
  "wander statId e =
     do { s \<leftarrow> statAt statId e;
          let (r, e) = Random 10 e;
          if P1 s < r then Some (CalcDirectionRnd e) else CalcDirectionSeek (sX s) (sY s) e }"

definition ElementLionTick :: "int \<Rightarrow> Engine \<Rightarrow> Engine option" where
  "ElementLionTick statId e =
     do { ((deltaX, deltaY), e) \<leftarrow> wander statId e;
          s \<leftarrow> statAt statId e;
          let x = i16 (sX s + deltaX);
          let y = i16 (sY s + deltaY);
          el \<leftarrow> elementAt x y e;
          d \<leftarrow> elemDef el;
          if Walkable d then MoveStat statId x y e
          else if el = E_PLAYER then BoardAttack statId x y e
          else Some e }"

text \<open>The two aimed shots a tiger or a spinning gun tries, at the player whose stat is \<open>pId\<close>.\<close>

definition shootAt :: "int \<Rightarrow> int \<Rightarrow> int \<Rightarrow> Engine \<Rightarrow> Engine option" where
  "shootAt element statId pId e =
     do { s \<leftarrow> statAt statId e;
          target \<leftarrow> statAt pId e;
          (shot, e) \<leftarrow> (if Difference (sX s) (sX target) \<le> 2
            then BoardShoot element (sX s) (sY s) 0 (Signum (i16 (sY target - sY s))) SHOT_SOURCE_ENEMY e
            else Some (False, e));
          if shot then Some e
          else do {
            s \<leftarrow> statAt statId e;
            target \<leftarrow> statAt pId e;
            if Difference (sY s) (sY target) \<le> 2
            then map_option snd (BoardShoot element (sX s) (sY s)
                   (Signum (i16 (sX target - sX s))) 0 SHOT_SOURCE_ENEMY e)
            else Some e } }"

definition shotElement :: "TStat \<Rightarrow> int" where
  "shotElement s = (if P2 s \<ge> 128 then E_STAR else E_BULLET)"

definition ElementTigerTick :: "int \<Rightarrow> Engine \<Rightarrow> Engine option" where
  "ElementTigerTick statId e =
     do { s \<leftarrow> statAt statId e;
          pId \<leftarrow> NearestPlayer (sX s) (sY s) e;
          let (r, e) = Random 10 e;
          e \<leftarrow> (if i16 (r * 3) \<le> P2 s mod 128 then shootAt (shotElement s) statId pId e else Some e);
          ElementLionTick statId e }"

definition setStep :: "int \<Rightarrow> int \<Rightarrow> int \<Rightarrow> Engine \<Rightarrow> Engine option" where
  "setStep statId dx dy e = modStat statId (\<lambda>s. s\<lparr>StepX := dx, StepY := dy\<rparr>) e"

definition ElementRuffianTick :: "int \<Rightarrow> Engine \<Rightarrow> Engine option" where
  "ElementRuffianTick statId e =
     do { s \<leftarrow> statAt statId e;
          if StepX s = 0 \<and> StepY s = 0 then do {
            let (r, e) = Random 17 e;
            if P2 s + 8 \<le> r then do {
              let (r, e) = Random 9 e;
              ((dx, dy), e) \<leftarrow> (if P1 s \<ge> r then CalcDirectionSeek (sX s) (sY s) e
                                else Some (CalcDirectionRnd e));
              setStep statId dx dy e }
            else Some e }
          else do {
            pId \<leftarrow> NearestPlayer (sX s) (sY s) e;
            target \<leftarrow> statAt pId e;
            e \<leftarrow> (if sY s = sY target \<or> sX s = sX target then do {
                let (r, e) = Random 9 e;
                if r \<le> P1 s then do {
                  ((dx, dy), e) \<leftarrow> CalcDirectionSeek (sX s) (sY s) e;
                  setStep statId dx dy e }
                else Some e }
              else Some e);
            s \<leftarrow> statAt statId e;
            let x = i16 (sX s + StepX s);
            let y = i16 (sY s + StepY s);
            el \<leftarrow> elementAt x y e;
            if el = E_PLAYER then BoardAttack statId x y e
            else do {
              d \<leftarrow> elemDef el;
              if Walkable d then do {
                e \<leftarrow> MoveStat statId x y e;
                s \<leftarrow> statAt statId e;
                let (r, e) = Random 17 e;
                if P2 s + 8 \<le> r then setStep statId 0 0 e else Some e }
              else setStep statId 0 0 e } } }"

definition ElementBearTick :: "int \<Rightarrow> Engine \<Rightarrow> Engine option" where
  "ElementBearTick statId e =
     do { s \<leftarrow> statAt statId e;
          pId \<leftarrow> NearestPlayer (sX s) (sY s) e;
          target \<leftarrow> statAt pId e;
          let (deltaX, deltaY) =
            (if sX s \<noteq> sX target \<and> Difference (sY s) (sY target) \<le> 8 - P1 s
             then (Signum (i16 (sX target - sX s)), 0)
             else if Difference (sX s) (sX target) \<le> 8 - P1 s
             then (0, Signum (i16 (sY target - sY s)))
             else (0, 0));
          let x = i16 (sX s + deltaX);
          let y = i16 (sY s + deltaY);
          el \<leftarrow> elementAt x y e;
          d \<leftarrow> elemDef el;
          if Walkable d then MoveStat statId x y e
          else if el = E_PLAYER \<or> el = E_BREAKABLE then BoardAttack statId x y e
          else Some e }"

definition ElementSharkTick :: "int \<Rightarrow> Engine \<Rightarrow> Engine option" where
  "ElementSharkTick statId e =
     do { ((deltaX, deltaY), e) \<leftarrow> wander statId e;
          s \<leftarrow> statAt statId e;
          let x = i16 (sX s + deltaX);
          let y = i16 (sY s + deltaY);
          el \<leftarrow> elementAt x y e;
          if el = E_WATER then MoveStat statId x y e
          else if el = E_PLAYER then BoardAttack statId x y e
          else Some e }"

section \<open>Centipedes\<close>

text \<open>A square a centipede head will not step onto.\<close>

definition headBlocked :: "int \<Rightarrow> int \<Rightarrow> Engine \<Rightarrow> bool option" where
  "headBlocked x y e =
     do { el \<leftarrow> elementAt x y e; d \<leftarrow> elemDef el; Some (\<not> Walkable d \<and> el \<noteq> E_PLAYER) }"

definition aheadBlocked :: "int \<Rightarrow> Engine \<Rightarrow> bool option" where
  "aheadBlocked statId e =
     do { s \<leftarrow> statAt statId e;
          headBlocked (i16 (sX s + StepX s)) (i16 (sY s + StepY s)) e }"

text \<open>The choice of direction: seek, keep, or turn; then look for a way round a blocked square.\<close>

definition headSteer :: "int \<Rightarrow> Engine \<Rightarrow> Engine option" where
  "headSteer statId e =
     do { s \<leftarrow> statAt statId e;
          pId \<leftarrow> NearestPlayer (sX s) (sY s) e;
          target \<leftarrow> statAt pId e;
          let (sameX, e) = (if sX s = sX target then let (r, e) = Random 10 e in (r < P1 s, e)
                             else (False, e));
          if sameX then setStep statId 0 (Signum (i16 (sY target - sY s))) e
          else do {
            let (sameY, e) = (if sY s = sY target then let (r, e) = Random 10 e in (r < P1 s, e)
                               else (False, e));
            if sameY then setStep statId (Signum (i16 (sX target - sX s))) 0 e
            else do {
              let (r, e) = Random 10 e;
              if i16 (r * 4) < P2 s \<or> StepX s = 0 \<and> StepY s = 0 then do {
                let ((dx, dy), e) = CalcDirectionRnd e;
                setStep statId dx dy e }
              else Some e } } }"

definition headTurn :: "int \<Rightarrow> Engine \<Rightarrow> Engine option" where
  "headTurn statId e =
     do { b \<leftarrow> aheadBlocked statId e;
          if \<not> b then Some e
          else do {
            s \<leftarrow> statAt statId e;
            let ix = StepX s;
            let iy = StepY s;
            let (r1, e) = Random 2 e;
            let (r2, e) = Random 2 e;
            e \<leftarrow> setStep statId (i16 (i16 (i16 (r1 * 2) - 1) * iy)) (i16 (i16 (i16 (r2 * 2) - 1) * ix)) e;
            b \<leftarrow> aheadBlocked statId e;
            if \<not> b then Some e
            else do {
              e \<leftarrow> modStat statId (\<lambda>s. s\<lparr>StepX := neg16 (StepX s), StepY := neg16 (StepY s)\<rparr>) e;
              b \<leftarrow> aheadBlocked statId e;
              if \<not> b then Some e
              else do {
                s \<leftarrow> statAt statId e;
                back \<leftarrow> headBlocked (i16 (sX s - ix)) (i16 (sY s - iy)) e;
                if \<not> back then setStep statId (neg16 ix) (neg16 iy) e else setStep statId 0 0 e } } } }"

text \<open>
  A head with nowhere to go turns the centipede round: along the chain, \<open>Follower\<close> and
  \<open>Leader\<close> swap. The loop runs as long as there is a follower.
\<close>

partial_function (option) reverseChain :: "int \<Rightarrow> Engine \<Rightarrow> (int \<times> Engine) option" where
  "reverseChain statId e =
     do { s \<leftarrow> statAt statId e;
          if Follower s > 0 then do {
            let tmp = Follower s;
            e \<leftarrow> modStat statId (\<lambda>s. s\<lparr>Follower := Leader s\<rparr>) e;
            e \<leftarrow> modStat statId (\<lambda>s. s\<lparr>Leader := tmp\<rparr>) e;
            reverseChain tmp e }
          else Some (statId, e) }"

definition headReverse :: "int \<Rightarrow> Engine \<Rightarrow> Engine option" where
  "headReverse statId e =
     do { s \<leftarrow> statAt statId e;
          e \<leftarrow> setElement (sX s) (sY s) E_CENTIPEDE_SEGMENT e;
          e \<leftarrow> modStat statId (\<lambda>s. s\<lparr>Leader := -1\<rparr>) e;
          (tail, e) \<leftarrow> reverseChain statId e;
          e \<leftarrow> modStat tail (\<lambda>s. s\<lparr>Follower := Leader s\<rparr>) e;
          s \<leftarrow> statAt tail e;
          setElement (sX s) (sY s) E_CENTIPEDE_HEAD e }"

definition headAttack :: "int \<Rightarrow> int \<Rightarrow> int \<Rightarrow> Engine \<Rightarrow> Engine option" where
  "headAttack statId x y e =
     do { s \<leftarrow> statAt statId e;
          e \<leftarrow> (if Follower s \<noteq> -1 then do {
                  f \<leftarrow> statAt (Follower s) e;
                  e \<leftarrow> setElement (sX f) (sY f) E_CENTIPEDE_HEAD e;
                  e \<leftarrow> setStep (Follower s) (StepX s) (StepY s) e;
                  BoardDrawTile (sX f) (sY f) e }
                else Some e);
          s \<leftarrow> statAt statId e;
          BoardAttack statId (i16 (sX s + StepX s)) (i16 (sY s + StepY s)) e }"

text \<open>A leaderless segment at \<open>(x, y)\<close>, which the tail can pick up.\<close>

definition looseSegment :: "int \<Rightarrow> int \<Rightarrow> Engine \<Rightarrow> bool option" where
  "looseSegment x y e =
     do { el \<leftarrow> elementAt x y e;
          if el \<noteq> E_CENTIPEDE_SEGMENT then Some False
          else do { i \<leftarrow> GetStatIdAt x y e; s \<leftarrow> statAt i e; Some (Leader s < 0) } }"

definition adoptSegment :: "int \<Rightarrow> int \<Rightarrow> int \<Rightarrow> Engine \<Rightarrow> Engine option" where
  "adoptSegment statId x y e =
     do { i \<leftarrow> GetStatIdAt x y e; modStat statId (\<lambda>s. s\<lparr>Follower := i\<rparr>) e }"

definition linkFollower :: "int \<Rightarrow> int \<Rightarrow> int \<Rightarrow> int \<Rightarrow> int \<Rightarrow> Engine \<Rightarrow> Engine option" where
  "linkFollower statId tx ty ix iy e =
     do { b \<leftarrow> looseSegment (i16 (tx - ix)) (i16 (ty - iy)) e;
          if b then adoptSegment statId (i16 (tx - ix)) (i16 (ty - iy)) e
          else do {
            b \<leftarrow> looseSegment (i16 (tx - iy)) (i16 (ty - ix)) e;
            if b then adoptSegment statId (i16 (tx - iy)) (i16 (ty - ix)) e
            else do {
              b \<leftarrow> looseSegment (i16 (tx + iy)) (i16 (ty + ix)) e;
              if b then adoptSegment statId (i16 (tx + iy)) (i16 (ty + ix)) e
              else Some e } } }"

partial_function (option) dragChain :: "int \<Rightarrow> Engine \<Rightarrow> Engine option" where
  "dragChain statId e =
     do { s \<leftarrow> statAt statId e;
          let tx = i16 (sX s - StepX s);
          let ty = i16 (sY s - StepY s);
          e \<leftarrow> (if Follower s < 0 then linkFollower statId tx ty (StepX s) (StepY s) e else Some e);
          s \<leftarrow> statAt statId e;
          e \<leftarrow> (if Follower s > 0 then do {
                  e \<leftarrow> modStat (Follower s)
                        (\<lambda>f. f\<lparr>Leader := statId, P1 := P1 s, P2 := P2 s,
                               StepX := i16 (tx - sX f), StepY := i16 (ty - sY f)\<rparr>) e;
                  MoveStat (Follower s) tx ty e }
                else Some e);
          s \<leftarrow> statAt statId e;
          if Follower s = -1 then Some e else dragChain (Follower s) e }"

definition ElementCentipedeHeadTick :: "int \<Rightarrow> Engine \<Rightarrow> Engine option" where
  "ElementCentipedeHeadTick statId e =
     do { e \<leftarrow> headSteer statId e;
          e \<leftarrow> headTurn statId e;
          s \<leftarrow> statAt statId e;
          if StepX s = 0 \<and> StepY s = 0 then headReverse statId e
          else do {
            let x = i16 (sX s + StepX s);
            let y = i16 (sY s + StepY s);
            el \<leftarrow> elementAt x y e;
            if el = E_PLAYER then headAttack statId x y e
            else do { e \<leftarrow> MoveStat statId x y e; dragChain statId e } } }"

definition ElementCentipedeSegmentTick :: "int \<Rightarrow> Engine \<Rightarrow> Engine option" where
  "ElementCentipedeSegmentTick statId e =
     do { s \<leftarrow> statAt statId e;
          if Leader s < 0 then
            if Leader s < -1 then setElement (sX s) (sY s) E_CENTIPEDE_HEAD e
            else modStat statId (\<lambda>s. s\<lparr>Leader := i16 (Leader s - 1)\<rparr>) e
          else Some e }"

section \<open>Bullets, stars and guns\<close>

definition removeBullet :: "int \<Rightarrow> Engine \<Rightarrow> Engine option" where
  "removeBullet statId e =
     do { e \<leftarrow> RemoveStat statId e;
          Some (e\<lparr>CurrentStatTicked := i16 (CurrentStatTicked e - 1)\<rparr>) }"

text \<open>A bullet that reached something it can hurt, at \<open>(ix, iy)\<close>.\<close>

definition bulletHit :: "int \<Rightarrow> int \<Rightarrow> int \<Rightarrow> int \<Rightarrow> Engine \<Rightarrow> Engine option" where
  "bulletHit statId ix iy iElem e =
     do { s \<leftarrow> statAt statId e;
          absorbed \<leftarrow> (if iElem = E_PLAYER then do {
              targetStatId \<leftarrow> GetStatIdAt ix iy e;
              Some (P1 s \<ge> SHOT_SOURCE_PLAYER_BASE \<and>
                    (\<not> FriendlyFire e \<or> targetStatId = P1 s - SHOT_SOURCE_PLAYER_BASE)) }
            else Some False);
          if absorbed then removeBullet statId e
          else do {
            d \<leftarrow> elemDef iElem;
            e \<leftarrow> (if ScoreValue d \<noteq> 0 then do {
                let ownerStatId = (if P1 s \<ge> SHOT_SOURCE_PLAYER_BASE
                                    then P1 s - SHOT_SOURCE_PLAYER_BASE else 0);
                let (ps, e) = PlayerFor ownerStatId e;
                GameUpdateSidebar (modPlayer ps (\<lambda>p. p\<lparr>pScore := i16 (pScore p + ScoreValue d)\<rparr>) e) }
              else Some e);
            BoardAttack statId ix iy e } }"

text \<open>From the label \<open>TryMove\<close> on; a ricochet goes back to it once.\<close>

function bulletTry :: "bool \<Rightarrow> int \<Rightarrow> Engine \<Rightarrow> Engine option" where
  "bulletTry firstTry statId e =
     do { s \<leftarrow> statAt statId e;
          let ix = i16 (sX s + StepX s);
          let iy = i16 (sY s + StepY s);
          iElem \<leftarrow> elementAt ix iy e;
          d \<leftarrow> elemDef iElem;
          if Walkable d \<or> iElem = E_WATER then MoveStat statId ix iy e
          else if iElem = E_RICOCHET \<and> firstTry then do {
            e \<leftarrow> setStep statId (neg16 (StepX s)) (neg16 (StepY s)) e;
            bulletTry False statId (SoundQueue 1 [249, 1] e) }
          else if iElem = E_BREAKABLE \<or>
                  Destructible d \<and> (iElem = E_PLAYER \<or> P1 s \<ge> SHOT_SOURCE_PLAYER_BASE)
          then bulletHit statId ix iy iElem e
          else do {
            el1 \<leftarrow> elementAt (i16 (sX s + StepY s)) (i16 (sY s + StepX s)) e;
            if el1 = E_RICOCHET \<and> firstTry then do {
              e \<leftarrow> setStep statId (neg16 (StepY s)) (neg16 (StepX s)) e;
              bulletTry False statId (SoundQueue 1 [249, 1] e) }
            else do {
              el2 \<leftarrow> elementAt (i16 (sX s - StepY s)) (i16 (sY s - StepX s)) e;
              if el2 = E_RICOCHET \<and> firstTry then do {
                e \<leftarrow> setStep statId (StepY s) (StepX s) e;
                bulletTry False statId (SoundQueue 1 [249, 1] e) }
              else do {
                e \<leftarrow> removeBullet statId e;
                if iElem = E_OBJECT \<or> iElem = E_SCROLL then do {
                  iStat \<leftarrow> GetStatIdAt ix iy e;
                  map_option snd (OopSend (i16 (- iStat)) ''SHOT'' False e) }
                else Some e } } } }"
  by pat_completeness auto
termination
  by (relation "measure (\<lambda>(firstTry, statId, e). if firstTry then 1 else 0)") auto

declare bulletTry.simps [simp del]

definition ElementBulletTick :: "int \<Rightarrow> Engine \<Rightarrow> Engine option" where
  "ElementBulletTick statId e = bulletTry True statId e"

definition ElementSpinningGunTick :: "int \<Rightarrow> Engine \<Rightarrow> Engine option" where
  "ElementSpinningGunTick statId e =
     do { s \<leftarrow> statAt statId e;
          e \<leftarrow> BoardDrawTile (sX s) (sY s) e;
          let (r, e) = Random 9 e;
          if \<not> (r < P2 s mod 128) then Some e
          else do {
            let (r, e) = Random 9 e;
            if r \<le> P1 s then do {
              pId \<leftarrow> NearestPlayer (sX s) (sY s) e;
              shootAt (shotElement s) statId pId e }
            else do {
              let ((deltaX, deltaY), e) = CalcDirectionRnd e;
              map_option snd (BoardShoot (shotElement s) (sX s) (sY s) deltaX deltaY
                SHOT_SOURCE_ENEMY e) } } }"

definition ElementStarTick :: "int \<Rightarrow> Engine \<Rightarrow> Engine option" where
  "ElementStarTick statId e =
     do { e \<leftarrow> modStat statId (\<lambda>s. s\<lparr>P2 := u8 (P2 s - 1)\<rparr>) e;
          s \<leftarrow> statAt statId e;
          if P2 s \<le> 0 then RemoveStat statId e
          else if P2 s mod 2 = 0 then do {
            ((dx, dy), e) \<leftarrow> CalcDirectionSeek (sX s) (sY s) e;
            e \<leftarrow> setStep statId dx dy e;
            let x = i16 (sX s + dx);
            let y = i16 (sY s + dy);
            el \<leftarrow> elementAt x y e;
            if el = E_PLAYER \<or> el = E_BREAKABLE then BoardAttack statId x y e
            else do {
              w \<leftarrow> walkableAt x y e;
              e \<leftarrow> (if \<not> w then ElementPushablePush x y dx dy e else Some e);
              el \<leftarrow> elementAt x y e;
              d \<leftarrow> elemDef el;
              if Walkable d \<or> el = E_WATER then do {
                s \<leftarrow> statAt statId e;
                MoveStat statId (i16 (sX s + StepX s)) (i16 (sY s + StepY s)) e }
              else Some e } }
          else BoardDrawTile (sX s) (sY s) e }"

section \<open>Slime and blink walls\<close>

definition ElementSlimeTick :: "int \<Rightarrow> Engine \<Rightarrow> Engine option" where
  "ElementSlimeTick statId e =
     do { s \<leftarrow> statAt statId e;
          if P1 s < P2 s then modStat statId (\<lambda>s. s\<lparr>P1 := u8 (P1 s + 1)\<rparr>) e
          else do {
            color \<leftarrow> colorAt (sX s) (sY s) e;
            e \<leftarrow> modStat statId (\<lambda>s. s\<lparr>P1 := 0\<rparr>) e;
            let startX = sX s;
            let startY = sY s;
            slime \<leftarrow> elemDef E_SLIME;
            (changedTiles, e) \<leftarrow> foldM (\<lambda>dir (changedTiles, e).
              do { dx \<leftarrow> index NeighborDeltaX dir;
                   dy \<leftarrow> index NeighborDeltaY dir;
                   let x = i16 (startX + dx);
                   let y = i16 (startY + dy);
                   w \<leftarrow> walkableAt x y e;
                   if \<not> w then Some (changedTiles, e)
                   else do {
                     e \<leftarrow> (if changedTiles = (0::int) then do {
                             e \<leftarrow> MoveStat statId x y e;
                             e \<leftarrow> setTile startX startY \<lparr>Element = E_BREAKABLE, Color = color\<rparr> e;
                             BoardDrawTile startX startY e }
                           else do {
                             e \<leftarrow> AddStat x y E_SLIME color (dCycle slime) StatTemplateDefault e;
                             s \<leftarrow> statAt statId e;
                             modStat (StatCount (Board e)) (\<lambda>t. t\<lparr>P2 := P2 s\<rparr>) e });
                     Some (changedTiles + 1, e) } })
              [0..3] (0, e);
            if changedTiles = 0 then do {
              e \<leftarrow> RemoveStat statId e;
              e \<leftarrow> setTile startX startY \<lparr>Element = E_BREAKABLE, Color = color\<rparr> e;
              BoardDrawTile startX startY e }
            else Some e } }"

text \<open>The ray a blink wall emitted last time, taken back one square at a time.\<close>

partial_function (option) retractRay :: "int \<Rightarrow> int \<Rightarrow> int \<Rightarrow> int \<Rightarrow> Engine \<Rightarrow> (int \<times> int \<times> Engine) option" where
  "retractRay statId el ix iy e =
     do { t \<leftarrow> tileAt ix iy e;
          s \<leftarrow> statAt statId e;
          wall \<leftarrow> (if Element t = el then colorAt (sX s) (sY s) e else Some 0);
          if Element t = el \<and> Color t = wall then do {
            e \<leftarrow> setElement ix iy E_EMPTY e;
            e \<leftarrow> BoardDrawTile ix iy e;
            s \<leftarrow> statAt statId e;
            e \<leftarrow> modStat statId (\<lambda>s. s\<lparr>P3 := u8 (P2 s * 2 + 1)\<rparr>) e;
            retractRay statId el (i16 (ix + StepX s)) (i16 (iy + StepY s)) e }
          else Some (ix, iy, e) }"

text \<open>\<open>for e.PlayerFor(id).Health > 0 { e.DamageStat(id) }\<close>.\<close>

partial_function (option) crushPlayer :: "int \<Rightarrow> Engine \<Rightarrow> Engine option" where
  "crushPlayer playerStatId e =
     (case PlayerFor playerStatId e of (ps, e) \<Rightarrow>
        if pHealth (PHeap e ps) > 0 then do {
          e \<leftarrow> DamageStat playerStatId e;
          crushPlayer playerStatId e }
        else Some e)"

text \<open>A player in the ray's way is moved aside, or killed where there is no room.\<close>

definition pushPlayerAside :: "int \<Rightarrow> int \<Rightarrow> int \<Rightarrow> Engine \<Rightarrow> (bool \<times> Engine) option" where
  "pushPlayerAside statId ix iy e =
     do { playerStatId \<leftarrow> GetStatIdAt ix iy e;
          s \<leftarrow> statAt statId e;
          e \<leftarrow> (if StepX s \<noteq> 0 then do {
                  a \<leftarrow> elementAt ix (i16 (iy - 1)) e;
                  if a = E_EMPTY then MoveStat playerStatId ix (i16 (iy - 1)) e
                  else do {
                    b \<leftarrow> elementAt ix (i16 (iy + 1)) e;
                    if b = E_EMPTY then MoveStat playerStatId ix (i16 (iy + 1)) e else Some e } }
                else do {
                  a \<leftarrow> elementAt (i16 (ix + 1)) iy e;
                  if a = E_EMPTY then MoveStat playerStatId (i16 (ix + 1)) iy e
                  else do {
                    b \<leftarrow> elementAt (i16 (ix - 1)) iy e;
                    if b = E_EMPTY then MoveStat playerStatId (i16 (ix + 1)) iy e else Some e } });
          el \<leftarrow> elementAt ix iy e;
          if el = E_PLAYER then do { e \<leftarrow> crushPlayer playerStatId e; Some (True, e) }
          else Some (False, e) }"

partial_function (option) emitRay :: "int \<Rightarrow> int \<Rightarrow> int \<Rightarrow> int \<Rightarrow> Engine \<Rightarrow> Engine option" where
  "emitRay statId el ix iy e =
     do { t \<leftarrow> elementAt ix iy e;
          e \<leftarrow> (if t \<noteq> E_EMPTY then do {
                  d \<leftarrow> elemDef t;
                  if Destructible d then BoardDamageTile ix iy e else Some e }
                else Some e);
          t \<leftarrow> elementAt ix iy e;
          (hitBoundary, e) \<leftarrow> (if t = E_PLAYER then pushPlayerAside statId ix iy e else Some (False, e));
          t \<leftarrow> elementAt ix iy e;
          (hitBoundary, e) \<leftarrow> (if t = E_EMPTY then do {
              s \<leftarrow> statAt statId e;
              wall \<leftarrow> colorAt (sX s) (sY s) e;
              e \<leftarrow> setTile ix iy \<lparr>Element = el, Color = wall\<rparr> e;
              e \<leftarrow> BoardDrawTile ix iy e;
              Some (hitBoundary, e) }
            else Some (True, e));
          s \<leftarrow> statAt statId e;
          if hitBoundary then Some e
          else emitRay statId el (i16 (ix + StepX s)) (i16 (iy + StepY s)) e }"

definition ElementBlinkWallTick :: "int \<Rightarrow> Engine \<Rightarrow> Engine option" where
  "ElementBlinkWallTick statId e =
     do { s \<leftarrow> statAt statId e;
          e \<leftarrow> (if P3 s = 0 then modStat statId (\<lambda>s. s\<lparr>P3 := u8 (P1 s + 1)\<rparr>) e else Some e);
          s \<leftarrow> statAt statId e;
          if P3 s = 1 then do {
            let el = (if StepX s \<noteq> 0 then E_BLINK_RAY_EW else E_BLINK_RAY_NS);
            (ix, iy, e) \<leftarrow> retractRay statId el (i16 (sX s + StepX s)) (i16 (sY s + StepY s)) e;
            s \<leftarrow> statAt statId e;
            if i16 (sX s + StepX s) = ix \<and> i16 (sY s + StepY s) = iy then do {
              e \<leftarrow> emitRay statId el ix iy e;
              modStat statId (\<lambda>s. s\<lparr>P3 := u8 (P2 s * 2 + 1)\<rparr>) e }
            else Some e }
          else modStat statId (\<lambda>s. s\<lparr>P3 := u8 (P3 s - 1)\<rparr>) e }"

section \<open>Conveyors and pushers\<close>

definition conveyorOrder :: "int \<Rightarrow> int list" where
  "conveyorOrder direction = (if direction = 1 then [0..7] else rev [0..7])"

text \<open>The first pass over the eight neighbours: their tiles, and whether the last one can move.\<close>

definition conveyorScan :: "int \<Rightarrow> int \<Rightarrow> int \<Rightarrow> Engine \<Rightarrow> (bool \<times> (int \<Rightarrow> TTile)) option" where
  "conveyorScan x y direction e =
     foldM (\<lambda>i (canMove, tiles).
       do { dx \<leftarrow> index DiagonalDeltaX i;
            dy \<leftarrow> index DiagonalDeltaY i;
            t \<leftarrow> tileAt (i16 (x + dx)) (i16 (y + dy)) e;
            canMove \<leftarrow> (if Element t = E_EMPTY then Some True
              else do { d \<leftarrow> elemDef (Element t); Some (Pushable d \<and> canMove) });
            Some (canMove, tiles(i := t)) })
       (conveyorOrder direction) (True, \<lambda>_. \<lparr>Element = 0, Color = 0\<rparr>)"

definition conveyorMove :: "int \<Rightarrow> int \<Rightarrow> int \<Rightarrow> (int \<Rightarrow> TTile) \<Rightarrow> int \<Rightarrow> bool \<times> Engine \<Rightarrow> (bool \<times> Engine) option" where
  "conveyorMove x y direction tiles i r =
     (case r of (canMove, e) \<Rightarrow> do {
        dx \<leftarrow> index DiagonalDeltaX i;
        dy \<leftarrow> index DiagonalDeltaY i;
        let fx = i16 (x + dx);
        let fy = i16 (y + dy);
        let t = tiles i;
        if canMove then do {
          d \<leftarrow> elemDef (Element t);
          if \<not> Pushable d then Some (False, e)
          else do {
            let j = (i - direction + 8) mod 8;
            jx \<leftarrow> index DiagonalDeltaX j;
            jy \<leftarrow> index DiagonalDeltaY j;
            let ix = i16 (x + jx);
            let iy = i16 (y + jy);
            e \<leftarrow> (if dCycle d > -1 then do {
                    tmpTile \<leftarrow> tileAt fx fy e;
                    iStat \<leftarrow> GetStatIdAt fx fy e;
                    e \<leftarrow> setTile fx fy t e;
                    e \<leftarrow> setElement ix iy E_EMPTY e;
                    e \<leftarrow> MoveStat iStat ix iy e;
                    setTile fx fy tmpTile e }
                  else do { e \<leftarrow> setTile ix iy t e; BoardDrawTile ix iy e });
            dn \<leftarrow> elemDef (Element (tiles ((i + direction + 8) mod 8)));
            e \<leftarrow> (if \<not> Pushable dn then do { e \<leftarrow> setElement fx fy E_EMPTY e; BoardDrawTile fx fy e }
                  else Some e);
            Some (True, e) } }
        else if Element t = E_EMPTY then Some (True, e)
        else Some (False, e) })"

definition ElementConveyorTick :: "int \<Rightarrow> int \<Rightarrow> int \<Rightarrow> Engine \<Rightarrow> Engine option" where
  "ElementConveyorTick x y direction e =
     do { (canMove, tiles) \<leftarrow> conveyorScan x y direction e;
          (_, e) \<leftarrow> foldM (conveyorMove x y direction tiles) (conveyorOrder direction) (canMove, e);
          Some e }"

definition ElementConveyorCWTick :: "int \<Rightarrow> Engine \<Rightarrow> Engine option" where
  "ElementConveyorCWTick statId e =
     do { s \<leftarrow> statAt statId e;
          e \<leftarrow> BoardDrawTile (sX s) (sY s) e;
          ElementConveyorTick (sX s) (sY s) 1 e }"

definition ElementConveyorCCWTick :: "int \<Rightarrow> Engine \<Rightarrow> Engine option" where
  "ElementConveyorCCWTick statId e =
     do { s \<leftarrow> statAt statId e;
          e \<leftarrow> BoardDrawTile (sX s) (sY s) e;
          ElementConveyorTick (sX s) (sY s) (-1) e }"

text \<open>A pusher that moved lets the pusher behind it, if it faces the same way, tick at once.\<close>

partial_function (option) ElementPusherTick :: "int \<Rightarrow> Engine \<Rightarrow> Engine option" where
  "ElementPusherTick statId e =
     do { s \<leftarrow> statAt statId e;
          let startX = sX s;
          let startY = sY s;
          w \<leftarrow> walkableAt (i16 (sX s + StepX s)) (i16 (sY s + StepY s)) e;
          e \<leftarrow> (if \<not> w then ElementPushablePush (i16 (sX s + StepX s)) (i16 (sY s + StepY s))
                             (StepX s) (StepY s) e
                else Some e);
          statId \<leftarrow> GetStatIdAt startX startY e;
          s2 \<leftarrow> statAt statId e;
          let x = i16 (sX s2 + StepX s2);
          let y = i16 (sY s2 + StepY s2);
          w \<leftarrow> walkableAt x y e;
          if \<not> w then Some e
          else do {
            e \<leftarrow> MoveStat statId x y e;
            let e = SoundQueue 2 [21, 1] e;
            s2 \<leftarrow> statAt statId e;
            let bx = i16 (sX s2 - i16 (StepX s2 * 2));
            let by' = i16 (sY s2 - i16 (StepY s2 * 2));
            el \<leftarrow> elementAt bx by' e;
            if el = E_PUSHER then do {
              i \<leftarrow> GetStatIdAt bx by' e;
              t \<leftarrow> statAt i e;
              if StepX t = StepX s2 \<and> StepY t = StepY s2 then ElementPusherTick i e else Some e }
            else Some e } }"

definition ElementTransporterTick :: "int \<Rightarrow> Engine \<Rightarrow> Engine option" where
  "ElementTransporterTick statId e =
     do { s \<leftarrow> statAt statId e; BoardDrawTile (sX s) (sY s) e }"

end
