(* ===== verification/Touch.thy ===== *)
theory Touch
  imports BoardFile Creatures
begin

text \<open>
  The touch procedures of \<open>engine/elements.go\<close>, with the board transfers they start
  (\<open>BoardEnter\<close>, \<open>BoardPassageTeleport\<close>). The \<open>deltaX, deltaY *int16\<close> out-parameters are a
  \<open>DeltaRef\<close>: callers pass the input globals, or the pause branch's two locals.
\<close>

section \<open>The delta pair\<close>

datatype DeltaRef = InputDelta | LocalDelta

definition getDelta :: "DeltaRef \<Rightarrow> Engine \<Rightarrow> int \<times> int" where
  "getDelta r e = (case r of InputDelta \<Rightarrow> (gInputDeltaX e, gInputDeltaY e)
                           | LocalDelta \<Rightarrow> (LocalDeltaX e, LocalDeltaY e))"

definition setDelta :: "DeltaRef \<Rightarrow> int \<Rightarrow> int \<Rightarrow> Engine \<Rightarrow> Engine" where
  "setDelta r dx dy e = (case r of InputDelta \<Rightarrow> e\<lparr>gInputDeltaX := dx, gInputDeltaY := dy\<rparr>
                                 | LocalDelta \<Rightarrow> e\<lparr>LocalDeltaX := dx, LocalDeltaY := dy\<rparr>)"

section \<open>Entering a board\<close>

definition BoardEnter :: "int \<Rightarrow> Engine \<Rightarrow> Engine option" where
  "BoardEnter statId e =
     do { s \<leftarrow> statAt statId e;
          let e = modInfo (\<lambda>i. i\<lparr>StartPlayerX := sX s, StartPlayerY := sY s\<rparr>) e;
          let e = SetReenterPoint statId (sX s) (sY s) e;
          let (ps, e) = PlayerFor statId e;
          e \<leftarrow> (if IsDark (bInfo (Board e)) \<and> MessageHintTorchNotShown (PHeap e ps) then do {
                  e \<leftarrow> DisplayMessage 200 ''Room is dark - you need to light a torch!'' e;
                  Some (modPlayer ps (\<lambda>p. p\<lparr>MessageHintTorchNotShown := False\<rparr>) e) }
                else Some e);
          let e = modPlayer ps (\<lambda>p. p\<lparr>pBoardTimeSec := 0\<rparr>) e;
          GameUpdateSidebar e }"

definition passageSoundPriority :: int where
  "passageSoundPriority = 4"

definition passageSoundPattern :: "int list" where
  "passageSoundPattern = [48, 1, 52, 1, 55, 1, 49, 1, 53, 1, 56, 1, 50, 1, 54, 1, 57, 1, 51, 1, 55, 1, 58, 1, 52, 1, 56, 1, 64, 1]"

text \<open>The last square, column by column, that holds a passage of colour \<open>col\<close>.\<close>

definition isPassage :: "Engine \<Rightarrow> int \<Rightarrow> int \<times> int \<Rightarrow> bool" where
  "isPassage e col = (\<lambda>(x, y). Element (Tiles (Board e) x y) = E_PASSAGE \<and> Color (Tiles (Board e) x y) = col)"

definition boardSquares :: "(int \<times> int) list" where
  "boardSquares = List.product [1..BOARD_WIDTH] [1..BOARD_HEIGHT]"

definition findPassage :: "int \<Rightarrow> Engine \<Rightarrow> int \<times> int" where
  "findPassage col e =
     fold (\<lambda>sq found. if isPassage e col sq then sq else found) boardSquares (0, 0)"

definition BoardPassageTeleport :: "int \<Rightarrow> int \<Rightarrow> int \<Rightarrow> Engine \<Rightarrow> Engine option" where
  "BoardPassageTeleport x y sourceStatId e =
     do { col \<leftarrow> colorAt x y e;
          passageStatId \<leftarrow> GetStatIdAt x y e;
          if passageStatId < 0 then Some e
          else do {
            p \<leftarrow> statAt passageStatId e;
            e \<leftarrow> BoardChange (P3 p) e;
            let (newX, newY) = findPassage col e;
            s \<leftarrow> statAt sourceStatId e;
            e \<leftarrow> setElement (sX s) (sY s) E_EMPTY e;
            e \<leftarrow> setColor (sX s) (sY s) 0 e;
            e \<leftarrow> (if newX \<noteq> 0 then modStat sourceStatId (\<lambda>s. s\<lparr>sX := u8 newX, sY := u8 newY\<rparr>) e
                  else Some e);
            let (ps, e) = PlayerFor sourceStatId e;
            let e = modPlayer ps (\<lambda>p. p\<lparr>Paused := True\<rparr>) e;
            let e = emit (PauseEvent sourceStatId True) e;
            let e = SoundQueue passageSoundPriority passageSoundPattern e;
            e \<leftarrow> TransitionDrawBoardChange e;
            BoardEnter sourceStatId e } }"

section \<open>Creatures and pushables\<close>

definition ElementDamagingTouch :: "int \<Rightarrow> int \<Rightarrow> int \<Rightarrow> Engine \<Rightarrow> Engine option" where
  "ElementDamagingTouch x y sourceStatId e = BoardAttack sourceStatId x y e"

definition ElementBombTouch :: "int \<Rightarrow> int \<Rightarrow> int \<Rightarrow> DeltaRef \<Rightarrow> Engine \<Rightarrow> Engine option" where
  "ElementBombTouch x y sourceStatId r e =
     do { statId \<leftarrow> GetStatIdAt x y e;
          if statId < 0 then Some e
          else do {
            s \<leftarrow> statAt statId e;
            if P1 s = 0 then do {
              e \<leftarrow> modStat statId (\<lambda>s. s\<lparr>P1 := 9\<rparr>) e;
              e \<leftarrow> BoardDrawTile (sX s) (sY s) e;
              e \<leftarrow> DisplayMessage 200 ''Bomb activated!'' e;
              Some (SoundQueue 4 [48, 1, 53, 1, 64, 1, 69, 1, 80, 1] e) }
            else ElementPushablePush (sX s) (sY s) (fst (getDelta r e)) (snd (getDelta r e)) e } }"

definition ElementTransporterTouch :: "int \<Rightarrow> int \<Rightarrow> int \<Rightarrow> DeltaRef \<Rightarrow> Engine \<Rightarrow> Engine option" where
  "ElementTransporterTouch x y sourceStatId r e =
     do { let (dx, dy) = getDelta r e;
          e \<leftarrow> ElementTransporterMove (i16 (x - dx)) (i16 (y - dy)) dx dy e;
          Some (setDelta r 0 0 e) }"

definition energizerNotes :: "int list" where
  "energizerNotes =
     [32, 3, 35, 3, 36, 3, 37, 3, 53, 3, 37, 3, 35, 3, 32, 3] @
     concat (replicate 6 [48, 3, 35, 3, 36, 3, 37, 3, 53, 3, 37, 3, 35, 3, 32, 3])"

definition ElementEnergizerTouch :: "int \<Rightarrow> int \<Rightarrow> int \<Rightarrow> Engine \<Rightarrow> Engine option" where
  "ElementEnergizerTouch x y sourceStatId e =
     do { let e = SoundQueue 9 energizerNotes e;
          e \<leftarrow> setElement x y E_EMPTY e;
          e \<leftarrow> BoardDrawTile x y e;
          let (ps, e) = PlayerFor sourceStatId e;
          let e = modPlayer ps (\<lambda>p. p\<lparr>pEnergizerTicks := 75\<rparr>) e;
          e \<leftarrow> GameUpdateSidebar e;
          e \<leftarrow> (if MessageEnergizerNotShown (PHeap e ps) then do {
                  e \<leftarrow> DisplayMessage 200 ''Energizer - You are invincible'' e;
                  Some (modPlayer ps (\<lambda>p. p\<lparr>MessageEnergizerNotShown := False\<rparr>) e) }
                else Some e);
          map_option snd (OopSend 0 ''ALL:ENERGIZE'' False e) }"

definition ElementSlimeTouch :: "int \<Rightarrow> int \<Rightarrow> int \<Rightarrow> Engine \<Rightarrow> Engine option" where
  "ElementSlimeTouch x y sourceStatId e =
     do { color \<leftarrow> colorAt x y e;
          statId \<leftarrow> GetStatIdAt x y e;
          e \<leftarrow> DamageStat statId e;
          e \<leftarrow> setElement x y E_BREAKABLE e;
          e \<leftarrow> setColor x y color e;
          e \<leftarrow> BoardDrawTile x y e;
          Some (SoundQueue 2 [32, 1, 35, 1] e) }"

definition ElementPushableTouch :: "int \<Rightarrow> int \<Rightarrow> int \<Rightarrow> DeltaRef \<Rightarrow> Engine \<Rightarrow> Engine option" where
  "ElementPushableTouch x y sourceStatId r e =
     do { e \<leftarrow> ElementPushablePush x y (fst (getDelta r e)) (snd (getDelta r e)) e;
          Some (SoundQueue 2 [21, 1] e) }"

section \<open>Objects and scrolls\<close>

definition ElementObjectTouch :: "int \<Rightarrow> int \<Rightarrow> int \<Rightarrow> Engine \<Rightarrow> Engine option" where
  "ElementObjectTouch x y sourceStatId e =
     do { statId \<leftarrow> GetStatIdAt x y e;
          if statId < 0 then Some e
          else do {
            e \<leftarrow> SetScrollAudience statId sourceStatId e;
            map_option snd (OopSend (i16 (- statId)) ''TOUCH'' False e) } }"

definition scrollWindowEmittedFor :: "Event list \<Rightarrow> int \<Rightarrow> bool" where
  "scrollWindowEmittedFor newEvents statId =
     list_ex (\<lambda>ev. case ev of ScrollEvent _ _ i _ \<Rightarrow> i = statId | _ \<Rightarrow> False) newEvents"

definition ElementScrollTouch :: "int \<Rightarrow> int \<Rightarrow> int \<Rightarrow> Engine \<Rightarrow> Engine option" where
  "ElementScrollTouch x y sourceStatId e =
     do { statId \<leftarrow> GetStatIdAt x y e;
          if statId < 0 then Some e
          else do {
            let e = SoundQueue 2 (SoundParse ''c-c+d-d+e-e+f-f+g-g'') e;
            e \<leftarrow> modStat statId (\<lambda>s. s\<lparr>DataPos := 0\<rparr>) e;
            e \<leftarrow> SetScrollAudience statId sourceStatId e;
            let eventsBefore = length (Events e);
            e \<leftarrow> OopExecute statId ''Scroll'' e;
            if scrollWindowEmittedFor (drop eventsBefore (Events e)) statId then Some e
            else RemoveStat statId e } }"

section \<open>Items\<close>

text \<open>
  \<open>Keys[key-1]\<close> and \<open>ColorNames[key-1]\<close> are arrays of seven: a key of colour 0 (or 8) indexes
  position -1 and panics.
\<close>

definition ElementKeyTouch :: "int \<Rightarrow> int \<Rightarrow> int \<Rightarrow> Engine \<Rightarrow> Engine option" where
  "ElementKeyTouch x y sourceStatId e =
     do { color \<leftarrow> colorAt x y e;
          let key = color mod 8;
          let (ps, e) = PlayerFor sourceStatId e;
          name \<leftarrow> index ColorNames (key - 1);
          if pKeys (PHeap e ps) (key - 1) then do {
            e \<leftarrow> DisplayMessage 200 (''You already have a '' @ name @ '' key!'') e;
            Some (SoundQueue 2 [48, 2, 32, 2] e) }
          else do {
            let e = modPlayer ps (\<lambda>p. p\<lparr>pKeys := (pKeys p)(key - 1 := True)\<rparr>) e;
            e \<leftarrow> setElement x y E_EMPTY e;
            e \<leftarrow> GameUpdateSidebar e;
            e \<leftarrow> DisplayMessage 200 (''You now have the '' @ name @ '' key.'') e;
            Some (SoundQueue 2 [64, 1, 68, 1, 71, 1, 64, 1, 68, 1, 71, 1, 64, 1, 68, 1, 71, 1, 80, 2] e) } }"

definition ElementAmmoTouch :: "int \<Rightarrow> int \<Rightarrow> int \<Rightarrow> Engine \<Rightarrow> Engine option" where
  "ElementAmmoTouch x y sourceStatId e =
     do { let (ps, e) = PlayerFor sourceStatId e;
          let e = modPlayer ps (\<lambda>p. p\<lparr>pAmmo := i16 (pAmmo p + 5)\<rparr>) e;
          e \<leftarrow> setElement x y E_EMPTY e;
          e \<leftarrow> GameUpdateSidebar e;
          let e = SoundQueue 2 [48, 1, 49, 1, 50, 1] e;
          if MessageAmmoNotShown (PHeap e ps) then do {
            e \<leftarrow> DisplayMessage 200 ''Ammunition - 5 shots per container.'' e;
            Some (modPlayer ps (\<lambda>p. p\<lparr>MessageAmmoNotShown := False\<rparr>) e) }
          else Some e }"

definition ElementGemTouch :: "int \<Rightarrow> int \<Rightarrow> int \<Rightarrow> Engine \<Rightarrow> Engine option" where
  "ElementGemTouch x y sourceStatId e =
     do { let (ps, e) = PlayerFor sourceStatId e;
          let e = modPlayer ps (\<lambda>p. p\<lparr>pGems := i16 (pGems p + 1), pHealth := i16 (pHealth p + 1),
                                      pScore := i16 (pScore p + 10)\<rparr>) e;
          e \<leftarrow> setElement x y E_EMPTY e;
          e \<leftarrow> GameUpdateSidebar e;
          let e = SoundQueue 2 [64, 1, 55, 1, 52, 1, 48, 1] e;
          if MessageGemNotShown (PHeap e ps) then
            DisplayMessage 200 ''Gems give you Health!''
              (modPlayer ps (\<lambda>p. p\<lparr>MessageGemNotShown := False\<rparr>) e)
          else Some e }"

text \<open>A door's key colour 0 is refused before either array is indexed.\<close>

definition ElementDoorTouch :: "int \<Rightarrow> int \<Rightarrow> int \<Rightarrow> Engine \<Rightarrow> Engine option" where
  "ElementDoorTouch x y sourceStatId e =
     do { color \<leftarrow> colorAt x y e;
          let key = color div 16 mod 8;
          if key = 0 then do {
            e \<leftarrow> DisplayMessage 200 ''The door is locked!'' e;
            Some (SoundQueue 3 [23, 1, 16, 1] e) }
          else do {
            let (ps, e) = PlayerFor sourceStatId e;
            name \<leftarrow> index ColorNames (key - 1);
            if pKeys (PHeap e ps) (key - 1) then do {
              e \<leftarrow> setElement x y E_EMPTY e;
              e \<leftarrow> BoardDrawTile x y e;
              let e = modPlayer ps (\<lambda>p. p\<lparr>pKeys := (pKeys p)(key - 1 := False)\<rparr>) e;
              e \<leftarrow> GameUpdateSidebar e;
              e \<leftarrow> DisplayMessage 200 (''The '' @ name @ '' door is now open.'') e;
              Some (SoundQueue 3 [48, 1, 55, 1, 59, 1, 48, 1, 55, 1, 59, 1, 64, 4] e) }
            else do {
              e \<leftarrow> DisplayMessage 200 (''The '' @ name @ '' door is locked!'') e;
              Some (SoundQueue 3 [23, 1, 16, 1] e) } } }"

definition ElementTorchTouch :: "int \<Rightarrow> int \<Rightarrow> int \<Rightarrow> Engine \<Rightarrow> Engine option" where
  "ElementTorchTouch x y sourceStatId e =
     do { let (ps, e) = PlayerFor sourceStatId e;
          let e = modPlayer ps (\<lambda>p. p\<lparr>pTorches := i16 (pTorches p + 1)\<rparr>) e;
          e \<leftarrow> setElement x y E_EMPTY e;
          e \<leftarrow> BoardDrawTile x y e;
          e \<leftarrow> GameUpdateSidebar e;
          e \<leftarrow> (if MessageTorchNotShown (PHeap e ps) then do {
                  e \<leftarrow> DisplayMessage 200 ''Torch - used for lighting in the underground.'' e;
                  Some (modPlayer ps (\<lambda>p. p\<lparr>MessageTorchNotShown := False\<rparr>) e) }
                else Some e);
          Some (SoundQueue 3 [48, 1, 57, 1, 52, 2] e) }"

section \<open>Terrain\<close>

definition ElementInvisibleTouch :: "int \<Rightarrow> int \<Rightarrow> int \<Rightarrow> Engine \<Rightarrow> Engine option" where
  "ElementInvisibleTouch x y sourceStatId e =
     do { e \<leftarrow> setElement x y E_NORMAL e;
          e \<leftarrow> BoardDrawTile x y e;
          DisplayMessage 100 ''You are blocked by an invisible wall.''
            (SoundQueue 3 [18, 1, 16, 1] e) }"

definition ElementForestTouch :: "int \<Rightarrow> int \<Rightarrow> int \<Rightarrow> Engine \<Rightarrow> Engine option" where
  "ElementForestTouch x y sourceStatId e =
     do { let (ps, e) = PlayerFor sourceStatId e;
          e \<leftarrow> setElement x y E_EMPTY e;
          e \<leftarrow> BoardDrawTile x y e;
          let e = SoundQueue 3 [57, 1] e;
          if MessageForestNotShown (PHeap e ps) then do {
            e \<leftarrow> DisplayMessage 200 ''A path is cleared through the forest.'' e;
            Some (modPlayer ps (\<lambda>p. p\<lparr>MessageForestNotShown := False\<rparr>) e) }
          else Some e }"

definition ElementFakeTouch :: "int \<Rightarrow> int \<Rightarrow> int \<Rightarrow> Engine \<Rightarrow> Engine option" where
  "ElementFakeTouch x y sourceStatId e =
     do { let (ps, e) = PlayerFor sourceStatId e;
          if MessageFakeNotShown (PHeap e ps) then do {
            e \<leftarrow> DisplayMessage 150 ''A fake wall - secret passage!'' e;
            Some (modPlayer ps (\<lambda>p. p\<lparr>MessageFakeNotShown := False\<rparr>) e) }
          else Some e }"

definition ElementWaterTouch :: "int \<Rightarrow> int \<Rightarrow> int \<Rightarrow> Engine \<Rightarrow> Engine option" where
  "ElementWaterTouch x y sourceStatId e =
     DisplayMessage 100 ''Your way is blocked by water.'' (SoundQueue 3 [64, 1, 80, 1] e)"

section \<open>Transfers\<close>

text \<open>
  With several players, or one board per room, a passage or an edge only announces the
  transfer. \<open>hosted\<close> is that test; the destination board is decoded in an engine of its own.
\<close>

definition hosted :: "Engine \<Rightarrow> bool option" where
  "hosted e = (if MultiRoom e then Some True else map_option (\<lambda>n. n > 1) (PlayerCount e))"

definition ElementPassageTouch :: "int \<Rightarrow> int \<Rightarrow> int \<Rightarrow> DeltaRef \<Rightarrow> Engine \<Rightarrow> Engine option" where
  "ElementPassageTouch x y sourceStatId r e =
     do { passageStatId \<leftarrow> GetStatIdAt x y e;
          if passageStatId < 0 then Some (setDelta r 0 0 e)
          else do {
            h \<leftarrow> hosted e;
            if h then do {
              p \<leftarrow> statAt passageStatId e;
              col \<leftarrow> colorAt x y e;
              destEngine \<leftarrow> BoardOpen (P3 p) (NewEngine\<lparr>Headless := True, World := World e\<rparr>);
              let (entryX, entryY) = findPassage col destEngine;
              let e = emit (TransferEvent sourceStatId x y (P3 p) entryX entryY
                             passageSoundPattern passageSoundPriority) e;
              Some (setDelta r 0 0 e) }
            else do {
              e \<leftarrow> BoardPassageTeleport x y sourceStatId e;
              Some (setDelta r 0 0 e) } } }"

text \<open>The neighbour and the entry square of a step off the board.\<close>

definition edgeEntry :: "int \<times> int \<Rightarrow> TStat \<Rightarrow> int \<times> int \<times> int" where
  "edgeEntry d s =
     (if snd d = -1 then (0, sX s, BOARD_HEIGHT)
      else if snd d = 1 then (1, sX s, 1)
      else if fst d = -1 then (2, BOARD_WIDTH, sY s)
      else (3, 1, sY s))"

text \<open>Every touch but the board edge's.\<close>

definition simpleTouch :: "TouchName \<Rightarrow> int \<Rightarrow> int \<Rightarrow> int \<Rightarrow> DeltaRef \<Rightarrow> Engine \<Rightarrow> Engine option" where
  "simpleTouch n x y src r e =
     (case n of
        DefaultTouch \<Rightarrow> Some e
      | BoardEdgeTouch \<Rightarrow> None
      | WaterTouch \<Rightarrow> ElementWaterTouch x y src e
      | ForestTouch \<Rightarrow> ElementForestTouch x y src e
      | DamagingTouch \<Rightarrow> ElementDamagingTouch x y src e
      | KeyTouch \<Rightarrow> ElementKeyTouch x y src e
      | AmmoTouch \<Rightarrow> ElementAmmoTouch x y src e
      | GemTouch \<Rightarrow> ElementGemTouch x y src e
      | PassageTouch \<Rightarrow> ElementPassageTouch x y src r e
      | DoorTouch \<Rightarrow> ElementDoorTouch x y src e
      | ScrollTouch \<Rightarrow> ElementScrollTouch x y src e
      | TorchTouch \<Rightarrow> ElementTorchTouch x y src e
      | SlimeTouch \<Rightarrow> ElementSlimeTouch x y src e
      | PushableTouch \<Rightarrow> ElementPushableTouch x y src r e
      | TransporterTouch \<Rightarrow> ElementTransporterTouch x y src r e
      | BombTouch \<Rightarrow> ElementBombTouch x y src r e
      | EnergizerTouch \<Rightarrow> ElementEnergizerTouch x y src e
      | FakeTouch \<Rightarrow> ElementFakeTouch x y src e
      | InvisibleTouch \<Rightarrow> ElementInvisibleTouch x y src e
      | ObjectTouch \<Rightarrow> ElementObjectTouch x y src e)"

text \<open>
  \<open>ElementBoardEdgeTouch\<close> touches what stands on the entry square of the neighbouring board,
  which can be a board edge again: a call that never returns is \<open>None\<close>.
\<close>

partial_function (option) ElementBoardEdgeTouch ::
  "int \<Rightarrow> int \<Rightarrow> int \<Rightarrow> DeltaRef \<Rightarrow> Engine \<Rightarrow> Engine option" where
  "ElementBoardEdgeTouch x y sourceStatId r e =
     do { s \<leftarrow> statAt sourceStatId e;
          let (neighborId, entryX, entryY) = edgeEntry (getDelta r e) s;
          let toBoard = NeighborBoards (bInfo (Board e)) neighborId;
          if toBoard = 0 then Some e
          else do {
            h \<leftarrow> hosted e;
            if h then
              Some (setDelta r 0 0 (emit (TransferEvent sourceStatId x y toBoard entryX entryY [] 0) e))
            else do {
              let boardId = CurrentBoard (wInfo (World e));
              e \<leftarrow> BoardChange toBoard e;
              el \<leftarrow> elementAt entryX entryY e;
              e \<leftarrow> (if el \<noteq> E_PLAYER then do {
                      d \<leftarrow> elemDef el;
                      (if TouchProc d = BoardEdgeTouch
                       then ElementBoardEdgeTouch entryX entryY sourceStatId InputDelta e
                       else simpleTouch (TouchProc d) entryX entryY sourceStatId InputDelta e) }
                    else Some e);
              el \<leftarrow> elementAt entryX entryY e;
              d \<leftarrow> elemDef el;
              if Walkable d \<or> el = E_PLAYER then do {
                e \<leftarrow> (if el \<noteq> E_PLAYER then MoveStat sourceStatId entryX entryY e else Some e);
                e \<leftarrow> TransitionDrawBoardChange e;
                let e = setDelta r 0 0 e;
                BoardEnter sourceStatId e }
              else BoardChange boardId e } } }"

text \<open>\<open>ElementDefs[el].TouchProc(e, x, y, src, deltaX, deltaY)\<close>.\<close>

definition touchTile :: "int \<Rightarrow> int \<Rightarrow> int \<Rightarrow> DeltaRef \<Rightarrow> Engine \<Rightarrow> Engine option" where
  "touchTile x y src r e =
     do { el \<leftarrow> elementAt x y e;
          d \<leftarrow> elemDef el;
          if TouchProc d = BoardEdgeTouch then ElementBoardEdgeTouch x y src r e
          else simpleTouch (TouchProc d) x y src r e }"

end
