(* ===== verification/Ticks.thy ===== *)
theory Ticks
  imports Touch
begin

text \<open>
  The tick procedures that run programs, duplicate tiles or read input: objects, duplicators,
  scrolls, the monitor and the player (\<open>engine/elements.go\<close>), with the board clock of
  \<open>engine/game.go\<close>, and the dispatcher \<open>tickTile\<close> over the element table.
\<close>

section \<open>Objects, duplicators and scrolls\<close>

definition ElementObjectTick :: "int \<Rightarrow> Engine \<Rightarrow> Engine option" where
  "ElementObjectTick statId e =
     do { s \<leftarrow> statAt statId e;
          e \<leftarrow> (if DataPos s \<ge> 0 then OopExecute statId ''Interaction'' e else Some e);
          s \<leftarrow> statAt statId e;
          if StepX s \<noteq> 0 \<or> StepY s \<noteq> 0 then do {
            let x = i16 (sX s + StepX s);
            let y = i16 (sY s + StepY s);
            w \<leftarrow> walkableAt x y e;
            if w then MoveStat statId x y e
            else map_option snd (OopSend (i16 (- statId)) ''THUD'' False e) }
          else Some e }"

text \<open>The square a duplicator copies from, and the one it copies to.\<close>

definition duplicatorSource :: "TStat \<Rightarrow> int \<times> int" where
  "duplicatorSource s = (i16 (sX s + StepX s), i16 (sY s + StepY s))"

definition duplicatorTarget :: "TStat \<Rightarrow> int \<times> int" where
  "duplicatorTarget s = (i16 (sX s - StepX s), i16 (sY s - StepY s))"

definition duplicate :: "int \<Rightarrow> Engine \<Rightarrow> Engine option" where
  "duplicate statId e =
     do { s \<leftarrow> statAt statId e;
          let (fx, fy) = duplicatorSource s;
          let (tx, ty) = duplicatorTarget s;
          sourceStatId \<leftarrow> GetStatIdAt fx fy e;
          src \<leftarrow> tileAt fx fy e;
          if sourceStatId > 0 then
            (if StatCount (Board e) < 174 then do {
               t \<leftarrow> statAt sourceStatId e;
               e \<leftarrow> AddStat tx ty (Element src) (Color src) (sCycle t) t e;
               BoardDrawTile tx ty e }
             else Some e)
          else if sourceStatId \<noteq> 0 then do {
            e \<leftarrow> setTile tx ty src e;
            BoardDrawTile tx ty e }
          else Some e }"

definition ElementDuplicatorTick :: "int \<Rightarrow> Engine \<Rightarrow> Engine option" where
  "ElementDuplicatorTick statId e =
     do { s \<leftarrow> statAt statId e;
          e \<leftarrow> (if P1 s \<le> 4 then do {
                 e \<leftarrow> modStat statId (\<lambda>s. s\<lparr>P1 := u8 (P1 s + 1)\<rparr>) e;
                 BoardDrawTile (sX s) (sY s) e }
               else do {
                 e \<leftarrow> modStat statId (\<lambda>s. s\<lparr>P1 := 0\<rparr>) e;
                 let (tx, ty) = duplicatorTarget s;
                 el \<leftarrow> elementAt tx ty e;
                 e \<leftarrow> (if el = E_PLAYER then
                        (let (fx, fy) = duplicatorSource s in touchTile fx fy 0 InputDelta e)
                      else do {
                        e \<leftarrow> (if el \<noteq> E_EMPTY
                              then ElementPushablePush tx ty (i16 (- StepX s)) (i16 (- StepY s)) e
                              else Some e);
                        s \<leftarrow> statAt statId e;
                        let (tx, ty) = duplicatorTarget s;
                        el \<leftarrow> elementAt tx ty e;
                        if el = E_EMPTY then do {
                          e \<leftarrow> duplicate statId e;
                          Some (SoundQueue 3 [48, 2, 50, 2, 52, 2, 53, 2, 55, 2] e) }
                        else Some (SoundQueue 3 [24, 1, 22, 1] e) });
                 e \<leftarrow> modStat statId (\<lambda>s. s\<lparr>P1 := 0\<rparr>) e;
                 s \<leftarrow> statAt statId e;
                 BoardDrawTile (sX s) (sY s) e });
          modStat statId (\<lambda>s. s\<lparr>sCycle := i16 (i16 (9 - P2 s) * 3)\<rparr>) e }"

definition ElementScrollTick :: "int \<Rightarrow> Engine \<Rightarrow> Engine option" where
  "ElementScrollTick statId e =
     do { s \<leftarrow> statAt statId e;
          c \<leftarrow> colorAt (sX s) (sY s) e;
          let c = u8 (c + 1);
          e \<leftarrow> setColor (sX s) (sY s) (if c > 15 then 9 else c) e;
          BoardDrawTile (sX s) (sY s) e }"

section \<open>Keys\<close>

definition ElementMonitorTick :: "int \<Rightarrow> Engine \<Rightarrow> Engine option" where
  "ElementMonitorTick statId e =
     (if UpCase (chr (gInputKeyPressed e)) \<in> set (CHR 0x1B # ''AEHNPQRSW|'')
      then Some (e\<lparr>GamePlayExitRequested := True\<rparr>) else Some e)"

definition GamePromptEndPlay :: "int \<Rightarrow> Engine \<Rightarrow> Engine option" where
  "GamePromptEndPlay statId e =
     do { let (ps, e) = PlayerFor statId e;
          e \<leftarrow> (if pHealth (PHeap e ps) \<le> 0 \<and> \<not> MultiRoom e
                then BoardDrawBorder (e\<lparr>GamePlayExitRequested := True\<rparr>)
                else Some (emit (QuitPromptEvent statId) e));
          Some (e\<lparr>gInputKeyPressed := 0\<rparr>) }"

section \<open>The board clock\<close>

text \<open>
  \<open>float64(e.TimerTicks) * (65536000.0 / 1193181.66)\<close>: the constant is the double
  \<open>7730065208054552 / 2^47\<close>, the product is rounded to 53 significant bits (ties to even) and
  truncated to an integer.
\<close>

fun bitLength :: "nat \<Rightarrow> nat" where
  "bitLength n = (if n = 0 then 0 else Suc (bitLength (n div 2)))"

declare bitLength.simps [simp del]

definition roundTo53 :: "int \<Rightarrow> int" where
  "roundTo53 n =
     (let k = bitLength (nat n) - 53; q = n div 2 ^ k; r = n mod 2 ^ k; half = 2 ^ k div 2
      in if k = 0 then n
         else if r > half \<or> (r = half \<and> odd q) then (q + 1) * 2 ^ k else q * 2 ^ k)"

definition clockMs :: "int \<Rightarrow> int" where
  "clockMs ticks = roundTo53 (ticks * 7730065208054552) div 2 ^ 47"

text \<open>The result carries the counter, which the caller writes back.\<close>

definition BoardTimeElapsed :: "int \<Rightarrow> int \<Rightarrow> Engine \<Rightarrow> bool \<times> int" where
  "BoardTimeElapsed counter duration e =
     (let hSecsTotal = i16 (clockMs (TimerTicks e) div 10 mod 6000);
          hSecsDiff = u16 (i16 (i16 (hSecsTotal - counter) + 6000)) mod 6000
      in if hSecsDiff \<ge> u16 duration then (True, hSecsTotal) else (False, counter))"

section \<open>The player\<close>

text \<open>The blink of an energized player, and the restored colour of an ordinary one.\<close>

definition playerBlink :: "int \<Rightarrow> int \<Rightarrow> Engine \<Rightarrow> Engine option" where
  "playerBlink statId ps e =
     do { s \<leftarrow> statAt statId e;
          if pEnergizerTicks (PHeap e ps) > 0 then do {
            let e = modPlayer ps (\<lambda>p. p\<lparr>PlayerCharacter := (if PlayerCharacter p = 2 then 1 else 2)\<rparr>) e;
            e \<leftarrow> setColor (sX s) (sY s)
                  (if rmd (CurrentTick e) 2 \<noteq> 0 then 15
                   else u8 (i16 (i16 (i16 (rmd (CurrentTick e) 7 + 1) * 16) + 15))) e;
            BoardDrawTile (sX s) (sY s) e }
          else do {
            c \<leftarrow> colorAt (sX s) (sY s) e;
            if c \<noteq> 31 \<or> PlayerCharacter (PHeap e ps) \<noteq> 2 then do {
              e \<leftarrow> setColor (sX s) (sY s) 31 e;
              let e = modPlayer ps (\<lambda>p. p\<lparr>PlayerCharacter := 2\<rparr>) e;
              BoardDrawTile (sX s) (sY s) e }
            else Some e } }"

text \<open>A dead player whose countdown ends comes back at its entry point, or near it.\<close>

definition respawnPlayer :: "int \<Rightarrow> int \<Rightarrow> Engine \<Rightarrow> Engine option" where
  "respawnPlayer statId ps e =
     do { let ((spawnX, spawnY), e) = ReenterPoint statId e;
          s \<leftarrow> statAt statId e;
          let oldX = sX s;
          let oldY = sY s;
          e \<leftarrow> setElement oldX oldY E_EMPTY e;
          e \<leftarrow> BoardDrawTile oldX oldY e;
          e \<leftarrow> DrawPlayerSurroundings oldX oldY 0 e;
          held \<leftarrow> StatAt spawnX spawnY statId e;
          (spawnX, spawnY) \<leftarrow> (if held \<noteq> None then do {
              (x, y, ok) \<leftarrow> FindPlacement spawnX spawnY statId e;
              Some (if ok then (x, y) else (oldX, oldY)) }
            else Some (spawnX, spawnY));
          e \<leftarrow> (if spawnX \<noteq> oldX \<or> spawnY \<noteq> oldY then do {
                  t \<leftarrow> tileAt spawnX spawnY e;
                  modStat statId (\<lambda>s. s\<lparr>Under := t\<rparr>) e }
                else Some e);
          e \<leftarrow> modStat statId (\<lambda>s. s\<lparr>sX := u8 spawnX, sY := u8 spawnY\<rparr>) e;
          d \<leftarrow> elemDef E_PLAYER;
          e \<leftarrow> setTile spawnX spawnY \<lparr>Element = E_PLAYER, Color = dColor d\<rparr> e;
          e \<leftarrow> DrawPlayerSurroundings spawnX spawnY 0 e;
          e \<leftarrow> BoardDrawTile spawnX spawnY e;
          let e = modPlayer ps (\<lambda>p. p\<lparr>pHealth := 100, pEnergizerTicks := RESPAWN_INVULN_TICKS\<rparr>) e;
          e \<leftarrow> GameUpdateSidebar e;
          Some (emit (RespawnEvent statId spawnX spawnY) e) }"

text \<open>This player's bullets on the board.\<close>

definition ownBullet :: "int \<Rightarrow> int \<Rightarrow> Engine \<Rightarrow> bool option" where
  "ownBullet statId i e =
     do { s \<leftarrow> statAt i e;
          el \<leftarrow> elementAt (sX s) (sY s) e;
          Some (el = E_BULLET \<and> P1 s = i16 (statId + SHOT_SOURCE_PLAYER_BASE)) }"

definition countBullets :: "int \<Rightarrow> Engine \<Rightarrow> int option" where
  "countBullets statId e =
     foldM (\<lambda>i n. do { b \<leftarrow> ownBullet statId i e; Some (if b then n + 1 else n) })
       [0..StatCount (Board e)] 0"

text \<open>\<open>InputShiftPressed || InputKeyPressed == ' '\<close>.\<close>

definition playerShoot :: "int \<Rightarrow> int \<Rightarrow> Engine \<Rightarrow> Engine option" where
  "playerShoot statId ps e =
     (let e = (if gInputShiftPressed e \<and> (gInputDeltaX e \<noteq> 0 \<or> gInputDeltaY e \<noteq> 0)
               then modPlayer ps (\<lambda>p. p\<lparr>DirX := gInputDeltaX e, DirY := gInputDeltaY e\<rparr>) e else e) in
      if DirX (PHeap e ps) = 0 \<and> DirY (PHeap e ps) = 0 then Some e
      else if MaxShots (bInfo (Board e)) = 0 then do {
        e \<leftarrow> (if MessageNoShootingNotShown (PHeap e ps)
              then DisplayMessage 200 (''Can'' @ CHR 0x27 # ''t shoot in this place!'') e else Some e);
        Some (modPlayer ps (\<lambda>p. p\<lparr>MessageNoShootingNotShown := False\<rparr>) e) }
      else if pAmmo (PHeap e ps) = 0 then do {
        e \<leftarrow> (if MessageOutOfAmmoNotShown (PHeap e ps)
              then DisplayMessage 200 (''You don'' @ CHR 0x27 # ''t have any ammo!'') e else Some e);
        Some (modPlayer ps (\<lambda>p. p\<lparr>MessageOutOfAmmoNotShown := False\<rparr>) e) }
      else do {
        bulletCount \<leftarrow> countBullets statId e;
        if bulletCount < MaxShots (bInfo (Board e)) then do {
          s \<leftarrow> statAt statId e;
          (shot, e) \<leftarrow> BoardShoot E_BULLET (sX s) (sY s) (DirX (PHeap e ps)) (DirY (PHeap e ps))
                        (i16 (statId + SHOT_SOURCE_PLAYER_BASE)) e;
          if shot then do {
            let e = modPlayer ps (\<lambda>p. p\<lparr>pAmmo := i16 (pAmmo p - 1)\<rparr>) e;
            e \<leftarrow> GameUpdateSidebar e;
            let e = SoundQueue 2 [64, 1, 48, 1, 32, 1] e;
            Some (e\<lparr>gInputDeltaX := 0, gInputDeltaY := 0\<rparr>) }
          else Some e }
        else Some e })"

text \<open>A move: the touched tile acts first, and may take the move back by zeroing the deltas.\<close>

definition playerMove :: "int \<Rightarrow> int \<Rightarrow> Engine \<Rightarrow> Engine option" where
  "playerMove statId ps e =
     do { let e = modPlayer ps (\<lambda>p. p\<lparr>DirX := gInputDeltaX e, DirY := gInputDeltaY e\<rparr>) e;
          s \<leftarrow> statAt statId e;
          let targetX = i16 (sX s + gInputDeltaX e);
          let targetY = i16 (sY s + gInputDeltaY e);
          e \<leftarrow> (if inTiles targetX targetY then touchTile targetX targetY statId InputDelta e
                else Some (e\<lparr>gInputDeltaX := 0, gInputDeltaY := 0\<rparr>));
          if gInputDeltaX e \<noteq> 0 \<or> gInputDeltaY e \<noteq> 0 then do {
            let e = (if pSoundEnabled (PHeap e ps) \<and> \<not> gSoundIsPlaying e
                     then emit (WalkClickEvent statId 110) e else e);
            s \<leftarrow> statAt statId e;
            let targetX = i16 (sX s + gInputDeltaX e);
            let targetY = i16 (sY s + gInputDeltaY e);
            w \<leftarrow> (if inTiles targetX targetY then walkableAt targetX targetY e else Some False);
            if w then MoveStat statId targetX targetY e else Some e }
          else Some e }"

definition playerTorch :: "int \<Rightarrow> int \<Rightarrow> Engine \<Rightarrow> Engine option" where
  "playerTorch statId ps e =
     (if pTorchTicks (PHeap e ps) > 0 then Some e
      else if pTorches (PHeap e ps) > 0 then
        (if IsDark (bInfo (Board e)) then do {
           let e = modPlayer ps (\<lambda>p. p\<lparr>pTorches := i16 (pTorches p - 1),
                                       pTorchTicks := TORCH_DURATION\<rparr>) e;
           s \<leftarrow> statAt statId e;
           e \<leftarrow> DrawPlayerSurroundings (sX s) (sY s) 0 e;
           GameUpdateSidebar e }
         else if MessageRoomNotDarkNotShown (PHeap e ps) then do {
           e \<leftarrow> DisplayMessage 200 (''Don'' @ CHR 0x27 # ''t need torch - room is not dark!'') e;
           Some (modPlayer ps (\<lambda>p. p\<lparr>MessageRoomNotDarkNotShown := False\<rparr>) e) }
         else Some e)
      else if MessageOutOfTorchesNotShown (PHeap e ps) then do {
        e \<leftarrow> DisplayMessage 200 (''You don'' @ CHR 0x27 # ''t have any torches!'') e;
        Some (modPlayer ps (\<lambda>p. p\<lparr>MessageOutOfTorchesNotShown := False\<rparr>) e) }
      else Some e)"

definition playerKey :: "int \<Rightarrow> int \<Rightarrow> Engine \<Rightarrow> Engine option" where
  "playerKey statId ps e =
     (let k = UpCase (chr (gInputKeyPressed e)) in
      if k = CHR ''T'' then playerTorch statId ps e
      else if k = CHR 0x1B \<or> k = CHR ''Q'' then GamePromptEndPlay statId e
      else if k = CHR ''S'' then Some ((emit (SavePromptEvent statId) e)\<lparr>gInputKeyPressed := 0\<rparr>)
      else if k = CHR ''P'' then
        Some (if pHealth (PHeap e ps) > 0
              then emit (PauseEvent statId True) (modPlayer ps (\<lambda>p. p\<lparr>Paused := True\<rparr>) e) else e)
      else if k = CHR ''B'' then do {
        let e = modPlayer ps (\<lambda>p. p\<lparr>pSoundEnabled := \<not> pSoundEnabled p\<rparr>) e;
        let e = (if \<not> Headless e then e\<lparr>gSoundEnabled := pSoundEnabled (PHeap e ps)\<rparr> else e);
        let e = e\<lparr>gSoundIsPlaying := False\<rparr>;
        e \<leftarrow> GameUpdateSidebar e;
        Some (e\<lparr>gInputKeyPressed := 32\<rparr>) }
      else if k = CHR ''H'' then Some (emit (HelpEvent ''GAME.HLP'' ''Playing ZZT'' statId) e)
      else if k = CHR ''?'' then Some ((emit (DebugPromptEvent statId) e)\<lparr>gInputKeyPressed := 0\<rparr>)
      else Some e)"

text \<open>The torch, the energizer and the board's time limit count down.\<close>

definition playerTorchTime :: "int \<Rightarrow> int \<Rightarrow> Engine \<Rightarrow> Engine option" where
  "playerTorchTime statId ps e =
     (if pTorchTicks (PHeap e ps) > 0 then do {
        let e = modPlayer ps (\<lambda>p. p\<lparr>pTorchTicks := i16 (pTorchTicks p - 1)\<rparr>) e;
        e \<leftarrow> (if pTorchTicks (PHeap e ps) \<le> 0 then do {
                s \<leftarrow> statAt statId e;
                e \<leftarrow> DrawPlayerSurroundings (sX s) (sY s) 0 e;
                Some (SoundQueue 3 [48, 1, 32, 1, 16, 1] e) }
              else Some e);
        if rmd (pTorchTicks (PHeap e ps)) 40 = 0 then GameUpdateSidebar e else Some e }
      else Some e)"

definition playerEnergizerTime :: "int \<Rightarrow> int \<Rightarrow> Engine \<Rightarrow> Engine option" where
  "playerEnergizerTime statId ps e =
     (if pEnergizerTicks (PHeap e ps) > 0 then do {
        let e = modPlayer ps (\<lambda>p. p\<lparr>pEnergizerTicks := i16 (pEnergizerTicks p - 1)\<rparr>) e;
        if pEnergizerTicks (PHeap e ps) = 10
        then Some (SoundQueue 9 [32, 3, 26, 3, 23, 3, 22, 3, 21, 3, 19, 3, 16, 3] e)
        else if pEnergizerTicks (PHeap e ps) \<le> 0 then do {
          s \<leftarrow> statAt statId e;
          d \<leftarrow> elemDef E_PLAYER;
          e \<leftarrow> setColor (sX s) (sY s) (dColor d) e;
          BoardDrawTile (sX s) (sY s) e }
        else Some e }
      else Some e)"

definition playerBoardTime :: "int \<Rightarrow> int \<Rightarrow> Engine \<Rightarrow> Engine option" where
  "playerBoardTime statId ps e =
     (if TimeLimitSec (bInfo (Board e)) > 0 \<and> pHealth (PHeap e ps) > 0 then do {
        let (elapsed, counter) = BoardTimeElapsed (pBoardTimeHsec (PHeap e ps)) 100 e;
        let e = modPlayer ps (\<lambda>p. p\<lparr>pBoardTimeHsec := counter\<rparr>) e;
        if elapsed then do {
          let e = modPlayer ps (\<lambda>p. p\<lparr>pBoardTimeSec := i16 (pBoardTimeSec p + 1)\<rparr>) e;
          let limit = TimeLimitSec (bInfo (Board e));
          e \<leftarrow> (if i16 (limit - 10) = pBoardTimeSec (PHeap e ps) then do {
                  e \<leftarrow> DisplayMessage 200 ''Running out of time!'' e;
                  Some (SoundQueue 3 [64, 6, 69, 6, 64, 6, 53, 6, 64, 6, 69, 6, 64, 10] e) }
                else if pBoardTimeSec (PHeap e ps) > limit then DamageStat statId e
                else Some e);
          GameUpdateSidebar e }
        else Some e }
      else Some e)"

definition playerAct :: "int \<Rightarrow> int \<Rightarrow> Engine \<Rightarrow> Engine option" where
  "playerAct statId ps e =
     do { e \<leftarrow> (if gInputShiftPressed e \<or> gInputKeyPressed e = 32 then playerShoot statId ps e
                else if gInputDeltaX e \<noteq> 0 \<or> gInputDeltaY e \<noteq> 0 then playerMove statId ps e
                else Some e);
          e \<leftarrow> playerKey statId ps e;
          e \<leftarrow> playerTorchTime statId ps e;
          e \<leftarrow> playerEnergizerTime statId ps e;
          playerBoardTime statId ps e }"

definition ElementPlayerTick :: "int \<Rightarrow> Engine \<Rightarrow> Engine option" where
  "ElementPlayerTick statId e =
     do { _ \<leftarrow> statAt statId e;
          let (ps, e) = PlayerFor statId e;
          e \<leftarrow> playerBlink statId ps e;
          if RespawnTicks (PHeap e ps) > 0 then do {
            let e = modPlayer ps (\<lambda>p. p\<lparr>RespawnTicks := i16 (RespawnTicks p - 1)\<rparr>) e;
            if RespawnTicks (PHeap e ps) = 0 then respawnPlayer statId ps e else Some e }
          else if pHealth (PHeap e ps) \<le> 0 then
            Some (e\<lparr>gInputDeltaX := 0, gInputDeltaY := 0, gInputShiftPressed := False\<rparr>)
          else playerAct statId ps e }"

section \<open>The dispatcher\<close>

definition runTick :: "TickName \<Rightarrow> int \<Rightarrow> Engine \<Rightarrow> Engine option" where
  "runTick n statId e =
     (case n of
        DefaultTick \<Rightarrow> Some e
      | MonitorTick \<Rightarrow> ElementMonitorTick statId e
      | PlayerTick \<Rightarrow> ElementPlayerTick statId e
      | LionTick \<Rightarrow> ElementLionTick statId e
      | TigerTick \<Rightarrow> ElementTigerTick statId e
      | CentipedeHeadTick \<Rightarrow> ElementCentipedeHeadTick statId e
      | CentipedeSegmentTick \<Rightarrow> ElementCentipedeSegmentTick statId e
      | BulletTick \<Rightarrow> ElementBulletTick statId e
      | StarTick \<Rightarrow> ElementStarTick statId e
      | ScrollTick \<Rightarrow> ElementScrollTick statId e
      | DuplicatorTick \<Rightarrow> ElementDuplicatorTick statId e
      | SpinningGunTick \<Rightarrow> ElementSpinningGunTick statId e
      | RuffianTick \<Rightarrow> ElementRuffianTick statId e
      | BearTick \<Rightarrow> ElementBearTick statId e
      | SlimeTick \<Rightarrow> ElementSlimeTick statId e
      | SharkTick \<Rightarrow> ElementSharkTick statId e
      | ConveyorCWTick \<Rightarrow> ElementConveyorCWTick statId e
      | ConveyorCCWTick \<Rightarrow> ElementConveyorCCWTick statId e
      | TransporterTick \<Rightarrow> ElementTransporterTick statId e
      | PusherTick \<Rightarrow> ElementPusherTick statId e
      | BombTick \<Rightarrow> ElementBombTick statId e
      | BlinkWallTick \<Rightarrow> ElementBlinkWallTick statId e
      | ObjectTick \<Rightarrow> ElementObjectTick statId e
      | MessageTimerTick \<Rightarrow> ElementMessageTimerTick statId e)"

end
