(* ===== verification/Game.thy ===== *)
theory Game
  imports Ticks
begin

text \<open>
  One cycle of the simulation (\<open>GameStepWithInputs\<close> in \<open>engine/game.go\<close>): the replies queued by
  the clients, the pass over the stats with its per-player pause and input injection, and the
  move to the next cycle; with the debug commands, the \<open>Submit\<close> entry points and the high
  scores. The pass is a \<open>partial_function\<close>: the Go loop re-reads its index and its bound, which
  its body changes.
\<close>

section \<open>Replies\<close>

definition SubmitScrollReply :: "int \<Rightarrow> string \<Rightarrow> Engine \<Rightarrow> Engine" where
  "SubmitScrollReply objectStatId label e =
     e\<lparr>PendingScrollReplies := PendingScrollReplies e @ [(objectStatId, label)]\<rparr>"

definition SubmitDebugCommand :: "int \<Rightarrow> string \<Rightarrow> Engine \<Rightarrow> Engine" where
  "SubmitDebugCommand statId txt e =
     e\<lparr>PendingDebugCommands := PendingDebugCommands e @ [(statId, txt)]\<rparr>"

definition SubmitSaveFilename :: "int \<Rightarrow> string \<Rightarrow> Engine \<Rightarrow> Engine" where
  "SubmitSaveFilename statId name e =
     e\<lparr>PendingSaveFilenames := PendingSaveFilenames e @ [(statId, name)]\<rparr>"

definition SubmitQuitReply :: "int \<Rightarrow> bool \<Rightarrow> Engine \<Rightarrow> Engine" where
  "SubmitQuitReply statId quit e =
     e\<lparr>PendingQuitReplies := PendingQuitReplies e @ [(statId, quit)]\<rparr>"

definition liveStat :: "int \<Rightarrow> Engine \<Rightarrow> bool" where
  "liveStat i e \<longleftrightarrow> 0 \<le> i \<and> i \<le> StatCount (Board e)"

text \<open>The square of the scroll a reply is for, or (-1, -1) for any other stat.\<close>

definition replyScroll :: "int \<Rightarrow> Engine \<Rightarrow> (int \<times> int) option" where
  "replyScroll statId e =
     (if statId \<ge> 1 then do {
        s \<leftarrow> statAt statId e;
        el \<leftarrow> elementAt (sX s) (sY s) e;
        Some (if el = E_SCROLL then (sX s, sY s) else (-1, -1)) }
      else Some (-1, -1))"

definition scrollReply :: "int \<times> string \<Rightarrow> Engine \<Rightarrow> Engine option" where
  "scrollReply reply e =
     (let (statId, label) = reply in
      if \<not> liveStat statId e then Some e
      else do {
        (scrollX, scrollY) \<leftarrow> replyScroll statId e;
        e \<leftarrow> (if label \<noteq> [] then do {
                (sent, e) \<leftarrow> OopSend statId label False e;
                if sent \<and> scrollX \<ge> 0 then do {
                  sid \<leftarrow> GetStatIdAt scrollX scrollY e;
                  if sid \<ge> 1 then OopExecute sid ''Scroll'' e else Some e }
                else Some e }
              else Some e);
        if scrollX \<ge> 0 then do {
          el \<leftarrow> elementAt scrollX scrollY e;
          if el = E_SCROLL then do {
            sid \<leftarrow> GetStatIdAt scrollX scrollY e;
            if sid \<ge> 1 then RemoveStat sid e else Some e }
          else Some e }
        else Some e })"

definition zapAround :: "int \<Rightarrow> Engine \<Rightarrow> Engine option" where
  "zapAround statId e =
     foldM (\<lambda>i e. do {
         s \<leftarrow> statAt statId e;
         dx \<leftarrow> index NeighborDeltaX i;
         dy \<leftarrow> index NeighborDeltaY i;
         e \<leftarrow> BoardDamageTile (i16 (sX s + dx)) (i16 (sY s + dy)) e;
         s \<leftarrow> statAt statId e;
         e \<leftarrow> setElement (i16 (sX s + dx)) (i16 (sY s + dy)) E_EMPTY e;
         BoardDrawTile (i16 (sX s + dx)) (i16 (sY s + dy)) e }) [0..3] e"

definition debugEffect :: "int \<Rightarrow> int \<Rightarrow> bool \<Rightarrow> string \<Rightarrow> Engine \<Rightarrow> Engine option" where
  "debugEffect statId ps toggle input e =
     (if input = ''HEALTH'' then Some (modPlayer ps (\<lambda>p. p\<lparr>pHealth := i16 (pHealth p + 50)\<rparr>) e)
      else if input = ''AMMO'' then Some (modPlayer ps (\<lambda>p. p\<lparr>pAmmo := i16 (pAmmo p + 5)\<rparr>) e)
      else if input = ''KEYS'' then
        Some (modPlayer ps (\<lambda>p. p\<lparr>pKeys := (\<lambda>i. if 0 \<le> i \<and> i \<le> 6 then True else pKeys p i)\<rparr>) e)
      else if input = ''TORCHES'' then Some (modPlayer ps (\<lambda>p. p\<lparr>pTorches := i16 (pTorches p + 3)\<rparr>) e)
      else if input = ''TIME'' then
        Some (modPlayer ps (\<lambda>p. p\<lparr>pBoardTimeSec := i16 (pBoardTimeSec p - 30)\<rparr>) e)
      else if input = ''GEMS'' then Some (modPlayer ps (\<lambda>p. p\<lparr>pGems := i16 (pGems p + 5)\<rparr>) e)
      else if input = ''DARK'' then TransitionDrawToBoard (modInfo (\<lambda>i. i\<lparr>IsDark := toggle\<rparr>) e)
      else if input = ''ZAP'' then zapAround statId e
      else Some e)"

text \<open>\<open>+FLAG\<close> sets a world flag and \<open>-FLAG\<close> clears it; either may also name a cheat.\<close>

definition debugFlag :: "string \<Rightarrow> Engine \<Rightarrow> (string \<times> bool \<times> Engine) option" where
  "debugFlag input e =
     (case input of
        [] \<Rightarrow> Some (input, True, e)
      | c # _ \<Rightarrow>
          if c = CHR ''+'' \<or> c = CHR ''-'' then do {
            let toggle = (c \<noteq> CHR ''-'');
            input \<leftarrow> Copy input 2 (i16 (Length input - 1));
            Some (input, toggle, if toggle then WorldSetFlag input e else WorldClearFlag input e) }
          else Some (input, True, e))"

definition GameApplyDebugCommand :: "int \<Rightarrow> string \<Rightarrow> Engine \<Rightarrow> Engine option" where
  "GameApplyDebugCommand statId input e =
     do { (input, toggle, e) \<leftarrow> debugFlag (UpCaseString input) e;
          let e = e\<lparr>DebugEnabled := (WorldGetFlagPosition ''DEBUG'' e \<ge> 0)\<rparr>;
          let (ps, e) = PlayerFor statId e;
          e \<leftarrow> debugEffect statId ps toggle input e;
          GameUpdateSidebar
            (SidebarClearLine 5 (SidebarClearLine 4 (SoundQueue 10 [39, 4] e))) }"

definition debugReply :: "int \<times> string \<Rightarrow> Engine \<Rightarrow> Engine option" where
  "debugReply cmd e =
     (if liveStat (fst cmd) e then GameApplyDebugCommand (fst cmd) (snd cmd) e else Some e)"

definition saveReply :: "(string \<Rightarrow> bool) \<Rightarrow> int \<times> string \<Rightarrow> Engine \<Rightarrow> Engine option" where
  "saveReply created save e =
     (if snd save \<noteq> [] \<and> liveStat (fst save) e
      then map_option snd (WorldSave (created (snd save @ ''.SAV'')) (e\<lparr>SavedGameFileName := snd save\<rparr>))
      else Some e)"

definition quitReply :: "int \<times> bool \<Rightarrow> Engine \<Rightarrow> Engine" where
  "quitReply reply e =
     (if \<not> snd reply \<or> \<not> liveStat (fst reply) e then e
      else if MultiRoom e then emit (QuitEvent (fst reply)) e
      else e\<lparr>GamePlayExitRequested := True\<rparr>)"

definition takeReplies :: "Engine \<Rightarrow> Engine" where
  "takeReplies e = e\<lparr>PendingScrollReplies := [], PendingDebugCommands := [],
                     PendingSaveFilenames := [], PendingQuitReplies := []\<rparr>"

definition applyReplies :: "(string \<Rightarrow> bool) \<Rightarrow> Engine \<Rightarrow> Engine option" where
  "applyReplies created e =
     do { let scrollReplies = PendingScrollReplies e;
          let debugCommands = PendingDebugCommands e;
          let saveFilenames = PendingSaveFilenames e;
          let quitReplies = PendingQuitReplies e;
          e \<leftarrow> foldM scrollReply scrollReplies (takeReplies e);
          e \<leftarrow> foldM debugReply debugCommands e;
          e \<leftarrow> foldM (saveReply created) saveFilenames e;
          Some (fold quitReply quitReplies e) }"

section \<open>Input\<close>

definition loadInput :: "Engine \<Rightarrow> Engine" where
  "loadInput e =
     e\<lparr>gInputDeltaX := eInputDeltaX e, gInputDeltaY := eInputDeltaY e,
       gInputShiftPressed := eInputShiftPressed e, gInputKeyPressed := eInputKeyPressed e,
       gInputLastDeltaX := eInputLastDeltaX e, gInputLastDeltaY := eInputLastDeltaY e\<rparr>"

definition storeInput :: "Engine \<Rightarrow> Engine" where
  "storeInput e =
     e\<lparr>eInputDeltaX := gInputDeltaX e, eInputDeltaY := gInputDeltaY e,
       eInputShiftPressed := gInputShiftPressed e, eInputKeyPressed := gInputKeyPressed e,
       eInputLastDeltaX := gInputLastDeltaX e, eInputLastDeltaY := gInputLastDeltaY e\<rparr>"

definition setInput :: "PlayerInput \<Rightarrow> Engine \<Rightarrow> Engine" where
  "setInput i e =
     e\<lparr>gInputDeltaX := iDeltaX i, gInputDeltaY := iDeltaY i,
       gInputShiftPressed := iShift i, gInputKeyPressed := iKey i\<rparr>"

definition idleInput :: PlayerInput where
  "idleInput = \<lparr>iDeltaX = 0, iDeltaY = 0, iShift = False, iKey = 0\<rparr>"

definition rememberDelta :: "Engine \<Rightarrow> Engine" where
  "rememberDelta e =
     (if gInputDeltaX e \<noteq> 0 \<or> gInputDeltaY e \<noteq> 0
      then e\<lparr>gInputLastDeltaX := gInputDeltaX e, gInputLastDeltaY := gInputDeltaY e\<rparr> else e)"

text \<open>\<open>ScriptedInput.Poll\<close>: the next scripted tick, or idle input past the end.\<close>

definition Poll :: "Engine \<Rightarrow> PlayerInput \<times> Engine" where
  "Poll e =
     (if ScriptPos e \<ge> int (length (ScriptTicks e)) then (idleInput, e)
      else (ScriptTicks e ! nat (ScriptPos e), e\<lparr>ScriptPos := ScriptPos e + 1\<rparr>))"

definition InputUpdate :: "Engine \<Rightarrow> Engine" where
  "InputUpdate e =
     (let (i, e) = Poll (loadInput e) in storeInput (rememberDelta (setInput i e)))"

section \<open>The cycle\<close>

text \<open>
  The turn of a paused player: the touched tile acts, and the player unpauses only when the
  move succeeds. \<open>i\<close> is the stat whose address \<open>stat\<close> holds, \<open>ps\<close> the player's state; the
  result says whether the player unpaused.
\<close>

definition pausedMove :: "int \<Rightarrow> int \<Rightarrow> PlayerInput \<Rightarrow> Engine \<Rightarrow> (bool \<times> Engine) option" where
  "pausedMove i ps inp e =
     do { let e = setDelta LocalDelta (iDeltaX inp) (iDeltaY inp) e;
          s \<leftarrow> statAt i e;
          e \<leftarrow> touchTile (i16 (sX s + iDeltaX inp)) (i16 (sY s + iDeltaY inp)) (CurrentStatTicked e)
                LocalDelta e;
          s \<leftarrow> statAt i e;
          let deltaX = LocalDeltaX e;
          let deltaY = LocalDeltaY e;
          let targetX = i16 (sX s + deltaX);
          let targetY = i16 (sY s + deltaY);
          w \<leftarrow> (if deltaX \<noteq> 0 \<or> deltaY \<noteq> 0 then walkableAt targetX targetY e else Some False);
          if \<not> w then Some (False, e)
          else do {
            el \<leftarrow> elementAt (sX s) (sY s) e;
            e \<leftarrow> (if el = E_PLAYER then MoveStat (CurrentStatTicked e) targetX targetY e
                  else do {
                    e \<leftarrow> BoardDrawTile (sX s) (sY s) e;
                    e \<leftarrow> modStat i (\<lambda>s. s\<lparr>sX := u8 targetX, sY := u8 targetY\<rparr>) e;
                    d \<leftarrow> elemDef E_PLAYER;
                    e \<leftarrow> setTile (u8 targetX) (u8 targetY) \<lparr>Element = E_PLAYER, Color = dColor d\<rparr> e;
                    e \<leftarrow> BoardDrawTile (u8 targetX) (u8 targetY) e;
                    e \<leftarrow> DrawPlayerSurroundings (u8 targetX) (u8 targetY) 0 e;
                    DrawPlayerSurroundings (i16 (u8 targetX - deltaX)) (i16 (u8 targetY - deltaY)) 0 e });
            let e = modPlayer ps (\<lambda>p. p\<lparr>Paused := False\<rparr>) e;
            let e = emit (PauseEvent (CurrentStatTicked e) False) e;
            let e = SidebarClearLine 5 e;
            Some (True, modWorldInfo (\<lambda>w. w\<lparr>IsSave := True\<rparr>) e) } }"

definition nextStat :: "Engine \<Rightarrow> Engine" where
  "nextStat e = e\<lparr>CurrentStatTicked := i16 (CurrentStatTicked e + 1)\<rparr>"

text \<open>Input injection, then the tick procedure of the tile the stat stands on.\<close>

definition injectInput :: "(int \<Rightarrow> PlayerInput option) \<Rightarrow> bool \<Rightarrow> bool \<Rightarrow> Engine \<Rightarrow> Engine" where
  "injectInput inputs isPlayer unpaused e =
     (if isPlayer
      then rememberDelta (setInput (case inputs (CurrentStatTicked e) of
             Some inp \<Rightarrow> if unpaused then idleInput else inp
           | None \<Rightarrow> idleInput) e)
      else e\<lparr>gInputDeltaX := 0, gInputDeltaY := 0, gInputShiftPressed := False\<rparr>)"

definition tickStat :: "(int \<Rightarrow> PlayerInput option) \<Rightarrow> int \<Rightarrow> bool \<Rightarrow> Engine \<Rightarrow> Engine option" where
  "tickStat inputs i unpaused e =
     do { s \<leftarrow> statAt i e;
          el \<leftarrow> elementAt (sX s) (sY s) e;
          let e = injectInput inputs (el = E_PLAYER) unpaused e;
          d \<leftarrow> elemDef el;
          if el = E_PLAYER then do {
            let prev = ActingPlayerStatId e;
            let e = e\<lparr>ActingPlayerStatId := CurrentStatTicked e\<rparr>;
            e \<leftarrow> runTick (TickProc d) (CurrentStatTicked e) e;
            Some (e\<lparr>ActingPlayerStatId := prev\<rparr>) }
          else runTick (TickProc d) (CurrentStatTicked e) e }"

definition turnDue :: "Engine \<Rightarrow> TStat \<Rightarrow> bool" where
  "turnDue e s \<longleftrightarrow>
     sCycle s \<noteq> 0 \<and> rmd (CurrentTick e) (sCycle s) = rmd (CurrentStatTicked e) (sCycle s)"

text \<open>The paused state of the stat whose turn it is, if it has one.\<close>

definition pausedPlayer :: "Engine \<Rightarrow> int option" where
  "pausedPlayer e =
     (case Players e (CurrentStatTicked e) of
        Some ps \<Rightarrow> if Paused (PHeap e ps) then Some ps else None
      | None \<Rightarrow> None)"

definition statTurn :: "(int \<Rightarrow> PlayerInput option) \<Rightarrow> Engine \<Rightarrow> Engine option" where
  "statTurn inputs e =
     do { let i = CurrentStatTicked e;
          s \<leftarrow> statAt i e;
          if \<not> turnDue e s then Some (nextStat e)
          else do {
            (skip, unpaused, e) \<leftarrow>
              (case pausedPlayer e of
                 None \<Rightarrow> Some (False, False, e)
               | Some ps \<Rightarrow> do {
                   (unpaused, e) \<leftarrow>
                     (case inputs i of
                        Some inp \<Rightarrow>
                          if iDeltaX inp \<noteq> 0 \<or> iDeltaY inp \<noteq> 0 then pausedMove i ps inp e
                          else Some (False, e)
                      | None \<Rightarrow> Some (False, e));
                   Some (\<not> unpaused, unpaused, e) });
            if skip then Some (nextStat e)
            else do {
              e \<leftarrow> tickStat inputs i unpaused e;
              Some (nextStat e) } } }"

partial_function (option) tickLoop :: "(int \<Rightarrow> PlayerInput option) \<Rightarrow> Engine \<Rightarrow> Engine option" where
  "tickLoop inputs e =
     (if CurrentStatTicked e \<le> StatCount (Board e) \<and> \<not> GamePlayExitRequested e
      then do { e \<leftarrow> statTurn inputs e; tickLoop inputs e }
      else Some e)"

definition nextCycle :: "Engine \<Rightarrow> Engine" where
  "nextCycle e =
     (if CurrentStatTicked e > StatCount (Board e) \<and> \<not> GamePlayExitRequested e
      then let t = i16 (CurrentTick e + 1)
           in InputUpdate (e\<lparr>CurrentTick := (if t > 420 then 1 else t), CurrentStatTicked := 0\<rparr>)
      else e)"

definition GameStepWithInputs ::
  "(string \<Rightarrow> bool) \<Rightarrow> (int \<Rightarrow> PlayerInput option) \<Rightarrow> Engine \<Rightarrow> Engine option" where
  "GameStepWithInputs created inputs e =
     do { e \<leftarrow> applyReplies created e;
          let e = loadInput e;
          let e = e\<lparr>TimerTicks := u32 (TimerTicks e + u32 (quot (i16 (TickTimeDuration e + 5)) 6))\<rparr>;
          e \<leftarrow> tickLoop inputs e;
          Some (storeInput (nextCycle e)) }"

text \<open>With no map, stat 0 gets the engine's own input.\<close>

definition soloInput :: "Engine \<Rightarrow> int \<Rightarrow> PlayerInput option" where
  "soloInput e =
     [0 \<mapsto> \<lparr>iDeltaX = eInputDeltaX e, iDeltaY = eInputDeltaY e,
            iShift = eInputShiftPressed e, iKey = eInputKeyPressed e\<rparr>]"

definition GameStep ::
  "(string \<Rightarrow> bool) \<Rightarrow> (int \<Rightarrow> PlayerInput option) option \<Rightarrow> Engine \<Rightarrow> Engine option" where
  "GameStep created inputs e =
     GameStepWithInputs created (case inputs of None \<Rightarrow> soloInput e | Some m \<Rightarrow> m) e"

section \<open>High scores\<close>

definition highScores :: "Engine \<Rightarrow> THighScoreEntry list" where
  "highScores e = map (HighScoreList e) [0..HIGH_SCORE_COUNT - 1]"

text \<open>The first position, from 1, whose score does not beat \<open>score\<close>; 31 when all do.\<close>

definition listPosition :: "int \<Rightarrow> Engine \<Rightarrow> int" where
  "listPosition score e =
     1 + int (length (takeWhile (\<lambda>h. score < hScore h) (highScores e)))"

definition HighScoresAdd :: "int \<Rightarrow> Engine \<Rightarrow> Engine" where
  "HighScoresAdd statId e =
     (let (ps, e) = PlayerFor statId e;
          score = pScore (PHeap e ps);
          listPos = listPosition score e
      in if listPos \<le> 30 \<and> score > 0 then emit (HighScoreEntryEvent statId score listPos) e else e)"

definition setHighScores :: "THighScoreEntry list \<Rightarrow> Engine \<Rightarrow> Engine" where
  "setHighScores hs e =
     e\<lparr>HighScoreList := (\<lambda>i. if 0 \<le> i \<and> i < int (length hs) then hs ! nat i else HighScoreList e i)\<rparr>"

text \<open>
  \<open>HighScoresLoad\<close>. \<open>files\<close> is the file system, \<open>None\<close> for a file that does not open. \<open>f.Read\<close>
  fails on an empty file and otherwise leaves the tail of the buffer zero.
\<close>

definition HighScoresLoad :: "(string \<Rightarrow> int list option) \<Rightarrow> Engine \<Rightarrow> Engine option" where
  "HighScoresLoad files e =
     (case files (wName (wInfo (World e)) @ ''.HI'') of
        Some (b # bs) \<Rightarrow> do {
          hs \<leftarrow> LoadHighScoreList (copyBytes (replicate (nat SizeOfHighScoreList) 0) (b # bs)) (highScores e);
          Some (setHighScores hs e) }
      | _ \<Rightarrow> Some (setHighScores (replicate (nat HIGH_SCORE_COUNT) \<lparr>hName = [], hScore = -1\<rparr>) e))"

definition HighScoresSave :: "Engine \<Rightarrow> int list option" where
  "HighScoresSave e = StoreHighScoreList (replicate (nat SizeOfHighScoreList) 0) (highScores e)"

section \<open>Loading a world\<close>

definition ProgressAnimColors :: "int list" where
  "ProgressAnimColors = [20, 28, 21, 29, 22, 30, 23, 31]"

definition ProgressAnimStrings :: "string list" where
  "ProgressAnimStrings =
     [''....|'', ''...*/'', ''..*.-'', ''.*..'' @ [CHR 0x5C], ''*...|'', ''..../'', ''....-'', ''....'' @ [CHR 0x5C]]"

text \<open>\<open>SidebarAnimateLoading\<close>; it runs once per board, so its phase is the board's number.\<close>

definition SidebarAnimateLoading :: "int \<Rightarrow> Engine \<Rightarrow> Engine" where
  "SidebarAnimateLoading boardId e =
     VideoWriteText 69 5 (ProgressAnimColors ! nat (boardId mod 8)) (ProgressAnimStrings ! nat (boardId mod 8)) e"

definition damagedWorld :: "Engine \<Rightarrow> Engine" where
  "damagedWorld e =
     VideoWriteText 63 6 30 ''  and cannot be read.'' (VideoWriteText 63 5 30 ''This world is damaged'' e)"

text \<open>An I/O error shows nothing on a headless engine.\<close>

definition WorldLoad ::
  "(string \<Rightarrow> int list option) \<Rightarrow> string \<Rightarrow> string \<Rightarrow> bool \<Rightarrow> Engine \<Rightarrow> (bool \<times> Engine) option" where
  "WorldLoad files filename extension titleOnly e =
     (let e = VideoWriteText 62 5 31 ''Loading.....''
                (SidebarClearLine 5 (SidebarClearLine 5 (SidebarClearLine 4 e))) in
      case files (filename @ extension) of
        None \<Rightarrow> Some (False, e)
      | Some f \<Rightarrow> do {
          e \<leftarrow> BoardClose e;
          (err, e) \<leftarrow> worldReadFrom SidebarAnimateLoading f titleOnly e;
          (case err of
             ErrWorldVersion \<Rightarrow> Some (False, VideoWriteText 63 6 30 '' version of ZZT!''
                                      (VideoWriteText 63 5 30 ''You need a newer'' e))
           | ErrWorldCorrupt \<Rightarrow> Some (False, damagedWorld e)
           | ReadEOF \<Rightarrow> Some (False, e)
           | ReadOk \<Rightarrow>
               if validateWorldBoards (World e) \<noteq> ReadOk then Some (False, damagedWorld e)
               else do {
                 e \<leftarrow> BoardOpen (CurrentBoard (wInfo (World e))) e;
                 e \<leftarrow> HighScoresLoad files (e\<lparr>LoadedGameFileName := filename\<rparr>);
                 Some (True, SidebarClearLine 5 e) }) })"

end
