(* ===== verification/Protocol.thy ===== *)
theory Protocol
  imports BoardFile "HOL-Library.Word"
begin

text \<open>
  What leaves an engine over the network: the state hash of \<open>engine/state_hash.go\<close>, and the
  roster rows, sidebars, screens and events of \<open>engine/protocol.go\<close>. A JSON message is the
  record of the fields the simulation fills in; \<open>omitempty\<close> and the fields only the socket
  server sets are left out. The lines of a help file are the parameter \<open>help\<close>: the source reads
  them from disk and caches them.
\<close>

section \<open>The state hash\<close>

text \<open>FNV-1a over 64 bits, as \<open>hash/fnv\<close> documents it.\<close>

definition fnvStep :: "int \<Rightarrow> 64 word \<Rightarrow> 64 word" where
  "fnvStep b h = (xor h (word_of_int b)) * 1099511628211"

definition fnv1a :: "int list \<Rightarrow> 64 word" where
  "fnv1a bs = fold fnvStep bs 14695981039346656037"

definition hashUint32 :: "int \<Rightarrow> int list" where
  "hashUint32 n = [n mod 256, n div 256 mod 256, n div 65536 mod 256, n div 16777216 mod 256]"

definition hashInt16 :: "int \<Rightarrow> int list" where
  "hashInt16 n = [u16 n mod 256, u16 n div 256]"

definition hashBool :: "bool \<Rightarrow> int list" where
  "hashBool b = [if b then 1 else 0]"

definition hashString :: "string \<Rightarrow> int list" where
  "hashString s = hashUint32 (u32 (int (length s))) @ map ord s"

text \<open>\<open>padding1\<close> and \<open>padding2\<close> are never assigned: two and fourteen zero bytes.\<close>

definition hashWorldInfo :: "TWorldInfo \<Rightarrow> int list" where
  "hashWorldInfo w =
     hashInt16 (wAmmo w) @ hashInt16 (wGems w) @
     concat (map (\<lambda>i. hashBool (wKeys w i)) [0..6]) @
     hashInt16 (wHealth w) @ hashInt16 (CurrentBoard w) @ hashInt16 (wTorches w) @
     hashInt16 (wTorchTicks w) @ hashInt16 (wEnergizerTicks w) @ hashInt16 0 @
     hashInt16 (wScore w) @ hashString (wName w) @
     concat (map (\<lambda>i. hashString (Flags w i)) [0..MAX_FLAG - 1]) @
     hashInt16 (wBoardTimeSec w) @ hashInt16 (wBoardTimeHsec w) @ hashBool (IsSave w) @
     replicate 14 0"

definition hashTiles :: "Engine \<Rightarrow> int list" where
  "hashTiles e =
     concat (map (\<lambda>x. concat (map (\<lambda>y. [Element (Tiles (Board e) x y), Color (Tiles (Board e) x y)])
       [0..BOARD_HEIGHT + 1])) [0..BOARD_WIDTH + 1])"

definition hashStat :: "TStat \<Rightarrow> int list" where
  "hashStat s =
     [sX s, sY s] @ hashInt16 (StepX s) @ hashInt16 (StepY s) @ hashInt16 (sCycle s) @
     [P1 s, P2 s, P3 s] @ hashInt16 (Follower s) @ hashInt16 (Leader s) @
     [Element (Under s), Color (Under s)] @ hashString (Data s) @ hashInt16 (DataPos s) @
     hashInt16 (DataLen s)"

text \<open>The player 0 state is first copied into the world's fields, and stays there.\<close>

definition publishPlayer :: "PlayerState \<Rightarrow> TWorldInfo \<Rightarrow> TWorldInfo" where
  "publishPlayer p w =
     w\<lparr>wHealth := pHealth p, wAmmo := pAmmo p, wGems := pGems p, wTorches := pTorches p,
       wTorchTicks := pTorchTicks p, wEnergizerTicks := pEnergizerTicks p, wScore := pScore p,
       wKeys := pKeys p, wBoardTimeSec := pBoardTimeSec p, wBoardTimeHsec := pBoardTimeHsec p\<rparr>"

definition StateHash :: "Engine \<Rightarrow> (64 word \<times> Engine) option" where
  "StateHash e =
     do { let e = (case Players e 0 of Some ps \<Rightarrow> modWorldInfo (publishPlayer (PHeap e ps)) e
                                     | None \<Rightarrow> e);
          stats \<leftarrow> foldM (\<lambda>i bs. do { s \<leftarrow> statAt i e; Some (bs @ hashStat s) })
                    [0..StatCount (Board e)] [];
          Some (fnv1a (hashTiles e @ hashInt16 (StatCount (Board e)) @ stats @
                       hashWorldInfo (wInfo (World e)) @ hashUint32 (RandSeed e)), e) }"

section \<open>Roster rows and sidebars\<close>

record PlayerSnapshot =
  psID :: int
  psStatID :: int
  psX :: int
  psY :: int
  psHealth :: int
  psName :: string
  psColor :: string
  psHandle :: string
  psHasProfile :: bool

record HUDSnapshot =
  hudHealth :: int
  hudAmmo :: int
  hudGems :: int
  hudTorches :: int
  hudTorchTicks :: int
  hudEnergizerTicks :: int
  hudScore :: int
  hudKeys :: "bool list"
  hudBoardTimeSec :: int
  hudBoardTimeHsec :: int
  hudTimeLimitSec :: int
  hudSoundEnabled :: bool

definition zeroHUD :: HUDSnapshot where
  "zeroHUD =
     \<lparr>hudHealth = 0, hudAmmo = 0, hudGems = 0, hudTorches = 0, hudTorchTicks = 0,
      hudEnergizerTicks = 0, hudScore = 0, hudKeys = replicate 7 False, hudBoardTimeSec = 0,
      hudBoardTimeHsec = 0, hudTimeLimitSec = 0, hudSoundEnabled = False\<rparr>"

definition playerSnapshot :: "int \<Rightarrow> int \<Rightarrow> Engine \<Rightarrow> (PlayerSnapshot \<times> Engine) option" where
  "playerSnapshot playerID statID e =
     do { s \<leftarrow> statAt statID e;
          let (ps, e) = PlayerFor statID e;
          Some (\<lparr>psID = playerID, psStatID = statID, psX = sX s, psY = sY s,
                 psHealth = pHealth (PHeap e ps), psName = [], psColor = [], psHandle = [],
                 psHasProfile = False\<rparr>, e) }"

definition hudSnapshot :: "int \<Rightarrow> Engine \<Rightarrow> HUDSnapshot \<times> Engine" where
  "hudSnapshot statID e =
     (let (ps, e) = PlayerFor statID e; p = PHeap e ps in
      (\<lparr>hudHealth = pHealth p, hudAmmo = pAmmo p, hudGems = pGems p, hudTorches = pTorches p,
        hudTorchTicks = pTorchTicks p, hudEnergizerTicks = pEnergizerTicks p,
        hudScore = pScore p, hudKeys = map (pKeys p) [0..6],
        hudBoardTimeSec = pBoardTimeSec p, hudBoardTimeHsec = pBoardTimeHsec p,
        hudTimeLimitSec = TimeLimitSec (bInfo (Board e)), hudSoundEnabled = pSoundEnabled p\<rparr>, e))"

text \<open>A colour off the wire is \<open>#\<close> and six hexadecimal digits, or it is dropped.\<close>

definition isHexDigit :: "char \<Rightarrow> bool" where
  "isHexDigit c \<longleftrightarrow> 48 \<le> ord c \<and> ord c \<le> 57 \<or> 97 \<le> ord c \<and> ord c \<le> 102 \<or> 65 \<le> ord c \<and> ord c \<le> 70"

definition SanitizePlayerColor :: "string \<Rightarrow> string" where
  "SanitizePlayerColor color =
     (if length color \<noteq> 7 \<or> color ! 0 \<noteq> CHR ''#'' then []
      else if list_all isHexDigit (drop 1 color) then color else [])"

section \<open>The screen\<close>

definition screenCells :: "Engine \<Rightarrow> ScreenCell list option" where
  "screenCells e =
     foldM (\<lambda>y. foldM (\<lambda>x cells. do { c \<leftarrow> screenCell x y e; Some (cells @ [c]) })
       [0..netScreenWidth e - 1]) [0..24] []"

section \<open>Events on the wire\<close>

record ProtocolEvent =
  peType :: string
  peStatID :: int
  pePlayerStatID :: int
  peTitle :: string
  peLines :: "string list"
  peFilename :: string
  peError :: string
  peScore :: int
  peListPos :: int
  peNotes :: "int list"
  pePriority :: int
  peX :: int
  peY :: int
  peToBoard :: int
  peEntryX :: int
  peEntryY :: int
  peFreqHz :: int
  pePaused :: bool

definition wireEvent :: "string \<Rightarrow> ProtocolEvent" where
  "wireEvent t =
     \<lparr>peType = t, peStatID = 0, pePlayerStatID = 0, peTitle = [], peLines = [], peFilename = [],
      peError = [], peScore = 0, peListPos = 0, peNotes = [], pePriority = 0, peX = 0, peY = 0,
      peToBoard = 0, peEntryX = 0, peEntryY = 0, peFreqHz = 0, pePaused = False\<rparr>"

fun ProtocolEvent_of :: "(string \<Rightarrow> string list) \<Rightarrow> Event \<Rightarrow> ProtocolEvent" where
  "ProtocolEvent_of help (ScrollEvent title ls statId playerStatId) =
     (wireEvent ''scroll'')\<lparr>peStatID := statId, pePlayerStatID := playerStatId, peTitle := title,
                            peLines := ls\<rparr>"
| "ProtocolEvent_of help (QuitPromptEvent statId) = (wireEvent ''quitPrompt'')\<lparr>peStatID := statId\<rparr>"
| "ProtocolEvent_of help (QuitEvent statId) = (wireEvent ''quit'')\<lparr>peStatID := statId\<rparr>"
| "ProtocolEvent_of help (HelpEvent filename title statId) =
     (wireEvent ''help'')\<lparr>peStatID := statId, peFilename := filename, peTitle := title,
                          peLines := help filename\<rparr>"
| "ProtocolEvent_of help (DebugPromptEvent statId) = (wireEvent ''debugPrompt'')\<lparr>peStatID := statId\<rparr>"
| "ProtocolEvent_of help (SavePromptEvent statId) = (wireEvent ''savePrompt'')\<lparr>peStatID := statId\<rparr>"
| "ProtocolEvent_of help (PauseEvent statId paused) =
     (wireEvent ''pause'')\<lparr>peStatID := statId, pePaused := paused\<rparr>"
| "ProtocolEvent_of help (HighScoreEntryEvent statId score listPos) =
     (wireEvent ''highScoreEntry'')\<lparr>peStatID := statId, peScore := score, peListPos := listPos\<rparr>"
| "ProtocolEvent_of help (SoundEvent notes priority statId) =
     (wireEvent ''sound'')\<lparr>peNotes := notes, pePriority := priority,
                           peStatID := (if statId \<ge> 0 then statId else 0)\<rparr>"
| "ProtocolEvent_of help (WalkClickEvent statId freq) =
     (wireEvent ''walkClick'')\<lparr>peStatID := statId, peFreqHz := freq\<rparr>"
| "ProtocolEvent_of help (DeathEvent statId) = (wireEvent ''death'')\<lparr>peStatID := statId\<rparr>"
| "ProtocolEvent_of help (RespawnEvent statId x y) =
     (wireEvent ''respawn'')\<lparr>peStatID := statId, peX := x, peY := y\<rparr>"
| "ProtocolEvent_of help (TransferEvent statId sourceX sourceY toBoard entryX entryY notes priority) =
     (wireEvent ''transfer'')\<lparr>peStatID := statId, peToBoard := toBoard, peEntryX := entryX,
                              peEntryY := entryY\<rparr>"

definition ProtocolEvents :: "(string \<Rightarrow> string list) \<Rightarrow> Event list \<Rightarrow> ProtocolEvent list" where
  "ProtocolEvents help events = map (ProtocolEvent_of help) events"

section \<open>Whole frames\<close>

record SnapshotMessage =
  smBoardID :: int
  smTick :: int
  smSeed :: int
  smHash :: "64 word"
  smYou :: PlayerSnapshot
  smPlayers :: "PlayerSnapshot list"
  smHUD :: HUDSnapshot
  smScreen :: "ScreenCell list"
  smEvents :: "ProtocolEvent list"
  smSpectator :: bool

record DiffMessage =
  dmBoardID :: int
  dmTick :: int
  dmHash :: "64 word"
  dmCells :: "ScreenCell list"
  dmPlayers :: "PlayerSnapshot list"
  dmHUD :: "HUDSnapshot option"
  dmEvents :: "ProtocolEvent list"

definition NewSnapshotMessage ::
  "(string \<Rightarrow> string list) \<Rightarrow> int \<Rightarrow> int \<Rightarrow> int \<Rightarrow> PlayerSnapshot list \<Rightarrow> Engine \<Rightarrow>
   (SnapshotMessage \<times> Engine) option" where
  "NewSnapshotMessage help boardID playerID statID players e =
     do { let tick = CurrentTick e;
          let seed = RandSeed e;
          (hash, e) \<leftarrow> StateHash e;
          (you, e) \<leftarrow> playerSnapshot playerID statID e;
          let (hud, e) = hudSnapshot statID e;
          screen \<leftarrow> screenCells e;
          Some (\<lparr>smBoardID = boardID, smTick = tick, smSeed = seed, smHash = hash, smYou = you,
                 smPlayers = players, smHUD = hud, smScreen = screen,
                 smEvents = ProtocolEvents help (Events e), smSpectator = False\<rparr>, e) }"

end
