(* ===== verification/SessionRecord.thy ===== *)
theory SessionRecord
  imports Types "HOL-Library.Mapping"
begin

text \<open>
  The session recorder of \<open>engine/session_record.go\<close>: the operations a host applied since the
  last tick are buffered, and \<open>flush\<close> sends them with the tick's inputs to the writer. The
  channel to the writer is the list \<open>recSent\<close> of the ticks it accepted, \<open>recFull n\<close> says whether
  it was full when tick \<open>n\<close> was sent (the writer's speed is the environment's), and \<open>recDropped\<close>
  counts the refused ones.
\<close>

text \<open>
  \<open>recOp\<close>, a tagged union of the \<open>Op\<close> and \<open>Kind\<close> strings: one constructor per tag with the
  fields that tag carries. The inputs of a tick are a map, which has no order.
\<close>

datatype recOp =
    RecJoin int int int int
  | RecName int string
  | RecState int "PlayerState option"
  | RecLeave int
  | RecScroll int int string
  | RecQuit int bool
  | RecDebug int string
  | RecSave int string
  | RecHighScore int string

record recTick =
  rtTick :: int
  rtOps :: "recOp list"
  rtInputs :: "(int, PlayerInput) mapping"

record SessionRecorder =
  recOps :: "recOp list"
  recTicks :: int
  recSent :: "recTick list"
  recFull :: "int \<Rightarrow> bool"
  recDropped :: int

definition NewSessionRecorder :: "(int \<Rightarrow> bool) \<Rightarrow> SessionRecorder" where
  "NewSessionRecorder full =
     \<lparr>recOps = [], recTicks = 0, recSent = [], recFull = full, recDropped = 0\<rparr>"

text \<open>Both are no-ops on a nil recorder. \<open>flush\<close> copies the map, here given by its entries.\<close>

definition recordOp :: "recOp \<Rightarrow> SessionRecorder option \<Rightarrow> SessionRecorder option" where
  "recordOp op r = map_option (\<lambda>r. r\<lparr>recOps := recOps r @ [op]\<rparr>) r"

definition flushTick :: "(int \<times> PlayerInput) list \<Rightarrow> SessionRecorder option \<Rightarrow> SessionRecorder option" where
  "flushTick inputs r =
     map_option (\<lambda>r.
       let rec = \<lparr>rtTick = recTicks r, rtOps = recOps r, rtInputs = Mapping.of_alist inputs\<rparr>;
           full = recFull r (recTicks r);
           r = r\<lparr>recOps := [], recTicks := recTicks r + 1\<rparr>
       in if full then r\<lparr>recDropped := recDropped r + 1\<rparr> else r\<lparr>recSent := recSent r @ [rec]\<rparr>) r"

end
