(* ===== verification/Rooms.thy ===== *)
theory Rooms
  imports Game Protocol SessionRecord "HOL-Library.Mapping"
begin

text \<open>
  \<open>engine/room_manager.go\<close>: one hosted world, a room (an engine) for every board somebody stands
  on, and the players in them. A Go map is a mapping; the loops over \<open>roomIDs\<close> and \<open>playerIDs\<close>
  run over its sorted keys, as the source sorts them. A \<open>*Room\<close> or \<open>*roomPlayer\<close> is read again
  from its map by key, since every pointer the source holds is the one in the map at that
  moment. \<open>rpState\<close>, a \<open>*PlayerState\<close>, is an address in the engine of the player's room.

  The package's input and sound variables are fields of each engine: a cycle begins by loading
  the input ones from the engine it runs, and nothing in a headless engine sets the sound ones.
\<close>

section \<open>State\<close>

record Room =
  rBoardID :: int
  rEngine :: Engine
  rPlayers :: "int set"

record roomPlayer =
  rpId :: int
  rpBoardID :: int
  rpStatID :: int
  rpState :: int
  rpName :: string
  rpAccountID :: string
  rpColor :: string
  rpHandle :: string
  rpHasProfile :: bool
  rpScrollOpen :: bool

record QuitResult =
  qrPlayerID :: int
  qrScore :: int
  qrListPos :: int

record WorldTransit =
  wtPlayerID :: int
  wtDestinationWorld :: string
  wtSourceBoard :: int
  wtSourceX :: int
  wtSourceY :: int

record RoomNotable =
  rnPlayerID :: int
  rnKind :: string

record RoomNotice =
  noPlayerID :: int
  noKind :: string
  noObjectStatID :: int

text \<open>
  \<open>TransitGateKey\<close> is the triple of board, column and row. \<open>hiWritten\<close> is the log of what
  \<open>os.WriteFile\<close> was given for the high-score file, the newest last.
\<close>

record RoomManager =
  rmWorld :: TWorld
  rmRooms :: "(int, Room) mapping"
  rmPlayers :: "(int, roomPlayer) mapping"
  rmNextPlayerID :: int
  WorldIdentity :: string
  TransitGates :: "(int \<times> int \<times> int, string) mapping"
  NoticeTiles :: "(int \<times> int \<times> int, string) mapping"
  rmFriendlyFire :: bool
  HighScorePath :: string
  rmHighScores :: "THighScoreEntry list"
  rmQuits :: "QuitResult list"
  pendingScores :: "(int, QuitResult) mapping"
  pendingPlayerEvents :: "(int, Event list) mapping"
  pendingWorldTransits :: "WorldTransit list"
  pendingNotables :: "RoomNotable list"
  pendingNotices :: "RoomNotice list"
  rmRecorder :: "SessionRecorder option"
  recSuppressLeave :: bool
  hiWritten :: "int list list"

definition i64 :: "int \<Rightarrow> int" where
  "i64 n = (n + 2 ^ 63) mod 2 ^ 64 - 2 ^ 63"

definition roomAt :: "int \<Rightarrow> RoomManager \<Rightarrow> Room option" where
  "roomAt b rm = Mapping.lookup (rmRooms rm) b"

definition playerAt :: "int \<Rightarrow> RoomManager \<Rightarrow> roomPlayer option" where
  "playerAt p rm = Mapping.lookup (rmPlayers rm) p"

definition roomIDs :: "RoomManager \<Rightarrow> int list" where
  "roomIDs rm = Mapping.ordered_keys (rmRooms rm)"

definition playerIDs :: "RoomManager \<Rightarrow> int list" where
  "playerIDs rm = Mapping.ordered_keys (rmPlayers rm)"

definition putRoom :: "int \<Rightarrow> Room \<Rightarrow> RoomManager \<Rightarrow> RoomManager" where
  "putRoom b room rm = rm\<lparr>rmRooms := Mapping.update b room (rmRooms rm)\<rparr>"

definition putPlayer :: "int \<Rightarrow> roomPlayer \<Rightarrow> RoomManager \<Rightarrow> RoomManager" where
  "putPlayer p player rm = rm\<lparr>rmPlayers := Mapping.update p player (rmPlayers rm)\<rparr>"

definition modRoomPlayer :: "int \<Rightarrow> (roomPlayer \<Rightarrow> roomPlayer) \<Rightarrow> RoomManager \<Rightarrow> RoomManager" where
  "modRoomPlayer p f rm = rm\<lparr>rmPlayers := Mapping.map_entry p f (rmPlayers rm)\<rparr>"

text \<open>Run an operation on the engine of a room; a missing room is a nil dereference.\<close>

definition onRoom :: "int \<Rightarrow> (Engine \<Rightarrow> Engine option) \<Rightarrow> RoomManager \<Rightarrow> RoomManager option" where
  "onRoom b f rm =
     do { room \<leftarrow> roomAt b rm;
          e \<leftarrow> f (rEngine room);
          Some (putRoom b (room\<lparr>rEngine := e\<rparr>) rm) }"

definition inRoom :: "int \<Rightarrow> (Engine \<Rightarrow> ('a \<times> Engine) option) \<Rightarrow> RoomManager \<Rightarrow> ('a \<times> RoomManager) option" where
  "inRoom b f rm =
     do { room \<leftarrow> roomAt b rm;
          (v, e) \<leftarrow> f (rEngine room);
          Some (v, putRoom b (room\<lparr>rEngine := e\<rparr>) rm) }"

definition recordRM :: "recOp \<Rightarrow> RoomManager \<Rightarrow> RoomManager" where
  "recordRM op rm = rm\<lparr>rmRecorder := recordOp op (rmRecorder rm)\<rparr>"

section \<open>The world's save name\<close>

text \<open>
  \<open>SanitizeSaveName\<close> of \<open>engine/snapshot.go\<close>: \<open>None\<close> is its error. \<open>SaveNameMaxLength\<close> is 8.
\<close>

definition saveNameChar :: "char \<Rightarrow> bool" where
  "saveNameChar c \<longleftrightarrow> 65 \<le> ord c \<and> ord c \<le> 90 \<or> 48 \<le> ord c \<and> ord c \<le> 57 \<or> c = CHR ''-''"

definition SanitizeSaveName :: "string \<Rightarrow> string option" where
  "SanitizeSaveName name =
     (if name = [] \<or> length name > 8 then None
      else let out = map UpCase name in if list_all saveNameChar out then Some out else None)"

section \<open>Making a manager; the high scores\<close>

definition emptyScores :: "THighScoreEntry list" where
  "emptyScores = replicate 30 \<lparr>hName = [], hScore = -1\<rparr>"

definition NewRoomManagerForWorld :: "TWorld \<Rightarrow> string \<Rightarrow> RoomManager" where
  "NewRoomManagerForWorld world identity =
     \<lparr>rmWorld = world, rmRooms = Mapping.empty, rmPlayers = Mapping.empty, rmNextPlayerID = 0,
      WorldIdentity = (case SanitizeSaveName identity of Some s \<Rightarrow> s | None \<Rightarrow> []),
      TransitGates = Mapping.empty, NoticeTiles = Mapping.empty, rmFriendlyFire = True,
      HighScorePath = [], rmHighScores = emptyScores, rmQuits = [], pendingScores = Mapping.empty,
      pendingPlayerEvents = Mapping.empty, pendingWorldTransits = [], pendingNotables = [],
      pendingNotices = [], rmRecorder = None, recSuppressLeave = False, hiWritten = []\<rparr>"

definition NewRoomManager :: "TWorld \<Rightarrow> RoomManager" where
  "NewRoomManager world = NewRoomManagerForWorld world (wName (wInfo world))"

definition SetRecorder :: "SessionRecorder option \<Rightarrow> RoomManager \<Rightarrow> RoomManager" where
  "SetRecorder r rm = rm\<lparr>rmRecorder := r\<rparr>"

text \<open>\<open>files\<close> is the file system; a read of an empty file fails, a short one leaves zeros.\<close>

definition LoadHighScores :: "(string \<Rightarrow> int list option) \<Rightarrow> RoomManager \<Rightarrow> RoomManager option" where
  "LoadHighScores files rm =
     (if HighScorePath rm = [] then Some rm
      else case files (HighScorePath rm) of
        Some (b # bs) \<Rightarrow> do {
          hs \<leftarrow> LoadHighScoreList (copyBytes (replicate (nat SizeOfHighScoreList) 0) (b # bs))
                 (rmHighScores rm);
          Some (rm\<lparr>rmHighScores := hs\<rparr>) }
      | _ \<Rightarrow> Some rm)"

definition saveHighScores :: "RoomManager \<Rightarrow> RoomManager option" where
  "saveHighScores rm =
     (if HighScorePath rm = [] then Some rm
      else do {
        buf \<leftarrow> StoreHighScoreList (replicate (nat SizeOfHighScoreList) 0) (rmHighScores rm);
        Some (rm\<lparr>hiWritten := hiWritten rm @ [buf]\<rparr>) })"

text \<open>
  Opening slot \<open>pos\<close> (from 1) of the list: the entries from there move down, the last one is
  lost. The array has 30 entries, so the shift is that of \<open>take\<close> and \<open>butlast\<close>.
\<close>

definition insertScore :: "int \<Rightarrow> THighScoreEntry \<Rightarrow> THighScoreEntry list \<Rightarrow> THighScoreEntry list" where
  "insertScore pos entry hs =
     (fold (\<lambda>i l. l[i := l ! (i - 1)]) (rev [nat pos..<length hs]) hs)[nat pos - 1 := entry]"

definition HighScoreLines :: "int \<Rightarrow> int \<Rightarrow> RoomManager \<Rightarrow> string list" where
  "HighScoreLines highlightPos highlightScore rm =
     (let list = (if highlightPos \<ge> 1 \<and> highlightPos \<le> HIGH_SCORE_COUNT
                  then insertScore highlightPos \<lparr>hName = ''-- You! --'', hScore = highlightScore\<rparr>
                         (rmHighScores rm)
                  else rmHighScores rm)
      in [''Score  Name'', ''-----  ----------------------------------''] @
         map (\<lambda>h. StrWidth (hScore h) 5 @ ''  '' @ hName h) (filter (\<lambda>h. hName h \<noteq> []) list))"

definition rankScore :: "int \<Rightarrow> RoomManager \<Rightarrow> int" where
  "rankScore score rm =
     (let listPos = 1 + int (length (takeWhile (\<lambda>h. score < hScore h) (rmHighScores rm)))
      in if listPos \<le> HIGH_SCORE_COUNT \<and> score > 0 then listPos else 0)"

definition RecordHighScore :: "int \<Rightarrow> string \<Rightarrow> RoomManager \<Rightarrow> (bool \<times> RoomManager) option" where
  "RecordHighScore playerID name rm =
     (case Mapping.lookup (pendingScores rm) playerID of
        None \<Rightarrow> Some (False, rm)
      | Some pending \<Rightarrow>
          if qrListPos pending < 1 \<or> qrListPos pending > HIGH_SCORE_COUNT then Some (False, rm)
          else do {
            let rm = recordRM (RecHighScore playerID name) rm;
            let rm = rm\<lparr>pendingScores := Mapping.delete playerID (pendingScores rm)\<rparr>;
            let rm = rm\<lparr>rmHighScores := insertScore (qrListPos pending)
                          \<lparr>hName = name, hScore = qrScore pending\<rparr> (rmHighScores rm)\<rparr>;
            rm \<leftarrow> saveHighScores rm;
            Some (True, rm) })"

definition DiscardPendingScore :: "int \<Rightarrow> RoomManager \<Rightarrow> RoomManager" where
  "DiscardPendingScore playerID rm =
     rm\<lparr>pendingScores := Mapping.delete playerID (pendingScores rm)\<rparr>"

section \<open>Draining\<close>

definition DrainQuits :: "RoomManager \<Rightarrow> QuitResult list \<times> RoomManager" where
  "DrainQuits rm = (rmQuits rm, rm\<lparr>rmQuits := []\<rparr>)"

definition DrainPlayerEvents :: "int \<Rightarrow> RoomManager \<Rightarrow> Event list \<times> RoomManager" where
  "DrainPlayerEvents playerID rm =
     (Mapping.lookup_default [] (pendingPlayerEvents rm) playerID,
      rm\<lparr>pendingPlayerEvents := Mapping.delete playerID (pendingPlayerEvents rm)\<rparr>)"

definition DrainWorldTransits :: "RoomManager \<Rightarrow> WorldTransit list \<times> RoomManager" where
  "DrainWorldTransits rm = (pendingWorldTransits rm, rm\<lparr>pendingWorldTransits := []\<rparr>)"

definition DrainNotices :: "RoomManager \<Rightarrow> RoomNotice list \<times> RoomManager" where
  "DrainNotices rm = (pendingNotices rm, rm\<lparr>pendingNotices := []\<rparr>)"

definition DrainNotables :: "RoomManager \<Rightarrow> RoomNotable list \<times> RoomManager" where
  "DrainNotables rm = (pendingNotables rm, rm\<lparr>pendingNotables := []\<rparr>)"

section \<open>World-scope state\<close>

definition copyWorldScope :: "TWorldInfo \<Rightarrow> TWorldInfo \<Rightarrow> TWorldInfo" where
  "copyWorldScope dst src = dst\<lparr>Flags := Flags src\<rparr>"

text \<open>\<open>a.Flags == b.Flags\<close>, ten strings.\<close>

definition worldScopeEqual :: "TWorldInfo \<Rightarrow> TWorldInfo \<Rightarrow> bool" where
  "worldScopeEqual a b \<longleftrightarrow> map (Flags a) [0..MAX_FLAG - 1] = map (Flags b) [0..MAX_FLAG - 1]"

definition adoptScope :: "TWorldInfo \<Rightarrow> Engine \<Rightarrow> Engine" where
  "adoptScope src e = modWorldInfo (\<lambda>w. copyWorldScope w src) e"

definition modRoomEngine :: "(Engine \<Rightarrow> Engine) \<Rightarrow> Room \<Rightarrow> Room" where
  "modRoomEngine f room = room\<lparr>rEngine := f (rEngine room)\<rparr>"

definition refreshRoomWorldScope :: "int \<Rightarrow> RoomManager \<Rightarrow> RoomManager" where
  "refreshRoomWorldScope b rm =
     rm\<lparr>rmRooms := Mapping.map_entry b (modRoomEngine (adoptScope (wInfo (rmWorld rm)))) (rmRooms rm)\<rparr>"

definition publishRoomWorldScope :: "int \<Rightarrow> RoomManager \<Rightarrow> RoomManager" where
  "publishRoomWorldScope b rm =
     (case roomAt b rm of
        None \<Rightarrow> rm
      | Some source \<Rightarrow>
          let info = wInfo (World (rEngine source)) in
          if worldScopeEqual info (wInfo (rmWorld rm)) then rm
          else let w = copyWorldScope (wInfo (rmWorld rm)) info in
            rm\<lparr>rmWorld := (rmWorld rm)\<lparr>wInfo := w\<rparr>,
               rmRooms := Mapping.map_values (\<lambda>_. modRoomEngine (adoptScope w)) (rmRooms rm)\<rparr>)"

section \<open>Rooms come and go\<close>

definition roomEngine :: "TWorld \<Rightarrow> int \<Rightarrow> Engine \<Rightarrow> Engine option" where
  "roomEngine world boardID e =
     do { let e = e\<lparr>World := world\<rparr>;
          e \<leftarrow> BoardOpen boardID e;
          e \<leftarrow> GenerateTransitionTable e;
          TransitionDrawToBoard e }"

definition ensureRoom :: "int \<Rightarrow> RoomManager \<Rightarrow> RoomManager option" where
  "ensureRoom boardID rm =
     (case roomAt boardID rm of
        Some _ \<Rightarrow> Some rm
      | None \<Rightarrow> do {
          e \<leftarrow> roomEngine (rmWorld rm) boardID
                 (NewEngine\<lparr>Headless := True, MultiRoom := True, FriendlyFire := rmFriendlyFire rm,
                            TickSpeed := 4, TickTimeDuration := 8, GameStateElement := E_PLAYER\<rparr>);
          Some (putRoom boardID \<lparr>rBoardID = boardID, rEngine = e, rPlayers = {}\<rparr> rm) })"

definition SetFriendlyFire :: "bool \<Rightarrow> RoomManager \<Rightarrow> RoomManager" where
  "SetFriendlyFire on rm =
     fold (\<lambda>b rm. rm\<lparr>rmRooms := Mapping.map_entry b (modRoomEngine (\<lambda>e. e\<lparr>FriendlyFire := on\<rparr>)) (rmRooms rm)\<rparr>)
       (roomIDs rm) (rm\<lparr>rmFriendlyFire := on\<rparr>)"

definition syncFrozenBoardToLiveRooms :: "int \<Rightarrow> RoomManager \<Rightarrow> RoomManager option" where
  "syncFrozenBoardToLiveRooms boardID rm =
     foldM (\<lambda>roomID rm. do {
         check (inBoards boardID);
         rm \<leftarrow> onRoom roomID (\<lambda>e. Some (e\<lparr>World := (World e)
                \<lparr>BoardData := (BoardData (World e))(boardID := BoardData (rmWorld rm) boardID),
                 BoardLen := (BoardLen (World e))(boardID := BoardLen (rmWorld rm) boardID)\<rparr>\<rparr>)) rm;
         Some (refreshRoomWorldScope roomID rm) })
       (roomIDs rm) rm"

definition freezeRoomIfEmpty :: "int \<Rightarrow> RoomManager \<Rightarrow> RoomManager option" where
  "freezeRoomIfEmpty boardID rm =
     (case roomAt boardID rm of
        None \<Rightarrow> Some rm
      | Some room \<Rightarrow>
          if rPlayers room \<noteq> {} then Some rm
          else do {
            rm \<leftarrow> onRoom boardID BoardClose rm;
            room \<leftarrow> roomAt boardID rm;
            check (inBoards boardID);
            let w = World (rEngine room);
            let rm = rm\<lparr>rmWorld := (rmWorld rm)
              \<lparr>BoardData := (BoardData (rmWorld rm))(boardID := BoardData w boardID),
               BoardLen := (BoardLen (rmWorld rm))(boardID := BoardLen w boardID)\<rparr>\<rparr>;
            let rm = publishRoomWorldScope boardID rm;
            let rm = rm\<lparr>rmRooms := Mapping.delete boardID (rmRooms rm)\<rparr>;
            syncFrozenBoardToLiveRooms boardID rm })"

section \<open>Where a player arrives\<close>

definition drawPlayerArrivalSurroundings :: "int \<Rightarrow> Engine \<Rightarrow> Engine option" where
  "drawPlayerArrivalSurroundings statID e =
     (if \<not> IsDark (bInfo (Board e)) \<or> statID < 0 \<or> statID > StatCount (Board e) then Some e
      else let (ps, e) = PlayerFor statID e in
        if pTorchTicks (PHeap e ps) \<le> 0 then Some e
        else do {
          s \<leftarrow> statAt statID e;
          p \<leftarrow> isPlayerStat s e;
          if p then DrawPlayerSurroundings (sX s) (sY s) 0 e else Some e })"

text \<open>The first stat on a player's square, stat 0 being looked at first.\<close>

definition claimablePlayerStat :: "Engine \<Rightarrow> int option option" where
  "claimablePlayerStat e =
     firstM (\<lambda>i. do { s \<leftarrow> statAt i e; isPlayerStat s e }) [0..StatCount (Board e)]"

definition movePlayerStat :: "int \<Rightarrow> int \<Rightarrow> int \<Rightarrow> Engine \<Rightarrow> Engine option" where
  "movePlayerStat statID x y e =
     do { s \<leftarrow> statAt statID e;
          e \<leftarrow> (if sX s \<noteq> x \<or> sY s \<noteq> y then MoveStat statID x y e else Some e);
          e \<leftarrow> setElement x y E_PLAYER e;
          d \<leftarrow> elemDef E_PLAYER;
          e \<leftarrow> setColor x y (dColor d) e;
          e \<leftarrow> BoardDrawTile x y e;
          Some (SetReenterPoint statID x y e) }"

definition claimedSquare :: "Engine \<Rightarrow> (int \<times> int) option option" where
  "claimedSquare e =
     do { c \<leftarrow> claimablePlayerStat e;
          case c of None \<Rightarrow> Some None
          | Some i \<Rightarrow> do { s \<leftarrow> statAt i e; Some (Some (sX s, sY s)) } }"

definition isRequestedSpawnUnoccupied :: "int \<Rightarrow> int \<Rightarrow> Engine \<Rightarrow> bool option" where
  "isRequestedSpawnUnoccupied x y e =
     (if \<not> onBoard x y then Some False
      else do { el \<leftarrow> elementAt x y e; Some (el \<noteq> E_PLAYER) })"

text \<open>The square to try: the requested one, the board's own player, its start, its middle.\<close>

definition spawnCandidate :: "int \<Rightarrow> int \<Rightarrow> Engine \<Rightarrow> (int \<times> int) option" where
  "spawnCandidate spawnX spawnY e =
     do { (spawnX, spawnY) \<leftarrow> (if spawnX = 0 \<or> spawnY = 0
            then map_option (\<lambda>c. case c of Some xy \<Rightarrow> xy | None \<Rightarrow> (spawnX, spawnY)) (claimedSquare e)
            else Some (spawnX, spawnY));
          let (spawnX, spawnY) = (if spawnX = 0 \<or> spawnY = 0
            then (StartPlayerX (bInfo (Board e)), StartPlayerY (bInfo (Board e)))
            else (spawnX, spawnY));
          Some (if spawnX = 0 \<or> spawnY = 0 then (BOARD_WIDTH div 2, BOARD_HEIGHT div 2)
                else (spawnX, spawnY)) }"

definition roomSpawn :: "Room \<Rightarrow> int \<Rightarrow> int \<Rightarrow> (int \<times> int) option" where
  "roomSpawn room spawnX spawnY =
     (let e = rEngine room; requested = (spawnX \<noteq> 0 \<and> spawnY \<noteq> 0) in
      do { own \<leftarrow> (if \<not> requested \<and> rPlayers room = {} then claimedSquare e else Some None);
           case own of Some xy \<Rightarrow> Some xy
           | None \<Rightarrow> do {
               (x, y) \<leftarrow> spawnCandidate spawnX spawnY e;
               free \<leftarrow> (if requested then do {
                         open \<leftarrow> PlacementOpen x y (-1) e;
                         if open then Some True else isRequestedSpawnUnoccupied x y e }
                       else PlacementUnoccupied x y (-1) e);
               if free then Some (x, y)
               else do {
                 (px, py, found) \<leftarrow> FindPlacement x y (-1) e;
                 Some (if found then (px, py) else (x, y)) } } })"

text \<open>\<open>SpawnPlayer\<close> with the board's start square set to the chosen one for the call.\<close>

definition spawnAt :: "int \<Rightarrow> int \<Rightarrow> Engine \<Rightarrow> (int \<times> Engine) option" where
  "spawnAt x y e =
     do { let originalX = StartPlayerX (bInfo (Board e));
          let originalY = StartPlayerY (bInfo (Board e));
          (statID, e) \<leftarrow> SpawnPlayer (modInfo (\<lambda>i. i\<lparr>StartPlayerX := u8 x, StartPlayerY := u8 y\<rparr>) e);
          let e = modInfo (\<lambda>i. i\<lparr>StartPlayerX := originalX, StartPlayerY := originalY\<rparr>) e;
          e \<leftarrow> drawPlayerArrivalSurroundings statID e;
          Some (statID, e) }"

definition spawnPlayerInRoom :: "int \<Rightarrow> int \<Rightarrow> int \<Rightarrow> RoomManager \<Rightarrow> (int \<times> RoomManager) option" where
  "spawnPlayerInRoom b spawnX spawnY rm =
     do { room \<leftarrow> roomAt b rm;
          (x, y) \<leftarrow> roomSpawn room spawnX spawnY;
          own \<leftarrow> (if rPlayers room = {} then claimablePlayerStat (rEngine room) else Some None);
          case own of
            Some statID \<Rightarrow> inRoom b (\<lambda>e. do {
              e \<leftarrow> movePlayerStat statID x y e;
              e \<leftarrow> drawPlayerArrivalSurroundings statID e;
              Some (statID, e) }) rm
          | None \<Rightarrow> inRoom b (spawnAt x y) rm }"

section \<open>Joining and leaving\<close>

definition JoinPlayerWithID :: "int \<Rightarrow> int \<Rightarrow> int \<Rightarrow> int \<Rightarrow> RoomManager \<Rightarrow> (int \<times> RoomManager) option" where
  "JoinPlayerWithID playerID boardID spawnX spawnY rm =
     do { let rm = (if playerID > rmNextPlayerID rm then rm\<lparr>rmNextPlayerID := playerID\<rparr> else rm);
          rm \<leftarrow> ensureRoom boardID rm;
          (statID, rm) \<leftarrow> spawnPlayerInRoom boardID spawnX spawnY rm;
          rm \<leftarrow> onRoom boardID (\<lambda>e.
                 drawPlayerArrivalSurroundings statID (ResetPlayerState statID e)) rm;
          (ps, rm) \<leftarrow> inRoom boardID (\<lambda>e. Some (PlayerFor statID e)) rm;
          let rm = putPlayer playerID
            \<lparr>rpId = playerID, rpBoardID = boardID, rpStatID = statID, rpState = ps, rpName = [],
             rpAccountID = [], rpColor = [], rpHandle = [], rpHasProfile = False,
             rpScrollOpen = False\<rparr> rm;
          room \<leftarrow> roomAt boardID rm;
          let rm = putRoom boardID (room\<lparr>rPlayers := insert playerID (rPlayers room)\<rparr>) rm;
          Some (playerID, recordRM (RecJoin playerID boardID spawnX spawnY) rm) }"

definition JoinPlayer :: "int \<Rightarrow> int \<Rightarrow> int \<Rightarrow> RoomManager \<Rightarrow> (int \<times> RoomManager) option" where
  "JoinPlayer boardID spawnX spawnY rm =
     (let n = i64 (rmNextPlayerID rm + 1)
      in JoinPlayerWithID n boardID spawnX spawnY (rm\<lparr>rmNextPlayerID := n\<rparr>))"

definition SetPlayerName :: "int \<Rightarrow> string \<Rightarrow> RoomManager \<Rightarrow> RoomManager" where
  "SetPlayerName playerID name rm =
     recordRM (RecName playerID name) (modRoomPlayer playerID (\<lambda>p. p\<lparr>rpName := name\<rparr>) rm)"

definition SetPlayerColor :: "int \<Rightarrow> string \<Rightarrow> RoomManager \<Rightarrow> RoomManager" where
  "SetPlayerColor playerID color rm = modRoomPlayer playerID (\<lambda>p. p\<lparr>rpColor := color\<rparr>) rm"

definition SetPlayerProfileSummary :: "int \<Rightarrow> string \<Rightarrow> bool \<Rightarrow> RoomManager \<Rightarrow> RoomManager" where
  "SetPlayerProfileSummary playerID handle hasProfile rm =
     modRoomPlayer playerID (\<lambda>p. p\<lparr>rpHandle := handle, rpHasProfile := hasProfile\<rparr>) rm"

definition SetPlayerIdentity :: "int \<Rightarrow> string \<Rightarrow> string \<Rightarrow> RoomManager \<Rightarrow> RoomManager" where
  "SetPlayerIdentity playerID accountID name rm =
     recordRM (RecName playerID name)
       (modRoomPlayer playerID (\<lambda>p. p\<lparr>rpAccountID := accountID, rpName := name\<rparr>) rm)"

definition PlayerIdentity :: "int \<Rightarrow> RoomManager \<Rightarrow> (string \<times> string) option" where
  "PlayerIdentity playerID rm = map_option (\<lambda>p. (rpAccountID p, rpName p)) (playerAt playerID rm)"

text \<open>
  After a stat is gone the players behind it move down one, each re-reading its state. The
  player's record is written before the engine is asked, as in the source.
\<close>

definition reindexRoomPlayers :: "int \<Rightarrow> int \<Rightarrow> RoomManager \<Rightarrow> RoomManager option" where
  "reindexRoomPlayers boardID removedStatID rm =
     foldM (\<lambda>pid rm. do {
         p \<leftarrow> playerAt pid rm;
         if rpBoardID p = boardID \<and> rpStatID p > removedStatID then do {
           let i = i16 (rpStatID p - 1);
           let rm = modRoomPlayer pid (\<lambda>p. p\<lparr>rpStatID := i\<rparr>) rm;
           if roomAt boardID rm = None then Some rm
           else do {
             (ps, rm) \<leftarrow> inRoom boardID (\<lambda>e. Some (PlayerFor i e)) rm;
             Some (modRoomPlayer pid (\<lambda>p. p\<lparr>rpState := ps\<rparr>) rm) } }
         else Some rm }) (playerIDs rm) rm"

definition leaveRoomSet :: "int \<Rightarrow> int \<Rightarrow> RoomManager \<Rightarrow> RoomManager option" where
  "leaveRoomSet b playerID rm =
     do { room \<leftarrow> roomAt b rm;
          Some (putRoom b (room\<lparr>rPlayers := rPlayers room - {playerID}\<rparr>) rm) }"

definition LeavePlayer :: "int \<Rightarrow> RoomManager \<Rightarrow> (bool \<times> RoomManager) option" where
  "LeavePlayer playerID rm =
     (case playerAt playerID rm of
        None \<Rightarrow> Some (False, rm)
      | Some player \<Rightarrow> do {
          let rm = (if recSuppressLeave rm then rm else recordRM (RecLeave playerID) rm);
          let b = rpBoardID player;
          if roomAt b rm = None
          then Some (True, rm\<lparr>rmPlayers := Mapping.delete playerID (rmPlayers rm)\<rparr>)
          else do {
            rm \<leftarrow> onRoom b (RemovePlayer (rpStatID player)) rm;
            rm \<leftarrow> leaveRoomSet b playerID rm;
            let rm = rm\<lparr>rmPlayers := Mapping.delete playerID (rmPlayers rm),
                        pendingPlayerEvents := Mapping.delete playerID (pendingPlayerEvents rm)\<rparr>;
            rm \<leftarrow> reindexRoomPlayers b (rpStatID player) rm;
            rm \<leftarrow> freezeRoomIfEmpty b rm;
            Some (True, rm) } })"

text \<open>The state a player id stands for: the address is in the engine of the player's room.\<close>

definition PlayerState_of :: "int \<Rightarrow> RoomManager \<Rightarrow> PlayerState option option" where
  "PlayerState_of playerID rm =
     (case playerAt playerID rm of
        None \<Rightarrow> Some None
      | Some p \<Rightarrow> do { room \<leftarrow> roomAt (rpBoardID p) rm; Some (Some (PHeap (rEngine room) (rpState p))) })"

definition ApplyPlayerState :: "int \<Rightarrow> PlayerState \<Rightarrow> RoomManager \<Rightarrow> (bool \<times> RoomManager) option" where
  "ApplyPlayerState playerID state rm =
     (case playerAt playerID rm of
        None \<Rightarrow> Some (False, rm)
      | Some p \<Rightarrow> do {
          rm \<leftarrow> onRoom (rpBoardID p) (\<lambda>e. Some (modPlayer (rpState p) (\<lambda>_. state) e)) rm;
          Some (True, recordRM (RecState playerID (Some state)) rm) })"

definition PlayerLocation :: "int \<Rightarrow> RoomManager \<Rightarrow> (int \<times> int) option" where
  "PlayerLocation playerID rm = map_option (\<lambda>p. (rpBoardID p, rpStatID p)) (playerAt playerID rm)"

definition quitPlayer :: "int \<Rightarrow> RoomManager \<Rightarrow> RoomManager option" where
  "quitPlayer playerID rm =
     do { st \<leftarrow> PlayerState_of playerID rm;
          case st of None \<Rightarrow> Some rm
          | Some state \<Rightarrow> do {
              let result = \<lparr>qrPlayerID = playerID, qrScore = pScore state,
                            qrListPos = rankScore (pScore state) rm\<rparr>;
              let rm = (if qrListPos result > 0
                        then rm\<lparr>pendingScores := Mapping.update playerID result (pendingScores rm)\<rparr>
                        else rm);
              let rm = rm\<lparr>rmQuits := rmQuits rm @ [result], recSuppressLeave := True\<rparr>;
              (_, rm) \<leftarrow> LeavePlayer playerID rm;
              Some (rm\<lparr>recSuppressLeave := False\<rparr>) } }"

section \<open>Replies\<close>

definition submitTo :: "(int \<Rightarrow> Engine \<Rightarrow> Engine) \<Rightarrow> int \<Rightarrow> RoomManager \<Rightarrow> (bool \<times> RoomManager) option" where
  "submitTo f playerID rm =
     (case playerAt playerID rm of
        None \<Rightarrow> Some (False, rm)
      | Some p \<Rightarrow>
          if roomAt (rpBoardID p) rm = None then Some (False, rm)
          else do {
            rm \<leftarrow> onRoom (rpBoardID p) (\<lambda>e. Some (f (rpStatID p) e)) rm;
            Some (True, rm) })"

definition RoomSubmitQuitReply :: "int \<Rightarrow> bool \<Rightarrow> RoomManager \<Rightarrow> (bool \<times> RoomManager) option" where
  "RoomSubmitQuitReply playerID quit rm =
     (if playerAt playerID rm = None then Some (False, rm)
      else submitTo (\<lambda>stat. SubmitQuitReply stat quit) playerID (recordRM (RecQuit playerID quit) rm))"

definition RoomSubmitDebugCommand :: "int \<Rightarrow> string \<Rightarrow> RoomManager \<Rightarrow> (bool \<times> RoomManager) option" where
  "RoomSubmitDebugCommand playerID txt rm =
     (if playerAt playerID rm = None then Some (False, rm)
      else submitTo (\<lambda>stat. SubmitDebugCommand stat txt) playerID (recordRM (RecDebug playerID txt) rm))"

definition RoomSubmitScrollReply :: "int \<Rightarrow> int \<Rightarrow> string \<Rightarrow> RoomManager \<Rightarrow> (bool \<times> RoomManager) option" where
  "RoomSubmitScrollReply playerID objectStatID label rm =
     (if playerAt playerID rm = None then Some (False, rm)
      else submitTo (\<lambda>_. SubmitScrollReply objectStatID label) playerID
             (modRoomPlayer playerID (\<lambda>p. p\<lparr>rpScrollOpen := False\<rparr>)
               (recordRM (RecScroll playerID objectStatID label) rm)))"

section \<open>Travelling\<close>

definition transferPlayer :: "int \<Rightarrow> int \<Rightarrow> int \<Rightarrow> int \<Rightarrow> RoomManager \<Rightarrow> RoomManager option" where
  "transferPlayer playerID toBoard entryX entryY rm =
     (case playerAt playerID rm of
        None \<Rightarrow> Some rm
      | Some player \<Rightarrow> do {
          let rm = modRoomPlayer playerID (\<lambda>p. p\<lparr>rpScrollOpen := False\<rparr>) rm;
          let src = rpBoardID player;
          if roomAt src rm = None then Some rm
          else do {
            rm \<leftarrow> ensureRoom toBoard rm;
            let removed = rpStatID player;
            (stateCopy, rm) \<leftarrow> inRoom src (\<lambda>e.
              let (ps, e) = PlayerFor removed e in Some (PHeap e ps, e)) rm;
            rm \<leftarrow> onRoom src (RemovePlayer removed) rm;
            rm \<leftarrow> leaveRoomSet src playerID rm;
            rm \<leftarrow> reindexRoomPlayers src removed rm;
            (newStatID, rm) \<leftarrow> spawnPlayerInRoom toBoard entryX entryY rm;
            rm \<leftarrow> onRoom toBoard (\<lambda>e.
              let (ps, e) = PlayerFor newStatID e in
              drawPlayerArrivalSurroundings newStatID (modPlayer ps (\<lambda>_. stateCopy) e)) rm;
            room \<leftarrow> roomAt toBoard rm;
            let rm = putRoom toBoard (room\<lparr>rPlayers := insert playerID (rPlayers room)\<rparr>) rm;
            (ps, rm) \<leftarrow> inRoom toBoard (\<lambda>e. Some (PlayerFor newStatID e)) rm;
            let rm = modRoomPlayer playerID
              (\<lambda>p. p\<lparr>rpBoardID := toBoard, rpStatID := newStatID, rpState := ps\<rparr>) rm;
            freezeRoomIfEmpty src rm } })"

text \<open>
  \<open>range room.Engine.Players\<close> finds the stat id whose state the player holds. No two ids share a
  state (\<open>PlayerFor\<close> is the only place that stores one), so the order of the map is immaterial.
\<close>

definition statOfState :: "int \<Rightarrow> Engine \<Rightarrow> int option" where
  "statOfState ps e = find (\<lambda>i. Players e i = Some ps) [-32768..32767]"

definition syncPlayerStatIDs :: "RoomManager \<Rightarrow> RoomManager option" where
  "syncPlayerStatIDs rm =
     foldM (\<lambda>pid rm. do {
         p \<leftarrow> playerAt pid rm;
         case roomAt (rpBoardID p) rm of
           None \<Rightarrow> Some rm
         | Some room \<Rightarrow>
             (case statOfState (rpState p) (rEngine room) of
                Some i \<Rightarrow> Some (modRoomPlayer pid (\<lambda>p. p\<lparr>rpStatID := i\<rparr>) rm)
              | None \<Rightarrow> Some rm) }) (playerIDs rm) rm"

end
