(* ===== verification/Texts.thy ===== *)
theory Texts
  imports Rooms "HOL-Library.List_Lexorder" "HOL-Library.Char_ord"
begin

text \<open>
  Text as the services around the game handle it: a string is bytes, ranging over it yields the code
  points of its UTF-8 and U+FFFD for every byte that is not part of a valid one.
\<close>

section \<open>UTF-8\<close>

definition cont :: "int \<Rightarrow> int \<Rightarrow> int \<Rightarrow> bool" where
  "cont lo hi b \<longleftrightarrow> lo \<le> b \<and> b \<le> hi"

text \<open>The first code point and the number of its bytes (\<open>utf8.DecodeRune\<close>).\<close>

definition decodeRune :: "int list \<Rightarrow> int \<times> nat" where
  "decodeRune bs =
     (case bs of
        [] \<Rightarrow> (0xFFFD, 0)
      | b0 # rest \<Rightarrow>
          let at = (\<lambda>i. if i < length rest then rest ! i else 0);
              lo = (if b0 = 0xE0 then 0xA0 else if b0 = 0xF0 then 0x90 else 0x80);
              hi = (if b0 = 0xED then 0x9F else if b0 = 0xF4 then 0x8F else 0xBF);
              second = cont lo hi (at 0); third = cont 0x80 0xBF (at 1); fourth = cont 0x80 0xBF (at 2)
          in if b0 < 0x80 then (b0, 1)
             else if cont 0xC2 0xDF b0 \<and> second then ((b0 - 0xC0) * 0x40 + (at 0 - 0x80), 2)
             else if cont 0xE0 0xEF b0 \<and> second \<and> third
               then ((b0 - 0xE0) * 0x1000 + (at 0 - 0x80) * 0x40 + (at 1 - 0x80), 3)
             else if cont 0xF0 0xF4 b0 \<and> second \<and> third \<and> fourth
               then ((b0 - 0xF0) * 0x40000 + (at 0 - 0x80) * 0x1000 + (at 1 - 0x80) * 0x40 + (at 2 - 0x80), 4)
             else (0xFFFD, 1))"

definition runeWidth :: "string \<Rightarrow> nat" where
  "runeWidth s = max 1 (snd (decodeRune (map ord s)))"

text \<open>A string cut into its code points, each with its bytes.\<close>

function segments :: "string \<Rightarrow> (int \<times> string) list" where
  "segments [] = []"
| "segments (c # s) =
     (let n = runeWidth (c # s) in (fst (decodeRune (map ord (c # s))), take n (c # s)) # segments (drop n (c # s)))"
  by pat_completeness auto
termination by (relation "measure length") (auto simp: runeWidth_def)

definition runesOf :: "string \<Rightarrow> int list" where
  "runesOf s = map fst (segments s)"

definition encodeRune :: "int \<Rightarrow> string" where
  "encodeRune r =
     map chr (if r < 0x80 then [r]
       else if r < 0x800 then [0xC0 + r div 0x40, 0x80 + r mod 0x40]
       else if r < 0x10000 then [0xE0 + r div 0x1000, 0x80 + r div 0x40 mod 0x40, 0x80 + r mod 0x40]
       else [0xF0 + r div 0x40000, 0x80 + r div 0x1000 mod 0x40, 0x80 + r div 0x40 mod 0x40, 0x80 + r mod 0x40])"

section \<open>The string functions\<close>

text \<open>\<open>unicode.IsSpace\<close>.\<close>

definition isSpace :: "int \<Rightarrow> bool" where
  "isSpace r \<longleftrightarrow> 9 \<le> r \<and> r \<le> 13 \<or> r = 0x20 \<or> r = 0x85 \<or> r = 0xA0 \<or> r = 0x1680 \<or> 0x2000 \<le> r \<and> r \<le> 0x200A \<or>
     r = 0x2028 \<or> r = 0x2029 \<or> r = 0x202F \<or> r = 0x205F \<or> r = 0x3000"

definition trimBy :: "('a \<Rightarrow> bool) \<Rightarrow> 'a list \<Rightarrow> 'a list" where
  "trimBy P s = rev (dropWhile P (rev (dropWhile P s)))"

definition TrimSpace :: "string \<Rightarrow> string" where
  "TrimSpace s = concat (map snd (trimBy (\<lambda>g. isSpace (fst g)) (segments s)))"

text \<open>\<open>strings.ToLower\<close>; \<open>lower\<close> is Unicode's table beyond ASCII.\<close>

definition lowerRune :: "(int \<Rightarrow> int) \<Rightarrow> int \<Rightarrow> int" where
  "lowerRune lower r = (if 65 \<le> r \<and> r \<le> 90 then r + 32 else if r < 128 then r else lower r)"

definition ToLower :: "(int \<Rightarrow> int) \<Rightarrow> string \<Rightarrow> string" where
  "ToLower lower s = concat (map (\<lambda>r. encodeRune (lowerRune lower r)) (runesOf s))"

text \<open>\<open>foldWordmark\<close> of \<open>engine/eval.go\<close>: typographic punctuation becomes ASCII, the rest of what is not printable ASCII goes.\<close>

definition foldRune :: "int \<Rightarrow> string" where
  "foldRune r =
     (if r \<in> {0x2014, 0x2013, 0x2015, 0x2212} then [chr 45]
      else if r \<in> {0x2018, 0x2019, 0x201A} then [chr 39]
      else if r \<in> {0x201C, 0x201D, 0x201E} then [chr 34]
      else if r = 0x2026 then [chr 46, chr 46, chr 46]
      else if r = 0xD7 then [chr 120]
      else if 0x20 \<le> r \<and> r < 0x7F then [chr r]
      else [])"

definition foldWordmark :: "string \<Rightarrow> string" where
  "foldWordmark s = concat (map foldRune (runesOf s))"

section \<open>ASCII\<close>

definition ascii :: "string \<Rightarrow> bool" where
  "ascii s \<longleftrightarrow> (\<forall>c\<in>set s. ord c < 128)"

lemma segments_ascii: "ascii s \<Longrightarrow> segments s = map (\<lambda>c. (ord c, [c])) s"
  by (induction s) (simp_all add: ascii_def runeWidth_def decodeRune_def)

lemma runesOf_ascii: "ascii s \<Longrightarrow> runesOf s = map ord s"
  by (simp add: runesOf_def segments_ascii comp_def)

lemma trimBy_map: "trimBy P (map f s) = map f (trimBy (P \<circ> f) s)"
  by (simp add: trimBy_def dropWhile_map rev_map)

lemma TrimSpace_ascii: "ascii s \<Longrightarrow> TrimSpace s = trimBy (\<lambda>c. isSpace (ord c)) s"
  by (simp add: TrimSpace_def segments_ascii trimBy_map comp_def)

lemma set_trimBy: "set (trimBy P s) \<subseteq> set s"
  unfolding trimBy_def by (metis set_dropWhileD set_rev subsetI)

lemma ascii_trimBy [intro]: "ascii s \<Longrightarrow> ascii (trimBy P s)"
  using set_trimBy by (fastforce simp: ascii_def)

lemma length_trimBy: "length (trimBy P s) \<le> length s"
  unfolding trimBy_def by (metis length_dropWhile_le length_rev order_trans)

lemma trimBy_last: "trimBy P s \<noteq> [] \<Longrightarrow> \<not> P (last (trimBy P s))"
  unfolding trimBy_def by (metis hd_dropWhile last_rev rev_is_Nil_conv)

lemma trimBy_hd: "trimBy P s \<noteq> [] \<Longrightarrow> \<not> P (hd (trimBy P s))"
proof -
  assume ne: "trimBy P s \<noteq> []"
  define u where "u = dropWhile P s"
  obtain pre where "rev u = pre @ dropWhile P (rev u)" by (metis takeWhile_dropWhile_id)
  then have u: "u = trimBy P s @ rev pre" by (metis u_def trimBy_def rev_append rev_rev_ident)
  then have "u \<noteq> []" "hd (trimBy P s) = hd u" using ne by (cases "trimBy P s"; simp)+
  then show ?thesis using hd_dropWhile u_def by metis
qed

lemma trimBy_id: "s = [] \<or> \<not> P (hd s) \<and> \<not> P (last s) \<Longrightarrow> trimBy P s = s"
  using dropWhile_eq_self_iff [of P s] dropWhile_eq_self_iff [of P "rev s"]
  by (cases "s = []") (simp_all add: trimBy_def hd_rev)

lemma foldRune_printable: "c \<in> set (foldRune r) \<Longrightarrow> 0x20 \<le> ord c \<and> ord c < 0x7F"
  by (auto simp: foldRune_def split: if_splits)

lemma foldWordmark_printable: "c \<in> set (foldWordmark s) \<Longrightarrow> 0x20 \<le> ord c \<and> ord c < 0x7F"
  by (auto simp: foldWordmark_def dest: foldRune_printable)

lemma foldRune_ascii: "0x20 \<le> ord c \<Longrightarrow> ord c < 0x7F \<Longrightarrow> foldRune (ord c) = [c]"
  by (auto simp: foldRune_def)

lemma foldWordmark_ascii: "\<forall>c\<in>set s. 0x20 \<le> ord c \<and> ord c < 0x7F \<Longrightarrow> foldWordmark s = s"
proof -
  assume p: "\<forall>c\<in>set s. 0x20 \<le> ord c \<and> ord c < 0x7F"
  then have "ascii s" by (auto simp: ascii_def)
  moreover have "concat (map (\<lambda>c. foldRune (ord c)) s) = s" using p by (induction s) (simp_all add: foldRune_ascii)
  ultimately show ?thesis by (simp add: foldWordmark_def runesOf_ascii comp_def)
qed

end
