(* ===== verification/Zwd.thy ===== *)
theory Zwd
  imports Texts Elements_Table
begin

text \<open>
  The ZWD text format of worlds, its parser (\<open>engine/zwd.go\<close>): tokens, names, tiles, the fields of a board,
  its grid, legend and stats. An error keeps its line, column and repair code; the wording of its message
  is left out. The cursor \<open>p.pos\<close> is a number of lines read, and the parser's lines never change.
\<close>

section \<open>Strings\<close>

definition hasPrefix :: "string \<Rightarrow> string \<Rightarrow> bool" where
  "hasPrefix p s \<longleftrightarrow> take (length p) s = p"

definition trimPrefix :: "string \<Rightarrow> string \<Rightarrow> string" where
  "trimPrefix p s = (if hasPrefix p s then drop (length p) s else s)"

text \<open>\<open>strings.Split\<close> on one byte, \<open>strings.Join\<close> and \<open>strings.Fields\<close>.\<close>

fun splitOn :: "'a \<Rightarrow> 'a list \<Rightarrow> 'a list list" where
  "splitOn c [] = [[]]"
| "splitOn c (d # s) =
     (if d = c then [] # splitOn c s
      else (case splitOn c s of [] \<Rightarrow> [[d]] | w # ws \<Rightarrow> (d # w) # ws))"

fun joinWith :: "string \<Rightarrow> string list \<Rightarrow> string" where
  "joinWith sep [] = []"
| "joinWith sep [w] = w"
| "joinWith sep (w # ws) = w @ sep @ joinWith sep ws"

fun wordsOf :: "(int \<times> string) list \<Rightarrow> string \<Rightarrow> string list" where
  "wordsOf [] w = (if w = [] then [] else [w])"
| "wordsOf ((r, bs) # gs) w =
     (if isSpace r then (if w = [] then wordsOf gs [] else w # wordsOf gs []) else wordsOf gs (w @ bs))"

definition Fields :: "string \<Rightarrow> string list" where
  "Fields s = wordsOf (segments s) []"

text \<open>\<open>strconv.Atoi\<close> and \<open>strconv.ParseUint\<close> with a base given.\<close>

definition digitOf :: "char \<Rightarrow> int" where
  "digitOf c =
     (if 48 \<le> ord c \<and> ord c \<le> 57 then ord c - 48
      else if 97 \<le> ord c \<and> ord c \<le> 122 then ord c - 87
      else if 65 \<le> ord c \<and> ord c \<le> 90 then ord c - 55 else 36)"

fun digitsValue :: "int \<Rightarrow> string \<Rightarrow> int \<Rightarrow> int option" where
  "digitsValue base [] n = Some n"
| "digitsValue base (c # s) n =
     (if digitOf c < base then digitsValue base s (n * base + digitOf c) else None)"

definition ParseUint :: "string \<Rightarrow> int \<Rightarrow> int \<Rightarrow> int option" where
  "ParseUint s base limit =
     (if s = [] then None
      else case digitsValue base s 0 of None \<Rightarrow> None | Some n \<Rightarrow> if n < limit then Some n else None)"

definition Atoi :: "string \<Rightarrow> int option" where
  "Atoi s =
     (let neg = (s \<noteq> [] \<and> hd s = CHR ''-'');
          body = (if s \<noteq> [] \<and> hd s \<in> {CHR ''-'', CHR ''+''} then tl s else s)
      in case ParseUint body 10 (if neg then 9223372036854775809 else 9223372036854775808) of
           None \<Rightarrow> None | Some n \<Rightarrow> Some (if neg then - n else n))"

section \<open>Errors\<close>

datatype zwdErrCode =
  ErrOther | ErrMissingEnd | ErrDuplicateLegendKey | ErrUnknownStatField | ErrRowTooWide | ErrOffBoardCoord
| ErrColorRange | ErrDoorNibble | ErrUndefinedGridChar | ErrOrphanStatGlyph

record zwdError =
  zeLine :: int
  zeCol :: int
  zeCode :: zwdErrCode

definition zerrc :: "zwdErrCode \<Rightarrow> int \<Rightarrow> int \<Rightarrow> zwdError" where
  "zerrc code line col = \<lparr>zeLine = line, zeCol = col, zeCode = code\<rparr>"

definition zerr :: "int \<Rightarrow> int \<Rightarrow> zwdError" where
  "zerr line col = zerrc ErrOther line col"

text \<open>An error that a parser without a line raised keeps its code; \<open>ErrOther\<close> is that of a plain error.\<close>

definition retagZerr :: "zwdErrCode \<Rightarrow> int \<Rightarrow> int \<Rightarrow> zwdError" where
  "retagZerr code line col = zerrc code line col"

text \<open>\<open>if err != nil { return err }\<close>.\<close>

definition tryE :: "'e + 'a \<Rightarrow> ('a \<Rightarrow> 'e + 'b) \<Rightarrow> 'e + 'b" where
  "tryE r f = (case r of Inl err \<Rightarrow> Inl err | Inr x \<Rightarrow> f x)"

lemma tryE_simps [simp]: "tryE (Inl err) f = Inl err" "tryE (Inr x) f = f x"
  by (simp_all add: tryE_def)

lemma tryE_cong [fundef_cong]:
  "r = s \<Longrightarrow> (\<And>x. s = Inr x \<Longrightarrow> f x = g x) \<Longrightarrow> tryE r f = tryE s g"
  by (auto simp: tryE_def split: sum.splits)

lemma tryE_Inr: "tryE r f = Inr y \<longleftrightarrow> (\<exists>x. r = Inr x \<and> f x = Inr y)"
  by (auto simp: tryE_def split: sum.splits)

definition orErr :: "'a option \<Rightarrow> 'e \<Rightarrow> 'e + 'a" where
  "orErr r err = (case r of None \<Rightarrow> Inl err | Some x \<Rightarrow> Inr x)"

lemma orErr_Inr [simp]: "orErr r err = Inr x \<longleftrightarrow> r = Some x"
  by (auto simp: orErr_def split: option.splits)

section \<open>The document\<close>

record zwdLegendEntry =
  leElement :: int
  leColor :: int
  leUnder :: "TTile option"
  leToBoard :: string

record zwdGridLine =
  glLine :: int
  glText :: string

record zwdStat =
  zsLine :: int
  zsX :: int
  zsY :: int
  zsElement :: int
  zsCycle :: int
  zsP1 :: int
  zsP2 :: int
  zsP3 :: int
  zsP3Board :: string
  zsStepX :: int
  zsStepY :: int
  zsUnder :: TTile
  zsFollower :: int
  zsLeader :: int
  zsDataPos :: int
  zsData :: string
  zsBind :: int
  zsHasBind :: bool

record zwdBoard =
  zbName :: string
  zbLine :: int
  zbStartX :: int
  zbStartY :: int
  zbHasRespawn :: bool
  zbRespawnX :: int
  zbRespawnY :: int
  zbMaxShots :: int
  zbDark :: bool
  zbReenter :: bool
  zbTimeLimit :: int
  zbMessage :: string
  zbExits :: "int \<Rightarrow> string"
  zbGrid :: "zwdGridLine list"
  zbLegend :: "char \<Rightarrow> zwdLegendEntry option"
  zbStats :: "zwdStat list"

record zwdDocument =
  zdName :: string
  zdBoards :: "zwdBoard list"

section \<open>Tokens\<close>

definition quoteChar :: char where
  "quoteChar = chr 34"

definition backslash :: char where
  "backslash = chr 92"

definition blank :: "char \<Rightarrow> bool" where
  "blank c \<longleftrightarrow> c = CHR '' '' \<or> c = chr 9"

text \<open>
  The inside of a quoted token from column \<open>i\<close> (counted from 0): its text, what follows the closing quote, and
  the index after it; on the left the column of an escape that is not known, or -1 where the line ends.
\<close>

fun readQuoted :: "int \<Rightarrow> string \<Rightarrow> string \<Rightarrow> int + string \<times> string \<times> int" where
  "readQuoted i [] acc = Inl (-1)"
| "readQuoted i [c] acc = (if c = quoteChar then Inr (acc, [], i + 1) else Inl (-1))"
| "readQuoted i (c # d # s) acc =
     (if c = quoteChar then Inr (acc, d # s, i + 1)
      else if c = backslash then
        (if d = quoteChar \<or> d = backslash then readQuoted (i + 2) s (acc @ [d])
         else if d = CHR ''n'' then readQuoted (i + 2) s (acc @ [chr 10])
         else Inl (i + 2))
      else readQuoted (i + 1) (d # s) (acc @ [c]))"

lemma readQuoted_shorter: "readQuoted i s acc = Inr (b, r, j) \<Longrightarrow> length r < length s"
  by (induction i s acc rule: readQuoted.induct) (auto split: if_splits)

function tokensFrom :: "int \<Rightarrow> int \<Rightarrow> string \<Rightarrow> string list \<Rightarrow> zwdError + string list" where
  "tokensFrom line i s toks =
     (let i = i + int (length (takeWhile blank s)); s = dropWhile blank s in
      case s of
        [] \<Rightarrow> Inr toks
      | c # r \<Rightarrow>
          if c = quoteChar then
            (case readQuoted (i + 1) r [] of
               Inl col \<Rightarrow> Inl (zerr line (if col < 0 then i + 1 else col))
             | Inr (b, r', j) \<Rightarrow> tokensFrom line j r' (toks @ [[quoteChar] @ b @ [quoteChar]]))
          else
            let w = takeWhile (\<lambda>c. \<not> blank c) s
            in tokensFrom line (i + int (length w)) (dropWhile (\<lambda>c. \<not> blank c) s) (toks @ [w]))"
  by pat_completeness auto
termination
proof (relation "measure (\<lambda>(line, i, s, toks). length s)", goal_cases)
  case (2 line i s toks x xa c r x2 b x y)
  then show ?case
    using readQuoted_shorter length_dropWhile_le [of blank s] by (fastforce dest!: readQuoted_shorter)
next
  case (3 line i s toks x xa c r w)
  have "dropWhile blank s = c # r" using 3(2,3) by simp
  then have "\<not> blank c" using dropWhile_eq_Cons_conv [of blank s c r] by simp
  then have "length (dropWhile (\<lambda>c. \<not> blank c) (c # r)) \<le> length r"
    using length_dropWhile_le [of "\<lambda>c. \<not> blank c" r] by simp
  moreover have "length (c # r) \<le> length s"
    using length_dropWhile_le [of blank s] \<open>dropWhile blank s = c # r\<close> by simp
  moreover have "xa = c # r" using 3 by simp
  ultimately show ?case by simp
qed simp

declare tokensFrom.simps [simp del]

definition tokenizeZWD :: "string \<Rightarrow> int \<Rightarrow> zwdError + string list" where
  "tokenizeZWD s line = tokensFrom line 0 s []"

definition isQuotedToken :: "string \<Rightarrow> bool" where
  "isQuotedToken s \<longleftrightarrow> 2 \<le> length s \<and> hd s = quoteChar \<and> last s = quoteChar"

definition unquoteToken :: "string \<Rightarrow> string" where
  "unquoteToken s = (if isQuotedToken s then butlast (tl s) else s)"

section \<open>Names\<close>

definition isZWDKeyword :: "string \<Rightarrow> bool" where
  "isZWDKeyword s \<longleftrightarrow>
     s \<in> set [''cycle'', ''p1'', ''p2'', ''p3'', ''step'', ''under'', ''follower'', ''leader'', ''data-pos'', ''bind'',
       ''color'', ''to'']"

definition normalizeZWDName :: "string \<Rightarrow> string" where
  "normalizeZWDName s = map UpCase (filter (\<lambda>c. c \<noteq> CHR '' '' \<and> c \<noteq> CHR ''-'' \<and> c \<noteq> CHR ''_'') s)"

definition textZWDNames :: "(string \<times> int) list" where
  "textZWDNames =
     [(''TEXTBLUE'', 47), (''TEXTGREEN'', 48), (''TEXTCYAN'', 49), (''TEXTRED'', 50), (''TEXTPURPLE'', 51),
      (''TEXTYELLOW'', 52), (''TEXTWHITE'', 53)]"

definition elementName :: "int \<Rightarrow> string" where
  "elementName i = (case elemDef i of None \<Rightarrow> [] | Some d \<Rightarrow> dName d)"

definition elementByZWDName :: "string \<Rightarrow> int option" where
  "elementByZWDName name =
     (let byNumber = (if hasPrefix ''element '' name
            then (case Atoi (TrimSpace (trimPrefix ''element '' name)) of
                    None \<Rightarrow> None
                  | Some n \<Rightarrow>
                      if 0 \<le> n \<and> n \<le> MAX_ELEMENT \<and> (elementName n \<noteq> [] \<or> E_TEXT_MIN \<le> n \<and> n \<le> E_TEXT_WHITE)
                      then Some n else None)
            else None);
          normalized = normalizeZWDName name
      in case byNumber of
           Some n \<Rightarrow> Some n
         | None \<Rightarrow>
             (case map_of textZWDNames normalized of
                Some n \<Rightarrow> Some n
              | None \<Rightarrow> find (\<lambda>i. elementName i \<noteq> [] \<and> normalizeZWDName (elementName i) = normalized) [0..MAX_ELEMENT]))"

text \<open>The shortest run of tokens that names an element; the index behind it.\<close>

fun elementFrom :: "string list \<Rightarrow> string list \<Rightarrow> nat \<Rightarrow> (int \<times> nat) option" where
  "elementFrom parts [] i = None"
| "elementFrom parts (t # toks) i =
     (if isZWDKeyword t then None
      else case elementByZWDName (joinWith '' '' (parts @ [t])) of
             Some el \<Rightarrow> Some (el, i + 1)
           | None \<Rightarrow> elementFrom (parts @ [t]) toks (i + 1))"

definition parseElementName :: "string list \<Rightarrow> nat \<Rightarrow> (int \<times> nat) option" where
  "parseElementName toks start = elementFrom [] (drop start toks) start"

section \<open>Values\<close>

definition colorNames :: "(string \<times> int) list" where
  "colorNames =
     [(''black'', 0), (''blue'', 1), (''green'', 2), (''cyan'', 3), (''red'', 4), (''purple'', 5), (''brown'', 6),
      (''white'', 7), (''gray'', 8), (''bright-blue'', 9), (''bright-green'', 10), (''bright-cyan'', 11),
      (''bright-red'', 12), (''bright-purple'', 13), (''yellow'', 14), (''bright-white'', 15)]"

text \<open>\<open>TrimPrefix(tok, "0x")\<close> leaves \<open>0X\<close> in place, which is then no number.\<close>

definition parseColor :: "string \<Rightarrow> int option" where
  "parseColor tok =
     (case map_of colorNames tok of
        Some n \<Rightarrow> Some n
      | None \<Rightarrow>
          (let hex = ParseUint (trimPrefix ''0x'' tok) 16 256 in
           if hex \<noteq> None \<and> (hasPrefix ''0x'' tok \<or> hasPrefix ''0X'' tok) then hex
           else ParseUint tok 10 256))"

definition doorColorName :: "string \<Rightarrow> int option" where
  "doorColorName tok =
     map_of [(''blue'', 1), (''green'', 2), (''cyan'', 3), (''red'', 4), (''purple'', 5), (''yellow'', 6), (''white'', 7)] tok"

definition parseLegendColor :: "int \<Rightarrow> string \<Rightarrow> zwdErrCode + int" where
  "parseLegendColor element tok =
     (case (if element = E_DOOR then doorColorName tok else None) of
        Some key \<Rightarrow> Inr (u8 (key * 16) + 15)
      | None \<Rightarrow>
          tryE (orErr (parseColor tok) ErrColorRange) (\<lambda>color.
            if element = E_DOOR \<and> color div 16 mod 8 = 0 then Inl ErrDoorNibble else Inr color))"

definition parseByteToken :: "string \<Rightarrow> int option" where
  "parseByteToken tok =
     (if hasPrefix ''cp437:0x'' tok \<or> hasPrefix ''cp437:0X'' tok then ParseUint (drop 8 tok) 16 256
      else if length tok = 1 then Some (ord (hd tok)) else None)"

definition parseByteValue :: "string \<Rightarrow> int option" where
  "parseByteValue tok =
     (if parseByteToken tok \<noteq> None \<and> hasPrefix ''cp437:'' tok then parseByteToken tok
      else case Atoi tok of None \<Rightarrow> None | Some n \<Rightarrow> if 0 \<le> n \<and> n \<le> 255 then Some n else None)"

definition parsePair :: "(int \<Rightarrow> int \<Rightarrow> bool) \<Rightarrow> string \<Rightarrow> (int \<times> int) option" where
  "parsePair good tok =
     (case splitOn (CHR '','') tok of
        [a, b] \<Rightarrow> (case (Atoi a, Atoi b) of
            (Some x, Some y) \<Rightarrow> if good x y then Some (x, y) else None
          | _ \<Rightarrow> None)
      | _ \<Rightarrow> None)"

definition parseCoordToken :: "string \<Rightarrow> (int \<times> int) option" where
  "parseCoordToken tok =
     parsePair (\<lambda>x y. 1 \<le> x \<and> x \<le> BOARD_WIDTH \<and> 1 \<le> y \<and> y \<le> BOARD_HEIGHT) tok"

definition parseStep :: "string \<Rightarrow> (int \<times> int) option" where
  "parseStep tok =
     (if tok = ''idle'' then Some (0, 0)
      else if tok = ''north'' then Some (0, -1)
      else if tok = ''south'' then Some (0, 1)
      else if tok = ''west'' then Some (-1, 0)
      else if tok = ''east'' then Some (1, 0)
      else parsePair (\<lambda>x y. -32768 \<le> x \<and> x \<le> 32767 \<and> -32768 \<le> y \<and> y \<le> 32767) tok)"

definition parseBoolField :: "string list \<Rightarrow> int \<Rightarrow> zwdError + bool" where
  "parseBoolField toks line =
     (if length toks \<noteq> 2 then Inl (zerr line 1)
      else if toks ! 1 = ''true'' then Inr True
      else if toks ! 1 = ''false'' then Inr False
      else Inl (zerr line 1))"

definition parseOneInt :: "string list \<Rightarrow> nat \<Rightarrow> int \<Rightarrow> int \<Rightarrow> int \<Rightarrow> zwdError + int" where
  "parseOneInt toks idx line lo hi =
     (if idx \<ge> length toks then Inl (zerr line 1)
      else case Atoi (toks ! idx) of
             None \<Rightarrow> Inl (zerr line 1)
           | Some n \<Rightarrow> if n < lo \<or> n > hi then Inl (zerr line 1) else Inr n)"

definition parseIntField :: "string list \<Rightarrow> int \<Rightarrow> int \<Rightarrow> int \<Rightarrow> zwdError + int" where
  "parseIntField toks line lo hi =
     (if length toks \<noteq> 2 then Inl (zerr line 1) else parseOneInt toks 1 line lo hi)"

definition parseTile :: "string list \<Rightarrow> nat \<Rightarrow> int \<Rightarrow> zwdError + TTile \<times> nat" where
  "parseTile toks start line =
     tryE (orErr (parseElementName toks start) (zerr line 1)) (\<lambda>(elem, next).
       if next \<ge> length toks \<or> toks ! next \<noteq> ''color'' \<or> next + 1 \<ge> length toks then Inl (zerr line 1)
       else tryE (orErr (parseColor (toks ! (next + 1))) (zerr line 1)) (\<lambda>color.
         Inr (\<lparr>Element = elem, Color = color\<rparr>, next + 2)))"

definition exitIndex :: "string \<Rightarrow> int option" where
  "exitIndex dir = map_of [(''north'', 0), (''south'', 1), (''west'', 2), (''east'', 3)] dir"

fun exitsFrom :: "string list \<Rightarrow> int \<Rightarrow> (int \<Rightarrow> string) \<Rightarrow> zwdError + (int \<Rightarrow> string)" where
  "exitsFrom (dir # name # toks) line exits =
     (case exitIndex dir of
        None \<Rightarrow> Inl (zerr line 1)
      | Some idx \<Rightarrow>
          if name = ''none'' then exitsFrom toks line (exits(idx := []))
          else if isQuotedToken name then exitsFrom toks line (exits(idx := unquoteToken name))
          else Inl (zerr line 1))"
| "exitsFrom _ line exits = Inr exits"

definition parseExits :: "string list \<Rightarrow> int \<Rightarrow> zwdBoard \<Rightarrow> zwdError + zwdBoard" where
  "parseExits toks line board =
     (if length toks \<noteq> 9 then Inl (zerr line 1)
      else tryE (exitsFrom (tl toks) line (zbExits board)) (\<lambda>exits. Inr (board\<lparr>zbExits := exits\<rparr>)))"

section \<open>Legend and stat lines\<close>

lemma elementFrom_next: "elementFrom parts toks i = Some (el, n) \<Longrightarrow> i < n"
  by (induction parts toks i rule: elementFrom.induct) (auto split: if_splits option.splits)

lemma parseElementName_next: "parseElementName toks i = Some (el, n) \<Longrightarrow> i < n"
  by (simp add: parseElementName_def elementFrom_next)

lemma parseTile_next: "parseTile toks i line = Inr (t, n) \<Longrightarrow> i < n"
  by (auto simp: parseTile_def tryE_Inr split: if_splits dest!: parseElementName_next)

function legendFields :: "string list \<Rightarrow> nat \<Rightarrow> int \<Rightarrow> zwdLegendEntry \<Rightarrow> zwdError + zwdLegendEntry" where
  "legendFields toks i line entry =
     (if i \<ge> length toks then Inr entry
      else if toks ! i = ''color'' then
        (if i + 1 \<ge> length toks then Inl (zerr line 1)
         else case parseLegendColor (leElement entry) (toks ! (i + 1)) of
                Inl code \<Rightarrow> Inl (retagZerr code line 1)
              | Inr color \<Rightarrow> legendFields toks (i + 2) line (entry\<lparr>leColor := color\<rparr>))
      else if toks ! i = ''under'' then
        tryE (parseTile toks (i + 1) line) (\<lambda>(tile, next).
          legendFields toks next line (entry\<lparr>leUnder := Some tile\<rparr>))
      else if toks ! i = ''to'' then
        (if i + 1 \<ge> length toks \<or> \<not> isQuotedToken (toks ! (i + 1)) then Inl (zerr line 1)
         else legendFields toks (i + 2) line (entry\<lparr>leToBoard := unquoteToken (toks ! (i + 1))\<rparr>))
      else Inl (zerr line 1))"
  by pat_completeness auto
termination
  by (relation "measure (\<lambda>(toks, i, line, entry). length toks - i)") (auto dest: parseTile_next)

declare legendFields.simps [simp del]

definition parseLegendEntry :: "string list \<Rightarrow> int \<Rightarrow> zwdError + char \<times> zwdLegendEntry" where
  "parseLegendEntry toks line =
     (if length toks < 5 \<or> toks ! 1 \<noteq> ''='' then Inl (zerr line 1)
      else tryE (orErr (parseByteToken (toks ! 0)) (zerr line 1)) (\<lambda>key.
        tryE (orErr (parseElementName toks 2) (zerr line 5)) (\<lambda>(elem, next).
          tryE (legendFields toks next line \<lparr>leElement = elem, leColor = 0, leUnder = None, leToBoard = []\<rparr>)
            (\<lambda>entry. Inr (chr key, entry)))))"

definition newStat :: "int \<Rightarrow> zwdStat" where
  "newStat line =
     \<lparr>zsLine = line, zsX = 0, zsY = 0, zsElement = 0, zsCycle = -1, zsP1 = 0, zsP2 = 0, zsP3 = 0, zsP3Board = [],
      zsStepX = 0, zsStepY = 0, zsUnder = \<lparr>Element = E_EMPTY, Color = 0\<rparr>, zsFollower = -1, zsLeader = -1,
      zsDataPos = 0, zsData = [], zsBind = -1, zsHasBind = False\<rparr>"

definition statDefaults :: "int \<Rightarrow> int \<Rightarrow> int \<Rightarrow> int \<Rightarrow> zwdStat" where
  "statDefaults line x y elem =
     (newStat line)\<lparr>zsX := x, zsY := y, zsElement := elem,
       zsP1 := (if elem = E_OBJECT then 1 else if elem = E_BEAR then 8 else 0)\<rparr>"

function statFields :: "string list \<Rightarrow> nat \<Rightarrow> int \<Rightarrow> zwdStat \<Rightarrow> zwdError + zwdStat" where
  "statFields toks i line stat =
     (if i \<ge> length toks then Inr stat
      else let t = toks ! i in
      if t = ''cycle'' then
        tryE (parseOneInt toks (i + 1) line 0 32767) (\<lambda>n. statFields toks (i + 2) line (stat\<lparr>zsCycle := n\<rparr>))
      else if t = ''p1'' \<or> t = ''p2'' \<or> t = ''p3'' then
        (if i + 1 \<ge> length toks then Inl (zerr line 1)
         else if t = ''p3'' \<and> i + 2 < length toks \<and> toks ! (i + 1) = ''board'' \<and> isQuotedToken (toks ! (i + 2))
         then statFields toks (i + 3) line (stat\<lparr>zsP3Board := unquoteToken (toks ! (i + 2))\<rparr>)
         else tryE (orErr (parseByteValue (toks ! (i + 1))) (zerr line 1)) (\<lambda>n.
           statFields toks (i + 2) line
             (if t = ''p1'' then stat\<lparr>zsP1 := n\<rparr> else if t = ''p2'' then stat\<lparr>zsP2 := n\<rparr> else stat\<lparr>zsP3 := n\<rparr>)))
      else if t = ''step'' then
        (if i + 1 \<ge> length toks then Inl (zerr line 1)
         else tryE (orErr (parseStep (toks ! (i + 1))) (zerr line 1)) (\<lambda>(dx, dy).
           statFields toks (i + 2) line (stat\<lparr>zsStepX := dx, zsStepY := dy\<rparr>)))
      else if t = ''under'' then
        tryE (parseTile toks (i + 1) line) (\<lambda>(tile, next).
          statFields toks next line (stat\<lparr>zsUnder := tile\<rparr>))
      else if t = ''follower'' then
        tryE (parseOneInt toks (i + 1) line (-1) MAX_STAT) (\<lambda>n. statFields toks (i + 2) line (stat\<lparr>zsFollower := n\<rparr>))
      else if t = ''leader'' then
        tryE (parseOneInt toks (i + 1) line (-1) MAX_STAT) (\<lambda>n. statFields toks (i + 2) line (stat\<lparr>zsLeader := n\<rparr>))
      else if t = ''data-pos'' then
        tryE (parseOneInt toks (i + 1) line (-32768) 32767) (\<lambda>n. statFields toks (i + 2) line (stat\<lparr>zsDataPos := n\<rparr>))
      else if t = ''bind'' then
        tryE (parseOneInt toks (i + 1) line 1 MAX_STAT) (\<lambda>n.
          statFields toks (i + 2) line (stat\<lparr>zsBind := n, zsHasBind := True\<rparr>))
      else Inl (zerrc ErrUnknownStatField line 1))"
  by pat_completeness auto
termination
  by (relation "measure (\<lambda>(toks, i, line, stat). length toks - i)") (auto dest: parseTile_next)

declare statFields.simps [simp del]

definition elementCycle :: "int \<Rightarrow> int" where
  "elementCycle i = (case elemDef i of None \<Rightarrow> 0 | Some d \<Rightarrow> dCycle d)"

definition parseStatLine :: "string list \<Rightarrow> int \<Rightarrow> zwdError + zwdStat" where
  "parseStatLine toks line =
     (if length toks < 5 \<or> toks ! 1 \<noteq> ''at'' then Inl (zerr line 1)
      else tryE (orErr (parseCoordToken (toks ! 2)) (zerrc ErrOffBoardCoord line 9)) (\<lambda>(x, y).
        if toks ! 3 \<noteq> ''element'' then Inl (zerr line 1)
        else tryE (orErr (parseElementName toks 4) (zerr line 1)) (\<lambda>(elem, next).
          tryE (statFields toks next line (statDefaults line x y elem)) (\<lambda>stat.
            if zsCycle stat < 0 then
              (if elementCycle elem < 0 then Inl (zerr line 1) else Inr (stat\<lparr>zsCycle := elementCycle elem\<rparr>))
            else Inr stat))))"

end
