(* ===== verification/ZwdParse.thy ===== *)
theory ZwdParse
  imports Zwd
begin

text \<open>
  The parser of ZWD documents over the lines of the source (\<open>zwdParser\<close> in \<open>engine/zwd.go\<close>). Every
  section starts at a number of lines read and returns how many are read after it.
\<close>

section \<open>Lines\<close>

fun replaceCRLF :: "string \<Rightarrow> string" where
  "replaceCRLF (c # d # s) =
     (if c = chr 13 \<and> d = chr 10 then chr 10 # replaceCRLF s else c # replaceCRLF (d # s))"
| "replaceCRLF s = s"

definition newZWDParser :: "string \<Rightarrow> string list" where
  "newZWDParser src = splitOn (chr 10) (map (\<lambda>c. if c = chr 13 then chr 10 else c) (replaceCRLF src))"

text \<open>The next line that is neither empty nor a comment: its number, which is also the lines read, and its text.\<close>

function nextContentLine :: "string list \<Rightarrow> nat \<Rightarrow> (nat \<times> string) option" where
  "nextContentLine ls pos =
     (if pos \<ge> length ls then None
      else let s = TrimSpace (ls ! pos) in
        if s = [] \<or> hasPrefix ''#'' s then nextContentLine ls (pos + 1) else Some (pos + 1, s))"
  by pat_completeness auto
termination by (relation "measure (\<lambda>(ls, pos). length ls - pos)") auto

declare nextContentLine.simps [simp del]

lemma nextContentLine_next: "nextContentLine ls pos = Some (line, s) \<Longrightarrow> pos < line \<and> line \<le> length ls"
proof (induction ls pos rule: nextContentLine.induct)
  case (1 ls pos)
  from "1.prems" "1.IH" [OF _ refl] show ?case
    by (subst (asm) nextContentLine.simps) (auto simp: Let_def split: if_splits)
qed

definition expectDirective :: "string list \<Rightarrow> nat \<Rightarrow> string \<Rightarrow> string \<Rightarrow> zwdError + nat" where
  "expectDirective ls pos name val =
     (case nextContentLine ls pos of
        None \<Rightarrow> Inl (zerr 1 1)
      | Some (line, s) \<Rightarrow>
          tryE (tokenizeZWD s (int line)) (\<lambda>toks.
            if length toks \<noteq> 2 \<or> toks ! 0 \<noteq> name \<or> toks ! 1 \<noteq> val then Inl (zerr (int line) 1) else Inr line))"

definition expectQuotedDirective :: "string list \<Rightarrow> nat \<Rightarrow> string \<Rightarrow> zwdError + string \<times> nat" where
  "expectQuotedDirective ls pos name =
     (case nextContentLine ls pos of
        None \<Rightarrow> Inl (zerr 1 1)
      | Some (line, s) \<Rightarrow>
          tryE (tokenizeZWD s (int line)) (\<lambda>toks.
            if length toks \<noteq> 2 \<or> toks ! 0 \<noteq> name \<or> \<not> isQuotedToken (toks ! 1) then Inl (zerr (int line) 1)
            else Inr (unquoteToken (toks ! 1), line)))"

section \<open>Sections\<close>

text \<open>A row may be indented by two blanks. The lines hold no newline, so \<open>TrimSuffix\<close> does nothing.\<close>

definition gridRow :: "string \<Rightarrow> string" where
  "gridRow raw =
     (if int (length raw) \<noteq> BOARD_WIDTH \<and> hasPrefix ''  '' raw \<and> int (length (drop 2 raw)) = BOARD_WIDTH
      then drop 2 raw else raw)"

function parseGrid :: "string list \<Rightarrow> nat \<Rightarrow> zwdGridLine list \<Rightarrow> zwdError + zwdGridLine list \<times> nat" where
  "parseGrid ls pos grid =
     (if pos \<ge> length ls then Inl (zerrc ErrMissingEnd 0 0)
      else let line = int pos + 1; raw = ls ! pos in
        if TrimSpace raw = ''end'' then
          (if int (length grid) \<noteq> BOARD_HEIGHT then Inl (zerr line 1) else Inr (grid, pos + 1))
        else let raw = gridRow raw in
          if int (length raw) \<noteq> BOARD_WIDTH then
            Inl (if int (length raw) > BOARD_WIDTH then zerrc ErrRowTooWide line (BOARD_WIDTH + 1)
                 else zerr line (int (length raw) + 1))
          else parseGrid ls (pos + 1) (grid @ [\<lparr>glLine = line, glText = raw\<rparr>]))"
  by pat_completeness auto
termination by (relation "measure (\<lambda>(ls, pos, grid). length ls - pos)") auto

function parseLegend ::
  "string list \<Rightarrow> nat \<Rightarrow> (char \<Rightarrow> zwdLegendEntry option) \<Rightarrow> zwdError + (char \<Rightarrow> zwdLegendEntry option) \<times> nat" where
  "parseLegend ls pos legend =
     (if pos \<ge> length ls then Inl (zerrc ErrMissingEnd 0 0)
      else let line = int pos + 1; s = TrimSpace (ls ! pos) in
        if s = [] then parseLegend ls (pos + 1) legend
        else tryE (tokenizeZWD s line) (\<lambda>toks.
          if toks = [''end''] then Inr (legend, pos + 1)
          else tryE (parseLegendEntry toks line) (\<lambda>(key, entry).
            if legend key \<noteq> None then Inl (zerrc ErrDuplicateLegendKey line 1)
            else parseLegend ls (pos + 1) (legend(key := Some entry)))))"
  by pat_completeness auto
termination by (relation "measure (\<lambda>(ls, pos, legend). length ls - pos)") auto

function parseOOP :: "string list \<Rightarrow> nat \<Rightarrow> string \<Rightarrow> string list \<Rightarrow> zwdError + string \<times> nat" where
  "parseOOP ls pos indent acc =
     (if pos \<ge> length ls then Inl (zerr 0 0)
      else if TrimSpace (ls ! pos) = ''end'' then Inr (joinWith [chr 13] acc, pos + 1)
      else parseOOP ls (pos + 1) indent (acc @ [trimPrefix indent (ls ! pos)]))"
  by pat_completeness auto
termination by (relation "measure (\<lambda>(ls, pos, indent, acc). length ls - pos)") auto

declare parseGrid.simps [simp del] parseLegend.simps [simp del] parseOOP.simps [simp del]

lemma parseGrid_next: "parseGrid ls pos grid = Inr (g, n) \<Longrightarrow> pos < n"
proof (induction ls pos grid rule: parseGrid.induct)
  case (1 ls pos grid)
  from "1.prems" "1.IH" [OF _ refl refl _ refl] show ?case
    by (subst (asm) parseGrid.simps) (auto simp: Let_def split: if_splits)
qed

lemma parseLegend_next: "parseLegend ls pos legend = Inr (l, n) \<Longrightarrow> pos < n"
proof (induction ls pos legend rule: parseLegend.induct)
  case (1 ls pos legend)
  from "1.prems" "1.IH"(1) [OF _ refl refl] "1.IH"(2) [OF _ refl refl] show ?case
    by (subst (asm) parseLegend.simps) (fastforce simp: Let_def tryE_Inr split: if_splits)
qed

lemma parseOOP_next: "parseOOP ls pos indent acc = Inr (d, n) \<Longrightarrow> pos < n"
proof (induction ls pos indent acc rule: parseOOP.induct)
  case (1 ls pos indent acc)
  from "1.prems" "1.IH" show ?case by (subst (asm) parseOOP.simps) (auto split: if_splits)
qed

text \<open>The program that may follow a stat line: an \<open>oop\<close> line and its block, indented as that line is.\<close>

definition parseStatOOP :: "string list \<Rightarrow> nat \<Rightarrow> zwdStat \<Rightarrow> zwdError + zwdStat \<times> nat" where
  "parseStatOOP ls pos stat =
     (case nextContentLine ls pos of
        Some (next, s) \<Rightarrow>
          if TrimSpace s = ''oop'' then
            tryE (parseOOP ls next (takeWhile blank (ls ! (next - 1))) []) (\<lambda>(data, pos).
              Inr (stat\<lparr>zsData := data\<rparr>, pos))
          else Inr (stat, pos)
      | None \<Rightarrow> Inr (stat, pos))"

lemma parseStatOOP_next: "parseStatOOP ls pos stat = Inr (s, n) \<Longrightarrow> pos \<le> n"
  by (auto simp: parseStatOOP_def tryE_Inr split: option.splits if_splits dest!: nextContentLine_next parseOOP_next)

function parseStats :: "string list \<Rightarrow> nat \<Rightarrow> zwdStat list \<Rightarrow> zwdError + zwdStat list \<times> nat" where
  "parseStats ls pos stats =
     (case nextContentLine ls pos of
        None \<Rightarrow> Inl (zerrc ErrMissingEnd 0 0)
      | Some (line, s) \<Rightarrow>
          tryE (tokenizeZWD s (int line)) (\<lambda>toks.
            if toks = [''end''] then Inr (stats, line)
            else if toks = [] then parseStats ls line stats
            else if hd toks \<noteq> ''stat'' then Inl (zerr (int line) 1)
            else tryE (parseStatLine toks (int line)) (\<lambda>stat.
              tryE (parseStatOOP ls line stat) (\<lambda>(stat, pos). parseStats ls pos (stats @ [stat])))))"
  by pat_completeness auto
termination
  by (relation "measure (\<lambda>(ls, pos, stats). length ls - pos)")
    (auto dest!: nextContentLine_next parseStatOOP_next)

declare parseStats.simps [simp del]

lemma parseStats_next: "parseStats ls pos stats = Inr (st, n) \<Longrightarrow> pos < n"
proof (induction ls pos stats rule: parseStats.induct)
  case (1 ls pos stats)
  show ?case
  proof (cases "nextContentLine ls pos")
    case None
    with "1.prems" show ?thesis by (subst (asm) parseStats.simps) simp
  next
    case (Some ln)
    obtain line s where ln: "ln = (line, s)" by force
    have lt: "pos < line" using nextContentLine_next Some ln by blast
    note u = "1.prems" [unfolded parseStats.simps [of ls pos] Some ln option.case prod.case tryE_Inr]
    then obtain toks where toks: "tokenizeZWD s (int line) = Inr toks" by blast
    show ?thesis
    proof (cases "toks = [''end'']")
      case True
      with u toks lt show ?thesis by simp
    next
      case ne: False
      show ?thesis
      proof (cases "toks = []")
        case True
        then show ?thesis using "1.IH"(1) [OF Some ln [symmetric] toks ne True] u toks lt by simp
      next
        case False
        with u toks ne obtain stat stat' pos' where st: "hd toks = ''stat''" "parseStatLine toks (int line) = Inr stat"
          "parseStatOOP ls line stat = Inr (stat', pos')" "parseStats ls pos' (stats @ [stat']) = Inr (st, n)"
          by (auto simp: tryE_Inr split: if_splits)
        have "pos' < n" using "1.IH"(2) [OF Some ln [symmetric] toks ne False _ st(2,3) refl] st(1,4) by simp
        with parseStatOOP_next [OF st(3)] lt show ?thesis by simp
      qed
    qed
  qed
qed

section \<open>Boards\<close>

definition newBoard :: "string \<Rightarrow> int \<Rightarrow> zwdBoard" where
  "newBoard name line =
     \<lparr>zbName = name, zbLine = line, zbStartX = 0, zbStartY = 0, zbHasRespawn = False, zbRespawnX = 0, zbRespawnY = 0,
      zbMaxShots = 255, zbDark = False, zbReenter = False, zbTimeLimit = 0, zbMessage = [], zbExits = (\<lambda>_. []),
      zbGrid = [], zbLegend = Map.empty, zbStats = []\<rparr>"

text \<open>One field of a board that fits on its line; \<open>None\<close> when the word names no such field.\<close>

definition boardField :: "string list \<Rightarrow> int \<Rightarrow> zwdBoard \<Rightarrow> (zwdError + zwdBoard) option" where
  "boardField toks line board =
     (let t = hd toks in
      if t = ''start'' then Some
        (if length toks \<noteq> 4 \<or> toks ! 1 \<noteq> ''player'' \<or> toks ! 2 \<noteq> ''at'' then Inl (zerr line 1)
         else tryE (orErr (parseCoordToken (toks ! 3)) (zerr line 18)) (\<lambda>(x, y).
           Inr (board\<lparr>zbStartX := x, zbStartY := y\<rparr>)))
      else if t = ''respawn'' then Some
        (if length toks \<noteq> 3 \<or> toks ! 1 \<noteq> ''at'' then Inl (zerr line 1)
         else tryE (orErr (parseCoordToken (toks ! 2)) (zerr line 12)) (\<lambda>(x, y).
           Inr (board\<lparr>zbRespawnX := x, zbRespawnY := y, zbHasRespawn := True\<rparr>)))
      else if t = ''max-shots'' then Some
        (tryE (parseIntField toks line 0 255) (\<lambda>n. Inr (board\<lparr>zbMaxShots := n\<rparr>)))
      else if t = ''dark'' then Some (tryE (parseBoolField toks line) (\<lambda>v. Inr (board\<lparr>zbDark := v\<rparr>)))
      else if t = ''reenter'' then Some (tryE (parseBoolField toks line) (\<lambda>v. Inr (board\<lparr>zbReenter := v\<rparr>)))
      else if t = ''time-limit'' then Some
        (tryE (parseIntField toks line 0 32767) (\<lambda>n. Inr (board\<lparr>zbTimeLimit := n\<rparr>)))
      else if t = ''message'' then Some
        (if length toks \<noteq> 2 \<or> \<not> isQuotedToken (toks ! 1) then Inl (zerr line 1)
         else Inr (board\<lparr>zbMessage := unquoteToken (toks ! 1)\<rparr>))
      else if t = ''exits'' then Some (parseExits toks line board)
      else None)"

function parseBoard :: "string list \<Rightarrow> nat \<Rightarrow> zwdBoard \<Rightarrow> zwdError + zwdBoard \<times> nat" where
  "parseBoard ls pos board =
     (case nextContentLine ls pos of
        None \<Rightarrow> Inl (zerrc ErrMissingEnd 0 1)
      | Some (line, s) \<Rightarrow>
          tryE (tokenizeZWD s (int line)) (\<lambda>toks.
            if toks = [] then parseBoard ls line board
            else if hd toks = ''end'' then
              (if length toks \<noteq> 1 \<or> zbGrid board = [] then Inl (zerr (int line) 1) else Inr (board, line))
            else if hd toks = ''grid'' then
              tryE (parseGrid ls line []) (\<lambda>(grid, pos). parseBoard ls pos (board\<lparr>zbGrid := grid\<rparr>))
            else if hd toks = ''legend'' then
              tryE (parseLegend ls line Map.empty) (\<lambda>(legend, pos). parseBoard ls pos (board\<lparr>zbLegend := legend\<rparr>))
            else if hd toks = ''stats'' then
              tryE (parseStats ls line []) (\<lambda>(stats, pos). parseBoard ls pos (board\<lparr>zbStats := stats\<rparr>))
            else case boardField toks (int line) board of
                   Some (Inr board) \<Rightarrow> parseBoard ls line board
                 | Some (Inl err) \<Rightarrow> Inl err
                 | None \<Rightarrow> Inl (zerr (int line) 1)))"
  by pat_completeness auto
termination
  by (relation "measure (\<lambda>(ls, pos, board). length ls - pos)")
    (auto dest!: nextContentLine_next parseGrid_next parseLegend_next parseStats_next)

declare parseBoard.simps [simp del]

end
