(* ===== verification/ZwdDoc.thy ===== *)
theory ZwdDoc
  imports ZwdParse
begin

text \<open>
  What the ZWD parser promises of the documents it accepts: every number is within the bounds its field has
  in a world file, every coordinate is on the board and every row of a grid is complete. On the way every
  section is shown to move forward, which is why \<open>parse\<close> ends.
\<close>

section \<open>Values in range\<close>

definition byteTile :: "TTile \<Rightarrow> bool" where
  "byteTile t \<longleftrightarrow> 0 \<le> Element t \<and> Element t \<le> MAX_ELEMENT \<and> is_u8 (Color t)"

lemma ParseUint_range: "ParseUint s base limit = Some n \<Longrightarrow> 0 \<le> base \<Longrightarrow> 0 \<le> n \<and> n < limit"
proof -
  have d: "0 \<le> digitOf c" for c by (simp add: digitOf_def)
  have "digitsValue base s m = Some n \<Longrightarrow> 0 \<le> m \<Longrightarrow> 0 \<le> base \<Longrightarrow> 0 \<le> n" for m
    using d by (induction base s m rule: digitsValue.induct) (auto split: if_splits)
  then show "ParseUint s base limit = Some n \<Longrightarrow> 0 \<le> base \<Longrightarrow> 0 \<le> n \<and> n < limit"
    by (auto simp: ParseUint_def split: if_splits option.splits)
qed

lemma parseColor_range: "parseColor tok = Some n \<Longrightarrow> is_u8 n"
  by (auto simp: parseColor_def Let_def colorNames_def is_u8_def dest!: ParseUint_range split: option.splits if_splits)

lemma parseLegendColor_range: "parseLegendColor el tok = Inr n \<Longrightarrow> is_u8 n"
  by (auto simp: parseLegendColor_def doorColorName_def tryE_Inr u8_def is_u8_def split: option.splits if_splits
      dest!: parseColor_range)

lemma parseByteToken_range: "parseByteToken tok = Some n \<Longrightarrow> is_u8 n"
  by (auto simp: parseByteToken_def is_u8_def dest!: ParseUint_range split: if_splits)

lemma parseByteValue_range: "parseByteValue tok = Some n \<Longrightarrow> is_u8 n"
  by (auto simp: parseByteValue_def is_u8_def dest!: parseByteToken_range split: if_splits option.splits)

lemma parsePair_good: "parsePair P tok = Some (x, y) \<Longrightarrow> P x y"
  by (auto simp: parsePair_def split: list.splits option.splits if_splits)

lemma parseCoordToken_range: "parseCoordToken tok = Some (x, y) \<Longrightarrow> onBoard x y"
  by (auto simp: parseCoordToken_def onBoard_def dest!: parsePair_good)

lemma parseStep_range: "parseStep tok = Some (x, y) \<Longrightarrow> is_i16 x \<and> is_i16 y"
  by (auto simp: parseStep_def is_i16_def dest!: parsePair_good split: if_splits)

lemma parseOneInt_range: "parseOneInt toks i line lo hi = Inr n \<Longrightarrow> lo \<le> n \<and> n \<le> hi"
  by (auto simp: parseOneInt_def split: if_splits option.splits)

lemma elementByZWDName_range:
  assumes "elementByZWDName name = Some el"
  shows "0 \<le> el \<and> el \<le> MAX_ELEMENT"
proof -
  have "find P [0..53] = Some el \<Longrightarrow> 0 \<le> el \<and> el \<le> 53" for P :: "int \<Rightarrow> bool"
    by (auto simp: find_Some_iff simp del: upto_0_numeral)
  moreover have "map_of textZWDNames s = Some el \<Longrightarrow> 0 \<le> el \<and> el \<le> 53" for s
    by (auto simp: textZWDNames_def split: if_splits)
  ultimately show ?thesis
    using assms by (auto simp: elementByZWDName_def Let_def simp del: upto_0_numeral split: if_splits option.splits)
qed

lemma parseElementName_range: "parseElementName toks i = Some (el, n) \<Longrightarrow> 0 \<le> el \<and> el \<le> MAX_ELEMENT"
proof -
  have "elementFrom parts ts i = Some (el, n) \<Longrightarrow> 0 \<le> el \<and> el \<le> MAX_ELEMENT" for parts ts i
    by (induction parts ts i rule: elementFrom.induct)
      (auto split: if_splits option.splits dest: elementByZWDName_range)
  then show "parseElementName toks i = Some (el, n) \<Longrightarrow> 0 \<le> el \<and> el \<le> MAX_ELEMENT"
    by (simp add: parseElementName_def)
qed

lemma parseTile_range: "parseTile toks i line = Inr (t, n) \<Longrightarrow> byteTile t"
  by (auto simp: parseTile_def tryE_Inr byteTile_def dest!: parseElementName_range parseColor_range split: if_splits)

section \<open>Legends and stats\<close>

definition goodEntry :: "zwdLegendEntry \<Rightarrow> bool" where
  "goodEntry en \<longleftrightarrow>
     byteTile \<lparr>Element = leElement en, Color = leColor en\<rparr> \<and> (\<forall>t. leUnder en = Some t \<longrightarrow> byteTile t)"

lemma legendFields_good: "legendFields toks i line en = Inr en' \<Longrightarrow> goodEntry en \<Longrightarrow> goodEntry en'"
proof (induction "length toks - i" arbitrary: i en rule: less_induct)
  case less
  show ?case
  proof (cases "i \<ge> length toks")
    case True
    with less.prems show ?thesis by (subst (asm) legendFields.simps) simp
  next
    case False
    have step: "legendFields toks j line en2 = Inr en' \<Longrightarrow> i < j \<Longrightarrow> goodEntry en2 \<Longrightarrow> goodEntry en'" for j en2
      using less.hyps [of j en2] False by simp
    note u = less.prems(1) [unfolded legendFields.simps [of toks i], simplified False if_False]
    consider (color) c where "parseLegendColor (leElement en) (toks ! (i + 1)) = Inr c"
        "legendFields toks (i + 2) line (en\<lparr>leColor := c\<rparr>) = Inr en'"
      | (under) t n where "parseTile toks (i + 1) line = Inr (t, n)"
        "legendFields toks n line (en\<lparr>leUnder := Some t\<rparr>) = Inr en'"
      | (to) b where "legendFields toks (i + 2) line (en\<lparr>leToBoard := b\<rparr>) = Inr en'"
      using u by (auto simp: tryE_Inr split: if_splits sum.splits)
    then show ?thesis
    proof cases
      case color
      show ?thesis
        by (rule step [OF color(2)]) (use color(1) less.prems(2) in \<open>simp_all add: goodEntry_def byteTile_def parseLegendColor_range\<close>)
    next
      case under
      show ?thesis
        by (rule step [OF under(2)]) (use parseTile_next [OF under(1)] parseTile_range [OF under(1)] less.prems(2) in
          \<open>simp_all add: goodEntry_def\<close>)
    next
      case to
      show ?thesis by (rule step [OF to]) (use less.prems(2) in \<open>simp_all add: goodEntry_def\<close>)
    qed
  qed
qed

lemma parseLegendEntry_good: "parseLegendEntry toks line = Inr (k, en) \<Longrightarrow> goodEntry en"
proof -
  assume "parseLegendEntry toks line = Inr (k, en)"
  then obtain el n where el: "parseElementName toks 2 = Some (el, n)"
    and f: "legendFields toks n line \<lparr>leElement = el, leColor = 0, leUnder = None, leToBoard = []\<rparr> = Inr en"
    by (auto simp: parseLegendEntry_def tryE_Inr split: if_splits)
  show ?thesis
    by (rule legendFields_good [OF f]) (use parseElementName_range [OF el] in \<open>simp add: goodEntry_def byteTile_def is_u8_def\<close>)
qed

definition goodStat :: "zwdStat \<Rightarrow> bool" where
  "goodStat s \<longleftrightarrow>
     onBoard (zsX s) (zsY s) \<and> 0 \<le> zsElement s \<and> zsElement s \<le> MAX_ELEMENT \<and> is_i16 (zsCycle s) \<and>
     is_u8 (zsP1 s) \<and> is_u8 (zsP2 s) \<and> is_u8 (zsP3 s) \<and> is_i16 (zsStepX s) \<and> is_i16 (zsStepY s) \<and>
     byteTile (zsUnder s) \<and> is_i16 (zsFollower s) \<and> is_i16 (zsLeader s) \<and> is_i16 (zsDataPos s) \<and>
     (zsHasBind s \<longrightarrow> 1 \<le> zsBind s \<and> zsBind s \<le> MAX_STAT)"

definition statOf :: "int \<Rightarrow> zwdStat \<Rightarrow> bool" where
  "statOf el s \<longleftrightarrow> goodStat s \<and> zsElement s = el"

lemma statFields_good: "statFields toks i line s = Inr s' \<Longrightarrow> statOf el s \<Longrightarrow> statOf el s'"
proof (induction "length toks - i" arbitrary: i s rule: less_induct)
  case less
  show ?case
  proof (cases "i \<ge> length toks")
    case True
    with less.prems show ?thesis by (subst (asm) statFields.simps) simp
  next
    case False
    have step: "statFields toks j line t = Inr s' \<Longrightarrow> i < j \<and> goodStat t \<and> zsElement t = zsElement s \<Longrightarrow>
        statOf (zsElement s) s'" for j t
      using less.hyps [of j t] less.prems(2) False diff_less_mono2 [of i j "length toks"] by (simp add: statOf_def not_le)
    note u = less.prems(1) [unfolded statFields.simps [of toks i], simplified False Let_def if_False]
    have s: "goodStat s" "el = zsElement s" using less.prems(2) by (simp_all add: statOf_def)
    show ?thesis
      unfolding s(2) using u s(1)
      by (auto simp: tryE_Inr goodStat_def is_i16_def split: if_splits
          dest: parseTile_next parseTile_range dest!: parseOneInt_range parseByteValue_range parseStep_range elim!: step)
  qed
qed

lemma elementCycle_range: "0 \<le> elementCycle i \<Longrightarrow> is_i16 (elementCycle i)"
proof -
  have "elemDef i = Some d \<Longrightarrow> dCycle d \<le> 100" for d
    by (rule elemDef_all [where P = "\<lambda>el d. dCycle d \<le> 100"]) (assumption, code_simp)
  then show "0 \<le> elementCycle i \<Longrightarrow> is_i16 (elementCycle i)"
    by (force simp: elementCycle_def is_i16_def split: option.splits)
qed

lemma parseStatLine_good: "parseStatLine toks line = Inr s \<Longrightarrow> goodStat s"
proof -
  assume "parseStatLine toks line = Inr s"
  then obtain x y el n s0 where xy: "parseCoordToken (toks ! 2) = Some (x, y)" and el: "parseElementName toks 4 = Some (el, n)"
    and f: "statFields toks n line (statDefaults line x y el) = Inr s0"
    and s: "s = s0 \<or> 0 \<le> elementCycle el \<and> s = s0\<lparr>zsCycle := elementCycle el\<rparr>"
    by (auto simp: parseStatLine_def tryE_Inr split: if_splits)
  have "statOf el s0"
    by (rule statFields_good [OF f]) (use parseCoordToken_range [OF xy] parseElementName_range [OF el] in
      \<open>simp add: statOf_def goodStat_def statDefaults_def newStat_def is_i16_def is_u8_def byteTile_def\<close>)
  with s elementCycle_range [of el] show ?thesis by (auto simp: statOf_def goodStat_def)
qed

lemma parseStatOOP_good: "parseStatOOP ls pos s = Inr (s', n) \<Longrightarrow> goodStat s \<Longrightarrow> goodStat s'"
  by (auto simp: parseStatOOP_def tryE_Inr goodStat_def split: option.splits if_splits)

lemma parseLegend_good:
  "parseLegend ls pos legend = Inr (l, n) \<Longrightarrow> \<forall>k en. legend k = Some en \<longrightarrow> goodEntry en \<Longrightarrow>
   l k = Some en \<Longrightarrow> goodEntry en"
proof (induction "length ls - pos" arbitrary: pos legend rule: less_induct)
  case less
  show ?case
  proof (cases "pos \<ge> length ls")
    case True
    with less.prems(1) show ?thesis by (subst (asm) parseLegend.simps) simp
  next
    case False
    have step: "parseLegend ls (pos + 1) legend' = Inr (l, n) \<Longrightarrow> \<forall>k en. legend' k = Some en \<longrightarrow> goodEntry en \<Longrightarrow>
        goodEntry en" for legend'
      using less.hyps [of "pos + 1" legend'] less.prems(3) False by simp
    note u = less.prems(1) [unfolded parseLegend.simps [of ls pos], simplified False Let_def if_False]
    consider (same) legend' where "parseLegend ls (pos + 1) legend = Inr (l, n)"
      | (here) "l = legend"
      | (new) toks key ne where "parseLegendEntry toks (int pos + 1) = Inr (key, ne)"
          "parseLegend ls (pos + 1) (legend(key := Some ne)) = Inr (l, n)"
      using u by (auto simp: tryE_Inr split: if_splits)
    then show ?thesis
    proof cases
      case new
      show ?thesis
        by (rule step [OF new(2)]) (use less.prems(2) parseLegendEntry_good [OF new(1)] in auto)
    qed (use less.prems step in auto)
  qed
qed

lemma parseGrid_good:
  "parseGrid ls pos grid = Inr (g, n) \<Longrightarrow> \<forall>r\<in>set grid. int (length (glText r)) = BOARD_WIDTH \<Longrightarrow>
   int (length g) = BOARD_HEIGHT \<and> (\<forall>r\<in>set g. int (length (glText r)) = BOARD_WIDTH)"
proof (induction "length ls - pos" arbitrary: pos grid rule: less_induct)
  case less
  show ?case
  proof (cases "pos \<ge> length ls")
    case True
    with less.prems(1) show ?thesis by (subst (asm) parseGrid.simps) simp
  next
    case False
    have step: "parseGrid ls (pos + 1) grid' = Inr (g, n) \<Longrightarrow> \<forall>r\<in>set grid'. int (length (glText r)) = BOARD_WIDTH \<Longrightarrow>
        ?thesis" for grid'
      using less.hyps [of "pos + 1" grid'] False by simp
    note u = less.prems(1) [unfolded parseGrid.simps [of ls pos], simplified False Let_def if_False]
    consider (here) "g = grid" "int (length grid) = BOARD_HEIGHT"
      | (new) r where "int (length (glText r)) = BOARD_WIDTH" "parseGrid ls (pos + 1) (grid @ [r]) = Inr (g, n)"
      using u that(1) that(2) [of "\<lparr>glLine = int pos + 1, glText = gridRow (ls ! pos)\<rparr>"] by (auto split: if_splits)
    then show ?thesis
    proof cases
      case new
      show ?thesis by (rule step [OF new(2)]) (use less.prems(2) new(1) in auto)
    qed (use less.prems(2) in simp)
  qed
qed

lemma parseStats_good:
  "parseStats ls pos stats = Inr (st, n) \<Longrightarrow> \<forall>s\<in>set stats. goodStat s \<Longrightarrow> \<forall>s\<in>set st. goodStat s"
proof (induction "length ls - pos" arbitrary: pos stats rule: less_induct)
  case less
  show ?case
  proof (cases "nextContentLine ls pos")
    case None
    with less.prems(1) show ?thesis by (subst (asm) parseStats.simps) simp
  next
    case (Some ln)
    obtain line s where ln: "ln = (line, s)" by force
    have lt: "pos < line" "line \<le> length ls" using nextContentLine_next Some ln by blast+
    have step: "parseStats ls j stats' = Inr (st, n) \<Longrightarrow> line \<le> j \<Longrightarrow> \<forall>s\<in>set stats'. goodStat s \<Longrightarrow> ?thesis" for j stats'
      using less.hyps [of j stats'] lt by simp
    note u = less.prems(1) [unfolded parseStats.simps [of ls pos] Some ln option.case prod.case tryE_Inr]
    consider (here) "st = stats" | (skip) "parseStats ls line stats = Inr (st, n)"
      | (new) toks stat stat' j where "parseStatLine toks (int line) = Inr stat"
          "parseStatOOP ls line stat = Inr (stat', j)" "parseStats ls j (stats @ [stat']) = Inr (st, n)"
      using u by (auto simp: tryE_Inr split: if_splits)
    then show ?thesis
    proof cases
      case new
      have "goodStat stat'" using parseStatOOP_good [OF new(2)] parseStatLine_good [OF new(1)] by blast
      with less.prems(2) have "\<forall>s\<in>set (stats @ [stat']). goodStat s" by auto
      then show ?thesis by (rule step [OF new(3) parseStatOOP_next [OF new(2)]])
    next
      case skip
      show ?thesis by (rule step [OF skip _ less.prems(2)]) simp
    qed (use less.prems(2) in simp)
  qed
qed

section \<open>Boards\<close>

definition goodBoard :: "zwdBoard \<Rightarrow> bool" where
  "goodBoard b \<longleftrightarrow>
     (zbGrid b = [] \<or> int (length (zbGrid b)) = BOARD_HEIGHT) \<and>
     (\<forall>r\<in>set (zbGrid b). int (length (glText r)) = BOARD_WIDTH) \<and>
     (\<forall>k en. zbLegend b k = Some en \<longrightarrow> goodEntry en) \<and> (\<forall>s\<in>set (zbStats b). goodStat s) \<and>
     (zbStartX b = 0 \<and> zbStartY b = 0 \<or> onBoard (zbStartX b) (zbStartY b)) \<and>
     (zbHasRespawn b \<longrightarrow> onBoard (zbRespawnX b) (zbRespawnY b)) \<and>
     is_u8 (zbMaxShots b) \<and> is_i16 (zbTimeLimit b)"

lemma newBoard_good: "goodBoard (newBoard name line)"
  by (simp add: goodBoard_def newBoard_def is_u8_def is_i16_def)

lemma fieldE: "(if c then Some r else q) = Some z \<Longrightarrow> (r = z \<Longrightarrow> P) \<Longrightarrow> (q = Some z \<Longrightarrow> P) \<Longrightarrow> P"
  by (simp split: if_splits)

lemma goodBoard_update:
  assumes "goodBoard b"
  shows "onBoard x y \<Longrightarrow> goodBoard (b\<lparr>zbStartX := x, zbStartY := y\<rparr>)"
    and "onBoard x y \<Longrightarrow> goodBoard (b\<lparr>zbRespawnX := x, zbRespawnY := y, zbHasRespawn := h\<rparr>)"
    and "0 \<le> m \<Longrightarrow> m \<le> 255 \<Longrightarrow> goodBoard (b\<lparr>zbMaxShots := m\<rparr>)"
    and "0 \<le> l \<Longrightarrow> l \<le> 32767 \<Longrightarrow> goodBoard (b\<lparr>zbTimeLimit := l\<rparr>)"
    and "goodBoard (b\<lparr>zbDark := v\<rparr>)" and "goodBoard (b\<lparr>zbReenter := v\<rparr>)"
    and "goodBoard (b\<lparr>zbMessage := s\<rparr>)" and "goodBoard (b\<lparr>zbExits := f\<rparr>)"
  using assms by (simp_all add: goodBoard_def is_u8_def is_i16_def)

lemma boardField_good:
  assumes "boardField toks line b = Some (Inr b')" and "goodBoard b"
  shows "goodBoard b'"
  using assms(1) [unfolded boardField_def Let_def]
proof (elim fieldE, goal_cases)
  case 1
  then show ?case
    by (auto simp: tryE_Inr split: if_splits dest!: parseCoordToken_range intro: goodBoard_update(1) [OF assms(2)])
next
  case 2
  then show ?case
    by (auto simp: tryE_Inr split: if_splits dest!: parseCoordToken_range intro: goodBoard_update(2) [OF assms(2)])
next
  case 3
  then show ?case
    by (auto simp: tryE_Inr parseIntField_def split: if_splits dest!: parseOneInt_range
        intro: goodBoard_update(3) [OF assms(2)])
next
  case 6
  then show ?case
    by (auto simp: tryE_Inr parseIntField_def split: if_splits dest!: parseOneInt_range
        intro: goodBoard_update(4) [OF assms(2)])
qed (auto simp: tryE_Inr parseExits_def split: if_splits intro: goodBoard_update(5-8) [OF assms(2)])

lemma parseBoard_good:
  "parseBoard ls pos b = Inr (b', n) \<Longrightarrow> goodBoard b \<Longrightarrow> goodBoard b' \<and> pos < n"
proof (induction "length ls - pos" arbitrary: pos b rule: less_induct)
  case less
  show ?case
  proof (cases "nextContentLine ls pos")
    case None
    with less.prems(1) show ?thesis by (subst (asm) parseBoard.simps) simp
  next
    case (Some ln)
    obtain line s where ln: "ln = (line, s)" by force
    have lt: "pos < line" "line \<le> length ls" using nextContentLine_next Some ln by blast+
    have step: ?thesis if "parseBoard ls j c = Inr (b', n)" "line \<le> j" "goodBoard c" for j c
    proof -
      have "length ls - j < length ls - pos" using lt that(2) by arith
      from less.hyps [OF this that(1,3)] lt that(2) show ?thesis by simp
    qed
    note u = less.prems(1) [unfolded parseBoard.simps [of ls pos] Some ln option.case prod.case tryE_Inr]
    consider (stop) "b' = b" "n = line" | (skip) "parseBoard ls line b = Inr (b', n)"
      | (grid) g j where "parseGrid ls line [] = Inr (g, j)" "parseBoard ls j (b\<lparr>zbGrid := g\<rparr>) = Inr (b', n)"
      | (legend) l j where "parseLegend ls line Map.empty = Inr (l, j)" "parseBoard ls j (b\<lparr>zbLegend := l\<rparr>) = Inr (b', n)"
      | (stats) st j where "parseStats ls line [] = Inr (st, j)" "parseBoard ls j (b\<lparr>zbStats := st\<rparr>) = Inr (b', n)"
      | (field) toks c where "boardField toks (int line) b = Some (Inr c)" "parseBoard ls line c = Inr (b', n)"
      using u by (auto simp: tryE_Inr split: if_splits option.splits sum.splits)
    then show ?thesis
    proof cases
      case stop
      then show ?thesis using less.prems(2) lt by simp
    next
      case skip
      show ?thesis by (rule step [OF skip _ less.prems(2)]) simp
    next
      case grid
      from parseGrid_good [OF grid(1)] less.prems(2) have "goodBoard (b\<lparr>zbGrid := g\<rparr>)" by (simp add: goodBoard_def)
      with parseGrid_next [OF grid(1)] show ?thesis by (intro step [OF grid(2)]) simp_all
    next
      case legend
      from parseLegend_good [OF legend(1)] less.prems(2) have "goodBoard (b\<lparr>zbLegend := l\<rparr>)"
        by (fastforce simp: goodBoard_def)
      with parseLegend_next [OF legend(1)] show ?thesis by (intro step [OF legend(2)]) simp_all
    next
      case stats
      from parseStats_good [OF stats(1)] less.prems(2) have "goodBoard (b\<lparr>zbStats := st\<rparr>)" by (simp add: goodBoard_def)
      with parseStats_next [OF stats(1)] show ?thesis by (intro step [OF stats(2)]) simp_all
    next
      case field
      show ?thesis by (rule step [OF field(2) _ boardField_good [OF field(1) less.prems(2)]]) simp
    qed
  qed
qed

section \<open>Documents\<close>

function parseBoards :: "string list \<Rightarrow> nat \<Rightarrow> zwdBoard list \<Rightarrow> zwdError + zwdBoard list" where
  "parseBoards ls pos boards =
     (case nextContentLine ls pos of
        None \<Rightarrow> Inr boards
      | Some (line, s) \<Rightarrow>
          tryE (tokenizeZWD s (int line)) (\<lambda>toks.
            if toks = [] then parseBoards ls line boards
            else if hd toks \<noteq> ''board'' \<or> length toks \<noteq> 2 \<or> \<not> isQuotedToken (toks ! 1) then Inl (zerr (int line) 1)
            else tryE (parseBoard ls line (newBoard (unquoteToken (toks ! 1)) (int line))) (\<lambda>(board, pos).
              parseBoards ls pos (boards @ [board]))))"
  by pat_completeness auto
termination
  by (relation "measure (\<lambda>(ls, pos, boards). length ls - pos)")
    (auto dest!: nextContentLine_next parseBoard_good [OF _ newBoard_good])

declare parseBoards.simps [simp del]

definition parse :: "string list \<Rightarrow> zwdError + zwdDocument" where
  "parse ls =
     tryE (expectDirective ls 0 ''zwd'' ''1'') (\<lambda>pos.
     tryE (expectQuotedDirective ls pos ''world'') (\<lambda>(name, pos).
     tryE (parseBoards ls pos []) (\<lambda>boards.
       if boards = [] then Inl (zerr 0 0) else Inr \<lparr>zdName = name, zdBoards = boards\<rparr>)))"

lemma parseBoards_good:
  "parseBoards ls pos boards = Inr bs \<Longrightarrow> \<forall>b\<in>set boards. goodBoard b \<Longrightarrow> \<forall>b\<in>set bs. goodBoard b"
proof (induction "length ls - pos" arbitrary: pos boards rule: less_induct)
  case less
  show ?case
  proof (cases "nextContentLine ls pos")
    case None
    with less.prems show ?thesis by (subst (asm) parseBoards.simps) simp
  next
    case (Some ln)
    obtain line s where ln: "ln = (line, s)" by force
    have lt: "pos < line" "line \<le> length ls" using nextContentLine_next Some ln by blast+
    have step: ?thesis if "parseBoards ls j c = Inr bs" "line \<le> j" "\<forall>b\<in>set c. goodBoard b" for j c
    proof -
      have "length ls - j < length ls - pos" using lt that(2) by arith
      from less.hyps [OF this that(1,3)] show ?thesis .
    qed
    note u = less.prems(1) [unfolded parseBoards.simps [of ls pos] Some ln option.case prod.case tryE_Inr]
    consider (skip) "parseBoards ls line boards = Inr bs"
      | (new) name b j where "parseBoard ls line (newBoard name (int line)) = Inr (b, j)"
          "parseBoards ls j (boards @ [b]) = Inr bs"
      using u by (auto simp: tryE_Inr split: if_splits)
    then show ?thesis
    proof cases
      case skip
      show ?thesis by (rule step [OF skip _ less.prems(2)]) simp
    next
      case new
      from parseBoard_good [OF new(1) newBoard_good] have "goodBoard b" "line < j" by simp_all
      with less.prems(2) show ?thesis by (intro step [OF new(2)]) auto
    qed
  qed
qed

lemma parse_good:
  assumes "parse ls = Inr doc"
  shows "zdBoards doc \<noteq> []" and "\<forall>b\<in>set (zdBoards doc). goodBoard b"
  using assms by (auto simp: parse_def tryE_Inr split: if_splits dest!: parseBoards_good)

end
