(* ===== verification/Editor.thy ===== *)
theory Editor
  imports OopExec BoardFile Protocol
begin

text \<open>
  The editing operations of \<open>engine/editor_session.go\<close> on the engine of a session: placing tiles,
  elements and text, flood fill, the program of an object, and what the browser is told of a square, a
  board and the element menus. \<^theory_text>\<open>EditSession\<close> wraps them in membership and leases.
\<close>

section \<open>Squares\<close>

definition editorClamp :: "int \<Rightarrow> int \<Rightarrow> int \<times> int" where
  "editorClamp x y =
     (if x < 1 then 1 else if x > BOARD_WIDTH then BOARD_WIDTH else x,
      if y < 1 then 1 else if y > BOARD_HEIGHT then BOARD_HEIGHT else y)"

definition editorDrawTileAndNeighbors :: "int \<Rightarrow> int \<Rightarrow> Engine \<Rightarrow> Engine option" where
  "editorDrawTileAndNeighbors x y e =
     do { e \<leftarrow> BoardDrawTile x y e;
          foldM (\<lambda>i e. do {
              dx \<leftarrow> index NeighborDeltaX i;
              dy \<leftarrow> index NeighborDeltaY i;
              let nx = i16 (x + dx);
              let ny = i16 (y + dy);
              if onBoard nx ny then BoardDrawTile nx ny e else Some e }) [0..3] e }"

definition editorPatternElement :: "int \<Rightarrow> bool" where
  "editorPatternElement el \<longleftrightarrow>
     el = E_SOLID \<or> el = E_NORMAL \<or> el = E_BREAKABLE \<or> el = E_EMPTY \<or> el = E_LINE"

text \<open>Writing a tile over a square that was made ready for it, and drawing it.\<close>

definition editorWrite :: "int \<Rightarrow> int \<Rightarrow> TTile \<Rightarrow> Engine \<Rightarrow> Engine option" where
  "editorWrite x y t e = do { e \<leftarrow> setTile x y t e; editorDrawTileAndNeighbors x y e }"

definition editorPlaceTile :: "int \<Rightarrow> int \<Rightarrow> int \<Rightarrow> int \<Rightarrow> bool \<Rightarrow> Engine \<Rightarrow> (bool \<times> Engine) option" where
  "editorPlaceTile x y el color copied e =
     (if \<not> copied \<and> \<not> editorPatternElement el then Some (False, e)
      else do {
        (ready, e) \<leftarrow> BoardPrepareTileForPlacement x y e;
        if \<not> ready then Some (False, e)
        else do { e \<leftarrow> editorWrite x y \<lparr>Element = el, Color = color\<rparr> e; Some (True, e) } })"

definition editorErase :: "int \<Rightarrow> int \<Rightarrow> Engine \<Rightarrow> (bool \<times> Engine) option" where
  "editorErase x y e =
     do { (ready, e) \<leftarrow> BoardPrepareTileForPlacement x y e;
          if \<not> ready then Some (False, e)
          else do { e \<leftarrow> editorWrite x y \<lparr>Element = E_EMPTY, Color = 0\<rparr> e; Some (True, e) } }"

abbreviation (input) COLOR_CHOICE_ON_CHOICE :: int where "COLOR_CHOICE_ON_CHOICE \<equiv> 253"

definition editorResolveElementColor :: "int \<Rightarrow> int \<Rightarrow> int option" where
  "editorResolveElementColor el cursorColor =
     do { d \<leftarrow> elemDef el;
          Some (if dColor d = COLOR_CHOICE_ON_BLACK then cursorColor
                else if dColor d = COLOR_WHITE_ON_CHOICE then i16 (i16 (cursorColor * 16) - 113)
                else if dColor d = COLOR_CHOICE_ON_CHOICE then i16 (i16 (i16 (cursorColor - 8) * 17) + 8)
                else dColor d) }"

definition isPlaceable :: "TElementDef \<Rightarrow> bool" where
  "isPlaceable d \<longleftrightarrow>
     EditorCategory d = CATEGORY_ITEM \<or> EditorCategory d = CATEGORY_CREATURE \<or> EditorCategory d = CATEGORY_TERRAIN"

text \<open>The parameters a new stat starts with: the ones last edited for its element.\<close>

definition seedStat :: "TElementDef \<Rightarrow> TEditorStatSetting \<Rightarrow> TStat \<Rightarrow> TStat" where
  "seedStat d es s =
     (let s = (if Param1Name d \<noteq> [] then s\<lparr>P1 := esP1 es\<rparr> else s);
          s = (if Param2Name d \<noteq> [] then s\<lparr>P2 := esP2 es\<rparr> else s);
          s = (if ParamDirName d \<noteq> [] then s\<lparr>StepX := esStepX es, StepY := esStepY es\<rparr> else s)
      in if ParamBoardName d \<noteq> [] then s\<lparr>P3 := esP3 es\<rparr> else s)"

definition editorPlaceElement :: "int \<Rightarrow> int \<Rightarrow> int \<Rightarrow> int \<Rightarrow> Engine \<Rightarrow> (bool \<times> Engine) option" where
  "editorPlaceElement x y el cursorColor e =
     (if el > MAX_ELEMENT then Some (False, e)
      else if el = E_PLAYER then do {
        (ready, e) \<leftarrow> BoardPrepareTileForPlacement x y e;
        if \<not> ready then Some (False, e)
        else do { e \<leftarrow> MoveStat 0 x y e; e \<leftarrow> editorDrawTileAndNeighbors x y e; Some (True, e) } }
      else do {
        d \<leftarrow> elemDef el;
        if \<not> isPlaceable d then Some (False, e)
        else do {
          color \<leftarrow> editorResolveElementColor el cursorColor;
          if dCycle d = -1 then do {
            (ready, e) \<leftarrow> BoardPrepareTileForPlacement x y e;
            if \<not> ready then Some (False, e)
            else do { e \<leftarrow> editorWrite x y \<lparr>Element = el, Color = u8 color\<rparr> e; Some (True, e) } }
          else if StatCount (Board e) \<ge> MAX_STAT then Some (False, e)
          else do {
            (ready, e) \<leftarrow> BoardPrepareTileForPlacement x y e;
            if \<not> ready then Some (False, e)
            else do {
              e \<leftarrow> AddStat x y el color (dCycle d) StatTemplateDefault e;
              e \<leftarrow> modStat (StatCount (Board e)) (seedStat d (EditorStatSettings (World e) el)) e;
              e \<leftarrow> editorDrawTileAndNeighbors x y e;
              Some (True, e) } } } })"

definition editorPlaceText :: "int \<Rightarrow> int \<Rightarrow> int \<Rightarrow> int \<Rightarrow> Engine \<Rightarrow> (bool \<times> Engine) option" where
  "editorPlaceText x y ch cursorColor e =
     (if ch < ord CHR '' '' \<or> ch \<ge> 128 then Some (False, e)
      else let fg = cursorColor mod 16; fg = (if fg < 9 then 9 else if fg > 15 then 15 else fg) in
      do { (ready, e) \<leftarrow> BoardPrepareTileForPlacement x y e;
           if \<not> ready then Some (False, e)
           else do { e \<leftarrow> editorWrite x y \<lparr>Element = u8 (fg - 9 + E_TEXT_MIN), Color = ch\<rparr> e;
                     Some (True, e) } })"

section \<open>Flood fill\<close>

text \<open>
  The queue of \<open>editorFloodFill\<close>: two arrays of 256 squares under indices that are bytes, so that
  both wrap. The loop ends when they meet.
\<close>

record FillQueue =
  xPosition :: "int \<Rightarrow> int"
  yPosition :: "int \<Rightarrow> int"
  toFill :: int
  filled :: int

definition enqueue :: "int \<Rightarrow> int \<Rightarrow> FillQueue \<Rightarrow> FillQueue" where
  "enqueue x y q =
     q\<lparr>xPosition := (xPosition q)(toFill q := x), yPosition := (yPosition q)(toFill q := y),
       toFill := u8 (toFill q + 1)\<rparr>"

text \<open>The neighbours that look like the square the fill started from.\<close>

definition enqueueLike :: "int \<Rightarrow> int \<Rightarrow> TTile \<Rightarrow> Engine \<Rightarrow> FillQueue \<Rightarrow> FillQueue option" where
  "enqueueLike x y start e q =
     foldM (\<lambda>i q. do {
         dx \<leftarrow> index NeighborDeltaX i;
         dy \<leftarrow> index NeighborDeltaY i;
         let nx = i16 (x + dx);
         let ny = i16 (y + dy);
         t \<leftarrow> tileAt nx ny e;
         Some (if Element t = Element start \<and> (Element start = E_EMPTY \<or> Color t = Color start)
               then enqueue nx ny q else q) }) [0..3] q"

partial_function (option) fillLoop ::
  "TTile \<Rightarrow> int \<Rightarrow> int \<Rightarrow> bool \<Rightarrow> int \<Rightarrow> int \<Rightarrow> FillQueue \<Rightarrow> bool \<Rightarrow> Engine \<Rightarrow> (bool \<times> Engine) option" where
  "fillLoop start el color copied x y q changed e =
     (if toFill q = filled q then Some (changed, e)
      else do {
        before \<leftarrow> tileAt x y e;
        (placed, e) \<leftarrow> editorPlaceTile x y el color copied e;
        after \<leftarrow> tileAt x y e;
        q \<leftarrow> (if placed \<and> after \<noteq> before then enqueueLike x y start e q else Some q);
        let q = q\<lparr>filled := u8 (filled q + 1)\<rparr>;
        fillLoop start el color copied (xPosition q (filled q)) (yPosition q (filled q)) q
          (changed \<or> placed) e })"

definition editorFloodFill :: "int \<Rightarrow> int \<Rightarrow> TTile \<Rightarrow> int \<Rightarrow> int \<Rightarrow> bool \<Rightarrow> Engine \<Rightarrow> (bool \<times> Engine) option" where
  "editorFloodFill x y start el color copied e =
     (if \<not> copied \<and> \<not> editorPatternElement el then Some (False, e)
      else fillLoop start el color copied x y
             \<lparr>xPosition = (\<lambda>_. 0), yPosition = (\<lambda>_. 0), toFill = 1, filled = 0\<rparr> False e)"

section \<open>Programs\<close>

abbreviation (input) MAX_TEXT_WINDOW_LINES :: nat where "MAX_TEXT_WINDOW_LINES \<equiv> 1024"

text \<open>The lines of a text, each ended by a carriage return; what follows the last one is dropped.\<close>

fun crLines :: "string \<Rightarrow> string \<Rightarrow> string list" where
  "crLines buf [] = []"
| "crLines buf (c # s) = (if c = CR then buf # crLines [] s else crLines (buf @ [c]) s)"

text \<open>The program of a stat, and its length, looking one reference back when it is shared.\<close>

definition programOf :: "int \<Rightarrow> Engine \<Rightarrow> (string \<times> int) option" where
  "programOf statId e =
     do { s \<leftarrow> statAt statId e;
          if DataLen s < 0 then do { src \<leftarrow> statAt (i16 (- DataLen s)) e; Some (Data src, DataLen src) }
          else Some (Data s, DataLen s) }"

definition editorProgramLines :: "int \<Rightarrow> Engine \<Rightarrow> string list option" where
  "editorProgramLines statId e =
     do { (d, n) \<leftarrow> programOf statId e; Some (crLines [] (take (nat n) d)) }"

text \<open>
  Stats that refer to the program of \<open>statId\<close> get a copy of it of their own.
\<close>

definition editorUnbindSharers :: "int \<Rightarrow> Engine \<Rightarrow> Engine option" where
  "editorUnbindSharers statId e =
     do { (d, n) \<leftarrow> programOf statId e;
          foldM (\<lambda>i e. do {
              s \<leftarrow> statAt i e;
              if i \<noteq> statId \<and> DataLen s = i16 (- statId)
              then modStat i (\<lambda>s. s\<lparr>Data := d, DataLen := n\<rparr>) e
              else Some e }) [0..StatCount (Board e)] e }"

text \<open>Each line and a carriage return after it.\<close>

definition joinLines :: "string list \<Rightarrow> string" where
  "joinLines ls = concat (map (\<lambda>l. l @ [CR]) ls)"

section \<open>What the browser is told\<close>

definition editorString :: "string \<Rightarrow> nat \<Rightarrow> string" where
  "editorString value n = take n value"

record EditorTileInspect =
  inX :: int
  inY :: int
  inElementID :: int
  inElement :: string
  inCharacter :: int
  inColor :: int
  inStat :: "(int \<times> TStat \<times> TElementDef) option"

text \<open>
  \<open>editorTileInspect\<close>: the stat fields of the message (its parameters, step and cycle) and the parameter names of the
  element are those of the stat and the definition in \<open>inStat\<close>. Looking at a star turns its colour.
\<close>

definition editorTileInspect :: "int \<Rightarrow> int \<Rightarrow> Engine \<Rightarrow> (EditorTileInspect \<times> Engine) option" where
  "editorTileInspect x y e =
     (let (x, y) = editorClamp x y in
      do { t \<leftarrow> tileAt x y e;
           ((_, ch), e) \<leftarrow> TileToColorAndChar x y e;
           d \<leftarrow> elemDef (Element t);
           statID \<leftarrow> GetStatIdAt x y e;
           st \<leftarrow> (if statID \<ge> 0 then do { s \<leftarrow> statAt statID e; Some (Some (statID, s, d)) } else Some None);
           Some (\<lparr>inX = x, inY = y, inElementID = Element t,
                  inElement = (if dName d = [] then ''Element '' @ Str (Element t) else dName d),
                  inCharacter = ch, inColor = Color t, inStat = st\<rparr>, e) })"

definition editorBoardName :: "int \<Rightarrow> Engine \<Rightarrow> string option" where
  "editorBoardName boardID e =
     (if boardID = CurrentBoard (wInfo (World e)) then Some (bName (Board e))
      else do {
        check (inBoards boardID);
        let d = BoardData (World e) boardID;
        if int (length d) < SizeOfBoardName then Some []
        else do { bs \<leftarrow> Prelude.slice 0 SizeOfBoardName d; LoadString bs } })"

record EditorProperties =
  epBoardID :: int
  epBoardName :: string
  epWorldName :: string
  epMaxShots :: int
  epIsDark :: bool
  epNeighborBoards :: "int list"
  epReenterWhenZapped :: bool
  epTimeLimitSec :: int
  epBoards :: "(int \<times> string) list"

definition editorProperties :: "Engine \<Rightarrow> EditorProperties option" where
  "editorProperties e =
     do { boards \<leftarrow> foldM (\<lambda>b bs. do {
              name \<leftarrow> editorBoardName b e;
              Some (bs @ [(b, if name = [] then ''Untitled'' else name)]) }) [0..BoardCount (World e)] [];
          let i = bInfo (Board e);
          Some \<lparr>epBoardID = CurrentBoard (wInfo (World e)), epBoardName = bName (Board e),
                epWorldName = wName (wInfo (World e)), epMaxShots = MaxShots i, epIsDark = IsDark i,
                epNeighborBoards = map (NeighborBoards i) [0..3], epReenterWhenZapped = ReenterWhenZapped i,
                epTimeLimitSec = TimeLimitSec i, epBoards = boards\<rparr> }"

record EditorSnapshotMessage =
  esmMemberID :: string
  esmReadOnly :: bool
  esmBoardID :: int
  esmScreen :: "ScreenCell list"
  esmInspect :: EditorTileInspect
  esmProperties :: EditorProperties

definition editorSnapshot :: "int \<Rightarrow> int \<Rightarrow> Engine \<Rightarrow> (EditorSnapshotMessage \<times> Engine) option" where
  "editorSnapshot x y e =
     do { screen \<leftarrow> screenCells e;
          (inspect, e) \<leftarrow> editorTileInspect x y e;
          props \<leftarrow> editorProperties e;
          (_, e) \<leftarrow> DrainScreenDirty e;
          Some (\<lparr>esmMemberID = [], esmReadOnly = False, esmBoardID = CurrentBoard (wInfo (World e)),
                 esmScreen = screen, esmInspect = inspect, esmProperties = props\<rparr>, e) }"

section \<open>Element menus\<close>

record EditorElementItem =
  eiElementID :: int
  eiName :: string
  eiShortcut :: string
  eiCharacter :: int
  eiColor :: int
  eiCategoryName :: string

definition editorElementCharacter :: "int \<Rightarrow> int option" where
  "editorElementCharacter el = (if el = E_INVISIBLE then Some 176 else map_option Character (elemDef el))"

definition isChoice :: "int \<Rightarrow> bool" where
  "isChoice c \<longleftrightarrow> c = COLOR_CHOICE_ON_BLACK \<or> c = COLOR_WHITE_ON_CHOICE \<or> c = COLOR_CHOICE_ON_CHOICE"

definition menuItem :: "int \<Rightarrow> TElementDef \<Rightarrow> int \<Rightarrow> EditorElementItem" where
  "menuItem el d ch =
     \<lparr>eiElementID = el, eiName = dName d,
      eiShortcut = (if EditorShortcut d \<noteq> 0 then [UpCase (chr (EditorShortcut d))] else []),
      eiCharacter = ch, eiColor = (if isChoice (dColor d) then 15 else dColor d),
      eiCategoryName = CategoryName d\<rparr>"

definition menuItems :: "int \<Rightarrow> EditorElementItem list option" where
  "menuItems cat =
     foldM (\<lambda>el items. do {
         d \<leftarrow> elemDef el;
         if EditorCategory d \<noteq> cat then Some items
         else do { ch \<leftarrow> editorElementCharacter el; Some (items @ [menuItem el d ch]) } })
       [0..MAX_ELEMENT] []"

definition editorElementMenus :: "(int \<times> string \<times> string \<times> EditorElementItem list) list option" where
  "editorElementMenus =
     foldM (\<lambda>(cat, key, title) menus. do {
         items \<leftarrow> menuItems cat; Some (menus @ [(cat, key, title, items)]) })
       [(CATEGORY_ITEM, ''f1'', ''Item''), (CATEGORY_CREATURE, ''f2'', ''Creature''),
        (CATEGORY_TERRAIN, ''f3'', ''Terrain'')] []"

end
