(* ===== verification/Authoring.thy ===== *)
theory Authoring
  imports Editor
begin

text \<open>
  \<open>OopAnalyze\<close> (\<open>engine/oop_authoring.go\<close>): the advisory pass the editor and the generation gate run
  over the program of a stat, with the tokenizer the game runs. It lists the labels a program
  defines and warns of sends that reach nothing and of a \<open>#change\<close> that erases its own object.
\<close>

section \<open>Words\<close>

definition lowerByte :: "char \<Rightarrow> char" where
  "lowerByte c = (if ord CHR ''A'' \<le> ord c \<and> ord c \<le> ord CHR ''Z'' then chr (ord c + 32) else c)"

text \<open>
  \<open>strings.ToUpper\<close>. A text of ASCII bytes is converted byte by byte; for any other the standard library
  consults the Unicode tables, which are the parameter.
\<close>

definition ToUpper :: "(string \<Rightarrow> string) \<Rightarrow> string \<Rightarrow> string" where
  "ToUpper unicode s = (if \<forall>c\<in>set s. ord c < 128 then map UpCase s else unicode s)"

definition oopCommands :: "string list" where
  "oopCommands =
     [''GO'', ''TRY'', ''WALK'', ''SET'', ''CLEAR'', ''IF'', ''SHOOT'', ''THROWSTAR'', ''GIVE'', ''TAKE'',
      ''END'', ''ENDGAME'', ''IDLE'', ''RESTART'', ''ZAP'', ''RESTORE'', ''LOCK'', ''UNLOCK'', ''SEND'', ''BECOME'',
      ''PUT'', ''CHANGE'', ''PLAY'', ''CYCLE'', ''CHAR'', ''DIE'', ''BIND'']"

definition elementNeedsStat :: "int \<Rightarrow> bool" where
  "elementNeedsStat el \<longleftrightarrow>
     el \<in> set [E_PLAYER, E_OBJECT, E_SCROLL, E_PASSAGE, E_TRANSPORTER, E_PUSHER, E_BOMB, E_BLINK_WALL, E_DUPLICATOR,
       E_BEAR, E_RUFFIAN, E_SPINNING_GUN, E_LION, E_TIGER, E_SLIME, E_SHARK, E_CENTIPEDE_HEAD,
       E_CENTIPEDE_SEGMENT, E_BULLET, E_STAR]"

definition oopHyperlinkLabel :: "string \<Rightarrow> string" where
  "oopHyperlinkLabel line =
     (case line of [] \<Rightarrow> []
      | c # s \<Rightarrow>
          if c \<noteq> CHR ''!'' then []
          else let s = takeWhile (\<lambda>c. c \<noteq> CHR '';'') s
               in if s \<noteq> [] \<and> hd s = CHR ''-'' then [] else s)"

section \<open>Warnings\<close>

definition oopSelfErasingChange :: "int \<Rightarrow> TTile \<Rightarrow> TTile \<Rightarrow> Engine \<Rightarrow> string option" where
  "oopSelfErasingChange statId fromTile toTile e =
     (if statId < 0 \<or> statId > StatCount (Board e) then Some []
      else do {
        s \<leftarrow> statAt statId e;
        self \<leftarrow> tileAt (sX s) (sY s) e;
        if Element self \<noteq> Element fromTile \<or> \<not> elementNeedsStat (Element self) then Some []
        else do {
          other \<leftarrow> (if Color fromTile \<noteq> 0
                    then map_option (\<lambda>c. c \<noteq> Color fromTile) (GetColorForTileMatch self) else Some False);
          if other \<or> elementNeedsStat (Element toTile) then Some []
          else do {
            dFrom \<leftarrow> elemDef (Element fromTile);
            dTo \<leftarrow> elemDef (Element toTile);
            dSelf \<leftarrow> elemDef (Element self);
            Some (''#change '' @ dName dFrom @ '' '' @ dName dTo @ '' erases this '' @ dName dSelf @
                  '' but leaves its stat behind; use #die to remove the object'') } } })"

text \<open>Does a send from this program to \<open>target\<close> reach a label?\<close>

definition labelExists :: "int \<Rightarrow> string \<Rightarrow> Engine \<Rightarrow> (bool \<times> Engine) option" where
  "labelExists src target e =
     (if target = [] then Some (False, e)
      else do { (found, _, _, e) \<leftarrow> OopFindLabel src target 0 0 [CR, CHR '':''] e; Some (found, e) })"

text \<open>The warnings one command line gives; \<open>position\<close> is behind the \<open>#\<close>.\<close>

definition analyzeCommand :: "int \<Rightarrow> int \<Rightarrow> int \<Rightarrow> Engine \<Rightarrow> (string list \<times> int \<times> Engine) option" where
  "analyzeCommand statId src position e =
     do { (position, e) \<leftarrow> OopReadWord src position e;
          (position, e) \<leftarrow> (if OopWord e = ''THEN'' then OopReadWord src position e else Some (position, e));
          let word = OopWord e;
          if word = [] then Some ([], position, e)
          else if word = ''SEND'' \<or> word = ''ZAP'' \<or> word = ''RESTORE'' then do {
            (position, e) \<leftarrow> OopReadWord src position e;
            let target = OopWord e;
            let name = CHR ''#'' # map lowerByte word;
            if target = [] then Some ([name @ '' has no label''], position, e)
            else do {
              (known, e) \<leftarrow> labelExists src target e;
              Some (if known then [] else [name @ '' '' @ target @ '': no such label''], position, e) } }
          else if word = ''CHANGE'' then do {
            (ok1, fromTile, position, e) \<leftarrow> OopParseTileAt src position \<lparr>Element = 0, Color = 0\<rparr> e;
            if \<not> ok1 then Some ([], position, e)
            else do {
              (ok2, toTile, position, e) \<leftarrow> OopParseTileAt src position \<lparr>Element = 0, Color = 0\<rparr> e;
              if \<not> ok2 then Some ([], position, e)
              else do {
                message \<leftarrow> oopSelfErasingChange statId fromTile toTile e;
                Some (if message = [] then [] else [message], position, e) } } }
          else if word \<in> set oopCommands then Some ([], position, e)
          else do {
            (known, e) \<leftarrow> labelExists src word e;
            Some (if known then [] else [CHR ''#'' # word @ '': unknown command or missing label''], position, e) } }"

section \<open>The pass\<close>

record OopAnalysis =
  oaLabels :: "(string \<times> int) list"
  oaWarnings :: "(int \<times> string) list"

definition addWarnings :: "int \<Rightarrow> string list \<Rightarrow> OopAnalysis \<Rightarrow> OopAnalysis" where
  "addWarnings line ms a = a\<lparr>oaWarnings := oaWarnings a @ map (\<lambda>m. (line, m)) ms\<rparr>"

partial_function (option) analyzeLoop ::
  "(string \<Rightarrow> string) \<Rightarrow> int \<Rightarrow> int \<Rightarrow> int \<Rightarrow> int \<Rightarrow> int \<Rightarrow> OopAnalysis \<Rightarrow> Engine \<Rightarrow> (OopAnalysis \<times> Engine) option" where
  "analyzeLoop unicode statId src dataLen position line a e =
     (if position < 0 \<or> position \<ge> dataLen then Some (a, e)
      else do {
        (position, e) \<leftarrow> OopReadChar src position e;
        (position, line, a, e) \<leftarrow>
          (if OopChar e = CHR '':'' then do {
             (position, e) \<leftarrow> OopReadWord src position e;
             let a = a\<lparr>oaLabels := oaLabels a @ [(OopWord e, line)]\<rparr>;
             (position, e) \<leftarrow> OopSkipLine src position e;
             Some (position, i16 (line + 1), a, e) }
           else if OopChar e = CHR ''#'' then do {
             (ms, position, e) \<leftarrow> analyzeCommand statId src position e;
             (position, e) \<leftarrow> OopSkipLine src position e;
             Some (position, i16 (line + 1), addWarnings line ms a, e) }
           else if OopChar e = CR then Some (position, i16 (line + 1), a, e)
           else if OopChar e = NUL then Some (-1, line, a, e)
           else do {
             let first = OopChar e;
             (rest, position, e) \<leftarrow> OopReadLineToEnd src position e;
             let label = oopHyperlinkLabel (first # rest);
             (dead, e) \<leftarrow> (if label = [] then Some (False, e)
                else do { (known, e) \<leftarrow> labelExists src label e; Some (\<not> known, e) });
             let ms = (if dead then [CHR ''!'' # ToUpper unicode label @ '': no such label''] else []);
             Some (position, i16 (line + 1), addWarnings line ms a, e) });
        analyzeLoop unicode statId src dataLen position line a e })"

definition OopAnalyze :: "(string \<Rightarrow> string) \<Rightarrow> int \<Rightarrow> Engine \<Rightarrow> (OopAnalysis \<times> Engine) option" where
  "OopAnalyze unicode statId e =
     (let none = \<lparr>oaLabels = [], oaWarnings = []\<rparr> in
      if statId < 0 \<or> statId > StatCount (Board e) then Some (none, e)
      else do {
        s \<leftarrow> statAt statId e;
        let src = (if DataLen s < 0 then i16 (- DataLen s) else statId);
        if src < 0 \<or> src > StatCount (Board e) then Some (none, e)
        else do {
          p \<leftarrow> statAt src e;
          if DataLen p \<le> 0 then Some (none, e)
          else analyzeLoop unicode statId src (DataLen p) 0 0 none e } })"

end
