(* ===== verification/Lookup.thy ===== *)
theory Lookup
  imports BoardFile
begin

text \<open>
  The searches over the stat array and the board, against their specifications: which stat a
  square holds (\<open>GetStatIdAt\<close>, \<open>StatAt\<close>) and where a player who has no room is put
  (\<open>FindPlacement\<close>).
\<close>

section \<open>The stat on a square\<close>

definition statOn :: "int \<Rightarrow> int \<Rightarrow> Engine \<Rightarrow> int \<Rightarrow> bool" where
  "statOn x y e i \<longleftrightarrow> sX (Stats (Board e) i) = x \<and> sY (Stats (Board e) i) = y"

lemma statAt_fits [simp]: "0 \<le> i \<Longrightarrow> i \<le> 151 \<Longrightarrow> statAt i e = Some (Stats (Board e) i)"
  by (simp add: statAt_def inStats_def)

lemma firstM_find: "(\<And>x. x \<in> set xs \<Longrightarrow> p x = Some (q x)) \<Longrightarrow> firstM p xs = Some (find q xs)"
  by (induction xs) simp_all

lemma find_upto: "find p [i..n] = (if i \<le> n then if p i then Some i else find p [i + 1..n] else None)"
  by (subst upto.simps) simp

lemma GetStatIdAt_loop_find:
  assumes "0 \<le> i" and "i \<le> StatCount (Board e) + 1" and "StatCount (Board e) \<le> 150"
  shows "GetStatIdAt_loop i x y e =
    Some (case find (statOn x y e) [i..StatCount (Board e)] of Some j \<Rightarrow> j | None \<Rightarrow> StatCount (Board e) + 1)"
  using assms
proof (induction i x y e rule: GetStatIdAt_loop.induct)
  case (1 i x y e)
  show ?case
  proof (cases "statOn x y e i \<or> i > StatCount (Board e)")
    case True
    then show ?thesis
      using 1(2-4) by (subst GetStatIdAt_loop.simps) (auto simp: statOn_def find_upto [of _ i])
  next
    case False
    then have "GetStatIdAt_loop i x y e = GetStatIdAt_loop (i + 1) x y e"
      using 1(2-4) by (subst GetStatIdAt_loop.simps) (auto simp: statOn_def)
    moreover have "\<not> (sX (Stats (Board e) i) = x \<and> sY (Stats (Board e) i) = y \<or> i > StatCount (Board e))"
      using False by (simp add: statOn_def)
    ultimately show ?thesis
      using 1 False by (simp add: find_upto [of _ i])
  qed
qed

text \<open>
  \<open>GetStatIdAt\<close> returns the lowest id of a stat on the square, stat 0 and \<open>StatCount\<close>
  included, and -1 when the board has none there.
\<close>

theorem GetStatIdAt_first:
  assumes "0 \<le> StatCount (Board e)" and "StatCount (Board e) \<le> 150"
  shows "GetStatIdAt x y e =
    Some (case find (statOn x y e) [0..StatCount (Board e)] of Some i \<Rightarrow> i | None \<Rightarrow> -1)"
proof (cases "find (statOn x y e) [0..StatCount (Board e)]")
  case None
  then show ?thesis using assms by (simp add: GetStatIdAt_def GetStatIdAt_loop_find)
next
  case (Some i)
  then have "i \<le> StatCount (Board e)" by (auto simp: find_Some_iff nth_upto)
  with Some show ?thesis using assms by (simp add: GetStatIdAt_def GetStatIdAt_loop_find)
qed

theorem GetStatIdAt_first_witness:
  "GetStatIdAt 0 0 NewEngine = Some 0 \<and> GetStatIdAt 3 4 NewEngine = Some (-1)"
  using GetStatIdAt_first [of NewEngine 0 0] GetStatIdAt_first [of NewEngine 3 4]
  by (simp add: NewEngine_def zeroBoard_def zeroStat_def statOn_def)

text \<open>
  C6. A board with \<open>StatCount\<close> 151 passes every check of the stat array, but there a search that
  finds nothing reads \<open>Stats[152]\<close>, past the end, and panics.
\<close>

theorem GetStatIdAt_full_panics:
  assumes "StatCount (Board e) = 151" and "\<forall>i. \<not> statOn x y e i"
  shows "GetStatIdAt x y e = None"
proof -
  have "0 \<le> i \<Longrightarrow> GetStatIdAt_loop i x y e = None" for i
    using assms
  proof (induction i x y e rule: GetStatIdAt_loop.induct)
    case (1 i x y e)
    have n: "\<not> (sX (Stats (Board e) i) = x \<and> sY (Stats (Board e) i) = y)"
      using 1(4) by (simp add: statOn_def)
    show ?case
    proof (cases "i \<le> 151")
      case True
      then have "GetStatIdAt_loop (i + 1) x y e = None" using 1 n by simp
      then show ?thesis using True 1(2,3) n by (subst GetStatIdAt_loop.simps) auto
    next
      case False
      then show ?thesis by (subst GetStatIdAt_loop.simps) (simp add: statAt_def inStats_def)
    qed
  qed
  then show ?thesis by (simp add: GetStatIdAt_def)
qed

theorem GetStatIdAt_full_panics_witness: "GetStatIdAt 3 4 (setStatCount 151 NewEngine) = None"
  by (rule GetStatIdAt_full_panics) (simp_all add: setStatCount_def NewEngine_def zeroBoard_def zeroStat_def statOn_def)

lemma StatAt_find:
  assumes "StatCount (Board e) \<le> 151"
  shows "StatAt x y ex e = Some (find (\<lambda>i. i \<noteq> ex \<and> statOn x y e i) [0..StatCount (Board e)])"
  unfolding StatAt_def using assms by (intro firstM_find) (auto simp: statOn_def)

section \<open>Placement\<close>

definition openSquare :: "int \<Rightarrow> Engine \<Rightarrow> int \<Rightarrow> int \<Rightarrow> bool" where
  "openSquare ex e x y \<longleftrightarrow>
     onBoard x y \<and> Element (Tiles (Board e) x y) = E_EMPTY \<and>
     (\<forall>i. 0 \<le> i \<and> i \<le> StatCount (Board e) \<and> i \<noteq> ex \<longrightarrow> \<not> statOn x y e i)"

lemma PlacementOpen_eq:
  assumes "StatCount (Board e) \<le> 151"
  shows "PlacementOpen x y ex e = Some (openSquare ex e x y)"
  using assms
  by (auto simp: PlacementOpen_def openSquare_def elementAt_def tileAt_def inTiles_def onBoard_def
      StatAt_find find_None_iff)

text \<open>The distance by which \<open>FindPlacement\<close> orders the squares: king's moves.\<close>

definition kingDistance :: "int \<times> int \<Rightarrow> int \<times> int \<Rightarrow> int" where
  "kingDistance p q = max \<bar>fst p - fst q\<bar> \<bar>snd p - snd q\<bar>"

lemma absInt16_small: "-32767 \<le> n \<Longrightarrow> n \<le> 32767 \<Longrightarrow> absInt16 n = \<bar>n\<bar>"
  by (auto simp: absInt16_def)

lemma ringOffsets_iff:
  assumes "1 \<le> r" and "r \<le> 60"
  shows "(dx, dy) \<in> set (ringOffsets r) \<longleftrightarrow> max \<bar>dx\<bar> \<bar>dy\<bar> = r"
  using assms by (auto simp: ringOffsets_def absInt16_small)

lemma append_split:
  "A @ B = us @ d # vs \<Longrightarrow> (\<exists>ws. A = us @ d # ws) \<or> (\<exists>ws. us = A @ ws \<and> B = ws @ d # vs)"
  by (auto simp: append_eq_append_conv2 append_eq_Cons_conv)

definition searchOffsets :: "(int \<times> int) list" where
  "searchOffsets = concat (map ringOffsets [1..60])"

lemma rings_split:
  assumes "concat (map ringOffsets [1..n]) = us @ d # vs" and "n \<le> 60"
  shows "\<exists>r. 1 \<le> r \<and> r \<le> n \<and> d \<in> set (ringOffsets r) \<and>
    (\<forall>s d'. 1 \<le> s \<longrightarrow> s < r \<longrightarrow> d' \<in> set (ringOffsets s) \<longrightarrow> d' \<in> set us)"
  using assms
proof (induction "nat n" arbitrary: n us vs)
  case 0
  then show ?case by simp
next
  case (Suc k)
  then have n: "1 \<le> n" by simp
  have rec: "[1..n] = [1..n - 1] @ [n]" using n by (simp add: upto_rec2)
  consider (before) ws where "concat (map ringOffsets [1..n - 1]) = us @ d # ws"
    | (last) ws where "us = concat (map ringOffsets [1..n - 1]) @ ws" "ringOffsets n = ws @ d # vs"
    using Suc.prems(1) append_split [of "concat (map ringOffsets [1..n - 1])" "ringOffsets n" us d vs]
    by (auto simp: rec)
  then show ?case
  proof cases
    case before
    moreover have "k = nat (n - 1)" "n - 1 \<le> 60" using Suc by simp_all
    ultimately obtain r where "1 \<le> r" "r \<le> n - 1" "d \<in> set (ringOffsets r)"
      "\<forall>s d'. 1 \<le> s \<longrightarrow> s < r \<longrightarrow> d' \<in> set (ringOffsets s) \<longrightarrow> d' \<in> set us"
      using Suc.hyps(1) by blast
    then show ?thesis by (intro exI [of _ r]) auto
  next
    case last
    then show ?thesis using n by (intro exI [of _ n]) auto
  qed
qed

lemma find_split: "find q xs = Some d \<Longrightarrow> \<exists>us vs. xs = us @ d # vs \<and> q d \<and> (\<forall>d'\<in>set us. \<not> q d')"
proof (induction xs)
  case (Cons a xs)
  show ?case
  proof (cases "q a")
    case True
    then show ?thesis using Cons.prems by (intro exI [of _ "[]"] exI [of _ xs]) simp
  next
    case False
    then obtain us vs where "xs = us @ d # vs" "q d" "\<forall>d'\<in>set us. \<not> q d'" using Cons by auto
    with False show ?thesis by (intro exI [of _ "a # us"] exI [of _ vs]) simp
  qed
qed simp

text \<open>What the search of \<open>FindPlacement\<close> tests an offset for.\<close>

definition offsetOpen :: "int \<Rightarrow> Engine \<Rightarrow> int \<times> int \<Rightarrow> int \<times> int \<Rightarrow> bool" where
  "offsetOpen ex e p d = openSquare ex e (i16 (fst p + fst d)) (i16 (snd p + snd d))"

lemma FindPlacement_find:
  assumes "\<not> openSquare ex e x y" and "StatCount (Board e) \<le> 151"
  shows "FindPlacement x y ex e =
    Some (case find (offsetOpen ex e (x, y)) searchOffsets of
            Some (dx, dy) \<Rightarrow> (i16 (x + dx), i16 (y + dy), True) | None \<Rightarrow> (x, y, False))"
  using assms
  by (simp add: searchOffsets_def FindPlacement_def PlacementOpen_eq offsetOpen_def split_def
      firstM_find [where q = "offsetOpen ex e (x, y)"])

lemma open_in_ring:
  assumes "onBoard x y" and "openSquare ex e u v" and "(u, v) \<noteq> (x, y)"
  defines "r \<equiv> kingDistance (x, y) (u, v)"
  shows "1 \<le> r" and "r \<le> 60" and "(u - x, v - y) \<in> set (ringOffsets r)"
    and "offsetOpen ex e (x, y) (u - x, v - y)"
proof -
  have r: "r = max \<bar>u - x\<bar> \<bar>v - y\<bar>" by (simp add: r_def kingDistance_def abs_minus_commute)
  have b: "1 \<le> x" "x \<le> 60" "1 \<le> y" "y \<le> 25" "1 \<le> u" "u \<le> 60" "1 \<le> v" "v \<le> 25"
    using assms(1,2) by (simp_all add: openSquare_def onBoard_def)
  with assms(3) show lo: "1 \<le> r" and hi: "r \<le> 60" by (auto simp: r)
  show "(u - x, v - y) \<in> set (ringOffsets r)" using ringOffsets_iff [OF lo hi] by (simp add: r)
  show "offsetOpen ex e (x, y) (u - x, v - y)" using assms(2) b by (simp add: offsetOpen_def)
qed

lemma ring_distance:
  assumes "onBoard x y" and "1 \<le> r" and "r \<le> 60" and "(dx, dy) \<in> set (ringOffsets r)"
  shows "i16 (x + dx) = x + dx" "i16 (y + dy) = y + dy" "kingDistance (x, y) (x + dx, y + dy) = r"
  using assms by (auto simp: onBoard_def ringOffsets_iff kingDistance_def)

text \<open>
  C7. A player with no room goes to a nearest open square: the square found is open, no open
  square of the board is closer, and \<open>ok\<close> is false only when the whole board has none.
\<close>

theorem FindPlacement_nearest:
  assumes "onBoard x y" and "StatCount (Board e) \<le> 151"
  shows "returns (\<lambda>(x', y', found).
      if found then openSquare ex e x' y' \<and>
        (\<forall>u v. openSquare ex e u v \<longrightarrow> kingDistance (x, y) (x', y') \<le> kingDistance (x, y) (u, v))
      else (x', y') = (x, y) \<and> (\<forall>u v. \<not> openSquare ex e u v))
    (FindPlacement x y ex e)"
proof (cases "openSquare ex e x y")
  case True
  then show ?thesis
    using assms(2) by (auto simp: FindPlacement_def PlacementOpen_eq kingDistance_def)
next
  case False
  have other: "(u, v) \<noteq> (x, y)" if "openSquare ex e u v" for u v using that False by auto
  show ?thesis
  proof (cases "find (offsetOpen ex e (x, y)) searchOffsets")
    case None
    then have "False" if "openSquare ex e u v" for u v
      using open_in_ring [OF assms(1) that other [OF that]] unfolding find_None_iff searchOffsets_def set_concat set_map set_upto
      by (metis UN_I atLeastAtMost_iff imageI Union_iff)
    with None show ?thesis by (auto simp: FindPlacement_find [OF False assms(2)])
  next
    case (Some d)
    then obtain us vs where offs: "searchOffsets = us @ d # vs" and d: "offsetOpen ex e (x, y) d"
      and none: "\<forall>d'\<in>set us. \<not> offsetOpen ex e (x, y) d'" using find_split [OF Some] by blast
    obtain r where r: "1 \<le> r" "r \<le> 60" "d \<in> set (ringOffsets r)"
      and closer: "\<And>s d'. 1 \<le> s \<Longrightarrow> s < r \<Longrightarrow> d' \<in> set (ringOffsets s) \<Longrightarrow> d' \<in> set us"
      using rings_split [OF offs [unfolded searchOffsets_def]] by auto
    have far: "r \<le> kingDistance (x, y) (u, v)" if "openSquare ex e u v" for u v
      using open_in_ring [OF assms(1) that other [OF that]] closer none by (meson not_le)
    obtain dx dy where dd: "d = (dx, dy)" by (cases d)
    show ?thesis
      using Some d far ring_distance [OF assms(1) r(1,2) r(3) [unfolded dd]]
      by (simp add: FindPlacement_find [OF False assms(2)] dd offsetOpen_def)
  qed
qed

theorem FindPlacement_nearest_witness:
  "returns (\<lambda>(x', y', found).
      if found then openSquare (-1) NewEngine x' y' \<and>
        (\<forall>u v. openSquare (-1) NewEngine u v \<longrightarrow> kingDistance (30, 12) (x', y') \<le> kingDistance (30, 12) (u, v))
      else (x', y') = (30, 12) \<and> (\<forall>u v. \<not> openSquare (-1) NewEngine u v))
    (FindPlacement 30 12 (-1) NewEngine)"
  by (rule FindPlacement_nearest) (simp_all add: onBoard_def NewEngine_def zeroBoard_def)

end
