(* ===== verification/Frame.thy ===== *)
theory Frame
  imports Elements_Table
begin

text \<open>
  How an operation may change its state, as a preorder \<open>R\<close> on states. The locale turns
  \<open>ok (R e0) r\<close> for a do-block \<open>r\<close> into one goal per primitive step, so that a frame property
  of a large operation is proved by repeated resolution with these rules and the lemmas of the
  operations it calls. Its interpretations are what drawing may change (\<open>Drawn\<close>), what a whole
  game cycle may not (\<open>Keeps\<close>, \<open>Runs\<close>), and what the inner operations of the room manager keep
  (\<open>RoomFrame\<close>).
\<close>

section \<open>Paths of a do-block\<close>

lemma okI: "(\<And>x. r = Some x \<Longrightarrow> P x) \<Longrightarrow> ok P r"
  by (simp add: ok_def)

lemma ok_bind_any: "(\<And>x. ok P (f x)) \<Longrightarrow> ok P (m \<bind> f)"
  by (cases m) simp_all

text \<open>A step that yields a value and no engine tells nothing about the engine.\<close>

lemmas ok_bind_value =
  ok_bind_any [where 'a = int] ok_bind_any [where 'a = bool] ok_bind_any [where 'a = unit]
  ok_bind_any [where 'a = TTile] ok_bind_any [where 'a = TStat]
  ok_bind_any [where 'a = "int option"] ok_bind_any [where 'a = "int \<times> int"]
  ok_bind_any [where 'a = "int \<times> int \<times> bool"] ok_bind_any [where 'a = "'b list"]
  ok_bind_any [where 'a = "int list \<times> int list"] ok_bind_any [where 'a = TElementDef]
  ok_bind_any [where 'a = char] ok_bind_any [where 'a = TRleTile] ok_bind_any [where 'a = TBoardInfo]
  ok_bind_any [where 'a = "(int \<times> int) option"] ok_bind_any [where 'a = "bool \<times> int \<times> int"]
  ok_bind_any [where 'a = "int \<times> int list"] ok_bind_any [where 'a = "bool \<times> (int \<Rightarrow> 'b)"]

lemma ok_if_any: "ok P m \<Longrightarrow> ok P n \<Longrightarrow> ok P (if b then m else n)"
  by simp

lemma ok_pair_any: "ok P (f a b) \<Longrightarrow> ok P (case (a, b) of (x, y) \<Rightarrow> f x y)"
  by simp

lemma ok_prod_any: "(\<And>a b. ok P (f a b)) \<Longrightarrow> ok P (case p of (a, b) \<Rightarrow> f a b)"
  by (cases p) simp

lemma ok_option_any: "ok P m \<Longrightarrow> (\<And>x. ok P (f x)) \<Longrightarrow> ok P (case v of None \<Rightarrow> m | Some x \<Rightarrow> f x)"
  by (cases v) simp_all

lemma ok_list_any: "ok P m \<Longrightarrow> (\<And>x xs. ok P (f x xs)) \<Longrightarrow> ok P (case v of [] \<Rightarrow> m | x # xs \<Rightarrow> f x xs)"
  by (cases v) simp_all

lemma ok_Some_if: "ok P (Some a) \<Longrightarrow> ok P (Some b) \<Longrightarrow> ok P (Some (if c then a else b))"
  by simp

lemma ok_Some_option:
  "ok P (Some a) \<Longrightarrow> (\<And>x. ok P (Some (f x))) \<Longrightarrow> ok P (Some (case v of None \<Rightarrow> a | Some x \<Rightarrow> f x))"
  by (cases v) simp_all

lemma ok_let_any: "(\<And>x. ok P (f x)) \<Longrightarrow> ok P (let x = t in f x)"
  by simp

lemma ok_prod_app: "(\<And>a b. ok P (f a b e)) \<Longrightarrow> ok P ((case p of (a, b) \<Rightarrow> f a b) e)"
  by (cases p) simp

text \<open>A pattern-matching \<open>let\<close> on a pair whose second component is no engine.\<close>

lemmas ok_prod_value =
  ok_prod_any [where 'b = int] ok_prod_any [where 'b = "int \<times> int"] ok_prod_any [where 'b = string]
  ok_prod_any [where 'b = bool] ok_prod_any [where 'b = "'c list"] ok_prod_any [where 'b = "int \<Rightarrow> 'c"]

lemmas ok_let_value =
  ok_let_any [where 'a = int] ok_let_any [where 'a = bool] ok_let_any [where 'a = TTile]
  ok_let_any [where 'a = "'b list"] ok_let_any [where 'a = TStat] ok_let_any [where 'a = char]
  ok_let_any [where 'a = nat] ok_let_any [where 'a = "'b option"] ok_let_any [where 'a = PlayerState]
  ok_let_any [where 'a = "int \<Rightarrow> 'b"] ok_let_any [where 'a = "int \<times> int"]
  ok_let_any [where 'a = "int \<times> int \<times> int"] ok_let_any [where 'a = "bool \<times> int"]
  ok_let_any [where 'a = "int \<times> string"]

text \<open>The same, keeping the equations and conditions of the path: induction hypotheses need them.\<close>

lemmas ok_bind_value_eq =
  ok_bind_eq [where 'a = int] ok_bind_eq [where 'a = bool] ok_bind_eq [where 'a = TTile]
  ok_bind_eq [where 'a = TStat] ok_bind_eq [where 'a = char] ok_bind_eq [where 'a = "'b list"]

lemmas ok_paths_eq =
  ok_NoneI ok_pair_any ok_if ok_bind_value_eq ok_let

lemmas ok_paths =
  ok_NoneI ok_pair_any ok_if_any ok_bind_value ok_let_value ok_prod_value ok_prod_app ok_option_any ok_list_any
  ok_Some_if ok_Some_option

section \<open>Preorders on engines\<close>

locale frame =
  fixes R :: "'e \<Rightarrow> 'e \<Rightarrow> bool"
  assumes refl: "R e e"
    and trans: "R a b \<Longrightarrow> R b c \<Longrightarrow> R a c"
begin

text \<open>The engine in the result of an operation that also yields a value.\<close>

definition R2 :: "'e \<Rightarrow> 'a \<times> 'e \<Rightarrow> bool" where
  "R2 e r \<longleftrightarrow> R e (snd r)"

definition R3 :: "'e \<Rightarrow> 'a \<times> 'b \<times> 'e \<Rightarrow> bool" where
  "R3 e r \<longleftrightarrow> R e (snd (snd r))"

definition R4 :: "'e \<Rightarrow> 'a \<times> 'b \<times> 'c \<times> 'e \<Rightarrow> bool" where
  "R4 e r \<longleftrightarrow> R e (snd (snd (snd r)))"

definition R5 :: "'e \<Rightarrow> 'a \<times> 'b \<times> 'c \<times> 'd \<times> 'e \<Rightarrow> bool" where
  "R5 e r \<longleftrightarrow> R e (snd (snd (snd (snd r))))"

lemma someI: "R start e \<Longrightarrow> ok (R start) (Some e)"
  by simp

lemma some2: "R start e \<Longrightarrow> ok (R2 start) (Some (a, e))"
  by (simp add: R2_def)

lemma some2_any: "R start (snd r) \<Longrightarrow> ok (R2 start) (Some r)"
  by (simp add: R2_def)

lemma some3: "R start e \<Longrightarrow> ok (R3 start) (Some (a, b, e))"
  by (simp add: R3_def)

lemma some4: "R start e \<Longrightarrow> ok (R4 start) (Some (a, b, c, e))"
  by (simp add: R4_def)

lemma some5: "R start e \<Longrightarrow> ok (R5 start) (Some (a, b, c, d, e))"
  by (simp add: R5_def)

lemma bind: "ok (R start) m \<Longrightarrow> (\<And>e. R start e \<Longrightarrow> ok P (f e)) \<Longrightarrow> ok P (m \<bind> f)"
  by (cases m) simp_all

lemma bind2: "ok (R2 start) m \<Longrightarrow> (\<And>a e. R start e \<Longrightarrow> ok P (f (a, e))) \<Longrightarrow> ok P (m \<bind> f)"
  by (cases m) (auto simp: R2_def)

lemma bind3: "ok (R3 start) m \<Longrightarrow> (\<And>a b e. R start e \<Longrightarrow> ok P (f (a, b, e))) \<Longrightarrow> ok P (m \<bind> f)"
  by (cases m) (auto simp: R3_def)

lemma bind4: "ok (R4 start) m \<Longrightarrow> (\<And>a b c e. R start e \<Longrightarrow> ok P (f (a, b, c, e))) \<Longrightarrow> ok P (m \<bind> f)"
  by (cases m) (auto simp: R4_def)

lemma bind5:
  "ok (R5 start) m \<Longrightarrow> (\<And>a b c d e. R start e \<Longrightarrow> ok P (f (a, b, c, d, e))) \<Longrightarrow> ok P (m \<bind> f)"
  by (cases m) (auto simp: R5_def)

lemma bind_eq: "ok (R start) m \<Longrightarrow> (\<And>e. m = Some e \<Longrightarrow> R start e \<Longrightarrow> ok P (f e)) \<Longrightarrow> ok P (m \<bind> f)"
  by (cases m) simp_all

lemma bind2_eq:
  "ok (R2 start) m \<Longrightarrow> (\<And>a e. m = Some (a, e) \<Longrightarrow> R start e \<Longrightarrow> ok P (f (a, e))) \<Longrightarrow> ok P (m \<bind> f)"
  by (cases m) (auto simp: R2_def)

lemma prod: "R start (snd p) \<Longrightarrow> (\<And>a e. R start e \<Longrightarrow> ok P (f a e)) \<Longrightarrow> ok P (case p of (a, e) \<Rightarrow> f a e)"
  by (cases p) simp

lemma letI: "R start t \<Longrightarrow> (\<And>e. R start e \<Longrightarrow> ok P (f e)) \<Longrightarrow> ok P (let e = t in f e)"
  by simp

lemma let2: "R start (snd p) \<Longrightarrow> (\<And>a e. R start e \<Longrightarrow> ok P (f (a, e))) \<Longrightarrow> ok P (Let p f)"
  by (cases p) simp

lemma map_snd: "ok (R2 start) m \<Longrightarrow> ok (R start) (map_option snd m)"
  by (cases m) (auto simp: R2_def)

lemma foldM_frame:
  "R start e \<Longrightarrow> (\<And>x e. R start e \<Longrightarrow> ok (R start) (f x e)) \<Longrightarrow> ok (R start) (foldM f xs e)"
  by (rule ok_foldM)

lemma foldM_frame2:
  assumes "R start e" and "\<And>x a e. R start e \<Longrightarrow> ok (R2 start) (f x (a, e))"
  shows "ok (R2 start) (foldM f xs (a, e))"
  using assms by (intro ok_foldM) (auto simp: R2_def)

lemma foldM_frame3:
  assumes "R start e" and "\<And>x a b e. R start e \<Longrightarrow> ok (R3 start) (f x (a, b, e))"
  shows "ok (R3 start) (foldM f xs (a, b, e))"
  using assms by (intro ok_foldM) (auto simp: R3_def)

lemma fold_frame: "R start e \<Longrightarrow> (\<And>x e. R start e \<Longrightarrow> R start (f x e)) \<Longrightarrow> R start (fold f xs e)"
  by (induction xs arbitrary: e) simp_all

lemma if_frame: "R start a \<Longrightarrow> R start b \<Longrightarrow> R start (if c then a else b)"
  by simp

lemma let_frame: "(\<And>x. R start (f x)) \<Longrightarrow> R start (let x = t in f x)"
  by simp

lemma chain: "ok (R e) m \<Longrightarrow> R start e \<Longrightarrow> ok (R start) m"
  by (auto simp: ok_def intro: trans)

lemma chain2: "ok (R2 e) m \<Longrightarrow> R start e \<Longrightarrow> ok (R2 start) m"
  by (auto simp: ok_def R2_def intro: trans)

lemma prod_frame: "(\<And>a b. R start (f a b)) \<Longrightarrow> R start (case p of (a, b) \<Rightarrow> f a b)"
  by (cases p) simp

lemma snd_if: "R start (snd a) \<Longrightarrow> R start (snd b) \<Longrightarrow> R start (snd (if c then a else b))"
  by simp

lemma snd_pair: "R start e \<Longrightarrow> R start (snd (a, e))"
  by simp

lemmas steps =
  bind [where start = s and P = "R s" for s] bind [where start = s and P = "R2 s" for s] bind [where start = s and P = "R3 s" for s]
  bind [where start = s and P = "R4 s" for s] bind [where start = s and P = "R5 s" for s]
  bind2 [where start = s and P = "R s" for s] bind2 [where start = s and P = "R2 s" for s] bind2 [where start = s and P = "R3 s" for s]
  bind2 [where start = s and P = "R4 s" for s] bind2 [where start = s and P = "R5 s" for s]
  bind3 [where start = s and P = "R s" for s] bind3 [where start = s and P = "R2 s" for s] bind3 [where start = s and P = "R3 s" for s]
  bind3 [where start = s and P = "R4 s" for s]
  bind4 [where start = s and P = "R s" for s] bind4 [where start = s and P = "R2 s" for s] bind4 [where start = s and P = "R3 s" for s]
  bind4 [where start = s and P = "R4 s" for s]
  bind5 [where start = s and P = "R s" for s] bind5 [where start = s and P = "R2 s" for s]
  letI [where start = s and P = "R s" for s] letI [where start = s and P = "R2 s" for s] letI [where start = s and P = "R3 s" for s]
  letI [where start = s and P = "R4 s" for s]
  let2 [where start = s and P = "R s" for s] let2 [where start = s and P = "R2 s" for s] let2 [where start = s and P = "R3 s" for s]
  let2 [where start = s and P = "R4 s" for s]
  prod [where start = s and P = "R s" for s] prod [where start = s and P = "R2 s" for s] prod [where start = s and P = "R3 s" for s]
  prod [where start = s and P = "R4 s" for s]

text \<open>The same for the pure operations, whose result is an engine or a pair with one.\<close>

lemma let_pure: "R start t \<Longrightarrow> (\<And>e. R start e \<Longrightarrow> R start (f e)) \<Longrightarrow> R start (Let t f)"
  by simp

lemma let2_pure: "R start (snd p) \<Longrightarrow> (\<And>a e. R start e \<Longrightarrow> R start (f (a, e))) \<Longrightarrow> R start (Let p f)"
  by (cases p) simp

lemma let_value_pure: "(\<And>x. R start (f x)) \<Longrightarrow> R start (Let t f)"
  by simp

lemma pair_pure: "R start (f a b) \<Longrightarrow> R start (case (a, b) of (x, y) \<Rightarrow> f x y)"
  by simp

lemma snd_let: "R start t \<Longrightarrow> (\<And>e. R start e \<Longrightarrow> R start (snd (f e))) \<Longrightarrow> R start (snd (Let t f))"
  by simp

lemma snd_let2:
  "R start (snd p) \<Longrightarrow> (\<And>a e. R start e \<Longrightarrow> R start (snd (f (a, e)))) \<Longrightarrow> R start (snd (Let p f))"
  by (cases p) simp

lemma snd_let_value: "(\<And>x. R start (snd (f x))) \<Longrightarrow> R start (snd (Let t f))"
  by simp

lemma snd_case_pair: "R start (snd (f a b)) \<Longrightarrow> R start (snd (case (a, b) of (x, y) \<Rightarrow> f x y))"
  by simp

lemmas pure =
  let_pure let2_pure let_value_pure [where 'a = int] let_value_pure [where 'a = bool]
  let_value_pure [where 'a = "int \<times> int"] pair_pure snd_let snd_let2
  snd_let_value [where 'a = int] snd_let_value [where 'a = bool] snd_let_value [where 'a = "int \<times> int"]
  snd_case_pair snd_if snd_pair if_frame fold_frame

lemmas paths_eq =
  someI some2 some3
  bind_eq [where start = s and P = "R s" for s] bind_eq [where start = s and P = "R2 s" for s]
  bind_eq [where start = s and P = "R3 s" for s]
  bind2_eq [where start = s and P = "R s" for s] bind2_eq [where start = s and P = "R2 s" for s]
  bind2_eq [where start = s and P = "R3 s" for s]

lemmas paths =
  someI some2 some3 some4 some5 some2_any map_snd steps foldM_frame foldM_frame2 foldM_frame3 pure

text \<open>What the whole development uses it for: the frame of an operation from its unfolding.\<close>

lemma frame_ok: "(\<And>start e. R start e \<Longrightarrow> ok (R start) (f e)) \<Longrightarrow> f e = Some e' \<Longrightarrow> R e e'"
  using refl by (auto simp: ok_def)

lemma frame_ok2: "(\<And>start e. R start e \<Longrightarrow> ok (R2 start) (f e)) \<Longrightarrow> f e = Some (a, e') \<Longrightarrow> R e e'"
  using refl by (fastforce simp: ok_def R2_def)

end

end
