(* ===== verification/Drawn.thy ===== *)
theory Drawn
  imports Frame Draw Stats
begin

text \<open>
  What drawing may change: the screen and its dirty lists, the colour of a star (whose draw
  procedure cycles it), and the player states that looking a player up allocates. Everything
  else of the engine is the same after \<open>BoardDrawTile\<close> as before it.
\<close>

definition starsOnly :: "(int \<Rightarrow> int \<Rightarrow> TTile) \<Rightarrow> (int \<Rightarrow> int \<Rightarrow> TTile) \<Rightarrow> bool" where
  "starsOnly t t' \<longleftrightarrow>
     (\<forall>x y. t' x y = t x y \<or> (Element (t x y) = E_STAR \<and> Element (t' x y) = E_STAR))"

definition allocated :: "Engine \<Rightarrow> Engine \<Rightarrow> bool" where
  "allocated e e' \<longleftrightarrow>
     PNext e \<le> PNext e' \<and>
     (\<forall>i a. Players e i = Some a \<longrightarrow> Players e' i = Some a) \<and>
     (\<forall>i a. Players e' i = Some a \<longrightarrow> Players e i = Some a \<or> PNext e \<le> a \<and> a < PNext e') \<and>
     (\<forall>a < PNext e. PHeap e' a = PHeap e a)"

text \<open>The rest of the engine: what drawing may change is blanked.\<close>

definition rest :: "Engine \<Rightarrow> Engine" where
  "rest e = e\<lparr>Screen := (\<lambda>_ _. (0, 0)), videoDirty := [], screenDirty := [],
              Players := (\<lambda>_. None), PHeap := (\<lambda>_. newPlayerState), PNext := 0,
              Board := (Board e)\<lparr>Tiles := (\<lambda>_ _. \<lparr>Element = 0, Color = 0\<rparr>)\<rparr>\<rparr>"

definition drawn :: "Engine \<Rightarrow> Engine \<Rightarrow> bool" where
  "drawn e e' \<longleftrightarrow>
     rest e' = rest e \<and> starsOnly (Tiles (Board e)) (Tiles (Board e')) \<and> allocated e e'"

lemma starsOnly_refl: "starsOnly t t"
  by (simp add: starsOnly_def)

lemma starsOnly_trans: "starsOnly a b \<Longrightarrow> starsOnly b c \<Longrightarrow> starsOnly a c"
  unfolding starsOnly_def by metis

lemma allocated_refl: "allocated e e"
  by (simp add: allocated_def)

lemma allocated_trans:
  assumes ab: "allocated a b" and bc: "allocated b c"
  shows "allocated a c"
proof -
  have n: "PNext a \<le> PNext b" "PNext b \<le> PNext c" using ab bc by (auto simp: allocated_def)
  moreover have "PHeap c p = PHeap a p" if "p < PNext a" for p
    using ab bc n that by (simp add: allocated_def)
  moreover have "Players c i = Some p" if "Players a i = Some p" for i p
    using ab bc that by (simp add: allocated_def)
  moreover have "Players a i = Some p \<or> PNext a \<le> p \<and> p < PNext c" if "Players c i = Some p" for i p
  proof -
    have "Players b i = Some p \<or> PNext b \<le> p \<and> p < PNext c" using bc that by (simp add: allocated_def)
    moreover have "Players a i = Some p \<or> PNext a \<le> p \<and> p < PNext b" if "Players b i = Some p"
      using ab that by (simp add: allocated_def)
    ultimately show ?thesis using n by auto
  qed
  ultimately show ?thesis by (simp add: allocated_def)
qed

interpretation draw: frame drawn
  by unfold_locales
     (auto simp: drawn_def starsOnly_refl allocated_refl intro: starsOnly_trans allocated_trans)

lemma drawn_rest [simp]:
  "rest (e\<lparr>Screen := s\<rparr>) = rest e" "rest (e\<lparr>videoDirty := v\<rparr>) = rest e"
  "rest (e\<lparr>screenDirty := d\<rparr>) = rest e" "rest (putTile x y t e) = rest e"
  "rest (e\<lparr>Players := ps, PHeap := h, PNext := n\<rparr>) = rest e"
  by (simp_all add: rest_def putTile_def)

section \<open>The screen and the players\<close>

named_theorems drawn_rules

lemma drawn_screen:
  assumes "drawn e0 e"
  shows "drawn e0 (e\<lparr>Screen := s\<rparr>)" "drawn e0 (e\<lparr>videoDirty := v\<rparr>)" "drawn e0 (e\<lparr>screenDirty := d\<rparr>)"
proof -
  have "drawn e (e\<lparr>Screen := s\<rparr>)" "drawn e (e\<lparr>videoDirty := v\<rparr>)" "drawn e (e\<lparr>screenDirty := d\<rparr>)"
    by (simp_all add: drawn_def starsOnly_refl allocated_def)
  then show "drawn e0 (e\<lparr>Screen := s\<rparr>)" "drawn e0 (e\<lparr>videoDirty := v\<rparr>)" "drawn e0 (e\<lparr>screenDirty := d\<rparr>)"
    using assms draw.trans by blast+
qed

lemma videoPut_drawn: "drawn e0 e \<Longrightarrow> drawn e0 (videoPut x y ch col e)"
  by (auto simp: videoPut_def intro!: drawn_screen)

lemma VideoWriteText_drawn [drawn_rules]: "drawn e0 e \<Longrightarrow> drawn e0 (VideoWriteText x y col txt e)"
  unfolding VideoWriteText_def VideoShow_def
  by (intro drawn_screen draw.fold_frame) (auto intro: videoPut_drawn)

lemma SidebarClearLine_drawn [drawn_rules]: "drawn e0 e \<Longrightarrow> drawn e0 (SidebarClearLine y e)"
  unfolding SidebarClearLine_def by (rule VideoWriteText_drawn)

lemma PlayerFor_allocated: "allocated e (snd (PlayerFor i e))"
  by (simp add: PlayerFor_def allocated_def split: option.split)

lemma PlayerFor_drawn [drawn_rules]: "drawn e0 e \<Longrightarrow> drawn e0 (snd (PlayerFor i e))"
proof -
  have "drawn e (snd (PlayerFor i e))"
    using PlayerFor_allocated [of e i]
    by (simp add: drawn_def PlayerFor_def starsOnly_refl split: option.splits)
  then show "drawn e0 e \<Longrightarrow> drawn e0 (snd (PlayerFor i e))" using draw.trans by blast
qed

lemma PlayerGlyph_drawn [drawn_rules]: "drawn e0 e \<Longrightarrow> drawn e0 (snd (PlayerGlyph i e))"
  using PlayerFor_drawn [of e0 e i] by (auto simp: PlayerGlyph_def Let_def split: prod.split)

lemma ReenterPoint_drawn [drawn_rules]: "drawn e0 e \<Longrightarrow> drawn e0 (snd (ReenterPoint i e))"
  using PlayerFor_drawn [of e0 e i] by (auto simp: ReenterPoint_def Let_def split: prod.split)

section \<open>Draw procedures\<close>

lemma ElementStarDraw_drawn:
  assumes "Element (Tiles (Board e) x y) = E_STAR" and "drawn e0 e"
  shows "ok (draw.R2 e0) (ElementStarDraw x y e)"
proof -
  have "drawn e (putTile x y (t\<lparr>Color := c\<rparr>) e)" if "t = Tiles (Board e) x y" for t c
    using assms(1) that unfolding drawn_def drawn_rest(4) by (auto simp: putTile_def starsOnly_def allocated_def)
  then show ?thesis
    using draw.trans [OF assms(2)]
    by (auto simp: ElementStarDraw_def Let_def ok_def draw.R2_def setColor_def setTile_def tileAt_def
      split: Option.bind_splits if_splits)
qed

lemma pureDraw_drawn [drawn_rules]:
  "drawn e0 e \<Longrightarrow> ok (draw.R2 e0) (ElementSpinningGunDraw x y e)"
  "drawn e0 e \<Longrightarrow> ok (draw.R2 e0) (ElementConveyorCWDraw x y e)"
  "drawn e0 e \<Longrightarrow> ok (draw.R2 e0) (ElementConveyorCCWDraw x y e)"
  "drawn e0 e \<Longrightarrow> ok (draw.R2 e0) (ElementBombDraw x y e)"
  "drawn e0 e \<Longrightarrow> ok (draw.R2 e0) (ElementLineDraw x y e)"
  "drawn e0 e \<Longrightarrow> ok (draw.R2 e0) (ElementTransporterDraw x y e)"
  "drawn e0 e \<Longrightarrow> ok (draw.R2 e0) (ElementBlinkWallDraw x y e)"
  "drawn e0 e \<Longrightarrow> ok (draw.R2 e0) (ElementDuplicatorDraw x y e)"
  "drawn e0 e \<Longrightarrow> ok (draw.R2 e0) (ElementObjectDraw x y e)"
  "drawn e0 e \<Longrightarrow> ok (draw.R2 e0) (ElementPusherDraw x y e)"
  unfolding ElementSpinningGunDraw_def ElementConveyorCWDraw_def ElementConveyorCCWDraw_def
    ElementBombDraw_def ElementLineDraw_def ElementTransporterDraw_def ElementBlinkWallDraw_def
    ElementDuplicatorDraw_def ElementObjectDraw_def ElementPusherDraw_def
  by (rule ok_paths draw.paths drawn_rules | assumption)+

lemma StarDraw_only: "elemDef el = Some d \<Longrightarrow> HasDrawProc d \<and> DrawProc d = StarDraw \<longrightarrow> el = E_STAR"
  by (rule elemDef_all [where P = "\<lambda>el d. HasDrawProc d \<and> DrawProc d = StarDraw \<longrightarrow> el = E_STAR"])
    (assumption, code_simp)

lemma ElementDraw_drawn:
  assumes "elemDef (Element (Tiles (Board e) x y)) = Some d" and "HasDrawProc d" and "drawn e0 e"
  shows "ok (draw.R2 e0) (ElementDraw (DrawProc d) x y e)"
proof (cases "DrawProc d = StarDraw")
  case True
  then show ?thesis
    using ElementStarDraw_drawn [OF _ assms(3), of x y] StarDraw_only [OF assms(1)] assms(2)
    by (simp add: ElementDraw_def)
next
  case False
  then show ?thesis
    using pureDraw_drawn [OF assms(3)] draw.some2 [OF assms(3)]
    by (cases "DrawProc d") (simp_all add: ElementDraw_def)
qed

section \<open>Squares\<close>

lemma PlayerFor_Board: "PlayerFor i e = (ps, e') \<Longrightarrow> Board e' = Board e"
  by (auto simp: PlayerFor_def split: option.splits)

lemma squareLit_Board: "squareLit x y p s el e = Some (b, e') \<Longrightarrow> Board e' = Board e"
  by (auto simp: squareLit_def Let_def split: if_splits Option.bind_splits prod.splits
    dest: PlayerFor_Board)

lemma squareLit_drawn [drawn_rules]: "drawn e0 e \<Longrightarrow> ok (draw.R2 e0) (squareLit x y p s el e)"
  unfolding squareLit_def by (rule ok_paths draw.paths drawn_rules | assumption)+

lemma TileToColorAndChar_drawn [drawn_rules]:
  assumes "drawn e0 e"
  shows "ok (draw.R2 e0) (TileToColorAndChar x y e)"
  unfolding TileToColorAndChar_def
proof (intro ok_bind_eq, clarify)
  fix tile pId pStat lit e1
  assume tile: "tileAt x y e = Some tile"
    and lit: "squareLit x y pId pStat (Element tile) e = Some (lit, e1)"
  have d1: "drawn e0 e1"
    using squareLit_drawn [OF assms, of x y pId pStat "Element tile"] lit
    by (simp add: ok_def draw.R2_def)
  have el: "Element (Tiles (Board e1) x y) = Element tile"
    using tile squareLit_Board [OF lit] by (auto simp: tileAt_def split: if_splits)
  have draw: "ok (draw.R2 e0) (ElementDraw (DrawProc d) x y e1)"
    if "elemDef (Element tile) = Some d" and "HasDrawProc d" for d
    using ElementDraw_drawn [of e1 x y d e0] el d1 that by simp
  show "ok (draw.R2 e0)
        (if \<not> lit then Some ((7, 176), e1)
         else if Element tile = E_EMPTY then Some ((15, 32), e1)
         else elemDef (Element tile) \<bind>
              (\<lambda>d. if HasDrawProc d
                   then ElementDraw (DrawProc d) x y e1 \<bind>
                        (\<lambda>(ch, e). colorAt x y e \<bind> (\<lambda>c. Some ((c, ch), e)))
                   else if Element tile = E_PLAYER
                        then if sX pStat = x \<and> sY pStat = y
                             then let (ch, e) = PlayerGlyph pId e1 in Some ((Color tile, ch), e)
                             else Some ((Color tile, 2), e1)
                        else if Element tile < E_TEXT_MIN
                             then ElementCharacter (Element tile) e1 \<bind>
                                  (\<lambda>ch. Some ((Color tile, ch), e1))
                             else if Element tile = E_TEXT_WHITE then Some ((15, Color tile), e1)
                                  else Some
                                        ((u8 ((Element tile - E_TEXT_MIN + 1) * 16 + 15),
                                          Color tile),
                                         e1)))"
    using d1
    by (intro ok_if ok_bind_eq [where m = "elemDef _"])
       (rule ok_paths draw.paths drawn_rules draw | assumption)+
qed

lemma BoardDrawTile_drawn [drawn_rules]: "drawn e0 e \<Longrightarrow> ok (drawn e0) (BoardDrawTile x y e)"
  unfolding BoardDrawTile_def by (rule ok_paths draw.paths drawn_rules | assumption)+

lemma BoardDrawBorder_drawn [drawn_rules]: "drawn e0 e \<Longrightarrow> ok (drawn e0) (BoardDrawBorder e)"
  unfolding BoardDrawBorder_def by (rule ok_paths draw.paths drawn_rules | assumption)+

lemma TransitionDraw_drawn [drawn_rules]:
  "drawn e0 e \<Longrightarrow> ok (drawn e0) (TransitionDrawToFill ch col e)"
  "drawn e0 e \<Longrightarrow> ok (drawn e0) (TransitionDrawToBoard e)"
  unfolding TransitionDrawToFill_def TransitionDrawToBoard_def
  by (rule ok_paths draw.paths drawn_rules | assumption)+

lemma TransitionDrawBoardChange_drawn [drawn_rules]:
  "drawn e0 e \<Longrightarrow> ok (drawn e0) (TransitionDrawBoardChange e)"
  unfolding TransitionDrawBoardChange_def by (rule ok_paths draw.paths drawn_rules | assumption)+

lemma redrawSurroundings_drawn [drawn_rules]: "drawn e0 e \<Longrightarrow> ok (drawn e0) (redrawSurroundings x y e)"
  unfolding redrawSurroundings_def surroundings_def
  by (rule ok_paths draw.paths drawn_rules | assumption)+

section \<open>What a drawing leaves alone\<close>

lemma drawn_Board:
  assumes "drawn e e'"
  shows "Stats (Board e') = Stats (Board e)" "StatCount (Board e') = StatCount (Board e)"
    "bInfo (Board e') = bInfo (Board e)" "bName (Board e') = bName (Board e)"
    "Element (Tiles (Board e') x y) = Element (Tiles (Board e) x y)"
proof -
  have "rest e' = rest e" and stars: "starsOnly (Tiles (Board e)) (Tiles (Board e'))"
    using assms by (simp_all add: drawn_def)
  then have "Board (rest e') = Board (rest e)" by simp
  then show "Stats (Board e') = Stats (Board e)" "StatCount (Board e') = StatCount (Board e)"
    "bInfo (Board e') = bInfo (Board e)" "bName (Board e') = bName (Board e)"
    by (cases "Board e", cases "Board e'", simp add: rest_def)+
  show "Element (Tiles (Board e') x y) = Element (Tiles (Board e) x y)"
    using stars unfolding starsOnly_def by metis
qed

lemma drawn_rest_eq:
  assumes "drawn e e'"
  shows "World e' = World e" "Events e' = Events e" "CurrentStatTicked e' = CurrentStatTicked e"
    "CurrentTick e' = CurrentTick e" "FriendlyFire e' = FriendlyFire e" "MultiRoom e' = MultiRoom e"
    "Headless e' = Headless e" "ScrollAudience e' = ScrollAudience e" "RandSeed e' = RandSeed e"
    "GamePlayExitRequested e' = GamePlayExitRequested e"
proof -
  have eq: "rest e' = rest e" using assms by (simp add: drawn_def)
  show "World e' = World e" using arg_cong [OF eq, of World] by (simp add: rest_def)
  show "Events e' = Events e" using arg_cong [OF eq, of Events] by (simp add: rest_def)
  show "CurrentStatTicked e' = CurrentStatTicked e"
    using arg_cong [OF eq, of CurrentStatTicked] by (simp add: rest_def)
  show "CurrentTick e' = CurrentTick e" using arg_cong [OF eq, of CurrentTick] by (simp add: rest_def)
  show "FriendlyFire e' = FriendlyFire e" using arg_cong [OF eq, of FriendlyFire] by (simp add: rest_def)
  show "MultiRoom e' = MultiRoom e" using arg_cong [OF eq, of MultiRoom] by (simp add: rest_def)
  show "Headless e' = Headless e" using arg_cong [OF eq, of Headless] by (simp add: rest_def)
  show "ScrollAudience e' = ScrollAudience e" using arg_cong [OF eq, of ScrollAudience] by (simp add: rest_def)
  show "RandSeed e' = RandSeed e" using arg_cong [OF eq, of RandSeed] by (simp add: rest_def)
  show "GamePlayExitRequested e' = GamePlayExitRequested e"
    using arg_cong [OF eq, of GamePlayExitRequested] by (simp add: rest_def)
qed

end
