(* ===== verification/StatArray.thy ===== *)
theory StatArray
  imports Lookup Drawn
begin

text \<open>
  What \<open>AddStat\<close>, \<open>RemoveStat\<close> and \<open>MoveStat\<close> do to the stat array, seen as a list: append,
  delete with the references to later stats renumbered, and update in place. Each ends with a
  redraw, which \<^theory_text>\<open>Drawn\<close> shows to leave the stats and the elements alone.
\<close>

lemma BoardDrawTile_keeps_board:
  assumes "BoardDrawTile x y e = Some e'"
  shows "Stats (Board e') = Stats (Board e)" "StatCount (Board e') = StatCount (Board e)"
    "bInfo (Board e') = bInfo (Board e)" "Element (Tiles (Board e') u v) = Element (Tiles (Board e) u v)"
    "ScrollAudience e' = ScrollAudience e"
  using drawn_Board [of e e'] drawn_rest_eq [of e e'] BoardDrawTile_drawn [OF draw.refl, of e x y] assms
  by simp_all

section \<open>Adding\<close>

lemma AddStat_list:
  assumes "AddStat tx ty el color tcycle template e = Some e'" and "0 \<le> StatCount (Board e)"
  defines "n \<equiv> StatCount (Board e)"
  shows "if n < MAX_STAT then
      StatCount (Board e') = n + 1 \<and>
      Stats (Board e') = (Stats (Board e))(n + 1 := template\<lparr>sX := u8 tx, sY := u8 ty, sCycle := tcycle,
        Under := Tiles (Board e) tx ty, DataPos := 0\<rparr>) \<and>
      (\<forall>x y. Element (Tiles (Board e') x y) =
         (if (x, y) = (tx, ty) then el else Element (Tiles (Board e) x y)))
    else e' = e"
  using assms
  by (auto simp: AddStat_def n_def modStat_def setStatCount_def putStat_def setColor_def setElement_def
      setTile_def putTile_def tileAt_def statAt_def inStats_def Let_def BoardDrawTile_keeps_board
      split: if_splits Option.bind_splits)

text \<open>
  \<open>AddStat\<close> appends: the new stat is the template at \<open>(tx, ty)\<close> with the given cycle, what
  was on the square is kept under it, the earlier stats are untouched, and the square now holds
  the element. On a board with \<open>MAX_STAT\<close> stats nothing changes.
\<close>

theorem AddStat_appends:
  assumes "AddStat tx ty el color tcycle template e = Some e'" and "0 \<le> StatCount (Board e)"
  defines "n \<equiv> StatCount (Board e)"
  shows "if n < MAX_STAT then
      StatCount (Board e') = n + 1 \<and>
      Stats (Board e') = (Stats (Board e))(n + 1 := template\<lparr>sX := u8 tx, sY := u8 ty, sCycle := tcycle,
        Under := Tiles (Board e) tx ty, DataPos := 0\<rparr>) \<and>
      (\<forall>x y. Element (Tiles (Board e') x y) =
         (if (x, y) = (tx, ty) then el else Element (Tiles (Board e) x y)))
    else e' = e"
  unfolding n_def using assms(1,2) by (rule AddStat_list)

theorem AddStat_appends_witness:
  "\<exists>e'. AddStat 0 0 E_MESSAGE_TIMER 0 1 StatTemplateDefault NewEngine = Some e' \<and>
        StatCount (Board e') = 1 \<and> sCycle (Stats (Board e') 1) = 1 \<and>
        Element (Tiles (Board e') 0 0) = E_MESSAGE_TIMER"
proof -
  have "AddStat 0 0 E_MESSAGE_TIMER 0 1 StatTemplateDefault NewEngine \<noteq> None"
    by (auto simp: AddStat_def NewEngine_def zeroBoard_def zeroTile_def modStat_def setStatCount_def putStat_def
        setColor_def setElement_def setTile_def putTile_def tileAt_def inTiles_def StatTemplateDefault_def Let_def)
  then obtain e' where e': "AddStat 0 0 E_MESSAGE_TIMER 0 1 StatTemplateDefault NewEngine = Some e'" by blast
  show ?thesis
    using AddStat_appends [OF e'] e' by (auto simp: NewEngine_def zeroBoard_def)
qed

section \<open>Removing\<close>

definition setStats :: "(int \<Rightarrow> TStat) \<Rightarrow> Engine \<Rightarrow> Engine" where
  "setStats f e = e\<lparr>Board := (Board e)\<lparr>Stats := f\<rparr>\<rparr>"

lemma setStats_simps [simp]:
  "Stats (Board (setStats f e)) = f" "StatCount (Board (setStats f e)) = StatCount (Board e)"
  "setStats g (setStats f e) = setStats g e" "setStats (Stats (Board e)) e = e"
  "Tiles (Board (setStats f e)) = Tiles (Board e)" "ScrollAudience (setStats f e) = ScrollAudience e"
  by (simp_all add: setStats_def)

lemma modStat_setStats: "0 \<le> i \<Longrightarrow> i \<le> 151 \<Longrightarrow>
  modStat i g e = Some (setStats ((Stats (Board e))(i := g (Stats (Board e) i))) e)"
  by (simp add: modStat_def putStat_def setStats_def)

lemma foldM_upto_snoc:
  "a \<le> b \<Longrightarrow> foldM f [a..b] s = do { s \<leftarrow> foldM f [a..b - 1] s; f b s }"
proof -
  have "foldM f [] = Some" by (rule ext) simp
  moreover assume "a \<le> b"
  ultimately show ?thesis by (simp add: upto_rec2 foldM_append)
qed

lemma foldM_modStat:
  assumes "0 \<le> a" and "b \<le> 151"
  shows "foldM (\<lambda>i. modStat i g) [a..b] e =
    Some (setStats (\<lambda>i. if a \<le> i \<and> i \<le> b then g (Stats (Board e) i) else Stats (Board e) i) e)"
  using assms(2)
proof (induction "nat (b - a + 1)" arbitrary: b)
  case 0
  then have "b < a" by simp
  then have "(\<lambda>i. if a \<le> i \<and> i \<le> b then g (Stats (Board e) i) else Stats (Board e) i) = Stats (Board e)"
    by (intro ext) auto
  with \<open>b < a\<close> show ?case by simp
next
  case (Suc k)
  then have "foldM (\<lambda>i. modStat i g) [a..b - 1] e =
      Some (setStats (\<lambda>i. if a \<le> i \<and> i \<le> b - 1 then g (Stats (Board e) i) else Stats (Board e) i) e)"
    by simp
  moreover have "a \<le> b" using Suc.hyps(2) by simp
  ultimately show ?case
    using assms(1) Suc.prems
    by (simp add: foldM_upto_snoc modStat_setStats) (rule arg_cong [where f = "\<lambda>f. setStats f e"], auto)
qed

lemma foldM_shiftStats:
  assumes "0 \<le> a" and "b \<le> 151"
  shows "foldM (\<lambda>i e. do { t \<leftarrow> statAt i e; modStat (i - 1) (\<lambda>_. t) e }) [a + 1..b] e =
    Some (setStats (\<lambda>i. if a \<le> i \<and> i < b then Stats (Board e) (i + 1) else Stats (Board e) i) e)"
  using assms(2)
proof (induction "nat (b - a)" arbitrary: b)
  case 0
  then have "b \<le> a" by simp
  then have "(\<lambda>i. if a \<le> i \<and> i < b then Stats (Board e) (i + 1) else Stats (Board e) i) = Stats (Board e)"
    by (intro ext) auto
  with \<open>b \<le> a\<close> show ?case by simp
next
  case (Suc k)
  then have "foldM (\<lambda>i e. do { t \<leftarrow> statAt i e; modStat (i - 1) (\<lambda>_. t) e }) [a + 1..b - 1] e =
      Some (setStats (\<lambda>i. if a \<le> i \<and> i < b - 1 then Stats (Board e) (i + 1) else Stats (Board e) i) e)"
    by simp
  moreover have "a + 1 \<le> b" using Suc.hyps(2) by simp
  ultimately show ?case
    using assms(1) Suc.prems
    by (simp add: foldM_upto_snoc modStat_setStats) (rule arg_cong [where f = "\<lambda>f. setStats f e"], auto)
qed

definition setAudience :: "(int \<Rightarrow> int) \<Rightarrow> Engine \<Rightarrow> Engine" where
  "setAudience f e = e\<lparr>ScrollAudience := f\<rparr>"

lemma setAudience_simps [simp]:
  "ScrollAudience (setAudience f e) = f" "Board (setAudience f e) = Board e"
  "setAudience g (setAudience f e) = setAudience g e" "setAudience (ScrollAudience e) e = e"
  by (simp_all add: setAudience_def)

lemma setAudience_cong: "f = g \<Longrightarrow> setAudience f e = setAudience g e"
  by simp

lemma audience_steps:
  assumes "0 \<le> i" and "i \<le> 151"
  shows "audienceAt i e = Some (ScrollAudience e i)"
    "putAudience i v e = Some (setAudience ((ScrollAudience e)(i := v)) e)"
  using assms by (simp_all add: audienceAt_def putAudience_def setAudience_def inStats_def)

text \<open>A player's id, plus one, once stat \<open>k\<close> is gone; the removed player is nobody.\<close>

definition reindexAudience :: "int \<Rightarrow> int \<Rightarrow> int" where
  "reindexAudience k a = (if a = 0 \<or> a - 1 = k then 0 else if a - 1 > k then a - 1 else a)"

lemma foldM_mapAudience:
  assumes "0 \<le> b + 1" and "b \<le> 151"
  shows "foldM (\<lambda>i e. do {
            a \<leftarrow> audienceAt i e;
            if a = 0 then Some e
            else let audience = a - 1 in
              if audience = k then putAudience i 0 e
              else if audience > k then putAudience i audience e
              else Some e }) [0..b] e =
    Some (setAudience (\<lambda>i. if 0 \<le> i \<and> i \<le> b then reindexAudience k (ScrollAudience e i) else ScrollAudience e i) e)"
  using assms
proof (induction "nat (b + 1)" arbitrary: b)
  case 0
  then have "b = -1" by simp
  then have "(\<lambda>i. if 0 \<le> i \<and> i \<le> b then reindexAudience k (ScrollAudience e i) else ScrollAudience e i) =
      ScrollAudience e" by (intro ext) auto
  with \<open>b = -1\<close> show ?case by simp
next
  case (Suc m)
  let ?f = "\<lambda>b i. if 0 \<le> i \<and> i \<le> b then reindexAudience k (ScrollAudience e i) else ScrollAudience e i"
  have b: "0 \<le> b" using Suc.hyps(2) by simp
  have "(?f (b - 1))(b := reindexAudience k (ScrollAudience e b)) = ?f b" using b by auto
  moreover have "?f (b - 1) = ?f b" if "reindexAudience k (ScrollAudience e b) = ScrollAudience e b"
    using that b by (auto simp: fun_eq_iff)
  ultimately show ?case
    using Suc b by (auto simp: foldM_upto_snoc audience_steps Let_def reindexAudience_def)
qed

lemma foldM_shiftAudience:
  assumes "0 \<le> a" and "b \<le> 151"
  shows "foldM (\<lambda>i e. do { v \<leftarrow> audienceAt i e; putAudience (i - 1) v e }) [a + 1..b] e =
    Some (setAudience (\<lambda>i. if a \<le> i \<and> i < b then ScrollAudience e (i + 1) else ScrollAudience e i) e)"
  using assms(2)
proof (induction "nat (b - a)" arbitrary: b)
  case 0
  then have "b \<le> a" by simp
  then have "(\<lambda>i. if a \<le> i \<and> i < b then ScrollAudience e (i + 1) else ScrollAudience e i) = ScrollAudience e"
    by (intro ext) auto
  with \<open>b \<le> a\<close> show ?case by simp
next
  case (Suc k)
  then have "foldM (\<lambda>i e. do { v \<leftarrow> audienceAt i e; putAudience (i - 1) v e }) [a + 1..b - 1] e =
      Some (setAudience (\<lambda>i. if a \<le> i \<and> i < b - 1 then ScrollAudience e (i + 1) else ScrollAudience e i) e)"
    by simp
  moreover have "a + 1 \<le> b" using Suc.hyps(2) by simp
  ultimately show ?case
    using assms(1) Suc.prems
    by (simp add: foldM_upto_snoc audience_steps) (rule arg_cong [where f = "\<lambda>f. setAudience f e"], auto)
qed

definition unlinkStat :: "int \<Rightarrow> TStat \<Rightarrow> TStat" where
  "unlinkStat k s = s\<lparr>Follower := reindexRef k (Follower s), Leader := reindexRef k (Leader s)\<rparr>"

lemma reindexAudience_run:
  assumes "0 \<le> k" and "k \<le> StatCount (Board e)" and "StatCount (Board e) \<le> 151"
  shows "reindexScrollAudienceAfterStatRemoval k e =
    Some (setAudience (\<lambda>i. if i = StatCount (Board e) then 0
      else if 0 \<le> i \<and> i < k then reindexAudience k (ScrollAudience e i)
      else if k \<le> i \<and> i < StatCount (Board e) then reindexAudience k (ScrollAudience e (i + 1))
      else ScrollAudience e i) e)"
  unfolding reindexScrollAudienceAfterStatRemoval_def
  using assms
  by (simp add: foldM_mapAudience foldM_shiftAudience audience_steps)
     (rule setAudience_cong, auto simp: fun_eq_iff)

definition detachStats :: "int \<Rightarrow> Engine \<Rightarrow> Engine option" where
  "detachStats k e =
     do { e \<leftarrow> foldM (\<lambda>i. modStat i (unlinkStat k)) [1..StatCount (Board e)] e;
          e \<leftarrow> reindexScrollAudienceAfterStatRemoval k e;
          e \<leftarrow> foldM (\<lambda>i e. do { t \<leftarrow> statAt i e; modStat (i - 1) (\<lambda>_. t) e }) [k + 1..StatCount (Board e)] e;
          let e = setStatCount (i16 (StatCount (Board e) - 1)) e;
          Some (reindexPlayersAfterStatRemoval k e) }"

text \<open>The three loops and the two counters, as one new engine.\<close>

lemma detachStats_eq:
  assumes "1 \<le> k" and "k \<le> StatCount (Board e)" and "StatCount (Board e) \<le> 151"
  defines "n \<equiv> StatCount (Board e)"
  defines "f \<equiv> (\<lambda>i. if 1 \<le> i \<and> i \<le> n then unlinkStat k (Stats (Board e) i) else Stats (Board e) i)"
  defines "g \<equiv> (\<lambda>i. if i = n then 0 else if 0 \<le> i \<and> i < k then reindexAudience k (ScrollAudience e i)
      else if k \<le> i \<and> i < n then reindexAudience k (ScrollAudience e (i + 1)) else ScrollAudience e i)"
  shows "detachStats k e =
    Some (reindexPlayersAfterStatRemoval k (setStatCount (n - 1)
      (setStats (\<lambda>i. if k \<le> i \<and> i < n then f (i + 1) else f i) (setAudience g (setStats f e)))))"
proof -
  have "foldM (\<lambda>i. modStat i (unlinkStat k)) [1..n] e = Some (setStats f e)"
    using assms(3) by (simp add: foldM_modStat f_def n_def)
  moreover have "reindexScrollAudienceAfterStatRemoval k (setStats f e) = Some (setAudience g (setStats f e))"
    using assms(1-3) by (simp add: reindexAudience_run g_def n_def cong: if_cong)
  moreover have "foldM (\<lambda>i e. do { t \<leftarrow> statAt i e; modStat (i - 1) (\<lambda>_. t) e }) [k + 1..n]
      (setAudience g (setStats f e)) =
    Some (setStats (\<lambda>i. if k \<le> i \<and> i < n then f (i + 1) else f i) (setAudience g (setStats f e)))"
    using assms(1-3) by (simp add: foldM_shiftStats n_def cong: if_cong)
  moreover have "i16 (n - 1) = n - 1" using assms(1-3) by (simp add: n_def)
  ultimately show ?thesis by (simp add: detachStats_def n_def)
qed

lemma detachStats_run:
  assumes "1 \<le> k" and "k \<le> StatCount (Board e)" and "StatCount (Board e) \<le> 151" and "detachStats k e = Some e'"
  defines "n \<equiv> StatCount (Board e)"
  shows "StatCount (Board e') = n - 1"
    and "Stats (Board e') i = (if 1 \<le> i \<and> i < k then unlinkStat k (Stats (Board e) i)
       else if k \<le> i \<and> i < n then unlinkStat k (Stats (Board e) (i + 1))
       else if i = n then unlinkStat k (Stats (Board e) n) else Stats (Board e) i)"
    and "ScrollAudience e' i = (if i = n then 0
       else if 0 \<le> i \<and> i < k then reindexAudience k (ScrollAudience e i)
       else if k \<le> i \<and> i < n then reindexAudience k (ScrollAudience e (i + 1)) else ScrollAudience e i)"
    and "Players e' i = (if i < k then Players e i else Players e (i + 1))"
    and "Tiles (Board e') = Tiles (Board e)" and "CurrentStatTicked e' = CurrentStatTicked e"
  using assms(4) unfolding detachStats_eq [OF assms(1-3)] option.inject
  using assms(1-3) by (auto simp: n_def setStatCount_def reindexPlayersAfterStatRemoval_def setStats_def setAudience_def)

text \<open>Up to the renumbering: the dead program freed, the tile restored and drawn.\<close>

definition restoreSquare :: "TStat \<Rightarrow> int \<Rightarrow> Engine \<Rightarrow> Engine option" where
  "restoreSquare s k e =
     do { let e = (if k < CurrentStatTicked e
                   then e\<lparr>CurrentStatTicked := i16 (CurrentStatTicked e - 1)\<rparr> else e);
          e \<leftarrow> setTile (sX s) (sY s) (Under s) e;
          if sY s > 0 then BoardDrawTile (sX s) (sY s) e else Some e }"

lemma RemoveStat_cases:
  assumes "RemoveStat k e = Some e'" and "0 \<le> k" and "k \<le> 151"
  defines "s \<equiv> Stats (Board e) k"
  obtains d where "do { e \<leftarrow> restoreSquare s k (setStats ((Stats (Board e))(k := s\<lparr>Data := d\<rparr>)) e);
      detachStats k e } = Some e'"
proof -
  let ?tail = "\<lambda>e. do { e \<leftarrow> restoreSquare s k e; detachStats k e }"
  let ?clear = "if DataLen s \<noteq> 0 then do {
       used \<leftarrow> firstM (\<lambda>i. do { t \<leftarrow> statAt i e; Some (Data t = Data s \<and> i \<noteq> k) }) [1..StatCount (Board e)];
       if used = None then modStat k (\<lambda>s. s\<lparr>Data := []\<rparr>) e else Some e }
     else Some e"
  have "RemoveStat k e = do { e \<leftarrow> ?clear; ?tail e }"
    by (simp only: RemoveStat_def restoreSquare_def detachStats_def unlinkStat_def [abs_def] s_def Let_def
        statAt_fits [OF assms(2,3)] Option.bind_lunit Option.bind_assoc)
  then obtain e0 where e0: "?clear = Some e0" and tail: "?tail e0 = Some e'"
    using assms(1) by (auto simp del: bind.bind_lunit split: Option.bind_splits)
  have same: "setStats ((Stats (Board e))(k := s\<lparr>Data := Data s\<rparr>)) e = e" by (simp add: s_def)
  have "e0 = e \<or> e0 = setStats ((Stats (Board e))(k := s\<lparr>Data := []\<rparr>)) e"
    using e0 assms(2,3) by (auto simp: modStat_setStats s_def split: if_splits Option.bind_splits)
  then show ?thesis using that [of "Data s"] that [of "[]"] tail unfolding same by blast
qed

lemma restoreSquare_run:
  assumes "restoreSquare s k e = Some e'"
  shows "Stats (Board e') = Stats (Board e)" "StatCount (Board e') = StatCount (Board e)"
    "ScrollAudience e' = ScrollAudience e"
    "Players e i = Some a \<Longrightarrow> Players e' i = Some a"
    "Element (Tiles (Board e') x y) =
       (if (x, y) = (sX s, sY s) then Element (Under s) else Element (Tiles (Board e) x y))"
    "CurrentStatTicked e' = (if k < CurrentStatTicked e then i16 (CurrentStatTicked e - 1)
                             else CurrentStatTicked e)"
proof -
  let ?e = "if k < CurrentStatTicked e then e\<lparr>CurrentStatTicked := i16 (CurrentStatTicked e - 1)\<rparr> else e"
  obtain e1 where put: "setTile (sX s) (sY s) (Under s) ?e = Some e1"
    and draw: "(if sY s > 0 then BoardDrawTile (sX s) (sY s) e1 else Some e1) = Some e'"
    using assms by (auto simp: restoreSquare_def Let_def split: Option.bind_splits if_splits)
  have drawn: "drawn e1 e'"
    using draw draw.refl BoardDrawTile_drawn [OF draw.refl, of e1 "sX s" "sY s"] by (auto split: if_splits)
  note b = drawn_Board [OF drawn] drawn_rest_eq [OF drawn]
  have e1: "Stats (Board e1) = Stats (Board e)" "StatCount (Board e1) = StatCount (Board e)"
    "ScrollAudience e1 = ScrollAudience e"
    "Element (Tiles (Board e1) x y) =
       (if (x, y) = (sX s, sY s) then Element (Under s) else Element (Tiles (Board e) x y))"
    "CurrentStatTicked e1 = (if k < CurrentStatTicked e then i16 (CurrentStatTicked e - 1)
                             else CurrentStatTicked e)"
    using put by (auto simp: setTile_def putTile_def split: if_splits)
  have "allocated e1 e'" using drawn by (simp add: drawn_def)
  then show "Players e i = Some a \<Longrightarrow> Players e' i = Some a"
    using put by (auto simp: setTile_def putTile_def allocated_def split: if_splits)
  show "Stats (Board e') = Stats (Board e)" "StatCount (Board e') = StatCount (Board e)"
    "ScrollAudience e' = ScrollAudience e"
    "Element (Tiles (Board e') x y) =
       (if (x, y) = (sX s, sY s) then Element (Under s) else Element (Tiles (Board e) x y))"
    "CurrentStatTicked e' = (if k < CurrentStatTicked e then i16 (CurrentStatTicked e - 1)
                             else CurrentStatTicked e)"
    by (simp_all add: b e1)
qed

text \<open>
  C5. \<open>RemoveStat\<close> deletes one stat from the array: the stats before it keep their ids, those
  after it move down by one, every \<open>Follower\<close> and \<open>Leader\<close> still names the same stat (-1 where
  that stat is the one removed), and so do the scroll audiences, the players' states and
  \<open>CurrentStatTicked\<close>; the square gets back what was under the stat.
\<close>

theorem RemoveStat_deletes:
  assumes "RemoveStat k e = Some e'" and "1 \<le> k" and "k \<le> StatCount (Board e)"
    and "StatCount (Board e) \<le> 150"
  defines "n \<equiv> StatCount (Board e)" and "old \<equiv> (\<lambda>i. if i < k then i else i + 1)"
  shows "StatCount (Board e') = n - 1 \<and> Stats (Board e') 0 = Stats (Board e) 0 \<and>
    (\<forall>i. 1 \<le> i \<and> i < n \<longrightarrow> Stats (Board e') i = unlinkStat k (Stats (Board e) (old i))) \<and>
    (\<forall>i. 0 \<le> i \<and> i < n \<longrightarrow> ScrollAudience e' i = reindexAudience k (ScrollAudience e (old i))) \<and>
    (\<forall>i a. Players e (old i) = Some a \<longrightarrow> Players e' i = Some a) \<and>
    CurrentStatTicked e' = (if k < CurrentStatTicked e then i16 (CurrentStatTicked e - 1)
                            else CurrentStatTicked e) \<and>
    (\<forall>x y. Element (Tiles (Board e') x y) =
       (if statOn x y e k then Element (Under (Stats (Board e) k)) else Element (Tiles (Board e) x y)))"
proof -
  let ?s = "Stats (Board e) k"
  obtain d e2 where sq: "restoreSquare ?s k (setStats ((Stats (Board e))(k := ?s\<lparr>Data := d\<rparr>)) e) = Some e2"
    and tail: "detachStats k e2 = Some e'"
    by (rule RemoveStat_cases [OF assms(1)]) (use assms in \<open>auto split: Option.bind_splits\<close>)
  have count: "k \<le> StatCount (Board e2)" "StatCount (Board e2) \<le> 151" "StatCount (Board e2) = n"
    using restoreSquare_run(2) [OF sq] assms(3,4) by (simp_all add: n_def)
  note run = detachStats_run [OF assms(2) count(1,2) tail, unfolded count(3)]
  have "CurrentStatTicked (setStats f e) = CurrentStatTicked e" "Players (setStats f e) = Players e" for f
    by (simp_all add: setStats_def)
  then show ?thesis
    using assms(2,3) restoreSquare_run [OF sq]
    by (auto simp: run old_def n_def statOn_def unlinkStat_def)
qed

theorem RemoveStat_deletes_witness:
  "\<exists>e'. RemoveStat 1 (setStatCount 2 NewEngine) = Some e' \<and> StatCount (Board e') = 1"
proof -
  let ?e = "setStatCount 2 NewEngine"
  have "RemoveStat 1 ?e \<noteq> None"
    by (simp add: RemoveStat_def NewEngine_def zeroBoard_def zeroStat_def setStatCount_def setTile_def inTiles_def
        putTile_def foldM_modStat reindexScrollAudienceAfterStatRemoval_def audience_steps Let_def modStat_setStats
        upto.simps)
  then obtain e' where e': "RemoveStat 1 ?e = Some e'" by blast
  show ?thesis
    using RemoveStat_deletes [OF e'] e' by (auto simp: setStatCount_def)
qed

end
