(* ===== verification/BoardTrip.thy ===== *)
theory BoardTrip
  imports BoardFile StatArray
begin

text \<open>
  \<open>BoardClose\<close> and \<open>BoardOpen\<close> as inverses: the run-length encoding of the tiles, the sharing of
  equal programs between stats, and what a board looks like after it was packed and unpacked,
  on the engine that packed it or on any other.
\<close>

section \<open>The squares in scan order\<close>

function squaresFrom :: "int \<Rightarrow> int \<Rightarrow> (int \<times> int) list" where
  "squaresFrom ix iy =
     (ix, iy) # (let (ix', iy') = nextSquare ix iy in
                 if iy' > BOARD_HEIGHT then [] else squaresFrom ix' iy')"
  by pat_completeness auto
termination
  by (relation "measures [\<lambda>(ix, iy). nat (BOARD_HEIGHT + 1 - iy), \<lambda>(ix, iy). nat (BOARD_WIDTH + 1 - ix)]")
     (auto simp: nextSquare_def split: if_splits)

declare squaresFrom.simps [simp del]

lemma nextSquare_cases:
  assumes "onBoard ix iy" and "nextSquare ix iy = (ix', iy')"
  shows "iy' > BOARD_HEIGHT \<Longrightarrow> ix' = 1 \<and> iy' = BOARD_HEIGHT + 1" and "iy' \<le> BOARD_HEIGHT \<Longrightarrow> onBoard ix' iy'"
  using assms by (auto simp: nextSquare_def onBoard_def split: if_splits)

lemma squaresFrom_set:
  "onBoard ix iy \<Longrightarrow>
   set (squaresFrom ix iy) = {(x, y). onBoard x y \<and> (iy < y \<or> y = iy \<and> ix \<le> x)}"
proof (induction ix iy rule: squaresFrom.induct)
  case (1 ix iy)
  obtain ix' iy' where n: "nextSquare ix iy = (ix', iy')" by force
  show ?case
  proof (cases "iy' > BOARD_HEIGHT")
    case True
    with 1 n show ?thesis
      by (subst squaresFrom.simps) (auto simp: nextSquare_def onBoard_def split: if_splits)
  next
    case False
    with 1 n nextSquare_cases [OF "1.prems" n]
    have "set (squaresFrom ix' iy') = {(x, y). onBoard x y \<and> (iy' < y \<or> y = iy' \<and> ix' \<le> x)}" by simp
    with 1 n False show ?thesis
      by (subst squaresFrom.simps) (auto simp: nextSquare_def onBoard_def split: if_splits)
  qed
qed

lemma squaresFrom_length:
  "onBoard ix iy \<Longrightarrow> int (length (squaresFrom ix iy)) = (BOARD_HEIGHT - iy) * BOARD_WIDTH + BOARD_WIDTH - ix + 1"
proof (induction ix iy rule: squaresFrom.induct)
  case (1 ix iy)
  obtain ix' iy' where n: "nextSquare ix iy = (ix', iy')" by force
  show ?case
  proof (cases "iy' > BOARD_HEIGHT")
    case True
    with 1 n show ?thesis
      by (subst squaresFrom.simps) (auto simp: nextSquare_def onBoard_def split: if_splits)
  next
    case False
    with 1 n nextSquare_cases [OF "1.prems" n]
    have "int (length (squaresFrom ix' iy')) = (BOARD_HEIGHT - iy') * BOARD_WIDTH + BOARD_WIDTH - ix' + 1"
      by simp
    with 1 n False show ?thesis
      by (subst squaresFrom.simps) (auto simp: nextSquare_def onBoard_def split: if_splits)
  qed
qed

definition squareTile :: "TBoard \<Rightarrow> int \<times> int \<Rightarrow> TTile" where
  "squareTile b q = Tiles b (fst q) (snd q)"

section \<open>Run lengths\<close>

text \<open>The runs of a tile sequence, the first of them already \<open>r\<close>, and the tiles they stand for.\<close>

fun runs :: "TRleTile \<Rightarrow> TTile list \<Rightarrow> TRleTile list" where
  "runs r [] = [r]"
| "runs r (t # ts) =
     (if t = rTile r \<and> rCount r < 255 then runs (r\<lparr>rCount := rCount r + 1\<rparr>) ts
      else r # runs \<lparr>rCount = 1, rTile = t\<rparr> ts)"

definition runTiles :: "TRleTile \<Rightarrow> TTile list" where
  "runTiles r = replicate (nat (rCount r)) (rTile r)"

definition runBytes :: "TRleTile list \<Rightarrow> int list" where
  "runBytes rs = concat (map rleBytes rs)"

definition countOk :: "TRleTile \<Rightarrow> bool" where
  "countOk r \<longleftrightarrow> 1 \<le> rCount r \<and> rCount r \<le> 255"

lemma runs_tiles:
  "countOk r \<Longrightarrow> concat (map runTiles (runs r ts)) = runTiles r @ ts \<and> list_all countOk (runs r ts) \<and>
   length (runs r ts) \<le> Suc (length ts)"
proof (induction r ts rule: runs.induct)
  case (2 r t ts)
  show ?case
  proof (cases "t = rTile r \<and> rCount r < 255")
    case True
    then have "countOk (r\<lparr>rCount := rCount r + 1\<rparr>)" using "2.prems" by (simp add: countOk_def)
    moreover have "runTiles (r\<lparr>rCount := rCount r + 1\<rparr>) = runTiles r @ [t]"
      using True "2.prems" by (simp add: runTiles_def countOk_def nat_add_distrib replicate_append_same)
    ultimately show ?thesis using "2.IH"(1) [OF True] True by simp
  next
    case False
    then have "runs r (t # ts) = r # runs \<lparr>rCount = 1, rTile = t\<rparr> ts" by auto
    moreover have "countOk \<lparr>rCount = 1, rTile = t\<rparr>" by (simp add: countOk_def)
    ultimately show ?thesis using "2.IH"(2) [OF False] "2.prems" by (simp add: runTiles_def)
  qed
qed (simp add: countOk_def)

lemma runBytes_simps [simp]:
  "runBytes [] = []" "runBytes (r # rs) = rleBytes r @ runBytes rs" "length (runBytes rs) = 3 * length rs"
  by (simp_all add: runBytes_def length_concat length_rleBytes comp_def sum_list_triv)

lemma sameTile: "Color t = Color u \<and> Element t = Element u \<longleftrightarrow> t = u" for t u :: TTile
  by auto

lemma closeTiles_bytes:
  assumes "onBoard ix iy" and "int (length p) = ptr"
    and "ts = map (squareTile (Board e)) (tl (squaresFrom ix iy))" and "3 * Suc (length ts) \<le> length q"
  shows "closeTiles ix iy r ptr (p @ q) e =
     Some (ptr + 3 * int (length (runs r ts)),
       p @ runBytes (runs r ts) @ drop (3 * length (runs r ts)) q)"
  using assms
proof (induction ix iy arbitrary: r ptr p q ts rule: squaresFrom.induct)
  case (1 ix iy)
  obtain ix' iy' where n: "nextSquare ix iy = (ix', iy')" by force
  note nx = nextSquare_cases [OF "1.prems"(1) n]
  have store: "within ptr (ptr + 3) (\<lambda>d. StoreRleTile d r) (p @ q) = Some (p @ rleBytes r @ drop 3 q)"
    using "1.prems" by (intro rleTile.store_cursor) auto
  show ?case
  proof (cases "iy' > BOARD_HEIGHT")
    case True
    then have "ts = []" using "1.prems"(3) n by (subst (asm) squaresFrom.simps) simp
    with True nx show ?thesis
      by (subst closeTiles.simps) (simp add: n tileAt_def inTiles_def store)
  next
    case False
    let ?t = "squareTile (Board e) (ix', iy')"
    let ?ts = "map (squareTile (Board e)) (tl (squaresFrom ix' iy'))"
    have ts: "ts = ?t # ?ts"
      using "1.prems"(3) n False by (subst (asm) squaresFrom.simps, subst (asm) (2) squaresFrom.simps)
        (simp add: squaresFrom.simps [of ix' iy'])
    have t: "tileAt ix' iy' e = Some ?t"
      using nx False by (simp add: tileAt_def inTiles_def squareTile_def onBoard_def)
    note IH = "1.IH" [OF n [symmetric] refl False _ _ refl]
    show ?thesis
    proof (cases "?t = rTile r \<and> rCount r < 255")
      case True
      have len: "3 * Suc (length ?ts) \<le> length q" using "1.prems"(4) ts by simp
      note IH [of p ptr q "r\<lparr>rCount := rCount r + 1\<rparr>"]
      with True False nx len "1.prems"(2) show ?thesis
        by (subst closeTiles.simps) (simp add: n t ts sameTile)
    next
      case other: False
      have len: "3 * Suc (length ?ts) \<le> length (drop 3 q)" and q: "3 \<le> length q"
        using "1.prems"(4) ts by simp_all
      have "closeTiles ix' iy' \<lparr>rCount = 1, rTile = ?t\<rparr> (ptr + 3) ((p @ rleBytes r) @ drop 3 q) e =
          Some (ptr + 3 + 3 * int (length (runs \<lparr>rCount = 1, rTile = ?t\<rparr> ?ts)),
            (p @ rleBytes r) @ runBytes (runs \<lparr>rCount = 1, rTile = ?t\<rparr> ?ts) @
            drop (3 * length (runs \<lparr>rCount = 1, rTile = ?t\<rparr> ?ts)) (drop 3 q))"
        using nx False "1.prems"(2) len by (intro IH) (simp_all add: length_rleBytes)
      moreover have "\<not> (Color ?t = Color (rTile r) \<and> Element ?t = Element (rTile r) \<and> rCount r < 255 \<and> iy' \<le> 25)"
        using other by auto
      moreover have "runs r ts = r # runs \<lparr>rCount = 1, rTile = ?t\<rparr> ?ts" using other ts by auto
      ultimately show ?thesis
        using False by (subst closeTiles.simps) (auto simp: n t store add.commute)
    qed
  qed
qed

text \<open>Painting the tiles of a board onto some of the squares of another.\<close>

definition paint :: "TBoard \<Rightarrow> (int \<times> int) set \<Rightarrow> Engine \<Rightarrow> Engine" where
  "paint b Q e =
     e\<lparr>Board := (Board e)\<lparr>Tiles := (\<lambda>x y. if (x, y) \<in> Q then Tiles b x y else Tiles (Board e) x y)\<rparr>\<rparr>"

lemma paint_putTile: "paint b Q (putTile x y (squareTile b (x, y)) e) = paint b (insert (x, y) Q) e"
  by (auto simp: paint_def putTile_def squareTile_def intro!: arg_cong [where f = "\<lambda>t. Tiles_update t (Board e)" for e]
      Engine.equality TBoard.equality ext)

lemma World_paint [simp]: "World (paint b Q e) = World e"
  by (simp add: paint_def)

lemma paint_empty: "paint b {} e = e"
  by (simp add: paint_def)

lemma openTiles_bytes:
  assumes "onBoard ix iy" and "list_all countOk rs" and "0 \<le> rCount r" and "rCount r \<le> 255"
    and "runTiles r @ concat (map runTiles rs) = map (squareTile b) (squaresFrom ix iy)"
  shows "openTiles ix iy r (runBytes rs @ ys) e = Some (ys, paint b (set (squaresFrom ix iy)) e)"
  using assms
proof (induction ix iy arbitrary: r rs e rule: squaresFrom.induct)
  case (1 ix iy)
  obtain ix' iy' where n: "nextSquare ix iy = (ix', iy')" by force
  note nx = nextSquare_cases [OF "1.prems"(1) n]
  let ?load = "if rCount r \<le> 0 then do {
      bs \<leftarrow> slice 0 SizeOfRleTile (runBytes rs @ ys);
      rle \<leftarrow> LoadRleTile bs;
      ptr \<leftarrow> advance SizeOfRleTile (runBytes rs @ ys);
      Some (rle, ptr) } else Some (r, runBytes rs @ ys)"
  let ?tl = "map (squareTile b) (tl (squaresFrom ix iy))"
  obtain r' rs' where load: "?load = Some (r', runBytes rs' @ ys)" and ok: "list_all countOk rs'" "countOk r'"
    and tiles: "runTiles r' @ concat (map runTiles rs') = squareTile b (ix, iy) # ?tl"
  proof (cases "rCount r \<le> 0")
    case True
    then have "runTiles r = []" by (simp add: runTiles_def)
    with "1.prems"(5) obtain r1 rs1 where rs: "rs = r1 # rs1"
      by (cases rs) (auto simp: squaresFrom.simps [of ix iy])
    have "?load = Some (r1, runBytes rs1 @ ys)"
      using True by (simp add: rs advance_def slice_0 slice_0_end slice_append length_rleBytes LoadRleTile_bytes)
    with that rs "1.prems" \<open>runTiles r = []\<close> show thesis by (simp add: squaresFrom.simps [of ix iy])
  next
    case False
    with that [of r rs] "1.prems" show thesis by (simp add: countOk_def squaresFrom.simps [of ix iy])
  qed
  let ?r = "r'\<lparr>rCount := rCount r' - 1\<rparr>"
  have "runTiles r' = rTile r' # runTiles ?r"
    using ok(2) by (cases "nat (rCount r')") (auto simp: runTiles_def countOk_def nat_diff_distrib)
  with tiles have t: "rTile r' = squareTile b (ix, iy)" and tl: "runTiles ?r @ concat (map runTiles rs') = ?tl"
    by simp_all
  have u: "u8 (rCount r' - 1) = rCount r' - 1" and set: "setTile ix iy (rTile r') e = Some (putTile ix iy (rTile r') e)"
    using ok(2) "1.prems"(1) by (simp_all add: countOk_def setTile_def inTiles_def onBoard_def)
  show ?case
  proof (cases "iy' > BOARD_HEIGHT")
    case True
    then have sq: "squaresFrom ix iy = [(ix, iy)]" by (subst squaresFrom.simps) (simp add: n)
    with tl have "rs' = []" using ok(1) by (cases rs') (auto simp: runTiles_def countOk_def)
    then show ?thesis
      using True sq paint_putTile [of b "{}" ix iy e]
      by (subst openTiles.simps) (simp only: load, simp add: n set [unfolded t] t paint_empty)
  next
    case False
    have sq: "squaresFrom ix iy = (ix, iy) # squaresFrom ix' iy'"
      using False by (subst squaresFrom.simps) (simp add: n)
    have "openTiles ix' iy' ?r (runBytes rs' @ ys) (putTile ix iy (rTile r') e) =
        Some (ys, paint b (set (squaresFrom ix' iy')) (putTile ix iy (rTile r') e))"
      using nx False ok(1) ok(2) [unfolded countOk_def] tl sq by (intro "1.IH" [OF n [symmetric] refl False]) simp_all
    then show ?thesis
      using False by (subst openTiles.simps) (simp only: load, simp add: n set [unfolded t] u t sq paint_putTile)
  qed
qed


lemma paint_paint: "paint b P (paint b Q e) = paint b (P \<union> Q) e"
  by (auto simp: paint_def intro!: Engine.equality TBoard.equality ext)

section \<open>The edges\<close>

definition edgeBoard :: TBoard where
  "edgeBoard = zeroBoard\<lparr>Tiles := (\<lambda>_ _. TileBoardEdge)\<rparr>"

lemma setTile_edge: "inTiles x y \<Longrightarrow> setTile x y TileBoardEdge e = Some (paint edgeBoard {(x, y)} e)"
  using paint_putTile [of edgeBoard "{}" x y e] by (simp add: setTile_def squareTile_def edgeBoard_def paint_empty)

lemma foldM_edge:
  assumes "\<And>i. i \<in> set xs \<Longrightarrow> inTiles (fst (f i)) (snd (f i)) \<and> inTiles (fst (g i)) (snd (g i))"
  shows "foldM (\<lambda>i e. do { e \<leftarrow> setTile (fst (f i)) (snd (f i)) TileBoardEdge e;
                          setTile (fst (g i)) (snd (g i)) TileBoardEdge e }) xs e =
         Some (paint edgeBoard (\<Union>i\<in>set xs. {f i, g i}) e)"
  using assms
proof (induction xs arbitrary: e)
  case (Cons i xs)
  then show ?case by (simp add: setTile_edge paint_paint Un_commute insert_commute)
qed (simp add: paint_empty)

definition edgeSquares :: "(int \<times> int) set" where
  "edgeSquares = {(x, y). inTiles x y \<and> \<not> onBoard x y}"

lemma setEdges_eq: "setEdges e = Some (paint edgeBoard edgeSquares e)"
proof -
  have "(\<Union>i\<in>{0..61::int}. {(i, 0), (i, 26)}) \<union> (\<Union>i\<in>{0..26::int}. {(0, i), (61, i)}) = edgeSquares"
    by (auto simp: edgeSquares_def inTiles_def onBoard_def)
  then show ?thesis
    using foldM_edge [of "[0..61]" "\<lambda>i. (i, 0)" "\<lambda>i. (i, 26)" e]
      foldM_edge [of "[0..26]" "\<lambda>i. (0, i)" "\<lambda>i. (61, i)"
        "paint edgeBoard (\<Union>i\<in>{0..61::int}. {(i, 0), (i, 26)}) e"]
    by (simp add: setEdges_def inTiles_def paint_paint Un_commute del: upto_0_numeral)
qed

section \<open>Sharing programs\<close>

text \<open>The last stat from 1 to \<open>n\<close> that carries the text \<open>d\<close>, 0 when there is none.\<close>

fun lastSame :: "(int \<Rightarrow> TStat) \<Rightarrow> string \<Rightarrow> nat \<Rightarrow> nat" where
  "lastSame S d 0 = 0"
| "lastSame S d (Suc n) = (if Data (S (int (Suc n))) = d then Suc n else lastSame S d n)"

lemma lastSame_found: "0 < lastSame S d n \<Longrightarrow> Data (S (int (lastSame S d n))) = d \<and> lastSame S d n \<le> n"
  by (induction n) (auto split: if_splits)

lemma lastSame_cong: "(\<And>i. Data (S i) = Data (T i)) \<Longrightarrow> lastSame S d n = lastSame T d n"
  by (induction n) simp_all

lemma lastSame_the: "1 \<le> k \<Longrightarrow> k \<le> n \<Longrightarrow> Data (S (int k)) = d \<Longrightarrow>
    \<forall>i. k < i \<and> i \<le> n \<longrightarrow> Data (S (int i)) \<noteq> d \<Longrightarrow> lastSame S d n = k"
proof (induction n)
  case (Suc n)
  show ?case
  proof (cases "k = Suc n")
    case False
    with Suc.prems(2) have "Data (S (int (Suc n))) \<noteq> d" by (intro Suc.prems(4) [rule_format]) simp
    with Suc False show ?thesis by simp
  qed (use Suc.prems in simp)
qed simp

definition storedLen :: "(int \<Rightarrow> TStat) \<Rightarrow> int \<Rightarrow> int" where
  "storedLen S i =
     (let k = lastSame S (Data (S i)) (nat (i - 1))
      in if DataLen (S i) > 0 \<and> k > 0 then - int k else DataLen (S i))"

definition stored :: "(int \<Rightarrow> TStat) \<Rightarrow> int \<Rightarrow> TStat" where
  "stored S i = (S i)\<lparr>DataLen := storedLen S i\<rparr>"

lemma setStats_self [simp]: "setStats (Stats (Board e)) e = e"
  by (simp add: setStats_def)

lemma setStats_twice [simp]: "setStats f (setStats g e) = setStats f e"
  by (simp add: setStats_def)

lemma Stats_setStats [simp]: "Stats (Board (setStats f e)) = f" "World (setStats f e) = World e"
  by (simp_all add: setStats_def)

lemma shareLoop:
  assumes "0 \<le> ix" and "ix \<le> 150" and "int n < ix \<or> n = 0"
  shows "foldM (\<lambda>iy e. do {
            src \<leftarrow> statAt iy e;
            s \<leftarrow> statAt ix e;
            if Data src = Data s then modStat ix (\<lambda>s. s\<lparr>DataLen := (- iy)\<rparr>) e else Some e }) [1..int n] e =
     (let S = Stats (Board e); k = lastSame S (Data (S ix)) n
      in Some (if k > 0 then setStats (S(ix := (S ix)\<lparr>DataLen := - int k\<rparr>)) e else e))"
  using assms(3)
proof (induction n)
  case 0
  then show ?case by simp
next
  case (Suc n)
  then have n: "int (Suc n) < ix" by simp
  have "[1..int (Suc n)] = [1..int n] @ [int (Suc n)]" by (subst upto_rec2) simp_all
  with Suc.IH n assms show ?case
    by (auto simp: foldM_append Let_def statAt_def inStats_def modStat_setStats)
qed

lemma shareData_eq:
  assumes "0 \<le> ix" and "ix \<le> 150"
  shows "shareData ix e = Some (setStats ((Stats (Board e))(ix := stored (Stats (Board e)) ix)) e)"
proof -
  have "[1..ix - 1] = [1..int (nat (ix - 1))]" by (cases "1 \<le> ix") simp_all
  moreover have "int (nat (ix - 1)) < ix \<or> nat (ix - 1) = 0" by auto
  ultimately show ?thesis
    using assms shareLoop [of ix "nat (ix - 1)" e]
    by (simp add: shareData_def statAt_def inStats_def stored_def storedLen_def Let_def)
qed

definition statRecord :: "(int \<Rightarrow> TStat) \<Rightarrow> int \<Rightarrow> int list" where
  "statRecord S i =
     statBytes (stored S i) @ (if storedLen S i > 0 then map ord (Data (S i)) else [])"

definition programText :: "TStat \<Rightarrow> bool" where
  "programText s \<longleftrightarrow> DataLen s \<le> 32767 \<and> (0 < DataLen s \<longrightarrow> int (length (Data s)) = DataLen s)"

lemma storedLen_pos: "0 < storedLen S i \<Longrightarrow> storedLen S i = DataLen (S i) \<and> 0 < DataLen (S i)"
  by (auto simp: storedLen_def Let_def split: if_splits)

lemma length_statRecord:
  "programText (S i) \<Longrightarrow> length (statRecord S i) \<le> 33 + nat (DataLen (S i))"
  using storedLen_pos [of S i] by (force simp: statRecord_def length_statBytes programText_def)

lemma stored_cong:
  assumes "\<And>j. Data (T j) = Data (S j)" and "T i = S i"
  shows "stored T i = stored S i"
  using assms lastSame_cong [of T S] by (simp add: stored_def storedLen_def Let_def)

lemma closeStat_eq:
  assumes "0 \<le> ix" and "ix \<le> 150" and "programText (S ix)" and "int (length p) = ptr"
    and "length (statRecord S ix) \<le> length q" and "\<And>j. Data (Stats (Board e) j) = Data (S j)"
    and "Stats (Board e) ix = S ix"
  shows "closeStat ix (ptr, p @ q, e) =
     Some (ptr + int (length (statRecord S ix)), p @ statRecord S ix @ drop (length (statRecord S ix)) q,
       setStats ((Stats (Board e))(ix := stored S ix)) e)"
proof -
  let ?r = "stored S ix"
  have r: "stored (Stats (Board e)) ix = ?r" using assms(6,7) by (rule stored_cong)
  have "33 \<le> length q" using assms(5) by (simp add: statRecord_def length_statBytes)
  then have st: "within ptr (ptr + 33) (\<lambda>d. StoreStat d ?r) (p @ q) = Some (p @ statBytes ?r @ drop 33 q)"
    using assms(4) by (intro stat.store_cursor) auto
  have dl: "DataLen ?r = storedLen S ix" "Data ?r = Data (S ix)" by (simp_all add: stored_def)
  show ?thesis
  proof (cases "0 < storedLen S ix")
    case True
    then have n: "storedLen S ix = int (length (Data (S ix)))"
      using storedLen_pos [of S ix] assms(3) by (simp add: programText_def)
    let ?q = "drop 33 q"
    have "within (ptr + 33) (ptr + 33 + DataLen ?r) (\<lambda>d. Some (copyBytes d (map ord (Data ?r)))) (p @ statBytes ?r @ ?q) =
        putAt (ptr + 33) (map ord (Data ?r)) (p @ statBytes ?r @ ?q)"
      by (rule within_exact [where n = "length (Data ?r)"]) (simp_all add: copyBytes_def dl n)
    also have "\<dots> = Some (p @ statRecord S ix @ drop (length (statRecord S ix)) q)"
      using assms(5) True
      by (simp add: putAt_def statRecord_def length_statBytes dl add.commute nat_add_distrib flip: assms(4))
    finally show ?thesis
      using assms(1,2) True r st n
      by (simp add: closeStat_def shareData_eq statAt_def inStats_def dl statRecord_def length_statBytes)
  next
    case False
    then show ?thesis
      using assms(1,2) r st by (simp add: closeStat_def shareData_eq statAt_def inStats_def dl statRecord_def length_statBytes)
  qed
qed

definition records :: "(int \<Rightarrow> TStat) \<Rightarrow> nat \<Rightarrow> int list" where
  "records S k = concat (map (\<lambda>i. statRecord S (int i)) [0..<k])"

lemma closeStats_eq:
  assumes "k \<le> 151" and "\<forall>i\<in>{0..<int k}. programText (S i)" and "int (length p) = ptr"
    and "length (records S k) \<le> length q" and "Stats (Board e) = S"
  shows "foldM closeStat [0..int k - 1] (ptr, p @ q, e) =
     Some (ptr + int (length (records S k)), p @ records S k @ drop (length (records S k)) q,
       setStats (\<lambda>i. if 0 \<le> i \<and> i < int k then stored S i else S i) e)"
  using assms(1,2,4)
proof (induction k)
  case 0
  have "(\<lambda>i. if 0 \<le> i \<and> i < 0 then stored S i else S i) = Stats (Board e)" by (rule ext) (use assms(5) in auto)
  then show ?case using setStats_self [of e] by (simp add: records_def)
next
  case (Suc k)
  have rec: "records S (Suc k) = records S k @ statRecord S (int k)" by (simp add: records_def)
  have up: "[0..int k] = [0..int k - 1] @ [int k]" by (subst upto_rec2) simp_all
  let ?S = "\<lambda>i. if 0 \<le> i \<and> i < int k then stored S i else S i"
  have "closeStat (int k) (ptr + int (length (records S k)), (p @ records S k) @ drop (length (records S k)) q, setStats ?S e) =
     Some (ptr + int (length (records S k)) + int (length (statRecord S (int k))),
       (p @ records S k) @ statRecord S (int k) @ drop (length (statRecord S (int k))) (drop (length (records S k)) q),
       setStats ((Stats (Board (setStats ?S e)))(int k := stored S (int k))) (setStats ?S e))"
    using Suc.prems assms(3) rec by (intro closeStat_eq) (auto simp: stored_def)
  moreover have "?S(int k := stored S (int k)) = (\<lambda>i. if 0 \<le> i \<and> i < int (Suc k) then stored S i else S i)"
    by (rule ext) auto
  ultimately show ?case
    using Suc.IH Suc.prems rec by (simp add: up foldM_append add.commute)
qed

lemma length_records:
  assumes "\<forall>i\<in>{0..<int k}. programText (S i)"
  shows "int (length (records S k)) \<le> 33 * int k + (\<Sum>i\<in>{0..int k - 1}. max 0 (DataLen (S i)))"
  using assms
proof (induction k)
  case (Suc k)
  have "programText (S (int k))" using Suc.prems by simp
  with length_statRecord [of S "int k"]
  have "int (length (statRecord S (int k))) \<le> 33 + max 0 (DataLen (S (int k)))" by auto
  moreover have "{0..int (Suc k) - 1} = insert (int k) {0..int k - 1}" by auto
  ultimately show ?case using Suc by (simp add: records_def)
qed (simp add: records_def)

section \<open>The bytes of a board\<close>

definition boardTiles :: "TBoard \<Rightarrow> TTile list" where
  "boardTiles b = map (squareTile b) (squaresFrom 1 1)"

definition boardRuns :: "TBoard \<Rightarrow> TRleTile list" where
  "boardRuns b = runs \<lparr>rCount = 1, rTile = Tiles b 1 1\<rparr> (tl (boardTiles b))"

definition boardBytes :: "TBoard \<Rightarrow> int list" where
  "boardBytes b =
     stringBytes 51 (bName b) @ runBytes (boardRuns b) @ boardInfoBytes (bInfo b) @
     int16Bytes (StatCount b) @ records (Stats b) (nat (StatCount b + 1))"

text \<open>
  A board that can be packed: its stats within the array, its programs as long as their length
  fields say, the bytes within the buffer.
\<close>

definition packable :: "TBoard \<Rightarrow> bool" where
  "packable b \<longleftrightarrow>
     0 \<le> StatCount b \<and> StatCount b \<le> MAX_STAT \<and> (\<forall>i\<in>{0..StatCount b}. programText (Stats b i)) \<and>
     length (boardBytes b) \<le> 20000"

lemma boardTiles_Cons: "boardTiles b = Tiles b 1 1 # tl (boardTiles b)"
  by (simp add: boardTiles_def squaresFrom.simps [of 1 1] squareTile_def)

lemma length_boardTiles: "length (boardTiles b) = 1500"
  using squaresFrom_length [of 1 1] by (simp add: boardTiles_def onBoard_def)

lemma boardRuns_props:
  "concat (map runTiles (boardRuns b)) = boardTiles b" "list_all countOk (boardRuns b)"
  "length (boardRuns b) \<le> 1500"
  using runs_tiles [of "\<lparr>rCount = 1, rTile = Tiles b 1 1\<rparr>" "tl (boardTiles b)"] boardTiles_Cons [of b]
    length_boardTiles [of b]
  by (simp_all add: boardRuns_def countOk_def runTiles_def)

lemma packableI:
  assumes "0 \<le> StatCount b" and "StatCount b \<le> MAX_STAT" and "\<forall>i\<in>{0..StatCount b}. programText (Stats b i)"
    and "(\<Sum>i\<in>{0..StatCount b}. max 0 (DataLen (Stats b i))) \<le> 10000"
  shows "packable b"
proof -
  let ?k = "nat (StatCount b + 1)"
  have k: "int ?k - 1 = StatCount b" "?k \<le> 151" "\<forall>i\<in>{0..<int ?k}. programText (Stats b i)"
    using assms(1-3) by auto
  then have "length (records (Stats b) ?k) \<le> 33 * 151 + 10000"
    using length_records [OF k(3)] assms(4) by simp
  then have "length (boardBytes b) \<le> 20000"
    using boardRuns_props(3) [of b] by (simp add: boardBytes_def length_boardInfoBytes)
  with assms show ?thesis by (simp add: packable_def)
qed

lemma BoardClose_eq:
  assumes "packable (Board e)" and "length (IoTmpBuf e) = 20000" and "inBoards (CurrentBoard (wInfo (World e)))"
  defines "S \<equiv> Stats (Board e)" and "bs \<equiv> boardBytes (Board e)"
  shows "BoardClose e = storeBoardData (CurrentBoard (wInfo (World e))) bs
     (setStats (\<lambda>i. if 0 \<le> i \<and> i \<le> StatCount (Board e) then stored S i else S i) e
        \<lparr>IoTmpBuf := bs @ drop (length bs) (IoTmpBuf e)\<rparr>)"
proof -
  let ?b = "Board e" and ?buf = "IoTmpBuf e" and ?k = "nat (StatCount (Board e) + 1)"
  let ?n = "stringBytes 51 (bName ?b)" and ?r = "runBytes (boardRuns ?b)" and ?i = "boardInfoBytes (bInfo ?b)"
    and ?c = "int16Bytes (StatCount ?b)" and ?s = "records S ?k"
  have k: "?k \<le> 151" "int ?k = StatCount ?b + 1" "\<forall>i\<in>{0..<int ?k}. programText (S i)"
    using assms(1) by (auto simp: packable_def S_def)
  have len: "length ?r + length ?s + 139 \<le> 20000"
    using assms(1) by (simp add: packable_def boardBytes_def S_def length_boardInfoBytes)
  let ?q1 = "drop 51 ?buf"
  let ?q2 = "drop (length ?r) ?q1"
  let ?q3 = "drop 86 ?q2"
  let ?q4 = "drop 2 ?q3"
  have 1: "within 0 51 (\<lambda>d. StoreString d (bName ?b)) ?buf = Some (?n @ ?q1)"
    using assms(2) by (simp add: putAt_0)
  have 2: "closeTiles 1 1 \<lparr>rCount = 1, rTile = Tiles ?b 1 1\<rparr> 51 (?n @ ?q1) e =
      Some (51 + int (length ?r), ?n @ ?r @ ?q2)"
    using len closeTiles_bytes [of 1 1 ?n 51 "tl (boardTiles ?b)" e ?q1 "\<lparr>rCount = 1, rTile = Tiles ?b 1 1\<rparr>"]
      length_boardTiles [of ?b] assms(2)
    by (simp add: boardRuns_def onBoard_def boardTiles_def map_tl)
  have 3: "within (51 + int (length ?r)) (51 + int (length ?r) + 86) (\<lambda>d. StoreBoardInfo d (bInfo ?b)) ((?n @ ?r) @ ?q2) =
      Some ((?n @ ?r) @ ?i @ ?q3)"
    using len assms(2) by (intro boardInfo.store_cursor) auto
  show "BoardClose e = storeBoardData (CurrentBoard (wInfo (World e))) bs
     (setStats (\<lambda>i. if 0 \<le> i \<and> i \<le> StatCount ?b then stored S i else S i) e\<lparr>IoTmpBuf := bs @ drop (length bs) ?buf\<rparr>)"
  proof -
    have 4: "within (51 + int (length ?r) + 86) (51 + int (length ?r) + 86 + 2) (\<lambda>d. StoreInt16 d (StatCount ?b))
        ((?n @ ?r @ ?i) @ ?q3) = Some ((?n @ ?r @ ?i) @ ?c @ ?q4)"
      using len assms(2) by (intro int16.store_cursor) (auto simp: length_boardInfoBytes)
    have 5: "foldM closeStat [0..int ?k - 1] (51 + int (length ?r) + 86 + 2, (?n @ ?r @ ?i @ ?c) @ ?q4, e) =
       Some (51 + int (length ?r) + 86 + 2 + int (length ?s), (?n @ ?r @ ?i @ ?c) @ ?s @ drop (length ?s) ?q4,
       setStats (\<lambda>i. if 0 \<le> i \<and> i < int ?k then stored S i else S i) e)"
      using k len assms(2) by (intro closeStats_eq) (auto simp: length_boardInfoBytes S_def)
    have k': "int ?k - 1 = StatCount ?b" "\<And>i. i < int ?k \<longleftrightarrow> i \<le> StatCount ?b" using k by simp_all
    have d: "drop (length ?s) ?q4 = drop (length bs) ?buf"
      by (simp add: bs_def boardBytes_def S_def length_boardInfoBytes ac_simps)
    have l: "51 + int (length ?r) + 86 + 2 + int (length ?s) = int (length bs)"
      by (simp add: bs_def boardBytes_def S_def length_boardInfoBytes)
    have app: "(?n @ ?r @ ?i @ ?c) @ ?s @ drop (length ?s) ?q4 = bs @ drop (length bs) ?buf"
      unfolding d by (simp add: bs_def boardBytes_def S_def)
    note 5 = 5 [unfolded app l k']
    have t: "tileAt 1 1 e = Some (Tiles ?b 1 1)" by (simp add: tileAt_def inTiles_def)
    show ?thesis
      using 1 2 3 4 5 by (simp add: BoardClose_def t slice_0)
  qed
qed

section \<open>Reading the bytes back\<close>

text \<open>Stat \<open>i\<close> as a load leaves it, on top of the stats \<open>T\<close> as they are by then.\<close>

definition restored :: "(int \<Rightarrow> TStat) \<Rightarrow> int \<Rightarrow> (int \<Rightarrow> TStat) \<Rightarrow> TStat" where
  "restored S i T =
     (let n = storedLen S i; T' = T(i := (stored S i)\<lparr>Data := Data (T i)\<rparr>) in
      if n > 0 then S i
      else if n < 0 then (S i)\<lparr>Data := Data (T' (- n)), DataLen := DataLen (T' (- n))\<rparr>
      else (S i)\<lparr>Data := Data (T i)\<rparr>)"

fun restoredStats :: "(int \<Rightarrow> TStat) \<Rightarrow> (int \<Rightarrow> TStat) \<Rightarrow> nat \<Rightarrow> int \<Rightarrow> TStat" where
  "restoredStats S T 0 = T"
| "restoredStats S T (Suc k) =
     (restoredStats S T k)(int k := restored S (int k) (restoredStats S T k))"

lemma restoredStats_later: "int k \<le> j \<or> j < 0 \<Longrightarrow> restoredStats S T k j = T j"
  by (induction k) auto

lemma restoredStats_at:
  "i < k \<Longrightarrow> restoredStats S T k (int i) = restored S (int i) (restoredStats S T i)"
  by (induction k) (auto simp: less_Suc_eq)

lemma storedLen_neg:
  assumes "storedLen S i < 0" and "0 \<le> DataLen (S i)"
  obtains k where "storedLen S i = - int k" and "0 < k" and "int k < i" and "Data (S (int k)) = Data (S i)"
    and "0 < DataLen (S i)"
proof -
  let ?k = "lastSame S (Data (S i)) (nat (i - 1))"
  have "storedLen S i = - int ?k" "0 < ?k" "0 < DataLen (S i)"
    using assms by (auto simp: storedLen_def Let_def split: if_splits)
  moreover from this lastSame_found [of S "Data (S i)" "nat (i - 1)"]
  have "Data (S (int ?k)) = Data (S i)" "int ?k \<le> i - 1" by (simp, arith)
  ultimately show ?thesis using that [of ?k] by simp
qed

lemma storedLen_range:
  assumes "-151 \<le> DataLen (S i)" and "i \<le> 151"
  shows "-151 \<le> storedLen S i" and "storedLen S i < 0 \<Longrightarrow> 0 \<le> - storedLen S i \<and> - storedLen S i \<le> 151"
proof -
  show "-151 \<le> storedLen S i"
  proof (cases "storedLen S i < 0 \<and> 0 \<le> DataLen (S i)")
    case True
    then obtain k where "storedLen S i = - int k" "int k < i" by (meson storedLen_neg)
    with assms(2) show ?thesis by simp
  next
    case False
    with assms(1) show ?thesis by (auto simp: storedLen_def Let_def split: if_splits)
  qed
  then show "storedLen S i < 0 \<Longrightarrow> 0 \<le> - storedLen S i \<and> - storedLen S i \<le> 151" by simp
qed

lemma storedLen_zero: "storedLen S i = 0 \<longleftrightarrow> DataLen (S i) = 0"
  by (auto simp: storedLen_def Let_def)

lemma openStat_eq:
  assumes "0 \<le> ix" and "ix \<le> 150" and "programText (S ix)" and "validStat (S ix)" and "-151 \<le> DataLen (S ix)"
  shows "openStat ix (statRecord S ix @ ys, f) =
     Some (ys, setStats ((Stats (Board f))(ix := restored S ix (Stats (Board f)))) f)"
proof -
  let ?r = "stored S ix"
  have v: "validStat ?r"
  proof (cases "storedLen S ix < 0")
    case True
    with storedLen_range [of S ix] assms(2,4,5) show ?thesis by (simp add: validStat_def stored_def is_i16_def)
  next
    case False
    then have "storedLen S ix = DataLen (S ix)" using storedLen_pos [of S ix] storedLen_zero [of S ix] by linarith
    with assms(4) show ?thesis by (simp add: validStat_def stored_def)
  qed
  have load: "LoadStat (statBytes ?r) old = Some (?r\<lparr>Data := Data old\<rparr>)" for old
    using v by (rule LoadStat_bytes)
  have dl: "DataLen ?r = storedLen S ix" by (simp add: stored_def)
  have at: "statAt ix e = Some (Stats (Board e) ix)" for e using assms(1,2) by (simp add: statAt_def inStats_def)
  have put: "putStat ix s e = setStats ((Stats (Board e))(ix := s)) e" for s e
    by (simp add: putStat_def setStats_def)
  have full: "?r\<lparr>Data := Data (S ix)\<rparr> = (S ix)\<lparr>DataLen := storedLen S ix\<rparr>" by (simp add: stored_def)
  consider "0 < storedLen S ix" | "storedLen S ix < 0" | "storedLen S ix = 0" by linarith
  then show ?thesis
  proof cases
    case 1
    then have n: "storedLen S ix = int (length (Data (S ix)))" "DataLen (S ix) = storedLen S ix"
      using storedLen_pos [of S ix] assms(3) by (simp_all add: programText_def)
    have "map (chr \<circ> ord) (Data (S ix)) = Data (S ix)" by (rule map_idI) simp
    moreover have "?r = S ix" using n by (simp add: stored_def)
    moreover note load' = LoadStat_bytes [OF assms(4)]
    ultimately show ?thesis
      using 1 n by (simp add: openStat_def statRecord_def at slice_0 slice_0_end slice_append length_statBytes
          advance_def put modStat_def restored_def)
  next
    case 2
    let ?k = "- storedLen S ix"
    from 2 have k: "0 \<le> ?k" "?k \<le> 151" using storedLen_range [of S ix] assms(2,5) by auto
    then have k': "statAt ?k e = Some (Stats (Board e) ?k)" "i16 ?k = ?k" for e
      by (simp_all add: statAt_def inStats_def)
    show ?thesis
      using 2 assms(2) load k'
      by (auto simp: openStat_def statRecord_def at slice_0 slice_0_end slice_append length_statBytes
          advance_def put dl modStat_def restored_def Let_def stored_def)
  next
    case 3
    then have "?r = S ix" "DataLen (S ix) = 0" using storedLen_zero [of S ix] by (simp_all add: stored_def)
    with 3 LoadStat_bytes [OF assms(4)] show ?thesis
      by (simp add: openStat_def statRecord_def slice_0 slice_0_end slice_append length_statBytes at
          advance_def put restored_def)
  qed
qed

lemma openStats_eq:
  assumes "k \<le> 151" and "\<forall>i\<in>{0..<int k}. programText (S i) \<and> validStat (S i) \<and> -151 \<le> DataLen (S i)"
  shows "foldM openStat [0..int k - 1] (records S k @ ys, f) =
     Some (ys, setStats (restoredStats S (Stats (Board f)) k) f)"
  using assms
proof (induction k arbitrary: ys)
  case 0
  then show ?case by (simp add: records_def)
next
  case (Suc k)
  have up: "[0..int k] = [0..int k - 1] @ [int k]" by (subst upto_rec2) simp_all
  have "openStat (int k) (statRecord S (int k) @ ys, setStats (restoredStats S (Stats (Board f)) k) f) =
    Some (ys, setStats (restoredStats S (Stats (Board f)) (Suc k)) f)"
    using Suc.prems by (subst openStat_eq) simp_all
  with Suc show ?case by (simp add: up foldM_append records_def fun_upd_def)
qed

definition readable :: "TBoard \<Rightarrow> bool" where
  "readable b \<longleftrightarrow>
     fits 50 (bName b) \<and> validBoardInfo (bInfo b) \<and> (\<forall>i\<in>{0..StatCount b}. validStat (Stats b i) \<and> -151 \<le> DataLen (Stats b i))"

definition reopened :: "TBoard \<Rightarrow> TBoard \<Rightarrow> TBoard" where
  "reopened old b =
     \<lparr>bName = bName b,
      Tiles = (\<lambda>x y. if onBoard x y then Tiles b x y
                     else if inTiles x y then TileBoardEdge else Tiles old x y),
      StatCount = StatCount b,
      Stats = restoredStats (Stats b) (Stats old) (nat (StatCount b + 1)),
      bInfo = mergeBoardInfo (bInfo old) (bInfo b)\<rparr>"

lemma BoardOpen_eq:
  assumes "packable b" and "readable b" and "inBoards n" and "n \<le> BoardCount (World f)"
    and "BoardData (World f) n = boardBytes b"
  shows "BoardOpen n f = Some (modWorldInfo (\<lambda>w. w\<lparr>CurrentBoard := n\<rparr>)
     (f\<lparr>ScrollAudience := (\<lambda>_. 0), Board := reopened (Board f) b\<rparr>))"
proof -
  let ?k = "nat (StatCount b + 1)"
  have k: "?k \<le> 151" "int ?k - 1 = StatCount b" "\<forall>i\<in>{0..<int ?k}. programText (Stats b i) \<and> validStat (Stats b i) \<and> -151 \<le> DataLen (Stats b i)"
    using assms(1,2) by (auto simp: packable_def readable_def)
  have sq: "set (squaresFrom 1 1) = {(x, y). onBoard x y}"
    by (subst squaresFrom_set) (auto simp: onBoard_def)
  have tiles: "openTiles 1 1 \<lparr>rCount = 0, rTile = \<lparr>Element = 0, Color = 0\<rparr>\<rparr> (runBytes (boardRuns b) @ ys) e =
      Some (ys, paint b {(x, y). onBoard x y} e)" for ys e
    using openTiles_bytes [of 1 1 "boardRuns b" "\<lparr>rCount = 0, rTile = \<lparr>Element = 0, Color = 0\<rparr>\<rparr>" b ys e]
      boardRuns_props [of b] by (simp add: sq runTiles_def boardTiles_def onBoard_def [of 1 1])
  have stats: "foldM openStat [0..StatCount b] (records (Stats b) ?k, e) =
      Some ([], setStats (restoredStats (Stats b) (Stats (Board e)) ?k) e)" for e
    using openStats_eq [OF k(1,3), of "[]" e] unfolding k(2) by simp
  have n: "is_i16 (StatCount b)" using assms(1) by (simp add: packable_def is_i16_def)
  have tl: "(\<lambda>x y. if onBoard x y then Tiles b x y else if (x, y) \<in> edgeSquares then TileBoardEdge else T x y) =
      (\<lambda>x y. if onBoard x y then Tiles b x y else if inTiles x y then TileBoardEdge else T x y)" for T
    by (intro ext) (simp add: edgeSquares_def)
  show ?thesis
    using assms(2-5)
    by (simp add: BoardOpen_def setEdges_eq check_def boardBytes_def slice_0 slice_0_end slice_append advance_def
        readable_def tiles length_boardInfoBytes LoadBoardInfo_bytes n stats Let_def)
      (simp add: paint_def setStats_def modInfo_def setStatCount_def modWorldInfo_def reopened_def edgeBoard_def tl stats cong: if_cong)
qed

section \<open>Round trips\<close>

text \<open>
  Programs told apart by their text, none of them a reference: a stat that has no program does not carry the text
  of one that has. A load leaves the text of an earlier board in a stat without a program, so
  this is not automatic; \<open>stale_text_loses_program\<close> is what happens otherwise.
\<close>

definition distinctPrograms :: "TBoard \<Rightarrow> bool" where
  "distinctPrograms b \<longleftrightarrow>
     (\<forall>i\<in>{0..StatCount b}. 0 \<le> DataLen (Stats b i)) \<and>
     (\<forall>i\<in>{1..StatCount b}. \<forall>j\<in>{1..StatCount b}.
        Data (Stats b i) = Data (Stats b j) \<longrightarrow> DataLen (Stats b i) = DataLen (Stats b j))"

lemma restoredStats_distinct:
  assumes "packable b" and "distinctPrograms b" and "0 \<le> i" and "i \<le> StatCount b"
  shows "restoredStats (Stats b) T (nat (StatCount b + 1)) i =
     (Stats b i)\<lparr>Data := if DataLen (Stats b i) = 0 then Data (T i) else Data (Stats b i)\<rparr>"
proof -
  let ?S = "Stats b" and ?n = "nat (StatCount b + 1)"
  have "restoredStats ?S T ?n (int k) =
      (?S (int k))\<lparr>Data := if DataLen (?S (int k)) = 0 then Data (T (int k)) else Data (?S (int k))\<rparr>"
    if "int k \<le> StatCount b" for k
    using that
  proof (induction k rule: less_induct)
    case (less k)
    have at: "restoredStats ?S T ?n (int k) = restored ?S (int k) (restoredStats ?S T k)"
      using less.prems by (intro restoredStats_at) simp
    have p: "0 \<le> DataLen (?S (int k))" using assms(2) less.prems by (simp add: distinctPrograms_def)
    consider "0 < storedLen ?S (int k)" | "storedLen ?S (int k) < 0" | "storedLen ?S (int k) = 0" by linarith
    then show ?case
    proof cases
      case 1
      then show ?thesis using storedLen_pos [of ?S "int k"] by (simp add: at restored_def)
    next
      case 2
      from 2 p obtain m where m: "storedLen ?S (int k) = - int m" "0 < m" "int m < int k"
        "Data (?S (int m)) = Data (?S (int k))" "0 < DataLen (?S (int k))" by (rule storedLen_neg)
      have dl: "DataLen (?S (int m)) = DataLen (?S (int k))"
        using assms(2) m less.prems by (simp add: distinctPrograms_def)
      have "restoredStats ?S T k (int m) = restoredStats ?S T ?n (int m)"
        using m less.prems by (simp add: restoredStats_at)
      also have "\<dots> = (?S (int m))\<lparr>Data := Data (?S (int m))\<rparr>"
        using less.IH [of m] m less.prems dl by simp
      finally show ?thesis using m dl 2 by (simp add: at restored_def Let_def)
    next
      case 3
      then show ?thesis
        by (simp add: at restored_def Let_def restoredStats_later flip: storedLen_zero)
    qed
  qed
  from this [of "nat i"] assms(3,4) show ?thesis by simp
qed

lemma close_then_open:
  assumes "packable (Board e)" and "readable (Board e)" and "length (IoTmpBuf e) = 20000"
    and "n = CurrentBoard (wInfo (World e))" and "inBoards n" and "n \<le> BoardCount (World f)"
  obtains e' where "BoardClose e = Some e'" and "BoardData (World e') n = boardBytes (Board e)"
    and "BoardCount (World e') = BoardCount (World e)"
    and "Stats (Board e') = (\<lambda>i. if 0 \<le> i \<and> i \<le> StatCount (Board e) then stored (Stats (Board e)) i else Stats (Board e) i)"
    and "BoardOpen n (f\<lparr>World := (World f)\<lparr>BoardData := (BoardData (World f))(n := BoardData (World e') n)\<rparr>\<rparr>) =
      Some (modWorldInfo (\<lambda>w. w\<lparr>CurrentBoard := n\<rparr>)
        (f\<lparr>World := (World f)\<lparr>BoardData := (BoardData (World f))(n := boardBytes (Board e))\<rparr>,
           ScrollAudience := (\<lambda>_. 0), Board := reopened (Board f) (Board e)\<rparr>))"
proof -
  let ?bs = "boardBytes (Board e)"
  obtain e' where e': "BoardClose e = Some e'" "BoardData (World e') n = ?bs" "BoardCount (World e') = BoardCount (World e)"
    "Stats (Board e') = (\<lambda>i. if 0 \<le> i \<and> i \<le> StatCount (Board e) then stored (Stats (Board e)) i else Stats (Board e) i)"
    using BoardClose_eq(1) [OF assms(1,3)] assms(4,5) by (simp add: storeBoardData_def)
  moreover have "BoardOpen n (f\<lparr>World := (World f)\<lparr>BoardData := (BoardData (World f))(n := ?bs)\<rparr>\<rparr>) =
      Some (modWorldInfo (\<lambda>w. w\<lparr>CurrentBoard := n\<rparr>)
        (f\<lparr>World := (World f)\<lparr>BoardData := (BoardData (World f))(n := ?bs)\<rparr>,
           ScrollAudience := (\<lambda>_. 0), Board := reopened (Board f) (Board e)\<rparr>))"
    using assms(1,2,5,6) by (subst BoardOpen_eq [of "Board e"]) (simp_all)
  ultimately show ?thesis using that by simp
qed

text \<open>
  C10. A board that fits the buffer of 20000 bytes (\<open>packable\<close>), whose fields fit their widths in the file
  (\<open>readable\<close>) and whose programs differ in their text from every stat without one (\<open>distinctPrograms\<close>),
  packed by \<open>BoardClose\<close> and unpacked by \<open>BoardOpen\<close> on the same engine or on any other, comes back: its
  name, its 1500 tiles, its limits and neighbours, its programs and every field of its stats but one: a stat
  without a program keeps the text that the opening engine had in that slot. Without the third condition a
  program can be lost (\<open>stale_text_loses_program\<close>).
\<close>

theorem board_roundtrip:
  assumes "packable (Board e)" and "readable (Board e)" and "distinctPrograms (Board e)"
    and "length (IoTmpBuf e) = 20000" and "n = CurrentBoard (wInfo (World e))" and "inBoards n"
    and "n \<le> BoardCount (World f)"
  shows "\<exists>e' f'. BoardClose e = Some e' \<and>
     BoardOpen n (f\<lparr>World := (World f)\<lparr>BoardData := (BoardData (World f))(n := BoardData (World e') n)\<rparr>\<rparr>) = Some f' \<and>
     bName (Board f') = bName (Board e) \<and> StatCount (Board f') = StatCount (Board e) \<and>
     bInfo (Board f') = mergeBoardInfo (bInfo (Board f)) (bInfo (Board e)) \<and>
     (\<forall>x y. onBoard x y \<longrightarrow> Tiles (Board f') x y = Tiles (Board e) x y) \<and>
     (\<forall>i. 0 \<le> i \<and> i \<le> StatCount (Board e) \<longrightarrow>
        Stats (Board f') i = (Stats (Board e) i)
          \<lparr>Data := if DataLen (Stats (Board e) i) = 0 then Data (Stats (Board f) i) else Data (Stats (Board e) i)\<rparr>)"
  using assms close_then_open [OF assms(1,2,4-7)] restoredStats_distinct [OF assms(1,3)]
  by (fastforce simp: modWorldInfo_def reopened_def)

text \<open>Two objects that share a program, on a board in a fresh world.\<close>

definition twoObjects :: Engine where
  "twoObjects = NewEngine\<lparr>Board := zeroBoard\<lparr>StatCount := 2,
     Stats := (\<lambda>_. zeroStat)(1 := zeroStat\<lparr>Data := ''#end'', DataLen := 4\<rparr>, 2 := zeroStat\<lparr>Data := ''#end'', DataLen := 4\<rparr>)\<rparr>\<rparr>"

lemma below_3: "i \<in> {0..2} \<longleftrightarrow> i = 0 \<or> i = 1 \<or> i = 2" "i \<in> {1..2} \<longleftrightarrow> i = 1 \<or> i = 2" for i :: int
  by auto

lemma sum_0_2: "(\<Sum>i = 0..2. g i) = g 0 + g 1 + g 2" for g :: "int \<Rightarrow> int"
proof -
  have "{0..2} = {0, 1, 2::int}" by auto
  then show ?thesis by simp
qed

theorem board_roundtrip_witness:
  "\<exists>e' f'. BoardClose twoObjects = Some e' \<and>
     BoardOpen 0 (NewEngine\<lparr>World := (World NewEngine)\<lparr>BoardData := (BoardData (World NewEngine))(0 := BoardData (World e') 0)\<rparr>\<rparr>) = Some f' \<and>
     Stats (Board f') 2 = zeroStat\<lparr>Data := ''#end'', DataLen := 4\<rparr>"
proof -
  have "packable (Board twoObjects)"
    by (rule packableI) (simp_all add: twoObjects_def below_3 zeroStat_def zeroBoard_def sum_0_2 programText_def Ball_def)
  moreover have "readable (Board twoObjects)" "distinctPrograms (Board twoObjects)"
    by (simp_all add: packable_def readable_def distinctPrograms_def twoObjects_def below_3 zeroStat_def zeroBoard_def
        sum_0_2 programText_def validStat_def validBoardInfo_def is_i16_def fits_def Ball_def)
  moreover have "length (IoTmpBuf twoObjects) = 20000" "CurrentBoard (wInfo (World twoObjects)) = 0" "inBoards 0"
    "0 \<le> BoardCount (World NewEngine)" "StatCount (Board twoObjects) = 2"
    "Stats (Board twoObjects) 2 = zeroStat\<lparr>Data := ''#end'', DataLen := 4\<rparr>"
    by (simp_all add: twoObjects_def NewEngine_def zeroWorld_def inBoards_def)
  ultimately show ?thesis using board_roundtrip [of twoObjects 0 NewEngine] by fastforce
qed

text \<open>
  C29. When a stat without a program carries, left over from an earlier board, the text of a later
  stat's program, \<open>BoardClose\<close> stores that program as a reference to the stat without one: on the
  same engine the program is gone as soon as the board is packed and opened again.
\<close>

theorem stale_text_loses_program:
  assumes "packable (Board e)" and "readable (Board e)" and "length (IoTmpBuf e) = 20000"
    and "n = CurrentBoard (wInfo (World e))" and "inBoards n" and "n \<le> BoardCount (World e)"
    and "1 \<le> i" and "i < j" and "j \<le> StatCount (Board e)" and "DataLen (Stats (Board e) i) = 0"
    and "0 < DataLen (Stats (Board e) j)" and "Data (Stats (Board e) i) = Data (Stats (Board e) j)"
    and "\<forall>k. i < k \<and> k < j \<longrightarrow> Data (Stats (Board e) k) \<noteq> Data (Stats (Board e) j)"
  shows "\<exists>e' f'. BoardClose e = Some e' \<and> BoardOpen n e' = Some f' \<and> DataLen (Stats (Board f') j) = 0"
proof -
  let ?S = "Stats (Board e)" and ?N = "nat (StatCount (Board e) + 1)"
  obtain e' where e': "BoardClose e = Some e'" "BoardData (World e') n = boardBytes (Board e)"
      "BoardCount (World e') = BoardCount (World e)"
    using close_then_open [OF assms(1-6)] by blast
  then have "BoardOpen n e' = Some (modWorldInfo (\<lambda>w. w\<lparr>CurrentBoard := n\<rparr>)
      (e'\<lparr>ScrollAudience := (\<lambda>_. 0), Board := reopened (Board e') (Board e)\<rparr>))"
    using assms(1,2,5,6) by (intro BoardOpen_eq) simp_all
  moreover have "DataLen (restoredStats ?S T ?N j) = 0" for T
  proof -
    have "lastSame ?S (Data (?S j)) (nat (j - 1)) = nat i"
    proof (rule lastSame_the)
      show "\<forall>l. nat i < l \<and> l \<le> nat (j - 1) \<longrightarrow> Data (?S (int l)) \<noteq> Data (?S j)"
      proof (intro allI impI)
        fix l assume "nat i < l \<and> l \<le> nat (j - 1)"
        then have "i < int l" and "int l < j" using assms(7,8) by (simp_all add: nat_less_iff le_nat_iff)
        then show "Data (?S (int l)) \<noteq> Data (?S j)" using assms(13) by blast
      qed
    qed (use assms(7,8,12) in auto)
    then have "storedLen ?S j = - i" using assms(7,11) by (simp add: storedLen_def)
    moreover have "storedLen ?S i = 0" using assms(10) by (simp add: storedLen_def)
    moreover have "restoredStats ?S T k (int l) = restored ?S (int l) (restoredStats ?S T l)" if "l < k" for l k
      using that by (rule restoredStats_at)
    from this [of "nat j" ?N] this [of "nat i" "nat j"]
    have "restoredStats ?S T ?N j = restored ?S j (restoredStats ?S T (nat j))"
      "restoredStats ?S T (nat j) i = restored ?S i (restoredStats ?S T (nat i))"
      using assms(7-9) by simp_all
    ultimately show ?thesis using assms(7,8,10) by (simp add: restored_def)
  qed
  ultimately show ?thesis using e' by (simp add: modWorldInfo_def reopened_def)
qed

definition staleText :: Engine where
  "staleText = NewEngine\<lparr>Board := zeroBoard\<lparr>StatCount := 2,
     Stats := (\<lambda>_. zeroStat)(1 := zeroStat\<lparr>Data := ''#end''\<rparr>, 2 := zeroStat\<lparr>Data := ''#end'', DataLen := 4\<rparr>)\<rparr>\<rparr>"

theorem stale_text_loses_program_witness:
  "\<exists>e' f'. BoardClose staleText = Some e' \<and> BoardOpen 0 e' = Some f' \<and>
     DataLen (Stats (Board staleText) 2) = 4 \<and> DataLen (Stats (Board f') 2) = 0"
proof -
  have "packable (Board staleText)"
    by (rule packableI) (simp_all add: staleText_def below_3 zeroStat_def zeroBoard_def sum_0_2 programText_def Ball_def)
  moreover have "readable (Board staleText)"
    by (simp_all add: packable_def readable_def staleText_def below_3 zeroStat_def zeroBoard_def
        sum_0_2 programText_def validStat_def validBoardInfo_def is_i16_def fits_def Ball_def)
  moreover have "length (IoTmpBuf staleText) = 20000" "CurrentBoard (wInfo (World staleText)) = 0" "inBoards 0"
    "0 \<le> BoardCount (World staleText)" "StatCount (Board staleText) = 2"
    "Stats (Board staleText) 1 = zeroStat\<lparr>Data := ''#end''\<rparr>"
    "Stats (Board staleText) 2 = zeroStat\<lparr>Data := ''#end'', DataLen := 4\<rparr>"
    by (simp_all add: staleText_def NewEngine_def zeroWorld_def inBoards_def)
  ultimately show ?thesis
    using stale_text_loses_program [of staleText 0 1 2] by (force simp: zeroStat_def)
qed

end
