(* ===== verification/ZwdCompile.thy ===== *)
theory ZwdCompile
  imports ZwdDoc Authoring BoardTrip
begin

text \<open>
  From a ZWD document to a world (\<open>compileZWDDocument\<close> and \<open>compileZWDBoard\<close> in \<open>engine/zwd.go\<close>). A
  compile step can panic, refuse with an error, or return: it yields an option of a sum.
\<close>

section \<open>Steps that can refuse\<close>

definition tryO :: "('e + 'a) option \<Rightarrow> ('a \<Rightarrow> ('e + 'b) option) \<Rightarrow> ('e + 'b) option" where
  "tryO r f = do { x \<leftarrow> r; case x of Inl err \<Rightarrow> Some (Inl err) | Inr y \<Rightarrow> f y }"

fun foldE :: "('a \<Rightarrow> 's \<Rightarrow> ('e + 's) option) \<Rightarrow> 'a list \<Rightarrow> 's \<Rightarrow> ('e + 's) option" where
  "foldE f [] s = Some (Inr s)"
| "foldE f (x # xs) s = tryO (f x s) (foldE f xs)"

section \<open>Text-window lines\<close>

abbreviation (input) zztTextWindowLineWidth :: nat where "zztTextWindowLineWidth \<equiv> 42"
abbreviation (input) zztTextWindowCenteredMax :: nat where "zztTextWindowCenteredMax \<equiv> 45"
abbreviation (input) zztTextWindowChoiceMax :: nat where "zztTextWindowChoiceMax \<equiv> 38"
abbreviation (input) zztTextWindowTitleMax :: nat where "zztTextWindowTitleMax \<equiv> 45"

text \<open>The widths are positive constants; the test only tells the termination proof so.\<close>

function breakWord :: "nat \<Rightarrow> string \<Rightarrow> string list \<Rightarrow> string \<Rightarrow> string list \<times> string \<times> string" where
  "breakWord width word lines line =
     (if 0 < width \<and> width < length word
      then breakWord width (drop width word) ((if line \<noteq> [] then lines @ [line] else lines) @ [take width word]) []
      else (lines, line, word))"
  by pat_completeness auto
termination by (relation "measure (\<lambda>(width, word, lines, line). length word)") auto

declare breakWord.simps [simp del]

fun wrapWords :: "nat \<Rightarrow> string list \<Rightarrow> string list \<Rightarrow> string \<Rightarrow> string list" where
  "wrapWords width [] lines line = (if line \<noteq> [] then lines @ [line] else lines)"
| "wrapWords width (word # words) lines line =
     (let (lines, line, word) = breakWord width word lines line in
      if line = [] then wrapWords width words lines word
      else if length line + 1 + length word \<le> width then wrapWords width words lines (line @ '' '' @ word)
      else wrapWords width words (lines @ [line]) word)"

definition wrapZWDText :: "string \<Rightarrow> nat \<Rightarrow> string list" where
  "wrapZWDText s width = (if Fields s = [] then [[]] else wrapWords width (Fields s) [] [])"

text \<open>One line of a program; \<open>None\<close> is the error of a title that is too long.\<close>

definition wrapLine :: "string \<Rightarrow> string list option" where
  "wrapLine line =
     (case line of
        [] \<Rightarrow> Some [line]
      | c # r \<Rightarrow>
          if c = CHR ''@'' then (if length line - 1 > zztTextWindowTitleMax then None else Some [line])
          else if c \<in> {CHR ''#'', CHR '':'', chr 39, CHR ''/'', CHR ''?''} then Some [line]
          else if c = CHR ''$'' then Some (map ((#) CHR ''$'') (wrapZWDText r zztTextWindowCenteredMax))
          else if c = CHR ''!'' then
            (let separator = IndexByte line CHR '';'' in
             if separator \<ge> 0 then
               let parts = wrapZWDText (drop (nat separator + 1) line) zztTextWindowChoiceMax
               in Some ((take (nat separator + 1) line @ hd parts) # tl parts)
             else Some (wrapZWDText line zztTextWindowLineWidth))
          else Some (wrapZWDText line zztTextWindowLineWidth))"

fun wrapLines :: "string list \<Rightarrow> string list option" where
  "wrapLines [] = Some []"
| "wrapLines (line # lines) = do { xs \<leftarrow> wrapLine line; ys \<leftarrow> wrapLines lines; Some (xs @ ys) }"

definition wrapZWDTextWindowLines :: "string \<Rightarrow> string option" where
  "wrapZWDTextWindowLines data = map_option (joinWith [chr 13]) (wrapLines (splitOn (chr 13) data))"

section \<open>The size of a board\<close>

definition scanSquares :: "(int \<times> int) list" where
  "scanSquares = concat (map (\<lambda>y. map (\<lambda>x. (x, y)) [1..BOARD_WIDTH]) [1..BOARD_HEIGHT])"

text \<open>One square: the runs finished so far, the tile of the open run and its length.\<close>

definition countRun :: "Engine \<Rightarrow> int \<times> int \<Rightarrow> int \<times> TTile \<times> int \<Rightarrow> (int \<times> TTile \<times> int) option" where
  "countRun e q r =
     (case r of (rleCount, prev, run) \<Rightarrow>
        do { tile \<leftarrow> tileAt (fst q) (snd q) e;
             Some (if run > 0 \<and> tile = prev \<and> run < 255 then (rleCount, prev, run + 1)
                   else (if run > 0 then rleCount + 1 else rleCount, tile, 1)) })"

definition estimateZWDSerializedBoardSize :: "Engine \<Rightarrow> int option" where
  "estimateZWDSerializedBoardSize e =
     do { (rleCount, _, run) \<leftarrow> foldM (countRun e) scanSquares (0, zeroTile, 0);
          let rleCount = (if run > 0 then rleCount + 1 else rleCount);
          let size = SizeOfBoardName + SizeOfBoardInfo + 2 + rleCount * SizeOfRleTile;
          foldM (\<lambda>i size. do { s \<leftarrow> statAt i e;
                               Some (size + SizeOfStat + (if DataLen s > 0 then DataLen s else 0)) })
            [0..StatCount (Board e)] size }"

section \<open>A board\<close>

definition elementMayHaveStat :: "int \<Rightarrow> bool" where
  "elementMayHaveStat el \<longleftrightarrow> el = E_CONVEYOR_CW \<or> el = E_CONVEYOR_CCW \<or> elementNeedsStat el"

definition compileExit :: "zwdBoard \<Rightarrow> (string \<Rightarrow> int option) \<Rightarrow> int \<Rightarrow> Engine \<Rightarrow> (zwdError + Engine) option" where
  "compileExit src boardIDs i e =
     (let to = (\<lambda>n. modInfo (\<lambda>info. info\<lparr>NeighborBoards := (NeighborBoards info)(i := n)\<rparr>) e) in
      Some (if zbExits src i = [] then Inr (to 0)
            else case boardIDs (zbExits src i) of
                   None \<Rightarrow> Inl (zerr (zbLine src) 1)
                 | Some n \<Rightarrow> if n = 0 then Inl (zerr (zbLine src) 1) else Inr (to (u8 n))))"

definition gridSquares :: "zwdBoard \<Rightarrow> (nat \<times> zwdGridLine \<times> nat) list" where
  "gridSquares src =
     concat (map (\<lambda>(y, row). map (\<lambda>x. (y, row, x)) [0..<60]) (enumerate 0 (zbGrid src)))"

text \<open>The first square whose key is not in the legend, and the distinct keys of that kind in order.\<close>

definition scanUndefinedGridKeys :: "zwdBoard \<Rightarrow> (int \<times> int \<times> string) option" where
  "scanUndefinedGridKeys src =
     foldM (\<lambda>(y, row, x) (firstLine, firstCol, missing).
         do { ch \<leftarrow> index (glText row) (int x);
              Some (if zbLegend src ch \<noteq> None then (firstLine, firstCol, missing)
                    else let (l, c) = (if firstLine = 0 then (glLine row, int x + 1) else (firstLine, firstCol))
                         in (l, c, if ch \<in> set missing then missing else missing @ [ch])) })
       (gridSquares src) (0, 0, [])"

definition playerStat :: "int \<Rightarrow> int \<Rightarrow> zwdLegendEntry \<Rightarrow> TStat" where
  "playerStat x y entry =
     zeroStat\<lparr>sX := u8 x, sY := u8 y, sCycle := 1, Follower := -1, Leader := -1,
       Under := (case leUnder entry of None \<Rightarrow> \<lparr>Element = E_EMPTY, Color = 0\<rparr> | Some t \<Rightarrow> t)\<rparr>"

definition placeSquare ::
  "zwdBoard \<Rightarrow> nat \<times> zwdGridLine \<times> nat \<Rightarrow> int \<times> Engine \<Rightarrow> (zwdError + int \<times> Engine) option" where
  "placeSquare src q s =
     (case (q, s) of ((y, row, x), (playerCount, e)) \<Rightarrow>
        do { ch \<leftarrow> index (glText row) (int x);
             case zbLegend src ch of
               None \<Rightarrow> Some (Inl (zerrc ErrUndefinedGridChar (glLine row) (int x + 1)))
             | Some entry \<Rightarrow> do {
                 e \<leftarrow> setTile (int x + 1) (int y + 1) \<lparr>Element = leElement entry, Color = leColor entry\<rparr> e;
                 if leElement entry = E_PLAYER then
                   (if int x + 1 \<noteq> zbStartX src \<or> int y + 1 \<noteq> zbStartY src
                    then Some (Inl (zerr (glLine row) (int x + 1)))
                    else Some (Inr (playerCount + 1, putStat 0 (playerStat (int x + 1) (int y + 1) entry) e)))
                 else Some (Inr (playerCount, e)) } })"

definition statOfZwd :: "zwdStat \<Rightarrow> TStat" where
  "statOfZwd z =
     zeroStat\<lparr>sX := u8 (zsX z), sY := u8 (zsY z), StepX := zsStepX z, StepY := zsStepY z, sCycle := zsCycle z,
       P1 := zsP1 z, P2 := zsP2 z, P3 := zsP3 z, Follower := zsFollower z, Leader := zsLeader z,
       Under := zsUnder z, DataPos := zsDataPos z\<rparr>"

text \<open>The target of a passage, and the program, which a title that is too long refuses.\<close>

definition statTarget :: "(string \<Rightarrow> int option) \<Rightarrow> zwdStat \<Rightarrow> zwdError + TStat" where
  "statTarget boardIDs z =
     (if zsP3Board z = [] then Inr (statOfZwd z)
      else case boardIDs (zsP3Board z) of
             None \<Rightarrow> Inl (zerr (zsLine z) 1)
           | Some n \<Rightarrow> Inr ((statOfZwd z)\<lparr>P3 := u8 n\<rparr>))"

definition statProgram :: "zwdStat \<Rightarrow> TStat \<Rightarrow> zwdError + TStat" where
  "statProgram z s =
     (if zsData z = [] then Inr s
      else case wrapZWDTextWindowLines (zsData z) of
             None \<Rightarrow> Inl (zerr (zsLine z) 1)
           | Some d \<Rightarrow> if length d > 32767 then Inl (zerr (zsLine z) 1)
                       else Inr (s\<lparr>Data := d, DataLen := i16 (int (length d))\<rparr>))"

definition compileStat :: "(string \<Rightarrow> int option) \<Rightarrow> zwdStat \<Rightarrow> Engine \<Rightarrow> (zwdError + Engine) option" where
  "compileStat boardIDs z e =
     (if StatCount (Board e) \<ge> MAX_STAT \<or> \<not> elementMayHaveStat (zsElement z) then Some (Inl (zerr (zsLine z) 1))
      else do {
        el \<leftarrow> elementAt (zsX z) (zsY z) e;
        if el \<noteq> zsElement z then Some (Inl (zerr (zsLine z) 1))
        else tryO (Some (statTarget boardIDs z)) (\<lambda>s. tryO (Some (statProgram z s)) (\<lambda>s.
          if zsHasBind z \<and> (zsData z \<noteq> [] \<or> zsBind z > StatCount (Board e)) then Some (Inl (zerr (zsLine z) 1))
          else do {
            let s = (if zsHasBind z then s\<lparr>DataLen := i16 (- zsBind z)\<rparr> else s);
            let n = i16 (StatCount (Board e) + 1);
            e \<leftarrow> modStat n (\<lambda>_. s) (setStatCount n e);
            Some (Inr e) })) })"

definition statCoords :: "zwdBoard \<Rightarrow> (int \<times> int) set" where
  "statCoords src = insert (zbStartX src, zbStartY src) (set (map (\<lambda>z. (zsX z, zsY z)) (zbStats src)))"

text \<open>The squares whose element needs a stat and has none, each with its line and column.\<close>

definition orphans :: "zwdBoard \<Rightarrow> (int \<times> int) list option" where
  "orphans src =
     foldM (\<lambda>(y, row, x) found.
         do { ch \<leftarrow> index (glText row) (int x);
              let el = (case zbLegend src ch of None \<Rightarrow> 0 | Some entry \<Rightarrow> leElement entry);
              Some (if elementNeedsStat el \<and> (int x + 1, int y + 1) \<notin> statCoords src
                    then found @ [(glLine row, int x + 1)] else found) })
       (gridSquares src) []"

definition boardHeader :: "int \<Rightarrow> zwdBoard \<Rightarrow> Engine \<Rightarrow> Engine" where
  "boardHeader boardID src e =
     (let e = modWorldInfo (\<lambda>w. w\<lparr>CurrentBoard := boardID\<rparr>) e;
          e = e\<lparr>Board := (Board e)\<lparr>bName := zbName src\<rparr>\<rparr>
      in modInfo (\<lambda>info. info\<lparr>
           StartPlayerX := u8 (if zbHasRespawn src then zbRespawnX src else zbStartX src),
           StartPlayerY := u8 (if zbHasRespawn src then zbRespawnY src else zbStartY src),
           MaxShots := zbMaxShots src, IsDark := zbDark src, ReenterWhenZapped := zbReenter src,
           TimeLimitSec := zbTimeLimit src, bMessage := zbMessage src\<rparr>) e)"

definition compileZWDBoard ::
  "int \<Rightarrow> zwdBoard \<Rightarrow> (string \<Rightarrow> int option) \<Rightarrow> Engine \<Rightarrow> (zwdError + Engine) option" where
  "compileZWDBoard boardID src boardIDs e =
     (let bad = Some (Inl (zerr (zbLine src) 1)) in
      if length (zbName src) > 50 \<or> zbStartX src < 1 \<or> zbStartY src < 1 \<or> int (length (zbGrid src)) \<noteq> BOARD_HEIGHT
      then bad
      else do {
        e \<leftarrow> BoardCreate e;
        tryO (foldE (compileExit src boardIDs) [0..3] (boardHeader boardID src e)) (\<lambda>e. do {
          (firstLine, firstCol, missing) \<leftarrow> scanUndefinedGridKeys src;
          if missing \<noteq> [] then Some (Inl (zerrc ErrUndefinedGridChar firstLine firstCol))
          else tryO (foldE (placeSquare src) (gridSquares src) (0, e)) (\<lambda>(playerCount, e).
            if playerCount \<noteq> 1 then bad
            else tryO (foldE (compileStat boardIDs) (zbStats src) (setStatCount 0 e)) (\<lambda>e. do {
              found \<leftarrow> orphans src;
              case found of
                (line, col) # _ \<Rightarrow> Some (Inl (zerrc ErrOrphanStatGlyph line col))
              | [] \<Rightarrow> do {
                  size \<leftarrow> estimateZWDSerializedBoardSize e;
                  if size > int (length (IoTmpBuf e)) then bad
                  else do {
                    e \<leftarrow> BoardClose e;
                    check (inBoards boardID);
                    if BoardLen (World e) boardID > int (length (IoTmpBuf e)) then bad else Some (Inr e) } } })) }) })"

section \<open>A world\<close>

text \<open>The first board of a name is the one references mean.\<close>

definition boardIDsOf :: "zwdBoard list \<Rightarrow> string \<Rightarrow> int option" where
  "boardIDsOf bs name = map_of (map (\<lambda>(i, b). (zbName b, i16 (int i))) (enumerate 0 bs)) name"

definition compileZWDDocument :: "zwdDocument \<Rightarrow> (zwdError + TWorld) option" where
  "compileZWDDocument doc =
     (if zdName doc = [] \<or> length (zdName doc) > 20 then Some (Inl (zerr 2 1))
      else if int (length (zdBoards doc)) > MAX_BOARD + 1 then Some (Inl (zerr 0 0))
      else do {
        e \<leftarrow> WorldCreate (videoClear (NewEngine\<lparr>Headless := True\<rparr>));
        let e = modWorldInfo (\<lambda>w. w\<lparr>wName := zdName doc, IsSave := False, CurrentBoard := 0\<rparr>) e;
        let e = setBoardCount (i16 (int (length (zdBoards doc)) - 1)) e;
        tryO (foldE (\<lambda>(i, b). compileZWDBoard (i16 (int i)) b (boardIDsOf (zdBoards doc)))
                (enumerate 0 (zdBoards doc)) e) (\<lambda>e. do {
          e \<leftarrow> BoardOpen 0 (modWorldInfo (\<lambda>w. w\<lparr>CurrentBoard := 0\<rparr>) e);
          Some (Inr (World e)) }) })"

definition CompileZWDWorld :: "string \<Rightarrow> (zwdError + TWorld) option" where
  "CompileZWDWorld src =
     (case parse (newZWDParser src) of Inl err \<Rightarrow> Some (Inl err) | Inr doc \<Rightarrow> compileZWDDocument doc)"

text \<open>Writing to a \<open>bytes.Buffer\<close> does not fail.\<close>

definition CompileZWD :: "string \<Rightarrow> (zwdError + int list) option" where
  "CompileZWD src =
     tryO (CompileZWDWorld src) (\<lambda>world. do {
       (out, _) \<leftarrow> worldWriteTo (NewEngine\<lparr>Headless := True, World := world\<rparr>);
       Some (Inr out) })"

end
