(* ===== verification/RoomStep.thy ===== *)
theory RoomStep
  imports Rooms
begin

text \<open>
  A tick of the whole world (\<open>StepDiffsWithBoards\<close> of \<open>engine/room_manager.go\<close>): every occupied
  room is stepped, its events are routed to the players they belong to, transfers and quits are
  carried out, and every player and every board gets its frame. Then the snapshots a newcomer
  and a spectator get, and the state hashes of the rooms.
\<close>

section \<open>Routing events\<close>

definition playerIDForStat :: "int \<Rightarrow> int \<Rightarrow> RoomManager \<Rightarrow> int option" where
  "playerIDForStat boardID statID rm =
     find (\<lambda>pid. case playerAt pid rm of
                    Some p \<Rightarrow> rpBoardID p = boardID \<and> rpStatID p = statID | None \<Rightarrow> False)
       (playerIDs rm)"

definition worldTransitDestination :: "int \<Rightarrow> int \<Rightarrow> int \<Rightarrow> RoomManager \<Rightarrow> string option" where
  "worldTransitDestination boardID sourceX sourceY rm =
     (case Mapping.lookup_default [] (TransitGates rm) (boardID, sourceX, sourceY) of
        [] \<Rightarrow> None | d \<Rightarrow> Some d)"

definition noticeKindFor :: "int \<Rightarrow> int \<Rightarrow> RoomManager \<Rightarrow> string option option" where
  "noticeKindFor boardID objectStatID rm =
     (if Mapping.is_empty (NoticeTiles rm) then Some None
      else case roomAt boardID rm of None \<Rightarrow> Some None
      | Some room \<Rightarrow>
          if objectStatID < 0 \<or> objectStatID > StatCount (Board (rEngine room)) then Some None
          else do {
            s \<leftarrow> statAt objectStatID (rEngine room);
            Some (case Mapping.lookup_default [] (NoticeTiles rm) (boardID, sX s, sY s) of
                    [] \<Rightarrow> None | k \<Rightarrow> Some k) })"

definition queuePlayerEvent :: "int \<Rightarrow> Event \<Rightarrow> RoomManager \<Rightarrow> RoomManager" where
  "queuePlayerEvent pid ev rm =
     rm\<lparr>pendingPlayerEvents := Mapping.update pid
          (Mapping.lookup_default [] (pendingPlayerEvents rm) pid @ [ev]) (pendingPlayerEvents rm)\<rparr>"

text \<open>What the routing of a tick collects beside the manager.\<close>

record Routed =
  rtTransfers :: "(int \<times> int \<times> int \<times> int) list"
  rtQuitters :: "int list"
  rtRoomEvents :: "(int, Event list) mapping"

definition roomEvent :: "int \<Rightarrow> Event \<Rightarrow> Routed \<Rightarrow> Routed" where
  "roomEvent b ev r =
     r\<lparr>rtRoomEvents := Mapping.update b
         (Mapping.lookup_default [] (rtRoomEvents r) b @ [ev]) (rtRoomEvents r)\<rparr>"

definition gazetteDeath :: string where
  "gazetteDeath = ''death''"

definition routeTransfer ::
  "int \<Rightarrow> int \<Rightarrow> Event \<Rightarrow> int \<times> int \<times> int \<Rightarrow> int \<times> int \<Rightarrow> int list \<Rightarrow> int \<Rightarrow> Routed \<times> RoomManager \<Rightarrow>
   Routed \<times> RoomManager" where
  "routeTransfer b stat ev dest source notes priority s =
     (case s of (r, rm) \<Rightarrow>
        case playerIDForStat b stat rm of
          None \<Rightarrow> (r, rm)
        | Some pid \<Rightarrow>
            (case worldTransitDestination b (fst source) (snd source) rm of
               Some w \<Rightarrow> (r, rm\<lparr>pendingWorldTransits := pendingWorldTransits rm @
                 [\<lparr>wtPlayerID = pid, wtDestinationWorld = w, wtSourceBoard = b,
                   wtSourceX = fst source, wtSourceY = snd source\<rparr>]\<rparr>)
             | None \<Rightarrow>
                 let rm = (if notes \<noteq> [] then queuePlayerEvent pid (SoundEvent notes priority stat) rm
                           else rm);
                     rm = queuePlayerEvent pid ev rm
                 in (r\<lparr>rtTransfers := rtTransfers r @ [(pid, dest)]\<rparr>, rm)))"

definition routeScroll ::
  "int \<Rightarrow> int \<Rightarrow> int \<Rightarrow> Event \<Rightarrow> Routed \<times> RoomManager \<Rightarrow> (Routed \<times> RoomManager) option" where
  "routeScroll b stat playerStat ev s =
     (case s of (r, rm) \<Rightarrow>
        if playerStat < 0 then Some (roomEvent b ev r, rm)
        else case playerIDForStat b playerStat rm of
          None \<Rightarrow> Some (roomEvent b ev r, rm)
        | Some pid \<Rightarrow> do {
            let rm = modRoomPlayer pid (\<lambda>p. p\<lparr>rpScrollOpen := True\<rparr>) rm;
            kind \<leftarrow> noticeKindFor b stat rm;
            Some (case kind of
                Some k \<Rightarrow> (r, rm\<lparr>pendingNotices := pendingNotices rm @
                   [\<lparr>noPlayerID = pid, noKind = k, noObjectStatID = stat\<rparr>]\<rparr>)
              | None \<Rightarrow> (roomEvent b ev r, rm)) })"

definition queueForStat :: "int \<Rightarrow> int \<Rightarrow> Event \<Rightarrow> RoomManager \<Rightarrow> RoomManager" where
  "queueForStat b stat ev rm =
     (case playerIDForStat b stat rm of Some pid \<Rightarrow> queuePlayerEvent pid ev rm | None \<Rightarrow> rm)"

definition routeEvent :: "int \<Rightarrow> Event \<Rightarrow> Routed \<times> RoomManager \<Rightarrow> (Routed \<times> RoomManager) option" where
  "routeEvent b ev s =
     (let (r, rm) = s in
      case ev of
        TransferEvent stat sourceX sourceY toBoard entryX entryY notes priority \<Rightarrow>
          Some (routeTransfer b stat ev (toBoard, entryX, entryY) (sourceX, sourceY) notes priority s)
      | SoundEvent notes priority stat \<Rightarrow>
          Some (if stat \<ge> 0 then (r, queueForStat b stat ev rm) else (roomEvent b ev r, rm))
      | WalkClickEvent stat freq \<Rightarrow> Some (r, queueForStat b stat ev rm)
      | QuitEvent stat \<Rightarrow>
          Some (case playerIDForStat b stat rm of
                  Some pid \<Rightarrow> (r\<lparr>rtQuitters := rtQuitters r @ [pid]\<rparr>, rm) | None \<Rightarrow> (r, rm))
      | DeathEvent stat \<Rightarrow>
          Some (roomEvent b ev r,
                case playerIDForStat b stat rm of
                  Some pid \<Rightarrow> rm\<lparr>pendingNotables := pendingNotables rm @
                               [\<lparr>rnPlayerID = pid, rnKind = gazetteDeath\<rparr>]\<rparr>
                | None \<Rightarrow> rm)
      | ScrollEvent title ls stat playerStat \<Rightarrow> routeScroll b stat playerStat ev s
      | _ \<Rightarrow> Some (roomEvent b ev r, rm))"

section \<open>Stepping the rooms\<close>

text \<open>
  The inputs are the entries of the map in the order in which \<open>range\<close> visits them, which Go leaves open; a player reading a scroll or gone
  contributes nothing.
\<close>

definition engineInputs :: "(int \<times> PlayerInput) list \<Rightarrow> RoomManager \<Rightarrow> int \<Rightarrow> int \<Rightarrow> PlayerInput option" where
  "engineInputs inputs rm =
     fold (\<lambda>(pid, inp) m.
         case playerAt pid rm of
           Some p \<Rightarrow> if rpScrollOpen p then m
                     else m(rpBoardID p := (m (rpBoardID p))(rpStatID p \<mapsto> inp))
         | None \<Rightarrow> m) inputs (\<lambda>_ _. None)"

definition dropPanickedRoom :: "int \<Rightarrow> RoomManager \<Rightarrow> RoomManager" where
  "dropPanickedRoom b rm =
     (case roomAt b rm of
        None \<Rightarrow> rm
      | Some room \<Rightarrow>
          let gone = rPlayers room in
          rm\<lparr>rmPlayers := Mapping.filter (\<lambda>pid _. pid \<notin> gone) (rmPlayers rm),
             pendingPlayerEvents := Mapping.filter (\<lambda>pid _. pid \<notin> gone) (pendingPlayerEvents rm),
             pendingScores := Mapping.filter (\<lambda>pid _. pid \<notin> gone) (pendingScores rm),
             rmRooms := Mapping.delete (rBoardID room) (rmRooms rm)\<rparr>)"

text \<open>
  A panic of the engine is recovered here: the room and its players are dropped. \<open>None\<close> also stands for a stack that
  overflows and for a cycle that does not end, of which nothing is recovered.
\<close>

definition stepRoom ::
  "(string \<Rightarrow> bool) \<Rightarrow> int \<Rightarrow> (int \<Rightarrow> PlayerInput option) \<Rightarrow> RoomManager \<Rightarrow> bool \<times> RoomManager" where
  "stepRoom created b inputs rm =
     (case onRoom b (GameStepWithInputs created inputs) rm of
        Some rm \<Rightarrow> (True, rm)
      | None \<Rightarrow> (False, dropPanickedRoom b rm))"

definition occupied :: "int \<Rightarrow> RoomManager \<Rightarrow> bool" where
  "occupied b rm = (case roomAt b rm of Some room \<Rightarrow> rPlayers room \<noteq> {} | None \<Rightarrow> False)"

definition tickRoom ::
  "(string \<Rightarrow> bool) \<Rightarrow> (int \<Rightarrow> int \<Rightarrow> PlayerInput option) \<Rightarrow> int \<Rightarrow> Routed \<times> RoomManager \<Rightarrow>
   (Routed \<times> RoomManager) option" where
  "tickRoom created inputs b s =
     (case s of (r, rm) \<Rightarrow>
        if \<not> occupied b rm then Some (r, rm)
        else let rm = refreshRoomWorldScope b rm;
                 (stepped, rm) = stepRoom created b (inputs b) rm
          in if \<not> stepped then Some (r, rm)
             else do {
               (events, rm) \<leftarrow> inRoom b (\<lambda>e. Some (DrainEvents e)) rm;
               (r, rm) \<leftarrow> foldM (routeEvent b) events (r, rm);
               Some (r, publishRoomWorldScope b rm) })"

section \<open>The frames of a tick\<close>

definition playerSnapshotsForRoom :: "int \<Rightarrow> RoomManager \<Rightarrow> (PlayerSnapshot list \<times> RoomManager) option" where
  "playerSnapshotsForRoom b rm =
     foldM (\<lambda>pid (snaps, rm). do {
         p \<leftarrow> playerAt pid rm;
         if rpBoardID p = b then do {
           (snap, rm) \<leftarrow> inRoom b (playerSnapshot pid (rpStatID p)) rm;
           Some (snaps @ [snap\<lparr>psName := rpName p, psColor := rpColor p, psHandle := rpHandle p,
                               psHasProfile := rpHasProfile p\<rparr>], rm) }
         else Some (snaps, rm) }) (playerIDs rm) ([], rm)"

type_synonym Frames = "(int, DiffMessage) mapping \<times> (int, DiffMessage) mapping"

definition roomFrames ::
  "(string \<Rightarrow> string list) \<Rightarrow> Routed \<Rightarrow> int \<Rightarrow> Frames \<times> RoomManager \<Rightarrow> (Frames \<times> RoomManager) option" where
  "roomFrames help r b s =
     (case s of ((diffs, boardDiffs), rm) \<Rightarrow>
        if \<not> occupied b rm then Some s
        else do {
          (cells, rm) \<leftarrow> inRoom b DrainScreenDirty rm;
          let events = ProtocolEvents help (Mapping.lookup_default [] (rtRoomEvents r) b);
          (players, rm) \<leftarrow> playerSnapshotsForRoom b rm;
          (hash, rm) \<leftarrow> inRoom b StateHash rm;
          room \<leftarrow> roomAt b rm;
          let frame = \<lparr>dmBoardID = b, dmTick = CurrentTick (rEngine room), dmHash = hash,
                       dmCells = cells, dmPlayers = players, dmHUD = None, dmEvents = []\<rparr>;
          let boardDiffs = Mapping.update b frame boardDiffs;
          (diffs, rm) \<leftarrow> foldM (\<lambda>pid (diffs, rm). do {
              p \<leftarrow> playerAt pid rm;
              if rpBoardID p \<noteq> b then Some (diffs, rm)
              else do {
                (hud, rm) \<leftarrow> inRoom b (\<lambda>e. Some (hudSnapshot (rpStatID p) e)) rm;
                Some (Mapping.update pid (frame\<lparr>dmHUD := Some hud, dmEvents := events\<rparr>) diffs, rm) } })
            (playerIDs rm) (diffs, rm);
          Some ((diffs, boardDiffs), rm) })"

definition StepDiffsWithBoards ::
  "(string \<Rightarrow> bool) \<Rightarrow> (string \<Rightarrow> string list) \<Rightarrow> (int \<times> PlayerInput) list \<Rightarrow> RoomManager \<Rightarrow>
   (Frames \<times> RoomManager) option" where
  "StepDiffsWithBoards created help inputs rm =
     do { let rm = rm\<lparr>rmRecorder := flushTick inputs (rmRecorder rm)\<rparr>;
          let ins = engineInputs inputs rm;
          (r, rm) \<leftarrow> foldM (tickRoom created ins) (roomIDs rm)
                (\<lparr>rtTransfers = [], rtQuitters = [], rtRoomEvents = Mapping.empty\<rparr>, rm);
          rm \<leftarrow> foldM (\<lambda>(pid, toBoard, entryX, entryY). transferPlayer pid toBoard entryX entryY)
                 (rtTransfers r) rm;
          rm \<leftarrow> foldM quitPlayer (rtQuitters r) rm;
          rm \<leftarrow> syncPlayerStatIDs rm;
          foldM (roomFrames help r) (roomIDs rm) ((Mapping.empty, Mapping.empty), rm) }"

definition StepDiffs ::
  "(string \<Rightarrow> bool) \<Rightarrow> (string \<Rightarrow> string list) \<Rightarrow> (int \<times> PlayerInput) list \<Rightarrow> RoomManager \<Rightarrow>
   ((int, DiffMessage) mapping \<times> RoomManager) option" where
  "StepDiffs created help inputs rm =
     do { ((diffs, _), rm) \<leftarrow> StepDiffsWithBoards created help inputs rm; Some (diffs, rm) }"

section \<open>Hashes and snapshots\<close>

definition RoomStateHashes :: "RoomManager \<Rightarrow> ((int, 64 word) mapping \<times> RoomManager) option" where
  "RoomStateHashes rm =
     foldM (\<lambda>b (hashes, rm). do {
         (h, rm) \<leftarrow> inRoom b StateHash rm;
         Some (Mapping.update b h hashes, rm) }) (roomIDs rm) (Mapping.empty, rm)"

definition ActiveRoomCount :: "RoomManager \<Rightarrow> int" where
  "ActiveRoomCount rm = int (Mapping.size (rmRooms rm))"

definition WorldName :: "RoomManager \<Rightarrow> string" where
  "WorldName rm = (if wName (wInfo (rmWorld rm)) = [] then ''Untitled'' else wName (wInfo (rmWorld rm)))"

definition RoomSnapshot ::
  "(string \<Rightarrow> string list) \<Rightarrow> int \<Rightarrow> RoomManager \<Rightarrow> (SnapshotMessage option \<times> RoomManager) option" where
  "RoomSnapshot help playerID rm =
     (case playerAt playerID rm of
        None \<Rightarrow> Some (None, rm)
      | Some p \<Rightarrow>
          let b = rpBoardID p in
          if roomAt b rm = None then Some (None, rm)
          else do {
            (players, rm) \<leftarrow> playerSnapshotsForRoom b rm;
            (snap, rm) \<leftarrow> inRoom b (NewSnapshotMessage help b playerID (rpStatID p) players) rm;
            let snap = snap\<lparr>smYou := (smYou snap)\<lparr>psName := rpName p, psColor := rpColor p\<rparr>\<rparr>;
            room \<leftarrow> roomAt b rm;
            rm \<leftarrow> (if rPlayers room = {playerID}
                  then onRoom b (\<lambda>e. map_option snd (DrainScreenDirty e)) rm else Some rm);
            rm \<leftarrow> onRoom b (\<lambda>e. Some (snd (DrainEvents e))) rm;
            Some (Some snap, rm) })"

text \<open>\<open>cloneWorld\<close> copies bytes, which a value already is.\<close>

definition newSpectatorEngine :: "TWorld \<Rightarrow> int \<Rightarrow> Engine option" where
  "newSpectatorEngine world boardID =
     roomEngine world boardID
       (NewEngine\<lparr>Headless := True, MultiRoom := True, GameStateElement := E_PLAYER\<rparr>)"

definition nobody :: PlayerSnapshot where
  "nobody = \<lparr>psID = 0, psStatID = -1, psX = 0, psY = 0, psHealth = 0, psName = [], psColor = [],
             psHandle = [], psHasProfile = False\<rparr>"

text \<open>The second component says whether a live room was rendered.\<close>

definition SpectatorSnapshot :: "int \<Rightarrow> RoomManager \<Rightarrow> (SnapshotMessage \<times> bool \<times> RoomManager) option" where
  "SpectatorSnapshot boardID rm =
     (case roomAt boardID rm of
        None \<Rightarrow> do {
          e \<leftarrow> newSpectatorEngine (rmWorld rm) boardID;
          screen \<leftarrow> screenCells e;
          Some (\<lparr>smBoardID = boardID, smTick = 0, smSeed = 0, smHash = 0, smYou = nobody,
                 smPlayers = [], smHUD = zeroHUD, smScreen = screen, smEvents = [],
                 smSpectator = True\<rparr>, False, rm) }
      | Some room \<Rightarrow> do {
          let tick = CurrentTick (rEngine room);
          let seed = RandSeed (rEngine room);
          (hash, rm) \<leftarrow> inRoom boardID StateHash rm;
          (players, rm) \<leftarrow> playerSnapshotsForRoom boardID rm;
          room \<leftarrow> roomAt boardID rm;
          screen \<leftarrow> screenCells (rEngine room);
          Some (\<lparr>smBoardID = boardID, smTick = tick, smSeed = seed, smHash = hash, smYou = nobody,
                 smPlayers = players, smHUD = zeroHUD, smScreen = screen, smEvents = [],
                 smSpectator = True\<rparr>, True, rm) })"

end
