(* ===== verification/EditSession.thy ===== *)
theory EditSession
  imports Authoring Game RoomStep
begin

text \<open>
  The collaborative editor (\<open>engine/editor_session.go\<close>): who is a member of a session, which board each
  member looks at, who holds the lease of a board or of a stat, and the operations a member may
  ask for. The session's mutex makes each operation one step. A member is the connection
  (\<open>*webSocketClient\<close>), here a number; \<open>account\<close> gives the account a connection is signed in as.
\<close>

section \<open>The session\<close>

record EditorPresence =
  prID :: string
  prName :: string
  prColor :: int
  prBoardID :: int
  prX :: int
  prY :: int

datatype editorLeaseKey = LeaseKey (kind: string) (keyBoard: int) (keyStat: int)

record EditorSession =
  esWorldName :: string
  esEngine :: Engine
  Members :: "int set"
  memberInfo :: "(int, EditorPresence) mapping"
  readOnly :: "(int, bool) mapping"
  nextMember :: int
  leases :: "(editorLeaseKey, int) mapping"
  memberBoard :: "(int, int) mapping"
  memberToken :: "(int, string) mapping"
  tokenMember :: "(string, int) mapping"
  fanTicket :: int

abbreviation curBoard :: "Engine \<Rightarrow> int" where
  "curBoard e \<equiv> CurrentBoard (wInfo (World e))"

text \<open>A session nobody has entered.\<close>

definition emptySession :: "string \<Rightarrow> Engine \<Rightarrow> EditorSession" where
  "emptySession worldName e =
     \<lparr>esWorldName = worldName, esEngine = e, Members = {}, memberInfo = Mapping.empty,
      readOnly = Mapping.empty, nextMember = 0, leases = Mapping.empty, memberBoard = Mapping.empty,
      memberToken = Mapping.empty, tokenMember = Mapping.empty, fanTicket = 0\<rparr>"

definition NewEditorSession :: "string \<Rightarrow> TWorld \<Rightarrow> EditorSession option" where
  "NewEditorSession worldName world =
     do { let e = (InstallEditorElements (NewEngine\<lparr>Headless := True, MultiRoom := True\<rparr>))\<lparr>World := world\<rparr>;
          let boardID = (if curBoard e < 0 \<or> curBoard e > BoardCount (World e) then 0 else curBoard e);
          e \<leftarrow> BoardOpen boardID e;
          e \<leftarrow> GenerateTransitionTable e;
          e \<leftarrow> TransitionDrawToBoard e;
          (_, e) \<leftarrow> DrainScreenDirty e;
          Some (emptySession worldName e) }"

section \<open>Entering and leaving\<close>

definition editorPresenceColor :: "int \<Rightarrow> int option" where
  "editorPresenceColor n = index [14, 10, 13, 12, 9, 3, 6, 5] (rmd (n - 1) 8)"

text \<open>What the membership of \<open>previous\<close> leaves behind, and who gets its leases.\<close>

definition dropMember :: "int \<Rightarrow> EditorSession \<Rightarrow> EditorSession" where
  "dropMember m s =
     s\<lparr>Members := Members s - {m}, memberInfo := Mapping.delete m (memberInfo s),
       memberBoard := Mapping.delete m (memberBoard s), readOnly := Mapping.delete m (readOnly s)\<rparr>"

definition dropLeases :: "int \<Rightarrow> EditorSession \<Rightarrow> EditorSession" where
  "dropLeases m s = s\<lparr>leases := Mapping.filter (\<lambda>_ holder. holder \<noteq> m) (leases s)\<rparr>"

definition passLeases :: "int \<Rightarrow> int \<Rightarrow> EditorSession \<Rightarrow> EditorSession" where
  "passLeases m m' s =
     s\<lparr>leases := Mapping.map_values (\<lambda>_ holder. if holder = m then m' else holder) (leases s)\<rparr>"

definition addMember :: "int \<Rightarrow> EditorPresence \<Rightarrow> bool \<Rightarrow> int \<Rightarrow> string \<Rightarrow> EditorSession \<Rightarrow> EditorSession" where
  "addMember m p ro b token s =
     s\<lparr>Members := insert m (Members s), memberInfo := Mapping.update m p (memberInfo s),
       readOnly := Mapping.update m ro (readOnly s), memberBoard := Mapping.update m b (memberBoard s),
       memberToken := Mapping.update m token (memberToken s),
       tokenMember := Mapping.update token m (tokenMember s)\<rparr>"

definition zeroPresence :: EditorPresence where
  "zeroPresence = \<lparr>prID = [], prName = [], prColor = 0, prBoardID = 0, prX = 0, prY = 0\<rparr>"

text \<open>A read of a Go map yields the zero value where there is no entry.\<close>

definition infoOf :: "int \<Rightarrow> EditorSession \<Rightarrow> EditorPresence" where
  "infoOf m s = (case Mapping.lookup (memberInfo s) m of Some p \<Rightarrow> p | None \<Rightarrow> zeroPresence)"

definition isReadOnly :: "int \<Rightarrow> EditorSession \<Rightarrow> bool" where
  "isReadOnly m s = (Mapping.lookup (readOnly s) m = Some True)"

definition boardOfMember :: "int \<Rightarrow> EditorSession \<Rightarrow> int" where
  "boardOfMember m s = (case Mapping.lookup (memberBoard s) m of Some b \<Rightarrow> b | None \<Rightarrow> 0)"

definition resumeMemberLocked ::
  "(int \<Rightarrow> string) \<Rightarrow> int \<Rightarrow> string \<Rightarrow> string \<Rightarrow> EditorSession \<Rightarrow> (int \<times> EditorPresence \<times> EditorSession) option" where
  "resumeMemberLocked account m name token s =
     (if token = [] then None
      else case Mapping.lookup (tokenMember s) token of
        None \<Rightarrow> None
      | Some previous \<Rightarrow>
          if previous = m \<or> account previous \<noteq> account m then None
          else let p = infoOf previous s;
                   p = (if name \<noteq> [] then p\<lparr>prName := name\<rparr> else p);
                   ro = isReadOnly previous s;
                   b = boardOfMember previous s;
                   s = dropMember previous s;
                   s = passLeases previous m (s\<lparr>memberToken := Mapping.delete previous (memberToken s)\<rparr>)
               in Some (previous, p, addMember m p ro b token s))"

text \<open>
  \<open>EnterResuming\<close>: the presence, the token of the connection and the connection it displaced.
  \<open>fresh\<close> is the token \<open>editorMemberToken\<close> draws.
\<close>

definition EnterResuming ::
  "(int \<Rightarrow> string) \<Rightarrow> string \<Rightarrow> int \<Rightarrow> string \<Rightarrow> string \<Rightarrow> EditorSession \<Rightarrow>
   (EditorPresence \<times> string \<times> int option \<times> EditorSession) option" where
  "EnterResuming account fresh m name token s =
     (if m \<in> Members s then
        Some (infoOf m s, case Mapping.lookup (memberToken s) m of Some t \<Rightarrow> t | None \<Rightarrow> [], None, s)
      else case resumeMemberLocked account m name token s of
        Some (displaced, p, s) \<Rightarrow> Some (p, token, Some displaced, s)
      | None \<Rightarrow> do {
          let n = nextMember s + 1;
          color \<leftarrow> editorPresenceColor n;
          let b = curBoard (esEngine s);
          let p = \<lparr>prID = ''editor-'' @ Str n, prName = (if name = [] then ''Player '' @ Str n else name),
                   prColor = color, prBoardID = b, prX = BOARD_WIDTH div 2, prY = BOARD_HEIGHT div 2\<rparr>;
          Some (p, fresh, None, addMember m p False b fresh (s\<lparr>nextMember := n\<rparr>)) })"

definition Exit :: "int \<Rightarrow> EditorSession \<Rightarrow> EditorSession" where
  "Exit m s =
     (let s = dropMember m s;
          s = (case Mapping.lookup (memberToken s) m of
                 None \<Rightarrow> s
               | Some t \<Rightarrow>
                   (if Mapping.lookup (tokenMember s) t = Some m
                    then s\<lparr>tokenMember := Mapping.delete t (tokenMember s)\<rparr> else s)
                   \<lparr>memberToken := Mapping.delete m (memberToken s)\<rparr>)
      in dropLeases m s)"

section \<open>Rights\<close>

definition canEditLocked :: "int \<Rightarrow> EditorSession \<Rightarrow> bool" where
  "canEditLocked m s \<longleftrightarrow> m \<in> Members s \<and> \<not> isReadOnly m s"

definition SetMemberReadOnly :: "int \<Rightarrow> bool \<Rightarrow> EditorSession \<Rightarrow> EditorSession" where
  "SetMemberReadOnly m ro s =
     (if m \<notin> Members s then s
      else let s = s\<lparr>readOnly := Mapping.update m ro (readOnly s)\<rparr>
           in if ro then dropLeases m s else s)"

text \<open>The members changed come in the order of the connections; in Go it is that of the map.\<close>

definition SetAccountReadOnly ::
  "(int \<Rightarrow> string) \<Rightarrow> string \<Rightarrow> bool \<Rightarrow> EditorSession \<Rightarrow> int list \<times> EditorSession" where
  "SetAccountReadOnly account accountID ro s =
     (if accountID = [] then ([], s)
      else let changed = filter (\<lambda>m. account m = accountID) (sorted_list_of_set (Members s))
           in (changed, fold (\<lambda>m s. s\<lparr>readOnly := Mapping.update m ro (readOnly s)\<rparr>) changed s))"

definition UpdatePresence :: "int \<Rightarrow> int \<Rightarrow> int \<Rightarrow> EditorSession \<Rightarrow> EditorSession" where
  "UpdatePresence m x y s =
     (case Mapping.lookup (memberInfo s) m of
        None \<Rightarrow> s
      | Some p \<Rightarrow> let (x, y) = editorClamp x y
                  in s\<lparr>memberInfo := Mapping.update m (p\<lparr>prX := x, prY := y\<rparr>) (memberInfo s)\<rparr>)"

definition Presence :: "EditorSession \<Rightarrow> EditorPresence list" where
  "Presence s = map (\<lambda>m. infoOf m s) (Mapping.ordered_keys (memberInfo s))"

definition MemberClientsOnBoard :: "int \<Rightarrow> EditorSession \<Rightarrow> int list" where
  "MemberClientsOnBoard b s = filter (\<lambda>m. boardOfMember m s = b) (sorted_list_of_set (Members s))"

definition MemberCursor :: "int \<Rightarrow> EditorSession \<Rightarrow> int \<times> int" where
  "MemberCursor m s =
     (case Mapping.lookup (memberInfo s) m of
        None \<Rightarrow> (BOARD_WIDTH div 2, BOARD_HEIGHT div 2) | Some p \<Rightarrow> (prX p, prY p))"

definition MemberBoard :: "int \<Rightarrow> EditorSession \<Rightarrow> int option" where
  "MemberBoard m s = (if m \<notin> Members s then None else Mapping.lookup (memberBoard s) m)"

section \<open>Leases\<close>

text \<open>A request: its kind, and the board and the stat it names.\<close>

definition leaseKeyLocked :: "int \<Rightarrow> editorLeaseKey \<Rightarrow> EditorSession \<Rightarrow> editorLeaseKey option" where
  "leaseKeyLocked m r s =
     (let w = World (esEngine s);
          b = (case Mapping.lookup (memberBoard s) m of Some b \<Rightarrow> b | None \<Rightarrow> CurrentBoard (wInfo w));
          b = (if keyBoard r \<ge> 0 \<and> keyBoard r \<le> BoardCount w then keyBoard r else b)
      in if b < 0 \<or> b > BoardCount w then None
         else if kind r = ''board'' then Some (LeaseKey ''board'' b 0)
         else if kind r = ''stat'' then
           (if keyStat r < 0 \<or> keyStat r > MAX_STAT then None else Some (LeaseKey ''stat'' b (keyStat r)))
         else None)"

datatype LeaseReply =
    NotMember
  | NoReply
  | Granted editorLeaseKey
  | RefusedReadOnly editorLeaseKey
  | RefusedHeld editorLeaseKey (holderID: string) (holderName: string)

definition AcquireLease :: "int \<Rightarrow> editorLeaseKey \<Rightarrow> EditorSession \<Rightarrow> LeaseReply \<times> EditorSession" where
  "AcquireLease m r s =
     (if m \<notin> Members s then (NotMember, s)
      else case leaseKeyLocked m r s of
        None \<Rightarrow> (NoReply, s)
      | Some key \<Rightarrow>
          if \<not> canEditLocked m s then (RefusedReadOnly key, s)
          else case Mapping.lookup (leases s) key of
            Some holder \<Rightarrow>
              if holder \<noteq> m
              then (RefusedHeld key (prID (infoOf holder s)) (prName (infoOf holder s)), s)
              else (Granted key, s\<lparr>leases := Mapping.update key m (leases s)\<rparr>)
          | None \<Rightarrow> (Granted key, s\<lparr>leases := Mapping.update key m (leases s)\<rparr>))"

definition ReleaseLease :: "int \<Rightarrow> editorLeaseKey \<Rightarrow> EditorSession \<Rightarrow> EditorSession" where
  "ReleaseLease m r s =
     (case leaseKeyLocked m r s of
        None \<Rightarrow> s
      | Some key \<Rightarrow> if Mapping.lookup (leases s) key = Some m
                    then s\<lparr>leases := Mapping.delete key (leases s)\<rparr> else s)"

definition hasCurrentBoardLeaseLocked :: "int \<Rightarrow> EditorSession \<Rightarrow> bool" where
  "hasCurrentBoardLeaseLocked m s \<longleftrightarrow>
     canEditLocked m s \<and>
     (card (Members s) \<le> 1 \<or>
      Mapping.lookup (leases s) (LeaseKey ''board'' (curBoard (esEngine s)) 0) = Some m)"

definition hasCurrentStatLeaseLocked :: "int \<Rightarrow> int \<Rightarrow> EditorSession \<Rightarrow> bool" where
  "hasCurrentStatLeaseLocked m statID s \<longleftrightarrow>
     canEditLocked m s \<and>
     (card (Members s) \<le> 1 \<or>
      Mapping.lookup (leases s) (LeaseKey ''stat'' (curBoard (esEngine s)) statID) = Some m)"

section \<open>The boundary every operation crosses\<close>

definition onEditor :: "(Engine \<Rightarrow> Engine option) \<Rightarrow> EditorSession \<Rightarrow> EditorSession option" where
  "onEditor f s = map_option (\<lambda>e. s\<lparr>esEngine := e\<rparr>) (f (esEngine s))"

definition inEditor :: "(Engine \<Rightarrow> ('a \<times> Engine) option) \<Rightarrow> EditorSession \<Rightarrow> ('a \<times> EditorSession) option" where
  "inEditor f s = map_option (\<lambda>(v, e). (v, s\<lparr>esEngine := e\<rparr>)) (f (esEngine s))"

definition setMemberBoardLocked :: "int \<Rightarrow> int \<Rightarrow> EditorSession \<Rightarrow> EditorSession" where
  "setMemberBoardLocked m b s =
     s\<lparr>memberBoard := Mapping.update m b (memberBoard s),
       memberInfo := Mapping.map_entry m (\<lambda>p. p\<lparr>prBoardID := b\<rparr>) (memberInfo s)\<rparr>"

definition focusMemberBoardLocked :: "int \<Rightarrow> EditorSession \<Rightarrow> EditorSession option" where
  "focusMemberBoardLocked m s =
     (case Mapping.lookup (memberBoard s) m of
        None \<Rightarrow> Some (s\<lparr>memberBoard := Mapping.update m (curBoard (esEngine s)) (memberBoard s)\<rparr>)
      | Some b \<Rightarrow>
          let out = (b < 0 \<or> b > BoardCount (World (esEngine s)));
              s = (if out then s\<lparr>memberBoard := Mapping.update m 0 (memberBoard s)\<rparr> else s);
              b = (if out then 0 else b)
          in if b = curBoard (esEngine s) then Some s
             else onEditor (\<lambda>e. do { e \<leftarrow> BoardChange b e; TransitionDrawToBoard e }) s)"

text \<open>\<open>Apply\<close>: \<open>Inl ()\<close> is its one error, that membership is required.\<close>

definition Apply ::
  "int \<Rightarrow> (EditorSession \<Rightarrow> ('a \<times> EditorSession) option) \<Rightarrow> EditorSession \<Rightarrow> ((unit + 'a) \<times> EditorSession) option" where
  "Apply m fn s =
     (if m \<notin> Members s then Some (Inl (), s)
      else do {
        s \<leftarrow> focusMemberBoardLocked m s;
        (v, s) \<leftarrow> fn s;
        Some (Inr v, setMemberBoardLocked m (curBoard (esEngine s)) s) })"

definition issueFanTicketLocked :: "EditorSession \<Rightarrow> int \<times> EditorSession" where
  "issueFanTicketLocked s = (fanTicket s, s\<lparr>fanTicket := fanTicket s + 1\<rparr>)"

text \<open>An operation on the engine that a refusal turns into the empty reply.\<close>

definition guarded ::
  "bool \<Rightarrow> (Engine \<Rightarrow> ('a option \<times> Engine) option) \<Rightarrow> EditorSession \<Rightarrow> ('a option \<times> EditorSession) option" where
  "guarded allowed f s = (if allowed then inEditor f s else Some (None, s))"

end
