(* ===== verification/EditOps.thy ===== *)
theory EditOps
  imports EditSession
begin

text \<open>
  What a member of an editor session may do to its world (\<open>engine/editor_session.go\<close>). Every operation
  goes through \<open>Apply\<close>, which puts the engine on the member's own board first. The empty message a
  refused operation answers with is \<open>None\<close>.
\<close>

section \<open>Looking\<close>

definition Snapshot :: "int \<Rightarrow> int \<Rightarrow> int \<Rightarrow> EditorSession \<Rightarrow>
  ((unit + EditorSnapshotMessage) \<times> EditorPresence list \<times> EditorSession) option" where
  "Snapshot m x y s =
     do { (r, s) \<leftarrow> Apply m (inEditor (editorSnapshot x y)) s;
          Some (map_sum id (\<lambda>msg. msg\<lparr>esmMemberID := prID (infoOf m s), esmReadOnly := \<not> canEditLocked m s\<rparr>) r,
                Presence s, s) }"

definition Inspect :: "int \<Rightarrow> int \<Rightarrow> int \<Rightarrow> EditorSession \<Rightarrow> ((unit + EditorTileInspect) \<times> EditorSession) option" where
  "Inspect m x y = Apply m (inEditor (editorTileInspect x y))"

definition propertiesAndScreen :: "Engine \<Rightarrow> ((EditorProperties \<times> ScreenCell list) \<times> Engine) option" where
  "propertiesAndScreen e =
     do { p \<leftarrow> editorProperties e; cells \<leftarrow> screenCells e; Some ((p, cells), e) }"

definition Properties :: "int \<Rightarrow> EditorSession \<Rightarrow>
  ((unit + (EditorProperties \<times> ScreenCell list)) \<times> EditorSession) option" where
  "Properties m = Apply m (inEditor propertiesAndScreen)"

section \<open>Tiles\<close>

record EditorEditMessage =
  emOp :: string
  emX :: int
  emY :: int
  emElement :: int
  emColor :: int
  emCopied :: bool
  emChar :: int

record EditorDiffMessage =
  edMemberID :: string
  edBoardID :: int
  edCells :: "ScreenCell list"
  edInspect :: EditorTileInspect

text \<open>An edit that changed the board is written back to the world at once.\<close>

definition applyEdit :: "EditorEditMessage \<Rightarrow> int \<Rightarrow> int \<Rightarrow> Engine \<Rightarrow> Engine option" where
  "applyEdit m x y e =
     do { (changed, e) \<leftarrow>
            (if emOp m = ''place'' then editorPlaceTile x y (emElement m) (emColor m) (emCopied m) e
             else if emOp m = ''erase'' then editorErase x y e
             else if emOp m = ''fill'' then do {
               t \<leftarrow> tileAt x y e; editorFloodFill x y t (emElement m) (emColor m) (emCopied m) e }
             else if emOp m = ''element'' then editorPlaceElement x y (emElement m) (emColor m) e
             else if emOp m = ''text'' then editorPlaceText x y (emChar m) (emColor m) e
             else Some (False, e));
          if changed then BoardClose e else Some e }"

definition editReply :: "string \<Rightarrow> EditorEditMessage \<Rightarrow> Engine \<Rightarrow> (EditorDiffMessage option \<times> Engine) option" where
  "editReply memberID m e =
     (let (x, y) = editorClamp (emX m) (emY m) in
      do { e \<leftarrow> applyEdit m x y e;
           (cells, e) \<leftarrow> DrainScreenDirty e;
           (inspect, e) \<leftarrow> editorTileInspect x y e;
           Some (Some \<lparr>edMemberID = memberID, edBoardID = curBoard e, edCells = cells, edInspect = inspect\<rparr>, e) })"

text \<open>
  The part of \<open>EditAndFanOut\<close> under the lock: the ticket is drawn in the step that makes the
  edit, whether or not the member may edit. \<^theory_text>\<open>FanOut\<close> has the part that delivers it.
\<close>

definition EditAndFanOut :: "int \<Rightarrow> EditorEditMessage \<Rightarrow> EditorSession \<Rightarrow>
  ((unit + int \<times> EditorDiffMessage option) \<times> EditorSession) option" where
  "EditAndFanOut m msg s =
     (let memberID = prID (infoOf m s) in
      Apply m (\<lambda>s. let (ticket, s) = issueFanTicketLocked s in
          map_option (\<lambda>(r, s). ((ticket, r), s))
            (guarded (canEditLocked m s) (editReply memberID msg) s)) s)"

section \<open>Properties\<close>

record EditorPropertyMessage =
  epmField :: string
  epmText :: string
  epmValue :: int
  epmBool :: bool
  epmExit :: int

text \<open>The change a field asks for; \<open>None\<close> inside when it is refused.\<close>

definition setField :: "EditorPropertyMessage \<Rightarrow> Engine \<Rightarrow> Engine option" where
  "setField m e =
     (let v = epmValue m in
      if epmField m = ''boardTitle'' then Some (e\<lparr>Board := (Board e)\<lparr>bName := editorString (epmText m) 50\<rparr>\<rparr>)
      else if epmField m = ''worldName'' then Some (modWorldInfo (\<lambda>w. w\<lparr>wName := editorString (epmText m) 20\<rparr>) e)
      else if epmField m = ''maxShots'' then
        (if v < 0 \<or> v > 255 then None else Some (modInfo (\<lambda>i. i\<lparr>MaxShots := u8 v\<rparr>) e))
      else if epmField m = ''dark'' then Some (modInfo (\<lambda>i. i\<lparr>IsDark := epmBool m\<rparr>) e)
      else if epmField m = ''exit'' then
        (if epmExit m < 0 \<or> epmExit m \<ge> 4 \<or> v < 0 \<or> v > BoardCount (World e) then None
         else Some (modInfo (\<lambda>i. i\<lparr>NeighborBoards := (NeighborBoards i)(epmExit m := u8 v)\<rparr>) e))
      else if epmField m = ''reenter'' then Some (modInfo (\<lambda>i. i\<lparr>ReenterWhenZapped := epmBool m\<rparr>) e)
      else if epmField m = ''timeLimit'' then
        (if v < 0 then None else Some (modInfo (\<lambda>i. i\<lparr>TimeLimitSec := v\<rparr>) e))
      else None)"

definition applyProperty ::
  "EditorPropertyMessage \<Rightarrow> Engine \<Rightarrow> ((EditorProperties \<times> ScreenCell list) option \<times> Engine) option" where
  "applyProperty m e =
     (case setField m e of
        None \<Rightarrow> Some (None, e)
      | Some e \<Rightarrow> do {
          e \<leftarrow> BoardClose e;
          e \<leftarrow> TransitionDrawToBoard e;
          (r, e) \<leftarrow> propertiesAndScreen e;
          (_, e) \<leftarrow> DrainScreenDirty e;
          Some (Some r, e) })"

definition SetProperty :: "int \<Rightarrow> EditorPropertyMessage \<Rightarrow> EditorSession \<Rightarrow>
  ((unit + (EditorProperties \<times> ScreenCell list) option) \<times> EditorSession) option" where
  "SetProperty m msg = Apply m (\<lambda>s. guarded (hasCurrentBoardLeaseLocked m s) (applyProperty msg) s)"

section \<open>Stats\<close>

record EditorStatMessage =
  stStatID :: int
  stField :: string
  stValue :: int

definition modStatSetting :: "int \<Rightarrow> (TEditorStatSetting \<Rightarrow> TEditorStatSetting) \<Rightarrow> Engine \<Rightarrow> Engine" where
  "modStatSetting el f e =
     e\<lparr>World := (World e)\<lparr>EditorStatSettings :=
         (EditorStatSettings (World e))(el := f (EditorStatSettings (World e) el))\<rparr>\<rparr>"

text \<open>The new stat and the new default for its element; \<open>None\<close> inside when the field is refused.\<close>

definition setStatField ::
  "EditorStatMessage \<Rightarrow> TElementDef \<Rightarrow> int \<Rightarrow> TStat \<Rightarrow>
   (TStat \<times> (TEditorStatSetting \<Rightarrow> TEditorStatSetting)) option option" where
  "setStatField m d boardCount s =
     (let v = stValue m in
      if stField m = ''p1'' then Some
        (if Param1Name d = [] \<or> v < 0 \<or> v > 255 \<or> ParamTextName d = [] \<and> v > 8 then None
         else Some (s\<lparr>P1 := u8 v\<rparr>, \<lambda>es. es\<lparr>esP1 := u8 v\<rparr>))
      else if stField m = ''p2'' then Some
        (if Param2Name d = [] \<or> v < 0 \<or> v > 8 then None
         else let p = P2 s div 128 * 128 + v in Some (s\<lparr>P2 := p\<rparr>, \<lambda>es. es\<lparr>esP2 := p\<rparr>))
      else if stField m = ''bulletType'' then Some
        (if ParamBulletTypeName d = [] \<or> v < 0 \<or> v > 1 then None
         else let p = P2 s mod 128 + 128 * v in Some (s\<lparr>P2 := p\<rparr>, \<lambda>es. es\<lparr>esP2 := p\<rparr>))
      else if stField m = ''direction'' then
        (if ParamDirName d = [] \<or> v < 0 \<or> v > 3 then Some None
         else do {
           dx \<leftarrow> index NeighborDeltaX v;
           dy \<leftarrow> index NeighborDeltaY v;
           Some (Some (s\<lparr>StepX := dx, StepY := dy\<rparr>, \<lambda>es. es\<lparr>esStepX := dx, esStepY := dy\<rparr>)) })
      else if stField m = ''p3'' then Some
        (if ParamBoardName d = [] \<or> v < 0 \<or> v > boardCount then None
         else Some (s\<lparr>P3 := u8 v\<rparr>, \<lambda>es. es\<lparr>esP3 := u8 v\<rparr>))
      else if stField m = ''cycle'' then Some
        (if v < 0 \<or> v > 32767 then None else Some (s\<lparr>sCycle := v\<rparr>, \<lambda>es. es))
      else Some None)"

definition statReply :: "TStat \<Rightarrow> Engine \<Rightarrow> ((EditorTileInspect \<times> ScreenCell list) option \<times> Engine) option" where
  "statReply s e =
     do { (inspect, e) \<leftarrow> editorTileInspect (sX s) (sY s) e;
          (cells, e) \<leftarrow> DrainScreenDirty e;
          Some (Some (inspect, cells), e) }"

definition applyStat ::
  "EditorStatMessage \<Rightarrow> Engine \<Rightarrow> ((EditorTileInspect \<times> ScreenCell list) option \<times> Engine) option" where
  "applyStat m e =
     do { s \<leftarrow> statAt (stStatID m) e;
          el \<leftarrow> elementAt (sX s) (sY s) e;
          d \<leftarrow> elemDef el;
          change \<leftarrow> setStatField m d (BoardCount (World e)) s;
          case change of
            None \<Rightarrow> Some (None, e)
          | Some (s', f) \<Rightarrow> do {
              e \<leftarrow> BoardDrawTile (sX s) (sY s) (modStatSetting el f (putStat (stStatID m) s' e));
              e \<leftarrow> BoardClose e;
              statReply s e } }"

definition SetStat :: "int \<Rightarrow> EditorStatMessage \<Rightarrow> EditorSession \<Rightarrow>
  ((unit + (EditorTileInspect \<times> ScreenCell list) option) \<times> EditorSession) option" where
  "SetStat m msg =
     Apply m (\<lambda>s. guarded (0 \<le> stStatID msg \<and> stStatID msg \<le> StatCount (Board (esEngine s)) \<and>
         hasCurrentStatLeaseLocked m (stStatID msg) s) (applyStat msg) s)"

section \<open>Programs\<close>

record EditorProgramMessage =
  epgStatID :: int
  epgPrompt :: string
  epgLines :: "string list"
  epgAnalysis :: OopAnalysis

definition readProgram ::
  "(string \<Rightarrow> string) \<Rightarrow> int \<Rightarrow> Engine \<Rightarrow> (EditorProgramMessage option \<times> Engine) option" where
  "readProgram unicode statId e =
     do { s \<leftarrow> statAt statId e;
          el \<leftarrow> elementAt (sX s) (sY s) e;
          d \<leftarrow> elemDef el;
          if ParamTextName d = [] then Some (None, e)
          else do {
            (a, e) \<leftarrow> OopAnalyze unicode statId e;
            ls \<leftarrow> editorProgramLines statId e;
            Some (Some \<lparr>epgStatID = statId, epgPrompt = ParamTextName d, epgLines = ls, epgAnalysis = a\<rparr>, e) } }"

definition ProgramText :: "(string \<Rightarrow> string) \<Rightarrow> int \<Rightarrow> int \<Rightarrow> EditorSession \<Rightarrow>
  ((unit + EditorProgramMessage option) \<times> EditorSession) option" where
  "ProgramText unicode m statId =
     Apply m (\<lambda>s. guarded (0 \<le> statId \<and> statId \<le> StatCount (Board (esEngine s)) \<and>
         hasCurrentStatLeaseLocked m statId s) (readProgram unicode statId) s)"

text \<open>The program a stat is left with, when its length fits the record's \<open>int16\<close>.\<close>

definition writeProgram :: "int \<Rightarrow> string list \<Rightarrow> Engine \<Rightarrow> Engine option" where
  "writeProgram statId ls e =
     do { e \<leftarrow> editorUnbindSharers statId e;
          let text = joinLines (take MAX_TEXT_WINDOW_LINES ls);
          if int (length text) > 32767 then Some e
          else do {
            e \<leftarrow> modStat statId (\<lambda>s. s\<lparr>Data := text, DataLen := int (length text)\<rparr>) e;
            s \<leftarrow> statAt statId e;
            e \<leftarrow> BoardDrawTile (sX s) (sY s) e;
            BoardClose e } }"

definition storeProgram :: "int \<Rightarrow> string list \<Rightarrow> Engine \<Rightarrow>
  ((EditorTileInspect \<times> ScreenCell list) option \<times> Engine) option" where
  "storeProgram statId ls e =
     do { s \<leftarrow> statAt statId e;
          el \<leftarrow> elementAt (sX s) (sY s) e;
          d \<leftarrow> elemDef el;
          e \<leftarrow> (if ParamTextName d \<noteq> [] then writeProgram statId ls e else Some e);
          statReply s e }"

definition SaveProgram :: "int \<Rightarrow> int \<Rightarrow> string list \<Rightarrow> EditorSession \<Rightarrow>
  ((unit + (EditorTileInspect \<times> ScreenCell list) option) \<times> EditorSession) option" where
  "SaveProgram m statId ls =
     Apply m (\<lambda>s. guarded (0 \<le> statId \<and> statId \<le> StatCount (Board (esEngine s)) \<and>
         hasCurrentStatLeaseLocked m statId s) (storeProgram statId ls) s)"

end
