(* ===== verification/RoomSave.thy ===== *)
theory RoomSave
  imports RoomStep "HOL-Library.Char_ord" "HOL-Library.List_Lexorder"
begin

text \<open>
  Saving and restoring a hosted world (\<open>engine/snapshot.go\<close>) and recording and replaying a
  session (\<open>engine/session_record.go\<close>). A Go error is the left of a sum. \<open>files\<close> is the file
  system, by path; whether a write reached the disk is a parameter. The directory is taken to
  be in \<open>filepath.Clean\<close> form, and not the root, so that \<open>Join\<close> puts one slash between.
\<close>

section \<open>Errors and paths\<close>

datatype SaveError =
    ErrSavesDisabled
  | ErrInvalidSaveName
  | ErrNoSuchPlayer
  | ErrWorldOccupied
  | ErrIO
  | ErrRead ReadError

definition joinPath :: "string \<Rightarrow> string \<Rightarrow> string" where
  "joinPath dir name = (if dir = [] then name else dir @ ''/'' @ name)"

definition snapshotPath :: "string \<Rightarrow> string \<Rightarrow> SaveError + string" where
  "snapshotPath dir name =
     (if dir = [] then Inl ErrSavesDisabled
      else case SanitizeSaveName name of
        None \<Rightarrow> Inl ErrInvalidSaveName
      | Some safe \<Rightarrow> Inr (joinPath dir (safe @ ''.SAV'')))"

text \<open>The entries of a directory are its names, each with whether it is a directory.\<close>

definition ListSnapshots :: "string \<Rightarrow> (string \<times> bool) list option \<Rightarrow> string list" where
  "ListSnapshots dir entries =
     (case (if dir = [] then None else entries) of
        None \<Rightarrow> []
      | Some es \<Rightarrow> sort (List.map_filter (\<lambda>(name, isDir).
          if isDir \<or> drop (length name - 4) name \<noteq> ''.SAV'' then None
          else SanitizeSaveName (take (length name - 4) name)) es))"

section \<open>The world as it stands\<close>

definition snapshotRoomBoard :: "Room \<Rightarrow> (int list \<times> int) option" where
  "snapshotRoomBoard room =
     do { let b = rBoardID room;
          let e = modWorldInfo (\<lambda>w. w\<lparr>CurrentBoard := b\<rparr>)
                    (newSnapshotEngine\<lparr>Board := Board (rEngine room)\<rparr>);
          e \<leftarrow> foldM (\<lambda>i e. do {
                s \<leftarrow> statAt i e;
                p \<leftarrow> isPlayerStat s e;
                if p then RemovePlayer i e else Some e }) (rev [0..StatCount (Board e)]) e;
          e \<leftarrow> BoardClose e;
          check (inBoards b);
          Some (BoardData (World e) b, BoardLen (World e) b) }"

text \<open>\<open>add\<close> of \<open>snapshotFlags\<close>: first seen wins, empty names and an eleventh flag are dropped.\<close>

definition addFlag :: "string \<Rightarrow> string list \<Rightarrow> string list" where
  "addFlag name flags =
     (if name = [] \<or> int (length flags) \<ge> MAX_FLAG \<or> name \<in> set flags then flags else flags @ [name])"

definition flagNames :: "TWorldInfo \<Rightarrow> string list" where
  "flagNames w = map (Flags w) [0..MAX_FLAG - 1]"

definition flagArray :: "string list \<Rightarrow> int \<Rightarrow> string" where
  "flagArray fs i = (if 0 \<le> i \<and> i < int (length fs) then fs ! nat i else [])"

definition snapshotFlags :: "RoomManager \<Rightarrow> string list option" where
  "snapshotFlags rm =
     foldM (\<lambda>b flags. do {
         room \<leftarrow> roomAt b rm;
         Some (fold addFlag (flagNames (wInfo (World (rEngine room)))) flags) })
       (roomIDs rm) (fold addFlag (flagNames (wInfo (rmWorld rm))) [])"

definition snapshotWorldBase :: "RoomManager \<Rightarrow> TWorld option" where
  "snapshotWorldBase rm =
     do { world \<leftarrow> foldM (\<lambda>b world. do {
            room \<leftarrow> roomAt b rm;
            (data, len) \<leftarrow> snapshotRoomBoard room;
            check (inBoards b);
            Some (world\<lparr>BoardData := (BoardData world)(b := data),
                        BoardLen := (BoardLen world)(b := len)\<rparr>) }) (roomIDs rm) (rmWorld rm);
          flags \<leftarrow> snapshotFlags rm;
          Some (world\<lparr>wInfo := (wInfo world)\<lparr>Flags := flagArray flags, IsSave := True\<rparr>\<rparr>) }"

definition snapshotWorld :: "int \<Rightarrow> RoomManager \<Rightarrow> TWorld option option" where
  "snapshotWorld playerID rm =
     (case playerAt playerID rm of
        None \<Rightarrow> Some None
      | Some p \<Rightarrow> do {
          world \<leftarrow> snapshotWorldBase rm;
          room \<leftarrow> roomAt (rpBoardID p) rm;
          Some (Some (world\<lparr>wInfo := publishPlayer (PHeap (rEngine room) (rpState p))
                                       ((wInfo world)\<lparr>CurrentBoard := rpBoardID p\<rparr>)\<rparr>)) })"

definition snapshotWorldNoSaver :: "RoomManager \<Rightarrow> TWorld option" where
  "snapshotWorldNoSaver rm =
     do { world \<leftarrow> snapshotWorldBase rm;
          Some (world\<lparr>wInfo := (wInfo world)
            \<lparr>wHealth := 0, wAmmo := 0, wGems := 0, wTorches := 0, wTorchTicks := 0,
             wEnergizerTicks := 0, wScore := 0, wKeys := (\<lambda>_. False), wBoardTimeSec := 0,
             wBoardTimeHsec := 0\<rparr>\<rparr>) }"

definition worldToBytes :: "TWorld \<Rightarrow> int list option" where
  "worldToBytes world = map_option fst (worldWriteTo (newSnapshotEngine\<lparr>World := world\<rparr>))"

section \<open>Saving, restoring, loading\<close>

text \<open>
  The outcome of a save is the path, the bytes of the world file, and the sidecar that goes
  with a signed-in player's save.
\<close>

definition writeWorldSnapshot ::
  "bool \<Rightarrow> string \<Rightarrow> string \<Rightarrow> TWorld \<Rightarrow> (SaveError + string \<times> int list) option" where
  "writeWorldSnapshot written dir name world =
     (case snapshotPath dir name of
        Inl err \<Rightarrow> Some (Inl err)
      | Inr path \<Rightarrow>
          if \<not> written then Some (Inl ErrIO)
          else do { bs \<leftarrow> worldToBytes world; Some (Inr (path, bs)) })"

definition SaveSnapshot ::
  "bool \<Rightarrow> bool \<Rightarrow> string \<Rightarrow> string \<Rightarrow> int \<Rightarrow> RoomManager \<Rightarrow>
   ((SaveError + string \<times> int list \<times> (string \<times> PlayerState) option) \<times> RoomManager) option" where
  "SaveSnapshot written sidecarWritten dir name playerID rm =
     (case snapshotPath dir name of
        Inl err \<Rightarrow> Some (Inl err, rm)
      | Inr _ \<Rightarrow> do {
          w \<leftarrow> snapshotWorld playerID rm;
          case w of
            None \<Rightarrow> Some (Inl ErrNoSuchPlayer, rm)
          | Some world \<Rightarrow> do {
              let rm = recordRM (RecSave playerID name) rm;
              out \<leftarrow> writeWorldSnapshot written dir name world;
              case out of
                Inl err \<Rightarrow> Some (Inl err, rm)
              | Inr (path, bs) \<Rightarrow> do {
                  p \<leftarrow> playerAt playerID rm;
                  room \<leftarrow> roomAt (rpBoardID p) rm;
                  Some (if rpAccountID p = [] then Inr (path, bs, None)
                        else if sidecarWritten
                        then Inr (path, bs, Some (rpAccountID p, PHeap (rEngine room) (rpState p)))
                        else Inl ErrIO, rm) } } })"

text \<open>\<open>os.Open\<close>, \<open>worldReadFrom\<close> into a scratch engine, and the check that every board opens.\<close>

definition LoadWorldBytes :: "int list \<Rightarrow> (SaveError + TWorld) option" where
  "LoadWorldBytes bs =
     do { (err, e) \<leftarrow> worldReadFrom (\<lambda>_ e. e) bs False newSnapshotEngine;
          Some (if err \<noteq> ReadOk then Inl (ErrRead err)
                else if validateWorldBoards (World e) \<noteq> ReadOk then Inl (ErrRead ErrWorldCorrupt)
                else Inr (World e)) }"

definition LoadPristineWorld ::
  "(string \<Rightarrow> int list option) \<Rightarrow> string \<Rightarrow> string \<Rightarrow> (SaveError + TWorld) option" where
  "LoadPristineWorld files dir name =
     (case SanitizeSaveName name of
        None \<Rightarrow> Some (Inl ErrInvalidSaveName)
      | Some safe \<Rightarrow>
          (case files (joinPath dir (safe @ ''.ZZT'')) of
             None \<Rightarrow> Some (Inl ErrIO)
           | Some f \<Rightarrow> LoadWorldBytes f))"

definition RestoreSnapshot ::
  "(string \<Rightarrow> int list option) \<Rightarrow> string \<Rightarrow> string \<Rightarrow> RoomManager \<Rightarrow>
   (SaveError option \<times> RoomManager) option" where
  "RestoreSnapshot files dir name rm =
     (case snapshotPath dir name of
        Inl err \<Rightarrow> Some (Some err, rm)
      | Inr path \<Rightarrow>
          if \<not> Mapping.is_empty (rmPlayers rm) then Some (Some ErrWorldOccupied, rm)
          else (case files path of
            None \<Rightarrow> Some (Some ErrIO, rm)
          | Some f \<Rightarrow> do {
              r \<leftarrow> LoadWorldBytes f;
              Some (case r of
                  Inl err \<Rightarrow> (Some err, rm)
                | Inr world \<Rightarrow> (None, rm\<lparr>rmWorld := world, rmRooms := Mapping.empty\<rparr>)) }))"

text \<open>The terminal client's engine \<open>E\<close> is nil in a server, so its file name is not updated.\<close>

definition LoadWorld ::
  "(string \<Rightarrow> int list option) \<Rightarrow> string \<Rightarrow> string \<Rightarrow> RoomManager \<Rightarrow>
   (SaveError option \<times> RoomManager) option" where
  "LoadWorld files dir name rm =
     (if \<not> Mapping.is_empty (rmPlayers rm) then Some (Some ErrWorldOccupied, rm)
      else case SanitizeSaveName name of
        None \<Rightarrow> Some (Some ErrInvalidSaveName, rm)
      | Some safe \<Rightarrow>
          (case files (joinPath dir (safe @ ''.ZZT'')) of
             None \<Rightarrow> Some (Some ErrIO, rm)
           | Some f \<Rightarrow> do {
               r \<leftarrow> LoadWorldBytes f;
               case r of
                 Inl err \<Rightarrow> Some (Some err, rm)
               | Inr world \<Rightarrow> do {
                   rm \<leftarrow> LoadHighScores files
                     (rm\<lparr>rmWorld := world, rmRooms := Mapping.empty,
                        HighScorePath := joinPath dir (safe @ ''.HI'')\<rparr>);
                   Some (None, rm) } }))"

section \<open>Recordings\<close>

text \<open>\<open>WorldBytes\<close> is kept as bytes: base64 only carries them through JSON.\<close>

record recHeader =
  rhWorld :: string
  rhWorldHash :: "64 word"
  rhWorldBytes :: "int list"
  rhSeed :: int
  rhFriendlyFire :: bool

definition newSessionHeader :: "string \<Rightarrow> TWorld \<Rightarrow> recHeader option" where
  "newSessionHeader name world =
     do { bs \<leftarrow> worldToBytes world;
          Some \<lparr>rhWorld = name, rhWorldHash = fnv1a bs, rhWorldBytes = bs,
                rhSeed = RandSeed newSnapshotEngine, rhFriendlyFire = False\<rparr> }"

text \<open>The left of the sum is any refusal of the recording.\<close>

definition readRecordingStart :: "recHeader \<Rightarrow> (unit + TWorld) option" where
  "readRecordingStart h =
     (if fnv1a (rhWorldBytes h) \<noteq> rhWorldHash h then Some (Inl ())
      else do { r \<leftarrow> LoadWorldBytes (rhWorldBytes h);
                Some (case r of Inl _ \<Rightarrow> Inl () | Inr w \<Rightarrow> Inr w) })"

fun applyRecordedOp :: "recOp \<Rightarrow> RoomManager \<Rightarrow> RoomManager option" where
  "applyRecordedOp (RecJoin player board x y) rm = map_option snd (JoinPlayerWithID player board x y rm)"
| "applyRecordedOp (RecName player name) rm = Some (SetPlayerName player name rm)"
| "applyRecordedOp (RecState player state) rm =
     (case state of None \<Rightarrow> Some rm | Some st \<Rightarrow> map_option snd (ApplyPlayerState player st rm))"
| "applyRecordedOp (RecLeave player) rm = map_option snd (LeavePlayer player rm)"
| "applyRecordedOp (RecScroll player statID label) rm =
     map_option snd (RoomSubmitScrollReply player statID label rm)"
| "applyRecordedOp (RecQuit player quit) rm = map_option snd (RoomSubmitQuitReply player quit rm)"
| "applyRecordedOp (RecDebug player txt) rm = map_option snd (RoomSubmitDebugCommand player txt rm)"
| "applyRecordedOp (RecHighScore player name) rm = map_option snd (RecordHighScore player name rm)"
| "applyRecordedOp (RecSave player name) rm = Some rm"

text \<open>
  \<open>visit n m\<close> are the entries of the input map \<open>m\<close> of tick \<open>n\<close> in the order in which \<open>range\<close> visits them in the replay.
  Go leaves that order open, also from one tick to the next and between recording and replay; every entry is visited once.
\<close>

type_synonym visitOrder = "int \<Rightarrow> (int, PlayerInput) mapping \<Rightarrow> (int \<times> PlayerInput) list"

definition rangeOrder :: "visitOrder \<Rightarrow> bool" where
  "rangeOrder visit \<longleftrightarrow>
     (\<forall>n m. finite (Mapping.keys m) \<longrightarrow>
        distinct (map fst (visit n m)) \<and> (\<forall>p. map_of (visit n m) p = Mapping.lookup m p))"

definition replayTick ::
  "visitOrder \<Rightarrow> (string \<Rightarrow> bool) \<Rightarrow> (string \<Rightarrow> string list) \<Rightarrow> recTick \<Rightarrow> RoomManager \<Rightarrow> RoomManager option" where
  "replayTick visit created help t rm =
     do { rm \<leftarrow> foldM applyRecordedOp (rtOps t) rm;
          map_option snd (StepDiffs created help (visit (rtTick t) (rtInputs t)) rm) }"

text \<open>\<open>ReplaySession\<close> past its header; the ticks are the lines of the file.\<close>

definition replayTicks ::
  "visitOrder \<Rightarrow> (string \<Rightarrow> bool) \<Rightarrow> (string \<Rightarrow> string list) \<Rightarrow> recTick list \<Rightarrow> RoomManager \<Rightarrow> RoomManager option" where
  "replayTicks visit created help ts rm = foldM (replayTick visit created help) ts rm"

definition ReplaySession ::
  "visitOrder \<Rightarrow> (string \<Rightarrow> bool) \<Rightarrow> (string \<Rightarrow> string list) \<Rightarrow> recHeader \<Rightarrow> recTick list \<Rightarrow> (unit + RoomManager) option" where
  "ReplaySession visit created help h ts =
     do { r \<leftarrow> readRecordingStart h;
          case r of
            Inl _ \<Rightarrow> Some (Inl ())
          | Inr world \<Rightarrow> map_option Inr (replayTicks visit created help ts
              ((NewRoomManagerForWorld world (rhWorld h))\<lparr>rmFriendlyFire := rhFriendlyFire h\<rparr>)) }"

end
