(* ===== verification/EditWorld.thy ===== *)
theory EditWorld
  imports EditOps RoomSave Touch
begin

text \<open>
  Whole boards and worlds in an editor session (\<open>engine/editor_session.go\<close>), and the gate an uploaded
  world has to pass (\<open>simulateGeneratedBoards\<close> of \<open>engine/generation.go\<close>).
\<close>

section \<open>Boards\<close>

definition middleSnapshot :: "Engine \<Rightarrow> (EditorSnapshotMessage option \<times> Engine) option" where
  "middleSnapshot e =
     do { (r, e) \<leftarrow> editorSnapshot (BOARD_WIDTH div 2) (BOARD_HEIGHT div 2) e; Some (Some r, e) }"

definition appendBoard :: "string \<Rightarrow> Engine \<Rightarrow> Engine option" where
  "appendBoard name e =
     do { e \<leftarrow> BoardClose e;
          let n = i16 (BoardCount (World e) + 1);
          check (inBoards n);
          let e = e\<lparr>World := (World e)\<lparr>BoardCount := n, BoardLen := (BoardLen (World e))(n := 0)\<rparr>\<rparr>;
          e \<leftarrow> BoardCreate (modWorldInfo (\<lambda>w. w\<lparr>CurrentBoard := n\<rparr>) e);
          e \<leftarrow> BoardClose (e\<lparr>Board := (Board e)\<lparr>bName := editorString name 50\<rparr>\<rparr>);
          TransitionDrawToBoard e }"

definition AddBoard :: "int \<Rightarrow> string \<Rightarrow> EditorSession \<Rightarrow>
  ((unit + EditorSnapshotMessage option) \<times> EditorSession) option" where
  "AddBoard m name =
     Apply m (\<lambda>s. guarded (canEditLocked m s) (\<lambda>e. do {
         e \<leftarrow> (if BoardCount (World e) < MAX_BOARD then appendBoard name e else Some e);
         middleSnapshot e }) s)"

definition SwitchBoard :: "int \<Rightarrow> int \<Rightarrow> EditorSession \<Rightarrow>
  ((unit + EditorSnapshotMessage option) \<times> EditorSession) option" where
  "SwitchBoard m b =
     Apply m (\<lambda>s.
       let legal = (0 \<le> b \<and> b \<le> BoardCount (World (esEngine s))) in
       do { s \<leftarrow> (if legal \<and> b \<noteq> curBoard (esEngine s)
                  then onEditor (\<lambda>e. do { e \<leftarrow> BoardChange b e; TransitionDrawToBoard e }) s else Some s);
            inEditor middleSnapshot (if legal then setMemberBoardLocked m b s else s) })"

definition emptyBoard :: "Engine \<Rightarrow> Engine option" where
  "emptyBoard e =
     do { e \<leftarrow> foldM RemoveStat (rev [1..StatCount (Board e)]) e;
          e \<leftarrow> BoardCreate e;
          e \<leftarrow> BoardClose e;
          TransitionDrawToBoard e }"

definition ClearBoard :: "int \<Rightarrow> EditorSession \<Rightarrow>
  ((unit + EditorSnapshotMessage option) \<times> EditorSession) option" where
  "ClearBoard m =
     Apply m (\<lambda>s. guarded (hasCurrentBoardLeaseLocked m s)
       (\<lambda>e. do { e \<leftarrow> emptyBoard e; middleSnapshot e }) s)"

section \<open>Worlds\<close>

definition reopen :: "int \<Rightarrow> Engine \<Rightarrow> Engine option" where
  "reopen b e =
     do { e \<leftarrow> BoardOpen b e; e \<leftarrow> GenerateTransitionTable e; TransitionDrawToBoard e }"

definition NewWorld :: "int \<Rightarrow> EditorSession \<Rightarrow>
  ((unit + EditorSnapshotMessage option) \<times> EditorSession) option" where
  "NewWorld m =
     Apply m (\<lambda>s.
       if \<not> hasCurrentBoardLeaseLocked m s then Some (None, s)
       else do {
         s \<leftarrow> onEditor (\<lambda>e. do { e \<leftarrow> WorldCreate e; e \<leftarrow> BoardClose e; reopen (curBoard e) e }) s;
         inEditor middleSnapshot
           (fold (\<lambda>other. setMemberBoardLocked other (curBoard (esEngine s)))
              (sorted_list_of_set (Members s)) s) })"

text \<open>The bytes of a \<open>.BRD\<close> file and its name; the base64 around them is the transport's.\<close>

definition boardFile :: "Engine \<Rightarrow> ((string \<times> int list) \<times> Engine) option" where
  "boardFile e =
     do { e \<leftarrow> BoardClose e;
          check (inBoards (curBoard e));
          let bs = BoardData (World e) (curBoard e);
          n \<leftarrow> StoreInt16 [0, 0] (i16 (int (length bs)));
          Some ((case SanitizeSaveName (bName (Board e)) of Some s \<Rightarrow> s | None \<Rightarrow> ''BOARD'', n @ bs), e) }"

definition ExportBoard :: "int \<Rightarrow> EditorSession \<Rightarrow> ((unit + (string \<times> int list)) \<times> EditorSession) option" where
  "ExportBoard m = Apply m (inEditor boardFile)"

text \<open>
  A board from a client's file. \<open>safeBoardOpen\<close> recovers when it does not decode; \<open>torn\<close> is the board the
  interrupted \<open>BoardOpen\<close> leaves half open, which the old board is opened over.
\<close>

definition putBoard :: "int \<Rightarrow> int list \<Rightarrow> int \<Rightarrow> Engine \<Rightarrow> Engine" where
  "putBoard b bs n e =
     e\<lparr>World := (World e)\<lparr>BoardData := (BoardData (World e))(b := bs), BoardLen := (BoardLen (World e))(b := n)\<rparr>\<rparr>"

definition swapBoard :: "(Engine \<Rightarrow> TBoard) \<Rightarrow> int list \<Rightarrow> int \<Rightarrow> Engine \<Rightarrow> Engine option" where
  "swapBoard torn bs n e =
     do { e \<leftarrow> BoardClose e;
          let cur = curBoard e;
          check (inBoards cur);
          let prev = World e;
          let e = putBoard cur bs n e;
          e \<leftarrow> (case BoardOpen cur e of
              Some e \<Rightarrow> Some (modInfo (\<lambda>i. i\<lparr>NeighborBoards :=
                  (\<lambda>k. if 0 \<le> k \<and> k \<le> 3 then 0 else NeighborBoards i k)\<rparr>) e)
            | None \<Rightarrow> BoardOpen cur (putBoard cur (BoardData prev cur) (BoardLen prev cur)
                  (e\<lparr>Board := torn e, ScrollAudience := (\<lambda>_. 0)\<rparr>)));
          TransitionDrawToBoard e }"

definition fileLength :: "int list \<Rightarrow> Engine \<Rightarrow> int option" where
  "fileLength f e =
     do { check (length f \<ge> 2);
          n \<leftarrow> LoadInt16 (take 2 f);
          check (n \<ge> 0 \<and> n = int (length f) - 2 \<and> n \<le> int (length (IoTmpBuf e)));
          Some n }"

definition ImportBoard :: "(Engine \<Rightarrow> TBoard) \<Rightarrow> int \<Rightarrow> int list \<Rightarrow> EditorSession \<Rightarrow>
  ((unit + EditorSnapshotMessage option) \<times> EditorSession) option" where
  "ImportBoard torn m f =
     Apply m (\<lambda>s. do {
       (before, s) \<leftarrow> inEditor middleSnapshot s;
       if \<not> hasCurrentBoardLeaseLocked m s then Some (before, s)
       else case fileLength f (esEngine s) of
           None \<Rightarrow> Some (before, s)
         | Some n \<Rightarrow> inEditor (\<lambda>e. do { e \<leftarrow> swapBoard torn (drop 2 f) n e; middleSnapshot e }) s })"

definition worldBytes :: "string \<Rightarrow> Engine \<Rightarrow> (int list \<times> Engine) option" where
  "worldBytes name e =
     do { e \<leftarrow> BoardClose e;
          let e = (if name \<noteq> [] then modWorldInfo (\<lambda>w. w\<lparr>wName := editorString name 20\<rparr>) e else e);
          (out, e) \<leftarrow> worldWriteTo (modWorldInfo (\<lambda>w. w\<lparr>IsSave := False\<rparr>) e);
          e \<leftarrow> BoardOpen (curBoard e) e;
          Some (out, e) }"

definition WorldBytes :: "int \<Rightarrow> string \<Rightarrow> EditorSession \<Rightarrow> ((unit + int list) \<times> EditorSession) option" where
  "WorldBytes m name = Apply m (inEditor (worldBytes name))"

section \<open>The gate\<close>

text \<open>
  Two hundred cycles of a board with nobody at the controls. A panic is recovered; a cycle that never
  returns, which would hang the server, counts as one here.
\<close>

datatype SimProblem = SimPanicked | SimExited int

fun simulateSteps :: "(string \<Rightarrow> bool) \<Rightarrow> nat \<Rightarrow> int \<Rightarrow> Engine \<Rightarrow> (int option \<times> Engine) option" where
  "simulateSteps created 0 i e = Some (None, e)"
| "simulateSteps created (Suc n) i e =
     do { e \<leftarrow> GameStep created None e;
          if GamePlayExitRequested e then Some (Some (i + 1), e) else simulateSteps created n (i + 1) e }"

definition simulateGeneratedBoard ::
  "(string \<Rightarrow> bool) \<Rightarrow> int \<Rightarrow> Engine \<Rightarrow> string \<times> SimProblem option \<times> Engine" where
  "simulateGeneratedBoard created boardID e =
     (case BoardOpen boardID e of
        None \<Rightarrow> ([], Some SimPanicked, e)
      | Some opened \<Rightarrow>
          let name = bName (Board opened) in
          case (do { e \<leftarrow> BoardEnter 0 opened;
                     let (ps, e) = PlayerFor 0 (e\<lparr>GameStateElement := E_PLAYER\<rparr>);
                     let e = modPlayer ps (\<lambda>p. p\<lparr>Paused := False\<rparr>) e;
                     simulateSteps created 200 0
                       (e\<lparr>GamePlayExitRequested := False, ScriptTicks := [], ScriptPos := 0\<rparr>) }) of
            None \<Rightarrow> (name, Some SimPanicked, opened)
          | Some (None, e) \<Rightarrow> (name, None, e)
          | Some (Some i, e) \<Rightarrow> (name, Some (SimExited i), e))"

text \<open>Boards in order; the engine is loaded afresh after a board that failed.\<close>

definition loadForGate :: "int list \<Rightarrow> (ReadError \<times> Engine) option" where
  "loadForGate f = worldReadFrom (\<lambda>_ e. e) f False (videoClear (NewEngine\<lparr>Headless := True\<rparr>))"

definition simulateGeneratedBoards ::
  "(string \<Rightarrow> bool) \<Rightarrow> int list \<Rightarrow> (ReadError + (int \<times> string \<times> SimProblem) list) option" where
  "simulateGeneratedBoards created f =
     do { (err, e) \<leftarrow> loadForGate f;
          if err \<noteq> ReadOk then Some (Inl err)
          else do {
            (failures, _) \<leftarrow> foldM (\<lambda>b (failures, e).
                case simulateGeneratedBoard created b e of
                  (_, None, e) \<Rightarrow> Some (failures, e)
                | (name, Some p, _) \<Rightarrow> do {
                    (_, e) \<leftarrow> loadForGate f; Some (failures @ [(b, name, p)], e) })
              [0..BoardCount (World e)] ([], e);
            Some (Inr failures) } }"

datatype GateVerdict = GatePassed | GateUnreadable ReadError | GateFailed "(int \<times> string \<times> SimProblem) list"

definition validateGeneratedZWD :: "(string \<Rightarrow> bool) \<Rightarrow> int list \<Rightarrow> GateVerdict option" where
  "validateGeneratedZWD created f =
     do { r \<leftarrow> simulateGeneratedBoards created f;
          Some (case r of Inl err \<Rightarrow> GateUnreadable err
                | Inr [] \<Rightarrow> GatePassed | Inr fs \<Rightarrow> GateFailed fs) }"

text \<open>The world a gated file holds, or why it is refused.\<close>

definition gateWorld :: "(string \<Rightarrow> bool) \<Rightarrow> int list \<Rightarrow> (GateVerdict + TWorld) option" where
  "gateWorld created f =
     do { verdict \<leftarrow> validateGeneratedZWD created f;
          if verdict \<noteq> GatePassed then Some (Inl verdict)
          else do {
            (err, scratch) \<leftarrow> worldReadFrom (\<lambda>_ e. e) f False newSnapshotEngine;
            Some (if err \<noteq> ReadOk then Inl (GateUnreadable err) else Inr (World scratch)) } }"

definition UploadWorld :: "(string \<Rightarrow> bool) \<Rightarrow> int \<Rightarrow> int list \<Rightarrow> EditorSession \<Rightarrow>
  ((unit + EditorSnapshotMessage option \<times> GateVerdict) \<times> EditorSession) option" where
  "UploadWorld created m f =
     Apply m (\<lambda>s. do {
       (before, s) \<leftarrow> inEditor middleSnapshot s;
       if \<not> canEditLocked m s then Some ((before, GatePassed), s)
       else do {
         r \<leftarrow> gateWorld created f;
         case r of
           Inl verdict \<Rightarrow> Some ((before, verdict), s)
         | Inr world \<Rightarrow> inEditor (\<lambda>e. do {
               let e = e\<lparr>World := world\<rparr>;
               e \<leftarrow> reopen (if curBoard e < 0 \<or> curBoard e > BoardCount world then 0 else curBoard e) e;
               (r, e) \<leftarrow> middleSnapshot e;
               Some ((r, GatePassed), e) }) s } })"

end
