(* ===== verification/EvalWorld.thy ===== *)
theory EvalWorld
  imports ZwdCompile EditWorld
begin

text \<open>
  The acceptance gate of a generated world (\<open>engine/eval.go\<close>): its title screen, the boards a player can
  reach and their finale, the squares a player can reach on a board, programs and stats without faults. A
  check keeps its name and verdict and the faults it found; the wording of details is left out. The
  \<open>e\<close> of the code stays open on the last board looked at, so every sweep hands on its engine.
\<close>

section \<open>Strings\<close>

text \<open>\<open>strings.ToUpper\<close>; \<open>upper\<close> is Unicode's table beyond ASCII. \<open>strings.Contains\<close>.\<close>

definition upperRune :: "(int \<Rightarrow> int) \<Rightarrow> int \<Rightarrow> int" where
  "upperRune upper r = (if 97 \<le> r \<and> r \<le> 122 then r - 32 else if r < 128 then r else upper r)"

definition ToUpper :: "(int \<Rightarrow> int) \<Rightarrow> string \<Rightarrow> string" where
  "ToUpper upper s = concat (map (\<lambda>r. encodeRune (upperRune upper r)) (runesOf s))"

fun Contains :: "string \<Rightarrow> string \<Rightarrow> bool" where
  "Contains s sub \<longleftrightarrow> take (length sub) s = sub \<or> (case s of [] \<Rightarrow> False | _ # r \<Rightarrow> Contains r sub)"

declare Contains.simps [simp del]

definition mentionsEndgame :: "(int \<Rightarrow> int) \<Rightarrow> string \<Rightarrow> bool" where
  "mentionsEndgame upper s \<longleftrightarrow> Contains (ToUpper upper s) ''#ENDGAME''"

record EvalCheck =
  ecName :: string
  ecPassed :: bool

record EvalReport =
  erWorldName :: string
  erChecks :: "EvalCheck list"

definition evalPassed :: "EvalReport \<Rightarrow> bool" where
  "evalPassed r \<longleftrightarrow> list_all ecPassed (erChecks r)"

definition evalFailures :: "EvalReport \<Rightarrow> EvalCheck list" where
  "evalFailures r = filter (\<lambda>c. \<not> ecPassed c) (erChecks r)"

section \<open>The title screen\<close>

definition evalTitleBanned :: "int list" where
  "evalTitleBanned =
     [E_BEAR, E_RUFFIAN, E_LION, E_TIGER, E_SHARK, E_SPINNING_GUN, E_SLIME, E_CENTIPEDE_HEAD, E_CENTIPEDE_SEGMENT,
      E_BULLET, E_STAR, E_GEM, E_AMMO, E_TORCH, E_ENERGIZER, E_KEY, E_BOMB]"

definition evalTextRow :: "Engine \<Rightarrow> int \<Rightarrow> string option" where
  "evalTextRow e y =
     do { (raw, sawText) \<leftarrow> foldM (\<lambda>x (raw, sawText). do {
              tile \<leftarrow> tileAt x y e;
              Some (if E_TEXT_MIN \<le> Element tile \<and> Element tile \<le> E_TEXT_WHITE
                    then (raw @ [chr (Color tile)], True) else (raw @ '' '', sawText)) })
            [1..BOARD_WIDTH] ([], False);
          Some (if \<not> sawText then [] else joinWith '' '' (Fields raw)) }"

definition evalNormalizeName :: "(int \<Rightarrow> int) \<Rightarrow> string \<Rightarrow> string" where
  "evalNormalizeName upper s = ToUpper upper (joinWith '' '' (Fields s))"

definition evalTitleWordmark :: "(int \<Rightarrow> int) \<Rightarrow> Engine \<Rightarrow> string \<Rightarrow> EvalCheck option" where
  "evalTitleWordmark upper e displayName =
     do { let want = evalNormalizeName upper (foldWordmark displayName);
          (wordmarkRows, otherRows) \<leftarrow> foldM (\<lambda>y (marks, others). do {
              row \<leftarrow> evalTextRow e y;
              Some (if row = [] then (marks, others)
                    else if evalNormalizeName upper row = want then (marks @ [y], others)
                    else (marks, others @ [y])) }) [1..BOARD_HEIGHT] ([], []);
          Some \<lparr>ecName = ''title-wordmark'',
            ecPassed =
              (if wordmarkRows = [] then False
               else if length wordmarkRows > 1 then False
               else if length otherRows > 1 then False
               else if length otherRows = 1 \<and> hd otherRows < hd wordmarkRows then False
               else True)\<rparr> }"

text \<open>At most five offenders are collected.\<close>

definition evalTitleNoCreaturesOrItems :: "Engine \<Rightarrow> EvalCheck option" where
  "evalTitleNoCreaturesOrItems e =
     do { found \<leftarrow> foldM (\<lambda>y. foldM (\<lambda>x found.
              if length found \<ge> 5 then Some found
              else do { tile \<leftarrow> tileAt x y e;
                        Some (if Element tile \<in> set evalTitleBanned then found @ [(x, y)] else found) })
              [1..BOARD_WIDTH]) [1..BOARD_HEIGHT] [];
          found \<leftarrow> foldM (\<lambda>i found.
              if length found \<ge> 5 then Some found
              else do { s \<leftarrow> statAt i e; tile \<leftarrow> tileAt (sX s) (sY s) e;
                        Some (if Element tile \<in> set evalTitleBanned then found @ [(sX s, sY s)] else found) })
              [0..StatCount (Board e)] found;
          Some \<lparr>ecName = ''title-no-creatures-or-items'', ecPassed = (found = [])\<rparr> }"

definition evalTitleOnePlayerStart :: "Engine \<Rightarrow> EvalCheck option" where
  "evalTitleOnePlayerStart e =
     do { count \<leftarrow> foldM (\<lambda>y. foldM (\<lambda>x count. do {
              tile \<leftarrow> tileAt x y e; Some (if Element tile = E_PLAYER then count + 1 else count) })
            [1..BOARD_WIDTH]) [1..BOARD_HEIGHT] (0::int);
          Some \<lparr>ecName = ''title-one-player-start'', ecPassed = (count = 1)\<rparr> }"

section \<open>The finale\<close>

text \<open>The exits of the open board and its passages, and whether a program on it ends the game.\<close>

definition boardLinks :: "(int \<Rightarrow> int) \<Rightarrow> Engine \<Rightarrow> (int list \<times> bool) option" where
  "boardLinks upper e =
     foldM (\<lambda>i (queue, hasEndgame). do {
         s \<leftarrow> statAt i e; tile \<leftarrow> tileAt (sX s) (sY s) e;
         Some (if Element tile = E_PASSAGE \<and> P3 s \<noteq> 0 then queue @ [P3 s] else queue,
               hasEndgame \<or> mentionsEndgame upper (Data s)) })
       [0..StatCount (Board e)]
       (filter (\<lambda>n. n \<noteq> 0) (map (NeighborBoards (bInfo (Board e))) [0..3]), False)"

text \<open>The boards visited, and the names of those with a finale.\<close>

partial_function (option) walkBoards ::
  "(int \<Rightarrow> int) \<Rightarrow> int set \<Rightarrow> int list \<Rightarrow> string list \<Rightarrow> Engine \<Rightarrow> (int set \<times> string list \<times> Engine) option" where
  "walkBoards upper visited queue endgameBoards e =
     (case queue of
        [] \<Rightarrow> Some (visited, endgameBoards, e)
      | b # queue \<Rightarrow>
          if b < 1 \<or> b > BoardCount (World e) \<or> b \<in> visited then walkBoards upper visited queue endgameBoards e
          else do {
            e \<leftarrow> BoardOpen b e;
            (links, hasEndgame) \<leftarrow> boardLinks upper e;
            walkBoards upper (insert b visited) (queue @ links)
              (if hasEndgame then endgameBoards @ [bName (Board e)] else endgameBoards) e })"

declare walkBoards.simps [code]

definition reachableEndgame :: "(int \<Rightarrow> int) \<Rightarrow> Engine \<Rightarrow> (bool \<times> Engine) option" where
  "reachableEndgame upper e =
     do { (_, endgameBoards, e) \<leftarrow> walkBoards upper {} [1] [] e; Some (endgameBoards \<noteq> [], e) }"

definition evalReachableEndgame :: "(int \<Rightarrow> int) \<Rightarrow> Engine \<Rightarrow> (EvalCheck \<times> Engine) option" where
  "evalReachableEndgame upper e =
     (let check = (\<lambda>p. \<lparr>ecName = ''reachable-endgame'', ecPassed = p\<rparr>) in
      if BoardCount (World e) < 1 then Some (check False, e)
      else do { (passed, e) \<leftarrow> reachableEndgame upper e; Some (check passed, e) })"

section \<open>Routes on a board\<close>

definition evalOptimisticallyTraversable :: "int \<Rightarrow> bool" where
  "evalOptimisticallyTraversable element \<longleftrightarrow>
     element \<le> MAX_ELEMENT \<and> (case elemDef element of None \<Rightarrow> False | Some d \<Rightarrow> Walkable d) \<or>
     element \<in> set [E_PLAYER, E_AMMO, E_TORCH, E_GEM, E_KEY, E_ENERGIZER,
       E_BREAKABLE, E_FOREST, E_DOOR, E_PASSAGE, E_SCROLL,
       E_OBJECT, E_BEAR, E_RUFFIAN, E_LION, E_TIGER, E_SHARK,
       E_SPINNING_GUN, E_SLIME, E_CENTIPEDE_HEAD, E_CENTIPEDE_SEGMENT]"

text \<open>A square of the board is within the array of tiles.\<close>

abbreviation elementOn :: "Engine \<Rightarrow> int \<Rightarrow> int \<Rightarrow> int" where
  "elementOn e x y \<equiv> Element (Tiles (Board e) x y)"

definition squares :: "(int \<times> int) set" where
  "squares = {1..BOARD_WIDTH} \<times> {1..BOARD_HEIGHT}"

lemma in_squares: "(x, y) \<in> squares \<longleftrightarrow> onBoard x y"
  by (auto simp: squares_def onBoard_def)

lemma finite_squares [simp]: "finite squares"
  by (simp add: squares_def)

function floodLoop :: "Engine \<Rightarrow> int \<times> int \<Rightarrow> (int \<times> int) list \<Rightarrow> (int \<times> int) set \<Rightarrow> (int \<times> int) set" where
  "floodLoop e start queue reached =
     (case queue of
        [] \<Rightarrow> reached
      | (x, y) # queue \<Rightarrow>
          if \<not> onBoard x y \<or> (x, y) \<in> reached then floodLoop e start queue reached
          else if (x, y) \<noteq> start \<and> \<not> evalOptimisticallyTraversable (elementOn e x y) then floodLoop e start queue reached
          else floodLoop e start (queue @ [(x - 1, y), (x + 1, y), (x, y - 1), (x, y + 1)]) (insert (x, y) reached))"
  by pat_completeness auto

termination
proof (relation "measures [\<lambda>(e, start, queue, reached). card (squares - reached), \<lambda>(e, start, queue, reached). length queue]")
  show "wf (measures [\<lambda>(e :: Engine, start :: int \<times> int, queue :: (int \<times> int) list, reached). card (squares - reached),
      \<lambda>(e, start, queue, reached). length queue])" by simp
next
  fix e start queue reached q qs x y
  assume "queue = q # qs" "(x, y) = q" "\<not> (\<not> onBoard x y \<or> (x, y) \<in> reached)"
  then have "squares - insert (x, y) reached \<subset> squares - reached" using in_squares [of x y] by auto
  then have "card (squares - insert (x, y) reached) < card (squares - reached)" by (intro psubset_card_mono) auto
  then show "((e, start, qs @ [(x - 1, y), (x + 1, y), (x, y - 1), (x, y + 1)], insert (x, y) reached), e, start, queue, reached)
      \<in> measures [\<lambda>(e :: Engine, start :: int \<times> int, queue :: (int \<times> int) list, reached). card (squares - reached),
      \<lambda>(e, start, queue, reached). length queue]" by simp
qed auto

declare floodLoop.simps [simp del]

definition evalFloodBoard :: "Engine \<Rightarrow> int \<times> int \<Rightarrow> (int \<times> int) set" where
  "evalFloodBoard e start = floodLoop e start [start] {}"

datatype RouteProblem = SealedExit int | SealedKey int int | SealedPassage int int | SealedFinale int int

definition exitProblem :: "Engine \<Rightarrow> (int \<times> int) set \<Rightarrow> int \<Rightarrow> RouteProblem list" where
  "exitProblem e reached exit =
     (if NeighborBoards (bInfo (Board e)) exit = 0 then []
      else let found =
             (if exit = 0 \<or> exit = 1
              then list_ex (\<lambda>x. (x, if exit = 1 then BOARD_HEIGHT else 1) \<in> reached) [1..BOARD_WIDTH]
              else list_ex (\<lambda>y. (if exit = 3 then BOARD_WIDTH else 1, y) \<in> reached) [1..BOARD_HEIGHT])
           in if found then [] else [SealedExit exit])"

definition exitProblems :: "Engine \<Rightarrow> (int \<times> int) set \<Rightarrow> RouteProblem list" where
  "exitProblems e reached = concat (map (exitProblem e reached) [0..3])"

definition keyProblems :: "Engine \<Rightarrow> (int \<times> int) set \<Rightarrow> RouteProblem list" where
  "keyProblems e reached =
     concat (map (\<lambda>y. concat (map (\<lambda>x.
       if elementOn e x y = E_KEY \<and> (x, y) \<notin> reached then [SealedKey x y] else []) [1..BOARD_WIDTH])) [1..BOARD_HEIGHT])"

definition statProblems :: "(int \<Rightarrow> int) \<Rightarrow> Engine \<Rightarrow> (int \<times> int) set \<Rightarrow> RouteProblem list option" where
  "statProblems upper e reached =
     foldM (\<lambda>i ps. do {
         s \<leftarrow> statAt i e; tile \<leftarrow> tileAt (sX s) (sY s) e;
         Some (if (sX s, sY s) \<in> reached then ps
               else if Element tile = E_PASSAGE then ps @ [SealedPassage (sX s) (sY s)]
               else if mentionsEndgame upper (Data s) then ps @ [SealedFinale (sX s) (sY s)]
               else ps) })
       [1..StatCount (Board e)] []"

definition boardProblems :: "(int \<Rightarrow> int) \<Rightarrow> Engine \<Rightarrow> RouteProblem list option" where
  "boardProblems upper e =
     do { s \<leftarrow> statAt 0 e;
          let reached = evalFloodBoard e (sX s, sY s);
          ps \<leftarrow> statProblems upper e reached;
          Some (exitProblems e reached @ keyProblems e reached @ ps) }"

text \<open>Problems are filed under the name of their board, so boards of one name share a list.\<close>

definition addProblems :: "string \<Rightarrow> 'p list \<Rightarrow> (string \<Rightarrow> 'p list) \<Rightarrow> string \<Rightarrow> 'p list" where
  "addProblems name ps problems = problems(name := problems name @ ps)"

definition evalBoardRouteProblems ::
  "(int \<Rightarrow> int) \<Rightarrow> Engine \<Rightarrow> ((string \<Rightarrow> RouteProblem list) \<times> Engine) option" where
  "evalBoardRouteProblems upper e =
     foldM (\<lambda>board (problems, e). do {
         e \<leftarrow> BoardOpen board e;
         ps \<leftarrow> boardProblems upper e;
         Some (addProblems (bName (Board e)) ps problems, e) })
       [1..BoardCount (World e)] (\<lambda>_. [], e)"

text \<open>The inner loop stops when the list is exactly \<open>cap\<close> long.\<close>

fun takeUntil :: "nat \<Rightarrow> 'p list \<Rightarrow> 'p list \<Rightarrow> 'p list" where
  "takeUntil cap [] found = found"
| "takeUntil cap (p # ps) found =
     (if length (found @ [p]) = cap then found @ [p] else takeUntil cap ps (found @ [p]))"

definition evalBoardRoutes :: "(int \<Rightarrow> int) \<Rightarrow> Engine \<Rightarrow> (EvalCheck \<times> Engine) option" where
  "evalBoardRoutes upper e =
     do { (byBoard, e) \<leftarrow> evalBoardRouteProblems upper e;
          (problems, e) \<leftarrow> foldM (\<lambda>board (problems, e). do {
              e \<leftarrow> BoardOpen board e;
              Some (takeUntil 8 (map (\<lambda>p. (board, p)) (byBoard (bName (Board e)))) problems, e) })
            [1..BoardCount (World e)] ([], e);
          Some (\<lparr>ecName = ''board-routes'', ecPassed = (problems = [])\<rparr>, e) }"

definition EvalZWDLayoutRoutes :: "(int \<Rightarrow> int) \<Rightarrow> string \<Rightarrow> EvalCheck option" where
  "EvalZWDLayoutRoutes upper src =
     do { r \<leftarrow> CompileZWDWorld src;
          case r of
            Inl _ \<Rightarrow> Some \<lparr>ecName = ''board-routes'', ecPassed = False\<rparr>
          | Inr world \<Rightarrow> map_option fst (evalBoardRoutes upper (NewEngine\<lparr>Headless := True, World := world\<rparr>)) }"

section \<open>Programs and stats\<close>

definition evalOOPProblems ::
  "(string \<Rightarrow> string) \<Rightarrow> Engine \<Rightarrow> ((string \<Rightarrow> (int \<times> int \<times> int \<times> string) list) \<times> Engine) option" where
  "evalOOPProblems unicode e =
     foldM (\<lambda>board (problems, e). do {
         e \<leftarrow> BoardOpen board e;
         foldM (\<lambda>i (problems, e). do {
             s \<leftarrow> statAt i e;
             (a, e) \<leftarrow> OopAnalyze unicode i e;
             Some (addProblems (bName (Board e)) (map (\<lambda>(line, w). (sX s, sY s, line + 1, w)) (oaWarnings a)) problems, e) })
           [1..StatCount (Board e)] (problems, e) })
       [0..BoardCount (World e)] (\<lambda>_. [], e)"

text \<open>The sweeps whose outer loop stops at the limit as well.\<close>

definition listProblems :: "nat \<Rightarrow> (string \<Rightarrow> 'p list) \<Rightarrow> Engine \<Rightarrow> ((int \<times> 'p) list \<times> Engine) option" where
  "listProblems cap byBoard e =
     foldM (\<lambda>board (problems, e).
         if length problems \<ge> cap then Some (problems, e)
         else do { e \<leftarrow> BoardOpen board e;
                   Some (takeUntil cap (map (\<lambda>p. (board, p)) (byBoard (bName (Board e)))) problems, e) })
       [0..BoardCount (World e)] ([], e)"

definition EvalZWDOOP :: "(string \<Rightarrow> string) \<Rightarrow> string \<Rightarrow> EvalCheck option" where
  "EvalZWDOOP unicode src =
     do { r \<leftarrow> CompileZWDWorld src;
          case r of
            Inl _ \<Rightarrow> Some \<lparr>ecName = ''oop-analysis'', ecPassed = False\<rparr>
          | Inr world \<Rightarrow> do {
              (byBoard, e) \<leftarrow> evalOOPProblems unicode (NewEngine\<lparr>Headless := True, World := world\<rparr>);
              (problems, e) \<leftarrow> listProblems 8 byBoard e;
              Some \<lparr>ecName = ''oop-analysis'', ecPassed = (problems = [])\<rparr> } }"

definition evalOrphanStatProblems :: "Engine \<Rightarrow> ((string \<Rightarrow> (int \<times> int) list) \<times> Engine) option" where
  "evalOrphanStatProblems e =
     foldM (\<lambda>board (problems, e). do {
         e \<leftarrow> BoardOpen board e;
         found \<leftarrow> foldM (\<lambda>y. foldM (\<lambda>x found. do {
             tile \<leftarrow> tileAt x y e;
             if \<not> elementNeedsStat (Element tile) then Some found
             else do { i \<leftarrow> GetStatIdAt x y e; Some (if i \<noteq> -1 then found else found @ [(x, y)]) } })
           [1..BOARD_WIDTH]) [1..BOARD_HEIGHT] [];
         Some (addProblems (bName (Board e)) found problems, e) })
       [0..BoardCount (World e)] (\<lambda>_. [], e)"

definition evalNoOrphanStatTiles :: "Engine \<Rightarrow> (EvalCheck \<times> Engine) option" where
  "evalNoOrphanStatTiles e =
     do { (byBoard, e) \<leftarrow> evalOrphanStatProblems e;
          (found, e) \<leftarrow> listProblems 5 byBoard e;
          Some (\<lparr>ecName = ''no-orphan-stat-tiles'', ecPassed = (found = [])\<rparr>, e) }"

definition evalTitleProblems :: "(int \<Rightarrow> int) \<Rightarrow> Engine \<Rightarrow> string \<Rightarrow> EvalCheck list option" where
  "evalTitleProblems upper e displayName =
     do { mark \<leftarrow> evalTitleWordmark upper e displayName;
          creatures \<leftarrow> evalTitleNoCreaturesOrItems e;
          Some (filter (\<lambda>c. \<not> ecPassed c) [mark, creatures]) }"

section \<open>The whole gate\<close>

definition EvalGeneratedZWD ::
  "(string \<Rightarrow> bool) \<Rightarrow> (int \<Rightarrow> int) \<Rightarrow> string \<Rightarrow> string \<Rightarrow> EvalReport option" where
  "EvalGeneratedZWD created upper src displayName =
     (let check = (\<lambda>name p. \<lparr>ecName = name, ecPassed = p\<rparr>) in
      do { r \<leftarrow> CompileZWD src;
           case r of
             Inl _ \<Rightarrow> Some \<lparr>erWorldName = [], erChecks = [check ''compiles'' False]\<rparr>
           | Inr bytes \<Rightarrow> do {
               let cs = [check ''compiles'' True];
               v \<leftarrow> validateGeneratedZWD created bytes;
               if v \<noteq> GatePassed then Some \<lparr>erWorldName = [], erChecks = cs @ [check ''headless-validates'' False]\<rparr>
               else do {
                 let cs = cs @ [check ''headless-validates'' True];
                 (err, e) \<leftarrow> loadForGate bytes;
                 if err \<noteq> ReadOk then Some \<lparr>erWorldName = [], erChecks = cs @ [check ''reloads'' False]\<rparr>
                 else do {
                   let name = wName (wInfo (World e));
                   let displayName = (if displayName = [] then name else displayName);
                   e \<leftarrow> BoardOpen 0 e;
                   mark \<leftarrow> evalTitleWordmark upper e displayName;
                   creatures \<leftarrow> evalTitleNoCreaturesOrItems e;
                   player \<leftarrow> evalTitleOnePlayerStart e;
                   (finale, e) \<leftarrow> evalReachableEndgame upper e;
                   (orphans, e) \<leftarrow> evalNoOrphanStatTiles e;
                   Some \<lparr>erWorldName = name, erChecks = cs @ [mark, creatures, player, finale, orphans]\<rparr> } } } })"

end
