(* ===== verification/Drawable.thy ===== *)
theory Drawable
  imports Drawn Lookup
begin

text \<open>
  When drawing a square panics. A board is drawable when its stats are in their array and stand
  on the tile array, and its transporters have a positive cycle and a unit step: then no square
  of it makes \<open>BoardDrawTile\<close> panic. A transporter whose cycle is 0 does.
\<close>

section \<open>The searches a draw makes\<close>

lemma foldM_returns:
  assumes "\<And>x s. x \<in> set xs \<Longrightarrow> I s \<Longrightarrow> returns I (f x s)" and "I s"
  shows "returns I (foldM f xs s)"
  using assms
proof (induction xs arbitrary: s)
  case (Cons x xs)
  have "returns I (f x s)" using Cons.prems by simp
  then obtain t where "f x s = Some t" "I t" by (auto simp: returns_def)
  then show ?case using Cons.IH [of t] Cons.prems(1) by simp
qed simp

text \<open>Stats that stand on the tile array.\<close>

definition standing :: "Engine \<Rightarrow> bool" where
  "standing e \<longleftrightarrow> 0 \<le> StatCount (Board e) \<and> StatCount (Board e) \<le> MAX_STAT \<and>
     (\<forall>i. 0 \<le> i \<longrightarrow> i \<le> StatCount (Board e) \<longrightarrow> inTiles (sX (Stats (Board e) i)) (sY (Stats (Board e) i)))"

lemma standing_stat: "standing e \<Longrightarrow> 0 \<le> i \<Longrightarrow> i \<le> StatCount (Board e) \<Longrightarrow> statAt i e = Some (Stats (Board e) i)"
  by (simp add: statAt_def inStats_def standing_def)

lemma NearestPlayer_returns:
  assumes "standing e"
  shows "returns (\<lambda>i. 0 \<le> i \<and> i \<le> StatCount (Board e)) (NearestPlayer x y e)"
proof -
  let ?f = "\<lambda>i (bestId, bestDist).
       do { s \<leftarrow> statAt i e;
            p \<leftarrow> isPlayerStat s e;
            let dist = Sqr (i16 (sX s - x)) + Sqr (i16 (sY s - y));
            Some (if p \<and> dist < bestDist then (i, dist) else (bestId, bestDist)) }"
  have "returns (\<lambda>(i, d). 0 \<le> i \<and> i \<le> StatCount (Board e)) (foldM ?f [0..StatCount (Board e)] (0, 999999))"
    by (rule foldM_returns)
       (use assms in \<open>auto simp: standing_stat isPlayerStat_def elementAt_def tileAt_def standing_def Let_def\<close>)
  then show ?thesis by (auto simp: NearestPlayer_def returns_def)
qed

lemma GetStatIdAt_returns:
  assumes "standing e"
  shows "returns (\<lambda>i. i \<le> StatCount (Board e) \<and> (0 \<le> i \<longrightarrow> statOn x y e i)) (GetStatIdAt x y e)"
proof -
  have "GetStatIdAt x y e = Some (case find (statOn x y e) [0..StatCount (Board e)] of Some i \<Rightarrow> i | None \<Rightarrow> -1)"
    by (rule GetStatIdAt_first) (use assms in \<open>simp_all add: standing_def\<close>)
  then show ?thesis
    using assms by (auto simp: standing_def find_Some_iff nth_upto split: option.split)
qed

section \<open>The draw procedures\<close>

text \<open>A transporter that can be drawn, whatever the tick.\<close>

definition soundTransporters :: "Engine \<Rightarrow> bool" where
  "soundTransporters e \<longleftrightarrow> 0 \<le> CurrentTick e \<and> CurrentTick e < 32768 \<and>
     (\<forall>i. 0 \<le> i \<longrightarrow> i \<le> StatCount (Board e) \<longrightarrow>
        (let s = Stats (Board e) i in
           Element (Tiles (Board e) (sX s) (sY s)) = E_TRANSPORTER \<longrightarrow>
           0 < sCycle s \<and> \<bar>StepX s\<bar> \<le> 1 \<and> \<bar>StepY s\<bar> \<le> 1))"

lemma transporter_index:
  assumes "\<bar>step\<bar> \<le> 1" and "0 \<le> phase" and "phase \<le> 3" and "length xs = 8"
  shows "\<exists>ch. index xs (i16 (i16 (i16 (i16 (step * 2) + 3) + phase) - 1)) = Some ch"
proof -
  have "i16 (i16 (i16 (i16 (step * 2) + 3) + phase) - 1) = step * 2 + 2 + phase"
    using assms(1-3) by (simp add: i16_def)
  moreover have "0 \<le> step * 2 + 2 + phase" "step * 2 + 2 + phase < 8" using assms(1-3) by linarith+
  ultimately show ?thesis using assms(4) by (simp add: index_def)
qed

lemma TransporterDraw_returns:
  assumes "standing e" and "soundTransporters e" and "Element (Tiles (Board e) x y) = E_TRANSPORTER"
  shows "\<exists>r. ElementTransporterDraw x y e = Some r"
proof -
  obtain i where i: "GetStatIdAt x y e = Some i" "i \<le> StatCount (Board e)" "0 \<le> i \<Longrightarrow> statOn x y e i"
    using GetStatIdAt_returns [OF assms(1), of x y] by (auto simp: returns_def)
  show ?thesis
  proof (cases "i < 0")
    case True
    then show ?thesis using i by (simp add: ElementTransporterDraw_def)
  next
    case False
    let ?s = "Stats (Board e) i" and ?phase = "rmd (i16 (quot (CurrentTick e) (sCycle (Stats (Board e) i)))) 4"
    have "sX ?s = x" "sY ?s = y" using i(3) False by (auto simp: statOn_def)
    then have s: "0 < sCycle ?s" "\<bar>StepX ?s\<bar> \<le> 1" "\<bar>StepY ?s\<bar> \<le> 1"
      using assms(2,3) i(2) False by (auto simp: soundTransporters_def Let_def)
    have tick: "0 \<le> CurrentTick e" "CurrentTick e < 32768" using assms(2) by (simp_all add: soundTransporters_def)
    have "CurrentTick e div sCycle ?s \<le> CurrentTick e" using tick(1) s(1) by (cases "CurrentTick e = 0") (simp_all add: int_div_le_self)
    moreover have "0 \<le> CurrentTick e div sCycle ?s" using tick(1) s(1) by (simp add: pos_imp_zdiv_nonneg_iff)
    ultimately have "i16 (quot (CurrentTick e) (sCycle ?s)) \<ge> 0"
      using tick s(1) by (simp add: quot_pos i16_def)
    then have "0 \<le> ?phase" "?phase \<le> 3" by (simp_all add: rmd_pos)
    then show ?thesis
      using i(1,2) False s assms(1) transporter_index [of "StepX ?s" ?phase TransporterEWChars]
        transporter_index [of "StepY ?s" ?phase TransporterNSChars]
      by (auto simp: ElementTransporterDraw_def standing_stat Let_def check_def TransporterEWChars_def TransporterNSChars_def)
  qed
qed

lemma foldM_upto3: "foldM f [0..3] s = do { s \<leftarrow> f 0 s; s \<leftarrow> f 1 s; s \<leftarrow> f 2 s; f 3 s }"
proof -
  have "foldM f [] = Some" and cons: "\<And>x xs. foldM f (x # xs) = (\<lambda>s. f x s \<bind> foldM f xs)"
    by (rule ext, simp)+
  moreover have "[0..3] = [0, 1, 2, 3 :: int]" by simp
  ultimately show ?thesis by (simp only: cons Option.bind_runit)
qed

lemma LineDraw_returns:
  assumes "onBoard x y"
  shows "\<exists>r. ElementLineDraw x y e = Some r"
proof -
  have small: "i16 n = n" if "-100 \<le> n" "n \<le> 100" for n using that by (simp add: i16_def)
  have on: "inTiles x (y - 1)" "inTiles x (y + 1)" "inTiles (x - 1) y" "inTiles (x + 1) y"
    using assms by (auto simp: onBoard_def inTiles_def)
  let ?w = "\<lambda>dx dy k. if Element (Tiles (Board e) (x + dx) (y + dy)) = E_LINE \<or>
      Element (Tiles (Board e) (x + dx) (y + dy)) = E_BOARD_EDGE then k else (0 :: int)"
  let ?v = "1 + ?w 0 (-1) 1 + ?w 0 1 2 + ?w (-1) 0 4 + ?w 1 0 8"
  have "foldM (\<lambda>i (v, shift).
            do { dx \<leftarrow> index NeighborDeltaX i; dy \<leftarrow> index NeighborDeltaY i;
                 el \<leftarrow> elementAt (i16 (x + dx)) (i16 (y + dy)) e;
                 Some (if el = E_LINE \<or> el = E_BOARD_EDGE then v + shift else v, shift * 2) })
            [0..3] (1, 1) = Some (?v, 16)"
    using assms on
    by (simp add: foldM_upto3 index_def NeighborDeltaX_def NeighborDeltaY_def elementAt_def tileAt_def onBoard_def small
        numeral_3_eq_3 numeral_2_eq_2)
  moreover have "\<exists>ch. index LineChars (?v - 1) = Some ch"
    by (simp add: index_def LineChars_def)
  ultimately show ?thesis by (auto simp: ElementLineDraw_def)
qed

lemma stat_draw_returns:
  assumes "standing e"
  shows "\<exists>r. ElementBombDraw x y e = Some r" "\<exists>r. ElementDuplicatorDraw x y e = Some r"
    "\<exists>r. ElementObjectDraw x y e = Some r" "\<exists>r. ElementPusherDraw x y e = Some r"
proof -
  obtain i where i: "GetStatIdAt x y e = Some i" "i \<le> StatCount (Board e)"
    using GetStatIdAt_returns [OF assms(1), of x y] by (auto simp: returns_def)
  then show "\<exists>r. ElementBombDraw x y e = Some r" "\<exists>r. ElementDuplicatorDraw x y e = Some r"
    "\<exists>r. ElementObjectDraw x y e = Some r" "\<exists>r. ElementPusherDraw x y e = Some r"
    using assms
    by (cases "i < 0"; simp add: ElementBombDraw_def ElementDuplicatorDraw_def ElementObjectDraw_def ElementPusherDraw_def
        standing_stat)+
qed

lemma element_draws:
  "elemDef el = Some d \<Longrightarrow> HasDrawProc d \<longrightarrow> DrawProc d = TransporterDraw \<longrightarrow> el = E_TRANSPORTER"
  by (rule elemDef_all [where P = "\<lambda>el d. HasDrawProc d \<longrightarrow> DrawProc d = TransporterDraw \<longrightarrow> el = E_TRANSPORTER"])
    (assumption, code_simp)

lemma ElementDraw_returns:
  assumes "onBoard x y" and "standing e" and "soundTransporters e" and "elemDef (Element (Tiles (Board e) x y)) = Some d"
    and "HasDrawProc d"
  shows "\<exists>ch e'. ElementDraw (DrawProc d) x y e = Some (ch, e')"
proof (cases "DrawProc d = TransporterDraw")
  case True
  then show ?thesis
    using TransporterDraw_returns [OF assms(2,3)] element_draws [OF assms(4)] assms(5) by (simp add: ElementDraw_def)
next
  case False
  have "inTiles x y" using assms(1) by (simp add: onBoard_def inTiles_def)
  moreover have "\<exists>ch. index StarAnimChars (rmd (CurrentTick e) 4) = Some ch"
    using assms(3) by (simp add: soundTransporters_def rmd_pos index_def StarAnimChars_def)
  ultimately have "\<exists>r. ElementStarDraw x y e = Some r"
    by (auto simp: ElementStarDraw_def colorAt_def setColor_def setTile_def tileAt_def Let_def)
  then show ?thesis
    using False stat_draw_returns [OF assms(2), of x y] LineDraw_returns [OF assms(1), of e]
    by (cases "DrawProc d") (auto simp: ElementDraw_def ElementSpinningGunDraw_def ElementConveyorCWDraw_def
        ElementConveyorCCWDraw_def ElementBlinkWallDraw_def Let_def)
qed

lemma squareLit_returns:
  assumes "elemDef el = Some d"
  shows "\<exists>lit e'. squareLit x y i s el e = Some (lit, e') \<and> Board e' = Board e \<and> CurrentTick e' = CurrentTick e"
  using assms by (auto simp: squareLit_def PlayerFor_def split: option.split)

lemma drawing_total:
  assumes "onBoard x y" and "standing e" and "soundTransporters e"
    and "0 \<le> Element (Tiles (Board e) x y)" and "Element (Tiles (Board e) x y) \<le> MAX_ELEMENT"
  shows "\<exists>e'. BoardDrawTile x y e = Some e'"
proof -
  let ?tile = "Tiles (Board e) x y"
  have tile: "inTiles x y" using assms(1) by (simp add: onBoard_def inTiles_def)
  obtain d where d: "elemDef (Element ?tile) = Some d" using assms(4,5) elemDef_Some_iff by blast
  obtain i where i: "NearestPlayer x y e = Some i" "0 \<le> i" "i \<le> StatCount (Board e)"
    using NearestPlayer_returns [OF assms(2), of x y] by (auto simp: returns_def)
  let ?s = "Stats (Board e) i"
  obtain lit e2 where lit: "squareLit x y i ?s (Element ?tile) e = Some (lit, e2)" "Board e2 = Board e" "CurrentTick e2 = CurrentTick e"
    using squareLit_returns [OF d] by blast
  have "\<exists>color ch e'. TileToColorAndChar x y e = Some ((color, ch), e')"
  proof (cases "lit \<and> Element ?tile \<noteq> E_EMPTY \<and> HasDrawProc d")
    case True
    have "standing e2" "soundTransporters e2" using assms(2,3) lit by (simp_all add: standing_def soundTransporters_def)
    then obtain ch e3 where draw: "ElementDraw (DrawProc d) x y e2 = Some (ch, e3)"
      using ElementDraw_returns [OF assms(1), of e2 d] True d lit(2) by auto
    then show ?thesis
      using True d i lit(1) assms(2) tile
      by (simp add: TileToColorAndChar_def tileAt_def standing_stat colorAt_def)
  next
    case False
    then show ?thesis
      using d i lit(1) assms(2) tile
      by (auto simp: TileToColorAndChar_def tileAt_def standing_stat ElementCharacter_def split: prod.split)
  qed
  then show ?thesis by (auto simp: BoardDrawTile_def)
qed

text \<open>
  Drawing a square of the board never panics when the board's stats are in their array and
  stand on the tile array, its transporters have a positive cycle and unit steps, and the
  square holds one of the 54 elements: whatever the element, whoever is near, dark or lit.
\<close>

theorem BoardDrawTile_total:
  assumes "onBoard x y" and "standing e" and "soundTransporters e"
    and "0 \<le> Element (Tiles (Board e) x y)" and "Element (Tiles (Board e) x y) \<le> MAX_ELEMENT"
  shows "\<exists>e'. BoardDrawTile x y e = Some e'"
  using assms by (rule drawing_total)

text \<open>Small boards for the examples: one square, and one stat, of a fresh engine changed.\<close>

definition withSquare :: "int \<Rightarrow> int \<Rightarrow> int \<Rightarrow> TStat \<Rightarrow> Engine" where
  "withSquare x y el s = putStat 0 s (putTile x y \<lparr>Element = el, Color = 15\<rparr> NewEngine)"

lemma withSquare_simps:
  "StatCount (Board (withSquare x y el s)) = 0" "Stats (Board (withSquare x y el s)) 0 = s"
  "Tiles (Board (withSquare x y el s)) x y = \<lparr>Element = el, Color = 15\<rparr>"
  "CurrentTick (withSquare x y el s) = 0" "IsDark (bInfo (Board (withSquare x y el s))) = False"
  by (simp_all add: withSquare_def putStat_def putTile_def NewEngine_def zeroBoard_def)

theorem BoardDrawTile_total_witness:
  "\<exists>e'. BoardDrawTile 3 4 (withSquare 3 4 E_TRANSPORTER (zeroStat\<lparr>sX := 3, sY := 4, sCycle := 2, StepX := 1\<rparr>)) = Some e'"
proof (rule BoardDrawTile_total)
  let ?e = "withSquare 3 4 E_TRANSPORTER (zeroStat\<lparr>sX := 3, sY := 4, sCycle := 2, StepX := 1\<rparr>)"
  have only: "0 \<le> i \<and> i \<le> 0 \<longleftrightarrow> i = 0" for i :: int by auto
  show "standing ?e" "soundTransporters ?e"
    by (auto simp: standing_def soundTransporters_def withSquare_simps inTiles_def zeroStat_def Let_def order_antisym_conv)
qed (simp_all add: withSquare_simps onBoard_def)

text \<open>
  A transporter whose cycle is 0, which no check on reading a world refuses, makes every draw of
  its lit square panic with a division by zero, and so the opening of a room for its board.
\<close>

theorem transporter_cycle_panics:
  assumes "standing e" and "\<not> IsDark (bInfo (Board e))" and "inTiles x y"
    and "Element (Tiles (Board e) x y) = E_TRANSPORTER" and "GetStatIdAt x y e = Some i" and "0 \<le> i"
    and "sCycle (Stats (Board e) i) = 0"
  shows "BoardDrawTile x y e = None"
proof -
  obtain j where j: "NearestPlayer x y e = Some j" "0 \<le> j" "j \<le> StatCount (Board e)"
    using NearestPlayer_returns [OF assms(1), of x y] by (auto simp: returns_def)
  have "i \<le> StatCount (Board e)"
    using GetStatIdAt_returns [OF assms(1), of x y] assms(5) by (auto simp: returns_def)
  then have "ElementTransporterDraw x y e = None"
    using assms by (simp add: ElementTransporterDraw_def standing_stat check_def)
  then show ?thesis
    using assms(1-4) j by (simp add: BoardDrawTile_def TileToColorAndChar_def tileAt_def standing_stat squareLit_def
        ElementDef_30_def ElementDef_default_def ElementDraw_def)
qed

theorem transporter_cycle_panics_witness:
  "BoardDrawTile 3 4 (withSquare 3 4 E_TRANSPORTER (zeroStat\<lparr>sX := 3, sY := 4\<rparr>)) = None"
proof (rule transporter_cycle_panics)
  let ?e = "withSquare 3 4 E_TRANSPORTER (zeroStat\<lparr>sX := 3, sY := 4\<rparr>)"
  show "standing ?e" by (auto simp: standing_def withSquare_simps inTiles_def order_antisym_conv)
  show "GetStatIdAt 3 4 ?e = Some 0"
    by (subst GetStatIdAt_first) (simp_all add: withSquare_simps statOn_def)
qed (simp_all add: withSquare_simps inTiles_def zeroStat_def)

end
