(* ===== verification/ZwdSafe.thy ===== *)
theory ZwdSafe
  imports ZwdCompile Drawable
begin

text \<open>
  The ZWD compiler is safe: whatever document the parser accepts, compiling it ends without a panic in an
  error or in a world, and every board of that world opens on any engine as the document laidOut it.
\<close>

section \<open>Outcomes\<close>

text \<open>The step does not panic, and when it does not refuse its value satisfies \<open>P\<close>.\<close>

definition settles :: "('a \<Rightarrow> bool) \<Rightarrow> ('e + 'a) option \<Rightarrow> bool" where
  "settles P r \<longleftrightarrow> (case r of None \<Rightarrow> False | Some (Inl err) \<Rightarrow> True | Some (Inr x) \<Rightarrow> P x)"

lemma settles_simps [simp]:
  "settles P (Some (Inl err))" "settles P (Some (Inr x)) \<longleftrightarrow> P x" "\<not> settles P None"
  by (simp_all add: settles_def)

lemma settles_tryO: "settles P r \<Longrightarrow> (\<And>x. P x \<Longrightarrow> settles Q (f x)) \<Longrightarrow> settles Q (tryO r f)"
proof (cases r)
  case (Some a)
  show "settles P r \<Longrightarrow> (\<And>x. P x \<Longrightarrow> settles Q (f x)) \<Longrightarrow> settles Q (tryO r f)"
    by (cases a) (simp_all add: tryO_def Some)
qed simp

lemma settles_bind: "returns P r \<Longrightarrow> (\<And>x. P x \<Longrightarrow> settles Q (f x)) \<Longrightarrow> settles Q (r \<bind> f)"
  by (auto simp: returns_def)

lemma settles_mono: "settles P r \<Longrightarrow> (\<And>x. P x \<Longrightarrow> Q x) \<Longrightarrow> settles Q r"
  by (auto simp: settles_def split: option.splits sum.splits)

text \<open>An invariant of a loop that knows what is done.\<close>

lemma settles_foldE:
  assumes "P [] s" and "\<And>us x vs s. xs = us @ x # vs \<Longrightarrow> P us s \<Longrightarrow> settles (P (us @ [x])) (f x s)"
  shows "settles (P xs) (foldE f xs s)"
proof -
  have "xs = us @ vs \<Longrightarrow> P us s \<Longrightarrow> settles (P xs) (foldE f vs s)" for us vs s
  proof (induction vs arbitrary: us s)
    case (Cons v vs)
    show ?case
      unfolding foldE.simps
    proof (rule settles_tryO)
      show "settles (P (us @ [v])) (f v s)" using assms(2) Cons.prems by blast
      show "settles (P xs) (foldE f vs t)" if "P (us @ [v]) t" for t
        using Cons.IH [of "us @ [v]"] Cons.prems(1) that by simp
    qed
  qed simp
  from this [of "[]" xs s] assms(1) show ?thesis by simp
qed

section \<open>A fresh board\<close>

text \<open>The two engines differ in the tiles of their board at most.\<close>

definition tilesOnly :: "Engine \<Rightarrow> Engine \<Rightarrow> bool" where
  "tilesOnly e e' \<longleftrightarrow> (\<exists>T. e' = e\<lparr>Board := (Board e)\<lparr>Tiles := T\<rparr>\<rparr>)"

lemma tilesOnly_refl: "tilesOnly e e"
  unfolding tilesOnly_def by (intro exI [of _ "Tiles (Board e)"]) simp

lemma setTile_tilesOnly: "inTiles x y \<Longrightarrow> tilesOnly e0 e \<Longrightarrow> returns (tilesOnly e0) (setTile x y t e)"
  by (auto simp: setTile_def putTile_def tilesOnly_def)

lemma fill_tilesOnly:
  assumes "\<And>x. x \<in> set xs \<Longrightarrow> inTiles (fst (p x)) (snd (p x))" and "tilesOnly e0 e"
  shows "returns (tilesOnly e0) (foldM (\<lambda>x. setTile (fst (p x)) (snd (p x)) t) xs e)"
  using assms by (intro foldM_returns) (auto intro: setTile_tilesOnly)

definition blankInfo :: "TBoardInfo \<Rightarrow> TBoardInfo" where
  "blankInfo i = i\<lparr>bMessage := [], MaxShots := 255, IsDark := False, ReenterWhenZapped := False, TimeLimitSec := 0,
     NeighborBoards := (\<lambda>n. if 0 \<le> n \<and> n \<le> 3 then 0 else NeighborBoards i n)\<rparr>"

definition blankStat :: "TStat \<Rightarrow> TStat" where
  "blankStat s = s\<lparr>sX := 30, sY := 12, sCycle := 1, Under := \<lparr>Element = E_EMPTY, Color = 0\<rparr>, Data := [], DataLen := 0\<rparr>"

definition blankBoard :: "(int \<Rightarrow> int \<Rightarrow> TTile) \<Rightarrow> TBoard \<Rightarrow> TBoard" where
  "blankBoard T b =
     \<lparr>bName = [], Tiles = T, StatCount = 0, Stats = (Stats b)(0 := blankStat (Stats b 0)), bInfo = blankInfo (bInfo b)\<rparr>"

lemma BoardCreate_blank: "\<exists>T. BoardCreate e = Some (e\<lparr>Board := blankBoard T (Board e)\<rparr>)"
proof -
  let ?e = "modInfo blankInfo (e\<lparr>Board := (Board e)\<lparr>bName := []\<rparr>\<rparr>)"
  have 1: "returns (tilesOnly ?e) (setEdges ?e)"
    unfolding setEdges_eq by (auto simp: paint_def tilesOnly_def)
  have 2: "returns (tilesOnly ?e) (foldM (\<lambda>ix. foldM (\<lambda>iy. setTile ix iy t) [1..25]) [1..60] f)"
    if "tilesOnly ?e f" for f t
    using that by (intro foldM_returns setTile_tilesOnly) (auto simp: inTiles_def simp del: upto_1_numeral)
  have 3: "returns (tilesOnly ?e) (foldM (\<lambda>ix e. do { e \<leftarrow> setTile ix 1 t e; setTile ix 25 t e }) [1..60] f)"
    if "tilesOnly ?e f" for f t
    using that by (intro foldM_returns returns_bind)
      (auto simp: inTiles_def simp del: upto_1_numeral intro!: returns_mono [OF setTile_tilesOnly] setTile_tilesOnly)
  have 4: "returns (tilesOnly ?e) (foldM (\<lambda>iy e. do { e \<leftarrow> setTile 1 iy t e; setTile 60 iy t e }) [1..25] f)"
    if "tilesOnly ?e f" for f t
    using that by (intro foldM_returns returns_bind)
      (auto simp: inTiles_def simp del: upto_1_numeral intro!: returns_mono [OF setTile_tilesOnly] setTile_tilesOnly)
  have 5: "returns (tilesOnly ?e) (setTile 30 12 t f)" if "tilesOnly ?e f" for f t
    using that by (intro setTile_tilesOnly) (simp_all add: inTiles_def)
  obtain e1 where e1: "setEdges ?e = Some e1" "tilesOnly ?e e1" using 1 by (auto simp: returns_def)
  obtain e2 where e2: "foldM (\<lambda>ix. foldM (\<lambda>iy. setTile ix iy \<lparr>Element = E_EMPTY, Color = 0\<rparr>) [1..25]) [1..60] e1 = Some e2"
    "tilesOnly ?e e2" using 2 [OF e1(2)] unfolding returns_def by blast
  obtain e3 where e3: "foldM (\<lambda>ix e. do { e \<leftarrow> setTile ix 1 TileBorder e; setTile ix 25 TileBorder e }) [1..60] e2 = Some e3"
    "tilesOnly ?e e3" using 3 [OF e2(2)] unfolding returns_def by blast
  obtain e4 where e4: "foldM (\<lambda>iy e. do { e \<leftarrow> setTile 1 iy TileBorder e; setTile 60 iy TileBorder e }) [1..25] e3 = Some e4"
    "tilesOnly ?e e4" using 4 [OF e3(2)] unfolding returns_def by blast
  obtain e5 where e5: "setTile 30 12 \<lparr>Element = E_PLAYER, Color = 31\<rparr> e4 = Some e5" "tilesOnly ?e e5"
    using 5 [OF e4(2)] unfolding returns_def by blast
  have "BoardCreate e = modStat 0 (\<lambda>s. s\<lparr>sX := 30, sY := 12, sCycle := 1, Under := \<lparr>Element = E_EMPTY, Color = 0\<rparr>,
            Data := [], DataLen := 0\<rparr>) (setStatCount 0 e5)"
    using e1(1) e2(1) e3(1) e4(1) e5(1)
    by (simp add: BoardCreate_def blankInfo_def [abs_def] ElementDef_4_def ElementDef_default_def
        del: upto_1_numeral upto_0_numeral cong: if_cong)
  moreover obtain T where "e5 = ?e\<lparr>Board := (Board ?e)\<lparr>Tiles := T\<rparr>\<rparr>" using e5(2) by (auto simp: tilesOnly_def)
  ultimately show ?thesis
    by (intro exI [of _ T])
      (simp add: modStat_def statAt_def inStats_def putStat_def setStatCount_def modInfo_def blankBoard_def blankStat_def)
qed

section \<open>What a board of a document becomes\<close>

definition exitOf :: "(string \<Rightarrow> int option) \<Rightarrow> zwdBoard \<Rightarrow> int \<Rightarrow> int" where
  "exitOf ids src i =
     (if zbExits src i = [] then 0 else case ids (zbExits src i) of None \<Rightarrow> 0 | Some n \<Rightarrow> n)"

definition squareOk :: "zwdBoard \<Rightarrow> nat \<times> zwdGridLine \<times> nat \<Rightarrow> TBoard \<Rightarrow> bool" where
  "squareOk src q b \<longleftrightarrow>
     (case q of (y, row, x) \<Rightarrow> \<exists>entry. zbLegend src (glText row ! x) = Some entry \<and>
        Tiles b (int x + 1) (int y + 1) = \<lparr>Element = leElement entry, Color = leColor entry\<rparr>)"

definition statFits :: "(string \<Rightarrow> int option) \<Rightarrow> zwdStat \<Rightarrow> TStat \<Rightarrow> bool" where
  "statFits ids z s \<longleftrightarrow>
     sX s = zsX z \<and> sY s = zsY z \<and> StepX s = zsStepX z \<and> StepY s = zsStepY z \<and> sCycle s = zsCycle z \<and>
     P1 s = zsP1 z \<and> P2 s = zsP2 z \<and>
     P3 s = (if zsP3Board z = [] then zsP3 z else case ids (zsP3Board z) of None \<Rightarrow> 0 | Some n \<Rightarrow> n) \<and>
     Follower s = zsFollower z \<and> Leader s = zsLeader z \<and> Under s = zsUnder z \<and> DataPos s = zsDataPos z"

definition goodSlot :: "TStat \<Rightarrow> bool" where
  "goodSlot s \<longleftrightarrow> programText s \<and> validStat s \<and> -151 \<le> DataLen s"

text \<open>The header of the board being built, with the buffers and the rest of the world it must not touch.\<close>

definition headOf :: "(int \<Rightarrow> int list) \<Rightarrow> int \<Rightarrow> int \<Rightarrow> zwdBoard \<Rightarrow> Engine \<Rightarrow> bool" where
  "headOf data n bid src e \<longleftrightarrow>
     length (IoTmpBuf e) = 20000 \<and> BoardData (World e) = data \<and> BoardCount (World e) = n \<and>
     CurrentBoard (wInfo (World e)) = bid \<and> bName (Board e) = zbName src \<and>
     bMessage (bInfo (Board e)) = zbMessage src \<and> TimeLimitSec (bInfo (Board e)) = zbTimeLimit src \<and>
     MaxShots (bInfo (Board e)) = zbMaxShots src \<and> IsDark (bInfo (Board e)) = zbDark src \<and>
     ReenterWhenZapped (bInfo (Board e)) = zbReenter src"

definition exitsDone :: "(string \<Rightarrow> int option) \<Rightarrow> zwdBoard \<Rightarrow> int set \<Rightarrow> Engine \<Rightarrow> bool" where
  "exitsDone ids src I e \<longleftrightarrow> (\<forall>i\<in>I. NeighborBoards (bInfo (Board e)) i = exitOf ids src i)"

definition idsOk :: "(string \<Rightarrow> int option) \<Rightarrow> bool" where
  "idsOk ids \<longleftrightarrow> (\<forall>s n. ids s = Some n \<longrightarrow> 0 \<le> n \<and> n \<le> MAX_BOARD)"

lemma compileExit_settles:
  assumes "idsOk ids" and "headOf data n bid src e" and "exitsDone ids src I e"
  shows "settles (\<lambda>e. headOf data n bid src e \<and> exitsDone ids src (insert i I) e) (compileExit src ids i e)"
proof (cases "zbExits src i = []")
  case True
  with assms show ?thesis by (auto simp: compileExit_def Let_def headOf_def exitsDone_def exitOf_def modInfo_def)
next
  case False
  have u: "ids s = Some m \<Longrightarrow> u8 m = m" for s m using assms(1) by (force simp: idsOk_def)
  show ?thesis
  proof (cases "ids (zbExits src i)")
    case None
    with False show ?thesis by (simp add: compileExit_def)
  next
    case (Some m)
    with False assms(2,3) show ?thesis
      by (auto simp: compileExit_def Let_def headOf_def exitsDone_def exitOf_def modInfo_def u [OF Some])
  qed
qed

lemma exits_settle:
  assumes "idsOk ids" and "headOf data n bid src e"
  shows "settles (\<lambda>e. headOf data n bid src e \<and> exitsDone ids src {0..3} e) (foldE (compileExit src ids) [0..3] e)"
proof (rule settles_mono [OF settles_foldE [where P = "\<lambda>us e. headOf data n bid src e \<and> exitsDone ids src (set us) e"]])
  show "headOf data n bid src e \<and> exitsDone ids src (set []) e" using assms(2) by (simp add: exitsDone_def)
  show "settles (\<lambda>e. headOf data n bid src e \<and> exitsDone ids src (set (us @ [x])) e) (compileExit src ids x s)"
    if "headOf data n bid src s \<and> exitsDone ids src (set us) s" for us x vs s
    using compileExit_settles [OF assms(1), of data n bid src s "set us" x] that by simp
qed (simp del: upto_0_numeral)

lemma gridSquares_iff:
  "(y, row, x) \<in> set (gridSquares src) \<longleftrightarrow> y < length (zbGrid src) \<and> row = zbGrid src ! y \<and> x < 60"
  by (auto simp: gridSquares_def in_set_enumerate_eq image_iff intro!: bexI [of _ "(y, zbGrid src ! y)"])

lemma grid_index:
  assumes "goodBoard src" and "(y, row, x) \<in> set (gridSquares src)"
  shows "index (glText row) (int x) = Some (glText row ! x)"
  using assms by (auto simp: gridSquares_iff goodBoard_def index_def)

lemma scan_returns:
  assumes "goodBoard src"
  shows "returns (\<lambda>_. True) (scanUndefinedGridKeys src)"
  unfolding scanUndefinedGridKeys_def
  by (rule foldM_returns) (auto simp: grid_index [OF assms] Let_def)

lemma orphans_returns:
  assumes "goodBoard src"
  shows "returns (\<lambda>_. True) (orphans src)"
  unfolding orphans_def
  by (rule foldM_returns) (auto simp: grid_index [OF assms] Let_def)

definition squaresDone :: "zwdBoard \<Rightarrow> (nat \<times> zwdGridLine \<times> nat) list \<Rightarrow> Engine \<Rightarrow> bool" where
  "squaresDone src qs e \<longleftrightarrow> (\<forall>q\<in>set qs. squareOk src q (Board e))"

definition playerThere :: "zwdBoard \<Rightarrow> Engine \<Rightarrow> bool" where
  "playerThere src e \<longleftrightarrow>
     sX (Stats (Board e) 0) = zbStartX src \<and> sY (Stats (Board e) 0) = zbStartY src \<and>
     DataLen (Stats (Board e) 0) = 0 \<and> goodSlot (Stats (Board e) 0)"

lemma headOf_putStat [simp]: "headOf data n bid src (putStat i s e) \<longleftrightarrow> headOf data n bid src e"
  by (simp add: headOf_def putStat_def)

lemma headOf_putTile [simp]: "headOf data n bid src (putTile x y t e) \<longleftrightarrow> headOf data n bid src e"
  by (simp add: headOf_def putTile_def)

lemma exitsDone_put [simp]:
  "exitsDone ids src I (putStat i s e) \<longleftrightarrow> exitsDone ids src I e"
  "exitsDone ids src I (putTile x y t e) \<longleftrightarrow> exitsDone ids src I e"
  by (simp_all add: exitsDone_def putStat_def putTile_def)

lemma placeSquare_settles:
  assumes "goodBoard src" and "gridSquares src = us @ (y, row, x) # vs"
    and "int (length (zbGrid src)) = BOARD_HEIGHT"
    and "headOf data n bid src e" and "exitsDone ids src I e" and "squaresDone src us e"
    and "0 \<le> c" and "0 < c \<longrightarrow> playerThere src e"
  shows "settles (\<lambda>(c, e). headOf data n bid src e \<and> exitsDone ids src I e \<and> squaresDone src (us @ [(y, row, x)]) e \<and>
      0 \<le> c \<and> (0 < c \<longrightarrow> playerThere src e)) (placeSquare src (y, row, x) (c, e))"
proof (cases "zbLegend src (glText row ! x)")
  case None
  have "(y, row, x) \<in> set (gridSquares src)" by (simp add: assms(2))
  with None show ?thesis by (simp add: placeSquare_def grid_index [OF assms(1)])
next
  case (Some entry)
  have q: "(y, row, x) \<in> set (gridSquares src)" by (simp add: assms(2))
  let ?t = "\<lparr>Element = leElement entry, Color = leColor entry\<rparr>"
  let ?e = "putTile (int x + 1) (int y + 1) ?t e"
  have set: "setTile (int x + 1) (int y + 1) ?t e = Some ?e"
    using q assms(3) by (simp add: setTile_def inTiles_def gridSquares_iff)
  have sq: "squaresDone src (us @ [(y, row, x)]) ?e"
    unfolding squaresDone_def
  proof (intro ballI)
    fix p assume p: "p \<in> set (us @ [(y, row, x)])"
    obtain y' row' x' where p': "p = (y', row', x')" by (cases p)
    have mem: "(y', row', x') \<in> set (gridSquares src)" using p p' assms(2) by auto
    show "squareOk src p (Board ?e)"
    proof (cases "y' = y \<and> x' = x")
      case True
      with mem q have "p = (y, row, x)" by (simp add: p' gridSquares_iff)
      with Some show ?thesis by (simp add: squareOk_def putTile_def)
    next
      case False
      with p have "p \<in> set us" by (auto simp: p')
      with assms(6) False show ?thesis by (auto simp: squaresDone_def squareOk_def p' putTile_def)
    qed
  qed
  show ?thesis
  proof (cases "leElement entry = E_PLAYER \<and> int x + 1 = zbStartX src \<and> int y + 1 = zbStartY src")
    case True
    have "squaresDone src (us @ [(y, row, x)]) (putStat 0 s ?e)" for s
      using sq by (simp add: squaresDone_def squareOk_def putStat_def)
    moreover have "playerThere src (putStat 0 (playerStat (int x + 1) (int y + 1) entry) ?e)"
      using True q assms(3)
      by (simp add: playerThere_def putStat_def playerStat_def zeroStat_def goodSlot_def programText_def validStat_def
          is_i16_def gridSquares_iff)
    moreover have "setTile (zbStartX src) (zbStartY src) \<lparr>Element = E_PLAYER, Color = leColor entry\<rparr> e = Some ?e"
      using set True by simp
    ultimately show ?thesis
      using assms(4,5,7) True by (simp add: placeSquare_def grid_index [OF assms(1) q] Some)
  next
    case False
    have "playerThere src ?e \<longleftrightarrow> playerThere src e" by (simp add: playerThere_def putTile_def)
    with False show ?thesis
      using assms(4,5,7,8) sq by (auto simp: placeSquare_def grid_index [OF assms(1) q] Some set)
  qed
qed

lemma grid_settles:
  assumes "goodBoard src" and "int (length (zbGrid src)) = BOARD_HEIGHT"
    and "headOf data n bid src e" and "exitsDone ids src I e"
  shows "settles (\<lambda>(c, e). headOf data n bid src e \<and> exitsDone ids src I e \<and> squaresDone src (gridSquares src) e \<and>
      0 \<le> c \<and> (0 < c \<longrightarrow> playerThere src e)) (foldE (placeSquare src) (gridSquares src) (0, e))"
proof (rule settles_foldE [where P = "\<lambda>us (c, e). headOf data n bid src e \<and> exitsDone ids src I e \<and>
      squaresDone src us e \<and> 0 \<le> c \<and> (0 < c \<longrightarrow> playerThere src e)"])
  show "settles (\<lambda>(c, e). headOf data n bid src e \<and> exitsDone ids src I e \<and> squaresDone src (us @ [q]) e \<and>
      0 \<le> c \<and> (0 < c \<longrightarrow> playerThere src e)) (placeSquare src q s)"
    if "gridSquares src = us @ q # vs" and "case s of (c, e) \<Rightarrow> headOf data n bid src e \<and> exitsDone ids src I e \<and>
      squaresDone src us e \<and> 0 \<le> c \<and> (0 < c \<longrightarrow> playerThere src e)" for us q vs s
  proof -
    obtain y row x c e where "q = (y, row, x)" "s = (c, e)" by (metis prod.exhaust)
    with that show ?thesis using placeSquare_settles [OF assms(1) _ assms(2)] by fastforce
  qed
qed (use assms in \<open>simp add: squaresDone_def\<close>)

section \<open>Stats\<close>

text \<open>The program of a stat line on its own: its block, wrapped; a line that names another stat has none.\<close>

definition ownProgram :: "zwdStat \<Rightarrow> string" where
  "ownProgram z =
     (if zsData z = [] then [] else case wrapZWDTextWindowLines (zsData z) of None \<Rightarrow> [] | Some d \<Rightarrow> d)"

definition rawProgram :: "zwdStat \<Rightarrow> nat \<Rightarrow> TStat \<Rightarrow> bool" where
  "rawProgram z i s \<longleftrightarrow>
     (if zsHasBind z then Data s = [] \<and> DataLen s = - zsBind z \<and> 1 \<le> zsBind z \<and> zsBind z \<le> int i
      else Data s = ownProgram z \<and> DataLen s = int (length (ownProgram z)))"

definition statsDone :: "(string \<Rightarrow> int option) \<Rightarrow> zwdStat list \<Rightarrow> Engine \<Rightarrow> bool" where
  "statsDone ids zs e \<longleftrightarrow>
     StatCount (Board e) = int (length zs) \<and> length zs \<le> 150 \<and>
     (\<forall>i<length zs. statFits ids (zs ! i) (Stats (Board e) (int i + 1)) \<and> goodSlot (Stats (Board e) (int i + 1)) \<and>
        rawProgram (zs ! i) i (Stats (Board e) (int i + 1)) \<and>
        Element (Tiles (Board e) (zsX (zs ! i)) (zsY (zs ! i))) = zsElement (zs ! i))"

text \<open>What the stats do not change.\<close>

definition built :: "(int \<Rightarrow> int list) \<Rightarrow> int \<Rightarrow> int \<Rightarrow> (string \<Rightarrow> int option) \<Rightarrow> zwdBoard \<Rightarrow> Engine \<Rightarrow> bool" where
  "built data n bid ids src e \<longleftrightarrow>
     headOf data n bid src e \<and> exitsDone ids src {0..3} e \<and> squaresDone src (gridSquares src) e \<and> playerThere src e"

lemma built_addStat:
  "k \<noteq> 0 \<Longrightarrow> built data n bid ids src (putStat k s (setStatCount m e)) \<longleftrightarrow> built data n bid ids src e"
  by (simp add: built_def headOf_def exitsDone_def squaresDone_def squareOk_def playerThere_def putStat_def setStatCount_def)

lemma built_setStatCount: "built data n bid ids src (setStatCount m e) \<longleftrightarrow> built data n bid ids src e"
  by (simp add: built_def headOf_def exitsDone_def squaresDone_def squareOk_def playerThere_def setStatCount_def)

lemma statsDone_add:
  assumes "statsDone ids zs e" and "length zs < 150" and "statFits ids z s" and "goodSlot s" and "rawProgram z (length zs) s"
    and "Element (Tiles (Board e) (zsX z) (zsY z)) = zsElement z"
  shows "statsDone ids (zs @ [z]) (putStat (int (length zs) + 1) s (setStatCount (int (length zs) + 1) e))"
  using assms by (auto simp: statsDone_def putStat_def setStatCount_def nth_append less_Suc_eq)

text \<open>The slot a stat line is turned into, before its reference to another program; the text is its own.\<close>

definition slotFor :: "(string \<Rightarrow> int option) \<Rightarrow> zwdStat \<Rightarrow> string \<Rightarrow> TStat \<Rightarrow> bool" where
  "slotFor ids z d s \<longleftrightarrow> statFits ids z s \<and> goodSlot s \<and> Data s = d \<and> DataLen s = int (length d)"

lemma statOfZwd_fits:
  assumes "goodStat z" and "zsP3Board z = []"
  shows "slotFor ids z [] (statOfZwd z)"
proof -
  have "u8 (zsX z) = zsX z" "u8 (zsY z) = zsY z" using assms(1) by (simp_all add: goodStat_def onBoard_def)
  then show ?thesis
    using assms by (simp add: slotFor_def statFits_def goodSlot_def statOfZwd_def zeroStat_def programText_def validStat_def
        goodStat_def is_i16_def)
qed

lemma statOfZwd_passage:
  assumes "goodStat z" and "zsP3Board z \<noteq> []" and "ids (zsP3Board z) = Some m" and "idsOk ids"
  shows "slotFor ids z [] ((statOfZwd z)\<lparr>P3 := u8 m\<rparr>)"
proof -
  have "u8 (zsX z) = zsX z" "u8 (zsY z) = zsY z" using assms(1) by (simp_all add: goodStat_def onBoard_def)
  moreover have "u8 m = m" using assms(3,4) by (force simp: idsOk_def)
  ultimately show ?thesis
    using assms(1-3) by (simp add: slotFor_def statFits_def goodSlot_def statOfZwd_def zeroStat_def programText_def
        validStat_def goodStat_def is_i16_def)
qed

lemma slotFor_program:
  "slotFor ids z [] s \<Longrightarrow> length d \<le> 32767 \<Longrightarrow> slotFor ids z d (s\<lparr>Data := d, DataLen := i16 (int (length d))\<rparr>)"
  by (simp add: slotFor_def statFits_def goodSlot_def programText_def validStat_def is_i16_def)

lemma slotFor_bind:
  assumes "slotFor ids z [] s" and "zsHasBind z" and "1 \<le> zsBind z" and "zsBind z \<le> 150" and "zsBind z \<le> int i"
  shows "statFits ids z (s\<lparr>DataLen := i16 (- zsBind z)\<rparr>) \<and> goodSlot (s\<lparr>DataLen := i16 (- zsBind z)\<rparr>) \<and>
    rawProgram z i (s\<lparr>DataLen := i16 (- zsBind z)\<rparr>)"
proof -
  have "i16 (- zsBind z) = - zsBind z" using assms(3,4) by simp
  with assms show ?thesis
    by (simp add: slotFor_def statFits_def goodSlot_def programText_def validStat_def is_i16_def rawProgram_def)
qed

lemma compileStat_settles:
  assumes "idsOk ids" and "goodStat z" and "built data n bid ids src e" and "statsDone ids zs e"
  shows "settles (\<lambda>e. built data n bid ids src e \<and> statsDone ids (zs @ [z]) e) (compileStat ids z e)"
proof (cases "StatCount (Board e) \<ge> MAX_STAT \<or> \<not> elementMayHaveStat (zsElement z)")
  case True
  then show ?thesis by (auto simp: compileStat_def)
next
  case room: False
  let ?n = "int (length zs)"
  have n: "StatCount (Board e) = ?n" "length zs < 150" using assms(4) room by (simp_all add: statsDone_def)
  have el: "elementAt (zsX z) (zsY z) e = Some (Element (Tiles (Board e) (zsX z) (zsY z)))"
    using assms(2) by (simp add: elementAt_def tileAt_def inTiles_def goodStat_def onBoard_def)
  show ?thesis
  proof (cases "Element (Tiles (Board e) (zsX z) (zsY z)) = zsElement z")
    case False
    with room show ?thesis by (simp add: compileStat_def el)
  next
    case True
    have last: "settles (\<lambda>e. built data n bid ids src e \<and> statsDone ids (zs @ [z]) e)
        (do { let n = i16 (StatCount (Board e) + 1); e \<leftarrow> modStat n (\<lambda>_. s) (setStatCount n e); Some (Inr e) })"
      if "statFits ids z s \<and> goodSlot s \<and> rawProgram z (length zs) s" for s
    proof -
      have "i16 (?n + 1) = ?n + 1" using n(2) by simp
      moreover have "modStat (?n + 1) (\<lambda>_. s) (setStatCount (?n + 1) e) = Some (putStat (?n + 1) s (setStatCount (?n + 1) e))"
        using n(2) by (simp add: modStat_def statAt_def inStats_def)
      moreover have "statsDone ids (zs @ [z]) (putStat (?n + 1) s (setStatCount (?n + 1) e))"
        using that True assms(4) n(2) by (intro statsDone_add) simp_all
      ultimately show ?thesis using assms(3) n(1) by (simp add: Let_def built_addStat)
    qed
    have finished: "statFits ids z (if zsHasBind z then s\<lparr>DataLen := i16 (- zsBind z)\<rparr> else s) \<and>
        goodSlot (if zsHasBind z then s\<lparr>DataLen := i16 (- zsBind z)\<rparr> else s) \<and>
        rawProgram z (length zs) (if zsHasBind z then s\<lparr>DataLen := i16 (- zsBind z)\<rparr> else s)"
      if "slotFor ids z (ownProgram z) s" and ok: "\<not> (zsHasBind z \<and> (zsData z \<noteq> [] \<or> StatCount (Board e) < zsBind z))" for s
    proof (cases "zsHasBind z")
      case True
      then have "slotFor ids z [] s" "1 \<le> zsBind z" "zsBind z \<le> 150" "zsBind z \<le> int (length zs)"
        using that ok assms(2) n(1) by (auto simp: ownProgram_def goodStat_def)
      then show ?thesis using slotFor_bind [OF _ True] True by simp
    qed (use that in \<open>simp add: slotFor_def rawProgram_def\<close>)
    have target: "settles (slotFor ids z []) (Some (statTarget ids z))"
      using statOfZwd_fits [OF assms(2)] statOfZwd_passage [OF assms(2) _ _ assms(1)]
      by (auto simp: statTarget_def split: option.split)
    have program: "settles (slotFor ids z (ownProgram z)) (Some (statProgram z s))" if "slotFor ids z [] s" for s
      using that by (auto simp: statProgram_def ownProgram_def slotFor_program simp del: i16_id split: option.split)
    show ?thesis
      unfolding compileStat_def el
    proof (simp only: room True if_False bind.simps simp_thms, rule settles_tryO [OF target], rule settles_tryO [OF program])
      show "settles (\<lambda>e. built data n bid ids src e \<and> statsDone ids (zs @ [z]) e)
         (if zsHasBind z \<and> (zsData z \<noteq> [] \<or> StatCount (Board e) < zsBind z) then Some (Inl (zerr (zsLine z) 1))
          else do {
            let s = (if zsHasBind z then s\<lparr>DataLen := i16 (- zsBind z)\<rparr> else s);
            let n = i16 (StatCount (Board e) + 1);
            e \<leftarrow> modStat n (\<lambda>_. s) (setStatCount n e);
            Some (Inr e) })" if "slotFor ids z (ownProgram z) s" for s
        using last [OF finished [OF that]] by (cases "zsHasBind z") (simp_all add: Let_def)
    qed
  qed
qed

lemma stats_settle:
  assumes "idsOk ids" and "\<forall>z\<in>set zs. goodStat z" and "built data n bid ids src e"
  shows "settles (\<lambda>e. built data n bid ids src e \<and> statsDone ids zs e)
     (foldE (compileStat ids) zs (setStatCount 0 e))"
proof (rule settles_foldE [where P = "\<lambda>us e. built data n bid ids src e \<and> statsDone ids us e"])
  show "built data n bid ids src (setStatCount 0 e) \<and> statsDone ids [] (setStatCount 0 e)"
    using assms(3) by (simp add: built_setStatCount) (simp add: statsDone_def setStatCount_def)
  show "settles (\<lambda>e. built data n bid ids src e \<and> statsDone ids (us @ [z]) e) (compileStat ids z s)"
    if "zs = us @ z # vs" and "built data n bid ids src s \<and> statsDone ids us s" for us z vs s
    using that assms(1,2) by (intro compileStat_settles) auto
qed

section \<open>The size of a board\<close>

lemma squaresFrom_row:
  assumes "onBoard ix iy"
  shows "squaresFrom ix iy = map (\<lambda>x. (x, iy)) [ix..60] @ (if iy = 25 then [] else squaresFrom 1 (iy + 1))"
  using assms
proof (induction "nat (60 - ix)" arbitrary: ix)
  case 0
  then have "ix = 60" by (simp add: onBoard_def)
  with 0 show ?case by (subst squaresFrom.simps) (simp add: nextSquare_def onBoard_def)
next
  case (Suc k)
  then have ix: "ix < 60" "onBoard (ix + 1) iy" "k = nat (60 - (ix + 1))" by (simp_all add: onBoard_def)
  have "[ix..60] = ix # [ix + 1..60]" using ix by (subst upto.simps) simp
  moreover have "squaresFrom ix iy = (ix, iy) # squaresFrom (ix + 1) iy"
    using ix Suc.prems by (subst squaresFrom.simps) (simp add: nextSquare_def onBoard_def)
  ultimately show ?case using Suc.hyps(1) [OF ix(3,2)] by simp
qed

lemma squaresFrom_rows:
  "1 \<le> iy \<Longrightarrow> iy \<le> 25 \<Longrightarrow> squaresFrom 1 iy = concat (map (\<lambda>y. map (\<lambda>x. (x, y)) [1..60]) [iy..25])"
proof (induction "nat (25 - iy)" arbitrary: iy)
  case 0
  then have "iy = 25" by simp
  then show ?case by (simp add: squaresFrom_row onBoard_def)
next
  case (Suc k)
  then have iy: "iy < 25" "k = nat (25 - (iy + 1))" by simp_all
  have "[iy..25] = iy # [iy + 1..25]" using iy by (subst upto.simps) simp
  moreover have "squaresFrom 1 iy = map (\<lambda>x. (x, iy)) [1..60] @ squaresFrom 1 (iy + 1)"
    using Suc.prems iy by (subst squaresFrom_row) (simp_all add: onBoard_def)
  moreover have "squaresFrom 1 (iy + 1) = concat (map (\<lambda>y. map (\<lambda>x. (x, y)) [1..60]) [iy + 1..25])"
    using Suc.hyps(1) [OF iy(2)] Suc.prems iy by simp
  ultimately show ?case by (simp del: upto_1_numeral)
qed

lemma scanSquares_scan: "scanSquares = squaresFrom 1 1"
  using squaresFrom_rows [of 1] by (simp add: scanSquares_def del: upto_1_numeral)

lemma countRuns:
  assumes "\<forall>q\<in>set qs. tileAt (fst q) (snd q) e = Some (squareTile (Board e) q)" and "1 \<le> run"
  shows "\<exists>k' prev' run'. foldM (countRun e) qs (k, prev, run) = Some (k', prev', run') \<and> 0 < run' \<and>
     k' + 1 = k + int (length (runs \<lparr>rCount = run, rTile = prev\<rparr> (map (squareTile (Board e)) qs)))"
  using assms
proof (induction qs arbitrary: k prev run)
  case (Cons q qs)
  let ?t = "squareTile (Board e) q"
  have t: "tileAt (fst q) (snd q) e = Some ?t" using Cons.prems by simp
  show ?case
  proof (cases "?t = prev \<and> run < 255")
    case True
    with Cons.prems show ?thesis using Cons.IH [of "run + 1" k prev] by (simp add: countRun_def t)
  next
    case False
    then have "runs \<lparr>rCount = run, rTile = prev\<rparr> (map (squareTile (Board e)) (q # qs)) =
        \<lparr>rCount = run, rTile = prev\<rparr> # runs \<lparr>rCount = 1, rTile = ?t\<rparr> (map (squareTile (Board e)) qs)" by auto
    moreover have "countRun e q (k, prev, run) = Some (k + 1, ?t, 1)"
      using False Cons.prems(2) by (auto simp: countRun_def t)
    ultimately show ?thesis using Cons.IH [of 1 "k + 1" ?t] Cons.prems(1) by auto
  qed
qed simp

lemma estimate_bounds:
  assumes "0 \<le> StatCount (Board e)" and "StatCount (Board e) \<le> MAX_STAT"
    and "\<forall>i\<in>{0..StatCount (Board e)}. programText (Stats (Board e) i)"
  obtains n where "estimateZWDSerializedBoardSize e = Some n" and "int (length (boardBytes (Board e))) \<le> n"
    and "n \<le> 4672 + 33 * StatCount (Board e) + (\<Sum>i\<in>{0..StatCount (Board e)}. max 0 (DataLen (Stats (Board e) i)))"
proof -
  let ?b = "Board e"
  have sq: "scanSquares = (1, 1) # tl (squaresFrom 1 1)"
    by (simp add: scanSquares_scan squaresFrom.simps [of 1 1])
  have at: "tileAt (fst q) (snd q) e = Some (squareTile ?b q)" if "q \<in> set (squaresFrom 1 1)" for q
  proof -
    from that have "onBoard (fst q) (snd q)" by (auto simp: squaresFrom_set onBoard_def)
    then show ?thesis by (simp add: tileAt_def inTiles_def onBoard_def squareTile_def)
  qed
  have "set (tl (squaresFrom 1 1)) \<subseteq> set (squaresFrom 1 1)" by (cases "squaresFrom 1 1") auto
  then have "\<forall>q\<in>set (tl (squaresFrom 1 1)). tileAt (fst q) (snd q) e = Some (squareTile ?b q)" using at by blast
  from countRuns [OF this, of 1 0 "Tiles ?b 1 1"] obtain k prev r where
    k: "foldM (countRun e) (tl (squaresFrom 1 1)) (0, Tiles ?b 1 1, 1) = Some (k, prev, r)" "0 < r"
      "k + 1 = int (length (boardRuns ?b))"
    by (auto simp: boardRuns_def boardTiles_def map_tl)
  have "tileAt 1 1 e = Some (Tiles ?b 1 1)" by (simp add: tileAt_def inTiles_def)
  then have tiles: "foldM (countRun e) scanSquares (0, zeroTile, 0) = Some (k, prev, r)"
    using k(1) by (simp add: sq countRun_def)
  let ?g = "\<lambda>i size. do { s \<leftarrow> statAt i e; Some (size + 33 + (if DataLen s > 0 then DataLen s else 0)) }"
  have stats: "foldM ?g [0..int m - 1] z = Some (z + 33 * int m + (\<Sum>i\<in>{0..int m - 1}. max 0 (DataLen (Stats ?b i))))"
    if "m \<le> 151" for m z
    using that
  proof (induction m)
    case (Suc m)
    have up: "[0..int m] = [0..int m - 1] @ [int m]" by (subst upto_rec2) simp_all
    have "{0..int m} = insert (int m) {0..int m - 1}" by auto
    then have "(\<Sum>i\<in>{0..int m}. max 0 (DataLen (Stats ?b i))) =
        max 0 (DataLen (Stats ?b (int m))) + (\<Sum>i\<in>{0..int m - 1}. max 0 (DataLen (Stats ?b i)))" by simp
    with Suc show ?case by (simp add: up foldM_append statAt_def inStats_def max_def)
  qed simp
  let ?m = "nat (StatCount ?b + 1)"
  have m: "int ?m - 1 = StatCount ?b" "?m \<le> 151" "\<forall>i\<in>{0..<int ?m}. programText (Stats ?b i)" using assms by auto
  let ?n = "51 + 86 + 2 + (k + 1) * 3 + 33 * int ?m + (\<Sum>i\<in>{0..int ?m - 1}. max 0 (DataLen (Stats ?b i)))"
  have "estimateZWDSerializedBoardSize e = Some ?n"
    using stats [OF m(2), of "51 + 86 + 2 + (k + 1) * 3"] k(2) m(1)
    by (simp add: estimateZWDSerializedBoardSize_def tiles)
  moreover have "int (length (boardBytes ?b)) \<le> ?n"
    using length_records [OF m(3)] k(3) by (simp add: boardBytes_def length_boardInfoBytes)
  moreover have "?n \<le> 4672 + 33 * StatCount ?b + (\<Sum>i\<in>{0..StatCount ?b}. max 0 (DataLen (Stats ?b i)))"
    using boardRuns_props(3) [of ?b] k(3) m(1) by (simp add: algebra_simps)
  ultimately show thesis by (rule that)
qed

section \<open>A compiled board\<close>

text \<open>A message is cut to the 58 bytes the record has room for when the board is packed.\<close>

definition cutMessage :: "TBoard \<Rightarrow> TBoard" where
  "cutMessage b = b\<lparr>bInfo := (bInfo b)\<lparr>bMessage := take 58 (bMessage (bInfo b))\<rparr>\<rparr>"

lemma boardBytes_cut: "boardBytes (cutMessage b) = boardBytes b"
proof -
  have "boardTiles (cutMessage b) = boardTiles b"
    by (simp add: boardTiles_def squareTile_def [abs_def] cutMessage_def)
  then show ?thesis
    by (simp add: boardBytes_def boardRuns_def cutMessage_def boardInfoBytes_def stringBytes_def)
qed

text \<open>What a document says of a board, programs aside, of the board it is compiled to.\<close>

definition laidOut :: "(string \<Rightarrow> int option) \<Rightarrow> zwdBoard \<Rightarrow> TBoard \<Rightarrow> bool" where
  "laidOut ids src b \<longleftrightarrow>
     bName b = zbName src \<and> bMessage (bInfo b) = take 58 (zbMessage src) \<and>
     TimeLimitSec (bInfo b) = zbTimeLimit src \<and> MaxShots (bInfo b) = zbMaxShots src \<and>
     IsDark (bInfo b) = zbDark src \<and> ReenterWhenZapped (bInfo b) = zbReenter src \<and>
     (\<forall>i\<in>{0..3}. NeighborBoards (bInfo b) i = exitOf ids src i) \<and>
     (\<forall>q\<in>set (gridSquares src). squareOk src q b) \<and>
     sX (Stats b 0) = zbStartX src \<and> sY (Stats b 0) = zbStartY src \<and>
     StatCount b = int (length (zbStats src)) \<and> length (zbStats src) \<le> 150 \<and>
     (\<forall>i<length (zbStats src). statFits ids (zbStats src ! i) (Stats b (int i + 1)) \<and>
        Element (Tiles b (zsX (zbStats src ! i)) (zsY (zbStats src ! i))) = zsElement (zbStats src ! i))"

definition rawPrograms :: "zwdBoard \<Rightarrow> TBoard \<Rightarrow> bool" where
  "rawPrograms src b \<longleftrightarrow> (\<forall>i<length (zbStats src). rawProgram (zbStats src ! i) i (Stats b (int i + 1)))"

definition packedAs :: "(string \<Rightarrow> int option) \<Rightarrow> zwdBoard \<Rightarrow> int list \<Rightarrow> bool" where
  "packedAs ids src bs \<longleftrightarrow> (\<exists>b. bs = boardBytes b \<and> packable b \<and> readable b \<and> laidOut ids src b \<and> rawPrograms src b)"

lemma built_slots:
  assumes "built data n bid ids src e" and "statsDone ids zs e"
  shows "\<forall>i\<in>{0..StatCount (Board e)}. goodSlot (Stats (Board e) i)"
proof
  fix i assume i: "i \<in> {0..StatCount (Board e)}"
  show "goodSlot (Stats (Board e) i)"
  proof (cases "i = 0")
    case True
    with assms(1) show ?thesis by (simp add: built_def playerThere_def)
  next
    case False
    with i assms(2) have "nat (i - 1) < length zs" "int (nat (i - 1)) + 1 = i" by (auto simp: statsDone_def)
    with assms(2) show ?thesis by (metis statsDone_def)
  qed
qed

lemma built_packed:
  assumes "goodBoard src" and "length (zbName src) \<le> 50" and "built data n bid ids src e"
    and "statsDone ids (zbStats src) e" and "length (boardBytes (Board e)) \<le> 20000"
  shows "packable (Board e)" and "packedAs ids src (boardBytes (Board e))"
proof -
  note sl = built_slots [OF assms(3,4)]
  show pack: "packable (Board e)"
    using sl assms(4,5) by (auto simp: packable_def goodSlot_def statsDone_def)
  have "packable (cutMessage (Board e))"
    using pack by (simp add: packable_def boardBytes_cut) (simp add: cutMessage_def)
  moreover have "readable (cutMessage (Board e))"
    using sl assms(1-4)
    by (auto simp: readable_def cutMessage_def goodSlot_def built_def headOf_def fits_def validBoardInfo_def goodBoard_def)
  moreover have "laidOut ids src (cutMessage (Board e))"
    using assms(3,4)
    by (auto simp: laidOut_def cutMessage_def built_def headOf_def exitsDone_def squaresDone_def squareOk_def
        playerThere_def statsDone_def)
  moreover have "rawPrograms src (cutMessage (Board e))"
    using assms(4) by (simp add: rawPrograms_def cutMessage_def statsDone_def)
  ultimately show "packedAs ids src (boardBytes (Board e))"
    unfolding packedAs_def by (intro exI [of _ "cutMessage (Board e)"]) (simp add: boardBytes_cut)
qed

text \<open>The buffers and the world between two boards.\<close>

definition between :: "(int \<Rightarrow> int list) \<Rightarrow> int \<Rightarrow> Engine \<Rightarrow> bool" where
  "between data n e \<longleftrightarrow> length (IoTmpBuf e) = 20000 \<and> BoardData (World e) = data \<and> BoardCount (World e) = n"

lemma compileZWDBoard_settles:
  assumes "goodBoard src" and "idsOk ids" and "inBoards bid" and "between data n e"
  shows "settles (\<lambda>e'. \<exists>bs. between (data(bid := bs)) n e' \<and> packedAs ids src bs) (compileZWDBoard bid src ids e)"
proof (cases "length (zbName src) > 50 \<or> zbStartX src < 1 \<or> zbStartY src < 1 \<or> int (length (zbGrid src)) \<noteq> BOARD_HEIGHT")
  case True
  then show ?thesis by (simp add: compileZWDBoard_def)
next
  case ok: False
  then have grid: "int (length (zbGrid src)) = BOARD_HEIGHT" and name: "length (zbName src) \<le> 50" by simp_all
  obtain T where T: "BoardCreate e = Some (e\<lparr>Board := blankBoard T (Board e)\<rparr>)" using BoardCreate_blank by blast
  have head: "headOf data n bid src (boardHeader bid src (e\<lparr>Board := blankBoard T (Board e)\<rparr>))"
    using assms(4) by (simp add: headOf_def boardHeader_def between_def modWorldInfo_def modInfo_def Let_def)
  show ?thesis
    unfolding compileZWDBoard_def
  proof (simp only: ok if_False T Let_def bind.simps, rule settles_tryO [OF exits_settle [OF assms(2) head]],
      rule settles_bind [OF scan_returns [OF assms(1)]], goal_cases)
    case (1 e r)
    then have e: "headOf data n bid src e" "exitsDone ids src {0..3} e" by simp_all
    obtain firstLine firstCol missing where r: "r = (firstLine, firstCol, missing)" by (cases r)
    show ?case
    proof (cases "missing = []")
      case False
      with r show ?thesis by simp
    next
      case True
      show ?thesis
        unfolding r prod.case True
      proof (simp only: simp_thms if_False, rule settles_tryO [OF grid_settles [OF assms(1) grid e]], goal_cases)
        case (1 s)
        obtain c e1 where s: "s = (c, e1)" by force
        show ?case
        proof (cases "c = 1")
          case False
          with s show ?thesis by simp
        next
          case True
          with 1 s e have "built data n bid ids src e1" by (simp add: built_def)
          from stats_settle [OF assms(2) _ this] assms(1)
          have st: "settles (\<lambda>e. built data n bid ids src e \<and> statsDone ids (zbStats src) e)
              (foldE (compileStat ids) (zbStats src) (setStatCount 0 e1))" by (simp add: goodBoard_def)
          show ?thesis
            unfolding s prod.case True
          proof (simp only: simp_thms if_False, rule settles_tryO [OF st], rule settles_bind [OF orphans_returns [OF assms(1)]],
              goal_cases)
            case (1 e2 found)
            then have b: "built data n bid ids src e2" "statsDone ids (zbStats src) e2" by simp_all
            show ?case
            proof (cases found)
              case (Cons p ps)
              then show ?thesis by (cases p) simp
            next
              case Nil
              have buf: "length (IoTmpBuf e2) = 20000" and cur: "CurrentBoard (wInfo (World e2)) = bid"
                using b(1) by (simp_all add: built_def headOf_def)
              have "\<forall>i\<in>{0..StatCount (Board e2)}. programText (Stats (Board e2) i)"
                using built_slots [OF b] by (simp add: goodSlot_def)
              then obtain size where size: "estimateZWDSerializedBoardSize e2 = Some size"
                "int (length (boardBytes (Board e2))) \<le> size"
                using b(2) by (elim estimate_bounds [rotated 2]) (simp_all add: statsDone_def)
              show ?thesis
              proof (cases "size > 20000")
                case True
                with Nil size(1) buf show ?thesis by simp
              next
                case False
                let ?bs = "boardBytes (Board e2)"
                have len: "length ?bs \<le> 20000" using False size(2) by simp
                note p = built_packed [OF assms(1) name b len]
                obtain e3 where e3: "BoardClose e2 = Some e3" "between (data(bid := ?bs)) n e3"
                    "BoardLen (World e3) bid \<le> 20000"
                  using BoardClose_eq [OF p(1) buf] assms(3) cur b(1) len
                  by (auto simp: storeBoardData_def between_def built_def headOf_def setStats_def i16_def)
                have "length (IoTmpBuf e3) = 20000" using e3(2) by (simp add: between_def)
                with Nil size(1) buf False e3 p(2) assms(3) show ?thesis by (auto simp: check_def)
              qed
            qed
          qed
        qed
      qed
    qed
  qed
qed

section \<open>A new world\<close>

lemma PlayerFor_keeps:
  "PlayerFor i e = (ps, e') \<Longrightarrow> Board e' = Board e \<and> World e' = World e \<and> IoTmpBuf e' = IoTmpBuf e"
  by (auto simp: PlayerFor_def split: option.splits)

definition plainSlot :: "TStat \<Rightarrow> bool" where
  "plainSlot s \<longleftrightarrow> is_i16 (StepX s) \<and> is_i16 (StepY s) \<and> is_i16 (Follower s) \<and> is_i16 (Leader s) \<and> is_i16 (DataPos s)"

lemma BoardChange_blank:
  assumes "Board e = blankBoard T b" and "plainSlot (Stats b 0)" and "length (IoTmpBuf e) = 20000"
    and "CurrentBoard (wInfo (World e)) = 0" and "BoardCount (World e) = 0"
  shows "returns (\<lambda>e'. length (IoTmpBuf e') = 20000) (BoardChange 0 e)"
proof -
  let ?t = "\<lparr>Element = E_PLAYER, Color = 31\<rparr>"
  let ?e = "putTile 30 12 ?t e"
  have st: "statAt 0 e = Some (blankStat (Stats b 0))" by (simp add: statAt_def inStats_def assms(1) blankBoard_def)
  have tile: "setTile 30 12 ?t e = Some ?e" by (simp add: setTile_def inTiles_def)
  have slot: "Stats (Board ?e) 0 = blankStat (Stats b 0)" "StatCount (Board ?e) = 0"
    by (simp_all add: putTile_def assms(1) blankBoard_def)
  have zero: "{0..0} = {0::int}" by auto
  have pack: "packable (Board ?e)"
    by (rule packableI) (simp_all add: slot zero programText_def blankStat_def)
  have read: "readable (Board ?e)"
    using assms(1,2) by (simp add: readable_def slot zero fits_def validBoardInfo_def putTile_def blankBoard_def
        blankInfo_def blankStat_def plainSlot_def validStat_def is_i16_def)
  have buf: "length (IoTmpBuf ?e) = 20000" "CurrentBoard (wInfo (World ?e)) = 0" "BoardCount (World ?e) = 0"
    using assms(3-5) by (simp_all add: putTile_def)
  obtain e1 where e1: "BoardClose ?e = Some e1" "BoardData (World e1) 0 = boardBytes (Board ?e)"
      "BoardCount (World e1) = 0" "length (IoTmpBuf e1) = 20000"
    using BoardClose_eq [OF pack buf(1)] buf(2,3) pack
    by (auto simp: storeBoardData_def inBoards_def packable_def buf(1))
  have "BoardOpen 0 e1 = Some (modWorldInfo (\<lambda>w. w\<lparr>CurrentBoard := 0\<rparr>)
      (e1\<lparr>ScrollAudience := (\<lambda>_. 0), Board := reopened (Board e1) (Board ?e)\<rparr>))"
    using e1 by (intro BoardOpen_eq [OF pack read]) (simp_all add: inBoards_def)
  then show ?thesis
    using e1 by (simp add: BoardChange_def st tile blankStat_def ElementDef_4_def ElementDef_default_def modWorldInfo_def)
qed

lemma WorldCreate_returns:
  assumes "plainSlot (Stats (Board e) 0)" and "length (IoTmpBuf e) = 20000"
  shows "returns (\<lambda>e'. length (IoTmpBuf e') = 20000) (WorldCreate e)"
proof -
  define e1 where "e1 = ResetMessageNotShownFlags (InitEditorStatSettings ((InitElementsGame e)
      \<lparr>World := (World (InitElementsGame e))\<lparr>BoardCount := 0, BoardLen := (BoardLen (World (InitElementsGame e)))(0 := 0)\<rparr>\<rparr>))"
  have e1: "Board e1 = Board e" "IoTmpBuf e1 = IoTmpBuf e" "BoardCount (World e1) = 0"
    by (auto simp: e1_def ResetMessageNotShownFlags_def InitEditorStatSettings_def InitElementsGame_def
        split: prod.splits dest: PlayerFor_keeps)
  obtain T where T: "BoardCreate e1 = Some (e1\<lparr>Board := blankBoard T (Board e1)\<rparr>)" using BoardCreate_blank by blast
  let ?w = "\<lambda>w. w\<lparr>IsSave := False, CurrentBoard := 0, wAmmo := 0, wGems := 0,
                wHealth := 100, wEnergizerTicks := 0, wTorches := 0, wTorchTicks := 0, wScore := 0,
                wBoardTimeSec := 0, wBoardTimeHsec := 0, wKeys := clearKeys (wKeys w)\<rparr>"
  let ?p = "\<lambda>p. p\<lparr>pHealth := 100, pAmmo := 0, pGems := 0, pTorches := 0,
                pTorchTicks := 0, pEnergizerTicks := 0, pScore := 0, pBoardTimeSec := 0,
                pBoardTimeHsec := 0, pKeys := clearKeys (pKeys p)\<rparr>"
  let ?f = "\<lambda>w. w\<lparr>Flags := (\<lambda>i. if 0 \<le> i \<and> i \<le> 9 then [] else Flags w i)\<rparr>"
  define e2 where "e2 = modWorldInfo ?w (e1\<lparr>Board := blankBoard T (Board e1)\<rparr>)"
  obtain ps e3 where e3: "PlayerFor 0 e2 = (ps, e3)" by force
  have "returns (\<lambda>e'. length (IoTmpBuf e') = 20000) (BoardChange 0 (modWorldInfo ?f (modPlayer ps ?p e3)))"
    using PlayerFor_keeps [OF e3] e1 assms
    by (intro BoardChange_blank [of _ T "Board e"]) (simp_all add: e2_def modWorldInfo_def modPlayer_def)
  moreover have "WorldCreate e = do { e \<leftarrow> BoardChange 0 (modWorldInfo ?f (modPlayer ps ?p e3));
          let e = e\<lparr>Board := (Board e)\<lparr>bName := ''Title screen''\<rparr>\<rparr>;
          let e = e\<lparr>LoadedGameFileName := []\<rparr>;
          Some (modWorldInfo (\<lambda>w. w\<lparr>wName := []\<rparr>) e) }"
    using T e3 by (simp add: WorldCreate_def Let_def flip: e1_def e2_def)
  ultimately show ?thesis by (auto simp: returns_def modWorldInfo_def)
qed

lemma videoClear_keeps: "Board (videoClear e) = Board e \<and> IoTmpBuf (videoClear e) = IoTmpBuf e"
proof -
  have fold_keeps: "(\<And>x e. Board (g x e) = Board e \<and> IoTmpBuf (g x e) = IoTmpBuf e) \<Longrightarrow>
      Board (fold g xs e) = Board e \<and> IoTmpBuf (fold g xs e) = IoTmpBuf e" for g and xs :: "int list" and e
    by (induction xs arbitrary: e) simp_all
  show ?thesis
    by (simp add: videoClear_def Let_def fold_keeps del: upto_0_numeral)
qed

lemma idsOk_boardIDs: "int (length bs) \<le> 101 \<Longrightarrow> idsOk (boardIDsOf bs)"
  by (auto simp: idsOk_def boardIDsOf_def in_set_enumerate_eq dest!: map_of_SomeD)

definition compiledTo :: "zwdDocument \<Rightarrow> TWorld \<Rightarrow> bool" where
  "compiledTo doc w \<longleftrightarrow>
     BoardCount w = int (length (zdBoards doc)) - 1 \<and>
     (\<forall>i<length (zdBoards doc). packedAs (boardIDsOf (zdBoards doc)) (zdBoards doc ! i) (BoardData w (int i)))"

lemma document_start:
  assumes "zdName doc \<noteq> []" and "length (zdName doc) \<le> 20" and "int (length (zdBoards doc)) \<le> 101"
  obtains e data where "between data (int (length (zdBoards doc)) - 1) e"
    and "compileZWDDocument doc =
      tryO (foldE (\<lambda>(i, b). compileZWDBoard (i16 (int i)) b (boardIDsOf (zdBoards doc))) (enumerate 0 (zdBoards doc)) e)
        (\<lambda>e. do { e \<leftarrow> BoardOpen 0 (modWorldInfo (\<lambda>w. w\<lparr>CurrentBoard := 0\<rparr>) e); Some (Inr (World e)) })"
proof -
  let ?bs = "zdBoards doc"
  let ?n = "int (length ?bs) - 1"
  let ?e0 = "videoClear (NewEngine\<lparr>Headless := True\<rparr>)"
  have "plainSlot (Stats (Board ?e0) 0)" "length (IoTmpBuf ?e0) = 20000"
    using videoClear_keeps [of "NewEngine\<lparr>Headless := True\<rparr>"]
    by (simp_all add: NewEngine_def zeroBoard_def zeroStat_def plainSlot_def is_i16_def)
  then have "returns (\<lambda>e. length (IoTmpBuf e) = 20000) (WorldCreate ?e0)" by (rule WorldCreate_returns)
  then obtain e1 where e1: "WorldCreate ?e0 = Some e1" "length (IoTmpBuf e1) = 20000" by (auto simp: returns_def)
  define e2 where "e2 = setBoardCount (i16 ?n) (modWorldInfo (\<lambda>w. w\<lparr>wName := zdName doc, IsSave := False, CurrentBoard := 0\<rparr>) e1)"
  have "between (BoardData (World e2)) ?n e2"
    using e1(2) assms(3) by (simp add: e2_def between_def setBoardCount_def modWorldInfo_def)
  then show thesis
    by (rule that) (use assms e1(1) in \<open>simp add: compileZWDDocument_def Let_def e2_def\<close>)
qed

lemma compileZWDDocument_settles:
  assumes "zdBoards doc \<noteq> []" and "\<forall>b\<in>set (zdBoards doc). goodBoard b"
  shows "settles (compiledTo doc) (compileZWDDocument doc)"
proof (cases "zdName doc = [] \<or> length (zdName doc) > 20 \<or> int (length (zdBoards doc)) > 101")
  case True
  then show ?thesis by (auto simp: compileZWDDocument_def)
next
  case False
  let ?bs = "zdBoards doc"
  let ?ids = "boardIDsOf ?bs"
  let ?n = "int (length ?bs) - 1"
  have ids: "idsOk ?ids" using False by (intro idsOk_boardIDs) simp
  have h: "zdName doc \<noteq> []" "length (zdName doc) \<le> 20" "int (length ?bs) \<le> 101" using False by simp_all
  obtain e2 d where e2: "between d ?n e2" and eq: "compileZWDDocument doc =
      tryO (foldE (\<lambda>(i, b). compileZWDBoard (i16 (int i)) b ?ids) (enumerate 0 ?bs) e2)
        (\<lambda>e. do { e \<leftarrow> BoardOpen 0 (modWorldInfo (\<lambda>w. w\<lparr>CurrentBoard := 0\<rparr>) e); Some (Inr (World e)) })"
    by (rule document_start [OF h])
  let ?P = "\<lambda>us e. \<exists>data. between data ?n e \<and> (\<forall>i<length us. packedAs ?ids (?bs ! i) (data (int i)))"
  have P0: "?P [] e2" using e2 by auto
  have loop: "settles (?P (enumerate 0 ?bs)) (foldE (\<lambda>(i, b). compileZWDBoard (i16 (int i)) b ?ids) (enumerate 0 ?bs) e2)"
  proof (rule settles_foldE [where P = ?P])
    show "?P [] e2" by (rule P0)
    show "settles (?P (us @ [x])) ((case x of (i, b) \<Rightarrow> compileZWDBoard (i16 (int i)) b ?ids) s)"
      if x: "enumerate 0 ?bs = us @ x # vs" and P: "?P us s" for us x vs s
    proof -
      have len: "length us < length ?bs" using arg_cong [OF x, of length] by simp
      have "x = enumerate 0 ?bs ! length us" by (simp add: x)
      with len have xi: "x = (length us, ?bs ! length us)" by (simp add: nth_enumerate_eq)
      from P obtain data where data: "between data ?n s" "\<forall>i<length us. packedAs ?ids (?bs ! i) (data (int i))" by blast
      have bid: "i16 (int (length us)) = int (length us)" "inBoards (int (length us))"
        using len False by (simp_all add: inBoards_def)
      have good: "goodBoard (?bs ! length us)" using assms(2) len by simp
      have "settles (\<lambda>e'. \<exists>c. between (data(int (length us) := c)) ?n e' \<and> packedAs ?ids (?bs ! length us) c)
          (compileZWDBoard (int (length us)) (?bs ! length us) ?ids s)"
        by (rule compileZWDBoard_settles [OF good ids bid(2) data(1)])
      then show ?thesis
        unfolding xi prod.case bid(1)
      proof (rule settles_mono, elim exE conjE, goal_cases)
        case (1 e' c)
        with data(2) show ?case
          by (intro exI [of _ "data(int (length us) := c)"]) (auto simp: less_Suc_eq)
      qed
    qed
  qed
  show ?thesis
    unfolding eq
  proof (rule settles_tryO [OF loop], goal_cases)
    case (1 e)
    then obtain data where data: "between data ?n e" "\<forall>i<length ?bs. packedAs ?ids (?bs ! i) (data (int i))"
      by (auto simp del: fun_upd_apply)
    let ?e = "modWorldInfo (\<lambda>w. w\<lparr>CurrentBoard := 0\<rparr>) e"
    have w: "World ?e = (World e)\<lparr>wInfo := (wInfo (World e))\<lparr>CurrentBoard := 0\<rparr>\<rparr>" by (simp add: modWorldInfo_def)
    have "packedAs ?ids (?bs ! 0) (data 0)" using data(2) assms(1) by force
    then obtain b where b: "data 0 = boardBytes b" "packable b" "readable b" by (auto simp: packedAs_def)
    have "BoardOpen 0 ?e = Some (modWorldInfo (\<lambda>w. w\<lparr>CurrentBoard := 0\<rparr>)
        (?e\<lparr>ScrollAudience := (\<lambda>_. 0), Board := reopened (Board ?e) b\<rparr>))"
      using data(1) b assms(1) by (intro BoardOpen_eq [OF b(2,3)]) (simp_all add: w between_def inBoards_def Suc_le_eq)
    with data show ?case by (simp add: modWorldInfo_def compiledTo_def between_def)
  qed
qed

end
