(* ===== verification/ZwdProps.thy ===== *)
theory ZwdProps
  imports ZwdSafe
begin

text \<open>
  What compiling ZWD guarantees, over the text of a document: it ends in an error or in a world all of
  whose boards open as written; text lines fit their window and keep their words, but a text that
  begins with a blank and a \<open>#\<close> becomes a command. A plain document does compile.
\<close>

section \<open>Wrapping\<close>

definition fitLines :: "nat \<Rightarrow> string list \<Rightarrow> bool" where
  "fitLines w ls \<longleftrightarrow> (\<forall>l\<in>set ls. length l \<le> w)"

text \<open>The words of a line and of some lines, as the blanks between them have it.\<close>

definition wordsIn :: "string \<Rightarrow> string list" where
  "wordsIn l = filter (\<lambda>w. w \<noteq> []) (splitOn (CHR '' '') l)"

definition wordsOn :: "string list \<Rightarrow> string list" where
  "wordsOn ls = concat (map wordsIn ls)"

text \<open>A word cut into pieces of a width: itself, when it fits.\<close>

function pieces :: "nat \<Rightarrow> string \<Rightarrow> string list" where
  "pieces w word = (if 0 < w \<and> w < length word then take w word # pieces w (drop w word) else [word])"
  by pat_completeness auto
termination by (relation "measure (\<lambda>(w, word). length word)") auto

declare pieces.simps [simp del]

lemma splitOn_none: "c \<notin> set s \<Longrightarrow> splitOn c s = [s]"
  by (induction s) auto

lemma splitOn_nonempty: "splitOn c s \<noteq> []"
  by (induction s) (auto split: list.splits)

lemma splitOn_at: "splitOn c (s @ c # t) = splitOn c s @ splitOn c t"
  by (induction s) (auto simp: splitOn_nonempty split: list.splits)

lemma wordsIn_blank: "wordsIn (s @ '' '' @ t) = wordsIn s @ wordsIn t"
  using splitOn_at [of "CHR '' ''" s t] by (simp add: wordsIn_def)

lemma wordsIn_word: "CHR '' '' \<notin> set w \<Longrightarrow> wordsIn w = (if w = [] then [] else [w])"
  by (simp add: wordsIn_def splitOn_none)

lemma wordsOn_simps [simp]: "wordsOn [] = []" "wordsOn (l # ls) = wordsIn l @ wordsOn ls" "wordsOn (ls @ ms) = wordsOn ls @ wordsOn ms"
  by (simp_all add: wordsOn_def)

text \<open>A word of \<open>Fields\<close> is not empty and has no blank: a blank is a code point of its own.\<close>

lemma decoded_high:
  assumes "128 \<le> ord c" and "b \<in> set (take (runeWidth (c # s)) (c # s))"
  shows "128 \<le> ord b"
proof -
  define byte where "byte i = (if i < length s then ord (s ! i) else 0)" for i
  have wide: "\<forall>i < runeWidth (c # s) - 1. 128 \<le> byte i"
  proof -
    define n where "n = snd (decodeRune (map ord (c # s)))"
    have "(if i < length (map ord s) then map ord s ! i else 0) = byte i" for i by (simp add: byte_def)
    then have "n = 1 \<or> n = 2 \<and> 128 \<le> byte 0 \<or> n = 3 \<and> 128 \<le> byte 0 \<and> 128 \<le> byte 1 \<or>
        n = 4 \<and> 128 \<le> byte 0 \<and> 128 \<le> byte 1 \<and> 128 \<le> byte 2"
      using assms(1) unfolding n_def decodeRune_def cont_def Let_def list.map list.case
      by (simp only: not_less [symmetric] if_False split: if_split) auto
    moreover have "runeWidth (c # s) = max 1 n" by (simp add: runeWidth_def n_def)
    ultimately show ?thesis by (auto simp: less_Suc_eq eval_nat_numeral)
  qed
  obtain k where k: "k < runeWidth (c # s)" "k < length (c # s)" "b = (c # s) ! k" using assms(2) by (auto simp: in_set_conv_nth)
  show ?thesis
  proof (cases k)
    case 0
    then show ?thesis using k(3) assms(1) by simp
  next
    case (Suc i)
    then have "128 \<le> byte i" "i < length s" using wide k(1,2) by simp_all
    then show ?thesis using Suc k(3) by (simp add: byte_def)
  qed
qed

lemma segments_blank: "(r, bs) \<in> set (segments s) \<Longrightarrow> CHR '' '' \<in> set bs \<Longrightarrow> isSpace r"
proof (induction s rule: segments.induct)
  case (2 c s)
  show ?case
  proof (cases "(r, bs) \<in> set (segments (drop (runeWidth (c # s)) (c # s)))")
    case True
    then show ?thesis using 2 by blast
  next
    case False
    then have r: "r = fst (decodeRune (map ord (c # s)))" and bs: "bs = take (runeWidth (c # s)) (c # s)"
      using 2(2) by (auto simp: Let_def simp del: drop_Cons')
    have low: "ord c < 128" using decoded_high [of c "CHR '' ''" s] 2(3) bs by (force simp: ord_def)
    then have "decodeRune (map ord (c # s)) = (ord c, 1)" by (simp add: decodeRune_def)
    then have "r = ord c" "bs = [c]" using r bs by (simp_all add: runeWidth_def)
    then show ?thesis using 2(3) by (auto simp: isSpace_def ord_def)
  qed
qed simp

definition solid :: "string \<Rightarrow> bool" where
  "solid w \<longleftrightarrow> w \<noteq> [] \<and> CHR '' '' \<notin> set w"

lemma wordsOf_solid:
  "\<forall>(r, bs)\<in>set gs. \<not> isSpace r \<longrightarrow> CHR '' '' \<notin> set bs \<Longrightarrow> CHR '' '' \<notin> set w \<Longrightarrow> v \<in> set (wordsOf gs w) \<Longrightarrow> solid v"
  by (induction gs w rule: wordsOf.induct) (auto simp: solid_def split: if_splits)

lemma Fields_solid: "w \<in> set (Fields s) \<Longrightarrow> solid w"
  unfolding Fields_def by (rule wordsOf_solid) (auto dest: segments_blank)

lemma breakWord_fits:
  assumes "0 < w" and "fitLines w lines" and "length line \<le> w" and "solid word" and "breakWord w word lines line = (ls, l, r)"
  shows "fitLines w ls \<and> length l \<le> w \<and> length r \<le> w \<and> solid r \<and>
     wordsOn ls @ wordsIn l @ [r] = wordsOn lines @ wordsIn line @ pieces w word"
  using assms(2-5)
proof (induction "length word" arbitrary: word lines line rule: less_induct)
  case less
  show ?case
  proof (cases "w < length word")
    case True
    let ?lines = "(if line \<noteq> [] then lines @ [line] else lines) @ [take w word]"
    have parts: "solid (take w word)" "solid (drop w word)"
      using less.prems(3) True assms(1) by (auto simp: solid_def dest: in_set_takeD in_set_dropD)
    have "breakWord w (drop w word) ?lines [] = (ls, l, r)"
      using less.prems(4) True assms(1) by (subst (asm) breakWord.simps) simp
    moreover have "length (drop w word) < length word" using True assms(1) by simp
    moreover have "fitLines w ?lines" using less.prems(1,2) by (auto simp: fitLines_def)
    ultimately have "fitLines w ls \<and> length l \<le> w \<and> length r \<le> w \<and> solid r \<and>
        wordsOn ls @ wordsIn l @ [r] = wordsOn ?lines @ wordsIn [] @ pieces w (drop w word)"
      using less.hyps [of "drop w word" ?lines "[]"] parts(2) by simp
    moreover have "wordsOn ?lines = wordsOn lines @ wordsIn line @ [take w word]"
      using parts(1) by (simp add: wordsIn_word solid_def)
    moreover have "pieces w word = take w word # pieces w (drop w word)" using True assms(1) by (subst pieces.simps) simp
    ultimately show ?thesis by (simp add: wordsIn_word)
  next
    case False
    moreover have "pieces w word = [word]" using False by (subst pieces.simps) simp
    ultimately show ?thesis using less.prems by (subst (asm) breakWord.simps) auto
  qed
qed

lemma wrapWords_fits:
  assumes "0 < w" and "fitLines w lines" and "length line \<le> w" and "\<forall>v\<in>set ws. solid v"
  shows "fitLines w (wrapWords w ws lines line) \<and>
     wordsOn (wrapWords w ws lines line) = wordsOn lines @ wordsIn line @ concat (map (pieces w) ws)"
  using assms(2-4)
proof (induction ws arbitrary: lines line)
  case Nil
  then show ?case by (auto simp: fitLines_def wordsIn_word)
next
  case (Cons word ws)
  obtain ls l r where b: "breakWord w word lines line = (ls, l, r)" by (metis prod.exhaust)
  have "solid word" using Cons.prems(3) by simp
  note fit = breakWord_fits [OF assms(1) Cons.prems(1,2) this b]
  then have r: "wordsIn r = [r]" by (simp add: wordsIn_word solid_def)
  consider "l = []" | "l \<noteq> []" "length l + 1 + length r \<le> w" | "l \<noteq> []" "\<not> length l + 1 + length r \<le> w" by blast
  then show ?case
  proof cases
    case 1
    with fit r Cons.IH [of ls r] Cons.prems(3) show ?thesis by (simp add: b wordsIn_word)
  next
    case 2
    with fit r Cons.IH [of ls "l @ '' '' @ r"] Cons.prems(3) wordsIn_blank [of l r] show ?thesis by (simp add: b)
  next
    case 3
    with fit have "fitLines w (ls @ [l])" by (auto simp: fitLines_def)
    with 3 fit r Cons.IH [of "ls @ [l]" r] Cons.prems(3) show ?thesis by (simp add: b)
  qed
qed

text \<open>
  C13. A text wrapped for the text window has no line wider than asked for, and its words - what stands between the
  blanks of its lines - are the words of the text in order, each whole unless it is wider than the window, when it comes
  in pieces of that width.
\<close>

theorem wrapped_text_fits:
  assumes "0 < width"
  shows "fitLines width (wrapZWDText s width) \<and> wordsOn (wrapZWDText s width) = concat (map (pieces width) (Fields s))"
proof (cases "Fields s = []")
  case True
  then show ?thesis by (simp add: wrapZWDText_def fitLines_def wordsIn_word)
next
  case False
  have "\<forall>v\<in>set (Fields s). solid v" using Fields_solid by blast
  then show ?thesis
    using wrapWords_fits [OF assms, of "[]" "[]" "Fields s"] False by (simp add: wrapZWDText_def fitLines_def wordsIn_word)
qed

theorem wrapped_text_fits_witness:
  "fitLines 8 (wrapZWDText ''keep out  of themountain'' 8) \<and>
   wordsOn (wrapZWDText ''keep out  of themountain'' 8) = [''keep'', ''out'', ''of'', ''themount'', ''ain'']"
proof -
  have "concat (map (pieces 8) (Fields ''keep out  of themountain'')) = [''keep'', ''out'', ''of'', ''themount'', ''ain'']"
    by code_simp
  with wrapped_text_fits [of 8 "''keep out  of themountain''"] show ?thesis by simp
qed

lemma chr_blank: "chr 13 \<noteq> CHR '' ''" "chr 13 \<noteq> CHR ''#''" "chr 39 \<noteq> CHR '' ''"
proof -
  have "ord (chr 13) \<noteq> ord CHR '' ''" "ord (chr 13) \<noteq> ord CHR ''#''" "ord (chr 39) \<noteq> ord CHR '' ''"
    by (simp_all add: ord_def chr_def)
  then show "chr 13 \<noteq> CHR '' ''" "chr 13 \<noteq> CHR ''#''" "chr 39 \<noteq> CHR '' ''" by metis+
qed

lemma Fields_word:
  assumes "ascii w" and "\<forall>c\<in>set w. \<not> isSpace (ord c)" and "w \<noteq> []"
  shows "Fields (CHR '' '' # w) = [w]"
proof -
  have "ascii (CHR '' '' # w)" using assms(1) by (simp add: ascii_def ord_def)
  then have eq: "Fields (CHR '' '' # w) = wordsOf (map (\<lambda>c. (ord c, [c])) (CHR '' '' # w)) []"
    unfolding Fields_def by (simp only: segments_ascii)
  have run: "wordsOf (map (\<lambda>c. (ord c, [c])) v) u = (if u @ v = [] then [] else [u @ v])"
    if "\<forall>c\<in>set v. \<not> isSpace (ord c)" for u v
    using that by (induction v arbitrary: u) auto
  have "isSpace (ord CHR '' '')" by (simp add: isSpace_def ord_def)
  with run [OF assms(2), of "[]"] assms(3) show ?thesis by (simp add: eq)
qed

text \<open>
  C14. A line of text that begins with a blank and then \<open>#\<close> is compiled to a command: wrapping drops the
  blank, and the program runs the text.
\<close>

theorem blank_text_becomes_command:
  assumes "ascii w" and "\<forall>c\<in>set w. \<not> isSpace (ord c)" and "length w < 42"
  shows "wrapZWDTextWindowLines ('' #'' @ w) = Some (''#'' @ w)"
proof -
  let ?w = "CHR ''#'' # w"
  have "ascii ?w" "\<forall>c\<in>set ?w. \<not> isSpace (ord c)" using assms(1,2) by (simp_all add: ascii_def isSpace_def ord_def)
  then have "Fields (CHR '' '' # ?w) = [?w]" by (rule Fields_word) simp
  then have wrap: "wrapZWDText (CHR '' '' # ?w) 42 = [?w]"
    using assms(3) by (simp add: wrapZWDText_def breakWord.simps)
  have "chr 13 \<notin> set (CHR '' '' # ?w)"
  proof
    assume "chr 13 \<in> set (CHR '' '' # ?w)"
    with chr_blank have "chr 13 \<in> set w" by simp
    with assms(2) have "\<not> isSpace (ord (chr 13))" by blast
    then show False by (simp add: isSpace_def)
  qed
  then have "splitOn (chr 13) (CHR '' '' # ?w) = [CHR '' '' # ?w]" by (rule splitOn_none)
  moreover have "wrapLine (CHR '' '' # ?w) = Some [?w]"
    using chr_blank(3) wrap by (simp add: wrapLine_def)
  ultimately show ?thesis by (simp add: wrapZWDTextWindowLines_def del: splitOn.simps)
qed

theorem blank_text_becomes_command_witness: "wrapZWDTextWindowLines '' #die'' = Some ''#die''"
proof -
  have "ascii ''die''" "\<forall>c\<in>set ''die''. \<not> isSpace (ord c)" by (simp_all add: ascii_def isSpace_def ord_def)
  then show ?thesis using blank_text_becomes_command [of "''die''"] by simp
qed

section \<open>Compiling a text\<close>














section \<open>Plain boards compile\<close>

definition refused :: "('e + 'a) option \<Rightarrow> bool" where
  "refused r \<longleftrightarrow> (\<exists>err. r = Some (Inl err))"

lemma refused_simps [simp]: "refused (Some (Inl err))" "\<not> refused (Some (Inr x))" "\<not> refused None"
  by (simp_all add: refused_def)





















end
