(* ===== verification/EvalProps.thy ===== *)
theory EvalProps
  imports EvalWorld ZwdProps
begin

text \<open>
  What the gate of generated worlds finds: the flood fill and the walk over boards are worklist searches, so
  they visit exactly what can be reached.
\<close>

section \<open>Worklist searches\<close>

text \<open>A queue of candidates, of which the good ones are visited once and queue their successors.\<close>

locale worklist =
  fixes start :: 'a and good :: "'a \<Rightarrow> bool" and succs :: "'a \<Rightarrow> 'a list"
  assumes bounded: "finite {q. good q}"
begin

definition reach :: "'a set" where
  "reach = (if good start then {q. (start, q) \<in> {(p, q). q \<in> set (succs p) \<and> good q}\<^sup>*} else {})"

definition searching :: "'a set \<Rightarrow> 'a list \<Rightarrow> bool" where
  "searching V Q \<longleftrightarrow>
     V \<subseteq> reach \<and> (\<forall>q\<in>set Q. good q \<longrightarrow> q \<in> reach) \<and> (good start \<longrightarrow> start \<in> V \<union> set Q) \<and>
     (\<forall>p\<in>V. \<forall>q\<in>set (succs p). good q \<longrightarrow> q \<in> V \<union> set Q)"

lemma start_search: "searching {} [start]"
  by (simp add: searching_def reach_def)

lemma skip_step: "searching V (q # Q) \<Longrightarrow> \<not> good q \<or> q \<in> V \<Longrightarrow> searching V Q"
  by (auto simp: searching_def)

lemma reach_succ: "p \<in> reach \<Longrightarrow> q \<in> set (succs p) \<Longrightarrow> good q \<Longrightarrow> q \<in> reach"
  by (auto simp: reach_def split: if_splits intro: rtrancl.rtrancl_into_rtrancl)

lemma visit_step:
  assumes "searching V (q # Q)" and "good q" and "set ls = set (succs q)"
  shows "searching (insert q V) (Q @ ls)"
proof -
  have "q \<in> reach" using assms(1,2) by (simp add: searching_def)
  then have "\<forall>r\<in>set ls. good r \<longrightarrow> r \<in> reach" using reach_succ assms(3) by blast
  with assms \<open>q \<in> reach\<close> show ?thesis by (auto simp: searching_def)
qed

lemma visit_shrinks: "good q \<Longrightarrow> q \<notin> V \<Longrightarrow> card ({q. good q} - insert q V) < card ({q. good q} - V)"
  using bounded by (intro psubset_card_mono) auto

lemma found_all:
  assumes "searching V []"
  shows "V = reach"
proof
  show "V \<subseteq> reach" using assms by (simp add: searching_def)
  show "reach \<subseteq> V"
  proof
    fix q assume "q \<in> reach"
    then have "good start" and path: "(start, q) \<in> {(p, q). q \<in> set (succs p) \<and> good q}\<^sup>*"
      by (auto simp: reach_def split: if_splits)
    from path show "q \<in> V"
      by (induction rule: rtrancl_induct) (use assms \<open>good start\<close> in \<open>auto simp: searching_def\<close>)
  qed
qed

lemma search_induct [consumes 1, case_names Nil Skip Visit]:
  assumes "searching V Q"
    and nil: "\<And>V. searching V [] \<Longrightarrow> P V []"
    and skip: "\<And>V q Q. searching V (q # Q) \<Longrightarrow> \<not> (good q \<and> q \<notin> V) \<Longrightarrow> P V Q \<Longrightarrow> P V (q # Q)"
    and visit: "\<And>V q Q. searching V (q # Q) \<Longrightarrow> good q \<Longrightarrow> q \<notin> V \<Longrightarrow>
      (\<And>ls. set ls = set (succs q) \<Longrightarrow> P (insert q V) (Q @ ls)) \<Longrightarrow> P V (q # Q)"
  shows "P V Q"
  using assms(1)
proof (induction "(V, Q)" arbitrary: V Q
    rule: wf_induct_rule [OF wf_measures [of "[\<lambda>(V, Q). card ({q. good q} - V), \<lambda>(V, Q). length Q]"]])
  case 1
  show ?case
  proof (cases Q)
    case Nil
    with nil "1.prems" show ?thesis by simp
  next
    case (Cons q Q')
    show ?thesis
    proof (cases "good q \<and> q \<notin> V")
      case True
      have "P (insert q V) (Q' @ ls)" if "set ls = set (succs q)" for ls
        using "1.hyps" [of "insert q V" "Q' @ ls"] visit_shrinks [of q V] visit_step [of V q Q' ls] "1.prems" True that
        by (simp add: Cons)
      with visit "1.prems" True show ?thesis by (simp add: Cons)
    next
      case False
      have "P V Q'" using "1.hyps" [of V Q'] skip_step [of V q Q'] "1.prems" False by (simp add: Cons)
      with skip "1.prems" False show ?thesis by (simp add: Cons)
    qed
  qed
qed

end

section \<open>The squares a player can reach\<close>

definition neighbours :: "int \<times> int \<Rightarrow> (int \<times> int) list" where
  "neighbours q = [(fst q - 1, snd q), (fst q + 1, snd q), (fst q, snd q - 1), (fst q, snd q + 1)]"

definition floodGood :: "Engine \<Rightarrow> int \<times> int \<Rightarrow> int \<times> int \<Rightarrow> bool" where
  "floodGood e start q \<longleftrightarrow>
     onBoard (fst q) (snd q) \<and> (q = start \<or> evalOptimisticallyTraversable (elementOn e (fst q) (snd q)))"

interpretation flood: worklist start "floodGood e start" neighbours for start e
proof unfold_locales
  have "{q. floodGood e start q} \<subseteq> squares" by (auto simp: floodGood_def squares_def onBoard_def)
  then show "finite {q. floodGood e start q}" by (rule finite_subset) simp
qed

text \<open>One step of a player: to a neighbouring square of the board that can be entered.\<close>

definition stepsOn :: "TBoard \<Rightarrow> ((int \<times> int) \<times> (int \<times> int)) set" where
  "stepsOn b = {(p, q). q \<in> set (neighbours p) \<and> onBoard (fst q) (snd q) \<and>
     evalOptimisticallyTraversable (Element (Tiles b (fst q) (snd q)))}"

lemma flood_reach: "flood.reach start e = (if onBoard (fst start) (snd start) then {q. (start, q) \<in> (stepsOn (Board e))\<^sup>*} else {})"
proof -
  let ?r = "{(p, q). q \<in> set (neighbours p) \<and> floodGood e start q}"
  have "(start, q) \<in> ?r\<^sup>* \<longleftrightarrow> (start, q) \<in> (stepsOn (Board e))\<^sup>*" for q
  proof
    assume "(start, q) \<in> ?r\<^sup>*"
    then show "(start, q) \<in> (stepsOn (Board e))\<^sup>*"
    proof (induction rule: rtrancl_induct)
      case (step p q)
      then show ?case
        by (cases "q = start") (auto simp: stepsOn_def floodGood_def intro: rtrancl.rtrancl_into_rtrancl)
    qed simp
  next
    have "stepsOn (Board e) \<subseteq> ?r" by (auto simp: stepsOn_def floodGood_def)
    then show "(start, q) \<in> (stepsOn (Board e))\<^sup>* \<Longrightarrow> (start, q) \<in> ?r\<^sup>*" using rtrancl_mono by blast
  qed
  then show ?thesis by (auto simp: flood.reach_def floodGood_def)
qed

lemma floodLoop_step:
  "floodLoop e start [] reached = reached"
  "\<not> (floodGood e start q \<and> q \<notin> reached) \<Longrightarrow> floodLoop e start (q # qs) reached = floodLoop e start qs reached"
  "floodGood e start q \<Longrightarrow> q \<notin> reached \<Longrightarrow>
     floodLoop e start (q # qs) reached = floodLoop e start (qs @ neighbours q) (insert q reached)"
proof -
  show "floodLoop e start [] reached = reached" by (subst floodLoop.simps) simp
  show "floodLoop e start (q # qs) reached = floodLoop e start qs reached" if "\<not> (floodGood e start q \<and> q \<notin> reached)"
    using that by (subst floodLoop.simps) (cases q, auto simp: floodGood_def)
  show "floodLoop e start (q # qs) reached = floodLoop e start (qs @ neighbours q) (insert q reached)"
    if "floodGood e start q" "q \<notin> reached"
    using that by (subst floodLoop.simps) (cases q, auto simp: floodGood_def neighbours_def)
qed

lemma floodLoop_finds: "flood.searching start e reached queue \<Longrightarrow> floodLoop e start queue reached = flood.reach start e"
proof (induction rule: flood.search_induct)
  case (Nil V)
  then show ?case using flood.found_all by (simp add: floodLoop_step)
next
  case (Skip V q Q)
  then show ?case by (simp add: floodLoop_step)
next
  case (Visit V q Q)
  then show ?case by (simp add: floodLoop_step)
qed

text \<open>
  C16. The flood fill of a board finds exactly the squares a player can walk to from the start, step by step
  over squares that can be entered; none when the start is off the board.
\<close>

theorem flood_is_reachability:
  "evalFloodBoard e start = (if onBoard (fst start) (snd start) then {q. (start, q) \<in> (stepsOn (Board e))\<^sup>*} else {})"
  unfolding evalFloodBoard_def flood_reach [symmetric] by (rule floodLoop_finds [OF flood.start_search])

section \<open>The boards a player can reach\<close>

text \<open>
  A world whose boards are packed images of \<open>B\<close>, each with its stats on the array of tiles and its programs told
  apart by their text: what \<open>BoardClose\<close> leaves behind.
\<close>

definition holdsBoards :: "(int \<Rightarrow> TBoard) \<Rightarrow> TWorld \<Rightarrow> bool" where
  "holdsBoards B w \<longleftrightarrow>
     BoardCount w \<le> MAX_BOARD \<and>
     (\<forall>i\<in>{0..BoardCount w}. BoardData w i = boardBytes (B i) \<and> packable (B i) \<and> readable (B i) \<and>
        (\<forall>k\<in>{0..StatCount (B i)}. inTiles (sX (Stats (B i) k)) (sY (Stats (B i) k))))"

lemma opened:
  assumes "holdsBoards B (World e)" and "0 \<le> n" and "n \<le> BoardCount (World e)"
  obtains e' where "BoardOpen n e = Some e'" and "Board e' = reopened (Board e) (B n)" and "holdsBoards B (World e')"
    and "BoardCount (World e') = BoardCount (World e)"
proof -
  have "packable (B n)" "readable (B n)" "BoardData (World e) n = boardBytes (B n)" "inBoards n"
    using assms by (auto simp: holdsBoards_def inBoards_def)
  then have "BoardOpen n e = Some (modWorldInfo (\<lambda>w. w\<lparr>CurrentBoard := n\<rparr>)
      (e\<lparr>ScrollAudience := (\<lambda>_. 0), Board := reopened (Board e) (B n)\<rparr>))"
    using assms(3) by (intro BoardOpen_eq)
  moreover have "holdsBoards B (World (modWorldInfo (\<lambda>w. w\<lparr>CurrentBoard := n\<rparr>)
      (e\<lparr>ScrollAudience := (\<lambda>_. 0), Board := reopened (Board e) (B n)\<rparr>)))"
    using assms(1) by (simp add: holdsBoards_def modWorldInfo_def)
  ultimately show thesis using that by (simp add: modWorldInfo_def)
qed

text \<open>A stat of the opened board is the packed one, but for its program.\<close>

lemma reopened_stat:
  assumes "0 \<le> k" and "k \<le> StatCount b"
  obtains d n where "Stats (reopened old b) k = (Stats b k)\<lparr>Data := d, DataLen := n\<rparr>"
proof -
  have "Stats (reopened old b) k = restored (Stats b) k (restoredStats (Stats b) (Stats old) (nat k))"
    using restoredStats_at [of "nat k" "nat (StatCount b + 1)" "Stats b" "Stats old"] assms by (simp add: reopened_def)
  moreover have "\<exists>d n. restored (Stats b) k T = (Stats b k)\<lparr>Data := d, DataLen := n\<rparr>" for T
  proof -
    consider "storedLen (Stats b) k > 0" | "storedLen (Stats b) k < 0" | "storedLen (Stats b) k = 0" by linarith
    then show ?thesis
    proof cases
      case 1
      then show ?thesis
        by (intro exI [of _ "Data (Stats b k)"] exI [of _ "DataLen (Stats b k)"]) (simp add: restored_def)
    next
      case 2
      then show ?thesis by (auto simp: restored_def Let_def)
    next
      case 3
      then show ?thesis
        by (intro exI [of _ "Data (T k)"] exI [of _ "DataLen (Stats b k)"]) (simp add: restored_def)
    qed
  qed
  ultimately show thesis using that by metis
qed

definition passageAt :: "TBoard \<Rightarrow> int \<Rightarrow> bool" where
  "passageAt b k \<longleftrightarrow>
     onBoard (sX (Stats b k)) (sY (Stats b k)) \<and> Element (Tiles b (sX (Stats b k)) (sY (Stats b k))) = E_PASSAGE"

text \<open>The boards one can go to from a board: over its edges and through its passages.\<close>

definition roadsOf :: "TBoard \<Rightarrow> int list" where
  "roadsOf b =
     filter (\<lambda>n. n \<noteq> 0) (map (NeighborBoards (bInfo b)) [0..3] @
       map (\<lambda>k. if passageAt b k then P3 (Stats b k) else 0) [0..StatCount b])"

definition finaleOn :: "(int \<Rightarrow> int) \<Rightarrow> TBoard \<Rightarrow> bool" where
  "finaleOn upper b \<longleftrightarrow> (\<exists>k\<in>{0..StatCount b}. 0 < DataLen (Stats b k) \<and> mentionsEndgame upper (Data (Stats b k)))"

lemma foldM_links:
  assumes "\<And>k. k \<in> set ks \<Longrightarrow> f k = (\<lambda>(q, h). Some (q @ g k, h \<or> m k))"
  shows "foldM f ks (q, h) = Some (q @ concat (map g ks), h \<or> (\<exists>k\<in>set ks. m k))"
  using assms by (induction ks arbitrary: q h) simp_all

lemma boardLinks_eq:
  assumes "Board e = reopened old b" and "packable b" and "\<forall>k\<in>{0..StatCount b}. inTiles (sX (Stats b k)) (sY (Stats b k))"
  shows "boardLinks upper e = Some (roadsOf b, \<exists>k\<in>{0..StatCount b}. mentionsEndgame upper (Data (Stats (Board e) k)))"
proof -
  have sc: "StatCount (Board e) = StatCount b" "StatCount b \<le> 150" using assms(1,2) by (simp_all add: reopened_def packable_def)
  let ?body = "\<lambda>i (queue, hasEndgame). do {
         s \<leftarrow> statAt i e; tile \<leftarrow> tileAt (sX s) (sY s) e;
         Some (if Element tile = E_PASSAGE \<and> P3 s \<noteq> 0 then queue @ [P3 s] else queue,
               hasEndgame \<or> mentionsEndgame upper (Data s)) }"
  have body: "?body k = (\<lambda>(q, h). Some (q @ (if passageAt b k \<and> P3 (Stats b k) \<noteq> 0 then [P3 (Stats b k)] else []),
      h \<or> mentionsEndgame upper (Data (Stats (Board e) k))))" if "k \<in> set [0..StatCount b]" for k
  proof -
    have k: "0 \<le> k" "k \<le> StatCount b" using that by simp_all
    obtain d n where s: "Stats (Board e) k = (Stats b k)\<lparr>Data := d, DataLen := n\<rparr>"
      unfolding assms(1) using reopened_stat k by blast
    have "tileAt (sX (Stats b k)) (sY (Stats b k)) e = Some (Tiles (Board e) (sX (Stats b k)) (sY (Stats b k)))"
      using assms(3) k by (simp add: tileAt_def)
    moreover have "Element (Tiles (Board e) (sX (Stats b k)) (sY (Stats b k))) = E_PASSAGE \<longleftrightarrow> passageAt b k"
      using assms(3) k by (auto simp: assms(1) reopened_def passageAt_def TileBoardEdge_def)
    ultimately show ?thesis using k sc by (auto simp: statAt_def inStats_def s)
  qed
  have nb: "map (NeighborBoards (bInfo (Board e))) [0..3] = map (NeighborBoards (bInfo b)) [0..3]"
    by (simp add: assms(1) reopened_def mergeBoardInfo_def)
  have cc: "concat (map (\<lambda>k. if passageAt b k \<and> P3 (Stats b k) \<noteq> 0 then [P3 (Stats b k)] else []) ks) =
      filter (\<lambda>n. n \<noteq> 0) (map (\<lambda>k. if passageAt b k then P3 (Stats b k) else 0) ks)" for ks
    by (induction ks) auto
  show ?thesis
    unfolding boardLinks_def sc(1)
    using foldM_links [of "[0..StatCount b]" ?body, OF body]
    by (simp add: nb cc roadsOf_def del: upto_0_numeral)
qed

text \<open>The boards in \<open>1..N\<close> that can be reached from board 1.\<close>

definition boardsFrom1 :: "(int \<Rightarrow> TBoard) \<Rightarrow> int \<Rightarrow> int set" where
  "boardsFrom1 B N = {b. (1, b) \<in> {(a, b). b \<in> set (roadsOf (B a)) \<and> 1 \<le> b \<and> b \<le> N}\<^sup>*}"

interpretation boards: worklist "1::int" "\<lambda>b. 1 \<le> b \<and> b \<le> N" "\<lambda>b. roadsOf (B b)" for N B
proof unfold_locales
  have "{q. 1 \<le> q \<and> q \<le> N} = {1..N}" by auto
  then show "finite {q. 1 \<le> q \<and> q \<le> N}" by simp
qed

lemma boards_reach: "1 \<le> N \<Longrightarrow> boards.reach N B = boardsFrom1 B N"
  by (simp add: boards.reach_def boardsFrom1_def)

definition keepsFinale :: "(int \<Rightarrow> int) \<Rightarrow> (int \<Rightarrow> TBoard) \<Rightarrow> int set \<Rightarrow> string list \<Rightarrow> bool" where
  "keepsFinale upper B V names \<longleftrightarrow> ((\<exists>b\<in>V. finaleOn upper (B b)) \<longrightarrow> names \<noteq> [])"

lemma walkBoards_skip:
  "\<not> (1 \<le> b \<and> b \<le> BoardCount (World e) \<and> b \<notin> V) \<Longrightarrow> walkBoards upper V (b # Q) names e = walkBoards upper V Q names e"
  by (subst walkBoards.simps) auto

lemma finale_seen:
  assumes "Board e = reopened old b" and "packable b" and "distinctPrograms b" and "finaleOn upper b"
  shows "\<exists>k\<in>{0..StatCount b}. mentionsEndgame upper (Data (Stats (Board e) k))"
proof -
  obtain k where k: "k \<in> {0..StatCount b}" "0 < DataLen (Stats b k)" "mentionsEndgame upper (Data (Stats b k))"
    using assms(4) by (auto simp: finaleOn_def)
  then have "Data (Stats (Board e) k) = Data (Stats b k)"
    using restoredStats_distinct [OF assms(2,3), of k "Stats old"] by (simp add: assms(1) reopened_def)
  with k show ?thesis by metis
qed

lemma walkBoards_finds:
  assumes "boards.searching N B V Q" and "\<forall>b\<in>{1..N}. distinctPrograms (B b)"
    and "holdsBoards B (World e)" and "BoardCount (World e) = N" and "keepsFinale upper B V names"
  shows "\<exists>names' e'. walkBoards upper V Q names e = Some (boards.reach N B, names', e') \<and>
     keepsFinale upper B (boards.reach N B) names' \<and> (names \<noteq> [] \<longrightarrow> names' \<noteq> [])"
  using assms(1,3-5)
proof (induction arbitrary: e names rule: boards.search_induct)
  case (Nil V)
  have "walkBoards upper V [] names e = Some (V, names, e)" by (subst walkBoards.simps) simp
  then show ?case using Nil boards.found_all by auto
next
  case (Skip V b Q)
  then show ?case by (simp add: walkBoards_skip)
next
  case (Visit V b Q)
  note b = \<open>1 \<le> b \<and> b \<le> N\<close>
  obtain e1 where e1: "BoardOpen b e = Some e1" "Board e1 = reopened (Board e) (B b)" "holdsBoards B (World e1)"
    "BoardCount (World e1) = N"
    using opened [OF Visit.prems(1), of b] b Visit.prems(2) by (metis order_trans zero_le_one)
  have pb: "packable (B b)" "\<forall>k\<in>{0..StatCount (B b)}. inTiles (sX (Stats (B b) k)) (sY (Stats (B b) k))"
    using Visit.prems(1,2) b by (auto simp: holdsBoards_def)
  let ?has = "\<exists>k\<in>{0..StatCount (B b)}. mentionsEndgame upper (Data (Stats (Board e1) k))"
  let ?names = "if ?has then names @ [bName (Board e1)] else names"
  have "finaleOn upper (B b) \<Longrightarrow> ?has" using finale_seen [OF e1(2) pb(1)] assms(2) b by simp
  then have keep: "keepsFinale upper B (insert b V) ?names" using Visit.prems(3) by (auto simp: keepsFinale_def)
  from Visit.IH [OF refl e1(3,4) keep] obtain names' e' where
    w: "walkBoards upper (insert b V) (Q @ roadsOf (B b)) ?names e1 = Some (boards.reach N B, names', e')"
      "keepsFinale upper B (boards.reach N B) names'" and ne: "?names \<noteq> [] \<Longrightarrow> names' \<noteq> []" by blast
  have "names \<noteq> [] \<Longrightarrow> names' \<noteq> []" by (rule ne) simp
  moreover have "walkBoards upper V (b # Q) names e = walkBoards upper (insert b V) (Q @ roadsOf (B b)) ?names e1"
    using b Visit.hyps Visit.prems(2) by (subst walkBoards.simps) (simp add: e1(1) boardLinks_eq [OF e1(2) pb])
  ultimately show ?case using w by simp
qed

text \<open>
  C17. The walk of the gate returns and visits exactly the boards that can be reached from board 1 over edges
  and through passages; a program that ends the game on one of them is found.
\<close>

theorem walk_finds_finale:
  assumes "holdsBoards B (World e)" and "1 \<le> BoardCount (World e)"
    and "\<forall>b\<in>{1..BoardCount (World e)}. distinctPrograms (B b)"
  shows "\<exists>names e'. walkBoards upper {} [1] [] e = Some (boardsFrom1 B (BoardCount (World e)), names, e') \<and>
     reachableEndgame upper e = Some (names \<noteq> [], e') \<and>
     ((\<exists>b\<in>boardsFrom1 B (BoardCount (World e)). finaleOn upper (B b)) \<longrightarrow> names \<noteq> [])"
proof -
  have "keepsFinale upper B {} []" by (simp add: keepsFinale_def)
  from walkBoards_finds [OF boards.start_search assms(3,1) refl this]
  show ?thesis using assms(2) by (auto simp: boards_reach keepsFinale_def reachableEndgame_def)
qed

section \<open>The routes of a board\<close>

lemma stepsOn_reopened: "stepsOn (reopened old b) = stepsOn b"
  by (auto simp: stepsOn_def reopened_def)

definition canReach :: "TBoard \<Rightarrow> int \<times> int \<Rightarrow> bool" where
  "canReach b q \<longleftrightarrow>
     onBoard (sX (Stats b 0)) (sY (Stats b 0)) \<and> ((sX (Stats b 0), sY (Stats b 0)), q) \<in> (stepsOn b)\<^sup>*"

definition onEdge :: "int \<Rightarrow> int \<times> int \<Rightarrow> bool" where
  "onEdge exit q \<longleftrightarrow>
     (if exit = 0 then snd q = 1 else if exit = 1 then snd q = BOARD_HEIGHT
      else if exit = 2 then fst q = 1 else fst q = BOARD_WIDTH)"

text \<open>Every exit, key and passage of the board can be walked to from the square of its player.\<close>

definition routesOpen :: "TBoard \<Rightarrow> bool" where
  "routesOpen b \<longleftrightarrow>
     (\<forall>exit\<in>{0..3}. NeighborBoards (bInfo b) exit \<noteq> 0 \<longrightarrow> (\<exists>q. canReach b q \<and> onEdge exit q)) \<and>
     (\<forall>x y. onBoard x y \<longrightarrow> Element (Tiles b x y) = E_KEY \<longrightarrow> canReach b (x, y)) \<and>
     (\<forall>k\<in>{1..StatCount b}. passageAt b k \<longrightarrow> canReach b (sX (Stats b k), sY (Stats b k)))"

lemma foldM_collects:
  "(\<And>k ps. k \<in> set ks \<Longrightarrow> f k ps = Some (ps @ g k)) \<Longrightarrow> foldM f ks ps = Some (ps @ concat (map g ks))"
  by (induction ks arbitrary: ps) simp_all

lemma in_exits: "exit \<in> {0..3} \<longleftrightarrow> exit = 0 \<or> exit = 1 \<or> exit = 2 \<or> exit = (3::int)"
  by auto

lemma exitProblems_open:
  assumes "exitProblems e {q. canReach b q} = []" and "\<forall>i\<in>{0..3}. NeighborBoards (bInfo (Board e)) i = NeighborBoards (bInfo b) i"
    and "exit \<in> {0..3}" and "NeighborBoards (bInfo b) exit \<noteq> 0"
  shows "\<exists>q. canReach b q \<and> onEdge exit q"
proof -
  have "exitProblem e {q. canReach b q} exit = []"
    using assms(1,3) by (simp add: exitProblems_def del: upto_0_numeral)
  moreover have "NeighborBoards (bInfo (Board e)) exit \<noteq> 0" using assms(2-4) by simp
  ultimately have found: "if exit = 0 \<or> exit = 1 then list_ex (\<lambda>x. canReach b (x, if exit = 1 then 25 else 1)) [1..60]
      else list_ex (\<lambda>y. canReach b (if exit = 3 then 60 else 1, y)) [1..25]"
    by (simp add: exitProblem_def Let_def del: upto_1_numeral split: if_splits)
  show ?thesis
  proof (cases "exit = 0 \<or> exit = 1")
    case True
    with found have "list_ex (\<lambda>x. canReach b (x, if exit = 1 then 25 else 1)) [1..60]" by (simp del: upto_1_numeral)
    then obtain x where "canReach b (x, if exit = 1 then 25 else 1)" unfolding list_ex_iff by blast
    moreover have "onEdge exit (x, if exit = 1 then 25 else 1)" using True by (auto simp: onEdge_def)
    ultimately show ?thesis by blast
  next
    case False
    with found have "list_ex (\<lambda>y. canReach b (if exit = 3 then 60 else 1, y)) [1..25]" by (simp del: upto_1_numeral)
    then obtain y where "canReach b (if exit = 3 then 60 else 1, y)" unfolding list_ex_iff by blast
    moreover have "onEdge exit (if exit = 3 then 60 else 1, y)" using False assms(3) by (auto simp: onEdge_def in_exits)
    ultimately show ?thesis by blast
  qed
qed

lemma concat_map_Nil: "concat (map f xs) = [] \<Longrightarrow> x \<in> set xs \<Longrightarrow> f x = []"
  by (induction xs) auto

lemma keyProblems_open:
  assumes "keyProblems e R = []" and "onBoard x y" and "elementOn e x y = E_KEY"
  shows "(x, y) \<in> R"
proof -
  have "x \<in> set [1..60]" "y \<in> set [1..25]" using assms(2) by (simp_all add: onBoard_def del: upto_1_numeral)
  from concat_map_Nil [OF concat_map_Nil [OF assms(1) [unfolded keyProblems_def] this(2)] this(1)] assms(3)
  show ?thesis by (simp split: if_splits)
qed

lemma boardProblems_open:
  assumes "Board e = reopened old b" and "packable b" and "\<forall>k\<in>{0..StatCount b}. inTiles (sX (Stats b k)) (sY (Stats b k))"
  obtains ps where "boardProblems upper e = Some ps" and "ps = [] \<Longrightarrow> routesOpen b"
proof -
  have sc: "StatCount (Board e) = StatCount b" "StatCount b \<le> 150" "0 \<le> StatCount b"
    using assms(1,2) by (simp_all add: reopened_def packable_def)
  have nb: "\<forall>i\<in>{0..3}. NeighborBoards (bInfo (Board e)) i = NeighborBoards (bInfo b) i"
    by (simp add: assms(1) reopened_def mergeBoardInfo_def)
  have stat: "\<exists>d n. statAt k e = Some ((Stats b k)\<lparr>Data := d, DataLen := n\<rparr>)" if k: "0 \<le> k" "k \<le> StatCount b" for k
  proof -
    obtain d n where "Stats (Board e) k = (Stats b k)\<lparr>Data := d, DataLen := n\<rparr>"
      unfolding assms(1) using reopened_stat k by blast
    moreover have "statAt k e = Some (Stats (Board e) k)" using k sc by (simp add: statAt_def inStats_def)
    ultimately show ?thesis by metis
  qed
  obtain d0 n0 where s0: "statAt 0 e = Some ((Stats b 0)\<lparr>Data := d0, DataLen := n0\<rparr>)" using stat sc(3) by blast
  let ?reached = "evalFloodBoard e (sX (Stats b 0), sY (Stats b 0))"
  have reached: "?reached = {q. canReach b q}"
    by (auto simp: flood_is_reachability canReach_def assms(1) stepsOn_reopened)
  let ?tile = "\<lambda>k. Tiles (Board e) (sX (Stats b k)) (sY (Stats b k))"
  have tile: "tileAt (sX (Stats b k)) (sY (Stats b k)) e = Some (?tile k)" if "0 \<le> k" "k \<le> StatCount b" for k
    using assms(3) that by (simp add: tileAt_def)
  define D where "D k = Data (the (statAt k e))" for k
  define g where "g k = (if (sX (Stats b k), sY (Stats b k)) \<in> ?reached then []
      else if Element (?tile k) = E_PASSAGE then [SealedPassage (sX (Stats b k)) (sY (Stats b k))]
      else if mentionsEndgame upper (D k) then [SealedFinale (sX (Stats b k)) (sY (Stats b k))] else [])" for k
  have sp: "statProblems upper e ?reached = Some (concat (map g [1..StatCount b]))"
    unfolding statProblems_def sc(1)
  proof (subst foldM_collects [where g = g])
    fix k ps assume "k \<in> set [1..StatCount b]"
    then have k: "0 \<le> k" "k \<le> StatCount b" by simp_all
    obtain d n where "statAt k e = Some ((Stats b k)\<lparr>Data := d, DataLen := n\<rparr>)" using stat [OF k] by blast
    with tile [OF k] show "do { s \<leftarrow> statAt k e; tile \<leftarrow> tileAt (sX s) (sY s) e;
         Some (if (sX s, sY s) \<in> ?reached then ps
               else if Element tile = E_PASSAGE then ps @ [SealedPassage (sX s) (sY s)]
               else if mentionsEndgame upper (Data s) then ps @ [SealedFinale (sX s) (sY s)]
               else ps) } = Some (ps @ g k)"
      by (simp add: g_def D_def)
  qed simp
  let ?ps = "exitProblems e ?reached @ keyProblems e ?reached @ concat (map g [1..StatCount b])"
  have "boardProblems upper e = Some ?ps" using s0 sp by (simp add: boardProblems_def Let_def)
  moreover have "routesOpen b" if none: "?ps = []"
    unfolding routesOpen_def
  proof (intro conjI ballI allI impI)
    have none: "exitProblems e ?reached = []" "keyProblems e ?reached = []" "concat (map g [1..StatCount b]) = []"
      using none by (simp_all only: append_is_Nil_conv)
    show "\<exists>q. canReach b q \<and> onEdge exit q" if "exit \<in> {0..3}" "NeighborBoards (bInfo b) exit \<noteq> 0" for exit
      by (rule exitProblems_open [OF none(1) [unfolded reached] nb that])
    show "canReach b (x, y)" if "onBoard x y" "Element (Tiles b x y) = E_KEY" for x y
    proof -
      have "elementOn e x y = E_KEY" using that by (simp add: assms(1) reopened_def)
      with keyProblems_open [OF none(2) that(1)] show ?thesis by (simp add: reached)
    qed
    show "canReach b (sX (Stats b k), sY (Stats b k))" if "k \<in> {1..StatCount b}" "passageAt b k" for k
    proof -
      have "Element (?tile k) = E_PASSAGE" using that(2) by (simp add: assms(1) reopened_def passageAt_def)
      moreover have "g k = []" by (rule concat_map_Nil [OF none(3)]) (use that(1) in simp)
      ultimately show ?thesis by (auto simp: g_def reached split: if_splits)
    qed
  qed
  ultimately show thesis by (rule that)
qed

text \<open>The sweeps over the boards.\<close>

definition sweeping :: "(int \<Rightarrow> TBoard) \<Rightarrow> int \<Rightarrow> Engine \<Rightarrow> bool" where
  "sweeping B N e \<longleftrightarrow> holdsBoards B (World e) \<and> BoardCount (World e) = N"

lemma sweep_opens:
  assumes "sweeping B N e" and "b \<in> {1..N}"
  obtains e' where "BoardOpen b e = Some e'" and "Board e' = reopened (Board e) (B b)" and "sweeping B N e'"
  using opened [of B e b] assms by (auto simp: sweeping_def)

lemma takeUntil_Nil: "takeUntil cap ps found = [] \<Longrightarrow> ps = [] \<and> found = []"
  by (induction ps arbitrary: found) (auto split: if_splits)

lemma collect_sweep:
  assumes "set bs \<subseteq> {1..N}" and "sweeping B N e"
  shows "\<exists>problems' e'. foldM (\<lambda>board (problems, e). do {
         e \<leftarrow> BoardOpen board e;
         ps \<leftarrow> boardProblems upper e;
         Some (addProblems (bName (Board e)) ps problems, e) }) bs (problems, e) = Some (problems', e') \<and> sweeping B N e' \<and>
      (\<forall>name. problems' name = [] \<longrightarrow> problems name = []) \<and>
      (\<forall>b\<in>set bs. problems' (bName (B b)) = [] \<longrightarrow> routesOpen (B b))"
  using assms
proof (induction bs arbitrary: problems e)
  case (Cons b bs)
  obtain e1 where e1: "BoardOpen b e = Some e1" "Board e1 = reopened (Board e) (B b)" "sweeping B N e1"
    using sweep_opens [OF Cons.prems(2), of b] Cons.prems(1) by auto
  have "packable (B b)" "\<forall>k\<in>{0..StatCount (B b)}. inTiles (sX (Stats (B b) k)) (sY (Stats (B b) k))"
    using Cons.prems by (auto simp: sweeping_def holdsBoards_def)
  from boardProblems_open [OF e1(2) this] obtain ps where
    ps: "boardProblems upper e1 = Some ps" "ps = [] \<Longrightarrow> routesOpen (B b)" by blast
  let ?p = "addProblems (bName (Board e1)) ps problems"
  from Cons.IH [OF _ e1(3), of ?p] Cons.prems(1) obtain problems' e' where
    ih: "foldM (\<lambda>board (problems, e). do {
         e \<leftarrow> BoardOpen board e;
         ps \<leftarrow> boardProblems upper e;
         Some (addProblems (bName (Board e)) ps problems, e) }) bs (?p, e1) = Some (problems', e')"
      "sweeping B N e'" "\<forall>name. problems' name = [] \<longrightarrow> ?p name = []"
      "\<forall>b\<in>set bs. problems' (bName (B b)) = [] \<longrightarrow> routesOpen (B b)" by auto
  have name: "bName (Board e1) = bName (B b)" by (simp add: e1(2) reopened_def)
  have "problems' (bName (B b)) = [] \<longrightarrow> routesOpen (B b)"
    using ih(3) ps(2) name by (auto simp: addProblems_def)
  moreover have "\<forall>name. problems' name = [] \<longrightarrow> problems name = []"
    using ih(3) by (auto simp: addProblems_def split: if_splits)
  ultimately show ?case using ih e1(1) ps(1) by simp
qed simp

lemma list_sweep:
  assumes "set bs \<subseteq> {1..N}" and "sweeping B N e"
  shows "\<exists>problems' e'. foldM (\<lambda>board (problems, e). do {
         e \<leftarrow> BoardOpen board e;
         Some (takeUntil 8 (map (\<lambda>p. (board, p)) (byBoard (bName (Board e)))) problems, e) }) bs (problems, e) =
        Some (problems', e') \<and>
      (problems' = [] \<longrightarrow> problems = [] \<and> (\<forall>b\<in>set bs. byBoard (bName (B b)) = []))"
  using assms
proof (induction bs arbitrary: problems e)
  case (Cons b bs)
  obtain e1 where e1: "BoardOpen b e = Some e1" "Board e1 = reopened (Board e) (B b)" "sweeping B N e1"
    using sweep_opens [OF Cons.prems(2), of b] Cons.prems(1) by auto
  have name: "bName (Board e1) = bName (B b)" by (simp add: e1(2) reopened_def)
  let ?p = "takeUntil 8 (map (\<lambda>p. (b, p)) (byBoard (bName (B b)))) problems"
  from Cons.IH [OF _ e1(3), of ?p] Cons.prems(1) show ?case
    using takeUntil_Nil [of 8 "map (\<lambda>p. (b, p)) (byBoard (bName (B b)))" problems] e1(1) by (auto simp: name)
qed simp

lemma evalBoardRoutes_open:
  assumes "holdsBoards B (World e)"
  shows "\<exists>c e'. evalBoardRoutes upper e = Some (c, e') \<and> (ecPassed c \<longrightarrow> (\<forall>b\<in>{1..BoardCount (World e)}. routesOpen (B b)))"
proof -
  let ?N = "BoardCount (World e)"
  have "sweeping B ?N e" using assms by (simp add: sweeping_def)
  from collect_sweep [OF _ this, of "[1..?N]" upper "\<lambda>_. []"] obtain byBoard e1 where
    1: "evalBoardRouteProblems upper e = Some (byBoard, e1)" "sweeping B ?N e1"
      "\<forall>b\<in>{1..?N}. byBoard (bName (B b)) = [] \<longrightarrow> routesOpen (B b)"
    by (auto simp: evalBoardRouteProblems_def)
  have "BoardCount (World e1) = ?N" using 1(2) by (simp add: sweeping_def)
  with list_sweep [OF _ 1(2), of "[1..?N]" byBoard "[]"] 1(1,3) show ?thesis by (auto simp: evalBoardRoutes_def)
qed

lemma compiled_boards:
  assumes "compiledTo doc w" and "\<forall>b\<in>set (zdBoards doc). goodBoard b" and "length (zdBoards doc) \<le> 101"
  obtains B where "holdsBoards B w" and "\<forall>i<length (zdBoards doc). laidOut (boardIDsOf (zdBoards doc)) (zdBoards doc ! i) (B (int i))"
proof -
  let ?bs = "zdBoards doc" and ?ids = "boardIDsOf (zdBoards doc)"
  have "\<forall>i<length ?bs. \<exists>b. BoardData w (int i) = boardBytes b \<and> packable b \<and> readable b \<and> laidOut ?ids (?bs ! i) b"
    using assms(1) unfolding compiledTo_def packedAs_def by blast
  then obtain f where f: "\<And>i. i < length ?bs \<Longrightarrow> BoardData w (int i) = boardBytes (f i) \<and> packable (f i) \<and> readable (f i) \<and>
      laidOut ?ids (?bs ! i) (f i)" by metis
  have stats: "inTiles (sX (Stats (f i) k)) (sY (Stats (f i) k))" if i: "i < length ?bs" and k: "k \<in> {0..StatCount (f i)}" for i k
  proof -
    have good: "goodBoard (?bs ! i)" using assms(2) i by simp
    have d: "laidOut ?ids (?bs ! i) (f i)" using f [OF i] by simp
    show ?thesis
    proof (cases "k = 0")
      case True
      have "sX (Stats (f i) 0) = zbStartX (?bs ! i) \<and> sY (Stats (f i) 0) = zbStartY (?bs ! i)"
        using d unfolding laidOut_def by blast
      moreover have "zbStartX (?bs ! i) = 0 \<and> zbStartY (?bs ! i) = 0 \<or> onBoard (zbStartX (?bs ! i)) (zbStartY (?bs ! i))"
        using good unfolding goodBoard_def by blast
      ultimately show ?thesis using True by (auto simp: onBoard_def inTiles_def)
    next
      case False
      with k d have n: "nat (k - 1) < length (zbStats (?bs ! i))" "int (nat (k - 1)) + 1 = k" by (auto simp: laidOut_def)
      then have "statFits ?ids (zbStats (?bs ! i) ! nat (k - 1)) (Stats (f i) k)" using d by (metis laidOut_def)
      moreover have "goodStat (zbStats (?bs ! i) ! nat (k - 1))" using good n(1) by (simp add: goodBoard_def)
      ultimately show ?thesis by (auto simp: statFits_def goodStat_def onBoard_def inTiles_def)
    qed
  qed
  have "holdsBoards (\<lambda>i. f (nat i)) w"
    unfolding holdsBoards_def
  proof (intro conjI ballI)
    show "BoardCount w \<le> 100" using assms(1,3) by (simp add: compiledTo_def)
    fix i assume i: "i \<in> {0..BoardCount w}"
    then have "nat i < length ?bs" "int (nat i) = i" using assms(1) by (auto simp: compiledTo_def)
    note fi = f [OF this(1)] stats [OF this(1)] this(2)
    show "BoardData w i = boardBytes (f (nat i))" using fi(1,3) by simp
    show "packable (f (nat i))" "readable (f (nat i))" using fi(1) by blast+
    show "inTiles (sX (Stats (f (nat i)) k)) (sY (Stats (f (nat i)) k))" if "k \<in> {0..StatCount (f (nat i))}" for k
      by (rule fi(2) [OF that])
  qed
  then show thesis by (rule that) (use f in simp)
qed

text \<open>
  C15. The check of layouts returns for every text. When it passes, the text compiles, and on every board a
  player plays, every exit that leads somewhere, every key and every passage can be walked to.
\<close>

theorem layout_check_sound:
  "\<exists>c. EvalZWDLayoutRoutes upper src = Some c \<and>
     (if ecPassed c
      then \<exists>doc w B. parse (newZWDParser src) = Inr doc \<and> CompileZWDWorld src = Some (Inr w) \<and> holdsBoards B w \<and>
             list_all (\<lambda>i. laidOut (boardIDsOf (zdBoards doc)) (zdBoards doc ! i) (B (int i))) [0..<length (zdBoards doc)] \<and>
             list_all (\<lambda>i. routesOpen (B i)) [1..BoardCount w]
      else True)"
proof (cases "parse (newZWDParser src)")
  case (Inl err)
  then show ?thesis by (simp add: EvalZWDLayoutRoutes_def CompileZWDWorld_def)
next
  case (Inr doc)
  note good = parse_good [OF Inr]
  have c: "CompileZWDWorld src = compileZWDDocument doc" by (simp add: CompileZWDWorld_def Inr)
  from compileZWDDocument_settles [OF good] consider
    (refused) err where "compileZWDDocument doc = Some (Inl err)" | (ok) w where "compileZWDDocument doc = Some (Inr w)" "compiledTo doc w"
    by (auto simp: settles_def split: option.splits sum.splits)
  then show ?thesis
  proof cases
    case refused
    then show ?thesis by (simp add: EvalZWDLayoutRoutes_def c)
  next
    case ok
    have "length (zdBoards doc) \<le> 101"
    proof (rule ccontr)
      assume "\<not> ?thesis"
      then have "\<exists>err. compileZWDDocument doc = Some (Inl err)" by (simp add: compileZWDDocument_def)
      with ok(1) show False by simp
    qed
    from compiled_boards [OF ok(2) good(2) this] obtain B where B: "holdsBoards B w"
      "\<forall>i<length (zdBoards doc). laidOut (boardIDsOf (zdBoards doc)) (zdBoards doc ! i) (B (int i))" by blast
    let ?e = "NewEngine\<lparr>Headless := True, World := w\<rparr>"
    obtain c e' where ce: "evalBoardRoutes upper ?e = Some (c, e')"
      "ecPassed c \<longrightarrow> (\<forall>b\<in>{1..BoardCount w}. routesOpen (B b))"
      using evalBoardRoutes_open [of B ?e upper] B(1) by auto
    have "list_all (\<lambda>i. routesOpen (B i)) [1..BoardCount w]" if "ecPassed c"
      using ce(2) that by (simp add: list_all_iff)
    moreover have "list_all (\<lambda>i. laidOut (boardIDsOf (zdBoards doc)) (zdBoards doc ! i) (B (int i))) [0..<length (zdBoards doc)]"
      using B(2) by (simp add: list_all_iff)
    moreover have w: "CompileZWDWorld src = Some (Inr w)" using ok(1) c by simp
    moreover have run: "EvalZWDLayoutRoutes upper src = Some c" using ce(1) by (simp add: EvalZWDLayoutRoutes_def w)
    ultimately have "if ecPassed c
      then \<exists>doc w B. parse (newZWDParser src) = Inr doc \<and> CompileZWDWorld src = Some (Inr w) \<and> holdsBoards B w \<and>
             list_all (\<lambda>i. laidOut (boardIDsOf (zdBoards doc)) (zdBoards doc ! i) (B (int i))) [0..<length (zdBoards doc)] \<and>
             list_all (\<lambda>i. routesOpen (B i)) [1..BoardCount w]
      else True"
      using B(1) Inr by (cases "ecPassed c") (simp_all only: if_True if_False, blast)
    with run show ?thesis by blast
  qed
qed

section \<open>What the gate gets wrong\<close>

lemma sound_after_draw:
  assumes "BoardDrawTile x y e = Some e'" and "standing e" and "soundTransporters e"
  shows "standing e'" and "soundTransporters e'"
proof -
  note same = BoardDrawTile_keeps_board [OF assms(1)]
  have "CurrentTick e' = CurrentTick e"
    using drawn_rest_eq [of e e'] BoardDrawTile_drawn [OF draw.refl, of e x y] assms(1) by simp
  then show "standing e'" "soundTransporters e'"
    using assms(2,3) by (simp_all add: standing_def soundTransporters_def same)
qed

text \<open>
  C19. A boulder is a wall to the flood fill: its square is never reached. Yet a boulder with an empty square
  behind it gives way to a push, which leaves its square empty.
\<close>

theorem boulder_counts_as_wall:
  assumes "onBoard x y" and "onBoard (x + 2) y" and "elementOn e (x + 1) y = E_BOULDER" and "elementOn e (x + 2) y = E_EMPTY"
    and "GetStatIdAt (x + 1) y e = Some (-1)" and "standing e" and "soundTransporters e"
  shows "(x + 1, y) \<notin> evalFloodBoard e (x, y) \<and>
     (\<exists>e'. ElementPushablePush (x + 1) y 1 0 e = Some e' \<and> elementOn e' (x + 1) y = E_EMPTY \<and>
        (x + 1, y) \<in> evalFloodBoard e' (x, y))"
proof -
  have sq: "inTiles (x + 1) y" "inTiles (x + 2) y" "i16 (x + 2) = x + 2" "i16 y = y" "onBoard (x + 1) y"
    using assms(1,2) by (auto simp: onBoard_def inTiles_def)
  have wall: "\<not> evalOptimisticallyTraversable E_BOULDER"
    by (simp add: evalOptimisticallyTraversable_def ElementDef_defs)
  have free: "evalOptimisticallyTraversable E_EMPTY"
    by (simp add: evalOptimisticallyTraversable_def ElementDef_defs)
  have "(x + 1, y) \<notin> evalFloodBoard e (x, y)"
  proof
    assume "(x + 1, y) \<in> evalFloodBoard e (x, y)"
    then have "((x, y), (x + 1, y)) \<in> (stepsOn (Board e))\<^sup>*" using assms(1) by (simp add: flood_is_reachability)
    then show False by (rule rtranclE) (use wall assms(3) in \<open>auto simp: stepsOn_def\<close>)
  qed
  moreover
  let ?t = "Tiles (Board e) (x + 1) y"
  let ?e1 = "putTile (x + 2) y ?t e"
  have s1: "standing ?e1" "soundTransporters ?e1"
    using assms(3,6,7) by (auto simp: standing_def soundTransporters_def putTile_def Let_def)
  have "\<exists>e2. BoardDrawTile (x + 2) y ?e1 = Some e2"
    using assms(2,3) s1 by (intro drawing_total) (simp_all add: putTile_def)
  then obtain e2 where e2: "BoardDrawTile (x + 2) y ?e1 = Some e2" by blast
  let ?e3 = "putTile (x + 1) y (Tiles (Board e2) (x + 1) y\<lparr>Element := E_EMPTY\<rparr>) e2"
  have s3: "standing ?e3" "soundTransporters ?e3"
    using sound_after_draw [OF e2 s1] by (auto simp: standing_def soundTransporters_def putTile_def Let_def)
  have "\<exists>e4. BoardDrawTile (x + 1) y ?e3 = Some e4"
    using sq(5) s3 by (intro drawing_total) (simp_all add: putTile_def)
  then obtain e4 where e4: "BoardDrawTile (x + 1) y ?e3 = Some e4" by blast
  have "elementAt (x + 1) y e = Some E_BOULDER" "elementAt (x + 2) y e = Some E_EMPTY"
    using sq assms(3,4) by (simp_all add: elementAt_def tileAt_def)
  then have "ElementPushablePush (x + 1) y 1 0 e = Some e4"
    using sq assms(5) e2 e4
    by (subst ElementPushablePush_eq)
      (simp add: canPush_def pushInto_def walkableAt_def ElementMove_def setTile_def setElement_def tileAt_def
        ElementDef_defs add.assoc)
  moreover have empty: "elementOn e4 (x + 1) y = E_EMPTY"
    using BoardDrawTile_keeps_board(4) [OF e4] by (simp add: putTile_def)
  moreover have "(x + 1, y) \<in> evalFloodBoard e4 (x, y)"
  proof -
    have "((x, y), (x + 1, y)) \<in> stepsOn (Board e4)" using empty free sq(5) by (simp add: stepsOn_def neighbours_def)
    then show ?thesis using assms(1) by (auto simp: flood_is_reachability)
  qed
  ultimately show ?thesis by blast
qed

text \<open>
  C18. A finale on the title screen alone passes the gate, although no player ever plays there: board 1 is opened
  over it, a stat without a program keeps the text of the slot, and the walk reads that text.
\<close>

theorem title_finale_passes:
  assumes "holdsBoards B (World e)" and "1 \<le> BoardCount (World e)"
    and "\<forall>b\<in>{0..BoardCount (World e)}. distinctPrograms (B b)"
    and "finaleOn upper (B 0)" and "\<forall>k\<in>{0..StatCount (B 0)}. k \<le> StatCount (B 1) \<and> DataLen (Stats (B 1) k) = 0"
  shows "\<exists>e0 e'. BoardOpen 0 e = Some e0 \<and> reachableEndgame upper e0 = Some (True, e')"
proof -
  obtain e0 where e0: "BoardOpen 0 e = Some e0" "Board e0 = reopened (Board e) (B 0)" "holdsBoards B (World e0)"
    "BoardCount (World e0) = BoardCount (World e)"
    using opened [OF assms(1), of 0] assms(2) by auto
  obtain e1 where e1: "BoardOpen 1 e0 = Some e1" "Board e1 = reopened (Board e0) (B 1)" "holdsBoards B (World e1)"
    "BoardCount (World e1) = BoardCount (World e)"
    using opened [OF e0(3), of 1] e0(4) assms(2) by auto
  have pb: "packable (B b)" "\<forall>k\<in>{0..StatCount (B b)}. inTiles (sX (Stats (B b) k)) (sY (Stats (B b) k))"
    if "b \<in> {0, 1}" for b
    using assms(1,2) that by (auto simp: holdsBoards_def)
  obtain k where k: "k \<in> {0..StatCount (B 0)}" "mentionsEndgame upper (Data (Stats (Board e0) k))"
    using finale_seen [OF e0(2) pb(1) _ assms(4)] assms(2,3) by auto
  have k1: "k \<le> StatCount (B 1)" "DataLen (Stats (B 1) k) = 0" using assms(5) k(1) by auto
  have "Data (Stats (Board e1) k) = Data (Stats (Board e0) k)"
    using restoredStats_distinct [OF pb(1) [of 1], of k "Stats (Board e0)"] assms(2,3) k(1) k1
    by (simp add: e1(2) reopened_def)
  then have has: "\<exists>k\<in>{0..StatCount (B 1)}. mentionsEndgame upper (Data (Stats (Board e1) k))"
    using k k1(1) by force
  let ?N = "BoardCount (World e)"
  have s: "boards.searching ?N B ({1} \<union> {}) ([] @ roadsOf (B 1))"
    using boards.visit_step [OF boards.start_search, of ?N "roadsOf (B 1)" B] assms(2) by simp
  have "walkBoards upper {} [1] [] e0 = walkBoards upper {1} (roadsOf (B 1)) [bName (Board e1)] e1"
    using e0(4) e1 assms(2) has
    by (subst walkBoards.simps) (simp add: boardLinks_eq [OF e1(2) pb(1,2) [of 1]])
  moreover obtain names e' where "walkBoards upper {1} (roadsOf (B 1)) [bName (Board e1)] e1 = Some (boards.reach ?N B, names, e')"
    "names \<noteq> []"
    using walkBoards_finds [of ?N B "{1}" "roadsOf (B 1)" e1 upper "[bName (Board e1)]"] s assms(3) e1(3,4)
    by (auto simp: keepsFinale_def)
  ultimately show ?thesis using e0(1) by (simp add: reachableEndgame_def)
qed

section \<open>Examples\<close>

definition oneProgram :: "string \<Rightarrow> TBoard" where
  "oneProgram p = zeroBoard\<lparr>StatCount := 1, Stats := (\<lambda>_. zeroStat)(1 := zeroStat\<lparr>Data := p, DataLen := int (length p)\<rparr>)\<rparr>"

definition worldOf :: "(int \<Rightarrow> TBoard) \<Rightarrow> int \<Rightarrow> Engine" where
  "worldOf B n = NewEngine\<lparr>World := (World NewEngine)\<lparr>BoardCount := n, BoardData := (\<lambda>i. boardBytes (B i))\<rparr>\<rparr>"

lemma below_2: "i \<in> {0..1} \<longleftrightarrow> i = 0 \<or> i = 1" "i \<in> {1..1} \<longleftrightarrow> i = 1" for i :: int
  by auto

lemma oneProgram_sound:
  assumes "length p \<le> 1000"
  shows "packable (oneProgram p)" and "readable (oneProgram p)" and "distinctPrograms (oneProgram p)"
    and "\<forall>k\<in>{0..StatCount (oneProgram p)}. inTiles (sX (Stats (oneProgram p) k)) (sY (Stats (oneProgram p) k))"
proof -
  have "{0..1} = {0, 1::int}" by auto
  then show "packable (oneProgram p)"
    using assms by (intro packableI) (simp_all add: oneProgram_def zeroStat_def zeroBoard_def programText_def)
  show "readable (oneProgram p)" "distinctPrograms (oneProgram p)"
    "\<forall>k\<in>{0..StatCount (oneProgram p)}. inTiles (sX (Stats (oneProgram p) k)) (sY (Stats (oneProgram p) k))"
    using assms by (auto simp: readable_def distinctPrograms_def oneProgram_def below_2 zeroStat_def zeroBoard_def
        validStat_def validBoardInfo_def is_i16_def fits_def inTiles_def Ball_def)
qed

lemma worldOf_sound:
  assumes "\<forall>i\<in>{0..n}. \<exists>p. B i = oneProgram p \<and> length p \<le> 1000" and "n \<le> 100"
  shows "holdsBoards B (World (worldOf B n))" and "BoardCount (World (worldOf B n)) = n"
proof -
  have "packable (B i) \<and> readable (B i) \<and> (\<forall>k\<in>{0..StatCount (B i)}. inTiles (sX (Stats (B i) k)) (sY (Stats (B i) k)))"
    if "i \<in> {0..n}" for i
    using assms(1) that oneProgram_sound by metis
  then show "holdsBoards B (World (worldOf B n))" "BoardCount (World (worldOf B n)) = n"
    using assms(2) by (simp_all add: holdsBoards_def worldOf_def)
qed

text \<open>A title screen with a finale before one empty board, and a world that ends on its only board.\<close>

definition titleFinale :: "int \<Rightarrow> TBoard" where
  "titleFinale i = oneProgram (if i = 0 then ''#endgame'' else [])"

lemma endgame_finale: "finaleOn upper (oneProgram ''#endgame'')"
proof -
  have "segments ''#endgame'' = map (\<lambda>c. (ord c, [c])) ''#endgame''" by (rule segments_ascii) (simp add: ascii_def ord_def)
  then have "ToUpper upper ''#endgame'' = ''#ENDGAME''"
    by (simp add: ToUpper_def runesOf_def upperRune_def encodeRune_def ord_def chr_def char_of_def)
  then have "mentionsEndgame upper ''#endgame''" by (simp add: mentionsEndgame_def Contains.simps)
  then show ?thesis unfolding finaleOn_def by (intro bexI [of _ 1]) (simp_all add: oneProgram_def)
qed

lemma title_finale_passes_witness:
  "\<exists>e0 e'. BoardOpen 0 (worldOf titleFinale 1) = Some e0 \<and> reachableEndgame (\<lambda>r. r) e0 = Some (True, e')"
proof (rule title_finale_passes [of titleFinale])
  have "\<exists>p. titleFinale i = oneProgram p \<and> length p \<le> 1000" for i
    unfolding titleFinale_def by (intro exI conjI, rule refl) (cases "i = 0", simp_all)
  then show "holdsBoards titleFinale (World (worldOf titleFinale 1))" "1 \<le> BoardCount (World (worldOf titleFinale 1))"
    "\<forall>b\<in>{0..BoardCount (World (worldOf titleFinale 1))}. distinctPrograms (titleFinale b)"
    using worldOf_sound [of 1 titleFinale] oneProgram_sound(3) by (simp_all add: titleFinale_def)
  show "finaleOn (\<lambda>r. r) (titleFinale 0)" by (simp add: titleFinale_def endgame_finale)
qed (simp_all add: titleFinale_def oneProgram_def below_2 zeroStat_def Ball_def)

lemma walk_finds_finale_witness:
  "\<exists>names e'. walkBoards (\<lambda>r. r) {} [1] [] (worldOf (\<lambda>_. oneProgram ''#endgame'') 1) =
       Some (boardsFrom1 (\<lambda>_. oneProgram ''#endgame'') 1, names, e') \<and> names \<noteq> []"
proof -
  let ?B = "\<lambda>_::int. oneProgram ''#endgame''"
  have h: "holdsBoards ?B (World (worldOf ?B 1))" "BoardCount (World (worldOf ?B 1)) = 1"
    by (rule worldOf_sound; force)+
  have "1 \<in> boardsFrom1 ?B 1" by (simp add: boardsFrom1_def)
  then show ?thesis
    using walk_finds_finale [OF h(1), where upper = "\<lambda>r. r"] h(2) oneProgram_sound(3) [of "''#endgame''"] endgame_finale
    by fastforce
qed

lemma boulder_counts_as_wall_witness:
  "(2, 1) \<notin> evalFloodBoard (withSquare 2 1 E_BOULDER zeroStat) (1, 1) \<and>
   (\<exists>e'. ElementPushablePush 2 1 1 0 (withSquare 2 1 E_BOULDER zeroStat) = Some e' \<and> elementOn e' 2 1 = E_EMPTY)"
proof -
  let ?e = "withSquare 2 1 E_BOULDER zeroStat"
  have only: "0 \<le> i \<and> i \<le> 0 \<longleftrightarrow> i = 0" for i :: int by auto
  have st: "standing ?e" "soundTransporters ?e"
    by (auto simp: standing_def soundTransporters_def withSquare_simps inTiles_def zeroStat_def Let_def order_antisym_conv)
      (simp add: withSquare_def putTile_def putStat_def NewEngine_def zeroBoard_def zeroTile_def)
  have "GetStatIdAt 2 1 ?e = Some (-1)"
    by (simp add: GetStatIdAt_def GetStatIdAt_loop.simps statAt_def inStats_def withSquare_simps)
       (simp add: zeroStat_def)
  moreover have "elementOn ?e 3 1 = E_EMPTY"
    by (simp add: withSquare_def putTile_def putStat_def NewEngine_def zeroBoard_def zeroTile_def)
  ultimately show ?thesis
    using boulder_counts_as_wall [of 1 1 ?e] st by (auto simp: onBoard_def withSquare_simps)
qed

end
