(* ===== verification/Keeps.thy ===== *)
theory Keeps
  imports Drawn Game "HOL-Library.Sublist"
begin

text \<open>
  What no operation of a game cycle changes: the configuration of the engine (friendly fire,
  rooms, headless, the element table, the clock), the events already queued, the stats that
  fit their array, and the addresses of player states. One lemma per operation, in the order of
  the components; each is one application of the rules of the \<open>frame\<close> locale.
\<close>

section \<open>The relation\<close>

definition config :: "Engine \<Rightarrow> bool \<times> bool \<times> bool \<times> bool \<times> bool \<times> bool \<times> int \<times> int \<times> int \<times> int" where
  "config e = (FriendlyFire e, MultiRoom e, Headless e, EditorElements e, ForceDarknessOff e,
               SoundBlockQueueing e, TickTimeDuration e, CurrentTick e, TimerTicks e,
               BoardCount (World e))"

text \<open>Every player state the map reaches has been allocated.\<close>

definition heapOk :: "Engine \<Rightarrow> bool" where
  "heapOk e \<longleftrightarrow> (\<forall>i a. Players e i = Some a \<longrightarrow> a < PNext e)"

text \<open>The stats of the board, and the one \<open>GetStatIdAt\<close> reads past them, exist.\<close>

definition statsFit :: "Engine \<Rightarrow> bool" where
  "statsFit e \<longleftrightarrow> StatCount (Board e) \<le> MAX_STAT + 1"

text \<open>
  The stat id that a stat had before the ids \<open>ks\<close> were removed, one after the other. \<open>follows\<close>: the players there were
  are, by their states, exactly where removing some stats leaves them; other players are new.
\<close>

fun oldId :: "int list \<Rightarrow> int \<Rightarrow> int" where
  "oldId [] i = i"
| "oldId (k # ks) i = (if oldId ks i < k then oldId ks i else oldId ks i + 1)"

definition follows :: "Engine \<Rightarrow> Engine \<Rightarrow> bool" where
  "follows e e' \<longleftrightarrow>
     (\<exists>ks. \<forall>i a. a < PNext e \<longrightarrow> (Players e' i = Some a \<longleftrightarrow> Players e (oldId ks i) = Some a))"

lemma oldId_append: "oldId (ks @ js) i = oldId ks (oldId js i)"
  by (induction ks) simp_all

lemma follows_same: "Players e' = Players e \<Longrightarrow> follows e e'"
  unfolding follows_def by (rule exI [of _ "[]"]) simp

lemma follows_trans:
  assumes "follows a b" and "follows b c" and "PNext a \<le> PNext b"
  shows "follows a c"
proof -
  obtain ks js where "\<forall>i p. p < PNext a \<longrightarrow> (Players b i = Some p \<longleftrightarrow> Players a (oldId ks i) = Some p)"
    and "\<forall>i p. p < PNext b \<longrightarrow> (Players c i = Some p \<longleftrightarrow> Players b (oldId js i) = Some p)"
    using assms(1,2) by (auto simp: follows_def)
  then have "\<forall>i p. p < PNext a \<longrightarrow> (Players c i = Some p \<longleftrightarrow> Players a (oldId (ks @ js) i) = Some p)"
    using assms(3) by (simp add: oldId_append)
  then show ?thesis unfolding follows_def by blast
qed

definition keeps :: "Engine \<Rightarrow> Engine \<Rightarrow> bool" where
  "keeps e e' \<longleftrightarrow>
     config e' = config e \<and> prefix (Events e) (Events e') \<and> PNext e \<le> PNext e' \<and> follows e e' \<and>
     (statsFit e \<longrightarrow> statsFit e') \<and> (heapOk e \<longrightarrow> heapOk e')"

interpretation keep: frame keeps
  by unfold_locales (auto simp: keeps_def intro: prefix_order.trans follows_same follows_trans)

named_theorems keeps_rules

section \<open>Primitive steps\<close>

lemma keeps_same:
  assumes "keeps e0 e" and "config e' = config e" and "Events e' = Events e" and "PNext e' = PNext e"
    and "Players e' = Players e" and "StatCount (Board e') = StatCount (Board e)"
  shows "keeps e0 e'"
proof -
  have "keeps e e'" using assms(2-6) by (simp add: keeps_def heapOk_def statsFit_def follows_same)
  then show ?thesis by (rule keep.trans [OF assms(1)])
qed

lemma keeps_update [keeps_rules]:
  assumes "keeps e0 e"
  shows "keeps e0 (e\<lparr>gInputDeltaX := i\<rparr>)" "keeps e0 (e\<lparr>gInputDeltaY := i\<rparr>)"
    "keeps e0 (e\<lparr>gInputShiftPressed := b\<rparr>)" "keeps e0 (e\<lparr>gInputKeyPressed := i\<rparr>)"
    "keeps e0 (e\<lparr>gInputLastDeltaX := i\<rparr>)" "keeps e0 (e\<lparr>gInputLastDeltaY := i\<rparr>)"
    "keeps e0 (e\<lparr>LocalDeltaX := i\<rparr>)" "keeps e0 (e\<lparr>LocalDeltaY := i\<rparr>)"
    "keeps e0 (e\<lparr>OopChar := c\<rparr>)" "keeps e0 (e\<lparr>OopWord := s\<rparr>)" "keeps e0 (e\<lparr>OopValue := i\<rparr>)"
    "keeps e0 (e\<lparr>RandSeed := i\<rparr>)" "keeps e0 (e\<lparr>CurrentStatTicked := i\<rparr>)"
    "keeps e0 (e\<lparr>ActingPlayerStatId := i\<rparr>)" "keeps e0 (e\<lparr>GamePlayExitRequested := b\<rparr>)"
    "keeps e0 (e\<lparr>DebugEnabled := b\<rparr>)" "keeps e0 (e\<lparr>SavedGameFileName := s\<rparr>)"
    "keeps e0 (e\<lparr>ScrollAudience := f\<rparr>)" "keeps e0 (e\<lparr>IoTmpBuf := l\<rparr>)"
    "keeps e0 (e\<lparr>gSoundEnabled := b\<rparr>)" "keeps e0 (e\<lparr>gSoundIsPlaying := b\<rparr>)"
  using assms by (rule keeps_same; simp add: config_def)+

lemma keeps_accessors [keeps_rules]:
  assumes "keeps e0 e"
  shows "keeps e0 (putTile x y t e)" "keeps e0 (putStat i s e)" "keeps e0 (modInfo g e)"
    "keeps e0 (modWorldInfo h e)" "keeps e0 (modPlayer a k e)" "keeps e0 (emit ev e)"
proof -
  show "keeps e0 (putTile x y t e)" "keeps e0 (putStat i s e)" "keeps e0 (modInfo g e)"
    "keeps e0 (modWorldInfo h e)" "keeps e0 (modPlayer a k e)"
    using assms
    by (rule keeps_same;
        simp add: config_def putTile_def putStat_def modInfo_def modWorldInfo_def modPlayer_def)+
  have "keeps e (emit ev e)"
    by (simp add: keeps_def config_def emit_def heapOk_def statsFit_def follows_same)
  then show "keeps e0 (emit ev e)" using assms keep.trans by blast
qed

lemma keeps_array_steps [keeps_rules]:
  assumes "keeps e0 e"
  shows "ok (keeps e0) (setTile x y t e)" "ok (keeps e0) (setElement x y i e)"
    "ok (keeps e0) (setColor x y i e)" "ok (keeps e0) (modStat i s e)" "ok (keeps e0) (putAudience i j e)"
  using assms
  by (auto simp: setTile_def setElement_def setColor_def modStat_def putAudience_def ok_def
    split: Option.bind_splits if_splits intro: keeps_accessors keeps_update)

section \<open>Drawing\<close>

lemma drawn_keeps:
  assumes "drawn e e'"
  shows "keeps e e'"
proof -
  have rest: "rest e' = rest e" and alloc: "allocated e e'" using assms by (simp_all add: drawn_def)
  have "config (rest e') = config (rest e)" "Events (rest e') = Events (rest e)"
    "StatCount (Board (rest e')) = StatCount (Board (rest e))" using rest by simp_all
  then have "config e' = config e" "Events e' = Events e" "StatCount (Board e') = StatCount (Board e)"
    by (simp_all add: config_def rest_def)
  moreover have "PNext e \<le> PNext e'" using alloc by (simp add: allocated_def)
  moreover have "heapOk e \<longrightarrow> heapOk e'"
    using alloc unfolding heapOk_def allocated_def by force
  moreover have "follows e e'"
    using alloc unfolding follows_def allocated_def by (intro exI [of _ "[]"]) force
  ultimately show ?thesis by (simp add: keeps_def statsFit_def)
qed

lemma ok_drawn_keeps: "(\<And>e0. drawn e0 e \<Longrightarrow> ok (drawn e0) m) \<Longrightarrow> keeps e0 e \<Longrightarrow> ok (keeps e0) m"
  using drawn_keeps draw.refl keep.trans by (fastforce simp: ok_def)

lemma keeps_drawing [keeps_rules]:
  "keeps e0 e \<Longrightarrow> ok (keeps e0) (BoardDrawTile x y e)"
  "keeps e0 e \<Longrightarrow> ok (keeps e0) (BoardDrawBorder e)"
  "keeps e0 e \<Longrightarrow> ok (keeps e0) (TransitionDrawToFill ch col e)"
  "keeps e0 e \<Longrightarrow> ok (keeps e0) (TransitionDrawToBoard e)"
  "keeps e0 e \<Longrightarrow> ok (keeps e0) (TransitionDrawBoardChange e)"
  "keeps e0 e \<Longrightarrow> ok (keeps e0) (redrawSurroundings x y e)"
  by (rule ok_drawn_keeps; (rule drawn_rules)?; assumption)+

lemma keeps_screen [keeps_rules]:
  assumes "keeps e0 e"
  shows "keeps e0 (VideoWriteText x y col txt e)" "keeps e0 (SidebarClearLine y e)"
    "keeps e0 (snd (PlayerFor i e))" "keeps e0 (snd (PlayerGlyph i e))" "keeps e0 (snd (ReenterPoint i e))"
  using assms keep.trans drawn_keeps drawn_rules [OF draw.refl] by blast+

lemma SetReenterPoint_keeps [keeps_rules]: "keeps e0 e \<Longrightarrow> keeps e0 (SetReenterPoint i x y e)"
  using keeps_screen(3) [of e0 e i]
  by (auto simp: SetReenterPoint_def split: prod.split intro: keeps_accessors)

lemma ResetPlayerState_keeps [keeps_rules]: "keeps e0 e \<Longrightarrow> keeps e0 (ResetPlayerState i e)"
  using keeps_screen(3) [of e0 e i]
  by (auto simp: ResetPlayerState_def Let_def split: prod.split intro: keeps_accessors)

lemma Random_keeps [keeps_rules]: "keeps e0 e \<Longrightarrow> keeps e0 (snd (Random n e))"
  by (auto simp: Random_def Let_def intro: keeps_update)

lemma SoundQueue_keeps [keeps_rules]: "keeps e0 e \<Longrightarrow> keeps e0 (SoundQueue p bs e)"
  by (simp add: SoundQueue_def keeps_accessors)

section \<open>Stats\<close>

lemma AddStat_keeps [keeps_rules]:
  assumes "keeps e0 e"
  shows "ok (keeps e0) (AddStat tx ty el color tcycle template e)"
proof -
  have "keeps e (setStatCount (StatCount (Board e) + 1) e)" if "StatCount (Board e) < MAX_STAT"
    using that by (simp add: keeps_def config_def setStatCount_def heapOk_def statsFit_def follows_same)
  then have count: "keeps e0 (setStatCount (StatCount (Board e) + 1) e)"
    if "StatCount (Board e) < MAX_STAT" using that assms keep.trans by blast
  show ?thesis
    unfolding AddStat_def
    by (rule ok_if, rule keep.letI, erule count)
       (rule ok_paths keep.paths keeps_rules assms | assumption)+
qed

lemma surroundings_keeps:
  "keeps e0 e \<Longrightarrow> (\<And>x y e. keeps e0 e \<Longrightarrow> ok (keeps e0) (f x y e)) \<Longrightarrow> ok (keeps e0) (surroundings f x y e)"
  unfolding surroundings_def by (rule ok_paths keep.paths | assumption)+

lemma MoveStat_keeps [keeps_rules]: "keeps e0 e \<Longrightarrow> ok (keeps e0) (MoveStat i x y e)"
  unfolding MoveStat_def by (rule ok_paths keep.paths keeps_rules | assumption)+

lemma SetScrollAudience_keeps [keeps_rules]: "keeps e0 e \<Longrightarrow> ok (keeps e0) (SetScrollAudience i j e)"
  unfolding SetScrollAudience_def by (rule ok_paths keep.paths keeps_rules | assumption)+

lemma TakeScrollAudience_keeps [keeps_rules]: "keeps e0 e \<Longrightarrow> keeps e0 (snd (TakeScrollAudience i e))"
  by (auto simp: TakeScrollAudience_def Let_def intro: keeps_update)

lemma reindexScrollAudience_keeps [keeps_rules]:
  "keeps e0 e \<Longrightarrow> ok (keeps e0) (reindexScrollAudienceAfterStatRemoval i e)"
  unfolding reindexScrollAudienceAfterStatRemoval_def
  by (rule ok_paths keep.paths keeps_rules | assumption)+

lemma reindexPlayers_keeps [keeps_rules]:
  "keeps e0 e \<Longrightarrow> keeps e0 (reindexPlayersAfterStatRemoval i e)"
proof -
  let ?e = "reindexPlayersAfterStatRemoval i e"
  have "follows e ?e"
    unfolding follows_def by (rule exI [of _ "[i]"]) (simp add: reindexPlayersAfterStatRemoval_def)
  then have "keeps e ?e"
    by (auto simp: keeps_def config_def reindexPlayersAfterStatRemoval_def statsFit_def heapOk_def split: if_splits)
  then show "keeps e0 e \<Longrightarrow> keeps e0 ?e" by (rule keep.trans [rotated])
qed

text \<open>
  \<open>RemoveStat\<close> counts down; its reindexing panics unless the count it had was an index of
  the array, so the count cannot wrap.
\<close>

lemma reindexScrollAudience_fits:
  "reindexScrollAudienceAfterStatRemoval i e = Some e' \<Longrightarrow>
   inStats (StatCount (Board e)) \<and> Board e' = Board e"
proof -
  assume *: "reindexScrollAudienceAfterStatRemoval i e = Some e'"
  have put: "putAudience j v e1 = Some e2 \<Longrightarrow> inStats j \<and> Board e2 = Board e1" for j v e1 e2
    by (auto simp: putAudience_def split: if_splits)
  have "ok (\<lambda>e'. Board e' = Board e) (foldM (\<lambda>i' e. do {
            a \<leftarrow> audienceAt i' e;
            if a = 0 then Some e
            else let audience = a - 1 in
              if audience = i then putAudience i' 0 e
              else if audience > i then putAudience i' audience e
              else Some e }) xs e)" for xs e
    by (rule ok_foldM) (auto simp: ok_def Let_def dest: put split: Option.bind_splits if_splits)
  moreover have "ok (\<lambda>e'. Board e' = Board e)
      (foldM (\<lambda>i e. do { a \<leftarrow> audienceAt i e; putAudience (i - 1) a e }) xs e)" for xs e
    by (rule ok_foldM) (auto simp: ok_def dest: put split: Option.bind_splits)
  ultimately show ?thesis
    using * unfolding reindexScrollAudienceAfterStatRemoval_def ok_def
    by (auto split: Option.bind_splits dest!: put)
qed

lemma foldM_modStat_count:
  "ok (\<lambda>e'. StatCount (Board e') = StatCount (Board e)) (foldM (\<lambda>i. modStat i (f i)) xs e)"
  by (rule ok_foldM) (auto simp: ok_def modStat_def putStat_def split: Option.bind_splits)

lemma foldM_shift_count:
  "ok (\<lambda>e'. StatCount (Board e') = StatCount (Board e))
      (foldM (\<lambda>i e. do { t \<leftarrow> statAt i e; modStat (i - 1) (\<lambda>_. t) e }) xs e)"
  by (rule ok_foldM) (auto simp: ok_def modStat_def putStat_def split: Option.bind_splits)

lemma setStatCount_keeps:
  "keeps e0 e \<Longrightarrow> n \<le> MAX_STAT + 1 \<Longrightarrow> keeps e0 (setStatCount n e)"
  by (rule keep.trans [of e0 e]) (simp_all add: keeps_def config_def setStatCount_def heapOk_def statsFit_def follows_same)

lemma ok_both: "ok P r \<Longrightarrow> ok Q r \<Longrightarrow> ok (\<lambda>x. P x \<and> Q x) r"
  by (simp add: ok_def)

lemma RemoveStat_tail:
  assumes "keeps e0 e"
  shows "ok (keeps e0) (do {
          e \<leftarrow> reindexScrollAudienceAfterStatRemoval i e;
          e \<leftarrow> foldM (\<lambda>i e. do { t \<leftarrow> statAt i e; modStat (i - 1) (\<lambda>_. t) e })
                [i + 1..StatCount (Board e)] e;
          let e = setStatCount (i16 (StatCount (Board e) - 1)) e;
          Some (reindexPlayersAfterStatRemoval i e) })"
proof (rule ok_bind_eq)
  fix e1 assume e1: "reindexScrollAudienceAfterStatRemoval i e = Some e1"
  have k: "keeps e0 e1" using reindexScrollAudience_keeps [OF assms, of i] e1 by (simp add: ok_def)
  have fits: "inStats (StatCount (Board e1))" using reindexScrollAudience_fits [OF e1] by simp
  have "ok (keeps e0) (foldM (\<lambda>i e. do { t \<leftarrow> statAt i e; modStat (i - 1) (\<lambda>_. t) e })
                [i + 1..StatCount (Board e1)] e1)"
    using k by - (rule ok_paths keep.paths keeps_rules | assumption)+
  note shift = ok_both [OF this foldM_shift_count]
  show "ok (keeps e0) (do {
          e \<leftarrow> foldM (\<lambda>i e. do { t \<leftarrow> statAt i e; modStat (i - 1) (\<lambda>_. t) e })
                [i + 1..StatCount (Board e1)] e1;
          let e = setStatCount (i16 (StatCount (Board e) - 1)) e;
          Some (reindexPlayersAfterStatRemoval i e) })"
  proof (rule ok_bind_eq)
    fix e2
    assume "foldM (\<lambda>i e. do { t \<leftarrow> statAt i e; modStat (i - 1) (\<lambda>_. t) e })
              [i + 1..StatCount (Board e1)] e1 = Some e2"
    from okD [OF shift this]
    have "keeps e0 e2" and "i16 (StatCount (Board e2) - 1) \<le> MAX_STAT + 1"
      using fits by (simp_all add: inStats_def is_i16_def)
    then show "ok (keeps e0) (let e = setStatCount (i16 (StatCount (Board e2) - 1)) e2
        in Some (reindexPlayersAfterStatRemoval i e))"
      by (simp add: reindexPlayers_keeps setStatCount_keeps)
  qed
qed

lemma RemoveStat_keeps [keeps_rules]:
  assumes "keeps e0 e"
  shows "ok (keeps e0) (RemoveStat i e)"
  unfolding RemoveStat_def
  by (rule RemoveStat_tail ok_paths keep.paths keeps_rules assms | assumption)+

section \<open>Damage and attack\<close>

lemma sidebarNumber_keeps [keeps_rules]: "keeps e0 e \<Longrightarrow> keeps e0 (sidebarNumber i i2 s e)"
  by (auto simp: sidebarNumber_def Let_def split: prod.split intro: keeps_rules)

lemma GameUpdateSidebar_keeps [keeps_rules]: "keeps e0 e \<Longrightarrow> ok (keeps e0) (GameUpdateSidebar e)"
  unfolding GameUpdateSidebar_def by (rule ok_paths keep.paths keeps_rules | assumption)+

lemma DisplayMessage_keeps [keeps_rules]: "keeps e0 e \<Longrightarrow> ok (keeps e0) (DisplayMessage i s e)"
  unfolding DisplayMessage_def by (rule ok_paths keep.paths keeps_rules | assumption)+

lemma killPlayer_keeps [keeps_rules]: "keeps e0 e \<Longrightarrow> keeps e0 (killPlayer i e)"
  unfolding killPlayer_def by (rule keep.pure keeps_rules | assumption)+

lemma reenterPlayer_keeps [keeps_rules]: "keeps e0 e \<Longrightarrow> ok (keeps e0) (reenterPlayer i i2 e)"
  unfolding reenterPlayer_def by (rule ok_paths keep.paths keeps_rules | assumption)+

lemma damagePlayer_keeps [keeps_rules]: "keeps e0 e \<Longrightarrow> ok (keeps e0) (damagePlayer i i2 e)"
  unfolding damagePlayer_def by (rule ok_paths keep.paths keeps_rules | assumption)+

lemma DamageStat_keeps [keeps_rules]: "keeps e0 e \<Longrightarrow> ok (keeps e0) (DamageStat i e)"
  unfolding DamageStat_def by (rule ok_paths keep.paths keeps_rules | assumption)+

lemma BoardDamageTile_keeps [keeps_rules]: "keeps e0 e \<Longrightarrow> ok (keeps e0) (BoardDamageTile i i2 e)"
  unfolding BoardDamageTile_def by (rule ok_paths keep.paths keeps_rules | assumption)+

lemma addScore_keeps [keeps_rules]: "keeps e0 e \<Longrightarrow> ok (keeps e0) (addScore i i2 e)"
  unfolding addScore_def by (rule ok_paths keep.paths keeps_rules | assumption)+

lemma BoardAttack_keeps [keeps_rules]: "keeps e0 e \<Longrightarrow> ok (keeps e0) (BoardAttack i i2 i3 e)"
  unfolding BoardAttack_def by (rule ok_paths keep.paths keeps_rules | assumption)+

lemma pointBlankEnergizerTicks_keeps [keeps_rules]:
  "keeps e0 e \<Longrightarrow> ok (keep.R2 e0) (pointBlankEnergizerTicks i i2 e)"
  unfolding pointBlankEnergizerTicks_def by (rule ok_paths keep.paths keeps_rules | assumption)+

lemma BoardShoot_keeps [keeps_rules]: "keeps e0 e \<Longrightarrow> ok (keep.R2 e0) (BoardShoot i i2 i3 i4 i5 i6 e)"
  unfolding BoardShoot_def by (rule ok_paths keep.paths keeps_rules | assumption)+

lemma CalcDirectionRnd_keeps [keeps_rules]: "keeps e0 e \<Longrightarrow> keeps e0 (snd (CalcDirectionRnd e))"
  unfolding CalcDirectionRnd_def by (rule keep.pure keeps_rules | assumption)+

lemma CalcDirectionSeek_keeps [keeps_rules]: "keeps e0 e \<Longrightarrow> ok (keep.R2 e0) (CalcDirectionSeek i i2 e)"
  unfolding CalcDirectionSeek_def by (rule ok_paths keep.paths keeps_rules | assumption)+


section \<open>Pushing\<close>

lemma ElementMove_keeps [keeps_rules]: "keeps e0 e \<Longrightarrow> ok (keeps e0) (ElementMove i i2 i3 i4 e)"
  unfolding ElementMove_def by (rule ok_paths keep.paths keeps_rules | assumption)+

lemma pushInto_keeps [keeps_rules]: "keeps e0 e \<Longrightarrow> ok (keeps e0) (pushInto i i2 i3 i4 e)"
  unfolding pushInto_def by (rule ok_paths keep.paths keeps_rules | assumption)+

lemma ok_PushCall:
  "(\<And>x y. ok P (f x y)) \<Longrightarrow> (\<And>x y. ok P (g x y)) \<Longrightarrow> (\<And>x y z w b. ok P (h x y z w b)) \<Longrightarrow>
   ok P (case c of PushablePush x y \<Rightarrow> f x y | TransporterMove x y \<Rightarrow> g x y
                 | TransporterSearch x y z w b \<Rightarrow> h x y z w b)"
  by (cases c) simp_all

lemma pushRun_keeps [keeps_rules]:
  assumes "keeps e0 e"
  shows "ok (keep.R2 e0) (pushRun pc i i2 e)"
proof (rule okI)
  fix r' assume "pushRun pc i i2 e = Some r'"
  then show "keep.R2 e0 r'" using assms
  proof (induction arbitrary: e0 rule: pushRun.raw_induct [rotated, consumes 1, case_names 1])
    case (1 f pc i i2 e r')
    have IH: "ok (keep.R2 e1) (f pc' i' i2' e')" if "keeps e1 e'" for e1 pc' i' i2' e'
      by (rule okI) (rule 1(1) [OF _ that])
    show ?case
      using 1(3)
      by - (rule okD [OF _ 1(2)], (rule ok_PushCall IH ok_paths keep.paths keeps_rules | assumption)+)
  qed
qed

lemma ElementPushablePush_keeps [keeps_rules]:
  "keeps e0 e \<Longrightarrow> ok (keeps e0) (ElementPushablePush i i2 i3 i4 e)"
  unfolding ElementPushablePush_def by (rule ok_paths keep.paths keeps_rules | assumption)+

lemma ElementTransporterMove_keeps [keeps_rules]:
  "keeps e0 e \<Longrightarrow> ok (keeps e0) (ElementTransporterMove i i2 i3 i4 e)"
  unfolding ElementTransporterMove_def by (rule ok_paths keep.paths keeps_rules | assumption)+

section \<open>The OOP reader\<close>

lemma OopError_keeps [keeps_rules]: "keeps e0 e \<Longrightarrow> ok (keeps e0) (OopError i s e)"
  unfolding OopError_def by (rule ok_paths keep.paths keeps_rules | assumption)+

lemma OopReadChar_keeps [keeps_rules]: "keeps e0 e \<Longrightarrow> ok (keep.R2 e0) (OopReadChar i i2 e)"
  unfolding OopReadChar_def by (rule ok_paths keep.paths keeps_rules | assumption)+

lemma skipSpaces_keeps [keeps_rules]:
  "keeps e0 e \<Longrightarrow> ok (keep.R2 e0) (skipSpaces i i2 e)"
proof (induction i i2 e arbitrary: e0 rule: skipSpaces.induct)
  case (1 i i2 e)
  show ?case
    by (subst skipSpaces.simps) (rule "1.IH" ok_paths_eq keep.paths_eq keeps_rules "1.prems" refl | assumption)+
qed

lemma readUpper_keeps [keeps_rules]: "keeps e0 e \<Longrightarrow> ok (keep.R2 e0) (readUpper i i2 e)"
  unfolding readUpper_def by (rule ok_paths keep.paths keeps_rules | assumption)+

lemma readWhile_keeps [keeps_rules]:
  "keeps e0 e \<Longrightarrow> ok (keep.R3 e0) (readWhile x i s i2 e)"
proof (induction x i s i2 e arbitrary: e0 rule: readWhile.induct)
  case (1 x i s i2 e)
  show ?case
    by (subst readWhile.simps) (rule "1.IH" ok_paths_eq keep.paths_eq keeps_rules "1.prems" refl | assumption)+
qed

lemma OopReadWord_keeps [keeps_rules]: "keeps e0 e \<Longrightarrow> ok (keep.R2 e0) (OopReadWord i i2 e)"
  unfolding OopReadWord_def by (rule ok_paths keep.paths keeps_rules | assumption)+

lemma OopReadValue_keeps [keeps_rules]: "keeps e0 e \<Longrightarrow> ok (keep.R2 e0) (OopReadValue i i2 e)"
  unfolding OopReadValue_def by (rule ok_paths keep.paths keeps_rules | assumption)+

lemma OopSkipLine_keeps [keeps_rules]:
  "keeps e0 e \<Longrightarrow> ok (keep.R2 e0) (OopSkipLine i i2 e)"
proof (induction i i2 e arbitrary: e0 rule: OopSkipLine.induct)
  case (1 i i2 e)
  show ?case
    by (subst OopSkipLine.simps) (rule "1.IH" ok_paths_eq keep.paths_eq keeps_rules "1.prems" refl | assumption)+
qed

lemma readLine_keeps [keeps_rules]:
  "keeps e0 e \<Longrightarrow> ok (keep.R3 e0) (readLine i s i2 e)"
proof (induction i s i2 e arbitrary: e0 rule: readLine.induct)
  case (1 i s i2 e)
  show ?case
    by (subst readLine.simps) (rule "1.IH" ok_paths_eq keep.paths_eq keeps_rules "1.prems" refl | assumption)+
qed

lemma OopReadLineToEnd_keeps [keeps_rules]: "keeps e0 e \<Longrightarrow> ok (keep.R3 e0) (OopReadLineToEnd i i2 e)"
  unfolding OopReadLineToEnd_def by (rule ok_paths keep.paths keeps_rules | assumption)+

end
