(* ===== verification/KeepsOop.thy ===== *)
theory KeepsOop
  imports Keeps
begin

text \<open>
  The frame of a game cycle, continued: directions, labels, flags, conditions and the commands
  of the OOP interpreter.
\<close>

section \<open>Directions and labels\<close>

lemma onDataPos_keeps [keeps_rules]:
  "keeps e0 e \<Longrightarrow> (\<And>p e. keeps e0 e \<Longrightarrow> ok (keep.R2 e0) (f p e)) \<Longrightarrow> ok (keeps e0) (onDataPos i f e)"
  unfolding onDataPos_def by (rule ok_paths keep.paths keeps_rules | assumption)+

lemma OopParseDirection_keeps [keeps_rules]:
  assumes "keeps e0 e"
  shows "ok (keep.R4 e0) (OopParseDirection i i2 i3 e)"
proof (rule okI)
  fix r' assume "OopParseDirection i i2 i3 e = Some r'"
  then show "keep.R4 e0 r'" using assms
  proof (induction arbitrary: e0 rule: OopParseDirection.raw_induct [rotated, consumes 1, case_names 1])
    case (1 f i i2 i3 e r')
    have IH: "ok (keep.R4 e1) (f i' i2' i3' e')" if "keeps e1 e'" for e1 i' i2' i3' e'
      by (rule okI) (rule 1(1) [OF _ that])
    show ?case
      using 1(3)
      by - (rule okD [OF _ 1(2)], (rule IH ok_paths keep.paths keeps_rules | assumption)+)
  qed
qed

lemma OopReadDirection_keeps [keeps_rules]: "keeps e0 e \<Longrightarrow> ok (keep.R3 e0) (OopReadDirection i i2 i3 e)"
  unfolding OopReadDirection_def by (rule ok_paths keep.paths keeps_rules | assumption)+

lemma matchFrom_keeps [keeps_rules]: "keeps e0 e \<Longrightarrow> ok (keep.R3 e0) (matchFrom i s p e)"
proof (induction s arbitrary: p e)
  case (Cons c s)
  show ?case
    using Cons.prems
    by - (subst matchFrom.simps, (rule Cons.IH ok_paths keep.paths keeps_rules | assumption)+)
qed (simp add: keep.R3_def)

lemma findFrom_keeps [keeps_rules]: "keeps e0 e \<Longrightarrow> ok (keep.R2 e0) (findFrom i s ps e)"
proof (induction ps arbitrary: e)
  case (Cons p ps)
  show ?case
    using Cons.prems
    by - (subst findFrom.simps, (rule Cons.IH ok_paths keep.paths keeps_rules | assumption)+)
qed (simp add: keep.R2_def)

lemma OopFindString_keeps [keeps_rules]: "keeps e0 e \<Longrightarrow> ok (keep.R2 e0) (OopFindString i s e)"
  unfolding OopFindString_def by (rule ok_paths keep.paths keeps_rules | assumption)+

lemma namedFrom_keeps [keeps_rules]: "keeps e0 e \<Longrightarrow> ok (keep.R3 e0) (namedFrom s i e)"
proof (induction s i e arbitrary: e0 rule: namedFrom.induct)
  case (1 s i e)
  have found: "ok (keep.R2 e0) (if Data st \<noteq> [] then do {
            (pos, e1) \<leftarrow> OopReadChar i 0 e;
            if OopChar e1 = CHR ''@'' then do {
              (_, e2) \<leftarrow> OopReadWord i pos e1;
              Some (OopWord e2 = s, e2) }
            else Some (False, e1) }
          else Some (False, e))" for st
    using "1.prems" by - (rule ok_paths keep.paths keeps_rules | assumption)+
  show ?case
    by (subst namedFrom.simps)
       (rule "1.IH" ok_paths_eq found keep.paths_eq keeps_rules "1.prems" refl | assumption)+
qed

lemma OopIterateStat_keeps [keeps_rules]: "keeps e0 e \<Longrightarrow> ok (keep.R3 e0) (OopIterateStat i i2 s e)"
  unfolding OopIterateStat_def by (rule ok_paths keep.paths keeps_rules | assumption)+

lemma findNextStat_keeps [keeps_rules]:
  assumes "keeps e0 e"
  shows "ok (keep.R4 e0) (findNextStat i i2 s s2 b i3 i4 s3 e)"
proof (rule okI)
  fix r' assume "findNextStat i i2 s s2 b i3 i4 s3 e = Some r'"
  then show "keep.R4 e0 r'" using assms
  proof (induction arbitrary: e0 rule: findNextStat.raw_induct [rotated, consumes 1, case_names 1])
    case (1 f i i2 s s2 b i3 i4 s3 e r')
    have IH: "ok (keep.R4 e1) (f i' i2' s' s2' b' i3' i4' s3' e')" if "keeps e1 e'" for e1 i' i2' s' s2' b' i3' i4' s3' e'
      by (rule okI) (rule 1(1) [OF _ that])
    show ?case
      using 1(3)
      by - (rule okD [OF _ 1(2)], (rule IH ok_paths keep.paths keeps_rules | assumption)+)
  qed
qed

lemma OopFindLabel_keeps [keeps_rules]: "keeps e0 e \<Longrightarrow> ok (keep.R4 e0) (OopFindLabel i s i2 i3 s2 e)"
  unfolding OopFindLabel_def by (rule ok_paths keep.paths keeps_rules | assumption)+

lemma sendLoop_keeps [keeps_rules]:
  assumes "keeps e0 e"
  shows "ok (keep.R2 e0) (sendLoop i s b b2 b3 i2 i3 e)"
proof (rule okI)
  fix r' assume "sendLoop i s b b2 b3 i2 i3 e = Some r'"
  then show "keep.R2 e0 r'" using assms
  proof (induction arbitrary: e0 rule: sendLoop.raw_induct [rotated, consumes 1, case_names 1])
    case (1 f i s b b2 b3 i2 i3 e r')
    have IH: "ok (keep.R2 e1) (f i' s' b' b2' b3' i2' i3' e')" if "keeps e1 e'" for e1 i' s' b' b2' b3' i2' i3' e'
      by (rule okI) (rule 1(1) [OF _ that])
    show ?case
      using 1(3)
      by - (rule okD [OF _ 1(2)], (rule IH ok_paths keep.paths keeps_rules | assumption)+)
  qed
qed

lemma OopSend_keeps [keeps_rules]: "keeps e0 e \<Longrightarrow> ok (keep.R2 e0) (OopSend i s b e)"
  unfolding OopSend_def by (rule ok_paths keep.paths keeps_rules | assumption)+

lemma setFlag_keeps [keeps_rules]: "keeps e0 e \<Longrightarrow> keeps e0 (setFlag i s e)"
  unfolding setFlag_def by (rule keep.pure keeps_rules | assumption)+

lemma WorldSetFlag_keeps [keeps_rules]: "keeps e0 e \<Longrightarrow> keeps e0 (WorldSetFlag s e)"
  unfolding WorldSetFlag_def by (rule keep.pure keeps_rules | assumption)+

lemma WorldClearFlag_keeps [keeps_rules]: "keeps e0 e \<Longrightarrow> keeps e0 (WorldClearFlag s e)"
  unfolding WorldClearFlag_def by (rule keep.pure keeps_rules | assumption)+

lemma OopParseTileAt_keeps [keeps_rules]: "keeps e0 e \<Longrightarrow> ok (keep.R4 e0) (OopParseTileAt i p t e)"
  unfolding OopParseTileAt_def by (rule ok_paths keep.paths keeps_rules | assumption)+

lemma OopParseTile_keeps [keeps_rules]: "keeps e0 e \<Longrightarrow> ok (keep.R3 e0) (OopParseTile i t e)"
  unfolding OopParseTile_def by (rule ok_paths keep.paths keeps_rules | assumption)+

lemma OopPlaceTile_keeps [keeps_rules]: "keeps e0 e \<Longrightarrow> ok (keeps e0) (OopPlaceTile i i2 t e)"
  unfolding OopPlaceTile_def by (rule ok_paths keep.paths keeps_rules | assumption)+

lemma OopCheckCondition_keeps [keeps_rules]:
  assumes "keeps e0 e"
  shows "ok (keep.R2 e0) (OopCheckCondition i e)"
proof (rule okI)
  fix r' assume "OopCheckCondition i e = Some r'"
  then show "keep.R2 e0 r'" using assms
  proof (induction arbitrary: e0 rule: OopCheckCondition.raw_induct [rotated, consumes 1, case_names 1])
    case (1 f i e r')
    have IH: "ok (keep.R2 e1) (f i' e')" if "keeps e1 e'" for e1 i' e'
      by (rule okI) (rule 1(1) [OF _ that])
    show ?case
      using 1(3)
      by - (rule okD [OF _ 1(2)], (rule IH ok_paths keep.paths keeps_rules | assumption)+)
  qed
qed

section \<open>The OOP interpreter\<close>

lemmas ok_locals [keeps_rules] =
  ok_bind_any [where 'a = OopLocals] ok_let_any [where 'a = OopLocals]

lemma pushAndMove_keeps [keeps_rules]: "keeps e0 e \<Longrightarrow> ok (keep.R2 e0) (pushAndMove i i2 i3 e)"
  unfolding pushAndMove_def by (rule ok_paths keep.paths keeps_rules | assumption)+

lemma giveOrTake_keeps [keeps_rules]: "keeps e0 e \<Longrightarrow> ok (keep.R2 e0) (giveOrTake i i2 b e)"
  unfolding giveOrTake_def by (rule ok_paths keep.paths keeps_rules | assumption)+

lemma setData_keeps [keeps_rules]: "keeps e0 e \<Longrightarrow> ok (keeps e0) (setData i s e)"
  unfolding setData_def by (rule ok_paths keep.paths keeps_rules | assumption)+

lemma replaceData_keeps [keeps_rules]: "keeps e0 e \<Longrightarrow> ok (keeps e0) (replaceData i i2 c e)"
  unfolding replaceData_def by (rule ok_paths keep.paths keeps_rules | assumption)+

lemma zapLoop_keeps [keeps_rules]:
  assumes "keeps e0 e"
  shows "ok (keeps e0) (zapLoop i i2 i3 e)"
proof (rule okI)
  fix r' assume "zapLoop i i2 i3 e = Some r'"
  then show "keeps e0 r'" using assms
  proof (induction arbitrary: e0 rule: zapLoop.raw_induct [rotated, consumes 1, case_names 1])
    case (1 f i i2 i3 e r')
    have IH: "ok (keeps e1) (f i' i2' i3' e')" if "keeps e1 e'" for e1 i' i2' i3' e'
      by (rule okI) (rule 1(1) [OF _ that])
    show ?case
      using 1(3)
      by - (rule okD [OF _ 1(2)], (rule IH ok_paths keep.paths keeps_rules | assumption)+)
  qed
qed

lemma restoreAll_keeps [keeps_rules]:
  assumes "keeps e0 e"
  shows "ok (keep.R2 e0) (restoreAll i i2 e)"
proof (rule okI)
  fix r' assume "restoreAll i i2 e = Some r'"
  then show "keep.R2 e0 r'" using assms
  proof (induction arbitrary: e0 rule: restoreAll.raw_induct [rotated, consumes 1, case_names 1])
    case (1 f i i2 e r')
    have IH: "ok (keep.R2 e1) (f i' i2' e')" if "keeps e1 e'" for e1 i' i2' e'
      by (rule okI) (rule 1(1) [OF _ that])
    show ?case
      using 1(3)
      by - (rule okD [OF _ 1(2)], (rule IH ok_paths keep.paths keeps_rules | assumption)+)
  qed
qed

lemma restoreLoop_keeps [keeps_rules]:
  assumes "keeps e0 e"
  shows "ok (keeps e0) (restoreLoop i i2 i3 e)"
proof (rule okI)
  fix r' assume "restoreLoop i i2 i3 e = Some r'"
  then show "keeps e0 r'" using assms
  proof (induction arbitrary: e0 rule: restoreLoop.raw_induct [rotated, consumes 1, case_names 1])
    case (1 f i i2 i3 e r')
    have IH: "ok (keeps e1) (f i' i2' i3' e')" if "keeps e1 e'" for e1 i' i2' i3' e'
      by (rule okI) (rule 1(1) [OF _ that])
    show ?case
      using 1(3)
      by - (rule okD [OF _ 1(2)], (rule IH ok_paths keep.paths keeps_rules | assumption)+)
  qed
qed

lemma changeLoop_keeps [keeps_rules]:
  assumes "keeps e0 e"
  shows "ok (keeps e0) (changeLoop i i2 t t2 e)"
proof (rule okI)
  fix r' assume "changeLoop i i2 t t2 e = Some r'"
  then show "keeps e0 r'" using assms
  proof (induction arbitrary: e0 rule: changeLoop.raw_induct [rotated, consumes 1, case_names 1])
    case (1 f i i2 t t2 e r')
    have IH: "ok (keeps e1) (f i' i2' t' t2' e')" if "keeps e1 e'" for e1 i' i2' t' t2' e'
      by (rule okI) (rule 1(1) [OF _ that])
    show ?case
      using 1(3)
      by - (rule okD [OF _ 1(2)], (rule IH ok_paths keep.paths keeps_rules | assumption)+)
  qed
qed

lemma putCommand_keeps [keeps_rules]: "keeps e0 e \<Longrightarrow> ok (keep.R2 e0) (putCommand i L e)"
  unfolding putCommand_def by (rule ok_paths keep.paths keeps_rules | assumption)+

lemma changeCommand_keeps [keeps_rules]: "keeps e0 e \<Longrightarrow> ok (keep.R2 e0) (changeCommand i L e)"
  unfolding changeCommand_def by (rule ok_paths keep.paths keeps_rules | assumption)+

lemma execCommand_keeps [keeps_rules]: "keeps e0 e \<Longrightarrow> ok (keep.R3 e0) (execCommand i i2 i3 L e)"
  unfolding execCommand_def
  by (rule ok_paths keep.paths keeps_rules | assumption)+

lemma skipLabels_keeps [keeps_rules]:
  "keeps e0 e \<Longrightarrow> ok (keep.R2 e0) (skipLabels i i2 e)"
proof (induction i i2 e arbitrary: e0 rule: skipLabels.induct)
  case (1 i i2 e)
  show ?case
    by (subst skipLabels.simps) (rule "1.IH" ok_paths_eq keep.paths_eq keeps_rules "1.prems" refl | assumption)+
qed

lemma loopEnd_keeps [keeps_rules]: "keeps e0 e \<Longrightarrow> ok (keep.R3 e0) (Some (loopEnd L e))"
  by (simp add: loopEnd_def keep.R3_def)

lemma runInstruction_keeps [keeps_rules]: "keeps e0 e \<Longrightarrow> ok (keep.R3 e0) (runInstruction i L e)"
  unfolding runInstruction_def by (rule ok_paths keep.paths keeps_rules | assumption)+

lemma runCommand_keeps [keeps_rules]: "keeps e0 e \<Longrightarrow> ok (keep.R3 e0) (runCommand i i2 i3 L e)"
  unfolding runCommand_def by (rule ok_paths keep.paths keeps_rules | assumption)+

lemma oopLoop_keeps: "keeps e0 e \<Longrightarrow> oopLoop i j a L e = Some r \<Longrightarrow> ok (keep.R3 e0) r"
  unfolding oopLoop_def
proof (erule while_option_rule [rotated])
  assume "keeps e0 e"
  then show "ok (keep.R3 e0) (Some (ReadInstruction, L, e))" by (rule keep.some3)
next
  fix r assume r: "ok (keep.R3 e0) r" and "oopRunning r"
  show "ok (keep.R3 e0) (r \<bind> oopStep i j a)"
  proof (rule ok_bind_eq)
    fix x assume "r = Some x"
    moreover obtain l L e where x: "x = (l, L, e)" by (cases x)
    ultimately have "keeps e0 e" using r by (simp add: keep.R3_def)
    then show "ok (keep.R3 e0) (oopStep i j a x)"
      unfolding oopStep_def x prod.case
      by (cases l) (simp_all only: OopLabel.case runInstruction_keeps runCommand_keeps keep.some3)
  qed
qed

lemma oopLoop_bind:
  assumes "keeps start e" and "\<And>r. ok (keep.R3 start) r \<Longrightarrow> ok P (f r)"
  shows "ok P (oopLoop i j a L e \<bind> f)"
  using assms oopLoop_keeps by (cases "oopLoop i j a L e") simp_all

lemma oopFinish_keeps [keeps_rules]: "keeps e0 e \<Longrightarrow> ok (keeps e0) (oopFinish i s L e)"
  unfolding oopFinish_def by (rule ok_paths keep.paths keeps_rules | assumption)+

lemma OopExecute_keeps [keeps_rules]: "keeps e0 e \<Longrightarrow> ok (keeps e0) (OopExecute i s e)"
  unfolding OopExecute_def
  by (rule oopLoop_bind [where start = e0] ok_paths keep.paths keeps_rules | assumption)+

end
