(* ===== verification/KeepsBoard.thy ===== *)
theory KeepsBoard
  imports KeepsOop Touch
begin

text \<open>
  The frame of a game cycle, continued: board and world files, and the creatures' ticks.
\<close>

section \<open>Board and world files\<close>

text \<open>
  \<^const>\<open>BoardOpen\<close> installs a stat count from the file before it reads the stats, so its frame
  is split there: after the count is set nothing touches it, and every stat it promises was
  found inside the array.
\<close>

definition unmoved :: "Engine \<Rightarrow> Engine \<Rightarrow> bool" where
  "unmoved e e' \<longleftrightarrow>
     config e' = config e \<and> Events e' = Events e \<and> PNext e' = PNext e \<and> Players e' = Players e \<and>
     StatCount (Board e') = StatCount (Board e)"

interpretation unmoved: frame unmoved
  by unfold_locales (auto simp: unmoved_def)

lemma unmoved_keeps: "keeps e0 e \<Longrightarrow> unmoved e e' \<Longrightarrow> keeps e0 e'"
  by (rule keeps_same) (simp_all add: unmoved_def)

lemma unmoved_modStat: "ok (unmoved e) (modStat i f e)"
  by (auto simp: modStat_def putStat_def unmoved_def config_def ok_def split: if_splits Option.bind_splits)

lemma unmoved_putStat: "unmoved e (putStat i s e)"
  by (simp add: putStat_def unmoved_def config_def)

lemma unmoved_setTile: "ok (unmoved e) (setTile x y t e)"
  by (simp add: setTile_def putTile_def unmoved_def config_def)

lemmas unmoved_rules =
  unmoved.trans [OF _ unmoved_putStat] unmoved.chain [OF unmoved_modStat] unmoved.chain [OF unmoved_setTile]

lemma openStat_unmoved: "unmoved e0 e \<Longrightarrow> ok (unmoved.R2 e0) (openStat ix (ptr, e))"
  unfolding openStat_def by (rule ok_paths unmoved.paths unmoved_rules | assumption)+

lemma openStat_inStats: "openStat ix r = Some r' \<Longrightarrow> inStats ix"
  by (auto simp: openStat_def statAt_def split: prod.splits if_splits)

lemma foldM_each:
  "foldM f xs s = Some s' \<Longrightarrow> x \<in> set xs \<Longrightarrow> \<exists>t t'. f x t = Some t'"
  by (induction xs arbitrary: s) (auto split: Option.bind_splits)

lemma openStats_fit:
  assumes "foldM openStat [0..n] (ptr, e) = Some r"
  shows "n \<le> MAX_STAT + 1"
proof (cases "0 \<le> n")
  case True
  then obtain t t' where "openStat n t = Some t'" using foldM_each [OF assms, of n] by auto
  then show ?thesis using openStat_inStats by (simp add: inStats_def)
qed simp

lemma openStats_keeps:
  "keeps e0 e \<Longrightarrow> ok (keep.R2 e0) (foldM openStat [0..StatCount (Board (setStatCount n e))] (ptr, setStatCount n e))"
proof (rule okI)
  fix r assume k: "keeps e0 e"
    and r: "foldM openStat [0..StatCount (Board (setStatCount n e))] (ptr, setStatCount n e) = Some r"
  have "ok (unmoved.R2 (setStatCount n e))
      (foldM openStat [0..StatCount (Board (setStatCount n e))] (ptr, setStatCount n e))"
    by (rule unmoved.foldM_frame2 unmoved.refl openStat_unmoved | assumption)+
  then have u: "unmoved (setStatCount n e) (snd r)" using r by (simp add: unmoved.R2_def)
  have "statsFit (snd r)"
    using openStats_fit [OF r] u by (simp add: statsFit_def unmoved_def)
  moreover have "config (snd r) = config e" "Events (snd r) = Events e" "PNext (snd r) = PNext e"
    "Players (snd r) = Players e"
    using u by (simp_all add: unmoved_def setStatCount_def config_def)
  ultimately have "keeps e (snd r)" by (simp add: keeps_def heapOk_def follows_same)
  with k show "keep.R2 e0 r" unfolding keep.R2_def by (rule keep.trans)
qed

lemma openTiles_keeps [keeps_rules]: "keeps e0 e \<Longrightarrow> ok (keep.R2 e0) (openTiles i j rle ptr e)"
proof (induction i j rle ptr e arbitrary: e0 rule: openTiles.induct)
  case (1 i j rle ptr e)
  show ?case
    by (subst openTiles.simps, intro ok_bind_eq [where 'a = "TRleTile \<times> int list"] ok_prod)
       (rule "1.IH" ok_let ok_prod keep.paths_eq ok_if keeps_rules "1.prems" refl
         | assumption | erule sym | metis)+
qed

lemma keeps_board_name [keeps_rules]:
  "keeps e0 e \<Longrightarrow> keeps e0 (e\<lparr>Board := (Board e)\<lparr>bName := s\<rparr>\<rparr>)"
  by (rule keeps_same) (simp_all add: config_def)

lemma shareData_keeps [keeps_rules]: "keeps e0 e \<Longrightarrow> ok (keeps e0) (shareData i e)"
  unfolding shareData_def by (rule ok_paths keep.paths keeps_rules | assumption)+

lemma storeBoardData_keeps [keeps_rules]: "keeps e0 e \<Longrightarrow> ok (keeps e0) (storeBoardData i bs e)"
  unfolding storeBoardData_def by (auto simp: config_def intro: keeps_same)

lemma closeStat_keeps [keeps_rules]: "keeps e0 e \<Longrightarrow> ok (keep.R3 e0) (closeStat ix (ptr, buf, e))"
  unfolding closeStat_def by (rule ok_paths keep.paths keeps_rules | assumption)+

lemma BoardClose_keeps [keeps_rules]: "keeps e0 e \<Longrightarrow> ok (keeps e0) (BoardClose e)"
  unfolding BoardClose_def by (rule ok_paths keep.paths keeps_rules | assumption)+

lemma setEdges_keeps [keeps_rules]: "keeps e0 e \<Longrightarrow> ok (keeps e0) (setEdges e)"
  unfolding setEdges_def by (rule ok_paths keep.paths keeps_rules | assumption)+

lemma BoardOpen_keeps [keeps_rules]: "keeps e0 e \<Longrightarrow> ok (keeps e0) (BoardOpen i e)"
  unfolding BoardOpen_def Let_def [of "setStatCount n e" for n e]
  by (rule openStats_keeps ok_paths keep.paths keeps_rules | assumption)+

lemma BoardChange_keeps [keeps_rules]: "keeps e0 e \<Longrightarrow> ok (keeps e0) (BoardChange i e)"
  unfolding BoardChange_def by (rule ok_paths keep.paths keeps_rules | assumption)+

lemma worldWriteTo_keeps [keeps_rules]: "keeps e0 e \<Longrightarrow> ok (keep.R2 e0) (worldWriteTo e)"
  unfolding worldWriteTo_def by (rule ok_paths keep.paths keeps_rules | assumption)+

lemma WorldSave_keeps [keeps_rules]: "keeps e0 e \<Longrightarrow> ok (keep.R2 e0) (WorldSave b e)"
  unfolding WorldSave_def by (rule ok_paths keep.paths keeps_rules | assumption)+

section \<open>Creatures\<close>

lemma ElementMessageTimerTick_keeps [keeps_rules]:
  "keeps e0 e \<Longrightarrow> ok (keeps e0) (ElementMessageTimerTick i e)"
  unfolding ElementMessageTimerTick_def by (rule ok_paths keep.paths keeps_rules | assumption)+

lemma bombSquare_keeps [keeps_rules]: "keeps e0 e \<Longrightarrow> ok (keeps e0) (bombSquare i i2 i3 e)"
  unfolding bombSquare_def by (rule ok_paths keep.paths keeps_rules | assumption)+

declare surroundings_keeps [keeps_rules]

lemma DrawPlayerSurroundings_keeps [keeps_rules]:
  "keeps e0 e \<Longrightarrow> ok (keeps e0) (DrawPlayerSurroundings i i2 i3 e)"
  unfolding DrawPlayerSurroundings_def by (rule ok_paths keep.paths keeps_rules | assumption)+

lemma ElementBombTick_keeps [keeps_rules]: "keeps e0 e \<Longrightarrow> ok (keeps e0) (ElementBombTick i e)"
  unfolding ElementBombTick_def by (rule ok_paths keep.paths keeps_rules | assumption)+

lemma wander_keeps [keeps_rules]: "keeps e0 e \<Longrightarrow> ok (keep.R2 e0) (wander i e)"
  unfolding wander_def by (rule ok_paths keep.paths keeps_rules | assumption)+

lemma ElementLionTick_keeps [keeps_rules]: "keeps e0 e \<Longrightarrow> ok (keeps e0) (ElementLionTick i e)"
  unfolding ElementLionTick_def by (rule ok_paths keep.paths keeps_rules | assumption)+

lemma shootAt_keeps [keeps_rules]: "keeps e0 e \<Longrightarrow> ok (keeps e0) (shootAt i i2 i3 e)"
  unfolding shootAt_def by (rule ok_paths keep.paths keeps_rules | assumption)+

lemma ElementTigerTick_keeps [keeps_rules]: "keeps e0 e \<Longrightarrow> ok (keeps e0) (ElementTigerTick i e)"
  unfolding ElementTigerTick_def by (rule ok_paths keep.paths keeps_rules | assumption)+

lemma setStep_keeps [keeps_rules]: "keeps e0 e \<Longrightarrow> ok (keeps e0) (setStep i i2 i3 e)"
  unfolding setStep_def by (rule ok_paths keep.paths keeps_rules | assumption)+

lemma ElementRuffianTick_keeps [keeps_rules]: "keeps e0 e \<Longrightarrow> ok (keeps e0) (ElementRuffianTick i e)"
  unfolding ElementRuffianTick_def by (rule ok_paths keep.paths keeps_rules | assumption)+

lemma ElementBearTick_keeps [keeps_rules]: "keeps e0 e \<Longrightarrow> ok (keeps e0) (ElementBearTick i e)"
  unfolding ElementBearTick_def by (rule ok_paths keep.paths keeps_rules | assumption)+

lemma ElementSharkTick_keeps [keeps_rules]: "keeps e0 e \<Longrightarrow> ok (keeps e0) (ElementSharkTick i e)"
  unfolding ElementSharkTick_def by (rule ok_paths keep.paths keeps_rules | assumption)+

lemma headSteer_keeps [keeps_rules]: "keeps e0 e \<Longrightarrow> ok (keeps e0) (headSteer i e)"
  unfolding headSteer_def by (rule ok_paths keep.paths keeps_rules | assumption)+

lemma headTurn_keeps [keeps_rules]: "keeps e0 e \<Longrightarrow> ok (keeps e0) (headTurn i e)"
  unfolding headTurn_def by (rule ok_paths keep.paths keeps_rules | assumption)+

lemma reverseChain_keeps [keeps_rules]:
  assumes "keeps e0 e"
  shows "ok (keep.R2 e0) (reverseChain i e)"
proof (rule okI)
  fix r' assume "reverseChain i e = Some r'"
  then show "keep.R2 e0 r'" using assms
  proof (induction arbitrary: e0 rule: reverseChain.raw_induct [rotated, consumes 1, case_names 1])
    case (1 f i e r')
    have IH: "ok (keep.R2 e1) (f i' e')" if "keeps e1 e'" for e1 i' e'
      by (rule okI) (rule 1(1) [OF _ that])
    show ?case
      using 1(3)
      by - (rule okD [OF _ 1(2)], (rule IH ok_paths keep.paths keeps_rules | assumption)+)
  qed
qed

lemma headReverse_keeps [keeps_rules]: "keeps e0 e \<Longrightarrow> ok (keeps e0) (headReverse i e)"
  unfolding headReverse_def by (rule ok_paths keep.paths keeps_rules | assumption)+

lemma headAttack_keeps [keeps_rules]: "keeps e0 e \<Longrightarrow> ok (keeps e0) (headAttack i i2 i3 e)"
  unfolding headAttack_def by (rule ok_paths keep.paths keeps_rules | assumption)+

lemma adoptSegment_keeps [keeps_rules]: "keeps e0 e \<Longrightarrow> ok (keeps e0) (adoptSegment i i2 i3 e)"
  unfolding adoptSegment_def by (rule ok_paths keep.paths keeps_rules | assumption)+

lemma linkFollower_keeps [keeps_rules]: "keeps e0 e \<Longrightarrow> ok (keeps e0) (linkFollower i i2 i3 i4 i5 e)"
  unfolding linkFollower_def by (rule ok_paths keep.paths keeps_rules | assumption)+

lemma dragChain_keeps [keeps_rules]:
  assumes "keeps e0 e"
  shows "ok (keeps e0) (dragChain i e)"
proof (rule okI)
  fix r' assume "dragChain i e = Some r'"
  then show "keeps e0 r'" using assms
  proof (induction arbitrary: e0 rule: dragChain.raw_induct [rotated, consumes 1, case_names 1])
    case (1 f i e r')
    have IH: "ok (keeps e1) (f i' e')" if "keeps e1 e'" for e1 i' e'
      by (rule okI) (rule 1(1) [OF _ that])
    show ?case
      using 1(3)
      by - (rule okD [OF _ 1(2)], (rule IH ok_paths keep.paths keeps_rules | assumption)+)
  qed
qed

lemma ElementCentipedeHeadTick_keeps [keeps_rules]:
  "keeps e0 e \<Longrightarrow> ok (keeps e0) (ElementCentipedeHeadTick i e)"
  unfolding ElementCentipedeHeadTick_def by (rule ok_paths keep.paths keeps_rules | assumption)+

lemma ElementCentipedeSegmentTick_keeps [keeps_rules]:
  "keeps e0 e \<Longrightarrow> ok (keeps e0) (ElementCentipedeSegmentTick i e)"
  unfolding ElementCentipedeSegmentTick_def by (rule ok_paths keep.paths keeps_rules | assumption)+

lemma removeBullet_keeps [keeps_rules]: "keeps e0 e \<Longrightarrow> ok (keeps e0) (removeBullet i e)"
  unfolding removeBullet_def by (rule ok_paths keep.paths keeps_rules | assumption)+

lemma bulletHit_keeps [keeps_rules]: "keeps e0 e \<Longrightarrow> ok (keeps e0) (bulletHit i i2 i3 i4 e)"
  unfolding bulletHit_def by (rule ok_paths keep.paths keeps_rules | assumption)+

text \<open>A bullet bounces once: the second try has no third.\<close>

lemma bulletTry_last: "keeps e0 e \<Longrightarrow> ok (keeps e0) (bulletTry False i e)"
  by (subst bulletTry.simps, unfold simp_thms if_False) (rule ok_paths keep.paths keeps_rules | assumption)+

lemma bulletTry_keeps [keeps_rules]: "keeps e0 e \<Longrightarrow> ok (keeps e0) (bulletTry b i e)"
  by (cases b; simp only: bulletTry_last)
     (subst bulletTry.simps, (rule bulletTry_last ok_paths keep.paths keeps_rules | assumption)+)

lemma ElementBulletTick_keeps [keeps_rules]: "keeps e0 e \<Longrightarrow> ok (keeps e0) (ElementBulletTick i e)"
  unfolding ElementBulletTick_def by (rule ok_paths keep.paths keeps_rules | assumption)+

lemma ElementSpinningGunTick_keeps [keeps_rules]:
  "keeps e0 e \<Longrightarrow> ok (keeps e0) (ElementSpinningGunTick i e)"
  unfolding ElementSpinningGunTick_def by (rule ok_paths keep.paths keeps_rules | assumption)+

lemma ElementStarTick_keeps [keeps_rules]: "keeps e0 e \<Longrightarrow> ok (keeps e0) (ElementStarTick i e)"
  unfolding ElementStarTick_def by (rule ok_paths keep.paths keeps_rules | assumption)+

lemma ElementSlimeTick_keeps [keeps_rules]: "keeps e0 e \<Longrightarrow> ok (keeps e0) (ElementSlimeTick i e)"
  unfolding ElementSlimeTick_def by (rule ok_paths keep.paths keeps_rules | assumption)+

lemma retractRay_keeps [keeps_rules]:
  assumes "keeps e0 e"
  shows "ok (keep.R3 e0) (retractRay i i2 i3 i4 e)"
proof (rule okI)
  fix r' assume "retractRay i i2 i3 i4 e = Some r'"
  then show "keep.R3 e0 r'" using assms
  proof (induction arbitrary: e0 rule: retractRay.raw_induct [rotated, consumes 1, case_names 1])
    case (1 f i i2 i3 i4 e r')
    have IH: "ok (keep.R3 e1) (f i' i2' i3' i4' e')" if "keeps e1 e'" for e1 i' i2' i3' i4' e'
      by (rule okI) (rule 1(1) [OF _ that])
    show ?case
      using 1(3)
      by - (rule okD [OF _ 1(2)], (rule IH ok_paths keep.paths keeps_rules | assumption)+)
  qed
qed

lemma crushPlayer_keeps [keeps_rules]:
  assumes "keeps e0 e"
  shows "ok (keeps e0) (crushPlayer i e)"
proof (rule okI)
  fix r' assume "crushPlayer i e = Some r'"
  then show "keeps e0 r'" using assms
  proof (induction arbitrary: e0 rule: crushPlayer.raw_induct [rotated, consumes 1, case_names 1])
    case (1 f i e r')
    have IH: "ok (keeps e1) (f i' e')" if "keeps e1 e'" for e1 i' e'
      by (rule okI) (rule 1(1) [OF _ that])
    show ?case
      using 1(3)
      by - (rule okD [OF _ 1(2)], (rule IH ok_paths keep.paths keeps_rules | assumption)+)
  qed
qed

lemma pushPlayerAside_keeps [keeps_rules]: "keeps e0 e \<Longrightarrow> ok (keep.R2 e0) (pushPlayerAside i i2 i3 e)"
  unfolding pushPlayerAside_def by (rule ok_paths keep.paths keeps_rules | assumption)+

lemma emitRay_keeps [keeps_rules]:
  assumes "keeps e0 e"
  shows "ok (keeps e0) (emitRay i i2 i3 i4 e)"
proof (rule okI)
  fix r' assume "emitRay i i2 i3 i4 e = Some r'"
  then show "keeps e0 r'" using assms
  proof (induction arbitrary: e0 rule: emitRay.raw_induct [rotated, consumes 1, case_names 1])
    case (1 f i i2 i3 i4 e r')
    have IH: "ok (keeps e1) (f i' i2' i3' i4' e')" if "keeps e1 e'" for e1 i' i2' i3' i4' e'
      by (rule okI) (rule 1(1) [OF _ that])
    show ?case
      using 1(3)
      by - (rule okD [OF _ 1(2)], (rule IH ok_paths keep.paths keeps_rules | assumption)+)
  qed
qed

lemma ElementBlinkWallTick_keeps [keeps_rules]: "keeps e0 e \<Longrightarrow> ok (keeps e0) (ElementBlinkWallTick i e)"
  unfolding ElementBlinkWallTick_def by (rule ok_paths keep.paths keeps_rules | assumption)+

lemma conveyorMove_keeps [keeps_rules]:
  "keeps e0 e \<Longrightarrow> ok (keep.R2 e0) (conveyorMove x y d tiles i (b, e))"
  unfolding conveyorMove_def by (rule ok_paths keep.paths keeps_rules | assumption)+

lemma ElementConveyorTick_keeps [keeps_rules]:
  "keeps e0 e \<Longrightarrow> ok (keeps e0) (ElementConveyorTick i i2 i3 e)"
  unfolding ElementConveyorTick_def by (rule ok_paths keep.paths keeps_rules | assumption)+

lemma ElementConveyorCWTick_keeps [keeps_rules]:
  "keeps e0 e \<Longrightarrow> ok (keeps e0) (ElementConveyorCWTick i e)"
  unfolding ElementConveyorCWTick_def by (rule ok_paths keep.paths keeps_rules | assumption)+

lemma ElementConveyorCCWTick_keeps [keeps_rules]:
  "keeps e0 e \<Longrightarrow> ok (keeps e0) (ElementConveyorCCWTick i e)"
  unfolding ElementConveyorCCWTick_def by (rule ok_paths keep.paths keeps_rules | assumption)+

lemma ElementPusherTick_keeps [keeps_rules]:
  assumes "keeps e0 e"
  shows "ok (keeps e0) (ElementPusherTick i e)"
proof (rule okI)
  fix r' assume "ElementPusherTick i e = Some r'"
  then show "keeps e0 r'" using assms
  proof (induction arbitrary: e0 rule: ElementPusherTick.raw_induct [rotated, consumes 1, case_names 1])
    case (1 f i e r')
    have IH: "ok (keeps e1) (f i' e')" if "keeps e1 e'" for e1 i' e'
      by (rule okI) (rule 1(1) [OF _ that])
    show ?case
      using 1(3)
      by - (rule okD [OF _ 1(2)], (rule IH ok_paths keep.paths keeps_rules | assumption)+)
  qed
qed

lemma ElementTransporterTick_keeps [keeps_rules]:
  "keeps e0 e \<Longrightarrow> ok (keeps e0) (ElementTransporterTick i e)"
  unfolding ElementTransporterTick_def by (rule ok_paths keep.paths keeps_rules | assumption)+

end
