(* ===== verification/KeepsGame.thy ===== *)
theory KeepsGame
  imports KeepsBoard Game
begin

text \<open>
  The frame of a game cycle, concluded: touches, ticks, replies and the pass over the stats.
\<close>

section \<open>Touch procedures\<close>

lemma setDelta_keeps [keeps_rules]: "keeps e0 e \<Longrightarrow> keeps e0 (setDelta r dx dy e)"
  by (cases r) (simp_all add: setDelta_def keeps_update)

lemma BoardEnter_keeps [keeps_rules]: "keeps e0 e \<Longrightarrow> ok (keeps e0) (BoardEnter i e)"
  unfolding BoardEnter_def by (rule ok_paths keep.paths keeps_rules | assumption)+

lemma BoardPassageTeleport_keeps [keeps_rules]:
  "keeps e0 e \<Longrightarrow> ok (keeps e0) (BoardPassageTeleport i i2 i3 e)"
  unfolding BoardPassageTeleport_def by (rule ok_paths keep.paths keeps_rules | assumption)+

lemma ElementDamagingTouch_keeps [keeps_rules]:
  "keeps e0 e \<Longrightarrow> ok (keeps e0) (ElementDamagingTouch i i2 i3 e)"
  unfolding ElementDamagingTouch_def by (rule ok_paths keep.paths keeps_rules | assumption)+

lemma ElementBombTouch_keeps [keeps_rules]: "keeps e0 e \<Longrightarrow> ok (keeps e0) (ElementBombTouch i i2 i3 d e)"
  unfolding ElementBombTouch_def by (rule ok_paths keep.paths keeps_rules | assumption)+

lemma ElementTransporterTouch_keeps [keeps_rules]:
  "keeps e0 e \<Longrightarrow> ok (keeps e0) (ElementTransporterTouch i i2 i3 d e)"
  unfolding ElementTransporterTouch_def by (rule ok_paths keep.paths keeps_rules | assumption)+

lemma ElementEnergizerTouch_keeps [keeps_rules]:
  "keeps e0 e \<Longrightarrow> ok (keeps e0) (ElementEnergizerTouch i i2 i3 e)"
  unfolding ElementEnergizerTouch_def by (rule ok_paths keep.paths keeps_rules | assumption)+

lemma ElementSlimeTouch_keeps [keeps_rules]: "keeps e0 e \<Longrightarrow> ok (keeps e0) (ElementSlimeTouch i i2 i3 e)"
  unfolding ElementSlimeTouch_def by (rule ok_paths keep.paths keeps_rules | assumption)+

lemma ElementPushableTouch_keeps [keeps_rules]:
  "keeps e0 e \<Longrightarrow> ok (keeps e0) (ElementPushableTouch i i2 i3 d e)"
  unfolding ElementPushableTouch_def by (rule ok_paths keep.paths keeps_rules | assumption)+

lemma ElementObjectTouch_keeps [keeps_rules]:
  "keeps e0 e \<Longrightarrow> ok (keeps e0) (ElementObjectTouch i i2 i3 e)"
  unfolding ElementObjectTouch_def by (rule ok_paths keep.paths keeps_rules | assumption)+

lemma ElementScrollTouch_keeps [keeps_rules]:
  "keeps e0 e \<Longrightarrow> ok (keeps e0) (ElementScrollTouch i i2 i3 e)"
  unfolding ElementScrollTouch_def by (rule ok_paths keep.paths keeps_rules | assumption)+

lemma ElementKeyTouch_keeps [keeps_rules]: "keeps e0 e \<Longrightarrow> ok (keeps e0) (ElementKeyTouch i i2 i3 e)"
  unfolding ElementKeyTouch_def by (rule ok_paths keep.paths keeps_rules | assumption)+

lemma ElementAmmoTouch_keeps [keeps_rules]: "keeps e0 e \<Longrightarrow> ok (keeps e0) (ElementAmmoTouch i i2 i3 e)"
  unfolding ElementAmmoTouch_def by (rule ok_paths keep.paths keeps_rules | assumption)+

lemma ElementGemTouch_keeps [keeps_rules]: "keeps e0 e \<Longrightarrow> ok (keeps e0) (ElementGemTouch i i2 i3 e)"
  unfolding ElementGemTouch_def by (rule ok_paths keep.paths keeps_rules | assumption)+

lemma ElementDoorTouch_keeps [keeps_rules]: "keeps e0 e \<Longrightarrow> ok (keeps e0) (ElementDoorTouch i i2 i3 e)"
  unfolding ElementDoorTouch_def by (rule ok_paths keep.paths keeps_rules | assumption)+

lemma ElementTorchTouch_keeps [keeps_rules]: "keeps e0 e \<Longrightarrow> ok (keeps e0) (ElementTorchTouch i i2 i3 e)"
  unfolding ElementTorchTouch_def by (rule ok_paths keep.paths keeps_rules | assumption)+

lemma ElementInvisibleTouch_keeps [keeps_rules]:
  "keeps e0 e \<Longrightarrow> ok (keeps e0) (ElementInvisibleTouch i i2 i3 e)"
  unfolding ElementInvisibleTouch_def by (rule ok_paths keep.paths keeps_rules | assumption)+

lemma ElementForestTouch_keeps [keeps_rules]:
  "keeps e0 e \<Longrightarrow> ok (keeps e0) (ElementForestTouch i i2 i3 e)"
  unfolding ElementForestTouch_def by (rule ok_paths keep.paths keeps_rules | assumption)+

lemma ElementFakeTouch_keeps [keeps_rules]: "keeps e0 e \<Longrightarrow> ok (keeps e0) (ElementFakeTouch i i2 i3 e)"
  unfolding ElementFakeTouch_def by (rule ok_paths keep.paths keeps_rules | assumption)+

lemma ElementWaterTouch_keeps [keeps_rules]: "keeps e0 e \<Longrightarrow> ok (keeps e0) (ElementWaterTouch i i2 i3 e)"
  unfolding ElementWaterTouch_def by (rule ok_paths keep.paths keeps_rules | assumption)+

text \<open>The destination of a passage is decoded in an engine of its own.\<close>

lemma ok_bind_destination: "(\<And>x. ok P (f x)) \<Longrightarrow> ok P (BoardOpen i (NewEngine\<lparr>Headless := True, World := w\<rparr>) \<bind> f)"
  by (rule ok_bind_any)

lemma ElementPassageTouch_keeps [keeps_rules]:
  "keeps e0 e \<Longrightarrow> ok (keeps e0) (ElementPassageTouch i i2 i3 d e)"
  unfolding ElementPassageTouch_def by (rule ok_bind_destination ok_paths keep.paths keeps_rules | assumption)+

lemma simpleTouch_keeps [keeps_rules]: "keeps e0 e \<Longrightarrow> ok (keeps e0) (simpleTouch n x y src r e)"
  unfolding simpleTouch_def by (cases n; simp only: TouchName.case) (rule ok_paths keep.paths keeps_rules | assumption)+

text \<open>The induction rule of the definition, its arguments untupled.\<close>

lemmas ElementBoardEdgeTouch_induct =
  ElementBoardEdgeTouch.raw_induct [rotated, of "((((x, y), s), d), e)" r for x y s d e r,
    unfolded prod.case]

lemma ElementBoardEdgeTouch_keeps [keeps_rules]:
  assumes "keeps e0 e"
  shows "ok (keeps e0) (ElementBoardEdgeTouch i i2 i3 d e)"
proof (rule okI)
  fix r' assume "ElementBoardEdgeTouch i i2 i3 d e = Some r'"
  then show "keeps e0 r'" using assms
  proof (induction arbitrary: e0 rule: ElementBoardEdgeTouch_induct [consumes 1, case_names 1])
    case (1 f i i2 i3 d e r')
    have IH: "ok (keeps e1) (f i' i2' i3' d' e')" if "keeps e1 e'" for e1 i' i2' i3' d' e'
      by (rule okI) (rule 1(1) [OF _ that])
    show ?case
      using 1(3)
      by - (rule okD [OF _ 1(2)], (rule IH ok_paths keep.paths keeps_rules | assumption)+)
  qed
qed

lemma touchTile_keeps [keeps_rules]: "keeps e0 e \<Longrightarrow> ok (keeps e0) (touchTile i i2 i3 d e)"
  unfolding touchTile_def by (rule ok_paths keep.paths keeps_rules | assumption)+

section \<open>Ticks\<close>

lemma ElementObjectTick_keeps [keeps_rules]: "keeps e0 e \<Longrightarrow> ok (keeps e0) (ElementObjectTick i e)"
  unfolding ElementObjectTick_def by (rule ok_paths keep.paths keeps_rules | assumption)+

lemma duplicate_keeps [keeps_rules]: "keeps e0 e \<Longrightarrow> ok (keeps e0) (duplicate i e)"
  unfolding duplicate_def by (rule ok_paths keep.paths keeps_rules | assumption)+

lemma ElementDuplicatorTick_keeps [keeps_rules]:
  "keeps e0 e \<Longrightarrow> ok (keeps e0) (ElementDuplicatorTick i e)"
  unfolding ElementDuplicatorTick_def by (rule ok_paths keep.paths keeps_rules | assumption)+

lemma ElementScrollTick_keeps [keeps_rules]: "keeps e0 e \<Longrightarrow> ok (keeps e0) (ElementScrollTick i e)"
  unfolding ElementScrollTick_def by (rule ok_paths keep.paths keeps_rules | assumption)+

lemma ElementMonitorTick_keeps [keeps_rules]: "keeps e0 e \<Longrightarrow> ok (keeps e0) (ElementMonitorTick i e)"
  unfolding ElementMonitorTick_def by (rule ok_paths keep.paths keeps_rules | assumption)+

lemma GamePromptEndPlay_keeps [keeps_rules]: "keeps e0 e \<Longrightarrow> ok (keeps e0) (GamePromptEndPlay i e)"
  unfolding GamePromptEndPlay_def by (rule ok_paths keep.paths keeps_rules | assumption)+

lemma playerBlink_keeps [keeps_rules]: "keeps e0 e \<Longrightarrow> ok (keeps e0) (playerBlink i i2 e)"
  unfolding playerBlink_def by (rule ok_paths keep.paths keeps_rules | assumption)+

lemma respawnPlayer_keeps [keeps_rules]: "keeps e0 e \<Longrightarrow> ok (keeps e0) (respawnPlayer i i2 e)"
  unfolding respawnPlayer_def by (rule ok_paths keep.paths keeps_rules | assumption)+

lemma playerShoot_keeps [keeps_rules]: "keeps e0 e \<Longrightarrow> ok (keeps e0) (playerShoot i i2 e)"
  unfolding playerShoot_def by (rule ok_paths keep.paths keeps_rules | assumption)+

lemma playerMove_keeps [keeps_rules]: "keeps e0 e \<Longrightarrow> ok (keeps e0) (playerMove i i2 e)"
  unfolding playerMove_def by (rule ok_paths keep.paths keeps_rules | assumption)+

lemma playerTorch_keeps [keeps_rules]: "keeps e0 e \<Longrightarrow> ok (keeps e0) (playerTorch i i2 e)"
  unfolding playerTorch_def by (rule ok_paths keep.paths keeps_rules | assumption)+

lemma playerKey_keeps [keeps_rules]: "keeps e0 e \<Longrightarrow> ok (keeps e0) (playerKey i i2 e)"
  unfolding playerKey_def by (rule ok_paths keep.paths keeps_rules | assumption)+

lemma playerTorchTime_keeps [keeps_rules]: "keeps e0 e \<Longrightarrow> ok (keeps e0) (playerTorchTime i i2 e)"
  unfolding playerTorchTime_def by (rule ok_paths keep.paths keeps_rules | assumption)+

lemma playerEnergizerTime_keeps [keeps_rules]: "keeps e0 e \<Longrightarrow> ok (keeps e0) (playerEnergizerTime i i2 e)"
  unfolding playerEnergizerTime_def by (rule ok_paths keep.paths keeps_rules | assumption)+

lemma playerBoardTime_keeps [keeps_rules]: "keeps e0 e \<Longrightarrow> ok (keeps e0) (playerBoardTime i i2 e)"
  unfolding playerBoardTime_def by (rule ok_paths keep.paths keeps_rules | assumption)+

lemma playerAct_keeps [keeps_rules]: "keeps e0 e \<Longrightarrow> ok (keeps e0) (playerAct i i2 e)"
  unfolding playerAct_def by (rule ok_paths keep.paths keeps_rules | assumption)+

lemma ElementPlayerTick_keeps [keeps_rules]: "keeps e0 e \<Longrightarrow> ok (keeps e0) (ElementPlayerTick i e)"
  unfolding ElementPlayerTick_def by (rule ok_paths keep.paths keeps_rules | assumption)+

lemma runTick_keeps [keeps_rules]: "keeps e0 e \<Longrightarrow> ok (keeps e0) (runTick n i e)"
  unfolding runTick_def by (cases n; simp only: TickName.case) (rule ok_paths keep.paths keeps_rules | assumption)+

section \<open>Replies and the cycle\<close>

lemma keeps_io [keeps_rules]:
  assumes "keeps e0 e"
  shows "keeps e0 (takeReplies e)" "keeps e0 (loadInput e)" "keeps e0 (storeInput e)"
    "keeps e0 (setInput inp e)" "keeps e0 (nextStat e)"
  using assms
  by (rule keeps_same;
      simp add: config_def takeReplies_def loadInput_def storeInput_def setInput_def nextStat_def)+

lemma rememberDelta_keeps [keeps_rules]: "keeps e0 e \<Longrightarrow> keeps e0 (rememberDelta e)"
  unfolding rememberDelta_def by (rule keep.pure keeps_rules | assumption)+

lemma scrollReply_keeps [keeps_rules]: "keeps e0 e \<Longrightarrow> ok (keeps e0) (scrollReply x e)"
  unfolding scrollReply_def by (rule ok_paths keep.paths keeps_rules | assumption)+

lemma zapAround_keeps [keeps_rules]: "keeps e0 e \<Longrightarrow> ok (keeps e0) (zapAround i e)"
  unfolding zapAround_def by (rule ok_paths keep.paths keeps_rules | assumption)+

lemma debugEffect_keeps [keeps_rules]: "keeps e0 e \<Longrightarrow> ok (keeps e0) (debugEffect i i2 b s e)"
  unfolding debugEffect_def by (rule ok_paths keep.paths keeps_rules | assumption)+

lemma debugFlag_keeps [keeps_rules]: "keeps e0 e \<Longrightarrow> ok (keep.R3 e0) (debugFlag s e)"
  unfolding debugFlag_def by (rule ok_paths keep.paths keeps_rules | assumption)+

lemma GameApplyDebugCommand_keeps [keeps_rules]:
  "keeps e0 e \<Longrightarrow> ok (keeps e0) (GameApplyDebugCommand i s e)"
  unfolding GameApplyDebugCommand_def by (rule ok_paths keep.paths keeps_rules | assumption)+

lemma debugReply_keeps [keeps_rules]: "keeps e0 e \<Longrightarrow> ok (keeps e0) (debugReply x e)"
  unfolding debugReply_def by (rule ok_paths keep.paths keeps_rules | assumption)+

lemma saveReply_keeps [keeps_rules]: "keeps e0 e \<Longrightarrow> ok (keeps e0) (saveReply x x2 e)"
  unfolding saveReply_def by (rule ok_paths keep.paths keeps_rules | assumption)+

lemma quitReply_keeps [keeps_rules]: "keeps e0 e \<Longrightarrow> keeps e0 (quitReply x e)"
  unfolding quitReply_def by (rule keep.pure keeps_rules | assumption)+

lemma applyReplies_keeps [keeps_rules]: "keeps e0 e \<Longrightarrow> ok (keeps e0) (applyReplies x e)"
  unfolding applyReplies_def by (rule ok_paths keep.paths keeps_rules | assumption)+

lemma pausedMove_keeps [keeps_rules]: "keeps e0 e \<Longrightarrow> ok (keep.R2 e0) (pausedMove i i2 inp e)"
  unfolding pausedMove_def by (rule ok_paths keep.paths keeps_rules | assumption)+

lemma injectInput_keeps [keeps_rules]: "keeps e0 e \<Longrightarrow> keeps e0 (injectInput x b b2 e)"
  unfolding injectInput_def by (rule keep.pure keeps_rules | assumption)+

lemma tickStat_keeps [keeps_rules]: "keeps e0 e \<Longrightarrow> ok (keeps e0) (tickStat x i b e)"
  unfolding tickStat_def by (rule ok_paths keep.paths keeps_rules | assumption)+

lemma statTurn_keeps [keeps_rules]: "keeps e0 e \<Longrightarrow> ok (keeps e0) (statTurn x e)"
  unfolding statTurn_def by (rule ok_paths keep.paths keeps_rules | assumption)+

lemma tickLoop_keeps [keeps_rules]:
  assumes "keeps e0 e"
  shows "ok (keeps e0) (tickLoop x e)"
proof (rule okI)
  fix r' assume "tickLoop x e = Some r'"
  then show "keeps e0 r'" using assms
  proof (induction arbitrary: e0 rule: tickLoop.raw_induct [rotated, consumes 1, case_names 1])
    case (1 f x e r')
    have IH: "ok (keeps e1) (f x' e')" if "keeps e1 e'" for e1 x' e'
      by (rule okI) (rule 1(1) [OF _ that])
    show ?case
      using 1(3)
      by - (rule okD [OF _ 1(2)], (rule IH ok_paths keep.paths keeps_rules | assumption)+)
  qed
qed

end
