(* ===== verification/Runs.thy ===== *)
theory Runs
  imports KeepsGame
begin

text \<open>
  The engine as a state machine: a host submits replies and runs cycles. The frame of
  \<^theory_text>\<open>KeepsGame\<close> gives what a cycle preserves, and rule induction what every reachable
  engine satisfies.
\<close>

section \<open>One cycle\<close>

text \<open>What a cycle may not change: \<^const>\<open>config\<close> less the two clocks.\<close>

definition settings :: "Engine \<Rightarrow> bool \<times> bool \<times> bool \<times> bool \<times> bool \<times> bool \<times> int \<times> int" where
  "settings e = (FriendlyFire e, MultiRoom e, Headless e, EditorElements e, ForceDarknessOff e,
                 SoundBlockQueueing e, TickTimeDuration e, BoardCount (World e))"

definition steady :: "Engine \<Rightarrow> Engine \<Rightarrow> bool" where
  "steady e e' \<longleftrightarrow>
     settings e' = settings e \<and> prefix (Events e) (Events e') \<and> PNext e \<le> PNext e' \<and> follows e e' \<and>
     (statsFit e \<longrightarrow> statsFit e') \<and> (heapOk e \<longrightarrow> heapOk e')"

interpretation steady: frame steady
  by unfold_locales (auto simp: steady_def intro: prefix_order.trans follows_same follows_trans)

lemma keeps_steady: "keeps e e' \<Longrightarrow> steady e e'"
  by (simp add: keeps_def steady_def config_def settings_def)

text \<open>Reading and writing input, and advancing the clocks, changes nothing else.\<close>

lemma steady_same:
  assumes "settings e' = settings e" and "Events e' = Events e" and "PNext e' = PNext e"
    and "Players e' = Players e" and "Board e' = Board e"
  shows "steady e e'"
  using assms by (simp add: steady_def statsFit_def heapOk_def follows_same)

lemma steady_input:
  "steady e (loadInput e)" "steady e (storeInput e)" "steady e (setInput inp e)"
  "steady e (e\<lparr>ScriptPos := i\<rparr>)" "steady e (e\<lparr>TimerTicks := i\<rparr>)"
  "steady e (e\<lparr>CurrentTick := i, CurrentStatTicked := j\<rparr>)"
  "steady e (e\<lparr>gInputLastDeltaX := i, gInputLastDeltaY := j\<rparr>)"
  by (rule steady_same; simp add: settings_def loadInput_def storeInput_def setInput_def)+

lemmas steady_after = steady_input [THEN steady.trans [rotated]]

lemma Poll_steady: "steady e0 e \<Longrightarrow> steady e0 (snd (Poll e))"
  by (simp add: Poll_def steady_after)

lemma rememberDelta_steady: "steady e0 e \<Longrightarrow> steady e0 (rememberDelta e)"
  by (simp add: rememberDelta_def steady_after)

lemma InputUpdate_steady: "steady e0 e \<Longrightarrow> steady e0 (InputUpdate e)"
  unfolding InputUpdate_def split_def Let_def
  by (rule steady_after rememberDelta_steady Poll_steady | assumption)+

lemma nextCycle_steady: "steady e0 e \<Longrightarrow> steady e0 (nextCycle e)"
  unfolding nextCycle_def Let_def
  by (rule steady.if_frame InputUpdate_steady steady_after | assumption)+

lemma CurrentTick_input:
  "CurrentTick (loadInput e) = CurrentTick e" "CurrentTick (storeInput e) = CurrentTick e"
  "CurrentTick (setInput inp e) = CurrentTick e" "CurrentTick (rememberDelta e) = CurrentTick e"
  "CurrentTick (snd (Poll e)) = CurrentTick e"
  by (simp_all add: loadInput_def storeInput_def setInput_def rememberDelta_def Poll_def)

lemma nextCycle_tick:
  "CurrentTick (nextCycle e) = CurrentTick e \<or>
   CurrentTick (nextCycle e) = (if i16 (CurrentTick e + 1) > 420 then 1 else i16 (CurrentTick e + 1))"
  by (simp add: nextCycle_def Let_def InputUpdate_def split_def CurrentTick_input)

text \<open>The cycle, cut where the clock advances and where it ends.\<close>

lemma GameStepWithInputs_cases:
  assumes "GameStepWithInputs created inputs e = Some e'"
  obtains e1 t e2 where "keeps e e1" and "keeps (e1\<lparr>TimerTicks := t\<rparr>) e2"
    and "e' = storeInput (nextCycle e2)"
proof -
  let ?t = "\<lambda>e. u32 (TimerTicks e + u32 (quot (i16 (TickTimeDuration e + 5)) 6))"
  obtain e0 where e0: "applyReplies created e = Some e0"
    and rest: "do { e \<leftarrow> tickLoop inputs ((loadInput e0)\<lparr>TimerTicks := ?t (loadInput e0)\<rparr>);
      Some (storeInput (nextCycle e)) } = Some e'"
    using assms unfolding GameStepWithInputs_def Let_def by (cases "applyReplies created e") simp_all
  obtain e2 where e2: "tickLoop inputs ((loadInput e0)\<lparr>TimerTicks := ?t (loadInput e0)\<rparr>) = Some e2"
    and e': "e' = storeInput (nextCycle e2)"
    using rest by (cases "tickLoop inputs ((loadInput e0)\<lparr>TimerTicks := ?t (loadInput e0)\<rparr>)") simp_all
  have "keeps e e0" using okD [OF applyReplies_keeps [OF keep.refl] e0] .
  then have "keeps e (loadInput e0)" by (rule keeps_io)
  then show ?thesis using that okD [OF tickLoop_keeps [OF keep.refl] e2] e' by blast
qed

lemma GameStepWithInputs_steady: "GameStepWithInputs created inputs e = Some e' \<Longrightarrow> steady e e'"
proof (erule GameStepWithInputs_cases)
  fix e1 t e2 assume e1: "keeps e e1" and e2: "keeps (e1\<lparr>TimerTicks := t\<rparr>) e2" and e': "e' = storeInput (nextCycle e2)"
  have "steady e (e1\<lparr>TimerTicks := t\<rparr>)" using e1 by (intro steady_after keeps_steady)
  then have "steady e e2" using e2 by (rule steady.trans [OF _ keeps_steady])
  then show ?thesis unfolding e' by (intro steady_after nextCycle_steady)
qed

section \<open>Players and stats\<close>

text \<open>What \<^const>\<open>RemoveStat\<close> does to the table of players: up to new entries, the renumbering alone.\<close>

interpretation alloc: frame allocated
  by unfold_locales (rule allocated_refl, erule (1) allocated_trans)

lemma allocated_same:
  "allocated e0 e \<Longrightarrow> Players e' = Players e \<Longrightarrow> PNext e' = PNext e \<Longrightarrow> PHeap e' = PHeap e \<Longrightarrow> allocated e0 e'"
  by (simp add: allocated_def)

lemma allocated_steps:
  assumes "allocated e0 e"
  shows "ok (allocated e0) (setTile x y t e)" "ok (allocated e0) (modStat i s e)" "ok (allocated e0) (putAudience i j e)"
    "ok (allocated e0) (BoardDrawTile x y e)" "allocated e0 (e\<lparr>CurrentStatTicked := n\<rparr>)" "allocated e0 (setStatCount n e)"
proof -
  show "ok (allocated e0) (BoardDrawTile x y e)"
    using BoardDrawTile_drawn [OF draw.refl, of e x y] allocated_trans [OF assms] by (auto simp: drawn_def ok_def)
qed (use assms in \<open>auto simp: setTile_def modStat_def putAudience_def putTile_def putStat_def setStatCount_def ok_def
    split: Option.bind_splits if_splits elim: allocated_same\<close>)

definition reindexed :: "int \<Rightarrow> Engine \<Rightarrow> Engine \<Rightarrow> bool" where
  "reindexed k e e' \<longleftrightarrow> (\<exists>g. allocated e g \<and> e' = reindexPlayersAfterStatRemoval k g)"

lemma RemoveStat_reindexes: "ok (reindexed k e) (RemoveStat k e)"
proof -
  have last: "allocated e g \<Longrightarrow> ok (reindexed k e) (Some (reindexPlayersAfterStatRemoval k g))" for g
    by (auto simp: reindexed_def)
  show ?thesis
    unfolding RemoveStat_def reindexScrollAudienceAfterStatRemoval_def
    by (rule last alloc.bind [where start = e and P = "reindexed k e"] alloc.letI [where start = e and P = "reindexed k e"]
        ok_paths alloc.paths allocated_steps allocated_refl | assumption)+
qed

lemma RemoveStat_players:
  assumes "RemoveStat k e = Some e'" and "a < PNext e"
  shows "Players e' i = Some a \<longleftrightarrow> Players e (oldId [k] i) = Some a"
proof -
  obtain g where g: "allocated e g" "e' = reindexPlayersAfterStatRemoval k g"
    using okD [OF RemoveStat_reindexes assms(1)] by (auto simp: reindexed_def)
  then have "Players e' i = Some a \<longleftrightarrow> Players g (oldId [k] i) = Some a"
    by (simp add: reindexPlayersAfterStatRemoval_def)
  then show ?thesis using g(1) assms(2) unfolding allocated_def by (metis not_less)
qed

text \<open>
  C4. A cycle of the simulation, whatever the boards, programs and players do in it, leaves the configuration alone
  (friendly fire, rooms, headless, the element table, the tick length), only appends to the queue of events, and keeps
  the stats within their array. The table of player states is, afterwards, the table before with some stat ids \<open>ks\<close>
  deleted one after the other, each time the later ones moving down by one, and with entries for states that did not
  exist before: no entry is swapped, shared or moved in any other way. Deleting the id \<open>k\<close> is, in turn, all that
  \<open>RemoveStat\<close> of \<open>k\<close> does to the entries there are.
\<close>

theorem GameStep_frame:
  assumes "GameStep created inputs e = Some e'" and "heapOk e"
  shows "settings e' = settings e \<and> prefix (Events e) (Events e') \<and> (statsFit e \<longrightarrow> statsFit e') \<and> heapOk e' \<and>
    (\<exists>ks. \<forall>i. case Players e' i of
        Some a \<Rightarrow> PNext e \<le> a \<or> Players e (oldId ks i) = Some a
      | None \<Rightarrow> Players e (oldId ks i) = None) \<and>
    (\<forall>k f f'. RemoveStat k f = Some f' \<longrightarrow>
       (\<forall>i a. a < PNext f \<longrightarrow> (Players f' i = Some a \<longleftrightarrow> Players f (if i < k then i else i + 1) = Some a)))"
proof -
  have s: "steady e e'" using GameStepWithInputs_steady assms(1) unfolding GameStep_def by blast
  then obtain ks where ks: "\<forall>i a. a < PNext e \<longrightarrow> (Players e' i = Some a \<longleftrightarrow> Players e (oldId ks i) = Some a)"
    by (auto simp: steady_def follows_def)
  have "case Players e' i of Some a \<Rightarrow> PNext e \<le> a \<or> Players e (oldId ks i) = Some a
      | None \<Rightarrow> Players e (oldId ks i) = None" for i
    using ks assms(2) by (cases "Players e' i"; cases "Players e (oldId ks i)") (force simp: heapOk_def)+
  moreover have "Players f' i = Some a \<longleftrightarrow> Players f (if i < k then i else i + 1) = Some a"
    if "RemoveStat k f = Some f'" and "a < PNext f" for k f f' i a
    using RemoveStat_players [OF that] by simp
  ultimately show ?thesis using s assms(2) unfolding steady_def by blast
qed

text \<open>The engine that \<^const>\<open>NewEngine\<close> is, stepped once.\<close>

lemma NewEngine_simps [simp]:
  "Stats (Board NewEngine) i = zeroStat" "StatCount (Board NewEngine) = 0" "CurrentStatTicked NewEngine = 0"
  "PendingScrollReplies NewEngine = []" "PendingDebugCommands NewEngine = []"
  "PendingSaveFilenames NewEngine = []" "PendingQuitReplies NewEngine = []" "Players NewEngine = (\<lambda>_. None)"
  "CurrentTick NewEngine = 0" "FriendlyFire NewEngine" "GamePlayExitRequested NewEngine = False"
  by (simp_all add: NewEngine_def zeroBoard_def)

lemma tickLoop_idle:
  assumes "Stats (Board e) 0 = zeroStat" and "StatCount (Board e) = 0" and "CurrentStatTicked e = 0"
  shows "tickLoop inputs e \<noteq> None"
proof -
  have idle: "statTurn inputs e = Some (nextStat e)"
    using assms by (simp add: statTurn_def Let_def statAt_def inStats_def turnDue_def zeroStat_def)
  have next': "CurrentStatTicked (nextStat e) = 1" "Board (nextStat e) = Board e"
    using assms(3) by (simp_all add: nextStat_def)
  have stop: "tickLoop inputs (nextStat e) = Some (nextStat e)"
    using assms by (subst tickLoop.simps) (simp add: next')
  show ?thesis by (subst tickLoop.simps) (simp add: idle stop del: not_None_eq)
qed

lemma GameStep_NewEngine: "GameStep (\<lambda>_. True) None NewEngine \<noteq> None"
proof -
  have "tickLoop inputs ((loadInput (takeReplies NewEngine))\<lparr>TimerTicks := t\<rparr>) \<noteq> None" for inputs t
    by (rule tickLoop_idle) (simp_all add: loadInput_def takeReplies_def)
  then show ?thesis
    by (simp add: GameStep_def GameStepWithInputs_def applyReplies_def Let_def takeReplies_def loadInput_def bind_eq_Some_conv)
qed

theorem GameStep_frame_witness:
  "\<exists>e'. GameStep (\<lambda>_. True) None NewEngine = Some e' \<and> FriendlyFire e' \<and> statsFit e'"
proof -
  obtain e' where e': "GameStep (\<lambda>_. True) None NewEngine = Some e'" using GameStep_NewEngine by blast
  have "heapOk NewEngine" by (simp add: heapOk_def)
  from GameStep_frame [OF e' this] show ?thesis using e' by (simp add: settings_def statsFit_def)
qed

section \<open>Runs\<close>

text \<open>
  A host's run of an engine: cycles, and between them the clients' answers and the draining of
  the screen and of the events.
\<close>

inductive hostStep :: "Engine \<Rightarrow> Engine \<Rightarrow> bool" where
  cycle: "GameStep created inputs e = Some e' \<Longrightarrow> hostStep e e'"
| scroll: "hostStep e (SubmitScrollReply i label e)"
| debug: "hostStep e (SubmitDebugCommand i txt e)"
| save: "hostStep e (SubmitSaveFilename i name e)"
| quit: "hostStep e (SubmitQuitReply i b e)"
| screen: "DrainScreenDirty e = Some (cells, e') \<Longrightarrow> hostStep e e'"
| events: "hostStep e (snd (DrainEvents e))"

inductive_cases hostStepE: "hostStep e e'"

definition sound :: "Engine \<Rightarrow> bool" where
  "sound e \<longleftrightarrow> statsFit e \<and> heapOk e \<and> 0 \<le> CurrentTick e \<and> CurrentTick e \<le> 420"

lemma GameStep_tick:
  assumes "GameStep created inputs e = Some e'" and "0 \<le> CurrentTick e" and "CurrentTick e \<le> 420"
  shows "0 \<le> CurrentTick e' \<and> CurrentTick e' \<le> 420"
proof -
  obtain e1 t e2 where "keeps e e1" "keeps (e1\<lparr>TimerTicks := t\<rparr>) e2" and e': "e' = storeInput (nextCycle e2)"
    using assms(1) GameStepWithInputs_cases unfolding GameStep_def by metis
  then have "CurrentTick e2 = CurrentTick e" by (simp add: keeps_def config_def)
  then show ?thesis
    using nextCycle_tick [of e2] assms(2,3) by (auto simp: e' CurrentTick_input)
qed

lemma sound_same:
  "sound e \<Longrightarrow> StatCount (Board e') = StatCount (Board e) \<Longrightarrow> Players e' = Players e \<Longrightarrow> PNext e' = PNext e \<Longrightarrow>
   CurrentTick e' = CurrentTick e \<Longrightarrow> sound e'"
  by (simp add: sound_def statsFit_def heapOk_def)

lemma DrainScreenDirty_screen:
  "DrainScreenDirty e = Some (cells, e') \<Longrightarrow> e' = e\<lparr>screenDirty := []\<rparr> \<or> e' = e"
  by (auto simp: DrainScreenDirty_def Let_def split: if_splits Option.bind_splits)

lemma hostStep_settings: "hostStep e e' \<Longrightarrow> settings e' = settings e"
proof (induction rule: hostStep.induct)
  case (cycle created inputs e e')
  then show ?case using GameStepWithInputs_steady unfolding GameStep_def steady_def by blast
next
  case (screen e cells e')
  then show ?case using DrainScreenDirty_screen [OF screen] by (auto simp: settings_def)
qed (simp_all add: settings_def SubmitScrollReply_def SubmitDebugCommand_def SubmitSaveFilename_def
      SubmitQuitReply_def DrainEvents_def)

lemma hostStep_sound: "hostStep e e' \<Longrightarrow> sound e \<Longrightarrow> sound e'"
proof (induction rule: hostStep.induct)
  case (cycle created inputs e e')
  then show ?case
    using GameStepWithInputs_steady GameStep_tick [OF cycle(1)]
    unfolding GameStep_def steady_def sound_def by blast
next
  case (screen e cells e')
  then show ?case using DrainScreenDirty_screen [OF screen(1)] by (auto elim: sound_same)
qed (erule sound_same; simp add: SubmitScrollReply_def SubmitDebugCommand_def SubmitSaveFilename_def
      SubmitQuitReply_def DrainEvents_def)+

text \<open>
  C3. However a host drives an engine - cycles, replies, draining - its policy stays the one it
  was made with, the stats stay within their array, every player the engine knows has a state,
  and the cycle counter stays within 0 and 420.
\<close>

theorem hostRun_sound:
  assumes "hostStep\<^sup>*\<^sup>* e e'" and "sound e"
  shows "sound e' \<and> settings e' = settings e"
  using assms(1)
proof (induction rule: rtranclp_induct)
  case base
  then show ?case using assms(2) by simp
next
  case (step e1 e2)
  then show ?case using hostStep_sound hostStep_settings by simp
qed

theorem hostRun_sound_witness:
  "\<exists>e'. hostStep\<^sup>*\<^sup>* NewEngine e' \<and> sound e' \<and> FriendlyFire e' \<and> PendingQuitReplies e' = []"
proof -
  have s: "sound NewEngine" by (simp add: sound_def statsFit_def heapOk_def)
  have "hostStep\<^sup>*\<^sup>* NewEngine (SubmitScrollReply 1 ''TOUCH'' NewEngine)"
    by (intro r_into_rtranclp hostStep.scroll)
  with hostRun_sound [OF this s] show ?thesis
    by (intro exI [of _ "SubmitScrollReply 1 ''TOUCH'' NewEngine"])
       (simp add: settings_def SubmitScrollReply_def)
qed

end
