(* ===== verification/Similar.thy ===== *)
theory Similar
  imports RoomSave
begin

text \<open>
  Two managers are similar when they agree on everything the rooms are stepped from: the world,
  the engines, who stands where and who is reading, the gates and notice tiles. They may differ in what only
  leaves the server: the recorder, the outcome queues, the high-score list and its file,
  and the account, colour and profile of a player. The lemmas of this theory say
  that every operation keeps two similar managers similar and panics on both or on neither.
\<close>

section \<open>Options in step\<close>

lemma rel_bind:
  "rel_option R m n \<Longrightarrow> (\<And>x y. R x y \<Longrightarrow> rel_option S (f x) (g y)) \<Longrightarrow>
   rel_option S (m \<bind> f) (n \<bind> g)"
  by (cases m; cases n) auto

lemma rel_foldM:
  assumes "\<And>x s t. R s t \<Longrightarrow> rel_option R (f x s) (g x t)" and "R s t"
  shows "rel_option R (foldM f xs s) (foldM g xs t)"
  using assms(2) by (induction xs arbitrary: s t) (auto intro: rel_bind assms(1))

lemma rel_map_snd:
  "rel_option (rel_prod Q R) m n \<Longrightarrow> rel_option R (map_option snd m) (map_option snd n)"
  by (auto simp: rel_option_iff split: option.splits)

lemma rel_prod_case:
  "rel_prod Q R p q \<Longrightarrow> (\<And>a b c d. Q a c \<Longrightarrow> R b d \<Longrightarrow> rel_option S (f a b) (g c d)) \<Longrightarrow>
   rel_option S (case p of (a, b) \<Rightarrow> f a b) (case q of (c, d) \<Rightarrow> g c d)"
  by (cases p; cases q) auto

lemma rel_same: "(\<And>x. R x x) \<Longrightarrow> rel_option R m m"
  by (cases m) auto

section \<open>Similar managers\<close>

definition core :: "roomPlayer \<Rightarrow> int \<times> int \<times> int \<times> int \<times> string \<times> bool" where
  "core p = (rpId p, rpBoardID p, rpStatID p, rpState p, rpName p, rpScrollOpen p)"

definition similar :: "RoomManager \<Rightarrow> RoomManager \<Rightarrow> bool" where
  "similar rm rm' \<longleftrightarrow>
     rmWorld rm' = rmWorld rm \<and> rmRooms rm' = rmRooms rm \<and>
     (\<forall>p. map_option core (playerAt p rm') = map_option core (playerAt p rm)) \<and>
     rmNextPlayerID rm' = rmNextPlayerID rm \<and> rmFriendlyFire rm' = rmFriendlyFire rm \<and>
     recSuppressLeave rm' = recSuppressLeave rm \<and> TransitGates rm' = TransitGates rm \<and>
     NoticeTiles rm' = NoticeTiles rm \<and> HighScorePath rm' = []"

lemma similar_reads:
  assumes "similar rm rm'"
  shows "roomAt b rm' = roomAt b rm" "rmWorld rm' = rmWorld rm" "roomIDs rm' = roomIDs rm"
    "rmFriendlyFire rm' = rmFriendlyFire rm" "rmNextPlayerID rm' = rmNextPlayerID rm"
    "recSuppressLeave rm' = recSuppressLeave rm" "playerIDs rm' = playerIDs rm"
    "(playerAt p rm' = None) = (playerAt p rm = None)" "occupied b rm' = occupied b rm"
    "rmRooms rm' = rmRooms rm" "TransitGates rm' = TransitGates rm" "HighScorePath rm' = []"
    "NoticeTiles rm' = NoticeTiles rm"
proof -
  have "(playerAt p rm' = None) = (playerAt p rm = None)" for p
  proof -
    have "map_option core (playerAt p rm') = map_option core (playerAt p rm)"
      using assms by (simp add: similar_def)
    then show ?thesis by (metis option.map_disc_iff)
  qed
  moreover from this have "Mapping.keys (rmPlayers rm') = Mapping.keys (rmPlayers rm)"
    by (simp add: keys_dom_lookup dom_def playerAt_def)
  ultimately show "roomAt b rm' = roomAt b rm" "rmWorld rm' = rmWorld rm" "roomIDs rm' = roomIDs rm"
    "rmFriendlyFire rm' = rmFriendlyFire rm" "rmNextPlayerID rm' = rmNextPlayerID rm"
    "recSuppressLeave rm' = recSuppressLeave rm" "playerIDs rm' = playerIDs rm"
    "(playerAt p rm' = None) = (playerAt p rm = None)" "occupied b rm' = occupied b rm"
    "rmRooms rm' = rmRooms rm" "TransitGates rm' = TransitGates rm" "HighScorePath rm' = []"
    "NoticeTiles rm' = NoticeTiles rm"
    using assms
    by (simp_all add: similar_def roomAt_def roomIDs_def playerIDs_def occupied_def
        Mapping.ordered_keys_def)
qed

lemma similar_player:
  assumes "similar rm rm'"
  shows "rel_option (\<lambda>p q. core q = core p) (playerAt pid rm) (playerAt pid rm')"
proof -
  have "map_option core (playerAt pid rm') = map_option core (playerAt pid rm)"
    using assms by (simp add: similar_def)
  then show ?thesis by (cases "playerAt pid rm"; cases "playerAt pid rm'") simp_all
qed

text \<open>Writes that both managers see.\<close>

lemma playerAt_simps [simp]:
  "playerAt p (rm\<lparr>rmRooms := r\<rparr>) = playerAt p rm" "playerAt p (rm\<lparr>rmWorld := w\<rparr>) = playerAt p rm"
  "playerAt p (putRoom b room rm) = playerAt p rm" "playerAt p (recordRM op rm) = playerAt p rm"
  by (simp_all add: playerAt_def putRoom_def recordRM_def)


lemma roomAt_simps [simp]:
  "roomAt b (modRoomPlayer p f rm) = roomAt b rm" "roomAt b (putPlayer p pl rm) = roomAt b rm"
  "roomAt b (recordRM op rm) = roomAt b rm" "roomAt b (rm\<lparr>rmPlayers := ps\<rparr>) = roomAt b rm"
  "roomAt b (rm\<lparr>rmNextPlayerID := i\<rparr>) = roomAt b rm" "roomAt b (rm\<lparr>rmWorld := w\<rparr>) = roomAt b rm"
  "roomAt b (rm\<lparr>pendingPlayerEvents := pe\<rparr>) = roomAt b rm"
  "roomAt b (rm\<lparr>recSuppressLeave := sl\<rparr>) = roomAt b rm" "roomAt b (rm\<lparr>rmQuits := q\<rparr>) = roomAt b rm"
  "roomAt b (rm\<lparr>pendingScores := sc\<rparr>) = roomAt b rm" "roomAt b (rm\<lparr>rmRecorder := r\<rparr>) = roomAt b rm"
  by (simp_all add: roomAt_def modRoomPlayer_def putPlayer_def recordRM_def)

lemma playerAt_update:
  "playerAt q (putPlayer p pl rm) = (if q = p then Some pl else playerAt q rm)"
  "playerAt q (modRoomPlayer p f rm) = (if q = p then map_option f (playerAt p rm) else playerAt q rm)"
  "playerAt q (rm\<lparr>rmPlayers := Mapping.delete p ps\<rparr>) = (if q = p then None else Mapping.lookup ps q)"
  "playerAt q (rm\<lparr>rmPlayers := Mapping.filter P ps\<rparr>) =
     (case Mapping.lookup ps q of Some v \<Rightarrow> if P q v then Some v else None | None \<Rightarrow> None)"
  by (simp_all add: playerAt_def putPlayer_def modRoomPlayer_def lookup_update' lookup_map_entry'
      lookup_delete_neq lookup_filter split: option.split)

lemma similar_refl: "HighScorePath rm = [] \<Longrightarrow> similar rm rm"
  by (simp add: similar_def)

text \<open>A write to what similarity ignores.\<close>

lemma similar_left:
  "similar (rm\<lparr>rmRecorder := r\<rparr>) rm' = similar rm rm'" "similar (rm\<lparr>rmQuits := q\<rparr>) rm' = similar rm rm'"
  "similar (rm\<lparr>pendingScores := ps\<rparr>) rm' = similar rm rm'"
  "similar (rm\<lparr>pendingPlayerEvents := pe\<rparr>) rm' = similar rm rm'"
  "similar (rm\<lparr>pendingWorldTransits := wt\<rparr>) rm' = similar rm rm'"
  "similar (rm\<lparr>pendingNotables := pn\<rparr>) rm' = similar rm rm'"
  "similar (rm\<lparr>pendingNotices := no\<rparr>) rm' = similar rm rm'"
  "similar (rm\<lparr>rmHighScores := hs\<rparr>) rm' = similar rm rm'"
  "similar (rm\<lparr>hiWritten := hw\<rparr>) rm' = similar rm rm'"
  "similar (recordRM op rm) rm' = similar rm rm'"
  by (simp_all add: similar_def playerAt_def recordRM_def)

lemma similar_right:
  "similar rm (rm'\<lparr>rmRecorder := r\<rparr>) = similar rm rm'" "similar rm (rm'\<lparr>rmQuits := q\<rparr>) = similar rm rm'"
  "similar rm (rm'\<lparr>pendingScores := ps\<rparr>) = similar rm rm'"
  "similar rm (rm'\<lparr>pendingPlayerEvents := pe\<rparr>) = similar rm rm'"
  "similar rm (rm'\<lparr>pendingWorldTransits := wt\<rparr>) = similar rm rm'"
  "similar rm (rm'\<lparr>pendingNotables := pn\<rparr>) = similar rm rm'"
  "similar rm (rm'\<lparr>pendingNotices := no\<rparr>) = similar rm rm'"
  "similar rm (rm'\<lparr>rmHighScores := hs\<rparr>) = similar rm rm'"
  "similar rm (rm'\<lparr>hiWritten := hw\<rparr>) = similar rm rm'"
  "similar rm (recordRM op rm') = similar rm rm'"
  by (simp_all add: similar_def playerAt_def recordRM_def)

lemmas similar_ignores [simp] = similar_left similar_right

text \<open>The same write on both sides.\<close>

lemma similar_writes:
  assumes "similar rm rm'"
  shows "similar (rm\<lparr>rmRooms := r\<rparr>) (rm'\<lparr>rmRooms := r\<rparr>)"
    "similar (rm\<lparr>rmWorld := w\<rparr>) (rm'\<lparr>rmWorld := w\<rparr>)"
    "similar (rm\<lparr>rmFriendlyFire := ff\<rparr>) (rm'\<lparr>rmFriendlyFire := ff\<rparr>)"
    "similar (rm\<lparr>rmNextPlayerID := i\<rparr>) (rm'\<lparr>rmNextPlayerID := i\<rparr>)"
    "similar (rm\<lparr>recSuppressLeave := sl\<rparr>) (rm'\<lparr>recSuppressLeave := sl\<rparr>)"
    "similar (putRoom b room rm) (putRoom b room rm')"
    "core p = core p' \<Longrightarrow> similar (putPlayer pid p rm) (putPlayer pid p' rm')"
    "similar (rm\<lparr>rmPlayers := Mapping.delete pid (rmPlayers rm)\<rparr>)
       (rm'\<lparr>rmPlayers := Mapping.delete pid (rmPlayers rm')\<rparr>)"
    "similar (rm\<lparr>rmPlayers := Mapping.filter (\<lambda>q _. q \<notin> gone) (rmPlayers rm)\<rparr>)
       (rm'\<lparr>rmPlayers := Mapping.filter (\<lambda>q _. q \<notin> gone) (rmPlayers rm')\<rparr>)"
proof -
  show "similar (rm\<lparr>rmPlayers := Mapping.filter (\<lambda>q _. q \<notin> gone) (rmPlayers rm)\<rparr>)
       (rm'\<lparr>rmPlayers := Mapping.filter (\<lambda>q _. q \<notin> gone) (rmPlayers rm')\<rparr>)"
  proof -
    have "map_option core (playerAt q (rm'\<lparr>rmPlayers := Mapping.filter (\<lambda>q _. q \<notin> gone) (rmPlayers rm')\<rparr>)) =
      map_option core (playerAt q (rm\<lparr>rmPlayers := Mapping.filter (\<lambda>q _. q \<notin> gone) (rmPlayers rm)\<rparr>))" for q
      using similar_player [OF assms, of q]
      by (cases "playerAt q rm"; cases "playerAt q rm'")
         (auto simp: playerAt_update playerAt_def [symmetric])
    then show ?thesis using assms by (simp add: similar_def)
  qed
  show "core p = core p' \<Longrightarrow> similar (putPlayer pid p rm) (putPlayer pid p' rm')"
    using assms by (simp add: similar_def playerAt_update) (simp add: putPlayer_def)
qed (use assms in \<open>simp_all add: similar_def playerAt_update playerAt_def putRoom_def putPlayer_def
      lookup_update' lookup_delete_if split: if_splits\<close>)

lemma similar_delete_room:
  "similar rm rm' \<Longrightarrow> similar (rm\<lparr>rmRooms := Mapping.delete b (rmRooms rm)\<rparr>)
     (rm'\<lparr>rmRooms := Mapping.delete b (rmRooms rm')\<rparr>)"
  by (simp add: similar_reads(10) similar_writes)

text \<open>The same change of a player's core.\<close>

lemma similar_mod:
  assumes "similar rm rm'" and "\<And>p q. core q = core p \<Longrightarrow> core (g q) = core (f p)"
  shows "similar (modRoomPlayer pid f rm) (modRoomPlayer pid g rm')"
proof -
  have "map_option core (playerAt q (modRoomPlayer pid g rm')) =
    map_option core (playerAt q (modRoomPlayer pid f rm))" for q
    using similar_player [OF assms(1), of q] assms(2)
    by (cases "playerAt q rm"; cases "playerAt q rm'") (auto simp: playerAt_update)
  then show ?thesis using assms(1) by (simp add: similar_def modRoomPlayer_def)
qed

text \<open>A change of one side's presentation.\<close>

lemma similar_left_mod:
  assumes "similar rm rm'" and "\<And>p. core (f p) = core p"
  shows "similar (modRoomPlayer pid f rm) rm'"
proof -
  have "map_option core (playerAt q (modRoomPlayer pid f rm)) = map_option core (playerAt q rm)" for q
    using assms(2) by (cases "playerAt q rm") (auto simp: playerAt_update)
  then show ?thesis using assms(1) by (simp add: similar_def modRoomPlayer_def)
qed


section \<open>The operations\<close>

text \<open>
  An operation is in step when similar managers stay similar and what it returns agrees.
\<close>

abbreviation both :: "RoomManager option \<Rightarrow> RoomManager option \<Rightarrow> bool" where
  "both \<equiv> rel_option similar"

abbreviation bothV :: "('a \<times> RoomManager) option \<Rightarrow> ('a \<times> RoomManager) option \<Rightarrow> bool" where
  "bothV \<equiv> rel_option (rel_prod (=) similar)"

abbreviation bothS :: "('a \<times> RoomManager) option \<Rightarrow> ('b \<times> RoomManager) option \<Rightarrow> bool" where
  "bothS \<equiv> rel_option (rel_prod (\<lambda>_ _. True) similar)"

lemma both_same: "(\<And>x. rel_option S (f x) (g x)) \<Longrightarrow> rel_option S (m \<bind> f) (m \<bind> g)"
  by (cases m) simp_all

lemma both_then:
  "both m n \<Longrightarrow> (\<And>s t. similar s t \<Longrightarrow> rel_option S (f s) (g t)) \<Longrightarrow> rel_option S (m \<bind> f) (n \<bind> g)"
  by (rule rel_bind)

lemma bothV_then:
  "bothV m n \<Longrightarrow> (\<And>v s t. similar s t \<Longrightarrow> rel_option S (f (v, s)) (g (v, t))) \<Longrightarrow>
   rel_option S (m \<bind> f) (n \<bind> g)"
  by (erule rel_bind) auto

lemma bothS_then:
  "bothS m n \<Longrightarrow> (\<And>v w s t. similar s t \<Longrightarrow> rel_option S (f (v, s)) (g (w, t))) \<Longrightarrow>
   rel_option S (m \<bind> f) (n \<bind> g)"
  by (erule rel_bind) auto

lemma both_foldM:
  "similar rm rm' \<Longrightarrow> (\<And>x s t. similar s t \<Longrightarrow> both (f x s) (g x t)) \<Longrightarrow> both (foldM f xs rm) (foldM g xs rm')"
  by (rule rel_foldM)

lemma onRoom_sim: "similar rm rm' \<Longrightarrow> both (onRoom b f rm) (onRoom b f rm')"
  by (auto simp: onRoom_def similar_reads intro!: both_same similar_writes)

lemma inRoom_sim: "similar rm rm' \<Longrightarrow> bothV (inRoom b f rm) (inRoom b f rm')"
  by (auto simp: inRoom_def similar_reads intro!: both_same similar_writes)

lemmas then_onRoom = both_then [OF onRoom_sim]
lemmas then_inRoom = bothV_then [OF inRoom_sim]

lemma refresh_sim: "similar rm rm' \<Longrightarrow> similar (refreshRoomWorldScope b rm) (refreshRoomWorldScope b rm')"
  by (simp add: refreshRoomWorldScope_def similar_reads similar_writes)

lemma publish_sim: "similar rm rm' \<Longrightarrow> similar (publishRoomWorldScope b rm) (publishRoomWorldScope b rm')"
  by (auto simp: publishRoomWorldScope_def similar_reads Let_def similar_writes split: option.split)

lemma ensureRoom_sim: "similar rm rm' \<Longrightarrow> both (ensureRoom b rm) (ensureRoom b rm')"
  by (auto simp: ensureRoom_def similar_reads split: option.split intro!: both_same similar_writes)

lemma syncFrozen_sim:
  "similar rm rm' \<Longrightarrow> both (syncFrozenBoardToLiveRooms b rm) (syncFrozenBoardToLiveRooms b rm')"
  unfolding syncFrozenBoardToLiveRooms_def
  by (auto simp: similar_reads intro!: both_foldM both_same then_onRoom refresh_sim)

lemma freeze_sim: "similar rm rm' \<Longrightarrow> both (freezeRoomIfEmpty b rm) (freezeRoomIfEmpty b rm')"
  unfolding freezeRoomIfEmpty_def Let_def
  by (auto simp: similar_reads split: option.split
      intro!: then_onRoom both_same syncFrozen_sim similar_delete_room publish_sim similar_writes)

lemma spawn_sim: "similar rm rm' \<Longrightarrow> bothV (spawnPlayerInRoom b x y rm) (spawnPlayerInRoom b x y rm')"
  unfolding spawnPlayerInRoom_def
  by (auto simp: similar_reads split: option.split intro!: both_same inRoom_sim)

lemma leaveRoomSet_sim: "similar rm rm' \<Longrightarrow> both (leaveRoomSet b p rm) (leaveRoomSet b p rm')"
  by (auto simp: leaveRoomSet_def similar_reads intro!: both_same similar_writes)

text \<open>A step that reads a player sees the same core.\<close>

lemma then_player:
  assumes "similar rm rm'" and "\<And>p q. core q = core p \<Longrightarrow> rel_option S (f p) (g q)"
  shows "rel_option S (playerAt pid rm \<bind> f) (playerAt pid rm' \<bind> g)"
  using similar_player [OF assms(1)] by (rule rel_bind) (rule assms(2))

lemma core_eq:
  "core q = core p \<longleftrightarrow> rpId q = rpId p \<and> rpBoardID q = rpBoardID p \<and> rpStatID q = rpStatID p \<and>
     rpState q = rpState p \<and> rpName q = rpName p \<and> rpScrollOpen q = rpScrollOpen p"
  by (simp add: core_def)

lemma reindex_sim: "similar rm rm' \<Longrightarrow> both (reindexRoomPlayers b i rm) (reindexRoomPlayers b i rm')"
  unfolding reindexRoomPlayers_def Let_def
  by (auto simp: similar_reads core_eq intro!: both_foldM then_player then_inRoom similar_mod)


lemmas then_ensureRoom = both_then [OF ensureRoom_sim]
lemmas then_spawn = bothV_then [OF spawn_sim]
lemmas then_reindex = both_then [OF reindex_sim]
lemmas then_freeze = both_then [OF freeze_sim]
lemmas then_leaveRoomSet = both_then [OF leaveRoomSet_sim]

lemma join_sim: "similar rm rm' \<Longrightarrow> bothV (JoinPlayerWithID p b x y rm) (JoinPlayerWithID p b x y rm')"
  unfolding JoinPlayerWithID_def Let_def
  by (auto simp: similar_reads core_eq intro!: then_ensureRoom then_spawn then_onRoom then_inRoom both_same
      similar_writes)

lemma option_player:
  assumes "similar rm rm'" and "rel_option S n n'" and "\<And>p q. core q = core p \<Longrightarrow> rel_option S (f p) (g q)"
  shows "rel_option S (case playerAt pid rm of None \<Rightarrow> n | Some p \<Rightarrow> f p)
    (case playerAt pid rm' of None \<Rightarrow> n' | Some p \<Rightarrow> g p)"
  using similar_player [OF assms(1), of pid] assms(2,3)
  by (cases "playerAt pid rm"; cases "playerAt pid rm'") auto

lemma leave_sim: "similar rm rm' \<Longrightarrow> bothV (LeavePlayer p rm) (LeavePlayer p rm')"
  unfolding LeavePlayer_def Let_def
  by (auto simp: similar_reads core_eq intro!: option_player then_onRoom then_leaveRoomSet then_reindex
      then_freeze similar_writes)

lemma state_sim:
  "similar rm rm' \<Longrightarrow> PlayerState_of p rm' = PlayerState_of p rm"
  using similar_player [of rm rm' p]
  by (cases "playerAt p rm"; cases "playerAt p rm'") (auto simp: PlayerState_of_def similar_reads(1) core_eq)

lemma apply_sim: "similar rm rm' \<Longrightarrow> bothV (ApplyPlayerState p st rm) (ApplyPlayerState p st rm')"
  unfolding ApplyPlayerState_def Let_def by (auto simp: core_eq intro!: option_player then_onRoom)

lemma quit_sim: "similar rm rm' \<Longrightarrow> both (quitPlayer p rm) (quitPlayer p rm')"
  unfolding quitPlayer_def Let_def
  by (auto simp: state_sim split: option.split
      intro!: both_same bothV_then [OF leave_sim] similar_writes)

lemma submit_sim: "similar rm rm' \<Longrightarrow> bothV (submitTo f p rm) (submitTo f p rm')"
  unfolding submitTo_def by (auto simp: similar_reads core_eq intro!: option_player then_onRoom)

lemma submits_sim:
  assumes "similar rm rm'"
  shows "bothV (RoomSubmitQuitReply p q rm) (RoomSubmitQuitReply p q rm')"
    "bothV (RoomSubmitDebugCommand p txt rm) (RoomSubmitDebugCommand p txt rm')"
    "bothV (RoomSubmitScrollReply p i label rm) (RoomSubmitScrollReply p i label rm')"
  using assms
  by (auto simp: RoomSubmitQuitReply_def RoomSubmitDebugCommand_def RoomSubmitScrollReply_def
      similar_reads core_eq intro!: submit_sim similar_mod)

lemma transfer_sim:
  "similar rm rm' \<Longrightarrow> both (transferPlayer p b x y rm) (transferPlayer p b x y rm')"
  unfolding transferPlayer_def Let_def
  by (auto simp: similar_reads core_eq intro!: option_player then_ensureRoom then_inRoom then_onRoom
      then_leaveRoomSet then_reindex then_spawn freeze_sim both_same similar_mod similar_writes)

lemma sync_sim: "similar rm rm' \<Longrightarrow> both (syncPlayerStatIDs rm) (syncPlayerStatIDs rm')"
  unfolding syncPlayerStatIDs_def
  by (auto simp: similar_reads core_eq split: option.split intro!: both_foldM then_player similar_mod)


section \<open>A tick\<close>

text \<open>Routing agrees on who travels and who quits; the events themselves only leave.\<close>

definition routedAlike :: "Routed \<times> RoomManager \<Rightarrow> Routed \<times> RoomManager \<Rightarrow> bool" where
  "routedAlike s t \<longleftrightarrow> rtTransfers (fst t) = rtTransfers (fst s) \<and> rtQuitters (fst t) = rtQuitters (fst s) \<and>
     similar (snd s) (snd t)"

lemma find_cong_player:
  assumes "similar rm rm'"
  shows "playerIDForStat b stat rm' = playerIDForStat b stat rm"
proof -
  have "(case playerAt p rm' of Some q \<Rightarrow> rpBoardID q = b \<and> rpStatID q = stat | None \<Rightarrow> False) =
    (case playerAt p rm of Some q \<Rightarrow> rpBoardID q = b \<and> rpStatID q = stat | None \<Rightarrow> False)" for p
    using similar_player [OF assms, of p]
    by (cases "playerAt p rm"; cases "playerAt p rm'") (auto simp: core_eq)
  then show ?thesis by (simp add: playerIDForStat_def similar_reads(7) [OF assms])
qed

lemma queue_sim [simp]:
  "similar (queuePlayerEvent p ev rm) rm' = similar rm rm'" "similar rm (queuePlayerEvent p ev rm') = similar rm rm'"
  "similar (queueForStat b i ev rm) rm' = similar rm rm'" "similar rm (queueForStat b i ev rm') = similar rm rm'"
  by (simp_all add: queuePlayerEvent_def queueForStat_def split: option.split)

lemma routed_event [simp]:
  "rtTransfers (roomEvent b ev r) = rtTransfers r" "rtQuitters (roomEvent b ev r) = rtQuitters r"
  by (simp_all add: roomEvent_def)

lemma routeTransfer_sim:
  "routedAlike s t \<Longrightarrow> routedAlike (routeTransfer b i ev d src notes pr s) (routeTransfer b i ev d src notes pr t)"
  unfolding routeTransfer_def routedAlike_def
  by (cases s; cases t)
     (auto simp: find_cong_player worldTransitDestination_def similar_reads Let_def split: option.split list.split)


lemma noticeKind_sim: "similar rm rm' \<Longrightarrow> noticeKindFor b i rm' = noticeKindFor b i rm"
proof -
  assume sim: "similar rm rm'"
  show ?thesis unfolding noticeKindFor_def similar_reads(1,13) [OF sim] ..
qed

lemma routeScroll_sim:
  "routedAlike s t \<Longrightarrow> rel_option routedAlike (routeScroll b i j ev s) (routeScroll b i j ev t)"
proof (cases s; cases t)
  fix r rm r' rm' assume st: "s = (r, rm)" "t = (r', rm')" and "routedAlike s t"
  then have sim: "similar rm rm'" and rt: "rtTransfers r' = rtTransfers r" "rtQuitters r' = rtQuitters r"
    by (auto simp: routedAlike_def)
  have mod: "similar (modRoomPlayer pid (\<lambda>p. p\<lparr>rpScrollOpen := True\<rparr>) rm)
      (modRoomPlayer pid (\<lambda>p. p\<lparr>rpScrollOpen := True\<rparr>) rm')" for pid
    by (rule similar_mod [OF sim]) (simp add: core_eq)
  show ?thesis
    using sim rt noticeKind_sim [OF mod] mod
    by (auto simp: st routeScroll_def routedAlike_def find_cong_player Let_def
        split: option.split intro!: both_same)
qed

lemma routeEvent_sim:
  assumes "routedAlike s t"
  shows "rel_option routedAlike (routeEvent b ev s) (routeEvent b ev t)"
proof (cases ev)
  case (TransferEvent stat sx sy tb ex ey ns pr)
  then show ?thesis using routeTransfer_sim [OF assms] by (simp add: routeEvent_def split_def)
next
  case (ScrollEvent title ls stat playerStat)
  then show ?thesis using routeScroll_sim [OF assms] by (simp add: routeEvent_def split_def)
qed (use assms in \<open>auto simp: routeEvent_def routedAlike_def split_def find_cong_player split: option.split\<close>)

lemma engineInputs_sim:
  assumes "similar rm rm'"
  shows "engineInputs inputs rm' = engineInputs inputs rm"
proof -
  have "(case playerAt p rm' of Some q \<Rightarrow> if rpScrollOpen q then m
          else m(rpBoardID q := (m (rpBoardID q))(rpStatID q \<mapsto> inp)) | None \<Rightarrow> m) =
        (case playerAt p rm of Some q \<Rightarrow> if rpScrollOpen q then m
          else m(rpBoardID q := (m (rpBoardID q))(rpStatID q \<mapsto> inp)) | None \<Rightarrow> m)" for p m and inp :: PlayerInput
    using similar_player [OF assms, of p]
    by (cases "playerAt p rm"; cases "playerAt p rm'") (auto simp: core_eq)
  then show ?thesis unfolding engineInputs_def by simp
qed

lemma drop_sim: "similar rm rm' \<Longrightarrow> similar (dropPanickedRoom b rm) (dropPanickedRoom b rm')"
  by (auto simp: dropPanickedRoom_def similar_reads(1,10) Let_def split: option.split
      intro!: similar_writes)

lemma step_sim:
  assumes "similar rm rm'"
  shows "fst (stepRoom created b ins rm') = fst (stepRoom created b ins rm)"
    "similar (snd (stepRoom created b ins rm)) (snd (stepRoom created b ins rm'))"
  using onRoom_sim [OF assms, of b "GameStepWithInputs created ins"] drop_sim [OF assms]
  by (auto simp: stepRoom_def rel_option_iff split: option.splits)

lemma tickRoom_sim:
  assumes "routedAlike s t"
  shows "rel_option routedAlike (tickRoom created ins b s) (tickRoom created ins b t)"
proof -
  obtain r rm r' rm' where st: "s = (r, rm)" "t = (r', rm')" by (cases s; cases t)
  then have sim: "similar rm rm'" and rt: "rtTransfers r' = rtTransfers r" "rtQuitters r' = rtQuitters r"
    using assms by (auto simp: routedAlike_def)
  note ref = refresh_sim [OF sim, of b]
  note sims = step_sim [OF ref, of created b "ins b"]
  have publish: "routedAlike p q \<Longrightarrow>
      rel_option routedAlike (case p of (r, rm) \<Rightarrow> Some (r, publishRoomWorldScope b rm))
        (case q of (r, rm) \<Rightarrow> Some (r, publishRoomWorldScope b rm))" for p q
    by (cases p; cases q) (auto simp: routedAlike_def publish_sim)
  show ?thesis
    using sims rt similar_reads(9) [OF sim] assms
    by (auto simp: st tickRoom_def Let_def split_def routedAlike_def
        intro!: then_inRoom rel_bind [where R = routedAlike] rel_foldM [where R = routedAlike] routeEvent_sim
        publish_sim)
qed


lemma snaps_sim: "similar rm rm' \<Longrightarrow> bothS (playerSnapshotsForRoom b rm) (playerSnapshotsForRoom b rm')"
  unfolding playerSnapshotsForRoom_def
  by (auto simp: similar_reads core_eq
      intro!: rel_foldM [where R = "rel_prod (\<lambda>_ _. True) similar"] then_player then_inRoom)

abbreviation anyPair :: "'a \<times> RoomManager \<Rightarrow> 'b \<times> RoomManager \<Rightarrow> bool" where
  "anyPair \<equiv> rel_prod (\<lambda>_ _. True) similar"

lemma then_fold_any:
  assumes "anyPair s t" and "\<And>x s t. anyPair s t \<Longrightarrow> rel_option anyPair (f x s) (g x t)"
    and "\<And>v w s t. similar s t \<Longrightarrow> rel_option S (h (v, s)) (k (w, t))"
  shows "rel_option S (foldM f xs s \<bind> h) (foldM g xs t \<bind> k)"
  using rel_foldM [where R = anyPair, OF assms(2,1)] by (rule rel_bind) (auto intro: assms(3))

lemma frames_sim:
  assumes "anyPair s t"
  shows "rel_option anyPair (roomFrames help r b s) (roomFrames help r' b t)"
proof -
  obtain f rm f' rm' where st: "s = (f, rm)" "t = (f', rm')" and sim: "similar rm rm'"
    using assms by (cases s; cases t) auto
  show ?thesis
    using similar_reads(9) [OF sim] sim
    by (auto simp: st roomFrames_def split_def similar_reads core_eq Let_def
        intro!: then_inRoom bothS_then [OF snaps_sim] both_same then_fold_any then_player)
qed

lemma stepBoards_sim:
  assumes "similar rm rm'"
  shows "bothS (StepDiffsWithBoards created help inputs rm) (StepDiffsWithBoards created help inputs rm')"
proof -
  let ?rm = "rm\<lparr>rmRecorder := flushTick inputs (rmRecorder rm)\<rparr>"
  let ?rm' = "rm'\<lparr>rmRecorder := flushTick inputs (rmRecorder rm')\<rparr>"
  let ?r = "\<lparr>rtTransfers = [], rtQuitters = [], rtRoomEvents = Mapping.empty\<rparr>"
  have sim: "similar ?rm ?rm'" using assms by simp
  have ticks: "rel_option routedAlike (foldM (tickRoom created ins) bs (?r, ?rm))
      (foldM (tickRoom created ins) bs (?r, ?rm'))" for ins bs
    using sim by (intro rel_foldM [where R = routedAlike] tickRoom_sim) (simp_all add: routedAlike_def)
  note rest = both_then [OF both_foldM] both_then [OF sync_sim]
  have ends: "routedAlike s t \<Longrightarrow> bothS
      (do { rm \<leftarrow> foldM (\<lambda>(pid, b, x, y). transferPlayer pid b x y) (rtTransfers (fst s)) (snd s);
            rm \<leftarrow> foldM quitPlayer (rtQuitters (fst s)) rm;
            rm \<leftarrow> syncPlayerStatIDs rm;
            foldM (roomFrames help (fst s)) (roomIDs rm) ((Mapping.empty, Mapping.empty), rm) })
      (do { rm \<leftarrow> foldM (\<lambda>(pid, b, x, y). transferPlayer pid b x y) (rtTransfers (fst t)) (snd t);
            rm \<leftarrow> foldM quitPlayer (rtQuitters (fst t)) rm;
            rm \<leftarrow> syncPlayerStatIDs rm;
            foldM (roomFrames help (fst t)) (roomIDs rm) ((Mapping.empty, Mapping.empty), rm) })" for s t
    by (auto simp: routedAlike_def similar_reads split_def
        intro!: rest transfer_sim quit_sim rel_foldM [where R = anyPair] frames_sim)
  show ?thesis
    unfolding StepDiffsWithBoards_def Let_def similar_reads(3) [OF sim] engineInputs_sim [OF sim]
    by (rule rel_bind [OF ticks]) (use ends in \<open>simp add: split_def\<close>)
qed

lemma stepDiffs_sim:
  "similar rm rm' \<Longrightarrow> bothS (StepDiffs created help inputs rm) (StepDiffs created help inputs rm')"
  unfolding StepDiffs_def by (auto simp: split_def intro!: bothS_then [OF stepBoards_sim])

lemma record_sim: "similar rm rm' \<Longrightarrow> RecordHighScore p name rm = Some (b, rm1) \<Longrightarrow> similar rm1 rm'"
  by (auto simp: RecordHighScore_def saveHighScores_def Let_def split: option.splits if_splits Option.bind_splits)

lemma record_right: "similar rm rm' \<Longrightarrow> \<exists>b rm1. RecordHighScore p name rm' = Some (b, rm1) \<and> similar rm rm1"
  by (auto simp: RecordHighScore_def saveHighScores_def Let_def similar_reads(12) recordRM_def split: option.splits)

end
