(* ===== verification/RoomFrame.thy ===== *)
theory RoomFrame
  imports Similar Runs
begin

text \<open>
  What the operations of the room manager keep. \<open>tends\<close> is the frame of the inner ones, which
  run an engine or rewrite a player in place: nobody moves between rooms, the recorder and the
  policy stay, and every engine stays fit (its policy the manager's, its stats within their
  array, its players' states allocated). The operations that move players are then described by
  what they do to the two tables.
\<close>

section \<open>Fit engines\<close>

definition staysFit :: "Engine \<Rightarrow> Engine \<Rightarrow> bool" where
  "staysFit e e' \<longleftrightarrow> settings e' = settings e \<and> (statsFit e \<longrightarrow> statsFit e') \<and> (heapOk e \<longrightarrow> heapOk e')"

interpretation fit: frame staysFit
  by unfold_locales (auto simp: staysFit_def)

lemma keeps_fits: "keeps e e' \<Longrightarrow> staysFit e e'"
  by (simp add: keeps_def staysFit_def config_def settings_def)

lemma steady_fits: "steady e e' \<Longrightarrow> staysFit e e'"
  by (simp add: steady_def staysFit_def)

lemma ok_keeps_fits: "ok (keeps e) m \<Longrightarrow> ok (staysFit e) m"
  by (auto simp: ok_def keeps_fits)

lemma ok_keeps_fits2: "ok (keep.R2 e) m \<Longrightarrow> ok (fit.R2 e) m"
  by (auto simp: ok_def keep.R2_def fit.R2_def keeps_fits)

lemma staysFit_fields:
  "staysFit e (e\<lparr>World := (World e)\<lparr>BoardData := d, BoardLen := l\<rparr>\<rparr>)" "staysFit e (adoptScope w e)"
  "staysFit e (snd (DrainEvents e))" "staysFit e (SubmitScrollReply i label e)" "staysFit e (SubmitDebugCommand i txt e)"
  "staysFit e (SubmitQuitReply i b e)"
  by (simp_all add: staysFit_def settings_def statsFit_def heapOk_def adoptScope_def modWorldInfo_def
      DrainEvents_def SubmitScrollReply_def SubmitDebugCommand_def SubmitQuitReply_def)

lemma StateHash_fits: "StateHash e = Some (h, e') \<Longrightarrow> staysFit e e'"
  by (auto simp: StateHash_def Let_def staysFit_def settings_def statsFit_def heapOk_def modWorldInfo_def
      split: Option.bind_splits option.splits)

lemma DrainScreenDirty_fits: "DrainScreenDirty e = Some (cells, e') \<Longrightarrow> staysFit e e'"
  by (drule DrainScreenDirty_screen) (auto simp: staysFit_def settings_def statsFit_def heapOk_def)

lemma PlayerFor_fits: "staysFit e (snd (PlayerFor i e))"
  by (rule keeps_fits) (rule keeps_screen(3) [OF keep.refl])

text \<open>An engine in a room: its policy, and its arrays in order.\<close>

definition fit :: "bool \<Rightarrow> Engine \<Rightarrow> bool" where
  "fit ff e \<longleftrightarrow> FriendlyFire e = ff \<and> MultiRoom e \<and> Headless e \<and> statsFit e \<and> heapOk e"

lemma fit_fits: "fit ff e \<Longrightarrow> staysFit e e' \<Longrightarrow> fit ff e'"
  by (simp add: fit_def staysFit_def settings_def)

section \<open>The frame of the inner operations\<close>

definition occupants :: "int \<Rightarrow> RoomManager \<Rightarrow> int set option" where
  "occupants b rm = map_option rPlayers (roomAt b rm)"

definition boardOf :: "int \<Rightarrow> RoomManager \<Rightarrow> int option" where
  "boardOf p rm = map_option rpBoardID (playerAt p rm)"

definition enginesFit :: "RoomManager \<Rightarrow> bool" where
  "enginesFit rm \<longleftrightarrow> (\<forall>b room. roomAt b rm = Some room \<longrightarrow> rBoardID room = b \<and> fit (rmFriendlyFire rm) (rEngine room))"

definition tends :: "RoomManager \<Rightarrow> RoomManager \<Rightarrow> bool" where
  "tends rm rm' \<longleftrightarrow>
     (\<forall>b. occupants b rm' = occupants b rm) \<and> (\<forall>p. boardOf p rm' = boardOf p rm) \<and>
     rmRecorder rm' = rmRecorder rm \<and> recSuppressLeave rm' = recSuppressLeave rm \<and>
     rmFriendlyFire rm' = rmFriendlyFire rm \<and> length (rmHighScores rm') = length (rmHighScores rm) \<and>
     (enginesFit rm \<longrightarrow> enginesFit rm')"

interpretation mgr: frame tends
  by unfold_locales (auto simp: tends_def)

named_theorems tends_rules

lemmas mgr_values = ok_bind_any [where 'a = Room] ok_bind_any [where 'a = roomPlayer]

text \<open>Fields outside the two tables.\<close>

lemma tends_same:
  assumes "tends rm0 rm" and "rmRooms rm' = rmRooms rm" and "rmPlayers rm' = rmPlayers rm"
    and "rmRecorder rm' = rmRecorder rm" and "recSuppressLeave rm' = recSuppressLeave rm"
    and "rmFriendlyFire rm' = rmFriendlyFire rm" and "length (rmHighScores rm') = length (rmHighScores rm)"
  shows "tends rm0 rm'"
proof -
  have r: "roomAt b rm' = roomAt b rm" and p: "playerAt q rm' = playerAt q rm" for b q
    using assms(2,3) by (simp_all add: roomAt_def playerAt_def)
  have "enginesFit rm' = enginesFit rm" unfolding enginesFit_def r assms(6) ..
  then show ?thesis
    using assms(1,4-7) unfolding tends_def occupants_def boardOf_def r p by presburger
qed

lemma tends_update [tends_rules]:
  assumes "tends rm0 rm"
  shows "tends rm0 (rm\<lparr>rmWorld := w\<rparr>)" "tends rm0 (rm\<lparr>pendingScores := ps\<rparr>)"
    "tends rm0 (rm\<lparr>pendingPlayerEvents := pe\<rparr>)" "tends rm0 (rm\<lparr>rmQuits := q\<rparr>)"
    "tends rm0 (rm\<lparr>pendingWorldTransits := wt\<rparr>)" "tends rm0 (rm\<lparr>pendingNotables := pn\<rparr>)"
    "tends rm0 (rm\<lparr>pendingNotices := pc\<rparr>)" "tends rm0 (rm\<lparr>rmNextPlayerID := i\<rparr>)"
  by (simp_all add: tends_same [OF assms])

lemma roomAt_putRoom: "roomAt c (putRoom b room rm) = (if c = b then Some room else roomAt c rm)"
  by (simp add: roomAt_def putRoom_def lookup_update')

text \<open>Running an engine that stays fit.\<close>

lemma putRoom_tends:
  assumes "roomAt b rm = Some room" and "staysFit (rEngine room) e"
  shows "tends rm (putRoom b (room\<lparr>rEngine := e\<rparr>) rm)"
  using assms
  by (auto simp: tends_def occupants_def boardOf_def roomAt_putRoom enginesFit_def putRoom_def [of b]
      playerAt_def roomAt_def lookup_update' intro: fit_fits)

lemma onRoom_tends [tends_rules]:
  assumes "tends rm0 rm" and "\<And>e. ok (staysFit e) (f e)"
  shows "ok (tends rm0) (onRoom b f rm)"
  using assms
  by (fastforce simp: onRoom_def ok_def split: Option.bind_splits intro: mgr.trans putRoom_tends)

lemma inRoom_tends [tends_rules]:
  assumes "tends rm0 rm" and "\<And>e. ok (fit.R2 e) (f e)"
  shows "ok (mgr.R2 rm0) (inRoom b f rm)"
  using assms
  by (fastforce simp: inRoom_def ok_def mgr.R2_def fit.R2_def split: Option.bind_splits
      intro: mgr.trans putRoom_tends)

text \<open>Rewriting a player who stays where they are.\<close>

lemma mod_tends [tends_rules]:
  assumes "tends rm0 rm" and "\<And>p. rpBoardID (f p) = rpBoardID p"
  shows "tends rm0 (modRoomPlayer pid f rm)"
proof -
  have "boardOf q (modRoomPlayer pid f rm) = boardOf q rm" for q
    using assms(2) by (cases "playerAt q rm") (auto simp: boardOf_def playerAt_update)
  then have "tends rm (modRoomPlayer pid f rm)"
    by (simp add: tends_def occupants_def enginesFit_def modRoomPlayer_def roomAt_def)
  then show ?thesis using assms(1) mgr.trans by blast
qed


section \<open>Engine operations the rooms use\<close>

lemma SpawnPlayer_keeps [keeps_rules]: "keeps e0 e \<Longrightarrow> ok (keep.R2 e0) (SpawnPlayer e)"
  unfolding SpawnPlayer_def by (rule ok_paths keep.paths keeps_rules | assumption)+

lemma RemovePlayer_keeps [keeps_rules]: "keeps e0 e \<Longrightarrow> ok (keeps e0) (RemovePlayer i e)"
  unfolding RemovePlayer_def by (rule ok_paths keep.paths keeps_rules | assumption)+

lemma drawPlayerArrivalSurroundings_keeps [keeps_rules]:
  "keeps e0 e \<Longrightarrow> ok (keeps e0) (drawPlayerArrivalSurroundings i e)"
  unfolding drawPlayerArrivalSurroundings_def by (rule ok_paths keep.paths keeps_rules | assumption)+

lemma movePlayerStat_keeps [keeps_rules]: "keeps e0 e \<Longrightarrow> ok (keeps e0) (movePlayerStat i x y e)"
  unfolding movePlayerStat_def by (rule ok_paths keep.paths keeps_rules | assumption)+

lemma spawnAt_keeps [keeps_rules]: "keeps e0 e \<Longrightarrow> ok (keep.R2 e0) (spawnAt x y e)"
  unfolding spawnAt_def by (rule ok_paths keep.paths keeps_rules | assumption)+

lemma playerSnapshot_keeps: "keeps e0 e \<Longrightarrow> ok (keep.R2 e0) (playerSnapshot pid i e)"
  unfolding playerSnapshot_def by (rule ok_paths keep.paths keeps_rules | assumption)+

lemma hudSnapshot_keeps: "keeps e0 e \<Longrightarrow> keeps e0 (snd (hudSnapshot i e))"
  unfolding hudSnapshot_def by (auto simp: Let_def split_def intro: keeps_screen)

text \<open>Each as a step that keeps the engine fit.\<close>

lemma engine_fit [tends_rules]:
  "ok (staysFit e) (RemovePlayer i e)" "ok (staysFit e) (BoardClose e)"
  "ok (staysFit e) (GameStepWithInputs created ins e)"
  "ok (staysFit e) (drawPlayerArrivalSurroundings i e)"
  "ok (staysFit e) (drawPlayerArrivalSurroundings i (ResetPlayerState j e))"
  "ok (fit.R2 e) (spawnAt x y e)" "ok (fit.R2 e) (playerSnapshot pid i e)"
  "ok (fit.R2 e) (Some (hudSnapshot i e))" "ok (fit.R2 e) (Some (PlayerFor i e))"
  "ok (fit.R2 e) (StateHash e)" "ok (fit.R2 e) (DrainScreenDirty e)" "ok (fit.R2 e) (Some (DrainEvents e))"
proof -
  show "ok (staysFit e) (RemovePlayer i e)" "ok (staysFit e) (BoardClose e)"
    "ok (staysFit e) (drawPlayerArrivalSurroundings i e)"
    "ok (staysFit e) (drawPlayerArrivalSurroundings i (ResetPlayerState j e))"
    by (rule ok_keeps_fits, (rule keeps_rules keep.refl)+)+
  show "ok (fit.R2 e) (spawnAt x y e)" "ok (fit.R2 e) (playerSnapshot pid i e)"
    by (rule ok_keeps_fits2, rule spawnAt_keeps playerSnapshot_keeps, rule keep.refl)+
  show "ok (staysFit e) (GameStepWithInputs created ins e)"
    by (auto simp: ok_def dest: GameStepWithInputs_steady steady_fits)
  show "ok (fit.R2 e) (Some (hudSnapshot i e))"
    by (simp add: fit.R2_def keeps_fits hudSnapshot_keeps [OF keep.refl])
qed (auto simp: ok_def fit.R2_def PlayerFor_fits staysFit_fields(3) dest: StateHash_fits DrainScreenDirty_fits)


section \<open>The inner operations\<close>

lemma rooms_tends:
  assumes "\<And>b. roomAt b (rm\<lparr>rmRooms := rs\<rparr>) =
      (if P b then map_option (modRoomEngine f) (roomAt b rm) else roomAt b rm)"
    and "\<And>e. staysFit e (f e)"
  shows "tends rm (rm\<lparr>rmRooms := rs\<rparr>)"
proof -
  have "fit ff (rEngine room) \<Longrightarrow> fit ff (rEngine (modRoomEngine f room))" for ff room
    using fit_fits assms(2) by (simp add: modRoomEngine_def)
  then show ?thesis
    unfolding tends_def occupants_def boardOf_def enginesFit_def assms(1)
    by (auto simp: modRoomEngine_def option.map_comp o_def split: if_splits)
qed

lemma refresh_tends [tends_rules]:
  assumes "tends rm0 rm"
  shows "tends rm0 (refreshRoomWorldScope b rm)"
proof -
  have "tends rm (refreshRoomWorldScope b rm)"
    unfolding refreshRoomWorldScope_def
    by (rule rooms_tends [where P = "\<lambda>c. c = b" and f = "adoptScope (wInfo (rmWorld rm))"])
       (auto simp: roomAt_def lookup_map_entry' staysFit_fields)
  then show ?thesis using assms mgr.trans by blast
qed

lemma publish_tends [tends_rules]:
  assumes "tends rm0 rm"
  shows "tends rm0 (publishRoomWorldScope b rm)"
proof -
  have "tends rm (rm\<lparr>rmWorld := w, rmRooms := Mapping.map_values (\<lambda>_. modRoomEngine (adoptScope v)) (rmRooms rm)\<rparr>)"
    for w v
  proof -
    have "tends (rm\<lparr>rmWorld := w\<rparr>)
      (rm\<lparr>rmWorld := w, rmRooms := Mapping.map_values (\<lambda>_. modRoomEngine (adoptScope v)) (rmRooms rm)\<rparr>)"
      by (rule rooms_tends [where P = "\<lambda>_. True" and f = "adoptScope v"])
         (auto simp: roomAt_def lookup_map_values staysFit_fields)
    then show ?thesis using tends_update(1) [OF mgr.refl] mgr.trans by blast
  qed
  then have "tends rm (publishRoomWorldScope b rm)"
    by (auto simp: publishRoomWorldScope_def Let_def mgr.refl split: option.split)
  then show ?thesis using assms mgr.trans by blast
qed

lemma fits_some: "staysFit e e' \<Longrightarrow> ok (staysFit e) (Some e')"
  by simp

lemma fits_some2: "ok (fit.R2 e) (do { e' \<leftarrow> m; Some (v, e') })" if "ok (staysFit e) m"
  using that by (cases m) (auto simp: fit.R2_def)

lemmas tends_steps = ok_paths mgr.paths mgr_values tends_rules

lemma reindexRoomPlayers_tends [tends_rules]: "tends rm0 rm \<Longrightarrow> ok (tends rm0) (reindexRoomPlayers b i rm)"
  unfolding reindexRoomPlayers_def by (rule tends_steps refl | assumption | simp)+

lemma syncFrozen_tends [tends_rules]: "tends rm0 rm \<Longrightarrow> ok (tends rm0) (syncFrozenBoardToLiveRooms b rm)"
  unfolding syncFrozenBoardToLiveRooms_def
  by (rule tends_steps fits_some staysFit_fields | assumption)+

lemma claimed_fit: "ok (fit.R2 e) (do { e \<leftarrow> movePlayerStat i x y e; e \<leftarrow> drawPlayerArrivalSurroundings i e; Some (i, e) })"
  by (rule ok_keeps_fits2) (rule ok_paths keep.paths keeps_rules keep.refl | assumption)+

lemma spawnPlayerInRoom_tends [tends_rules]: "tends rm0 rm \<Longrightarrow> ok (mgr.R2 rm0) (spawnPlayerInRoom b x y rm)"
  unfolding spawnPlayerInRoom_def by (rule tends_steps claimed_fit | assumption)+

lemma syncPlayerStatIDs_tends [tends_rules]: "tends rm0 rm \<Longrightarrow> ok (tends rm0) (syncPlayerStatIDs rm)"
  unfolding syncPlayerStatIDs_def by (rule tends_steps | assumption | simp)+

lemma playerSnapshotsForRoom_tends [tends_rules]:
  "tends rm0 rm \<Longrightarrow> ok (mgr.R2 rm0) (playerSnapshotsForRoom b rm)"
  unfolding playerSnapshotsForRoom_def by (rule tends_steps | assumption)+

lemma submitTo_tends [tends_rules]:
  assumes "tends rm0 rm" and "\<And>i e. staysFit e (f i e)"
  shows "ok (mgr.R2 rm0) (submitTo f p rm)"
  unfolding submitTo_def using assms by - (rule tends_steps fits_some | assumption)+

end
