(* ===== verification/RoomInv.thy ===== *)
theory RoomInv
  imports RoomFrame
begin

text \<open>
  The invariant of the room manager, \<open>housed P\<close>: the tables are finite, every engine is fit for
  its room, and every player outside \<open>P\<close> is listed by the room of the board they are on. \<open>P\<close> is
  the set of the players an operation is in the middle of moving; between operations it is
  empty. \<open>moves P Q\<close> is what an operation does to it, with the recorder and the policy kept.
\<close>

section \<open>The invariant\<close>

definition housed :: "int set \<Rightarrow> RoomManager \<Rightarrow> bool" where
  "housed P rm \<longleftrightarrow>
     finite (Mapping.keys (rmRooms rm)) \<and> finite (Mapping.keys (rmPlayers rm)) \<and> enginesFit rm \<and>
     (\<forall>p b. p \<notin> P \<longrightarrow> boardOf p rm = Some b \<longrightarrow> (\<exists>ps. occupants b rm = Some ps \<and> p \<in> ps))"

definition calm :: "RoomManager \<Rightarrow> RoomManager \<Rightarrow> bool" where
  "calm rm rm' \<longleftrightarrow>
     rmRecorder rm' = rmRecorder rm \<and> recSuppressLeave rm' = recSuppressLeave rm \<and>
     rmFriendlyFire rm' = rmFriendlyFire rm \<and> length (rmHighScores rm') = length (rmHighScores rm)"

definition moves :: "int set \<Rightarrow> int set \<Rightarrow> RoomManager \<Rightarrow> RoomManager \<Rightarrow> bool" where
  "moves P Q rm rm' \<longleftrightarrow> calm rm rm' \<and> (housed P rm \<longrightarrow> housed Q rm')"

lemma moves_refl: "moves P P rm rm"
  by (simp add: moves_def calm_def)

lemma moves_trans [trans]: "moves P Q a b \<Longrightarrow> moves Q R b c \<Longrightarrow> moves P R a c"
  by (auto simp: moves_def calm_def)

lemma keys_tables:
  "Mapping.keys (rmRooms rm) = {b. occupants b rm \<noteq> None}" "Mapping.keys (rmPlayers rm) = {p. boardOf p rm \<noteq> None}"
  by (auto simp: occupants_def boardOf_def roomAt_def playerAt_def keys_dom_lookup)

lemma moves_suppress: "moves P Q a b \<Longrightarrow> recSuppressLeave b = recSuppressLeave a"
  and moves_recorder: "moves P Q a b \<Longrightarrow> rmRecorder b = rmRecorder a"
  by (simp_all add: moves_def calm_def)

lemma tends_moves: "tends rm rm' \<Longrightarrow> moves P P rm rm'"
  by (simp add: tends_def moves_def calm_def housed_def keys_tables)

lemma ok_tends_moves: "ok (tends rm) m \<Longrightarrow> m = Some rm' \<Longrightarrow> moves P P rm rm'"
  by (simp add: ok_def tends_moves)

lemma ok_tends_moves2: "ok (mgr.R2 rm) m \<Longrightarrow> m = Some (v, rm') \<Longrightarrow> moves P P rm rm'"
  by (simp add: ok_def mgr.R2_def tends_moves)

section \<open>Changes of the two tables\<close>

lemma occupants_putRoom:
  "occupants c (putRoom b room rm) = (if c = b then Some (rPlayers room) else occupants c rm)"
  "boardOf p (putRoom b room rm) = boardOf p rm"
  by (simp_all add: occupants_def roomAt_putRoom boardOf_def)

lemma occupants_players [simp]:
  "occupants b (rm\<lparr>rmPlayers := ps\<rparr>) = occupants b rm" "occupants b (modRoomPlayer p f rm) = occupants b rm"
  "occupants b (putPlayer p pl rm) = occupants b rm" "enginesFit (rm\<lparr>rmPlayers := ps\<rparr>) = enginesFit rm"
  by (simp_all add: occupants_def enginesFit_def)

lemma putRoom_housed:
  assumes "housed P rm" and "rBoardID room = b" and "fit (rmFriendlyFire rm) (rEngine room)"
    and "\<And>p. p \<notin> Q \<Longrightarrow> boardOf p rm = Some b \<Longrightarrow> p \<in> rPlayers room" and "P \<subseteq> Q"
  shows "housed Q (putRoom b room rm)"
  using assms
  by (auto simp: housed_def occupants_putRoom enginesFit_def roomAt_putRoom) (auto simp: putRoom_def)

lemma table_keeps:
  assumes "keeps e0 e"
  shows "keeps e0 (e\<lparr>TransitionTableSize := n\<rparr>)" "keeps e0 (e\<lparr>TransitionTable := t\<rparr>)"
    "keeps e0 (e\<lparr>TransitionTableSize := n, TransitionTable := t\<rparr>)"
  using assms by (rule keeps_same; simp add: config_def)+

lemma GenerateTransitionTable_keeps: "keeps e0 e \<Longrightarrow> ok (keeps e0) (GenerateTransitionTable e)"
  unfolding GenerateTransitionTable_def Let_def
  by (rule ok_paths keep.paths keeps_rules table_keeps | assumption)+

lemma roomEngine_fit:
  assumes "roomEngine w b e = Some e'" and "FriendlyFire e = ff" "MultiRoom e" "Headless e" "statsFit e" "heapOk e"
  shows "fit ff e'"
proof -
  let ?e = "e\<lparr>World := w\<rparr>"
  have "ok (keeps ?e) (roomEngine w b e)"
    unfolding roomEngine_def Let_def
    by (rule ok_paths keep.paths keeps_rules GenerateTransitionTable_keeps keep.refl | assumption)+
  then have "keeps ?e e'" using assms(1) by (simp add: ok_def)
  moreover have "fit ff ?e" using assms by (simp add: fit_def statsFit_def heapOk_def)
  ultimately show ?thesis using fit_fits keeps_fits by blast
qed

lemma ensureRoom_moves: "ensureRoom b rm = Some rm' \<Longrightarrow> moves P P rm rm'"
proof (cases "roomAt b rm")
  case None
  assume "ensureRoom b rm = Some rm'"
  then obtain e where e: "roomEngine (rmWorld rm) b
        (NewEngine\<lparr>Headless := True, MultiRoom := True, FriendlyFire := rmFriendlyFire rm,
                   TickSpeed := 4, TickTimeDuration := 8, GameStateElement := E_PLAYER\<rparr>) = Some e"
    and rm': "rm' = putRoom b \<lparr>rBoardID = b, rEngine = e, rPlayers = {}\<rparr> rm"
    using None by (auto simp: ensureRoom_def split: Option.bind_splits)
  have "fit (rmFriendlyFire rm) e"
    using e by (rule roomEngine_fit) (simp_all add: statsFit_def heapOk_def)
  moreover have "housed P rm \<Longrightarrow> p \<notin> P \<Longrightarrow> boardOf p rm \<noteq> Some b" for p
    using None by (auto simp: housed_def occupants_def)
  ultimately have "housed P rm \<Longrightarrow> housed P rm'"
    unfolding rm' by (intro putRoom_housed [where P = P]) auto
  then show ?thesis by (simp add: moves_def calm_def rm' putRoom_def)
qed (simp add: ensureRoom_def moves_refl)


text \<open>The room of a set of occupants.\<close>

lemma room_of:
  assumes "roomAt b rm = Some room" and "housed P rm"
  shows "rBoardID room = b" "fit (rmFriendlyFire rm) (rEngine room)"
    "p \<notin> P \<Longrightarrow> boardOf p rm = Some b \<Longrightarrow> p \<in> rPlayers room"
  using assms by (auto simp: housed_def enginesFit_def occupants_def)

lemma setPlayers_moves:
  assumes "roomAt b rm = Some room" and "\<And>p. p \<notin> Q \<Longrightarrow> boardOf p rm = Some b \<Longrightarrow> p \<in> rPlayers room \<Longrightarrow> p \<in> ps"
    and "P \<subseteq> Q"
  shows "moves P Q rm (putRoom b (room\<lparr>rPlayers := ps\<rparr>) rm)"
proof -
  have "housed P rm \<Longrightarrow> housed Q (putRoom b (room\<lparr>rPlayers := ps\<rparr>) rm)"
    by (rule putRoom_housed [where P = P])
       (use assms room_of(1,2) [OF assms(1)] room_of(3) [where P = P, OF assms(1)] in \<open>simp; blast\<close>)+
  then show ?thesis by (simp add: moves_def calm_def putRoom_def)
qed

lemma leaveRoomSet_moves: "leaveRoomSet b p rm = Some rm' \<Longrightarrow> moves P (insert p P) rm rm'"
  by (auto simp: leaveRoomSet_def split: Option.bind_splits intro!: setPlayers_moves)

lemma leaveRoomSet_boards: "leaveRoomSet b p rm = Some rm' \<Longrightarrow> boardOf q rm' = boardOf q rm"
  by (auto simp: leaveRoomSet_def occupants_putRoom split: Option.bind_splits)

lemma boardOf_simps:
  "boardOf q (rm\<lparr>rmPlayers := Mapping.delete p (rmPlayers rm)\<rparr>) = (if q = p then None else boardOf q rm)"
  "boardOf q (putPlayer p pl rm) = (if q = p then Some (rpBoardID pl) else boardOf q rm)"
  "boardOf q (modRoomPlayer p f rm) =
     (if q = p then map_option (rpBoardID \<circ> f) (playerAt p rm) else boardOf q rm)"
  by (auto simp: boardOf_def playerAt_def putPlayer_def modRoomPlayer_def lookup_delete_if lookup_update'
      lookup_map_entry' option.map_comp)

lemma deletePlayer_moves: "moves (insert p P) P rm (rm\<lparr>rmPlayers := Mapping.delete p (rmPlayers rm)\<rparr>)"
  by (auto simp: moves_def calm_def housed_def boardOf_simps)

lemma fields_moves: "moves P P rm (rm\<lparr>pendingPlayerEvents := pe\<rparr>)" "moves P P rm (rm\<lparr>pendingScores := ps\<rparr>)"
    "moves P P rm (rm\<lparr>rmQuits := q\<rparr>)" "moves P P rm (rm\<lparr>rmNextPlayerID := i\<rparr>)"
  by (rule tends_moves, rule tends_update, rule mgr.refl)+

text \<open>A player added to the set of a room, and then put on its board.\<close>

lemma arrive_moves:
  assumes "roomAt b rm = Some room"
    and "\<And>q. boardOf q rm' = (if q = p then Some b else boardOf q rm)"
    and "rmRooms rm' = Mapping.update b (room\<lparr>rPlayers := insert p (rPlayers room)\<rparr>) (rmRooms rm)"
    and "finite (Mapping.keys (rmPlayers rm)) \<Longrightarrow> finite (Mapping.keys (rmPlayers rm'))"
    and "calm rm rm'"
  shows "moves (insert p P) P rm rm'"
proof -
  have r: "roomAt c rm' = (if c = b then Some (room\<lparr>rPlayers := insert p (rPlayers room)\<rparr>) else roomAt c rm)" for c
    by (simp add: roomAt_def assms(3) lookup_update')
  have "housed P rm'" if h: "housed (insert p P) rm"
  proof -
    have "enginesFit rm'"
      using h room_of [OF assms(1) h] assms(5) by (auto simp: enginesFit_def r calm_def housed_def)
    then show ?thesis
      using h assms(1,3,4) room_of(3) [OF assms(1) h]
      by (auto simp: housed_def assms(2) occupants_def r)
  qed
  then show ?thesis using assms(5) by (simp add: moves_def)
qed

lemma delete_room_moves:
  assumes "occupants b rm = Some {}"
  shows "moves {} {} rm (rm\<lparr>rmRooms := Mapping.delete b (rmRooms rm)\<rparr>)"
proof -
  have r: "roomAt c (rm\<lparr>rmRooms := Mapping.delete b (rmRooms rm)\<rparr>) = (if c = b then None else roomAt c rm)" for c
    by (simp add: roomAt_def lookup_delete_if)
  have "housed {} rm \<Longrightarrow> boardOf p rm \<noteq> Some b" for p
    using assms by (fastforce simp: housed_def)
  then show ?thesis
    using assms by (auto simp: moves_def calm_def housed_def enginesFit_def occupants_def r boardOf_def)
qed

lemma freezeRoomIfEmpty_moves:
  assumes "freezeRoomIfEmpty b rm = Some rm'"
  shows "moves {} {} rm rm'"
proof (cases "occupants b rm = Some {}")
  case False
  then show ?thesis
    using assms by (auto simp: freezeRoomIfEmpty_def occupants_def moves_refl split: option.splits if_splits)
next
  case True
  then obtain rm1 w where close: "onRoom b BoardClose rm = Some rm1"
    and sync: "syncFrozenBoardToLiveRooms b
      ((publishRoomWorldScope b (rm1\<lparr>rmWorld := w\<rparr>))\<lparr>rmRooms :=
        Mapping.delete b (rmRooms (publishRoomWorldScope b (rm1\<lparr>rmWorld := w\<rparr>)))\<rparr>) = Some rm'"
    using assms
    by (auto simp: freezeRoomIfEmpty_def occupants_def Let_def split: Option.bind_splits if_splits)
  let ?rm2 = "publishRoomWorldScope b (rm1\<lparr>rmWorld := w\<rparr>)"
  have "tends rm rm1" using close onRoom_tends [OF mgr.refl engine_fit(2)] by (auto simp: ok_def)
  then have t: "tends rm ?rm2" by (intro tends_rules)
  then have "occupants b ?rm2 = Some {}" using True by (simp add: tends_def)
  note tends_moves [OF t]
  also note delete_room_moves [OF \<open>occupants b ?rm2 = Some {}\<close>]
  also have "moves {} {} (?rm2\<lparr>rmRooms := Mapping.delete b (rmRooms ?rm2)\<rparr>) rm'"
    using sync by (rule ok_tends_moves [OF syncFrozen_tends [OF mgr.refl]])
  finally show ?thesis .
qed


section \<open>The operations that move players\<close>

lemma housed_fields [simp]:
  "housed P (rm\<lparr>rmRecorder := r\<rparr>) = housed P rm" "housed P (recordRM op rm) = housed P rm"
  "housed P (rm\<lparr>recSuppressLeave := sl\<rparr>) = housed P rm" "housed P (rm\<lparr>rmQuits := q\<rparr>) = housed P rm"
  "housed P (rm\<lparr>pendingScores := ps\<rparr>) = housed P rm"
  by (simp_all add: recordRM_def housed_def boardOf_def occupants_def enginesFit_def roomAt_def playerAt_def)

lemma onRoom_moves: "onRoom b f rm = Some rm' \<Longrightarrow> (\<And>e. ok (staysFit e) (f e)) \<Longrightarrow> moves P P rm rm'"
  by (erule ok_tends_moves [rotated]) (rule onRoom_tends [OF mgr.refl])

lemma inRoom_moves: "inRoom b f rm = Some (v, rm') \<Longrightarrow> (\<And>e. ok (fit.R2 e) (f e)) \<Longrightarrow> moves P P rm rm'"
  by (erule ok_tends_moves2 [rotated]) (rule inRoom_tends [OF mgr.refl])

lemma spawn_moves: "spawnPlayerInRoom b x y rm = Some (v, rm') \<Longrightarrow> moves P P rm rm'"
  by (rule ok_tends_moves2 [OF spawnPlayerInRoom_tends [OF mgr.refl]])

lemma reindex_moves: "reindexRoomPlayers b i rm = Some rm' \<Longrightarrow> moves P P rm rm'"
  by (rule ok_tends_moves [OF reindexRoomPlayers_tends [OF mgr.refl]])

text \<open>
  The records of the two operations that go through a recorder: with the recorder given the
  operation first, a join leaves it alone.
\<close>

lemma JoinPlayerWithID_moves:
  assumes "JoinPlayerWithID pid b x y rm = Some (v, rm')"
  shows "\<exists>rm1. moves {} {} rm rm1 \<and> rm' = recordRM (RecJoin pid b x y) rm1"
proof -
  let ?rm0 = "if pid > rmNextPlayerID rm then rm\<lparr>rmNextPlayerID := pid\<rparr> else rm"
  let ?pl = "\<lambda>i ps. \<lparr>rpId = pid, rpBoardID = b, rpStatID = i, rpState = ps, rpName = [], rpAccountID = [],
    rpColor = [], rpHandle = [], rpHasProfile = False, rpScrollOpen = False\<rparr>"
  obtain rm1 rm2 rm3 rm4 i ps room where ensure: "ensureRoom b ?rm0 = Some rm1"
    and spawn: "spawnPlayerInRoom b x y rm1 = Some (i, rm2)"
    and draw: "onRoom b (\<lambda>e. drawPlayerArrivalSurroundings i (ResetPlayerState i e)) rm2 = Some rm3"
    and ask: "inRoom b (\<lambda>e. Some (PlayerFor i e)) rm3 = Some (ps, rm4)" and room: "roomAt b rm4 = Some room"
    and rm': "rm' = recordRM (RecJoin pid b x y)
      (putRoom b (room\<lparr>rPlayers := insert pid (rPlayers room)\<rparr>) (putPlayer pid (?pl i ps) rm4))"
    using assms unfolding JoinPlayerWithID_def Let_def by (auto simp: bind_eq_Some_conv)
  have "moves {} {} rm ?rm0" by (simp add: fields_moves moves_refl)
  also note ensureRoom_moves [OF ensure]
  also note spawn_moves [OF spawn]
  also note onRoom_moves [OF draw engine_fit(5)]
  also note inRoom_moves [OF ask engine_fit(9)]
  also have "moves {} {pid} rm4 rm4" by (auto simp: moves_def calm_def housed_def)
  also have "moves {pid} {} rm4 (putRoom b (room\<lparr>rPlayers := insert pid (rPlayers room)\<rparr>) (putPlayer pid (?pl i ps) rm4))"
    by (rule arrive_moves [OF room])
       (simp_all add: occupants_putRoom boardOf_simps, simp_all add: putRoom_def putPlayer_def calm_def)
  finally show ?thesis using rm' by blast
qed

lemma LeavePlayer_moves:
  assumes "LeavePlayer pid rm = Some (v, rm')"
  shows "moves {} {} (if playerAt pid rm = None \<or> recSuppressLeave rm then rm else recordRM (RecLeave pid) rm) rm'"
proof (cases "playerAt pid rm")
  case None
  then show ?thesis using assms by (simp add: LeavePlayer_def moves_refl)
next
  case (Some pl)
  define rm0 where "rm0 = (if recSuppressLeave rm then rm else recordRM (RecLeave pid) rm)"
  have at: "roomAt b rm0 = roomAt b rm" for b by (simp add: rm0_def)
  have leave_eq: "LeavePlayer pid rm = (let b = rpBoardID pl in
      if roomAt b rm = None then Some (True, rm0\<lparr>rmPlayers := Mapping.delete pid (rmPlayers rm0)\<rparr>)
      else do {
        rm \<leftarrow> onRoom b (RemovePlayer (rpStatID pl)) rm0;
        rm \<leftarrow> leaveRoomSet b pid rm;
        rm \<leftarrow> reindexRoomPlayers b (rpStatID pl)
          (rm\<lparr>rmPlayers := Mapping.delete pid (rmPlayers rm),
              pendingPlayerEvents := Mapping.delete pid (pendingPlayerEvents rm)\<rparr>);
        rm \<leftarrow> freezeRoomIfEmpty b rm;
        Some (True, rm) })"
    using Some by (simp add: LeavePlayer_def Let_def rm0_def [symmetric] at)
  let ?b = "rpBoardID pl"
  have del: "moves {} {} r (r\<lparr>rmPlayers := Mapping.delete pid (rmPlayers r)\<rparr>)" for r
  proof -
    have "moves {} {pid} r r" by (auto simp: moves_def calm_def housed_def)
    also note deletePlayer_moves
    finally show ?thesis .
  qed
  show ?thesis
  proof (cases "roomAt ?b rm")
    case None
    then show ?thesis using assms Some del \<open>playerAt pid rm = Some pl\<close> by (auto simp: leave_eq rm0_def [symmetric])
  next
    case (Some room)
    then obtain rm1 rm2 rm4 where remove: "onRoom ?b (RemovePlayer (rpStatID pl)) rm0 = Some rm1"
      and leave: "leaveRoomSet ?b pid rm1 = Some rm2"
      and reindex: "reindexRoomPlayers ?b (rpStatID pl)
        (rm2\<lparr>rmPlayers := Mapping.delete pid (rmPlayers rm2),
             pendingPlayerEvents := Mapping.delete pid (pendingPlayerEvents rm2)\<rparr>) = Some rm4"
      and freeze: "freezeRoomIfEmpty ?b rm4 = Some rm'"
      using assms unfolding leave_eq Let_def by (auto simp: bind_eq_Some_conv)
    have "moves {} {} rm0 rm1" by (rule onRoom_moves [OF remove engine_fit(1)])
    also note leaveRoomSet_moves [OF leave]
    also note deletePlayer_moves
    also note fields_moves(1)
    also note reindex_moves [OF reindex]
    also note freezeRoomIfEmpty_moves [OF freeze]
    finally show ?thesis using \<open>playerAt pid rm = Some pl\<close> by (simp add: rm0_def)
  qed
qed

lemma quitPlayer_moves:
  assumes "quitPlayer pid rm = Some rm'" and "\<not> recSuppressLeave rm"
  shows "moves {} {} rm rm'"
proof (cases "playerAt pid rm")
  case None
  then show ?thesis using assms(1) by (simp add: quitPlayer_def PlayerState_of_def moves_refl)
next
  case (Some pl)
  then obtain state where state: "PlayerState_of pid rm = Some (Some state)"
    using assms(1) by (auto simp: quitPlayer_def PlayerState_of_def bind_eq_Some_conv)
  define result where "result = \<lparr>qrPlayerID = pid, qrScore = pScore state, qrListPos = rankScore (pScore state) rm\<rparr>"
  define sc where "sc = (if qrListPos result > 0 then Mapping.update pid result (pendingScores rm) else pendingScores rm)"
  define q where "q = rmQuits rm @ [result]"
  have quit_eq: "quitPlayer pid rm = do {
      (_, rm) \<leftarrow> LeavePlayer pid (rm\<lparr>pendingScores := sc, rmQuits := q, recSuppressLeave := True\<rparr>);
      Some (rm\<lparr>recSuppressLeave := False\<rparr>) }"
    using state by (simp add: quitPlayer_def Let_def sc_def q_def result_def)
  obtain v rm2 where leave: "LeavePlayer pid
      (rm\<lparr>pendingScores := sc, rmQuits := q, recSuppressLeave := True\<rparr>) = Some (v, rm2)"
    and rm': "rm' = rm2\<lparr>recSuppressLeave := False\<rparr>"
    using assms(1) unfolding quit_eq by (auto simp: bind_eq_Some_conv)
  have "moves {} {} (rm\<lparr>pendingScores := sc, rmQuits := q, recSuppressLeave := True\<rparr>) rm2"
    using LeavePlayer_moves [OF leave] by (auto split: if_splits)
  then show ?thesis
    using assms(2)
    by (simp add: rm' moves_def calm_def)
qed


lemma settle_moves:
  assumes "occupants b rm = Some ps" and "p \<in> ps" and "\<And>pl. rpBoardID (f pl) = b"
  shows "moves (insert p P) P rm (modRoomPlayer p f rm)"
proof -
  have "boardOf q (modRoomPlayer p f rm) = (if q = p \<and> boardOf p rm \<noteq> None then Some b else boardOf q rm)" for q
    using assms(3) by (cases "playerAt p rm") (auto simp: playerAt_update boardOf_def)
  moreover have "Mapping.keys (rmPlayers (modRoomPlayer p f rm)) = Mapping.keys (rmPlayers rm)"
    and "enginesFit (modRoomPlayer p f rm) = enginesFit rm" and "calm rm (modRoomPlayer p f rm)"
    by (simp_all add: modRoomPlayer_def calm_def)
  moreover have "occupants c (modRoomPlayer p f rm) = occupants c rm" for c by simp
  moreover have "rmRooms (modRoomPlayer p f rm) = rmRooms rm" by (simp add: modRoomPlayer_def)
  ultimately have "housed (insert p P) rm \<Longrightarrow> housed P (modRoomPlayer p f rm)"
    using assms(1,2) unfolding housed_def by (metis insert_iff option.discI option.inject)
  then show ?thesis using \<open>calm rm (modRoomPlayer p f rm)\<close> by (simp add: moves_def)
qed

lemma hand_over_fit:
  "ok (fit.R2 e) (let (ps, e) = PlayerFor i e in Some (PHeap e ps, e))"
  "ok (staysFit e) (let (ps, e) = PlayerFor i e in drawPlayerArrivalSurroundings i (modPlayer ps (\<lambda>_. st) e))"
proof -
  show "ok (fit.R2 e) (let (ps, e) = PlayerFor i e in Some (PHeap e ps, e))"
    using PlayerFor_fits [of e i] by (simp add: Let_def split_def fit.R2_def)
  have "keeps e (modPlayer ps (\<lambda>_. st) (snd (PlayerFor i e)))" for ps
    by (intro keeps_accessors keeps_screen keep.refl)
  then show "ok (staysFit e) (let (ps, e) = PlayerFor i e in drawPlayerArrivalSurroundings i (modPlayer ps (\<lambda>_. st) e))"
    by (simp add: Let_def split_def) (rule ok_keeps_fits, rule drawPlayerArrivalSurroundings_keeps)
qed

text \<open>The steps of a transfer that happens.\<close>

lemma transferE:
  assumes "transferPlayer pid b x y rm = Some rm'" and "playerAt pid rm = Some pl" and "roomAt (rpBoardID pl) rm \<noteq> None"
  obtains rm1 st rm2 rm3 rm4 rm5 new rm6 rm7 room ps rm9 where
      "ensureRoom b (modRoomPlayer pid (\<lambda>p. p\<lparr>rpScrollOpen := False\<rparr>) rm) = Some rm1"
      "inRoom (rpBoardID pl) (\<lambda>e. let (ps, e) = PlayerFor (rpStatID pl) e in Some (PHeap e ps, e)) rm1 = Some (st, rm2)"
      "onRoom (rpBoardID pl) (RemovePlayer (rpStatID pl)) rm2 = Some rm3"
      "leaveRoomSet (rpBoardID pl) pid rm3 = Some rm4"
      "reindexRoomPlayers (rpBoardID pl) (rpStatID pl) rm4 = Some rm5"
      "spawnPlayerInRoom b x y rm5 = Some (new, rm6)"
      "onRoom b (\<lambda>e. let (ps, e) = PlayerFor new e in
          drawPlayerArrivalSurroundings new (modPlayer ps (\<lambda>_. st) e)) rm6 = Some rm7"
      "roomAt b rm7 = Some room"
      "inRoom b (\<lambda>e. Some (PlayerFor new e))
          (putRoom b (room\<lparr>rPlayers := insert pid (rPlayers room)\<rparr>) rm7) = Some (ps, rm9)"
      "freezeRoomIfEmpty (rpBoardID pl)
          (modRoomPlayer pid (\<lambda>p. p\<lparr>rpBoardID := b, rpStatID := new, rpState := ps\<rparr>) rm9) = Some rm'"
  using assms by (auto simp: transferPlayer_def Let_def bind_eq_Some_conv)

lemma transferPlayer_moves:
  assumes "transferPlayer pid b x y rm = Some rm'"
  shows "moves {} {} rm rm'"
proof (cases "playerAt pid rm")
  case None
  then show ?thesis using assms by (simp add: transferPlayer_def moves_refl)
next
  case (Some pl)
  have start: "moves {} {} rm (modRoomPlayer pid (\<lambda>p. p\<lparr>rpScrollOpen := False\<rparr>) rm)"
    by (rule tends_moves) (simp add: mod_tends mgr.refl)
  show ?thesis
  proof (cases "roomAt (rpBoardID pl) rm = None")
    case True
    then show ?thesis using assms Some start by (simp add: transferPlayer_def Let_def)
  next
    case False
    show ?thesis
    proof (rule transferE [OF assms Some False])
      fix rm1 st rm2 rm3 rm4 rm5 new rm6 rm7 room ps rm9
      assume ensure: "ensureRoom b (modRoomPlayer pid (\<lambda>p. p\<lparr>rpScrollOpen := False\<rparr>) rm) = Some rm1"
        and copy: "inRoom (rpBoardID pl) (\<lambda>e. let (ps, e) = PlayerFor (rpStatID pl) e in Some (PHeap e ps, e)) rm1 = Some (st, rm2)"
        and remove: "onRoom (rpBoardID pl) (RemovePlayer (rpStatID pl)) rm2 = Some rm3"
        and leave: "leaveRoomSet (rpBoardID pl) pid rm3 = Some rm4"
        and reindex: "reindexRoomPlayers (rpBoardID pl) (rpStatID pl) rm4 = Some rm5"
        and spawn: "spawnPlayerInRoom b x y rm5 = Some (new, rm6)"
        and hand: "onRoom b (\<lambda>e. let (ps, e) = PlayerFor new e in
            drawPlayerArrivalSurroundings new (modPlayer ps (\<lambda>_. st) e)) rm6 = Some rm7"
        and room: "roomAt b rm7 = Some room"
        and ask: "inRoom b (\<lambda>e. Some (PlayerFor new e))
            (putRoom b (room\<lparr>rPlayers := insert pid (rPlayers room)\<rparr>) rm7) = Some (ps, rm9)"
        and freeze: "freezeRoomIfEmpty (rpBoardID pl)
            (modRoomPlayer pid (\<lambda>p. p\<lparr>rpBoardID := b, rpStatID := new, rpState := ps\<rparr>) rm9) = Some rm'"
      have "tends (putRoom b (room\<lparr>rPlayers := insert pid (rPlayers room)\<rparr>) rm7) rm9"
        using ask inRoom_tends [OF mgr.refl engine_fit(9)] by (simp add: ok_def mgr.R2_def)
      then have here: "occupants b rm9 = Some (insert pid (rPlayers room))"
        by (simp add: tends_def occupants_putRoom)
      note start
      also note ensureRoom_moves [OF ensure]
      also note inRoom_moves [OF copy hand_over_fit(1)]
      also note onRoom_moves [OF remove engine_fit(1)]
      also note leaveRoomSet_moves [OF leave]
      also note reindex_moves [OF reindex]
      also note spawn_moves [OF spawn]
      also note onRoom_moves [OF hand hand_over_fit(2)]
      also have "moves {pid} {pid} rm7 (putRoom b (room\<lparr>rPlayers := insert pid (rPlayers room)\<rparr>) rm7)"
        by (rule setPlayers_moves [OF room]) simp_all
      also note inRoom_moves [OF ask engine_fit(9)]
      also have "moves {pid} {} rm9 (modRoomPlayer pid (\<lambda>p. p\<lparr>rpBoardID := b, rpStatID := new, rpState := ps\<rparr>) rm9)"
        by (rule settle_moves [OF here]) simp_all
      also note freezeRoomIfEmpty_moves [OF freeze]
      finally show ?thesis .
    qed
  qed
qed


section \<open>A tick\<close>

lemma dropPanickedRoom_moves: "moves {} {} rm (dropPanickedRoom b rm)"
proof (cases "roomAt b rm")
  case None
  then show ?thesis by (simp add: dropPanickedRoom_def moves_refl)
next
  case (Some room)
  let ?gone = "rPlayers room"
  have calm: "calm rm (dropPanickedRoom b rm)" using Some by (simp add: dropPanickedRoom_def calm_def Let_def)
  have "housed {} (dropPanickedRoom b rm)" if h: "housed {} rm"
  proof -
    have id: "rBoardID room = b" using room_of(1) [OF Some h] .
    have r: "roomAt c (dropPanickedRoom b rm) = (if c = b then None else roomAt c rm)" for c
      using Some id by (simp add: dropPanickedRoom_def Let_def roomAt_def lookup_delete_if)
    have p: "boardOf q (dropPanickedRoom b rm) = (if q \<in> ?gone then None else boardOf q rm)" for q
      using Some by (auto simp: dropPanickedRoom_def Let_def boardOf_def playerAt_def lookup_filter
          split: option.split)
    have "enginesFit (dropPanickedRoom b rm)"
      using h calm by (simp add: enginesFit_def r housed_def calm_def)
    moreover have "finite (Mapping.keys (rmRooms (dropPanickedRoom b rm)))"
      using h by (auto simp: keys_tables occupants_def r housed_def elim: rev_finite_subset)
    moreover have "finite (Mapping.keys (rmPlayers (dropPanickedRoom b rm)))"
      using h by (auto simp: keys_tables p housed_def elim: rev_finite_subset)
    moreover have "boardOf q rm = Some b \<Longrightarrow> q \<in> ?gone" for q
      using room_of(3) [OF Some h] by simp
    ultimately show ?thesis
      using h by (auto simp: housed_def p occupants_def r)
  qed
  then show ?thesis using calm by (simp add: moves_def)
qed

lemma stepRoom_moves: "moves {} {} rm (snd (stepRoom created b ins rm))"
  using onRoom_moves [OF _ engine_fit(3)] dropPanickedRoom_moves
  by (auto simp: stepRoom_def split: option.split)

lemma queuePlayerEvent_tends [tends_rules]: "tends rm0 rm \<Longrightarrow> tends rm0 (queuePlayerEvent p ev rm)"
  by (simp add: queuePlayerEvent_def tends_update)

lemma queueForStat_tends [tends_rules]: "tends rm0 rm \<Longrightarrow> tends rm0 (queueForStat b i ev rm)"
  by (auto simp: queueForStat_def tends_rules split: option.split)

lemma routeTransfer_tends: "tends rm0 (snd s) \<Longrightarrow> tends rm0 (snd (routeTransfer b i ev d src ns pr s))"
  by (auto simp: routeTransfer_def Let_def split_def tends_rules split: option.split)

lemma routeScroll_tends: "tends rm0 (snd s) \<Longrightarrow> ok (\<lambda>t. tends rm0 (snd t)) (routeScroll b i j ev s)"
  by (auto simp: routeScroll_def Let_def split_def tends_rules ok_def
      split: option.splits if_splits Option.bind_splits)

lemma routeEvent_tends: "tends rm0 (snd s) \<Longrightarrow> ok (\<lambda>t. tends rm0 (snd t)) (routeEvent b ev s)"
  using routeTransfer_tends [of rm0 s] routeScroll_tends [of rm0 s]
  by (cases ev) (auto simp: routeEvent_def split_def tends_rules split: option.split)

lemma routeEvents_moves: "foldM (routeEvent b) evs s = Some t \<Longrightarrow> moves P P (snd s) (snd t)"
proof -
  assume f: "foldM (routeEvent b) evs s = Some t"
  have "ok (\<lambda>t. tends (snd s) (snd t)) (foldM (routeEvent b) evs s)"
    by (rule ok_foldM) (auto simp: mgr.refl intro: routeEvent_tends)
  then show ?thesis using f by (simp add: ok_def tends_moves)
qed

lemma tickRoom_moves:
  assumes "tickRoom created ins b s = Some t"
  shows "moves {} {} (snd s) (snd t)"
proof -
  obtain r rm where s: "s = (r, rm)" by (cases s)
  let ?rm1 = "refreshRoomWorldScope b rm"
  obtain stepped rm2 where step: "stepRoom created b (ins b) ?rm1 = (stepped, rm2)" by (cases "stepRoom created b (ins b) ?rm1")
  have "moves {} {} rm ?rm1" by (intro tends_moves refresh_tends mgr.refl)
  also have "moves {} {} ?rm1 rm2" using stepRoom_moves [of ?rm1 created b "ins b"] step by simp
  finally have upto: "moves {} {} rm rm2" .
  show ?thesis
  proof (cases "occupied b rm \<and> stepped")
    case False
    then show ?thesis using assms upto by (auto simp: s tickRoom_def step Let_def moves_refl split: if_splits)
  next
    case True
    then obtain evs rm3 u where drain: "inRoom b (\<lambda>e. Some (DrainEvents e)) rm2 = Some (evs, rm3)"
      and route: "foldM (routeEvent b) evs (r, rm3) = Some u"
      and t: "t = (fst u, publishRoomWorldScope b (snd u))"
      using assms by (auto simp: s tickRoom_def step Let_def bind_eq_Some_conv)
    note upto
    also note inRoom_moves [OF drain engine_fit(12)]
    also have "moves {} {} rm3 (snd u)" using routeEvents_moves [OF route, of "{}"] by simp
    also have "moves {} {} (snd u) (publishRoomWorldScope b (snd u))"
      by (intro tends_moves publish_tends mgr.refl)
    finally show ?thesis by (simp add: s t)
  qed
qed

lemma roomFrames_tends: "tends rm0 (snd s) \<Longrightarrow> ok (mgr.R2 rm0) (roomFrames help r b s)"
proof -
  assume t: "tends rm0 (snd s)"
  obtain diffs boardDiffs rm where s: "s = ((diffs, boardDiffs), rm)" by (metis prod.collapse)
  have "tends rm0 rm" using t by (simp add: s)
  then show ?thesis
    unfolding roomFrames_def s prod.case Let_def
    by - (rule tends_steps tends_rules | assumption)+
qed


lemma moves_foldM:
  assumes "foldM f xs s = Some t" and "\<And>x s t. f x s = Some t \<Longrightarrow> Q s \<Longrightarrow> moves P P (g s) (g t)"
    and "\<And>s t. moves P P (g s) (g t) \<Longrightarrow> Q s \<Longrightarrow> Q t" and "Q s"
  shows "moves P P (g s) (g t)"
  using assms(1,4)
proof (induction xs arbitrary: s)
  case Nil
  then show ?case by (simp add: moves_refl)
next
  case (Cons x xs)
  then obtain u where u: "f x s = Some u" and rest: "foldM f xs u = Some t" by (auto simp: bind_eq_Some_conv)
  have step: "moves P P (g s) (g u)" using assms(2) [OF u Cons.prems(2)] .
  then show ?case using Cons.IH [OF rest assms(3) [OF step Cons.prems(2)]] moves_trans by blast
qed

text \<open>A tick records its inputs and houses everybody.\<close>

lemma StepDiffsWithBoards_moves:
  assumes "StepDiffsWithBoards created help inputs rm = Some (f, rm')" and "\<not> recSuppressLeave rm"
  shows "moves {} {} (rm\<lparr>rmRecorder := flushTick inputs (rmRecorder rm)\<rparr>) rm'"
proof -
  let ?rm0 = "rm\<lparr>rmRecorder := flushTick inputs (rmRecorder rm)\<rparr>"
  let ?r0 = "\<lparr>rtTransfers = [], rtQuitters = [], rtRoomEvents = Mapping.empty\<rparr>"
  obtain r rm1 rm2 rm3 rm4 where ticks: "foldM (tickRoom created (engineInputs inputs ?rm0)) (roomIDs ?rm0) (?r0, ?rm0) = Some (r, rm1)"
    and transfers: "foldM (\<lambda>(pid, b, x, y). transferPlayer pid b x y) (rtTransfers r) rm1 = Some rm2"
    and quits: "foldM quitPlayer (rtQuitters r) rm2 = Some rm3"
    and sync: "syncPlayerStatIDs rm3 = Some rm4"
    and frames: "foldM (roomFrames help r) (roomIDs rm4) ((Mapping.empty, Mapping.empty), rm4) = Some (f, rm')"
    using assms(1) by (auto simp: StepDiffsWithBoards_def Let_def bind_eq_Some_conv)
  have "moves {} {} ?rm0 rm1"
    using moves_foldM [where g = snd and Q = "\<lambda>_. True" and P = "{}", OF ticks tickRoom_moves] by simp
  also have "moves {} {} rm1 rm2"
    using moves_foldM [where g = "\<lambda>s. s" and Q = "\<lambda>_. True" and P = "{}", OF transfers]
    by (auto intro: transferPlayer_moves)
  finally have upto: "moves {} {} ?rm0 rm2" .
  then have rm2: "\<not> recSuppressLeave rm2" using assms(2) by (simp add: moves_suppress)
  have "moves {} {} rm2 rm3"
    by (rule moves_foldM [where g = "\<lambda>s. s" and Q = "\<lambda>s. \<not> recSuppressLeave s", OF quits _ _ rm2])
       (blast intro: quitPlayer_moves dest: moves_suppress)+
  also have "moves {} {} rm3 rm4" by (rule ok_tends_moves [OF syncPlayerStatIDs_tends [OF mgr.refl] sync])
  also have "moves {} {} rm4 rm'"
  proof -
    have "ok (\<lambda>s. tends rm4 (snd s)) (foldM (roomFrames help r) (roomIDs rm4) ((Mapping.empty, Mapping.empty), rm4))"
      by (rule ok_foldM) (auto simp: mgr.refl roomFrames_tends [unfolded mgr.R2_def split_def])
    then show ?thesis using frames by (auto simp: ok_def tends_moves)
  qed
  finally show ?thesis using upto moves_trans by blast
qed

lemma StepDiffs_moves:
  "StepDiffs created help inputs rm = Some (f, rm') \<Longrightarrow> \<not> recSuppressLeave rm \<Longrightarrow>
   moves {} {} (rm\<lparr>rmRecorder := flushTick inputs (rmRecorder rm)\<rparr>) rm'"
  by (auto simp: StepDiffs_def bind_eq_Some_conv dest: StepDiffsWithBoards_moves)

end
