(* ===== verification/Sessions.thy ===== *)
theory Sessions
  imports Similar RoomInv
begin

text \<open>
  Sessions: what a host does to a manager between and during its ticks, as one step per call.
  The first part says that the recorder logs what a replay needs: applying the logged operations
  to a similar manager leaves it similar, and stepping a logged tick too, in whichever order its inputs are visited. The theorem about
  whole sessions is the one \<open>ReplaySession\<close> exists for. The second part carries the invariant
  \<open>housed\<close> of \<open>RoomInv\<close> through every session.

  Three calls of the server are not stimuli of a recording and are left out: \<open>SetFriendlyFire\<close>,
  which the header carries, and the two snapshots, which write the world fields and the dirty lists
  of an engine between ticks. The transit gates and notice tiles a host may set are not in the recording either, and
  \<open>ReplaySession\<close> has none.
\<close>

section \<open>What a host does\<close>

datatype hostCall =
    Stimulus recOp
  | SaveCall bool bool string string int
  | IdentityCall int string string
  | ColorCall int string
  | ProfileCall int string bool
  | DiscardCall int
  | TakeQuits
  | TakeEvents int
  | TakeTransits
  | TakeNotices
  | TakeNotables
  | TickCall "(int \<times> PlayerInput) list"

fun applyCall ::
  "(string \<Rightarrow> bool) \<Rightarrow> (string \<Rightarrow> string list) \<Rightarrow> hostCall \<Rightarrow> RoomManager \<Rightarrow> RoomManager option" where
  "applyCall created help (Stimulus op) rm = applyRecordedOp op rm"
| "applyCall created help (SaveCall written sidecar dir name p) rm =
     map_option snd (SaveSnapshot written sidecar dir name p rm)"
| "applyCall created help (IdentityCall p account name) rm = Some (SetPlayerIdentity p account name rm)"
| "applyCall created help (ColorCall p color) rm = Some (SetPlayerColor p color rm)"
| "applyCall created help (ProfileCall p handle has) rm = Some (SetPlayerProfileSummary p handle has rm)"
| "applyCall created help (DiscardCall p) rm = Some (DiscardPendingScore p rm)"
| "applyCall created help TakeQuits rm = Some (snd (DrainQuits rm))"
| "applyCall created help (TakeEvents p) rm = Some (snd (DrainPlayerEvents p rm))"
| "applyCall created help TakeTransits rm = Some (snd (DrainWorldTransits rm))"
| "applyCall created help TakeNotices rm = Some (snd (DrainNotices rm))"
| "applyCall created help TakeNotables rm = Some (snd (DrainNotables rm))"
| "applyCall created help (TickCall inputs) rm = map_option snd (StepDiffs created help inputs rm)"

definition hostSession ::
  "(string \<Rightarrow> bool) \<Rightarrow> (string \<Rightarrow> string list) \<Rightarrow> hostCall list \<Rightarrow> RoomManager \<Rightarrow> RoomManager option" where
  "hostSession created help calls rm = foldM (applyCall created help) calls rm"

section \<open>What is logged\<close>

text \<open>
  The calls between two ticks: what they log reproduces them on a similar manager. To log and
  to keep the invariant is to move from a manager that has the log already.
\<close>

definition replayable :: "RoomManager \<Rightarrow> RoomManager \<Rightarrow> bool" where
  "replayable rm rm1 \<longleftrightarrow>
     (\<exists>ops. moves {} {} (fold recordRM ops rm) rm1 \<and>
        (\<forall>rm'. similar rm rm' \<longrightarrow> both (Some rm1) (foldM applyRecordedOp ops rm')))"

lemma logs_recorder:
  "rmRecorder (fold recordRM ops rm) = map_option (\<lambda>r. r\<lparr>recOps := recOps r @ ops\<rparr>) (rmRecorder rm)"
proof (induction ops arbitrary: rm)
  case Nil
  show ?case by (cases "rmRecorder rm") simp_all
next
  case (Cons op ops)
  show ?case
    by (simp add: Cons.IH) (cases "rmRecorder rm"; simp add: recordRM_def recordOp_def)
qed

lemma logs_fields [simp]:
  "recSuppressLeave (fold recordRM ops rm) = recSuppressLeave rm"
  "rmFriendlyFire (fold recordRM ops rm) = rmFriendlyFire rm" "rmHighScores (fold recordRM ops rm) = rmHighScores rm"
  "housed P (fold recordRM ops rm) = housed P rm"
  by (induction ops arbitrary: rm) (simp_all add: recordRM_def)

lemma bind_foldM_nil [simp]: "m \<bind> foldM f [] = m"
  by (cases m) simp_all

lemma record_moves: "moves P Q rm rm1 \<Longrightarrow> moves P Q (recordRM op rm) (recordRM op rm1)"
  by (simp add: moves_def calm_def recordRM_def)

lemma unlogged_replayable:
  "moves {} {} rm rm1 \<Longrightarrow> (\<And>rm'. similar rm rm' \<Longrightarrow> similar rm1 rm') \<Longrightarrow> replayable rm rm1"
  unfolding replayable_def by (rule exI [of _ "[]"]) simp

lemma logged_replayable:
  "moves {} {} (recordRM op rm) rm1 \<Longrightarrow>
   (\<And>rm'. similar rm rm' \<Longrightarrow> both (Some rm1) (applyRecordedOp op rm')) \<Longrightarrow> replayable rm rm1"
  unfolding replayable_def by (rule exI [of _ "[op]"]) simp

section \<open>The calls one by one\<close>

lemma modRoomPlayer_moves:
  "(\<And>p. rpBoardID (f p) = rpBoardID p) \<Longrightarrow> moves {} {} rm (modRoomPlayer pid f rm)"
  by (rule tends_moves, rule mod_tends [OF mgr.refl])

lemma ApplyPlayerState_moves:
  assumes "ApplyPlayerState p st rm = Some (v, rm1)"
  shows "if playerAt p rm = None then rm1 = rm else moves {} {} (recordRM (RecState p (Some st)) rm) rm1"
proof (cases "playerAt p rm")
  case (Some pl)
  then obtain rm2 where w: "onRoom (rpBoardID pl) (\<lambda>e. Some (modPlayer (rpState pl) (\<lambda>_. st) e)) rm = Some rm2"
    and rm1: "rm1 = recordRM (RecState p (Some st)) rm2"
    using assms by (auto simp: ApplyPlayerState_def split: Option.bind_splits)
  have "moves {} {} rm rm2"
    by (rule ok_tends_moves [OF onRoom_tends w]) (simp_all add: mgr.refl modPlayer_def staysFit_def settings_def statsFit_def heapOk_def)
  then show ?thesis using Some rm1 by (simp add: record_moves)
qed (use assms in \<open>simp add: ApplyPlayerState_def\<close>)

lemma submitTo_moves:
  "submitTo f p rm = Some (v, rm1) \<Longrightarrow> (\<And>i e. staysFit e (f i e)) \<Longrightarrow> moves {} {} rm rm1"
  by (rule ok_tends_moves2 [OF submitTo_tends]) (auto simp: mgr.refl)

lemma submitTo_reader_moves:
  "submitTo f p (modRoomPlayer q g rm) = Some (v, rm1) \<Longrightarrow> (\<And>i e. staysFit e (f i e)) \<Longrightarrow>
   (\<And>pl. rpBoardID (g pl) = rpBoardID pl) \<Longrightarrow> moves {} {} rm rm1"
  by (rule moves_trans [OF modRoomPlayer_moves submitTo_moves])

lemma submits_moves:
  "RoomSubmitQuitReply p q rm = Some (v, rm1) \<Longrightarrow>
     if playerAt p rm = None then rm1 = rm else moves {} {} (recordRM (RecQuit p q) rm) rm1"
  "RoomSubmitDebugCommand p txt rm = Some (v, rm1) \<Longrightarrow>
     if playerAt p rm = None then rm1 = rm else moves {} {} (recordRM (RecDebug p txt) rm) rm1"
  "RoomSubmitScrollReply p i label rm = Some (v, rm1) \<Longrightarrow>
     if playerAt p rm = None then rm1 = rm else moves {} {} (recordRM (RecScroll p i label) rm) rm1"
  by (auto simp: RoomSubmitQuitReply_def RoomSubmitDebugCommand_def RoomSubmitScrollReply_def staysFit_fields
      split: if_splits intro: submitTo_moves submitTo_reader_moves)

lemma insertScore_length [simp]: "length (insertScore pos entry hs) = length hs"
proof -
  have "length (fold (\<lambda>i l. l[i := l ! (i - 1)]) is l) = length l" for "is" :: "nat list" and l :: "THighScoreEntry list"
    by (induction "is" arbitrary: l) simp_all
  then show ?thesis by (simp add: insertScore_def)
qed

lemma RecordHighScore_moves:
  "RecordHighScore p name rm = Some (v, rm1) \<Longrightarrow> rm1 = rm \<or> moves {} {} (recordRM (RecHighScore p name) rm) rm1"
  by (auto simp: RecordHighScore_def saveHighScores_def Let_def split: option.splits if_splits Option.bind_splits
      intro!: tends_moves tends_same [OF mgr.refl])

lemma SaveSnapshot_recorded:
  "SaveSnapshot written sidecar dir name p rm = Some (v, rm1) \<Longrightarrow> rm1 = rm \<or> rm1 = recordRM (RecSave p name) rm"
  by (auto simp: SaveSnapshot_def Let_def split: sum.splits option.splits if_splits Option.bind_splits)

section \<open>What is logged replays\<close>

lemma both_left: "both (Some rm1) (map_option snd m) \<longleftrightarrow> (\<exists>v rm1'. m = Some (v, rm1') \<and> similar rm1 rm1')"
  by (cases m) auto

lemma bothV_left: "bothV m n \<Longrightarrow> m = Some (v, rm1) \<Longrightarrow> both (Some rm1) (map_option snd n)"
  by (cases n) auto

lemma same_replayable: "replayable rm rm"
  by (rule unlogged_replayable) (rule moves_refl)

text \<open>An operation that is logged as itself, unless it does nothing.\<close>

lemma op_replayable:
  assumes "applyRecordedOp op rm = Some rm1" and "\<And>s. applyRecordedOp op s = map_option snd (f s)"
    and "\<And>rm'. similar rm rm' \<Longrightarrow> bothV (f rm) (f rm')"
    and "\<And>v. f rm = Some (v, rm1) \<Longrightarrow> rm1 = rm \<or> moves {} {} (recordRM op rm) rm1"
  shows "replayable rm rm1"
proof -
  obtain v where f: "f rm = Some (v, rm1)" using assms(1,2) by auto
  show ?thesis
  proof (cases "rm1 = rm")
    case False
    then have "moves {} {} (recordRM op rm) rm1" using assms(4) [OF f] by simp
    then show ?thesis
      by (rule logged_replayable) (simp add: assms(2) bothV_left [OF assms(3) f])
  qed (simp add: same_replayable)
qed

lemma LeavePlayer_logged:
  "LeavePlayer p rm = Some (v, rm1) \<Longrightarrow> \<not> recSuppressLeave rm \<Longrightarrow>
   rm1 = rm \<or> moves {} {} (recordRM (RecLeave p) rm) rm1"
  using LeavePlayer_moves [of p rm v rm1] by (cases "playerAt p rm") (auto simp: LeavePlayer_def)

lemma stimulus_replayable:
  assumes "applyRecordedOp op rm = Some rm1" and "\<not> recSuppressLeave rm"
  shows "replayable rm rm1"
proof (cases op)
  case (RecJoin p b x y)
  then show ?thesis
    by (intro op_replayable [where f = "JoinPlayerWithID p b x y", OF assms(1)])
       (auto intro: join_sim dest: JoinPlayerWithID_moves record_moves)
next
  case (RecName p name)
  then have rm1: "rm1 = SetPlayerName p name rm" using assms(1) by simp
  show ?thesis
    by (rule logged_replayable [where op = op])
       (auto simp: RecName rm1 SetPlayerName_def core_eq intro!: record_moves modRoomPlayer_moves similar_mod)
next
  case (RecState p st)
  show ?thesis
  proof (cases st)
    case None
    then show ?thesis using assms(1) RecState by (simp add: same_replayable)
  next
    case (Some state)
    with RecState show ?thesis
      by (intro op_replayable [where f = "ApplyPlayerState p state", OF assms(1)])
         (auto intro: apply_sim dest!: ApplyPlayerState_moves split: if_splits)
  qed
next
  case (RecLeave p)
  then show ?thesis
    by (intro op_replayable [where f = "LeavePlayer p", OF assms(1)])
       (auto simp: assms(2) intro: leave_sim dest: LeavePlayer_logged)
next
  case (RecScroll p i label)
  then show ?thesis
    by (intro op_replayable [where f = "RoomSubmitScrollReply p i label", OF assms(1)])
       (auto intro: submits_sim dest!: submits_moves split: if_splits)
next
  case (RecQuit p q)
  then show ?thesis
    by (intro op_replayable [where f = "RoomSubmitQuitReply p q", OF assms(1)])
       (auto intro: submits_sim dest!: submits_moves split: if_splits)
next
  case (RecDebug p t)
  then show ?thesis
    by (intro op_replayable [where f = "RoomSubmitDebugCommand p t", OF assms(1)])
       (auto intro: submits_sim dest!: submits_moves split: if_splits)
next
  case (RecHighScore p name)
  then obtain v where h: "RecordHighScore p name rm = Some (v, rm1)" using assms(1) by auto
  show ?thesis
  proof (cases "rm1 = rm")
    case False
    then show ?thesis
      using RecordHighScore_moves [OF h] record_sim [OF _ h] record_right
      by (intro logged_replayable [where op = op]) (auto simp: RecHighScore both_left)
  qed (simp add: same_replayable)
qed (use assms(1) in \<open>simp add: same_replayable\<close>)

lemma call_replayable:
  assumes "applyCall created help c rm = Some rm1" and "\<not> recSuppressLeave rm" and "\<forall>inputs. c \<noteq> TickCall inputs"
  shows "replayable rm rm1"
proof (cases c)
  case (Stimulus op)
  then show ?thesis using assms by (simp add: stimulus_replayable)
next
  case (SaveCall written sidecar dir name p)
  then obtain v where v: "SaveSnapshot written sidecar dir name p rm = Some (v, rm1)" using assms(1) by auto
  from SaveSnapshot_recorded [OF this] show ?thesis
  proof
    assume "rm1 = recordRM (RecSave p name) rm"
    then show ?thesis by (intro logged_replayable [where op = "RecSave p name"]) (auto simp: moves_refl)
  qed (simp add: same_replayable)
next
  case (IdentityCall p account name)
  then have rm1: "rm1 = SetPlayerIdentity p account name rm" using assms(1) by simp
  show ?thesis
    by (rule logged_replayable [where op = "RecName p name"])
       (auto simp: rm1 SetPlayerIdentity_def SetPlayerName_def core_eq
          intro!: record_moves modRoomPlayer_moves similar_mod)
next
  case (ColorCall p color)
  then have rm1: "rm1 = SetPlayerColor p color rm" using assms(1) by simp
  show ?thesis
    by (rule unlogged_replayable)
       (auto simp: rm1 SetPlayerColor_def core_eq intro!: modRoomPlayer_moves similar_left_mod)
next
  case (ProfileCall p handle has)
  then have rm1: "rm1 = SetPlayerProfileSummary p handle has rm" using assms(1) by simp
  show ?thesis
    by (rule unlogged_replayable)
       (auto simp: rm1 SetPlayerProfileSummary_def core_eq intro!: modRoomPlayer_moves similar_left_mod)
qed (use assms(1,3) in \<open>auto simp: DiscardPendingScore_def DrainQuits_def DrainPlayerEvents_def
      DrainWorldTransits_def DrainNotices_def DrainNotables_def
      intro!: unlogged_replayable tends_moves tends_update mgr.refl\<close>)

section \<open>The order of the inputs\<close>

text \<open>The player whose input a stat is driven by: there, and not reading.\<close>

definition drives :: "RoomManager \<Rightarrow> int \<Rightarrow> int \<Rightarrow> int \<Rightarrow> bool" where
  "drives rm p b i \<longleftrightarrow>
     (\<exists>pl. playerAt p rm = Some pl \<and> \<not> rpScrollOpen pl \<and> rpBoardID pl = b \<and> rpStatID pl = i)"

lemma engineInputs_snoc:
  "engineInputs (xs @ [(p, inp)]) rm b i = (if drives rm p b i then Some inp else engineInputs xs rm b i)"
  by (auto simp: engineInputs_def drives_def split: option.splits)

lemma engineInputs_Nil: "engineInputs [] rm b i = None"
  by (simp add: engineInputs_def)

lemma engineInputs_set:
  assumes "distinct (map fst inputs)"
    and "\<And>p q. p \<in> fst ` set inputs \<Longrightarrow> q \<in> fst ` set inputs \<Longrightarrow> drives rm p b i \<Longrightarrow> drives rm q b i \<Longrightarrow> p = q"
  shows "engineInputs inputs rm b i = Some inp \<longleftrightarrow> (\<exists>p. (p, inp) \<in> set inputs \<and> drives rm p b i)"
  using assms
proof (induction inputs arbitrary: inp rule: rev_induct)
  case (snoc x xs)
  obtain p v where x: "x = (p, v)" by force
  have IH: "engineInputs xs rm b i = Some inp \<longleftrightarrow> (\<exists>p. (p, inp) \<in> set xs \<and> drives rm p b i)" for inp
  proof (rule snoc.IH)
    show "distinct (map fst xs)" using snoc.prems(1) by simp
    show "p = q" if "p \<in> fst ` set xs" "q \<in> fst ` set xs" "drives rm p b i" "drives rm q b i" for p q
      by (rule snoc.prems(2) [OF _ _ that(3,4)]) (use that(1,2) in simp_all)
  qed
  show ?case
  proof (cases "drives rm p b i")
    case True
    have "q = p" if "(q, w) \<in> set xs" "drives rm q b i" for q w
      by (rule snoc.prems(2) [OF _ _ that(2) True]) (use that(1) x in force)+
    moreover have "(p, w) \<notin> set xs" for w
      using snoc.prems(1) x by (force simp: image_iff)
    ultimately show ?thesis using True by (auto simp: x engineInputs_snoc)
  next
    case False
    then show ?thesis by (auto simp: x engineInputs_snoc IH)
  qed
qed (simp add: engineInputs_Nil)

lemma engineInputs_order:
  assumes "distinct (map fst inputs)" and "distinct (map fst inputs')" and "set inputs' = set inputs"
    and "\<And>p q b i. p \<in> fst ` set inputs \<Longrightarrow> q \<in> fst ` set inputs \<Longrightarrow> drives rm p b i \<Longrightarrow> drives rm q b i \<Longrightarrow> p = q"
  shows "engineInputs inputs' rm = engineInputs inputs rm"
proof (intro ext)
  fix b i
  have "engineInputs inputs' rm b i = Some inp \<longleftrightarrow> engineInputs inputs rm b i = Some inp" for inp
  proof -
    have "engineInputs inputs' rm b i = Some inp \<longleftrightarrow> (\<exists>p. (p, inp) \<in> set inputs' \<and> drives rm p b i)"
      by (rule engineInputs_set [OF assms(2)]) (rule assms(4); simp only: assms(3))
    moreover have "engineInputs inputs rm b i = Some inp \<longleftrightarrow> (\<exists>p. (p, inp) \<in> set inputs \<and> drives rm p b i)"
      by (rule engineInputs_set [OF assms(1)]) (rule assms(4))
    ultimately show ?thesis by (simp only: assms(3))
  qed
  then show "engineInputs inputs' rm b i = engineInputs inputs rm b i"
    by (cases "engineInputs inputs rm b i"; cases "engineInputs inputs' rm b i") auto
qed

text \<open>
  The seats that the inputs of a tick drive. Two players of a board that was full when the second one joined share a
  seat; then the order of the visit decides.
\<close>

definition seatsDriven :: "(int \<times> PlayerInput) list \<Rightarrow> RoomManager \<Rightarrow> (int \<times> int) list" where
  "seatsDriven inputs rm =
     concat (map (\<lambda>(p, inp). case playerAt p rm of
         Some pl \<Rightarrow> if rpScrollOpen pl then [] else [(rpBoardID pl, rpStatID pl)]
       | None \<Rightarrow> []) inputs)"

definition apartTick :: "(int \<times> PlayerInput) list \<Rightarrow> RoomManager \<Rightarrow> bool" where
  "apartTick inputs rm \<longleftrightarrow> distinct (map fst inputs) \<and> distinct (seatsDriven inputs rm)"

lemma drives_seat: "(p, v) \<in> set inputs \<Longrightarrow> drives rm p b i \<Longrightarrow> (b, i) \<in> set (seatsDriven inputs rm)"
  by (force simp: drives_def seatsDriven_def)

lemma apart_drives:
  "apartTick inputs rm \<Longrightarrow> p \<in> fst ` set inputs \<Longrightarrow> q \<in> fst ` set inputs \<Longrightarrow> drives rm p b i \<Longrightarrow> drives rm q b i \<Longrightarrow> p = q"
proof (induction inputs)
  case (Cons x xs)
  obtain r v where x: "x = (r, v)" by force
  have rest: "apartTick xs rm" using Cons.prems(1) by (simp add: apartTick_def seatsDriven_def)
  have clash: False if r: "drives rm r b i" and s: "s \<in> fst ` set xs" "drives rm s b i" for s
  proof -
    obtain w where "(s, w) \<in> set xs" using s(1) by force
    then have "(b, i) \<in> set (seatsDriven xs rm)" using s(2) by (rule drives_seat)
    then show False using Cons.prems(1) r by (auto simp: x apartTick_def seatsDriven_def drives_def)
  qed
  have "p = r \<or> p \<in> fst ` set xs" "q = r \<or> q \<in> fst ` set xs" using Cons.prems(2,3) by (auto simp: x)
  then show ?case using clash [of p] clash [of q] Cons.IH [OF rest] Cons.prems(4,5) by metis
qed simp

text \<open>Two orders of one map: the recorder keeps the same, and the tick is the same.\<close>

lemma same_tick:
  assumes "apartTick inputs rm" and "distinct (map fst inputs')" and "map_of inputs' = map_of inputs"
  shows "StepDiffs created help inputs' rm = StepDiffs created help inputs rm"
proof -
  have dist: "distinct (map fst inputs)" using assms(1) by (simp add: apartTick_def)
  have same: "set inputs' = set inputs"
  proof -
    have "x \<in> set inputs' \<longleftrightarrow> x \<in> set inputs" for x
      using map_of_eq_Some_iff [OF dist, of "fst x" "snd x"] map_of_eq_Some_iff [OF assms(2), of "fst x" "snd x"] assms(3) by simp
    then show ?thesis by blast
  qed
  have "Mapping.of_alist inputs' = Mapping.of_alist inputs"
    by (rule mapping_eqI) (simp add: lookup_of_alist assms(3))
  then have flush: "flushTick inputs' = flushTick inputs" by (simp add: flushTick_def fun_eq_iff)
  have "engineInputs inputs' (rm\<lparr>rmRecorder := r\<rparr>) = engineInputs inputs (rm\<lparr>rmRecorder := r\<rparr>)" for r
  proof (rule engineInputs_order [OF dist assms(2) same])
    show "p = q" if "p \<in> fst ` set inputs" "q \<in> fst ` set inputs" "drives (rm\<lparr>rmRecorder := r\<rparr>) p b i"
      "drives (rm\<lparr>rmRecorder := r\<rparr>) q b i" for p q b i
      by (rule apart_drives [OF assms(1) that(1,2)]) (use that(3,4) in \<open>simp_all add: drives_def playerAt_def\<close>)
  qed
  then show ?thesis by (simp add: StepDiffs_def StepDiffsWithBoards_def flush)
qed

text \<open>A session in which no two players ever send an input for the same seat in one tick.\<close>

fun apart :: "(string \<Rightarrow> bool) \<Rightarrow> (string \<Rightarrow> string list) \<Rightarrow> hostCall list \<Rightarrow> RoomManager \<Rightarrow> bool" where
  "apart created help [] rm \<longleftrightarrow> True"
| "apart created help (c # calls) rm \<longleftrightarrow>
     (case c of TickCall inputs \<Rightarrow> apartTick inputs rm | _ \<Rightarrow> True) \<and>
     (case applyCall created help c rm of None \<Rightarrow> True | Some rm \<Rightarrow> apart created help calls rm)"

lemma apart_append:
  "apart created help (calls @ calls') rm \<longleftrightarrow>
     apart created help calls rm \<and>
     (case hostSession created help calls rm of None \<Rightarrow> True | Some rm \<Rightarrow> apart created help calls' rm)"
  by (induction calls arbitrary: rm) (auto simp: hostSession_def split: option.split)

section \<open>Whole sessions\<close>

text \<open>A manager of which the recorder has kept everything: replaying it and then what is pending.\<close>

definition replayed ::
  "visitOrder \<Rightarrow> (string \<Rightarrow> bool) \<Rightarrow> (string \<Rightarrow> string list) \<Rightarrow> RoomManager \<Rightarrow> RoomManager \<Rightarrow> bool" where
  "replayed visit created help start rm \<longleftrightarrow>
     \<not> recSuppressLeave rm \<and>
     (\<exists>r rm1. rmRecorder rm = Some r \<and> recFull r = (\<lambda>_. False) \<and>
        replayTicks visit created help (recSent r) start = Some rm1 \<and>
        both (Some rm) (foldM applyRecordedOp (recOps r) rm1))"

lemma replayed_call:
  assumes "replayed visit created help start rm" and "replayable rm rm1"
  shows "replayed visit created help start rm1"
proof -
  obtain r rm2 rm' where r: "rmRecorder rm = Some r" "recFull r = (\<lambda>_. False)"
      "replayTicks visit created help (recSent r) start = Some rm2"
    and rm': "foldM applyRecordedOp (recOps r) rm2 = Some rm'" "similar rm rm'"
    using assms(1) by (auto simp: replayed_def option_rel_Some1)
  obtain ops where m: "moves {} {} (fold recordRM ops rm) rm1" and ops: "both (Some rm1) (foldM applyRecordedOp ops rm')"
    using assms(2) rm'(2) by (auto simp: replayable_def)
  have "rmRecorder rm1 = Some (r\<lparr>recOps := recOps r @ ops\<rparr>)"
    using moves_recorder [OF m] by (simp add: logs_recorder r(1))
  moreover have "\<not> recSuppressLeave rm1"
    using moves_suppress [OF m] assms(1) by (simp add: replayed_def)
  ultimately show ?thesis using r(2,3) rm'(1) ops by (simp add: replayed_def foldM_append)
qed

lemma replayed_tick:
  assumes "replayed visit created help start rm" and "StepDiffs created help inputs rm = Some (f, rm1)"
    and "apartTick inputs rm" and "rangeOrder visit"
  shows "replayed visit created help start rm1 \<and> map_option recOps (rmRecorder rm1) = Some []"
proof -
  obtain r rm2 rm' where r: "rmRecorder rm = Some r" "recFull r = (\<lambda>_. False)"
      "replayTicks visit created help (recSent r) start = Some rm2"
    and rm': "foldM applyRecordedOp (recOps r) rm2 = Some rm'" "similar rm rm'"
    and quiet: "\<not> recSuppressLeave rm"
    using assms(1) by (auto simp: replayed_def option_rel_Some1)
  have m: "moves {} {} (rm\<lparr>rmRecorder := flushTick inputs (rmRecorder rm)\<rparr>) rm1"
    by (rule StepDiffs_moves [OF assms(2) quiet])
  let ?m = "Mapping.of_alist inputs"
  let ?v = "visit (recTicks r) ?m"
  have "finite (Mapping.keys ?m)" by simp
  then have v: "distinct (map fst ?v)" "map_of ?v = map_of inputs"
    using assms(4) by (auto simp: rangeOrder_def lookup_of_alist)
  obtain f' rm1' where step: "StepDiffs created help ?v rm' = Some (f', rm1')" "similar rm1 rm1'"
    using stepDiffs_sim [OF rm'(2), of created "help" ?v] assms(2) same_tick [OF assms(3) v]
    by (auto simp: option_rel_Some1)
  let ?t = "\<lparr>rtTick = recTicks r, rtOps = recOps r, rtInputs = ?m\<rparr>"
  let ?r = "r\<lparr>recOps := [], recTicks := recTicks r + 1, recSent := recSent r @ [?t]\<rparr>"
  have rec: "rmRecorder rm1 = Some ?r"
    using moves_recorder [OF m] by (simp add: r(1,2) flushTick_def Let_def)
  have "replayTick visit created help ?t rm2 = Some rm1'"
    by (simp add: replayTick_def rm'(1) step(1))
  then have "replayTicks visit created help (recSent r @ [?t]) start = Some rm1'"
    using r(3) by (simp add: replayTicks_def foldM_append)
  moreover have "\<not> recSuppressLeave rm1" using moves_suppress [OF m] quiet by simp
  ultimately show ?thesis using rec r(2) step(2) by (simp add: replayed_def)
qed

lemma replayed_session:
  "hostSession created help calls rm = Some rm1 \<Longrightarrow> replayed visit created help start rm \<Longrightarrow>
   apart created help calls rm \<Longrightarrow> rangeOrder visit \<Longrightarrow> replayed visit created help start rm1"
proof (induction calls arbitrary: rm)
  case Nil
  then show ?case by (simp add: hostSession_def)
next
  case (Cons c calls)
  then obtain rm2 where c: "applyCall created help c rm = Some rm2"
    and rest: "hostSession created help calls rm2 = Some rm1"
    by (auto simp: hostSession_def bind_eq_Some_conv)
  have "replayed visit created help start rm2"
  proof (cases "\<exists>inputs. c = TickCall inputs")
    case True
    then obtain inputs where "c = TickCall inputs" by blast
    then show ?thesis using c replayed_tick [OF Cons.prems(2) _ _ Cons.prems(4)] Cons.prems(3) by auto
  next
    case False
    moreover have "\<not> recSuppressLeave rm" using Cons.prems(2) by (simp add: replayed_def)
    ultimately show ?thesis
      by (intro replayed_call [OF Cons.prems(2)] call_replayable [OF c]) simp_all
  qed
  then show ?case by (rule Cons.IH [OF rest]) (use Cons.prems(3,4) c in simp_all)
qed

lemma hashes_sim: "similar rm rm' \<Longrightarrow> bothV (RoomStateHashes rm) (RoomStateHashes rm')"
  unfolding RoomStateHashes_def
  by (auto simp: similar_reads(3) intro!: rel_foldM [where R = "rel_prod (=) similar"] then_inRoom)

lemma similar_hashes:
  assumes "similar rm rm'"
  shows "map_option fst (RoomStateHashes rm') = map_option fst (RoomStateHashes rm)"
  using hashes_sim [OF assms] by (auto simp: rel_option_iff split: option.splits)

text \<open>The manager of a hosted world when its recorder is attached, and the one a replay starts from.\<close>

definition recordedManager :: "TWorld \<Rightarrow> string \<Rightarrow> bool \<Rightarrow> string \<Rightarrow> THighScoreEntry list \<Rightarrow> RoomManager" where
  "recordedManager world name ff path scores =
     SetRecorder (Some (NewSessionRecorder (\<lambda>_. False)))
       ((NewRoomManagerForWorld world name)\<lparr>rmFriendlyFire := ff, HighScorePath := path, rmHighScores := scores\<rparr>)"

lemma replay_starts:
  "replayed visit created help ((NewRoomManagerForWorld world name')\<lparr>rmFriendlyFire := ff\<rparr>)
     (recordedManager world name ff path scores)"
  by (simp add: replayed_def recordedManager_def SetRecorder_def NewSessionRecorder_def
      replayTicks_def NewRoomManagerForWorld_def similar_def playerAt_def)

lemma quiet_tick:
  assumes "rmRooms rm = Mapping.empty" and "rmPlayers rm = Mapping.empty"
  shows "StepDiffs created help inputs rm =
    Some (Mapping.empty, rm\<lparr>rmRecorder := flushTick inputs (rmRecorder rm)\<rparr>)"
  using assms
  by (simp add: StepDiffs_def StepDiffsWithBoards_def roomIDs_def playerIDs_def syncPlayerStatIDs_def
      Mapping.ordered_keys_def)

text \<open>
  C1. A replay reproduces the session, although the order in which Go visits the input map of a tick is open and need
  not be the same again. Take a session of a hosted world without transit gates and notice tiles, whose recorder never
  overflowed and between whose ticks no snapshots were taken: joins, leaves, names, restored inventories, replies, debug
  commands, saves, high scores, presentation calls and ticks, in any order, up to the end of a tick. Let no two players
  send an input for the same seat in one tick, as two who share a stat of a full board can. Playing back what was recorded
  from a fresh manager of the same world and policy, whatever order the maps are visited in, succeeds, and ends in the same
  rooms with the same engines, the same world and the same state hashes; so does \<open>ReplaySession\<close> on a file whose
  header decodes to that world.
\<close>

theorem replay_reproduces:
  assumes "hostSession created help (calls @ [TickCall inputs]) (recordedManager world name ff path scores) = Some rm"
    and "apart created help (calls @ [TickCall inputs]) (recordedManager world name ff path scores)" and "rangeOrder visit"
  shows "\<exists>r rm'. rmRecorder rm = Some r \<and>
     replayTicks visit created help (recSent r) ((NewRoomManagerForWorld world name')\<lparr>rmFriendlyFire := ff\<rparr>) = Some rm' \<and>
     rmRooms rm' = rmRooms rm \<and> rmWorld rm' = rmWorld rm \<and>
     map_option fst (RoomStateHashes rm') = map_option fst (RoomStateHashes rm) \<and>
     (\<forall>h. readRecordingStart h = Some (Inr world) \<longrightarrow> rhFriendlyFire h = ff \<longrightarrow> rhWorld h = name' \<longrightarrow>
        ReplaySession visit created help h (recSent r) = Some (Inr rm'))"
proof -
  let ?start = "(NewRoomManagerForWorld world name')\<lparr>rmFriendlyFire := ff\<rparr>"
  obtain rm1 where before: "hostSession created help calls (recordedManager world name ff path scores) = Some rm1"
    and tick: "map_option snd (StepDiffs created help inputs rm1) = Some rm"
    using assms(1) by (auto simp: hostSession_def foldM_append bind_eq_Some_conv)
  have apart: "apart created help calls (recordedManager world name ff path scores)" "apartTick inputs rm1"
    using assms(2) before by (simp_all add: apart_append)
  obtain f where f: "StepDiffs created help inputs rm1 = Some (f, rm)" using tick by auto
  have end_state: "replayed visit created help ?start rm \<and> map_option recOps (rmRecorder rm) = Some []"
    by (rule replayed_tick [OF replayed_session [OF before replay_starts apart(1) assms(3)] f apart(2) assms(3)])
  then obtain r rm' where r: "rmRecorder rm = Some r" and play: "replayTicks visit created help (recSent r) ?start = Some rm'"
    and sim: "similar rm rm'"
    by (auto simp: replayed_def)
  then show ?thesis
    using similar_hashes [OF sim] similar_reads(2,10) [OF sim] by (auto simp: ReplaySession_def)
qed

text \<open>The order of the ids, highest first, is one that \<open>range\<close> may take.\<close>

definition downwards :: visitOrder where
  "downwards n m = rev (map (\<lambda>p. (p, the (Mapping.lookup m p))) (Mapping.ordered_keys m))"

lemma downwards_range: "rangeOrder downwards"
  unfolding rangeOrder_def
proof (intro allI impI conjI)
  fix n :: int and m :: "(int, PlayerInput) mapping" and p :: int
  assume "finite (Mapping.keys m)"
  then have k: "distinct (Mapping.ordered_keys m)" "set (Mapping.ordered_keys m) = dom (Mapping.lookup m)"
    by (simp_all add: Mapping.ordered_keys_def keys_dom_lookup)
  have one: "map fst (downwards n m) = rev (Mapping.ordered_keys m)" by (simp add: downwards_def rev_map comp_def)
  then show d: "distinct (map fst (downwards n m))" using k by simp
  show "map_of (downwards n m) p = Mapping.lookup m p"
  proof (cases "Mapping.lookup m p")
    case None
    then have "p \<notin> fst ` set (downwards n m)" using k(2) arg_cong [OF one, of set] by auto
    then show ?thesis using None by (simp add: map_of_eq_None_iff)
  next
    case (Some v)
    then have "(p, v) \<in> set (downwards n m)" using k(2) by (force simp: downwards_def)
    then show ?thesis using Some map_of_eq_Some_iff [OF d, of p v] by simp
  qed
qed

theorem replay_reproduces_witness:
  "\<exists>rm r rm'. hostSession (\<lambda>_. True) (\<lambda>_. []) ([IdentityCall 7 ''acc'' ''Ann'', Stimulus (RecLeave 3)] @
        [TickCall [(7, idleInput), (8, idleInput)]]) (recordedManager (World NewEngine) ''TOWN'' True [] emptyScores) = Some rm \<and>
     rmRecorder rm = Some r \<and> recTicks r = 1 \<and>
     replayTicks downwards (\<lambda>_. True) (\<lambda>_. []) (recSent r)
       ((NewRoomManagerForWorld (World NewEngine) ''X'')\<lparr>rmFriendlyFire := True\<rparr>) = Some rm' \<and>
     rmWorld rm' = rmWorld rm"
proof -
  let ?calls = "[IdentityCall 7 ''acc'' ''Ann'', Stimulus (RecLeave 3)] @ [TickCall [(7, idleInput), (8, idleInput)]]"
  let ?rm0 = "recordedManager (World NewEngine) ''TOWN'' True [] emptyScores"
  note simps = hostSession_def recordedManager_def SetRecorder_def NewRoomManagerForWorld_def
        SetPlayerIdentity_def recordRM_def recordOp_def modRoomPlayer_def map_entry_code LeavePlayer_def playerAt_def
        quiet_tick NewSessionRecorder_def flushTick_def Let_def
  obtain rm where rm: "hostSession (\<lambda>_. True) (\<lambda>_. []) ?calls ?rm0 = Some rm"
    and one: "map_option recTicks (rmRecorder rm) = Some 1"
    by (simp add: simps)
  have "apart (\<lambda>_. True) (\<lambda>_. []) ?calls ?rm0"
    by (simp add: simps apartTick_def seatsDriven_def)
  then show ?thesis using rm one replay_reproduces [OF rm _ downwards_range, of "''X''"] by auto
qed

section \<open>Everybody is housed\<close>

text \<open>What every call of a session keeps.\<close>

definition keepsHouse :: "RoomManager \<Rightarrow> RoomManager \<Rightarrow> bool" where
  "keepsHouse rm rm1 \<longleftrightarrow>
     recSuppressLeave rm1 = recSuppressLeave rm \<and> rmFriendlyFire rm1 = rmFriendlyFire rm \<and>
     length (rmHighScores rm1) = length (rmHighScores rm) \<and> (housed {} rm \<longrightarrow> housed {} rm1)"

lemma moves_keepsHouse: "moves {} {} rm rm1 \<Longrightarrow> keepsHouse rm rm1"
  by (simp add: moves_def calm_def keepsHouse_def)

lemma replayable_keepsHouse: "replayable rm rm1 \<Longrightarrow> keepsHouse rm rm1"
  by (auto simp: replayable_def keepsHouse_def dest!: moves_keepsHouse)

lemma tick_keepsHouse:
  "StepDiffs created help inputs rm = Some (f, rm1) \<Longrightarrow> \<not> recSuppressLeave rm \<Longrightarrow> keepsHouse rm rm1"
  by (drule (1) StepDiffs_moves, drule moves_keepsHouse) (simp add: keepsHouse_def)

lemma call_keepsHouse:
  assumes "applyCall created help c rm = Some rm1" and "\<not> recSuppressLeave rm"
  shows "keepsHouse rm rm1"
proof (cases "\<exists>inputs. c = TickCall inputs")
  case True
  then show ?thesis using assms tick_keepsHouse by fastforce
next
  case False
  then show ?thesis by (intro replayable_keepsHouse call_replayable [OF assms]) simp
qed

lemma session_keepsHouse:
  "hostSession created help calls rm = Some rm1 \<Longrightarrow> \<not> recSuppressLeave rm \<Longrightarrow> keepsHouse rm rm1"
proof (induction calls arbitrary: rm)
  case Nil
  then show ?case by (simp add: hostSession_def keepsHouse_def)
next
  case (Cons c calls)
  then obtain rm2 where c: "applyCall created help c rm = Some rm2"
    and rest: "hostSession created help calls rm2 = Some rm1"
    by (auto simp: hostSession_def bind_eq_Some_conv)
  have k: "keepsHouse rm rm2" by (rule call_keepsHouse [OF c Cons.prems(2)])
  then have "keepsHouse rm2 rm1" using Cons.IH [OF rest] Cons.prems(2) by (simp add: keepsHouse_def)
  then show ?case using k by (simp add: keepsHouse_def)
qed

lemma fresh_housed: "housed P (NewRoomManagerForWorld world name)"
  by (simp add: housed_def NewRoomManagerForWorld_def enginesFit_def boardOf_def playerAt_def roomAt_def)

text \<open>
  C2. In every session of a hosted world, between any two calls, every player is listed by the room
  of the board they are on; the engine of every room is that board's, plays under the
  manager's friendly-fire policy, without a terminal, with its stats within their array and a
  state for every player it knows; and the high-score list has its 30 entries.
\<close>

theorem manager_housed:
  assumes "hostSession created help calls (NewRoomManagerForWorld world name) = Some rm"
  shows "(\<forall>p b i. PlayerLocation p rm = Some (b, i) \<longrightarrow>
            (\<exists>room. roomAt b rm = Some room \<and> p \<in> rPlayers room)) \<and>
     (\<forall>b room. roomAt b rm = Some room \<longrightarrow>
        rBoardID room = b \<and> FriendlyFire (rEngine room) = rmFriendlyFire rm \<and> MultiRoom (rEngine room) \<and>
        Headless (rEngine room) \<and> statsFit (rEngine room) \<and> heapOk (rEngine room)) \<and>
     length (rmHighScores rm) = 30"
proof -
  let ?rm0 = "NewRoomManagerForWorld world name"
  have "keepsHouse ?rm0 rm"
    by (rule session_keepsHouse [OF assms]) (simp add: NewRoomManagerForWorld_def)
  then have h: "housed {} rm" and scores: "length (rmHighScores rm) = 30"
    by (simp_all add: keepsHouse_def fresh_housed) (simp add: NewRoomManagerForWorld_def emptyScores_def)
  have "\<exists>room. roomAt b rm = Some room \<and> p \<in> rPlayers room" if "PlayerLocation p rm = Some (b, i)" for p b i
  proof -
    have "boardOf p rm = Some b" using that by (auto simp: PlayerLocation_def boardOf_def)
    then show ?thesis using h by (fastforce simp: housed_def occupants_def)
  qed
  then show ?thesis using h scores by (auto simp: housed_def enginesFit_def fit_def)
qed

theorem manager_housed_witness:
  "\<exists>rm. hostSession (\<lambda>_. True) (\<lambda>_. []) [Stimulus (RecName 7 ''Ann''), TickCall []]
      (NewRoomManagerForWorld (World NewEngine) ''TOWN'') = Some rm \<and> length (rmHighScores rm) = 30"
proof -
  obtain rm where rm: "hostSession (\<lambda>_. True) (\<lambda>_. []) [Stimulus (RecName 7 ''Ann''), TickCall []]
      (NewRoomManagerForWorld (World NewEngine) ''TOWN'') = Some rm"
    by (simp add: hostSession_def NewRoomManagerForWorld_def SetPlayerName_def recordRM_def recordOp_def
        modRoomPlayer_def map_entry_code quiet_tick flushTick_def)
  then show ?thesis using manager_housed [OF rm] by simp
qed

end
