(* ===== verification/Scores.thy ===== *)
theory Scores
  imports Sessions
begin

text \<open>
  The high-score list of a world. Opening a slot is a list insertion; inserting at the rank a
  score has keeps the list in order; and two players who quit before either gives a name can
  break that order, since the rank is the one of the moment they quit.
\<close>

section \<open>Opening a slot\<close>

lemma shift_nth:
  assumes "1 \<le> p" and "k \<le> length hs" and "i < length hs"
  shows "length (fold (\<lambda>i l. l[i := l ! (i - 1)]) (rev [p..<k]) hs) = length hs"
    "fold (\<lambda>i l. l[i := l ! (i - 1)]) (rev [p..<k]) hs ! i = (if p \<le> i \<and> i < k then hs ! (i - 1) else hs ! i)"
  using assms
proof (induction k arbitrary: hs)
  case (Suc k)
  {
    case 1
    then show ?case using Suc.IH(1) [of "hs[k := hs ! (k - 1)]"] by simp
  next
    case 2
    show ?case
    proof (cases "p \<le> k")
      case True
      with 2 show ?thesis using Suc.IH(2) [of "hs[k := hs ! (k - 1)]"]
        by (auto simp: nth_list_update less_Suc_eq)
    qed (use 2 in auto)
  }
qed simp_all

lemma insertScore_list:
  assumes "q < length hs" and "pos = int q + 1"
  shows "insertScore pos entry hs = take (length hs) (take q hs @ entry # drop q hs)"
proof (rule nth_equalityI)
  let ?l = "fold (\<lambda>i l. l[i := l ! (i - 1)]) (rev [Suc q..<length hs]) hs"
  fix i assume "i < length (insertScore pos entry hs)"
  then have i: "i < length hs" by simp
  have l: "length ?l = length hs" "?l ! i = (if q < i then hs ! (i - 1) else hs ! i)"
    using shift_nth [of "Suc q" "length hs" hs i] i by (simp_all add: Suc_le_eq)
  have "nat pos = Suc q" using assms(2) by simp
  then have "insertScore pos entry hs ! i = (if i = q then entry else ?l ! i)"
    using i l(1) by (simp add: insertScore_def)
  also have "\<dots> = (take q hs @ entry # drop q hs) ! i"
  proof (cases i q rule: linorder_cases)
    case greater
    then obtain k where "i = Suc (q + k)" using less_imp_Suc_add by blast
    then show ?thesis using i l(2) assms(1) by (simp add: nth_append)
  qed (use l(2) assms(1) in \<open>simp_all add: nth_append\<close>)
  also have "\<dots> = take (length hs) (take q hs @ entry # drop q hs) ! i"
    by (rule nth_take [symmetric, OF i])
  finally show "insertScore pos entry hs ! i = take (length hs) (take q hs @ entry # drop q hs) ! i" .
qed (use assms in simp)

section \<open>Ranks\<close>

definition descending :: "THighScoreEntry list \<Rightarrow> bool" where
  "descending hs \<longleftrightarrow> sorted_wrt (\<lambda>a b. hScore b \<le> hScore a) hs"

lemma descending_take: "descending hs \<Longrightarrow> descending (take n hs)"
  by (simp add: descending_def sorted_wrt_take)

lemma rank_insert_descending:
  assumes "descending hs"
  shows "descending (takeWhile (\<lambda>h. s < hScore h) hs @ \<lparr>hName = name, hScore = s\<rparr> #
    dropWhile (\<lambda>h. s < hScore h) hs)"
proof -
  let ?P = "\<lambda>h. s < hScore h"
  have all: "descending (takeWhile ?P hs @ dropWhile ?P hs)" using assms by simp
  have low: "hScore k \<le> s" if "k \<in> set (dropWhile ?P hs)" for k
  proof (cases "dropWhile ?P hs")
    case (Cons h t)
    then have "hScore h \<le> s" by (simp add: dropWhile_eq_Cons_conv not_less)
    moreover have "k = h \<or> hScore k \<le> hScore h"
      using all that unfolding Cons by (auto simp: descending_def sorted_wrt_append)
    ultimately show ?thesis by auto
  next
    case Nil
    then show ?thesis using that by (simp only:) simp
  qed
  have high: "s < hScore k" if "k \<in> set (takeWhile ?P hs)" for k using that by (rule set_takeWhileD [THEN conjunct2])
  have "hScore y \<le> hScore x" if "x \<in> set (takeWhile ?P hs)" "y \<in> set (dropWhile ?P hs)" for x y
    using high [OF that(1)] low [OF that(2)] by simp
  then show ?thesis
    using all by (auto simp: descending_def sorted_wrt_append low dest: high)
qed

lemma rankScore_index:
  assumes "rankScore s rm > 0"
  shows "rankScore s rm = int (length (takeWhile (\<lambda>h. s < hScore h) (rmHighScores rm))) + 1"
    "length (takeWhile (\<lambda>h. s < hScore h) (rmHighScores rm)) < 30" "s > 0"
  using assms by (simp_all add: rankScore_def Let_def split: if_splits)

text \<open>What a successful record does to the list.\<close>

lemma RecordHighScore_list:
  assumes "RecordHighScore p name rm = Some (v, rm1)" and "Mapping.lookup (pendingScores rm) p = Some q"
    and "1 \<le> qrListPos q" and "qrListPos q \<le> 30"
  shows "v" "rmHighScores rm1 = insertScore (qrListPos q) \<lparr>hName = name, hScore = qrScore q\<rparr> (rmHighScores rm)"
    "pendingScores rm1 = Mapping.delete p (pendingScores rm)"
  using assms
  by (auto simp: RecordHighScore_def saveHighScores_def Let_def recordRM_def
      split: if_splits Option.bind_splits)

text \<open>
  C24. A player who quits with a score that ranks, and then names it while nobody else has changed the
  list, is put in the slot of their rank: behind every better score, before every other one, which
  move down a place while the last one falls out. The list stays in order and keeps its length,
  and the offer is used up.
\<close>

theorem RecordHighScore_ranks:
  assumes "RecordHighScore p name rm = Some (v, rm1)"
    and "Mapping.lookup (pendingScores rm) p = Some q" and "qrListPos q = rankScore (qrScore q) rm"
    and "qrListPos q > 0" and "descending (rmHighScores rm)" and "length (rmHighScores rm) = 30"
  shows "v \<and> descending (rmHighScores rm1) \<and> length (rmHighScores rm1) = 30 \<and>
     rmHighScores rm1 = take 30 (takeWhile (\<lambda>h. qrScore q < hScore h) (rmHighScores rm) @
       \<lparr>hName = name, hScore = qrScore q\<rparr> # dropWhile (\<lambda>h. qrScore q < hScore h) (rmHighScores rm)) \<and>
     Mapping.lookup (pendingScores rm1) p = None"
proof -
  let ?P = "\<lambda>h. qrScore q < hScore h"
  have pos: "qrListPos q = int (length (takeWhile ?P (rmHighScores rm))) + 1"
    "length (takeWhile ?P (rmHighScores rm)) < 30"
    using rankScore_index assms(3,4) by simp_all
  have "1 \<le> qrListPos q" "qrListPos q \<le> 30" using pos by simp_all
  note list = RecordHighScore_list [OF assms(1,2) this]
  have "rmHighScores rm1 = take 30 (takeWhile ?P (rmHighScores rm) @
      \<lparr>hName = name, hScore = qrScore q\<rparr> # dropWhile ?P (rmHighScores rm))"
    using list(2) insertScore_list [OF _ pos(1)] pos(2) assms(6)
    by (simp add: takeWhile_eq_take [symmetric] dropWhile_eq_drop [symmetric])
  moreover have "length (rmHighScores rm1) = 30" using list(2) assms(6) by simp
  ultimately show ?thesis
    using list(1,3) descending_take [OF rank_insert_descending [OF assms(5)]] by simp
qed

text \<open>A manager in which player \<open>p\<close> has quit with score \<open>s\<close> and been offered the slot of its rank.\<close>

definition offered :: "int \<Rightarrow> int \<Rightarrow> RoomManager \<Rightarrow> RoomManager" where
  "offered p s rm = rm\<lparr>pendingScores := Mapping.update p
     \<lparr>qrPlayerID = p, qrScore = s, qrListPos = rankScore s rm\<rparr> (pendingScores rm)\<rparr>"

lemma offered_simps [simp]:
  "rankScore t (offered p s rm) = rankScore t rm" "rmHighScores (offered p s rm) = rmHighScores rm"
  "HighScorePath (offered p s rm) = HighScorePath rm"
  "Mapping.lookup (pendingScores (offered p s rm)) q =
     (if q = p then Some \<lparr>qrPlayerID = p, qrScore = s, qrListPos = rankScore s rm\<rparr>
      else Mapping.lookup (pendingScores rm) q)"
  by (simp_all add: offered_def rankScore_def lookup_update')

lemma emptyScores_first: "emptyScores = \<lparr>hName = [], hScore = -1\<rparr> # replicate 29 \<lparr>hName = [], hScore = -1\<rparr>"
  by (simp add: emptyScores_def numeral_eq_Suc)

lemma emptyScores_descending: "descending emptyScores"
  by (simp add: emptyScores_def descending_def sorted_wrt_iff_nth_less)

lemma fresh_scores [simp]:
  "rmHighScores (NewRoomManagerForWorld w n) = emptyScores" "HighScorePath (NewRoomManagerForWorld w n) = []"
  "s > 0 \<Longrightarrow> rankScore s (NewRoomManagerForWorld w n) = 1"
  by (simp_all add: NewRoomManagerForWorld_def rankScore_def emptyScores_first)

lemma record_total: "HighScorePath rm = [] \<Longrightarrow> \<exists>v rm1. RecordHighScore p name rm = Some (v, rm1) \<and> HighScorePath rm1 = []"
  by (auto simp: RecordHighScore_def saveHighScores_def Let_def recordRM_def split: option.splits)

lemma insert_first: "insertScore 1 entry (h # t) = entry # butlast (h # t)"
  using insertScore_list [of 0 "h # t" 1 entry] by (simp add: butlast_conv_take take_Cons' split: if_splits)

theorem RecordHighScore_ranks_witness:
  "\<exists>v rm1. RecordHighScore 4 ''Ann'' (offered 4 120 (NewRoomManagerForWorld (World NewEngine) [])) = Some (v, rm1) \<and>
     v \<and> descending (rmHighScores rm1)"
proof -
  let ?rm = "offered 4 120 (NewRoomManagerForWorld (World NewEngine) [])"
  obtain v rm1 where r: "RecordHighScore 4 ''Ann'' ?rm = Some (v, rm1)"
    using record_total [of ?rm 4 "''Ann''"] by auto
  have q: "Mapping.lookup (pendingScores ?rm) 4 = Some \<lparr>qrPlayerID = 4, qrScore = 120, qrListPos = 1\<rparr>"
    "length (rmHighScores ?rm) = 30" "descending (rmHighScores ?rm)"
    by (simp_all add: emptyScores_descending) (simp add: emptyScores_def)
  have "v \<and> descending (rmHighScores rm1)"
    using RecordHighScore_ranks [OF r q(1) _ _ q(3,2), THEN conjunct1]
      RecordHighScore_ranks [OF r q(1) _ _ q(3,2), THEN conjunct2, THEN conjunct1] by simp
  then show ?thesis using r by blast
qed

text \<open>
  C28. The rank is not looked up again: two players quit, each offered the slot of their rank in the
  same ordered list, and when both name their entry, the better score first, the list is no
  longer in order.
\<close>

theorem stale_rank_disorders:
  "\<exists>rm v1 rm1 v2 rm2. descending (rmHighScores rm) \<and>
     RecordHighScore 2 ''Bob'' (offered 2 70 (offered 1 50 rm)) = Some (v1, rm1) \<and>
     RecordHighScore 1 ''Ann'' rm1 = Some (v2, rm2) \<and> \<not> descending (rmHighScores rm2)"
proof -
  let ?base = "NewRoomManagerForWorld (World NewEngine) []"
  let ?rm = "offered 2 70 (offered 1 50 ?base)"
  obtain v1 rm1 where r1: "RecordHighScore 2 ''Bob'' ?rm = Some (v1, rm1)" and path: "HighScorePath rm1 = []"
    using record_total [of ?rm 2 "''Bob''"] by auto
  obtain v2 rm2 where r2: "RecordHighScore 1 ''Ann'' rm1 = Some (v2, rm2)"
    using record_total [OF path, of 1 "''Ann''"] by auto
  have h: "rmHighScores rm1 = insertScore 1 \<lparr>hName = ''Bob'', hScore = 70\<rparr> emptyScores"
    and l1: "pendingScores rm1 = Mapping.delete 2 (pendingScores ?rm)"
    using RecordHighScore_list(2,3) [OF r1] by simp_all
  have h1: "rmHighScores rm1 = \<lparr>hName = ''Bob'', hScore = 70\<rparr> # butlast emptyScores"
    unfolding h unfolding emptyScores_first by (rule insert_first)
  have "rmHighScores rm2 = insertScore 1 \<lparr>hName = ''Ann'', hScore = 50\<rparr> (rmHighScores rm1)"
    using RecordHighScore_list(2) [OF r2] l1 by (simp add: lookup_delete_if)
  also have "\<dots> = \<lparr>hName = ''Ann'', hScore = 50\<rparr> # butlast (rmHighScores rm1)"
    unfolding h1 by (rule insert_first)
  finally have "rmHighScores rm2 = \<lparr>hName = ''Ann'', hScore = 50\<rparr> # butlast (rmHighScores rm1)" .
  then have "\<not> descending (rmHighScores rm2)"
    by (simp add: h1 emptyScores_def descending_def numeral_eq_Suc)
  moreover have "descending (rmHighScores ?base)" by (simp add: emptyScores_descending)
  ultimately show ?thesis using r1 r2 by blast
qed

end
