(* ===== verification/RoomProps.thy ===== *)
theory RoomProps
  imports Sessions
begin

text \<open>
  What a room may and may not do to the rest of the world: a panic stays in its room, the policy
  reaches every room, the order in which a tick's inputs are listed does not matter, a world is not
  swapped under its players, and the names and colours that come off the wire are tame.
\<close>

text \<open>Small managers for the examples: the fresh one, with a room and with two players.\<close>

definition freshManager :: RoomManager where
  "freshManager = NewRoomManagerForWorld (World NewEngine) []"

definition someRoom :: "int \<Rightarrow> Room" where
  "someRoom b = \<lparr>rBoardID = b, rEngine = NewEngine, rPlayers = {1}\<rparr>"

definition somePlayer :: "int \<Rightarrow> int \<Rightarrow> roomPlayer" where
  "somePlayer p i = \<lparr>rpId = p, rpBoardID = 3, rpStatID = i, rpState = 0, rpName = [], rpAccountID = [],
     rpColor = [], rpHandle = [], rpHasProfile = False, rpScrollOpen = False\<rparr>"

section \<open>A panic stays in its room\<close>

text \<open>
  Stepping a room touches no other room and not the world. When the engine panics and the panic is recovered, exactly
  the room and the players it lists are gone, with what was queued for them; otherwise every player
  stays and the room keeps its occupants.
\<close>

lemma stepRoom_isolates:
  assumes "stepRoom created b inputs rm = (stepped, rm')" and "roomAt b rm = Some room" and "rBoardID room = b"
  shows "(\<forall>c. c \<noteq> b \<longrightarrow> roomAt c rm' = roomAt c rm) \<and> rmWorld rm' = rmWorld rm \<and>
     (if stepped then rmPlayers rm' = rmPlayers rm \<and> occupants b rm' = Some (rPlayers room)
      else roomAt b rm' = None \<and>
        (\<forall>p. playerAt p rm' = (if p \<in> rPlayers room then None else playerAt p rm)) \<and>
        (\<forall>p. Mapping.lookup (pendingPlayerEvents rm') p =
           (if p \<in> rPlayers room then None else Mapping.lookup (pendingPlayerEvents rm) p)))"
proof (cases "GameStepWithInputs created inputs (rEngine room)")
  case None
  then have "\<not> stepped" "rm' = dropPanickedRoom b rm"
    using assms(1,2) by (auto simp: stepRoom_def onRoom_def)
  then show ?thesis
    using assms(2,3)
    by (auto simp: dropPanickedRoom_def Let_def roomAt_def playerAt_def lookup_delete_if lookup_filter split: option.splits)
next
  case (Some e)
  then have "stepped" "rm' = putRoom b (room\<lparr>rEngine := e\<rparr>) rm"
    using assms(1,2) by (auto simp: stepRoom_def onRoom_def)
  then show ?thesis
    by (simp add: roomAt_putRoom occupants_putRoom) (simp add: putRoom_def)
qed

section \<open>The friendly-fire policy\<close>

definition changeRoom :: "(Room \<Rightarrow> Room) \<Rightarrow> int \<Rightarrow> RoomManager \<Rightarrow> RoomManager" where
  "changeRoom f b rm = rm\<lparr>rmRooms := Mapping.map_entry b f (rmRooms rm)\<rparr>"

lemma changeRooms:
  "distinct bs \<Longrightarrow>
   roomAt c (fold (changeRoom f) bs rm) = (if c \<in> set bs then map_option f (roomAt c rm) else roomAt c rm)"
  "rmFriendlyFire (fold (changeRoom f) bs rm) = rmFriendlyFire rm"
  "rmPlayers (fold (changeRoom f) bs rm) = rmPlayers rm" "rmWorld (fold (changeRoom f) bs rm) = rmWorld rm"
  by (induction bs arbitrary: rm) (auto simp: changeRoom_def roomAt_def lookup_map_entry')

lemma SetFriendlyFire_fold:
  "SetFriendlyFire on rm =
     fold (changeRoom (modRoomEngine (\<lambda>e. e\<lparr>FriendlyFire := on\<rparr>))) (roomIDs rm) (rm\<lparr>rmFriendlyFire := on\<rparr>)"
  by (simp add: SetFriendlyFire_def changeRoom_def [abs_def])

text \<open>
  \<open>SetFriendlyFire\<close> reaches every room: each live engine, and each one made later, plays under
  the new policy; nothing else of any room changes, and no player moves.
\<close>

theorem SetFriendlyFire_reaches:
  assumes "finite (Mapping.keys (rmRooms rm))"
  shows "rmFriendlyFire (SetFriendlyFire on rm) = on \<and> rmPlayers (SetFriendlyFire on rm) = rmPlayers rm \<and>
     rmWorld (SetFriendlyFire on rm) = rmWorld rm \<and>
     (\<forall>b. roomAt b (SetFriendlyFire on rm) =
        map_option (\<lambda>room. room\<lparr>rEngine := (rEngine room)\<lparr>FriendlyFire := on\<rparr>\<rparr>) (roomAt b rm)) \<and>
     (\<forall>b rm' room. roomAt b rm = None \<longrightarrow> ensureRoom b (SetFriendlyFire on rm) = Some rm' \<longrightarrow>
        roomAt b rm' = Some room \<longrightarrow> FriendlyFire (rEngine room) = on)"
proof -
  let ?rm = "SetFriendlyFire on rm"
  have ids: "distinct (roomIDs rm)" "set (roomIDs rm) = {b. roomAt b rm \<noteq> None}"
    using assms by (auto simp: roomIDs_def Mapping.ordered_keys_def roomAt_def keys_dom_lookup dom_def)
  have at: "roomAt b ?rm = map_option (\<lambda>room. room\<lparr>rEngine := (rEngine room)\<lparr>FriendlyFire := on\<rparr>\<rparr>) (roomAt b rm)" for b
    using changeRooms(1) [OF ids(1)] ids(2)
    by (cases "roomAt b rm") (auto simp: SetFriendlyFire_fold modRoomEngine_def roomAt_def)
  have fields: "rmFriendlyFire ?rm = on" "rmPlayers ?rm = rmPlayers rm" "rmWorld ?rm = rmWorld rm"
    by (simp_all add: SetFriendlyFire_fold changeRooms)
  have "FriendlyFire (rEngine room) = on"
    if none: "roomAt b rm = None" and make: "ensureRoom b ?rm = Some rm'" and room: "roomAt b rm' = Some room" for b rm' room
  proof -
    obtain e where e: "roomEngine (rmWorld ?rm) b
        (NewEngine\<lparr>Headless := True, MultiRoom := True, FriendlyFire := on,
                   TickSpeed := 4, TickTimeDuration := 8, GameStateElement := E_PLAYER\<rparr>) = Some e"
      and "rm' = putRoom b \<lparr>rBoardID = b, rEngine = e, rPlayers = {}\<rparr> ?rm"
      using make at [of b] none fields(1) by (auto simp: ensureRoom_def split: Option.bind_splits)
    moreover have "fit on e" using e by (rule roomEngine_fit) (simp_all add: statsFit_def heapOk_def)
    ultimately show ?thesis using room by (auto simp: roomAt_putRoom fit_def)
  qed
  then show ?thesis using at fields by blast
qed

theorem SetFriendlyFire_reaches_witness:
  "map_option (FriendlyFire \<circ> rEngine) (roomAt 3 (SetFriendlyFire False (putRoom 3 (someRoom 3) freshManager))) =
     Some False"
proof -
  have "finite (Mapping.keys (rmRooms (putRoom 3 (someRoom 3) freshManager)))"
    by (simp add: putRoom_def freshManager_def NewRoomManagerForWorld_def)
  from SetFriendlyFire_reaches [OF this, of False] show ?thesis by (simp add: roomAt_putRoom)
qed

section \<open>The inputs of a tick\<close>

text \<open>
  C25. A tick does not depend on the order in which the inputs of its map are visited, as long as no
  two of the players sending one, and not reading a scroll, hold the same stat of the same board: the
  manager that comes out and every frame are the same.
\<close>

theorem tick_input_order:
  assumes "distinct (map fst inputs)" and "distinct (map fst inputs')" and "set inputs' = set inputs"
    and "\<And>p q b i. p \<in> fst ` set inputs \<Longrightarrow> q \<in> fst ` set inputs \<Longrightarrow> drives rm p b i \<Longrightarrow> drives rm q b i \<Longrightarrow> p = q"
    and "rmRecorder rm = None"
  shows "StepDiffsWithBoards created help inputs' rm = StepDiffsWithBoards created help inputs rm"
proof -
  have "rm\<lparr>rmRecorder := flushTick v (rmRecorder rm)\<rparr> = rm" for v
    using assms(5) by (simp add: flushTick_def)
  then show ?thesis
    using engineInputs_order [OF assms(1-4)] by (simp add: StepDiffsWithBoards_def)
qed

theorem tick_input_order_witness:
  "StepDiffsWithBoards (\<lambda>_. True) (\<lambda>_. []) [(2, idleInput), (1, idleInput)]
      (putPlayer 2 (somePlayer 2 5) (putPlayer 1 (somePlayer 1 4) freshManager)) =
   StepDiffsWithBoards (\<lambda>_. True) (\<lambda>_. []) [(1, idleInput), (2, idleInput)]
      (putPlayer 2 (somePlayer 2 5) (putPlayer 1 (somePlayer 1 4) freshManager))"
proof (rule tick_input_order)
  let ?rm = "putPlayer 2 (somePlayer 2 5) (putPlayer 1 (somePlayer 1 4) freshManager)"
  show "p = q" if "p \<in> fst ` set [(1, idleInput), (2, idleInput)]" "q \<in> fst ` set [(1, idleInput), (2, idleInput)]"
    "drives ?rm p b i" "drives ?rm q b i" for p q b i
    using that by (auto simp: drives_def playerAt_update somePlayer_def)
  show "rmRecorder ?rm = None" by (simp add: putPlayer_def freshManager_def NewRoomManagerForWorld_def)
qed auto

text \<open>
  When two players do hold the same stat, the last one visited wins, so the order of the visit,
  which Go leaves open, decides what the stat does.
\<close>

theorem shared_stat_last_wins:
  assumes "drives rm p b i" and "drives rm q b i" and "v \<noteq> w"
  shows "engineInputs [(p, v), (q, w)] rm b i = Some w \<and> engineInputs [(q, w), (p, v)] rm b i = Some v"
  using assms(1,2) engineInputs_snoc [of "[(p, v)]" q w rm b i] engineInputs_snoc [of "[(q, w)]" p v rm b i]
  by simp

theorem shared_stat_last_wins_witness:
  "engineInputs [(1, idleInput), (2, idleInput\<lparr>iShift := True\<rparr>)]
     (putPlayer 2 (somePlayer 2 4) (putPlayer 1 (somePlayer 1 4) freshManager)) 3 4 =
   Some (idleInput\<lparr>iShift := True\<rparr>)"
  using shared_stat_last_wins [of "putPlayer 2 (somePlayer 2 4) (putPlayer 1 (somePlayer 1 4) freshManager)" 1 3 4 2
      idleInput "idleInput\<lparr>iShift := True\<rparr>"]
  by (simp add: drives_def playerAt_update somePlayer_def idleInput_def)

section \<open>Names and colours off the wire\<close>

lemma ord_az: "ord CHR ''a'' = 97" "ord CHR ''z'' = 122" "ord CHR ''-'' = 45" "ord CHR ''/'' = 47" "ord CHR ''.'' = 46"
  by (simp_all add: ord_def)

lemma SanitizeSaveName_chars:
  "SanitizeSaveName name = Some s \<Longrightarrow> s \<noteq> [] \<and> length s \<le> 8 \<and> list_all saveNameChar s"
  by (auto simp: SanitizeSaveName_def Let_def split: if_splits)

lemma UpCase_saveNameChar: "saveNameChar c \<Longrightarrow> UpCase c = c"
  by (auto simp: saveNameChar_def UpCase_def ord_az)

lemma SanitizeSaveName_accepts:
  assumes "s \<noteq> []" and "length s \<le> 8" and "list_all saveNameChar s"
  shows "SanitizeSaveName s = Some s"
proof -
  have "map UpCase s = s" using assms(3) by (intro map_idI) (auto simp: list_all_iff UpCase_saveNameChar)
  then show ?thesis using assms by (simp add: SanitizeSaveName_def)
qed

text \<open>
  C27. Whatever name a client sends, a save goes to a file of the save directory itself: the path is
  the directory, a slash, one to eight of the characters A-Z, 0-9 and the hyphen, and
  \<open>.SAV\<close>; that name is accepted as it stands, so saving under it again meets the same file. The
  name has no slash and no dot.
\<close>

theorem snapshotPath_safe:
  assumes "snapshotPath dir name = Inr path"
  shows "\<exists>s. path = dir @ ''/'' @ s @ ''.SAV'' \<and> s \<noteq> [] \<and> length s \<le> 8 \<and> list_all saveNameChar s \<and>
     CHR ''/'' \<notin> set s \<and> CHR ''.'' \<notin> set s \<and> SanitizeSaveName name = Some s \<and>
     snapshotPath dir s = Inr path"
proof -
  obtain s where s: "SanitizeSaveName name = Some s" and path: "path = joinPath dir (s @ ''.SAV'')" and dir: "dir \<noteq> []"
    using assms by (auto simp: snapshotPath_def split: if_splits option.splits)
  note c = SanitizeSaveName_chars [OF s]
  have "SanitizeSaveName s = Some s" using c by (simp add: SanitizeSaveName_accepts)
  moreover have "CHR ''/'' \<notin> set s" "CHR ''.'' \<notin> set s" using c by (auto simp: list_all_iff saveNameChar_def dest!: bspec) (simp_all add: ord_az)
  ultimately show ?thesis
    using s c path dir by (intro exI [of _ s]) (simp add: joinPath_def snapshotPath_def)
qed

theorem snapshotPath_safe_witness:
  "\<exists>s. ''saves/TOWN-1.SAV'' = ''saves'' @ ''/'' @ s @ ''.SAV'' \<and> length s \<le> 8 \<and> CHR ''.'' \<notin> set s"
proof -
  have "snapshotPath ''saves'' ''town-1'' = Inr ''saves/TOWN-1.SAV''"
    by (simp add: snapshotPath_def SanitizeSaveName_def joinPath_def UpCase_def saveNameChar_def ord_def chr_def char_of_def)
  from snapshotPath_safe [OF this] show ?thesis by blast
qed

text \<open>
  A player's colour is empty or a hash sign and six hexadecimal digits, whatever was sent; and
  every such colour is kept as it is.
\<close>

theorem SanitizePlayerColor_whitelist:
  "(SanitizePlayerColor c = [] \<or>
     (\<exists>ds. SanitizePlayerColor c = CHR ''#'' # ds \<and> length ds = 6 \<and> list_all isHexDigit ds)) \<and>
   (length ds = 6 \<longrightarrow> list_all isHexDigit ds \<longrightarrow> SanitizePlayerColor (CHR ''#'' # ds) = CHR ''#'' # ds)"
proof (cases c)
  case (Cons h t)
  then show ?thesis by (auto simp: SanitizePlayerColor_def)
qed (simp add: SanitizePlayerColor_def)

theorem SanitizePlayerColor_whitelist_witness: "SanitizePlayerColor ''#00aaFF'' = ''#00aaFF''"
  using SanitizePlayerColor_whitelist [of "[]" "''00aaFF''"] by (simp add: isHexDigit_def ord_def)

section \<open>An occupied world is not swapped\<close>

text \<open>
  While anybody plays, restoring a snapshot and loading a world fail and change nothing,
  whatever is on the disk; once the world is empty, a restore that succeeds leaves no room of the
  old world behind, and never hands out a player id again.
\<close>

theorem occupied_world_stays:
  "(playerAt p rm \<noteq> None \<longrightarrow>
     (\<exists>err. RestoreSnapshot files dir name rm = Some (Some err, rm)) \<and>
     LoadWorld files dir name rm = Some (Some ErrWorldOccupied, rm)) \<and>
   (RestoreSnapshot files dir name rm = Some (None, rm') \<longrightarrow>
     Mapping.is_empty (rmPlayers rm) \<and> rmPlayers rm' = rmPlayers rm \<and> (\<forall>b. roomAt b rm' = None) \<and>
     rmNextPlayerID rm' = rmNextPlayerID rm)"
proof
  show "playerAt p rm \<noteq> None \<longrightarrow>
     (\<exists>err. RestoreSnapshot files dir name rm = Some (Some err, rm)) \<and>
     LoadWorld files dir name rm = Some (Some ErrWorldOccupied, rm)"
  proof
    assume "playerAt p rm \<noteq> None"
    then have "\<not> Mapping.is_empty (rmPlayers rm)"
      by (auto simp: playerAt_def Mapping.is_empty_def keys_dom_lookup)
    then show "(\<exists>err. RestoreSnapshot files dir name rm = Some (Some err, rm)) \<and>
       LoadWorld files dir name rm = Some (Some ErrWorldOccupied, rm)"
      by (auto simp: RestoreSnapshot_def LoadWorld_def split: sum.split)
  qed
  show "RestoreSnapshot files dir name rm = Some (None, rm') \<longrightarrow>
     Mapping.is_empty (rmPlayers rm) \<and> rmPlayers rm' = rmPlayers rm \<and> (\<forall>b. roomAt b rm' = None) \<and>
     rmNextPlayerID rm' = rmNextPlayerID rm"
    by (auto simp: RestoreSnapshot_def roomAt_def split: sum.splits if_splits option.splits Option.bind_splits)
qed

theorem occupied_world_stays_witness:
  "LoadWorld (\<lambda>_. None) ''worlds'' ''TOWN'' (putPlayer 1 (somePlayer 1 4) freshManager) =
     Some (Some ErrWorldOccupied, putPlayer 1 (somePlayer 1 4) freshManager)"
  using occupied_world_stays [of 1 "putPlayer 1 (somePlayer 1 4) freshManager" "\<lambda>_. None" "''worlds''" "''TOWN''"]
  by (simp add: playerAt_update)

section \<open>The flags of a snapshot\<close>

lemma addFlag_props:
  assumes "distinct fs" and "length fs \<le> 10" and "[] \<notin> set fs"
  shows "distinct (addFlag f fs)" "length (addFlag f fs) \<le> 10" "[] \<notin> set (addFlag f fs)"
    "set fs \<subseteq> set (addFlag f fs)" "set (addFlag f fs) \<subseteq> insert f (set fs)"
    "length (addFlag f fs) < 10 \<Longrightarrow> f \<noteq> [] \<Longrightarrow> f \<in> set (addFlag f fs)" "length fs \<le> length (addFlag f fs)"
  using assms by (auto simp: addFlag_def)

lemma addFlags_props:
  assumes "distinct fs" and "length fs \<le> 10" and "[] \<notin> set fs"
  shows "distinct (fold addFlag ns fs) \<and> length (fold addFlag ns fs) \<le> 10 \<and> [] \<notin> set (fold addFlag ns fs) \<and>
     length fs \<le> length (fold addFlag ns fs) \<and>
     set fs \<subseteq> set (fold addFlag ns fs) \<and> set (fold addFlag ns fs) \<subseteq> set ns \<union> set fs \<and>
     (length (fold addFlag ns fs) < 10 \<longrightarrow> set ns - {[]} \<subseteq> set (fold addFlag ns fs))"
  using assms
proof (induction ns arbitrary: fs)
  case (Cons f ns)
  note props = addFlag_props [OF Cons.prems, of f]
  note IH = Cons.IH [OF props(1-3)]
  have "f \<noteq> [] \<Longrightarrow> length (fold addFlag ns (addFlag f fs)) < 10 \<Longrightarrow> f \<in> set (addFlag f fs)"
    using IH props(6) by simp
  then show ?case using IH props(4,5,7) by auto
qed simp

lemma addFlags_grow: "set gs \<subseteq> set (fold addFlag ms gs)"
proof (induction ms arbitrary: gs)
  case (Cons f ms)
  have "set gs \<subseteq> set (addFlag f gs)" by (auto simp: addFlag_def)
  then show ?case using Cons.IH [of "addFlag f gs"] by simp
qed simp

lemma addFlags_room: "length fs + length ns \<le> 10 \<Longrightarrow> set ns - {[]} \<subseteq> set (fold addFlag ns fs)"
proof (induction ns arbitrary: fs)
  case (Cons f ns)
  have "length (addFlag f fs) + length ns \<le> 10" using Cons.prems by (simp add: addFlag_def)
  moreover have "f \<noteq> [] \<Longrightarrow> f \<in> set (addFlag f fs)" using Cons.prems by (auto simp: addFlag_def)
  ultimately show ?case using Cons.IH [of "addFlag f fs"] addFlags_grow [of "addFlag f fs" ns] by auto
qed simp

lemma snapshotFlags_rooms:
  assumes "foldM (\<lambda>b flags. do {
         room \<leftarrow> roomAt b rm;
         Some (fold addFlag (flagNames (wInfo (World (rEngine room)))) flags) }) bs fs = Some fs'"
    and "distinct fs" and "length fs \<le> 10" and "[] \<notin> set fs"
  shows "distinct fs' \<and> length fs' \<le> 10 \<and> [] \<notin> set fs' \<and> length fs \<le> length fs' \<and> set fs \<subseteq> set fs' \<and>
     (length fs' < 10 \<longrightarrow> (\<forall>b\<in>set bs. \<forall>room. roomAt b rm = Some room \<longrightarrow>
        set (flagNames (wInfo (World (rEngine room)))) - {[]} \<subseteq> set fs'))"
  using assms
proof (induction bs arbitrary: fs)
  case (Cons b bs)
  obtain room where room: "roomAt b rm = Some room" using Cons.prems(1) by (auto split: Option.bind_splits)
  let ?fs = "fold addFlag (flagNames (wInfo (World (rEngine room)))) fs"
  note props = addFlags_props [OF Cons.prems(2-4), of "flagNames (wInfo (World (rEngine room)))"]
  have rest: "foldM (\<lambda>b flags. do {
         room \<leftarrow> roomAt b rm;
         Some (fold addFlag (flagNames (wInfo (World (rEngine room)))) flags) }) bs ?fs = Some fs'"
    using Cons.prems(1) room by simp
  note IH = Cons.IH [OF rest] props
  show ?case using IH room by (auto dest: subsetD)
qed simp

text \<open>
  C26. The flags of a snapshot are at most ten, different, and none of them empty; every flag of the
  frozen world is among them, and while fewer than ten are set, every flag of every live room too.
\<close>

theorem snapshotFlags_union:
  assumes "snapshotFlags rm = Some fs"
  shows "distinct fs \<and> length fs \<le> 10 \<and> [] \<notin> set fs \<and>
     set (flagNames (wInfo (rmWorld rm))) - {[]} \<subseteq> set fs \<and>
     (length fs < 10 \<longrightarrow> (\<forall>b\<in>set (roomIDs rm). \<forall>room. roomAt b rm = Some room \<longrightarrow>
        set (flagNames (wInfo (World (rEngine room)))) - {[]} \<subseteq> set fs))"
proof -
  let ?base = "fold addFlag (flagNames (wInfo (rmWorld rm))) []"
  have base: "distinct ?base" "length ?base \<le> 10" "[] \<notin> set ?base"
    using addFlags_props [of "[]" "flagNames (wInfo (rmWorld rm))"] by simp_all
  have "length (flagNames (wInfo (rmWorld rm))) = 10" by (simp add: flagNames_def)
  then have "set (flagNames (wInfo (rmWorld rm))) - {[]} \<subseteq> set ?base"
    using addFlags_room [of "[]" "flagNames (wInfo (rmWorld rm))"] by simp
  then show ?thesis
    using snapshotFlags_rooms [OF assms [unfolded snapshotFlags_def] base] by blast
qed

theorem snapshotFlags_union_witness:
  "\<exists>fs. snapshotFlags (NewRoomManagerForWorld (World NewEngine) []) = Some fs \<and> length fs \<le> 10"
proof -
  have "snapshotFlags (NewRoomManagerForWorld (World NewEngine) []) =
      Some (fold addFlag (flagNames (wInfo (World NewEngine))) [])"
    by (simp add: snapshotFlags_def roomIDs_def NewRoomManagerForWorld_def Mapping.ordered_keys_def)
  from snapshotFlags_union [OF this] this show ?thesis by blast
qed

end
