(* ===== verification/FanOut.thy ===== *)
theory FanOut
  imports EditOps
begin

text \<open>
  The delivery of edits (\<open>inOrder\<close> of \<open>engine/editor_session.go\<close>). Connections are goroutines: the
  order in which they applied their edits and the order in which they come to broadcast them are
  independent, and the gate makes them agree. A state is the tickets handed out, the one being served, and where every
  broadcast is; \<open>lost\<close> are the tickets whose goroutine will never come, \<open>applied\<close> and \<open>delivered\<close> are the messages so
  far, for the statements.
\<close>

record 'm Fan =
  issued :: nat
  serving :: nat
  waiting :: "nat set"
  running :: "nat set"
  lost :: "nat set"
  applied :: "'m list"
  delivered :: "'m list"

text \<open>
  \<open>Issue\<close>: an edit is applied and its ticket drawn, in one critical section. \<open>Lose\<close>: the edit panics after
  its ticket is drawn; \<open>Apply\<close> unlocks the session, the connection's goroutine ends, and nobody calls \<open>inOrder\<close> with
  the ticket. \<open>Serve\<close>: a waiting goroutine finds its ticket served, and broadcasts. \<open>Retire\<close>: the broadcast returns or
  panics, and the next ticket is served. Any goroutine may take its step at any time.
\<close>

inductive fanStep :: "'m Fan \<Rightarrow> 'm Fan \<Rightarrow> bool" where
  Issue: "fanStep f (f\<lparr>issued := Suc (issued f), waiting := insert (issued f) (waiting f),
                       applied := applied f @ [m]\<rparr>)"
| Lose: "fanStep f (f\<lparr>issued := Suc (issued f), lost := insert (issued f) (lost f), applied := applied f @ [m]\<rparr>)"
| Serve: "t \<in> waiting f \<Longrightarrow> serving f = t \<Longrightarrow>
          fanStep f (f\<lparr>waiting := waiting f - {t}, running := insert t (running f),
                       delivered := delivered f @ [applied f ! t]\<rparr>)"
| Retire: "t \<in> running f \<Longrightarrow> fanStep f (f\<lparr>running := running f - {t}, serving := Suc (serving f)\<rparr>)"

definition fanStart :: "'m Fan" where
  "fanStart = \<lparr>issued = 0, serving = 0, waiting = {}, running = {}, lost = {}, applied = [], delivered = []\<rparr>"

inductive fanReach :: "'m Fan \<Rightarrow> bool" where
  start: "fanReach fanStart"
| step: "fanReach f \<Longrightarrow> fanStep f f' \<Longrightarrow> fanReach f'"

inductive_cases fanStepE: "fanStep f f'"

section \<open>The invariant\<close>

definition fanOk :: "'m Fan \<Rightarrow> bool" where
  "fanOk f \<longleftrightarrow>
     length (applied f) = issued f \<and> serving f \<le> issued f \<and> lost f \<subseteq> {serving f..<issued f} \<and>
     (running f = {} \<and> waiting f = {serving f..<issued f} - lost f \<and> delivered f = take (serving f) (applied f) \<or>
      running f = {serving f} \<and> serving f < issued f \<and> serving f \<notin> lost f \<and>
        waiting f = {Suc (serving f)..<issued f} - lost f \<and> delivered f = take (Suc (serving f)) (applied f))"

lemma fanOk_start: "fanOk fanStart"
  by (simp add: fanOk_def fanStart_def)

lemma fanOk_cases:
  assumes "fanOk f"
  obtains (closed) "running f = {}" "waiting f = {serving f..<issued f} - lost f" "delivered f = take (serving f) (applied f)"
  | (busy) "running f = {serving f}" "serving f < issued f" "serving f \<notin> lost f"
      "waiting f = {Suc (serving f)..<issued f} - lost f" "delivered f = take (Suc (serving f)) (applied f)"
  using assms unfolding fanOk_def by blast

lemma fanOk_busy:
  "running f = {serving f} \<Longrightarrow> length (applied f) = issued f \<Longrightarrow> serving f < issued f \<Longrightarrow> serving f \<notin> lost f \<Longrightarrow>
   lost f \<subseteq> {serving f..<issued f} \<Longrightarrow> waiting f = {Suc (serving f)..<issued f} - lost f \<Longrightarrow>
   delivered f = take (Suc (serving f)) (applied f) \<Longrightarrow> fanOk f"
  by (simp add: fanOk_def)

lemma fanOk_facts:
  "fanOk f \<Longrightarrow> length (applied f) = issued f \<and> serving f \<le> issued f \<and> lost f \<subseteq> {serving f..<issued f}"
  by (simp add: fanOk_def)

lemma later_tickets: "L \<subseteq> {a..<n::nat} \<Longrightarrow> a \<notin> L \<Longrightarrow> L \<subseteq> {Suc a..<n}"
proof
  fix t assume "L \<subseteq> {a..<n}" "a \<notin> L" "t \<in> L"
  then have "t \<in> {a..<n}" "t \<noteq> a" by auto
  then show "t \<in> {Suc a..<n}" by simp
qed

lemma next_issued: "a \<le> (n::nat) \<Longrightarrow> L \<subseteq> {a..<n} \<Longrightarrow> insert n ({a..<n} - L) = {a..<Suc n} - L \<and> L \<subseteq> {a..<Suc n}"
  by (force simp: atLeastLessThanSuc)

lemma next_lost: "a \<le> (n::nat) \<Longrightarrow> L \<subseteq> {a..<n} \<Longrightarrow>
   {a..<Suc n} - insert n L = {a..<n} - L \<and> insert n L \<subseteq> {a..<Suc n}"
  by (force simp: atLeastLessThanSuc)

lemma fanOk_step:
  assumes "fanStep f f'" and "fanOk f"
  shows "fanOk f'"
proof -
  note facts = fanOk_facts [OF assms(2)]
  from assms(1) show ?thesis
  proof cases
    case (Issue m)
    from assms(2) show ?thesis
    proof (cases rule: fanOk_cases)
      case closed
      then show ?thesis using Issue facts next_issued [of "serving f" "issued f" "lost f"] by (simp add: fanOk_def)
    next
      case busy
      have "lost f \<subseteq> {Suc (serving f)..<issued f}" using facts busy(3) later_tickets by blast
      then have sets: "insert (issued f) ({Suc (serving f)..<issued f} - lost f) = {Suc (serving f)..<Suc (issued f)} - lost f"
          "lost f \<subseteq> {serving f..<Suc (issued f)}"
        using facts busy(2) next_issued [of "Suc (serving f)" "issued f" "lost f"] next_issued [of "serving f" "issued f" "lost f"]
        by simp_all
      show ?thesis by (rule fanOk_busy) (use Issue busy facts sets in simp_all)
    qed
  next
    case (Lose m)
    from assms(2) show ?thesis
    proof (cases rule: fanOk_cases)
      case closed
      then show ?thesis using Lose facts next_lost [of "serving f" "issued f" "lost f"] by (simp add: fanOk_def)
    next
      case busy
      have "lost f \<subseteq> {Suc (serving f)..<issued f}" using facts busy(3) later_tickets by blast
      then have sets: "{Suc (serving f)..<Suc (issued f)} - insert (issued f) (lost f) = {Suc (serving f)..<issued f} - lost f"
          "insert (issued f) (lost f) \<subseteq> {serving f..<Suc (issued f)}"
        using facts busy(2) next_lost [of "Suc (serving f)" "issued f" "lost f"] next_lost [of "serving f" "issued f" "lost f"]
        by simp_all
      show ?thesis by (rule fanOk_busy) (use Lose busy facts sets in simp_all)
    qed
  next
    case (Serve t)
    from assms(2) show ?thesis
    proof (cases rule: fanOk_cases)
      case closed
      then have "serving f < issued f" "serving f \<notin> lost f" using Serve by auto
      moreover have "{serving f..<issued f} - lost f - {serving f} = {Suc (serving f)..<issued f} - lost f" by auto
      ultimately show ?thesis using Serve closed facts by (simp add: fanOk_def take_Suc_conv_app_nth)
    qed (use Serve in simp)
  next
    case (Retire t)
    from assms(2) show ?thesis
    proof (cases rule: fanOk_cases)
      case busy
      moreover have "lost f \<subseteq> {Suc (serving f)..<issued f}" using facts busy(3) later_tickets by blast
      ultimately show ?thesis using Retire facts by (simp add: fanOk_def)
    qed (use Retire in simp)
  qed
qed

lemma fanOk_reach: "fanReach f \<Longrightarrow> fanOk f"
  by (induction rule: fanReach.induct) (auto intro: fanOk_start fanOk_step)

text \<open>
  C31. However the goroutines of a session interleave, its members get the broadcasts in the order in
  which the edits were applied, none is skipped or sent twice, and no two broadcasts overlap.
\<close>

theorem broadcasts_in_order:
  assumes "fanReach f"
  shows "(\<exists>rest. applied f = delivered f @ rest) \<and> card (running f) \<le> 1 \<and>
     (\<forall>t\<in>running f. t = serving f)"
proof -
  have "fanOk f" using assms by (rule fanOk_reach)
  then show ?thesis unfolding fanOk_def by (metis append_take_drop_id card.empty is_singletonI
      is_singleton_altdef le_numeral_extra(4) singletonD empty_iff zero_le)
qed

section \<open>Progress\<close>

text \<open>The steps that deliver, without a new edit.\<close>

inductive drains :: "'m Fan \<Rightarrow> 'm Fan \<Rightarrow> bool" where
  idle: "drains f f"
| more: "fanStep f f' \<Longrightarrow> issued f' = issued f \<Longrightarrow> drains f' f'' \<Longrightarrow> drains f f''"

lemma drain_one:
  assumes "fanOk f" and "lost f = {}" and "serving f < issued f"
  shows "\<exists>f'. drains f f' \<and> fanOk f' \<and> lost f' = {} \<and> serving f' = Suc (serving f) \<and> issued f' = issued f"
proof -
  have "\<exists>f'. fanStep f f' \<and> fanOk f' \<and> lost f' = {} \<and> serving f' = Suc (serving f) \<and> issued f' = issued f"
    if "running f = {serving f}" "fanOk f" "lost f = {}" for f :: "'m Fan"
    using fanOk_step [OF Retire [of "serving f" f]] Retire [of "serving f" f] that
    by (intro exI [of _ "f\<lparr>running := running f - {serving f}, serving := Suc (serving f)\<rparr>"]) auto
  note retire = this
  have served: "\<exists>f'. drains f f' \<and> fanOk f' \<and> lost f' = {} \<and> serving f' = Suc (serving f) \<and> issued f' = issued f"
    if "running f = {serving f}" "fanOk f" "lost f = {}" for f :: "'m Fan"
    using retire [OF that] by (meson drains.intros)
  show ?thesis
  proof (cases "running f = {}")
    case False
    then have "running f = {serving f}" using assms(1) by (auto simp: fanOk_def)
    then show ?thesis using assms(1,2) by (rule served)
  next
    case True
    let ?g = "f\<lparr>waiting := waiting f - {serving f}, running := insert (serving f) (running f),
      delivered := delivered f @ [applied f ! serving f]\<rparr>"
    have step: "fanStep f ?g" using assms True by (intro Serve) (auto simp: fanOk_def)
    obtain f' where "drains ?g f'" "fanOk f'" "lost f' = {}" "serving f' = Suc (serving f)" "issued f' = issued f"
      using served [of ?g] fanOk_step [OF step assms(1)] assms(2) True by auto
    then show ?thesis using drains.more [OF step] by fastforce
  qed
qed

lemma drains_trans: "drains f g \<Longrightarrow> drains g h \<Longrightarrow> drains f h"
  by (induction rule: drains.induct) (auto intro: drains.more)

lemma drain_all:
  "fanOk f \<Longrightarrow> lost f = {} \<Longrightarrow>
   \<exists>f'. drains f f' \<and> fanOk f' \<and> lost f' = {} \<and> serving f' = issued f' \<and> issued f' = issued f"
proof (induction "issued f - serving f" arbitrary: f)
  case 0
  then show ?case by (auto simp: fanOk_def intro: drains.idle)
next
  case (Suc n)
  then have "serving f < issued f" by simp
  then obtain g where g: "drains f g" "fanOk g" "lost g = {}" "serving g = Suc (serving f)" "issued g = issued f"
    using drain_one Suc.prems by blast
  then have "n = issued g - serving g" using Suc.hyps(2) by simp
  then show ?case using Suc.hyps(1) [OF _ g(2,3)] g drains_trans by metis
qed

lemma drains_applied: "drains f f' \<Longrightarrow> fanOk f \<Longrightarrow> applied f' = applied f"
proof (induction rule: drains.induct)
  case (more f f' f'')
  from more.hyps(1,2) have "applied f' = applied f" by (cases) auto
  then show ?case using more fanOk_step by metis
qed simp

text \<open>A lost ticket stays lost, and the gate stays before it.\<close>

lemma lost_step: "fanStep f f' \<Longrightarrow> lost f \<subseteq> lost f'"
  by (induction rule: fanStep.induct) auto

lemma lost_run: "fanStep\<^sup>*\<^sup>* f f' \<Longrightarrow> fanOk f \<Longrightarrow> fanOk f' \<and> lost f \<subseteq> lost f'"
  by (induction rule: rtranclp_induct) (auto dest: fanOk_step lost_step)

lemma gate_before_lost:
  assumes "fanOk f" and "t \<in> lost f"
  shows "length (delivered f) \<le> t"
proof -
  have t: "serving f \<le> t" using fanOk_facts [OF assms(1)] assms(2) by auto
  from assms(1) show ?thesis
  proof (cases rule: fanOk_cases)
    case busy
    then have "t \<noteq> serving f" using assms(2) by auto
    then show ?thesis using t busy by simp
  qed (use t in simp)
qed

text \<open>
  C32. As long as no edit panicked with a ticket in its hand, no broadcast waits for ever: from every state a
  session can reach, steps of the waiting and running goroutines alone lead to one where every edit applied so far has
  been delivered (a broadcast that panics stops nobody, since it retires its ticket). One lost ticket, though,
  closes the gate for good: whatever happens afterwards, nothing from that ticket on is ever delivered.
\<close>

theorem broadcasts_drain:
  assumes "fanReach f"
  shows "if lost f = {}
     then \<exists>f'. drains f f' \<and> delivered f' = applied f \<and> waiting f' = {} \<and> running f' = {}
     else \<forall>f'. fanStep\<^sup>*\<^sup>* f f' \<longrightarrow> length (delivered f') \<le> Inf (lost f)"
proof -
  have ok: "fanOk f" using assms by (rule fanOk_reach)
  show ?thesis
  proof (cases "lost f = {}")
    case True
    from drain_all [OF ok True] obtain f' where f': "drains f f'" "fanOk f'" "lost f' = {}" "serving f' = issued f'" by blast
    then show ?thesis using True drains_applied [OF f'(1) ok] by (auto simp: fanOk_def intro!: exI [of _ f'])
  next
    case False
    then have "Inf (lost f) \<in> lost f" by (rule Inf_nat_def1)
    then have "length (delivered f') \<le> Inf (lost f)" if "fanStep\<^sup>*\<^sup>* f f'" for f'
      using lost_run [OF that ok] gate_before_lost by blast
    then show ?thesis using False by simp
  qed
qed

text \<open>Two edits, the later one first at the gate; and a third one that panics before a fourth.\<close>

definition twoEdits :: "string Fan" where
  "twoEdits = \<lparr>issued = 2, serving = 0, waiting = {0, 1}, running = {}, lost = {}, applied = [''first'', ''second''],
     delivered = []\<rparr>"

definition fourEdits :: "string Fan" where
  "fourEdits = twoEdits\<lparr>issued := 4, waiting := {0, 1, 3}, lost := {2}, applied := [''first'', ''second'', ''third'', ''last'']\<rparr>"

lemma twoEdits_reach: "fanReach twoEdits"
proof -
  have "fanStep fanStart (fanStart\<lparr>issued := 1, waiting := {0}, applied := [''first'']\<rparr>)" (is "fanStep _ ?one")
    using Issue [of fanStart "''first''"] by (simp add: fanStart_def)
  moreover have "fanStep ?one twoEdits"
    using Issue [of ?one "''second''"] by (simp add: fanStart_def twoEdits_def insert_commute numeral_2_eq_2)
  ultimately show ?thesis by (meson fanReach.intros)
qed

lemma fourEdits_reach: "fanReach fourEdits"
proof -
  let ?three = "twoEdits\<lparr>issued := 3, lost := {2}, applied := [''first'', ''second'', ''third'']\<rparr>"
  have "fanStep twoEdits ?three" using Lose [of twoEdits "''third''"] by (simp add: twoEdits_def)
  moreover have "fanStep ?three fourEdits"
    using Issue [of ?three "''last''"] by (simp add: twoEdits_def fourEdits_def insert_commute)
  ultimately show ?thesis using twoEdits_reach by (meson fanReach.intros)
qed

theorem broadcasts_in_order_witness:
  "\<exists>rest. applied twoEdits = delivered twoEdits @ rest"
  using broadcasts_in_order [OF twoEdits_reach] by blast

theorem broadcasts_drain_witness:
  "(\<exists>f'. drains twoEdits f' \<and> delivered f' = [''first'', ''second'']) \<and>
   (\<nexists>f'. fanStep\<^sup>*\<^sup>* fourEdits f' \<and> 2 < length (delivered f'))"
  using broadcasts_drain [OF twoEdits_reach] broadcasts_drain [OF fourEdits_reach]
  by (auto simp: twoEdits_def fourEdits_def not_less)

section \<open>The tickets\<close>

lemma focus_ticket: "focusMemberBoardLocked m s = Some s' \<Longrightarrow> fanTicket s' = fanTicket s"
  by (auto simp: focusMemberBoardLocked_def onEditor_def Let_def split: option.splits if_splits)

lemma guarded_ticket: "guarded b f s = Some (r, s') \<Longrightarrow> fanTicket s' = fanTicket s"
  by (auto simp: guarded_def inEditor_def split: if_splits)

text \<open>
  The ticket of an edit is drawn in the step that applies it: a member's edit gets the session's next
  ticket, whatever the edit is and whether or not they may make it, and someone who is not a member gets none.
\<close>

theorem edit_draws_ticket:
  assumes "EditAndFanOut m msg s = Some (r, s')"
  shows "if m \<in> Members s then (\<exists>reply. r = Inr (fanTicket s, reply)) \<and> fanTicket s' = fanTicket s + 1
     else r = Inl () \<and> s' = s"
proof (cases "m \<in> Members s")
  case True
  then obtain s1 reply s2 where focus: "focusMemberBoardLocked m s = Some s1" and r: "r = Inr (fanTicket s1, reply)"
    and op: "guarded (canEditLocked m (s1\<lparr>fanTicket := fanTicket s1 + 1\<rparr>)) (editReply (prID (infoOf m s)) msg)
        (s1\<lparr>fanTicket := fanTicket s1 + 1\<rparr>) = Some (reply, s2)"
    and s': "s' = setMemberBoardLocked m (curBoard (esEngine s2)) s2"
    using assms by (auto simp: EditAndFanOut_def Apply_def issueFanTicketLocked_def split: Option.bind_splits)
  then show ?thesis
    using True focus_ticket [OF focus] guarded_ticket [OF op] by (simp add: setMemberBoardLocked_def)
next
  case False
  then show ?thesis using assms by (simp add: EditAndFanOut_def Apply_def)
qed

text \<open>One spectator in a session on a fresh engine.\<close>

definition spectatorSession :: EditorSession where
  "spectatorSession =
     addMember 1 zeroPresence True 0 ''token''
       \<lparr>esWorldName = ''TOWN'', esEngine = NewEngine, Members = {}, memberInfo = Mapping.empty,
         readOnly = Mapping.empty, nextMember = 1, leases = Mapping.empty, memberBoard = Mapping.empty,
         memberToken = Mapping.empty, tokenMember = Mapping.empty, fanTicket = 0\<rparr>"

lemma spectator_simps:
  "Members spectatorSession = {1}" "Mapping.lookup (memberBoard spectatorSession) 1 = Some 0"
  "\<not> canEditLocked 1 spectatorSession" "esEngine spectatorSession = NewEngine" "fanTicket spectatorSession = 0"
  "\<not> canEditLocked 1 (spectatorSession\<lparr>fanTicket := n\<rparr>)"
  by (simp_all add: spectatorSession_def addMember_def canEditLocked_def isReadOnly_def lookup_update')

lemma spectator_focus: "focusMemberBoardLocked 1 spectatorSession = Some spectatorSession"
  by (simp add: focusMemberBoardLocked_def spectator_simps NewEngine_def zeroWorld_def)

theorem edit_draws_ticket_witness:
  "\<forall>msg. \<exists>s'. EditAndFanOut 1 msg spectatorSession = Some (Inr (0, None), s') \<and> fanTicket s' = 1"
proof
  fix msg
  obtain s' where "EditAndFanOut 1 msg spectatorSession = Some (Inr (0, None), s')"
    by (simp add: EditAndFanOut_def Apply_def spectator_focus issueFanTicketLocked_def guarded_def spectator_simps)
  then show "\<exists>s'. EditAndFanOut 1 msg spectatorSession = Some (Inr (0, None), s') \<and> fanTicket s' = 1"
    using edit_draws_ticket [of 1 msg spectatorSession "Inr (0, None)" s'] by (simp add: spectator_simps)
qed

end
