(* ===== verification/EditInv.thy ===== *)
theory EditInv
  imports EditWorld FanOut Frame
begin

text \<open>
  The membership of an editor session as an invariant: whatever members do, in any order, the
  tables of the session agree with each other, and only members hold leases.
\<close>

section \<open>Names of members\<close>

lemma decimal_inj: "decimal a = decimal b \<Longrightarrow> a = b"
proof (induction a arbitrary: b rule: decimal.induct)
  case (1 a)
  have digit: "chr (48 + int m) = chr (48 + int n) \<Longrightarrow> m < 10 \<Longrightarrow> n < 10 \<Longrightarrow> m = n" for m n
  proof -
    assume "chr (48 + int m) = chr (48 + int n)" and lt: "m < 10" "n < 10"
    then have "ord (chr (48 + int m)) = ord (chr (48 + int n))" by simp
    then show "m = n" using lt by simp
  qed
  have ne: "decimal n \<noteq> []" for n by (subst decimal.simps) simp
  show ?case
  proof (cases "a < 10 \<longleftrightarrow> b < 10")
    case True
    then show ?thesis
      using "1.prems" "1.IH" digit [of a b] digit [of "a mod 10" "b mod 10"]
      by (subst (asm) (1 2) decimal.simps) (auto split: if_splits, metis mult_div_mod_eq)
  next
    case False
    then show ?thesis
      using "1.prems" ne ne [THEN not_sym] by (subst (asm) (1 2) decimal.simps) (auto split: if_splits)
  qed
qed

lemma Str_inj: "0 \<le> a \<Longrightarrow> 0 \<le> b \<Longrightarrow> Str a = Str b \<Longrightarrow> a = b"
  using decimal_inj [of "nat a" "nat b"] by (simp add: Str_def)


section \<open>Operations on the world leave the membership alone\<close>

text \<open>
  What \<open>Apply\<close> may change: the engine, the ticket counter, and which board a member of the session is on.
\<close>

definition stays :: "EditorSession \<Rightarrow> EditorSession \<Rightarrow> bool" where
  "stays s s' \<longleftrightarrow>
     Members s' = Members s \<and> readOnly s' = readOnly s \<and> nextMember s' = nextMember s \<and> leases s' = leases s \<and>
     memberToken s' = memberToken s \<and> tokenMember s' = tokenMember s \<and>
     Mapping.keys (memberInfo s') = Mapping.keys (memberInfo s) \<and>
     (\<forall>m. prID (infoOf m s') = prID (infoOf m s)) \<and>
     Mapping.keys (memberBoard s) \<subseteq> Mapping.keys (memberBoard s') \<and>
     Mapping.keys (memberBoard s') \<subseteq> Mapping.keys (memberBoard s) \<union> Members s"

interpretation stay: frame stays
  by unfold_locales (auto simp: stays_def)

named_theorems stay_rules

lemma stays_engine [stay_rules]: "stays s0 s \<Longrightarrow> stays s0 (s\<lparr>esEngine := e\<rparr>)"
  by (simp add: stays_def infoOf_def)

lemma infoOf_setMemberBoard: "prID (infoOf n (setMemberBoardLocked m b s)) = prID (infoOf n s)"
  by (auto simp: setMemberBoardLocked_def infoOf_def lookup_map_entry' split: option.splits)

lemma setMemberBoard_stays:
  assumes "stays s0 s" and "m \<in> Members s0"
  shows "stays s0 (setMemberBoardLocked m b s)"
  using assms by (auto simp: stays_def infoOf_setMemberBoard) (auto simp: setMemberBoardLocked_def)

lemma onEditor_stays [stay_rules]: "stays s0 s \<Longrightarrow> ok (stays s0) (onEditor f s)"
  by (auto simp: onEditor_def ok_def intro: stays_engine)

lemma inEditor_stays [stay_rules]: "stays s0 s \<Longrightarrow> ok (stay.R2 s0) (inEditor f s)"
  by (auto simp: inEditor_def ok_def stay.R2_def intro: stays_engine)

lemma inEditor_stays': "inEditor f s = Some (v, s') \<Longrightarrow> stays s0 s \<Longrightarrow> stays s0 s'"
  by (auto simp: inEditor_def intro: stays_engine)

lemma guarded_stays [stay_rules]: "stays s0 s \<Longrightarrow> ok (stay.R2 s0) (guarded b f s)"
  by (auto simp: guarded_def stay.R2_def inEditor_stays)

lemma focus_stays:
  assumes "stays s0 s" and "m \<in> Members s0"
  shows "ok (stays s0) (focusMemberBoardLocked m s)"
proof -
  have board: "stays s0 (s\<lparr>memberBoard := Mapping.update m b (memberBoard s)\<rparr>)" for b
    using assms by (auto simp: stays_def infoOf_def)
  show ?thesis
    by (auto simp: focusMemberBoardLocked_def Let_def board assms(1) onEditor_stays split: option.split)
qed

lemma Apply_stays:
  assumes "Apply m fn s = Some (r, s')" and "\<And>s1. stays s s1 \<Longrightarrow> m \<in> Members s \<Longrightarrow> ok (stay.R2 s) (fn s1)"
  shows "stays s s'"
proof (cases "m \<in> Members s")
  case True
  obtain s1 v s2 where "focusMemberBoardLocked m s = Some s1" "fn s1 = Some (v, s2)"
    "s' = setMemberBoardLocked m (curBoard (esEngine s2)) s2"
    using assms(1) True by (auto simp: Apply_def split: Option.bind_splits)
  then show ?thesis
    using focus_stays [OF stay.refl True] assms(2) [of s1] True setMemberBoard_stays
    by (auto simp: ok_def stay.R2_def)
next
  case False
  then show ?thesis using assms(1) by (simp add: Apply_def stay.refl)
qed

lemma moveAll_stays:
  "stays s0 s \<Longrightarrow> set ms \<subseteq> Members s0 \<Longrightarrow> stays s0 (fold (\<lambda>m. setMemberBoardLocked m b) ms s)"
  by (induction ms arbitrary: s) (auto intro: setMemberBoard_stays)

section \<open>Calls\<close>

text \<open>Everything the server does to a session; \<open>CEnter\<close> carries the token drawn for it.\<close>

datatype EditorCall =
    CEnter int string string string
  | CExit int
  | CReadOnly int bool
  | CAccount string bool
  | CPresence int int int
  | CAcquire int editorLeaseKey
  | CRelease int editorLeaseKey
  | CSnapshot int int int
  | CInspect int int int
  | CProperties int
  | CEdit int EditorEditMessage
  | CProperty int EditorPropertyMessage
  | CStat int EditorStatMessage
  | CProgram int int
  | CSave int int "string list"
  | CAdd int string
  | CSwitch int int
  | CClear int
  | CNew int
  | CExport int
  | CImport int "int list"
  | CBytes int string
  | CUpload int "int list"

record Outside =
  outAccount :: "int \<Rightarrow> string"
  outUnicode :: "string \<Rightarrow> string"
  outTorn :: "Engine \<Rightarrow> TBoard"
  outCreated :: "string \<Rightarrow> bool"

fun runCall :: "Outside \<Rightarrow> EditorCall \<Rightarrow> EditorSession \<Rightarrow> EditorSession option" where
  "runCall out (CEnter m name token fresh) s =
     map_option (\<lambda>(_, _, _, s). s) (EnterResuming (outAccount out) fresh m name token s)"
| "runCall out (CExit m) s = Some (Exit m s)"
| "runCall out (CReadOnly m ro) s = Some (SetMemberReadOnly m ro s)"
| "runCall out (CAccount a ro) s = Some (snd (SetAccountReadOnly (outAccount out) a ro s))"
| "runCall out (CPresence m x y) s = Some (UpdatePresence m x y s)"
| "runCall out (CAcquire m k) s = Some (snd (AcquireLease m k s))"
| "runCall out (CRelease m k) s = Some (ReleaseLease m k s)"
| "runCall out (CSnapshot m x y) s = map_option (\<lambda>(_, _, s). s) (Snapshot m x y s)"
| "runCall out (CInspect m x y) s = map_option snd (Inspect m x y s)"
| "runCall out (CProperties m) s = map_option snd (Properties m s)"
| "runCall out (CEdit m msg) s = map_option snd (EditAndFanOut m msg s)"
| "runCall out (CProperty m msg) s = map_option snd (SetProperty m msg s)"
| "runCall out (CStat m msg) s = map_option snd (SetStat m msg s)"
| "runCall out (CProgram m i) s = map_option snd (ProgramText (outUnicode out) m i s)"
| "runCall out (CSave m i ls) s = map_option snd (SaveProgram m i ls s)"
| "runCall out (CAdd m name) s = map_option snd (AddBoard m name s)"
| "runCall out (CSwitch m b) s = map_option snd (SwitchBoard m b s)"
| "runCall out (CClear m) s = map_option snd (ClearBoard m s)"
| "runCall out (CNew m) s = map_option snd (NewWorld m s)"
| "runCall out (CExport m) s = map_option snd (ExportBoard m s)"
| "runCall out (CImport m f) s = map_option snd (ImportBoard (outTorn out) m f s)"
| "runCall out (CBytes m name) s = map_option snd (WorldBytes m name s)"
| "runCall out (CUpload m f) s = map_option snd (UploadWorld (outCreated out) m f s)"

text \<open>The calls that go through \<open>Apply\<close>.\<close>

lemma NewWorld_stays:
  assumes "NewWorld m s = Some (r, s')" and "finite (Members s)"
  shows "stays s s'"
  using assms(1) unfolding NewWorld_def
proof (rule Apply_stays)
  fix s1 assume s1: "stays s s1"
  show "ok (stay.R2 s) (if \<not> hasCurrentBoardLeaseLocked m s1 then Some (None, s1)
     else do {
       s \<leftarrow> onEditor (\<lambda>e. do { e \<leftarrow> WorldCreate e; e \<leftarrow> BoardClose e; reopen (curBoard e) e }) s1;
       inEditor middleSnapshot (fold (\<lambda>other. setMemberBoardLocked other (curBoard (esEngine s)))
            (sorted_list_of_set (Members s)) s) })"
    using s1 onEditor_stays [OF s1, of "\<lambda>e. do { e \<leftarrow> WorldCreate e; e \<leftarrow> BoardClose e; reopen (curBoard e) e }"] assms(2)
    by (auto simp: stay.R2_def intro!: stay.bind inEditor_stays moveAll_stays) (auto simp: stays_def)
qed

lemma EditAndFanOut_stays: "EditAndFanOut m msg s = Some (r, s') \<Longrightarrow> stays s s'"
  unfolding EditAndFanOut_def Let_def
proof (rule Apply_stays, assumption)
  fix s1 assume "stays s s1"
  then have "stays s (s1\<lparr>fanTicket := fanTicket s1 + 1\<rparr>)" by (simp add: stays_def infoOf_def)
  from guarded_stays [OF this]
  show "ok (stay.R2 s) (case issueFanTicketLocked s1 of (ticket, s1) \<Rightarrow>
      map_option (\<lambda>(r, s). ((ticket, r), s))
        (guarded (canEditLocked m s1) (editReply (prID (infoOf m s)) msg) s1))"
    by (auto simp: issueFanTicketLocked_def ok_def stay.R2_def)
qed

lemma Apply_in_stays: "Apply m (inEditor f) s = Some (r, s') \<Longrightarrow> stays s s'"
  by (rule Apply_stays, assumption) (rule inEditor_stays)

lemma Apply_guarded_stays: "Apply m (\<lambda>s. guarded (allowed s) f s) s = Some (r, s') \<Longrightarrow> stays s s'"
  by (rule Apply_stays, assumption) (rule guarded_stays)

lemma SwitchBoard_stays: "SwitchBoard m b s = Some (r, s') \<Longrightarrow> stays s s'"
  unfolding SwitchBoard_def Let_def
  by (rule Apply_stays, assumption)
     (auto intro!: stay.bind onEditor_stays inEditor_stays setMemberBoard_stays)

lemma ImportBoard_stays: "ImportBoard t m f s = Some (r, s') \<Longrightarrow> stays s s'"
  unfolding ImportBoard_def
  by (rule Apply_stays, assumption)
     (auto simp: stay.R2_def ok_def split: option.splits if_splits Option.bind_splits dest: inEditor_stays')

lemma UploadWorld_stays: "UploadWorld c m f s = Some (r, s') \<Longrightarrow> stays s s'"
  unfolding UploadWorld_def
  by (rule Apply_stays, assumption)
     (auto simp: stay.R2_def ok_def split: sum.splits if_splits Option.bind_splits dest: inEditor_stays')

text \<open>The calls that do not go through \<open>Apply\<close> change the membership.\<close>

fun isMembership :: "EditorCall \<Rightarrow> bool" where
  "isMembership (CEnter _ _ _ _) = True"
| "isMembership (CExit _) = True"
| "isMembership (CReadOnly _ _) = True"
| "isMembership (CAccount _ _) = True"
| "isMembership (CPresence _ _ _) = True"
| "isMembership (CAcquire _ _) = True"
| "isMembership (CRelease _ _) = True"
| "isMembership _ = False"

lemma world_calls_stay:
  assumes "runCall out c s = Some s'" and "finite (Members s)" and "\<not> isMembership c"
  shows "stays s s'"
  using assms
  by (cases c)
     (auto simp: Snapshot_def Inspect_def Properties_def SetProperty_def SetStat_def ProgramText_def SaveProgram_def
       AddBoard_def ClearBoard_def ExportBoard_def WorldBytes_def split: Option.bind_splits
       dest: Apply_in_stays Apply_guarded_stays EditAndFanOut_stays SwitchBoard_stays ImportBoard_stays
         UploadWorld_stays NewWorld_stays)


section \<open>The invariant\<close>

text \<open>\<open>D\<close> are the tokens drawn so far. Every member has a number of their own, which names them.\<close>

definition memberName :: "int \<Rightarrow> string" where
  "memberName k = ''editor-'' @ Str k"

definition named :: "EditorSession \<Rightarrow> (int \<Rightarrow> int) \<Rightarrow> bool" where
  "named s f \<longleftrightarrow> inj_on f (Members s) \<and>
     (\<forall>m\<in>Members s. 1 \<le> f m \<and> f m \<le> nextMember s \<and> prID (infoOf m s) = memberName (f m))"

definition tokensAgree :: "EditorSession \<Rightarrow> bool" where
  "tokensAgree s \<longleftrightarrow>
     (\<forall>t m. Mapping.lookup (tokenMember s) t = Some m \<longleftrightarrow> Mapping.lookup (memberToken s) m = Some t)"

definition sessionOk :: "string set \<Rightarrow> EditorSession \<Rightarrow> bool" where
  "sessionOk D s \<longleftrightarrow>
     finite (Members s) \<and> Mapping.keys (memberInfo s) = Members s \<and> Mapping.keys (memberBoard s) = Members s \<and>
     Mapping.keys (readOnly s) = Members s \<and> Mapping.keys (memberToken s) = Members s \<and>
     tokensAgree s \<and> Mapping.keys (tokenMember s) \<subseteq> D \<and>
     (\<forall>k m. Mapping.lookup (leases s) k = Some m \<longrightarrow> m \<in> Members s) \<and>
     0 \<le> nextMember s \<and> (\<exists>f. named s f)"

lemma sessionOk_stays: "sessionOk D s \<Longrightarrow> stays s s' \<Longrightarrow> sessionOk D s'"
  unfolding sessionOk_def stays_def named_def tokensAgree_def by auto

lemma sessionOk_mono: "sessionOk D s \<Longrightarrow> D \<subseteq> D' \<Longrightarrow> sessionOk D' s"
  unfolding sessionOk_def by blast

lemma token_member: "sessionOk D s \<Longrightarrow> Mapping.lookup (tokenMember s) t = Some m \<Longrightarrow> m \<in> Members s"
  unfolding sessionOk_def tokensAgree_def by (metis keys_dom_lookup domI)

text \<open>The tables after a member is dropped or added.\<close>

lemma dropMember_simps [simp]:
  "Members (dropMember m s) = Members s - {m}" "esEngine (dropMember m s) = esEngine s"
  "nextMember (dropMember m s) = nextMember s"
  "memberInfo (dropMember m s) = Mapping.delete m (memberInfo s)"
  "memberBoard (dropMember m s) = Mapping.delete m (memberBoard s)"
  "readOnly (dropMember m s) = Mapping.delete m (readOnly s)" "leases (dropMember m s) = leases s"
  "memberToken (dropMember m s) = memberToken s" "tokenMember (dropMember m s) = tokenMember s"
  by (simp_all add: dropMember_def)

lemma addMember_simps [simp]:
  "Members (addMember m p ro b t s) = insert m (Members s)" "esEngine (addMember m p ro b t s) = esEngine s"
  "nextMember (addMember m p ro b t s) = nextMember s"
  "memberInfo (addMember m p ro b t s) = Mapping.update m p (memberInfo s)"
  "memberBoard (addMember m p ro b t s) = Mapping.update m b (memberBoard s)"
  "readOnly (addMember m p ro b t s) = Mapping.update m ro (readOnly s)"
  "leases (addMember m p ro b t s) = leases s"
  "memberToken (addMember m p ro b t s) = Mapping.update m t (memberToken s)"
  "tokenMember (addMember m p ro b t s) = Mapping.update t m (tokenMember s)"
  by (simp_all add: addMember_def)

lemma infoOf_addMember: "infoOf n (addMember m p ro b t s) = (if n = m then p else infoOf n s)"
  by (simp add: infoOf_def lookup_update')

lemma infoOf_dropMember: "n \<noteq> m \<Longrightarrow> infoOf n (dropMember m s) = infoOf n s"
  by (simp add: infoOf_def)

lemma infoOf_frame [simp]:
  "infoOf n (s\<lparr>nextMember := k\<rparr>) = infoOf n s" "infoOf n (s\<lparr>leases := l\<rparr>) = infoOf n s"
  "infoOf n (s\<lparr>memberToken := mt\<rparr>) = infoOf n s" "infoOf n (s\<lparr>tokenMember := tm\<rparr>) = infoOf n s"
  "infoOf n (s\<lparr>readOnly := ro\<rparr>) = infoOf n s"
  by (simp_all add: infoOf_def)

lemma addMember_tokens:
  assumes "tokensAgree s" and "Mapping.lookup (memberToken s) m = None" and "Mapping.lookup (tokenMember s) t = None"
  shows "tokensAgree (addMember m p ro b t s)"
  using assms unfolding tokensAgree_def
  by (auto simp: lookup_update' split: if_splits) (metis option.distinct(1))

lemma addMember_named:
  assumes "named s f" and "m \<notin> Members s" and "prID p = memberName k" and "1 \<le> k" and "k \<le> nextMember s"
    and "k \<notin> f ` Members s"
  shows "named (addMember m p ro b t s) (f(m := k))"
proof -
  have "inj_on (f(m := k)) (insert m (Members s))"
    using assms(1,2,6) by (auto simp: named_def inj_on_def)
  then show ?thesis
    using assms(1-5) by (auto simp: named_def infoOf_addMember)
qed

lemma enter_ok:
  assumes ok: "sessionOk D s" and m: "m \<notin> Members s" and t: "t \<notin> D" and p: "prID p = memberName (nextMember s + 1)"
  shows "sessionOk (insert t D) (addMember m p False b t (s\<lparr>nextMember := nextMember s + 1\<rparr>))"
proof -
  let ?s = "s\<lparr>nextMember := nextMember s + 1\<rparr>"
  obtain f where f: "named s f" using ok by (auto simp: sessionOk_def)
  then have "named ?s f" "nextMember s + 1 \<notin> f ` Members s" by (fastforce simp: named_def)+
  then have "named (addMember m p False b t ?s) (f(m := nextMember s + 1))"
    using ok m p by (intro addMember_named) (simp_all add: sessionOk_def)
  moreover have "Mapping.lookup (memberToken s) m = None" "Mapping.lookup (tokenMember s) t = None"
    using ok m t by (auto simp: sessionOk_def keys_dom_lookup)
  moreover have "tokensAgree ?s" using ok by (simp add: sessionOk_def tokensAgree_def)
  ultimately show ?thesis
    using ok addMember_tokens [of ?s m t p False b] by (auto simp: sessionOk_def)
qed

lemma drop_named: "named s f \<Longrightarrow> named (dropMember m s) f"
  by (auto simp: named_def infoOf_dropMember inj_on_diff)

lemma named_frame [simp]:
  "named (s\<lparr>leases := l\<rparr>) f = named s f" "named (s\<lparr>memberToken := mt\<rparr>) f = named s f"
  "named (s\<lparr>tokenMember := tm\<rparr>) f = named s f" "named (s\<lparr>readOnly := ro\<rparr>) f = named s f"
  by (simp_all add: named_def)

lemma dropLeases_lookup:
  "Mapping.lookup (Mapping.filter (\<lambda>_ holder. holder \<noteq> m) l) k = Some h \<longleftrightarrow> Mapping.lookup l k = Some h \<and> h \<noteq> m"
  by (auto simp: lookup_filter split: option.split)

lemma forget_tokens:
  assumes "tokensAgree s" and "Mapping.lookup (memberToken s) m = Some t"
  shows "tokensAgree (s\<lparr>tokenMember := Mapping.delete t (tokenMember s),
    memberToken := Mapping.delete m (memberToken s)\<rparr>)"
  using assms unfolding tokensAgree_def by (auto simp: lookup_delete_if) (metis option.inject)

lemma Exit_ok:
  assumes ok: "sessionOk D s"
  shows "sessionOk D (Exit m s)"
proof -
  obtain f where f: "named (dropMember m s) f" using ok drop_named by (auto simp: sessionOk_def)
  show ?thesis
  proof (cases "Mapping.lookup (memberToken s) m")
    case None
    then have "m \<notin> Members s" using ok by (auto simp: sessionOk_def keys_dom_lookup)
    then show ?thesis
      using ok f None by (auto simp: sessionOk_def Exit_def dropLeases_def dropLeases_lookup tokensAgree_def Let_def)
  next
    case (Some t)
    then have "Mapping.lookup (tokenMember s) t = Some m" using ok by (simp add: sessionOk_def tokensAgree_def)
    moreover have "tokensAgree (s\<lparr>tokenMember := Mapping.delete t (tokenMember s),
        memberToken := Mapping.delete m (memberToken s)\<rparr>)"
      using forget_tokens ok Some by (simp add: sessionOk_def)
    ultimately show ?thesis
      using ok f Some by (auto simp: sessionOk_def Exit_def dropLeases_def dropLeases_lookup tokensAgree_def Let_def)
  qed
qed

lemma resume_ok:
  assumes ok: "sessionOk D s" and m: "m \<notin> Members s" and r: "resumeMemberLocked account m name token s = Some (prev, p, s')"
  shows "sessionOk D s'"
proof -
  define q where "q = (if name \<noteq> [] then (infoOf prev s)\<lparr>prName := name\<rparr> else infoOf prev s)"
  let ?s = "passLeases prev m ((dropMember prev s)\<lparr>memberToken := Mapping.delete prev (memberToken s)\<rparr>)"
  have token: "Mapping.lookup (tokenMember s) token = Some prev"
    and s': "s' = addMember m q (isReadOnly prev s) (boardOfMember prev s) token ?s"
    using r by (auto simp: resumeMemberLocked_def q_def Let_def split: if_splits option.splits)
  have prev: "prev \<in> Members s" using token_member [OF ok token] .
  obtain f where f: "named s f" using ok by (auto simp: sessionOk_def)
  have "named ?s f" using drop_named [OF f, of prev] by (simp add: passLeases_def)
  moreover have "f prev \<notin> f ` Members ?s" using f prev by (auto simp: named_def passLeases_def inj_on_def)
  moreover have "prID q = memberName (f prev)" "1 \<le> f prev" "f prev \<le> nextMember ?s" "m \<notin> Members ?s"
    using f prev m by (auto simp: q_def named_def passLeases_def)
  ultimately have "named s' (f(m := f prev))" unfolding s' by (intro addMember_named)
  moreover have "tokensAgree s'"
    using forget_tokens [of s prev token] token ok m unfolding s' sessionOk_def tokensAgree_def
    by (auto simp: passLeases_def lookup_update' lookup_delete_if keys_dom_lookup split: if_splits)
  moreover have "Mapping.keys (tokenMember s') \<subseteq> D"
    using ok domI [of "Mapping.lookup (tokenMember s)", OF token]
    by (auto simp: s' passLeases_def sessionOk_def keys_dom_lookup [symmetric])
  moreover have "\<forall>k h. Mapping.lookup (leases s') k = Some h \<longrightarrow> h \<in> Members s'"
    using ok by (auto simp: s' passLeases_def sessionOk_def lookup_map_values)
  ultimately show ?thesis
    using ok by (auto simp: sessionOk_def s' passLeases_def)
qed

lemma EnterResuming_ok:
  assumes ok: "sessionOk D s" and t: "fresh \<notin> D" and r: "EnterResuming account fresh m name token s = Some (p, tok, d, s')"
  shows "sessionOk (insert fresh D) s'"
proof (cases "m \<in> Members s")
  case True
  then show ?thesis using r ok by (auto simp: EnterResuming_def intro: sessionOk_mono)
next
  case m: False
  show ?thesis
  proof (cases "resumeMemberLocked account m name token s")
    case None
    then have "prID p = memberName (nextMember s + 1)"
      and "s' = addMember m p False (curBoard (esEngine s)) fresh (s\<lparr>nextMember := nextMember s + 1\<rparr>)"
      using r m by (auto simp: EnterResuming_def memberName_def Let_def split: Option.bind_splits)
    then show ?thesis using enter_ok ok m t by blast
  next
    case (Some x)
    then obtain q prev where "resumeMemberLocked account m name token s = Some (prev, q, s')"
      using r m by (cases x) (auto simp: EnterResuming_def)
    then show ?thesis using resume_ok [OF ok m] sessionOk_mono by blast
  qed
qed

lemma leases_kept:
  "sessionOk D s \<Longrightarrow> Mapping.lookup l k = Some h \<Longrightarrow> l = leases s \<Longrightarrow> h \<in> Members s"
  by (auto simp: sessionOk_def)

lemma readOnly_ok: "sessionOk D s \<Longrightarrow> m \<in> Members s \<Longrightarrow> sessionOk D (s\<lparr>readOnly := Mapping.update m ro (readOnly s)\<rparr>)"
  by (auto simp: sessionOk_def tokensAgree_def)

lemma dropLeases_ok: "sessionOk D s \<Longrightarrow> sessionOk D (dropLeases m s)"
  by (auto simp: sessionOk_def tokensAgree_def dropLeases_def dropLeases_lookup)

lemma SetMemberReadOnly_ok: "sessionOk D s \<Longrightarrow> sessionOk D (SetMemberReadOnly m ro s)"
  by (auto simp: SetMemberReadOnly_def Let_def readOnly_ok dropLeases_ok)

lemma SetAccountReadOnly_ok:
  assumes "sessionOk D s"
  shows "sessionOk D (snd (SetAccountReadOnly account a ro s))"
proof -
  have "set ms \<subseteq> Members s \<Longrightarrow> sessionOk D s \<Longrightarrow>
    sessionOk D (fold (\<lambda>m s. s\<lparr>readOnly := Mapping.update m ro (readOnly s)\<rparr>) ms s)" for ms s
    by (induction ms arbitrary: s) (simp_all add: readOnly_ok)
  moreover have "finite (Members s)" using assms by (simp add: sessionOk_def)
  ultimately show ?thesis using assms by (auto simp: SetAccountReadOnly_def Let_def)
qed

lemma UpdatePresence_ok: "sessionOk D s \<Longrightarrow> sessionOk D (UpdatePresence m x y s)"
proof -
  assume ok: "sessionOk D s"
  show "sessionOk D (UpdatePresence m x y s)"
  proof (cases "Mapping.lookup (memberInfo s) m")
    case None
    then show ?thesis using ok by (simp add: UpdatePresence_def)
  next
    case (Some p)
    then have "m \<in> Mapping.keys (memberInfo s)" by (auto simp: keys_dom_lookup)
    then have "stays s (UpdatePresence m x y s)"
      using Some
      by (auto simp: UpdatePresence_def stays_def infoOf_def lookup_update' split: prod.split)
    then show ?thesis using ok sessionOk_stays by blast
  qed
qed

lemma AcquireLease_ok: "sessionOk D s \<Longrightarrow> sessionOk D (snd (AcquireLease m k s))"
proof -
  assume ok: "sessionOk D s"
  have "m \<in> Members s \<Longrightarrow> sessionOk D (s\<lparr>leases := Mapping.update key m (leases s)\<rparr>)" for key
    using ok by (auto simp: sessionOk_def tokensAgree_def lookup_update' split: if_splits)
  then show ?thesis using ok by (auto simp: AcquireLease_def split: option.split)
qed

lemma ReleaseLease_ok: "sessionOk D s \<Longrightarrow> sessionOk D (ReleaseLease m k s)"
  by (auto simp: ReleaseLease_def sessionOk_def tokensAgree_def lookup_delete_if split: option.split if_splits)

section \<open>Runs of a session\<close>

definition drawn :: "EditorCall list \<Rightarrow> string list" where
  "drawn calls = concat (map (\<lambda>c. case c of CEnter _ _ _ fresh \<Rightarrow> [fresh] | _ \<Rightarrow> []) calls)"

lemma drawn_Cons: "drawn (c # calls) = drawn [c] @ drawn calls"
  by (simp add: drawn_def)

lemma runCall_ok:
  assumes ok: "sessionOk D s" and run: "runCall out c s = Some s'" and fresh: "D \<inter> set (drawn [c]) = {}"
  shows "sessionOk (D \<union> set (drawn [c])) s'"
proof (cases "isMembership c")
  case False
  then have "stays s s'" using world_calls_stay run ok by (simp add: sessionOk_def)
  then show ?thesis using sessionOk_stays [OF ok] sessionOk_mono by blast
next
  case True
  then show ?thesis
  proof (cases c)
    case (CEnter m name token f)
    then show ?thesis using run fresh EnterResuming_ok [OF ok] by (auto simp: drawn_def)
  qed (use run ok in \<open>auto simp: drawn_def Exit_ok SetMemberReadOnly_ok SetAccountReadOnly_ok UpdatePresence_ok
        AcquireLease_ok ReleaseLease_ok\<close>)
qed

lemma runCalls_ok:
  "foldM (runCall out) calls s = Some s' \<Longrightarrow> sessionOk D s \<Longrightarrow> D \<inter> set (drawn calls) = {} \<Longrightarrow>
   distinct (drawn calls) \<Longrightarrow> sessionOk (D \<union> set (drawn calls)) s'"
proof (induction calls arbitrary: s D)
  case Nil
  then show ?case by (simp add: drawn_def)
next
  case (Cons c calls)
  from Cons.prems(1) obtain s1 where s1: "runCall out c s = Some s1" "foldM (runCall out) calls s1 = Some s'"
    by (auto split: Option.bind_splits)
  have "sessionOk (D \<union> set (drawn [c])) s1"
    using runCall_ok [OF Cons.prems(2) s1(1)] Cons.prems(3) by (auto simp: drawn_Cons [of c calls])
  then show ?case
    using Cons.IH [OF s1(2), of "D \<union> set (drawn [c])"] Cons.prems(3,4) by (auto simp: drawn_Cons [of c calls] Un_assoc)
qed

lemma empty_ok: "sessionOk {} (emptySession name e)"
  by (auto simp: sessionOk_def emptySession_def tokensAgree_def named_def)

lemma named_distinct: "named s f \<Longrightarrow> inj_on (\<lambda>m. prID (infoOf m s)) (Members s)"
proof (rule inj_onI)
  fix m n assume f: "named s f" and mn: "m \<in> Members s" "n \<in> Members s" "prID (infoOf m s) = prID (infoOf n s)"
  then have "memberName (f m) = memberName (f n)" "1 \<le> f m" "1 \<le> f n" by (simp_all add: named_def)
  then have "f m = f n" using Str_inj [of "f m" "f n"] by (simp add: memberName_def)
  then show "m = n" using f mn by (auto simp: named_def inj_on_def)
qed

text \<open>
  C30. Whatever the members of an editor session ask for, in any order, reconnections with tokens
  included: its tables list the same members, the two token tables are inverse to each other, a lease
  is held by a member only, and no two members share an id.
\<close>

theorem editor_session_sound:
  assumes "foldM (runCall out) calls (emptySession name e) = Some s" and "distinct (drawn calls)"
  shows "Mapping.keys (memberInfo s) = Members s \<and> Mapping.keys (memberBoard s) = Members s \<and>
     Mapping.keys (readOnly s) = Members s \<and> Mapping.keys (memberToken s) = Members s \<and>
     (\<forall>t m. Mapping.lookup (tokenMember s) t = Some m \<longleftrightarrow> Mapping.lookup (memberToken s) m = Some t) \<and>
     (\<forall>k m. Mapping.lookup (leases s) k = Some m \<longrightarrow> m \<in> Members s) \<and>
     inj_on (\<lambda>m. prID (infoOf m s)) (Members s)"
proof -
  have "sessionOk (set (drawn calls)) s" using runCalls_ok [OF assms(1) empty_ok] assms(2) by simp
  then show ?thesis using named_distinct by (auto simp: sessionOk_def tokensAgree_def)
qed

text \<open>Two authors; the first takes the lease of the board, loses the connection and comes back as connection 3.\<close>

definition nowhere :: Outside where
  "nowhere = \<lparr>outAccount = (\<lambda>_. []), outUnicode = id, outTorn = Board, outCreated = (\<lambda>_. False)\<rparr>"

definition twoAuthors :: "EditorCall list" where
  "twoAuthors = [CEnter 1 [] [] ''aaa'', CEnter 2 ''Bo'' [] ''bbb'', CAcquire 1 (LeaseKey ''board'' 0 0),
     CEnter 3 [] ''aaa'' ''ccc'']"

lemma twoAuthors_runs:
  "map_option (\<lambda>s. (Members s, Mapping.lookup (leases s) (LeaseKey ''board'' 0 0)))
     (foldM (runCall nowhere) twoAuthors (emptySession ''TOWN'' NewEngine)) = Some ({3, 2}, Some 3)"
proof -
  define s0 where "s0 = emptySession ''TOWN'' NewEngine"
  have s0: "Members s0 = {}" "curBoard (esEngine s0) = 0" "BoardCount (World (esEngine s0)) = 0" "nextMember s0 = 0"
    "leases s0 = Mapping.empty" "tokenMember s0 = Mapping.empty" "memberBoard s0 = Mapping.empty"
    by (simp_all add: s0_def emptySession_def NewEngine_def zeroWorld_def)
  have color: "editorPresenceColor 1 = Some 14" "editorPresenceColor 2 = Some 10"
    by (simp_all add: editorPresenceColor_def index_def rmd_def quot_def)
  have key: "leaseKeyLocked 1 (LeaseKey ''board'' 0 0) s = Some (LeaseKey ''board'' 0 0)"
    if "BoardCount (World (esEngine s)) = 0" for s
    using that by (simp add: leaseKeyLocked_def Let_def)
  show ?thesis
    unfolding s0_def [symmetric] twoAuthors_def
    by (simp add: EnterResuming_def resumeMemberLocked_def s0 color Let_def AcquireLease_def key canEditLocked_def
        isReadOnly_def lookup_update' nowhere_def passLeases_def lookup_map_values insert_Diff_if)
qed

theorem editor_session_sound_witness:
  "\<exists>s. foldM (runCall nowhere) twoAuthors (emptySession ''TOWN'' NewEngine) = Some s \<and>
     Members s = {2, 3} \<and> Mapping.lookup (leases s) (LeaseKey ''board'' 0 0) = Some 3 \<and>
     prID (infoOf 2 s) \<noteq> prID (infoOf 3 s)"
proof -
  obtain s where s: "foldM (runCall nowhere) twoAuthors (emptySession ''TOWN'' NewEngine) = Some s"
    "Members s = {2, 3}" "Mapping.lookup (leases s) (LeaseKey ''board'' 0 0) = Some 3"
    using twoAuthors_runs by (auto simp: insert_commute)
  have "distinct (drawn twoAuthors)" by (simp add: drawn_def twoAuthors_def)
  then have "inj_on (\<lambda>m. prID (infoOf m s)) (Members s)" using editor_session_sound [OF s(1)] by blast
  then show ?thesis using s by (auto simp: inj_on_def)
qed

end
