(* ===== verification/Challenges.thy ===== *)
theory Challenges
  imports Texts RoomSave "HOL-Library.Product_Lexorder" "HOL-Library.Multiset"
begin

text \<open>
  Challenges: the catalogue and the goals (\<open>engine/challenge.go\<close>), the leaderboard
  (\<open>engine/challenge_store.go\<close>), a measured run (\<open>engine/challenge_run.go\<close>) and the cache of its
  ghosts (\<open>engine/challenge_ghost.go\<close>).
\<close>

section \<open>The catalogue\<close>

record ChallengeGoal =
  cgKind :: string
  cgAmount :: int
  cgBoard :: int

record ChallengeDefinition =
  cdID :: string
  cdTitle :: string
  cdSummary :: "string list"
  cdWorld :: string
  cdBoard :: int
  cdGoal :: ChallengeGoal
  cdVersion :: int

definition challengeCatalogue :: "ChallengeDefinition list" where
  "challengeCatalogue =
     [\<lparr>cdID = ''gem-dash'', cdTitle = ''Gem Dash'',
       cdSummary = [''Collect all three gems.'', ''Fewest ticks wins.''],
       cdWorld = ''GEMDASH'', cdBoard = 1,
       cdGoal = \<lparr>cgKind = ''gems'', cgAmount = 3, cgBoard = 0\<rparr>, cdVersion = 1\<rparr>]"

definition ChallengeByID :: "(int \<Rightarrow> int) \<Rightarrow> string \<Rightarrow> ChallengeDefinition option" where
  "ChallengeByID lower id' =
     (let wanted = ToLower lower (TrimSpace id')
      in if wanted = [] then None else find (\<lambda>d. cdID d = wanted) challengeCatalogue)"

text \<open>Seconds since the epoch; Go's division truncates, so the remainder of an early date is negative.\<close>

definition ChallengeForDate :: "int \<Rightarrow> ChallengeDefinition option" where
  "ChallengeForDate unix =
     (let n = int (length challengeCatalogue);
          i = rmd (quot unix 86400) n;
          i = (if i < 0 then i + n else i)
      in index challengeCatalogue i)"

definition challengeGoalMet :: "ChallengeGoal \<Rightarrow> PlayerState \<Rightarrow> int \<Rightarrow> bool" where
  "challengeGoalMet goal state boardID =
     (if cgKind goal = ''gems'' then pGems state \<ge> cgAmount goal
      else if cgKind goal = ''score'' then pScore state \<ge> cgAmount goal
      else if cgKind goal = ''board'' then boardID = cgBoard goal
      else False)"

definition ChallengeGoalLine :: "ChallengeGoal \<Rightarrow> string" where
  "ChallengeGoalLine goal =
     (if cgKind goal = ''gems'' then ''Goal: collect '' @ Str (cgAmount goal) @ '' gems''
      else if cgKind goal = ''score'' then ''Goal: score '' @ Str (cgAmount goal)
      else if cgKind goal = ''board'' then ''Goal: reach board '' @ Str (cgBoard goal)
      else ''Goal: unavailable'')"

section \<open>Names of runs and recordings\<close>

definition challengeRunKey :: "string \<Rightarrow> int \<Rightarrow> string" where
  "challengeRunKey challengeID n = ''!challenge:'' @ challengeID @ '':'' @ Str n"

definition isChallengeRunKey :: "string \<Rightarrow> bool" where
  "isChallengeRunKey name \<longleftrightarrow> take (length ''!challenge:'') name = ''!challenge:''"

text \<open>\<open>filepath.Base\<close> on a system whose separator is the slash.\<close>

definition pathBase :: "string \<Rightarrow> string" where
  "pathBase p =
     (if p = [] then ''.''
      else let q = rev (dropWhile (\<lambda>c. c = CHR ''/'') (rev p))
           in if q = [] then ''/'' else rev (takeWhile (\<lambda>c. c \<noteq> CHR ''/'') (rev q)))"

definition trimSuffix :: "string \<Rightarrow> string \<Rightarrow> string" where
  "trimSuffix suffix s =
     (if length suffix \<le> length s \<and> drop (length s - length suffix) s = suffix
      then take (length s - length suffix) s else s)"

definition replayIDChar :: "char \<Rightarrow> bool" where
  "replayIDChar c \<longleftrightarrow> 65 \<le> ord c \<and> ord c \<le> 90 \<or> 97 \<le> ord c \<and> ord c \<le> 122 \<or> 48 \<le> ord c \<and> ord c \<le> 57 \<or>
     c = CHR ''-'' \<or> c = CHR ''_''"

definition sanitizeReplayID :: "string \<Rightarrow> string option" where
  "sanitizeReplayID i =
     (let i = trimSuffix ''.jsonl'' (pathBase (TrimSpace i))
      in if i = [] \<or> i = ''.'' \<or> i = ''..'' \<or> length i > 128 \<or> \<not> list_all replayIDChar i then None else Some i)"

text \<open>\<open>replayPath\<close>: a sanitized id has no separator, so the file it names lies in \<open>dir\<close> itself.\<close>

definition replayPath :: "string \<Rightarrow> string \<Rightarrow> string option" where
  "replayPath dir i =
     (if dir = [] then None
      else map_option (\<lambda>safe. joinPath dir (safe @ ''.jsonl'')) (sanitizeReplayID i))"

definition challengeRecordingID :: "string \<Rightarrow> int \<Rightarrow> string \<Rightarrow> string" where
  "challengeRecordingID challengeID n stamp =
     (let i = ''chal-'' @ challengeID @ ''-'' @ Str n;
          i = (if stamp \<noteq> [] then i @ ''-'' @ stamp else i)
      in case sanitizeReplayID i of Some safe \<Rightarrow> safe | None \<Rightarrow> ''chal-'' @ Str n)"

section \<open>The leaderboard\<close>

abbreviation challengeLeaderboardMax :: nat where
  "challengeLeaderboardMax \<equiv> 25"

abbreviation (input) challengeStoreVersion :: int where
  "challengeStoreVersion \<equiv> 1"

record ChallengeResult =
  crChallengeID :: string
  crVersion :: int
  crAccountKey :: string
  crName :: string
  crTicks :: int
  crScore :: int
  crGems :: int
  crRecordingID :: string
  crEvidence :: string
  crSeq :: int

record ChallengeLeaderboardRow =
  clRank :: int
  clName :: string
  clTicks :: int
  clScore :: int
  clRecordingID :: string
  clYou :: bool

text \<open>\<open>csDisk\<close> is the sequence number and the results in the file that was last renamed into place.\<close>

record ChallengeStore =
  csPath :: string
  csSeq :: int
  csResults :: "(string, ChallengeResult list) mapping"
  csDisk :: "(int \<times> (string, ChallengeResult list) mapping) option"

datatype ChallengeError =
    ErrChallengeResultNotDurable | ErrChallengeResultStale | ErrUnknownChallenge | ErrWrite

definition rankKey :: "ChallengeResult \<Rightarrow> int \<times> int \<times> int" where
  "rankKey r = (crTicks r, - crScore r, crSeq r)"

definition sortChallengeResults :: "ChallengeResult list \<Rightarrow> ChallengeResult list" where
  "sortChallengeResults rows = sort_key rankKey rows"

definition challengeResultBetter :: "ChallengeResult \<Rightarrow> ChallengeResult \<Rightarrow> bool" where
  "challengeResultBetter candidate existing =
     (if crTicks candidate \<noteq> crTicks existing then crTicks candidate < crTicks existing
      else crScore candidate > crScore existing)"

text \<open>What the file holds; the results in the order Go visits them.\<close>

datatype StoreFile =
    StoreMissing
  | StoreUnreadable
  | StoreContents (fileVersion: int) (fileSeq: int) (fileResults: "(string \<times> ChallengeResult list) list")

definition loadRows ::
  "(int \<Rightarrow> int) \<Rightarrow> string \<times> ChallengeResult list \<Rightarrow> ChallengeStore \<Rightarrow> ChallengeStore" where
  "loadRows lower entry s =
     (case ChallengeByID lower (fst entry) of
        None \<Rightarrow> s
      | Some def \<Rightarrow>
          let kept = filter (\<lambda>r. crVersion r = cdVersion def \<and> crAccountKey r \<noteq> [] \<and> crTicks r > 0) (snd entry);
              s = s\<lparr>csSeq := fold (\<lambda>r m. max m (crSeq r)) kept (csSeq s)\<rparr>
          in if kept = [] then s
             else s\<lparr>csResults := Mapping.update (cdID def)
                      (take challengeLeaderboardMax (sortChallengeResults kept)) (csResults s)\<rparr>)"

definition NewChallengeStore :: "(int \<Rightarrow> int) \<Rightarrow> string \<Rightarrow> StoreFile \<Rightarrow> ChallengeStore option" where
  "NewChallengeStore lower path f =
     (let s = \<lparr>csPath = path, csSeq = 0, csResults = Mapping.empty, csDisk = None\<rparr>
      in if path = [] then Some s
         else case f of
           StoreMissing \<Rightarrow> Some s
         | StoreUnreadable \<Rightarrow> None
         | StoreContents version n results \<Rightarrow>
             if version > challengeStoreVersion then None
             else Some (fold (loadRows lower) results (s\<lparr>csSeq := n\<rparr>)))"

definition rowsOf :: "string \<Rightarrow> ChallengeStore \<Rightarrow> ChallengeResult list" where
  "rowsOf i s = (case Mapping.lookup (csResults s) i of None \<Rightarrow> [] | Some rows \<Rightarrow> rows)"

text \<open>The rows with a result put in: one row per account, the better of the two.\<close>

fun putResult :: "ChallengeResult \<Rightarrow> ChallengeResult list \<Rightarrow> ChallengeResult list" where
  "putResult r [] = [r]"
| "putResult r (row # rows) =
     (if crAccountKey row = crAccountKey r
      then (if challengeResultBetter r row then r else row) # rows
      else row # putResult r rows)"

definition addRow :: "ChallengeResult \<Rightarrow> ChallengeResult list \<Rightarrow> ChallengeResult list" where
  "addRow r rows = take challengeLeaderboardMax (sortChallengeResults (putResult r rows))"

fun rankOf :: "string \<Rightarrow> ChallengeResult list \<Rightarrow> int \<Rightarrow> int" where
  "rankOf account [] n = 0"
| "rankOf account (row # rows) n = (if crAccountKey row = account then n else rankOf account rows (n + 1))"

text \<open>\<open>writeLocked\<close>; \<open>written\<close> says whether the temporary file was written and renamed.\<close>

definition storeWrite :: "bool \<Rightarrow> ChallengeStore \<Rightarrow> bool \<times> ChallengeStore" where
  "storeWrite written s =
     (if csPath s = [] then (True, s)
      else if written then (True, s\<lparr>csDisk := Some (csSeq s, csResults s)\<rparr>) else (False, s))"

definition Submit ::
  "(int \<Rightarrow> int) \<Rightarrow> bool \<Rightarrow> ChallengeResult \<Rightarrow> ChallengeStore \<Rightarrow> int \<times> ChallengeError option \<times> ChallengeStore" where
  "Submit lower written r s =
     (if crAccountKey r = [] \<or> crTicks r \<le> 0 then (0, Some ErrChallengeResultNotDurable, s)
      else case ChallengeByID lower (crChallengeID r) of
        None \<Rightarrow> (0, Some ErrUnknownChallenge, s)
      | Some def \<Rightarrow>
          if crVersion r \<noteq> cdVersion def then (0, Some ErrChallengeResultStale, s)
          else let n = csSeq s + 1;
                   r = r\<lparr>crChallengeID := cdID def, crSeq := n\<rparr>;
                   rows = addRow r (rowsOf (cdID def) s);
                   s = s\<lparr>csSeq := n, csResults := Mapping.update (cdID def) rows (csResults s)\<rparr>;
                   (ok, s) = storeWrite written s
               in (rankOf (crAccountKey r) rows 1, if ok then None else Some ErrWrite, s))"

definition Leaderboard :: "(int \<Rightarrow> int) \<Rightarrow> string \<Rightarrow> string \<Rightarrow> ChallengeStore \<Rightarrow> ChallengeLeaderboardRow list" where
  "Leaderboard lower challengeID viewer s =
     (case ChallengeByID lower challengeID of
        None \<Rightarrow> []
      | Some def \<Rightarrow>
          let rows = rowsOf (cdID def) s in
          map (\<lambda>(i, r). \<lparr>clRank = int i, clName = crName r, clTicks = crTicks r, clScore = crScore r,
               clRecordingID = crRecordingID r, clYou = (viewer \<noteq> [] \<and> crAccountKey r = viewer)\<rparr>)
            (zip [1..<Suc (length rows)] rows))"

definition ResultForRecording :: "(int \<Rightarrow> int) \<Rightarrow> string \<Rightarrow> string \<Rightarrow> ChallengeStore \<Rightarrow> ChallengeResult option" where
  "ResultForRecording lower challengeID recordingID s =
     (if recordingID = [] then None
      else case ChallengeByID lower challengeID of
        None \<Rightarrow> None
      | Some def \<Rightarrow> find (\<lambda>r. crRecordingID r = recordingID) (rowsOf (cdID def) s))"

section \<open>Runs\<close>

record ChallengeRun =
  runKey :: string
  runDef :: ChallengeDefinition
  runRecordingID :: string
  runAccountID :: string
  runName :: string
  runTicks :: int
  runPlayerID :: int
  runFinished :: bool
  runResult :: "ChallengeResult option"

definition hexDigit :: "nat \<Rightarrow> char" where
  "hexDigit n = (if n < 10 then chr (48 + int n) else chr (87 + int n))"

text \<open>\<open>%016x\<close>.\<close>

definition hex16 :: "64 word \<Rightarrow> string" where
  "hex16 w = map (\<lambda>i. hexDigit (unat w div 16 ^ (15 - i) mod 16)) [0..<16]"

fun joinWith :: "string \<Rightarrow> string list \<Rightarrow> string" where
  "joinWith sep [] = []"
| "joinWith sep [x] = x"
| "joinWith sep (x # xs) = x @ sep @ joinWith sep xs"

text \<open>\<open>challengeEvidence\<close>: the hash of every live room, in board order.\<close>

definition challengeEvidence :: "RoomManager \<Rightarrow> (string \<times> RoomManager) option" where
  "challengeEvidence rm =
     do { (hashes, rm) \<leftarrow> RoomStateHashes rm;
          Some (joinWith '' '' (map (\<lambda>b. Str b @ '':'' @ hex16 (case Mapping.lookup hashes b of Some h \<Rightarrow> h | None \<Rightarrow> 0))
                  (Mapping.ordered_keys hashes)), rm) }"

text \<open>
  \<open>advanceChallengeLocked\<close>: the run after a tick of its manager, and whether the tick completed it.
\<close>

definition completeRun :: "ChallengeRun \<Rightarrow> PlayerState \<Rightarrow> string \<Rightarrow> ChallengeRun" where
  "completeRun run state evidence =
     run\<lparr>runFinished := True,
         runResult := Some \<lparr>crChallengeID = cdID (runDef run), crVersion = cdVersion (runDef run),
           crAccountKey = runAccountID run, crName = runName run, crTicks = runTicks run,
           crScore = pScore state, crGems = pGems state, crRecordingID = runRecordingID run,
           crEvidence = evidence, crSeq = 0\<rparr>\<rparr>"

definition advanceChallenge :: "ChallengeRun \<Rightarrow> RoomManager \<Rightarrow> (bool \<times> ChallengeRun \<times> RoomManager) option" where
  "advanceChallenge run rm =
     (let run = run\<lparr>runTicks := runTicks run + 1\<rparr> in
      if runFinished run \<or> runPlayerID run = 0 then Some (False, run, rm)
      else do {
        st \<leftarrow> PlayerState_of (runPlayerID run) rm;
        case st of
          None \<Rightarrow> Some (False, run, rm)
        | Some state \<Rightarrow>
            (case PlayerLocation (runPlayerID run) rm of
               None \<Rightarrow> Some (False, run, rm)
             | Some (boardID, _) \<Rightarrow>
                 if \<not> challengeGoalMet (cdGoal (runDef run)) state boardID then Some (False, run, rm)
                 else do {
                   (evidence, rm) \<leftarrow> challengeEvidence rm;
                   Some (True, completeRun run state evidence, rm) }) })"

text \<open>The cache of ghost tracks, the oldest put first to go.\<close>

record 'a challengeGhostCache =
  gcTracks :: "(string, 'a) mapping"
  gcOrder :: "string list"

abbreviation challengeGhostCacheMax :: nat where
  "challengeGhostCacheMax \<equiv> 16"

definition ghostPut :: "string \<Rightarrow> 'a \<Rightarrow> 'a challengeGhostCache \<Rightarrow> 'a challengeGhostCache" where
  "ghostPut i track c =
     (let order = (if Mapping.lookup (gcTracks c) i = None then gcOrder c @ [i] else gcOrder c);
          n = length order - challengeGhostCacheMax
      in \<lparr>gcTracks = fold Mapping.delete (take n order) (Mapping.update i track (gcTracks c)),
          gcOrder = drop n order\<rparr>)"

section \<open>The board\<close>

text \<open>What a run is measured by, the smaller the better.\<close>

definition measure2 :: "ChallengeResult \<Rightarrow> int \<times> int" where
  "measure2 r = (crTicks r, - crScore r)"

lemma better_measure: "challengeResultBetter c e \<longleftrightarrow> measure2 c < measure2 e"
  by (auto simp: challengeResultBetter_def measure2_def)

lemma rankKey_measure: "rankKey r \<le> rankKey q \<Longrightarrow> measure2 r \<le> measure2 q"
  by (auto simp: rankKey_def measure2_def)

definition boardOk :: "ChallengeResult list \<Rightarrow> bool" where
  "boardOk rows \<longleftrightarrow>
     sorted (map rankKey rows) \<and> distinct (map crAccountKey rows) \<and> length rows \<le> challengeLeaderboardMax"

text \<open>A run is accounted for: its account has a row at least as good, or the board is full of such rows.\<close>

definition covers :: "ChallengeResult list \<Rightarrow> ChallengeResult \<Rightarrow> bool" where
  "covers rows q \<longleftrightarrow>
     (\<exists>r\<in>set rows. crAccountKey r = crAccountKey q \<and> measure2 r \<le> measure2 q) \<or>
     length rows = challengeLeaderboardMax \<and> (\<forall>r\<in>set rows. measure2 r \<le> measure2 q)"

lemma putResult_accounts:
  "map crAccountKey (putResult r rows) =
     map crAccountKey rows @ (if crAccountKey r \<in> crAccountKey ` set rows then [] else [crAccountKey r])"
  by (induction rows) auto

lemma putResult_keeps: "x \<in> set rows \<Longrightarrow>
  x \<in> set (putResult r rows) \<or> crAccountKey x = crAccountKey r \<and> challengeResultBetter r x \<and> r \<in> set (putResult r rows)"
  by (induction rows) auto

lemma putResult_new: "\<exists>x\<in>set (putResult r rows). crAccountKey x = crAccountKey r \<and> measure2 x \<le> measure2 r"
  by (induction rows) (auto simp: better_measure not_less)

lemma putResult_from: "x \<in> set (putResult r rows) \<Longrightarrow> x = r \<or> x \<in> set rows"
  by (induction rows) (auto split: if_splits)

lemma putResult_append: "crAccountKey r \<notin> crAccountKey ` set rows \<Longrightarrow> putResult r rows = rows @ [r]"
  by (induction rows) auto

lemma putResult_length: "crAccountKey r \<in> crAccountKey ` set rows \<Longrightarrow> length (putResult r rows) = length rows"
  using putResult_accounts [of r rows] by (metis append.right_neutral length_map)

lemma putResult_better: "x \<in> set (putResult r rows) \<Longrightarrow> crAccountKey r \<in> crAccountKey ` set rows \<Longrightarrow>
  \<exists>y\<in>set rows. measure2 x \<le> measure2 y"
proof (induction rows)
  case (Cons a rows)
  then show ?case by (auto simp: better_measure split: if_splits intro: less_imp_le)
qed simp

lemma addRow_split:
  obtains out where "mset (putResult r rows) = mset (addRow r rows) + mset out"
    and "\<forall>x\<in>set (addRow r rows). \<forall>y\<in>set out. rankKey x \<le> rankKey y"
    and "length (addRow r rows) = min challengeLeaderboardMax (length (putResult r rows))"
    and "length out = length (putResult r rows) - challengeLeaderboardMax"
proof -
  let ?s = "sortChallengeResults (putResult r rows)"
  have "sorted (map rankKey (take challengeLeaderboardMax ?s @ drop challengeLeaderboardMax ?s))"
    unfolding append_take_drop_id by (simp add: sortChallengeResults_def)
  then have "x \<in> set (take challengeLeaderboardMax ?s) \<Longrightarrow> y \<in> set (drop challengeLeaderboardMax ?s) \<Longrightarrow>
      rankKey x \<le> rankKey y" for x y
    unfolding map_append sorted_append by auto
  moreover have "mset (putResult r rows) = mset (take challengeLeaderboardMax ?s) + mset (drop challengeLeaderboardMax ?s)"
    by (metis append_take_drop_id mset_append mset_sort sortChallengeResults_def)
  moreover have "length ?s = length (putResult r rows)" by (simp add: sortChallengeResults_def)
  ultimately show ?thesis using that [of "drop challengeLeaderboardMax ?s"] by (simp add: addRow_def min.commute)
qed

lemma addRow_board: "boardOk rows \<Longrightarrow> boardOk (addRow r rows)"
proof -
  assume "boardOk rows"
  then have "distinct (map crAccountKey (putResult r rows))" by (auto simp: putResult_accounts boardOk_def)
  then have "distinct (map crAccountKey (sortChallengeResults (putResult r rows)))"
    unfolding sortChallengeResults_def by (metis distinct_map distinct_sort mset_map mset_sort mset_eq_imp_distinct_iff)
  then show ?thesis
    by (simp add: boardOk_def addRow_def take_map [symmetric] sortChallengeResults_def sorted_wrt_take)
qed

lemma covers_put:
  assumes z: "z \<in> set (putResult r rows)" "crAccountKey z = crAccountKey q" "measure2 z \<le> measure2 q"
  shows "covers (addRow r rows) q"
proof -
  obtain out where out: "mset (putResult r rows) = mset (addRow r rows) + mset out"
    "\<forall>x\<in>set (addRow r rows). \<forall>y\<in>set out. rankKey x \<le> rankKey y"
    "length (addRow r rows) = min challengeLeaderboardMax (length (putResult r rows))"
    "length out = length (putResult r rows) - challengeLeaderboardMax"
    by (rule addRow_split)
  show ?thesis
  proof (cases "z \<in> set (addRow r rows)")
    case True
    then show ?thesis using z by (auto simp: covers_def)
  next
    case False
    then have "z \<in> set out" using z(1) out(1) by (metis Un_iff set_mset_mset set_mset_union)
    then have "length (addRow r rows) = challengeLeaderboardMax" "\<forall>x\<in>set (addRow r rows). measure2 x \<le> measure2 z"
      using out(2-4) rankKey_measure by (cases out; fastforce)+
    then show ?thesis using z(3) unfolding covers_def by (meson order_trans)
  qed
qed

lemma covers_new: "covers (addRow r rows) r"
  using putResult_new [of r rows] covers_put by blast

lemma covers_full:
  assumes full: "length rows = challengeLeaderboardMax" "\<forall>x\<in>set rows. measure2 x \<le> measure2 q"
  shows "covers (addRow r rows) q"
proof -
  obtain out where out: "mset (putResult r rows) = mset (addRow r rows) + mset out"
    "\<forall>x\<in>set (addRow r rows). \<forall>y\<in>set out. rankKey x \<le> rankKey y"
    "length (addRow r rows) = min challengeLeaderboardMax (length (putResult r rows))"
    "length out = length (putResult r rows) - challengeLeaderboardMax"
    by (rule addRow_split)
  have from_put: "x \<in> set (putResult r rows)" if "x \<in> set (addRow r rows)" for x
    using that out(1) by (metis Un_iff set_mset_mset set_mset_union)
  show ?thesis
  proof (cases "crAccountKey r \<in> crAccountKey ` set rows")
    case True
    then have "\<forall>x\<in>set (addRow r rows). measure2 x \<le> measure2 q"
      using putResult_better [OF from_put True] full(2) by (meson order_trans)
    then show ?thesis using out(3) putResult_length [OF True] full(1) by (simp add: covers_def)
  next
    case False
    then have put: "putResult r rows = rows @ [r]" by (rule putResult_append)
    then obtain y where y: "out = [y]" using out(4) full(1) by (cases out) auto
    have "measure2 r \<le> measure2 q" if r: "r \<in> set (addRow r rows)"
    proof (cases "y = r")
      case True
      then have "mset rows = mset (addRow r rows)" using out(1) put y by simp
      then show ?thesis using r False by (metis image_eqI mset_eq_setD)
    next
      case False
      then have "y \<in> set rows" using out(1) put y by (metis append_is_Nil_conv in_set_conv_decomp mset.simps
            putResult_from set_mset_mset union_iff list.set_intros(1))
      moreover have "measure2 r \<le> measure2 y" using out(2) r y rankKey_measure by simp
      ultimately show ?thesis using full(2) by (meson order_trans)
    qed
    then have "\<forall>x\<in>set (addRow r rows). measure2 x \<le> measure2 q"
      using from_put full(2) put by (metis putResult_from)
    then show ?thesis using out(3) put full(1) by (simp add: covers_def)
  qed
qed

lemma covers_kept: "covers rows q \<Longrightarrow> covers (addRow r rows) q"
  unfolding covers_def [of rows]
proof (elim disjE bexE conjE)
  fix x assume x: "x \<in> set rows" "crAccountKey x = crAccountKey q" "measure2 x \<le> measure2 q"
  show ?thesis
    using putResult_keeps [OF x(1), of r]
  proof
    assume "crAccountKey x = crAccountKey r \<and> challengeResultBetter r x \<and> r \<in> set (putResult r rows)"
    then show ?thesis using x by (intro covers_put [of r]) (auto simp: better_measure)
  qed (use x covers_put in blast)
qed (rule covers_full)

section \<open>Submissions\<close>

definition accepted :: "(int \<Rightarrow> int) \<Rightarrow> string \<Rightarrow> ChallengeResult \<Rightarrow> bool" where
  "accepted lower i r \<longleftrightarrow> crAccountKey r \<noteq> [] \<and> crTicks r > 0 \<and>
     (\<exists>def. ChallengeByID lower (crChallengeID r) = Some def \<and> cdID def = i \<and> crVersion r = cdVersion def)"

text \<open>What a server does to its leaderboard; each submission with whether its write succeeds.\<close>

definition submitAll ::
  "(int \<Rightarrow> int) \<Rightarrow> (bool \<times> ChallengeResult) list \<Rightarrow> ChallengeStore \<Rightarrow> ChallengeStore" where
  "submitAll lower subs s = fold (\<lambda>(written, r) s. snd (snd (Submit lower written r s))) subs s"

lemma Submit_rows:
  "rowsOf i (snd (snd (Submit lower written r s))) =
     (if accepted lower i r then addRow (r\<lparr>crChallengeID := i, crSeq := csSeq s + 1\<rparr>) (rowsOf i s) else rowsOf i s)"
  by (auto simp: Submit_def accepted_def Let_def storeWrite_def rowsOf_def lookup_update' split: option.split)

lemma covers_cong: "crAccountKey q' = crAccountKey q \<Longrightarrow> measure2 q' = measure2 q \<Longrightarrow> covers rows q' = covers rows q"
  by (simp add: covers_def)

lemma submitAll_ok:
  "boardOk (rowsOf i s) \<Longrightarrow> \<forall>q\<in>Q. covers (rowsOf i s) q \<Longrightarrow>
   boardOk (rowsOf i (submitAll lower subs s)) \<and>
   (\<forall>q\<in>Q \<union> {r. r \<in> snd ` set subs \<and> accepted lower i r}. covers (rowsOf i (submitAll lower subs s)) q)"
proof (induction subs arbitrary: s Q)
  case Nil
  then show ?case by (simp add: submitAll_def)
next
  case (Cons sub subs)
  obtain written r where sub: "sub = (written, r)" by (cases sub)
  let ?s = "snd (snd (Submit lower written r s))"
  let ?r = "r\<lparr>crChallengeID := i, crSeq := csSeq s + 1\<rparr>"
  have "covers (addRow ?r rows) r" for rows
    using covers_new [of ?r rows] covers_cong [of ?r r] by (simp add: measure2_def)
  then have "\<forall>q\<in>Q \<union> {q. q = r \<and> accepted lower i r}. covers (rowsOf i ?s) q" "boardOk (rowsOf i ?s)"
    using Cons.prems covers_kept addRow_board by (auto simp: Submit_rows)
  from Cons.IH [OF this(2,1)] show ?case by (auto simp: submitAll_def sub)
qed

text \<open>
  C38. The leaderboard is fair. Whatever runs are submitted, by whom and in what order, written to disk or
  not: the table of a challenge is ranked by ticks, then score, then arrival; it has one row per account
  and at most 25; and every run accepted is beaten or equalled by its account's own row, or by every
  one of 25 rows.
\<close>

theorem leaderboard_fair:
  assumes "rowsOf i s = []"
  shows "sorted (map rankKey (rowsOf i (submitAll lower subs s))) \<and>
     distinct (map crAccountKey (rowsOf i (submitAll lower subs s))) \<and>
     length (rowsOf i (submitAll lower subs s)) \<le> 25 \<and>
     (\<forall>(written, q)\<in>set subs. accepted lower i q \<longrightarrow> covers (rowsOf i (submitAll lower subs s)) q)"
  using submitAll_ok [of i s "{}" lower subs] assms by (fastforce simp: boardOk_def)

text \<open>Ann is slow, Bob faster, and Ann's second try is slower than her first.\<close>

definition dash :: "string \<Rightarrow> int \<Rightarrow> ChallengeResult" where
  "dash account ticks =
     \<lparr>crChallengeID = '' Gem-Dash'', crVersion = 1, crAccountKey = account, crName = account, crTicks = ticks,
      crScore = 0, crGems = 3, crRecordingID = [], crEvidence = [], crSeq = 0\<rparr>"

definition emptyStore :: ChallengeStore where
  "emptyStore = \<lparr>csPath = [], csSeq = 0, csResults = Mapping.empty, csDisk = None\<rparr>"

lemma gem_dash: "map_option cdID (ChallengeByID id '' Gem-Dash'') = Some ''gem-dash''"
    "map_option cdVersion (ChallengeByID id '' Gem-Dash'') = Some 1"
  by code_simp+

lemma dash_accepted: "account \<noteq> [] \<Longrightarrow> ticks > 0 \<Longrightarrow> accepted id ''gem-dash'' (dash account ticks)"
  using gem_dash by (auto simp: accepted_def dash_def)

theorem leaderboard_fair_witness:
  "covers (rowsOf ''gem-dash'' (submitAll id [(True, dash ''ann'' 90), (True, dash ''bob'' 70), (True, dash ''ann'' 95)] emptyStore))
     (dash ''ann'' 90) \<and>
   map crAccountKey (rowsOf ''gem-dash'' (submitAll id [(True, dash ''ann'' 90), (True, dash ''bob'' 70),
     (True, dash ''ann'' 95)] emptyStore)) = [''bob'', ''ann'']"
proof -
  have "rowsOf ''gem-dash'' emptyStore = []" by (simp add: rowsOf_def emptyStore_def)
  moreover have "map crAccountKey (rowsOf ''gem-dash'' (submitAll id [(True, dash ''ann'' 90), (True, dash ''bob'' 70),
     (True, dash ''ann'' 95)] emptyStore)) = [''bob'', ''ann'']"
    by (simp add: submitAll_def Submit_rows dash_accepted)
      (simp add: rowsOf_def emptyStore_def addRow_def sortChallengeResults_def rankKey_def dash_def challengeResultBetter_def)
  ultimately show ?thesis
    using leaderboard_fair [of "''gem-dash''" emptyStore id
        "[(True, dash ''ann'' 90), (True, dash ''bob'' 70), (True, dash ''ann'' 95)]"] dash_accepted [of "''ann''" 90]
    by simp
qed

end
