(* ===== verification/Chat.thy ===== *)
theory Chat
  imports Texts
begin

text \<open>
  Chat: the admission of a line and the rate limit (\<open>engine/chat_admission.go\<close>), who has asked not to
  hear whom (\<open>engine/chat_blocks.go\<close>), who may not speak (\<open>moderationMutes\<close> of \<open>engine/moderation.go\<close>) and
  the log (\<open>engine/chat_db.go\<close>). Times are nanoseconds.
\<close>

section \<open>Admission\<close>

abbreviation chatMaxTextBytes :: nat where
  "chatMaxTextBytes \<equiv> 120"

definition admitChatText :: "string \<Rightarrow> string option" where
  "admitChatText raw =
     (let t = TrimSpace (foldWordmark raw);
          t = (if length t > chatMaxTextBytes then TrimSpace (take chatMaxTextBytes t) else t)
      in if t = [] then None else Some t)"

section \<open>The rate limit\<close>

abbreviation chatRateLimitMax :: nat where
  "chatRateLimitMax \<equiv> 5"

definition chatRateLimitWindow :: int where
  "chatRateLimitWindow = 10 * 1000000000"

type_synonym chatRateLimiter = "(int, int list) mapping"

definition acceptedOf :: "int \<Rightarrow> chatRateLimiter \<Rightarrow> int list" where
  "acceptedOf pid l = (case Mapping.lookup l pid of None \<Rightarrow> [] | Some ts \<Rightarrow> ts)"

definition allow :: "int \<Rightarrow> int \<Rightarrow> chatRateLimiter \<Rightarrow> bool \<times> chatRateLimiter" where
  "allow pid now l =
     (let kept = filter (\<lambda>t. now - t < chatRateLimitWindow) (acceptedOf pid l)
      in if length kept \<ge> chatRateLimitMax then (False, Mapping.update pid kept l)
         else (True, Mapping.update pid (kept @ [now]) l))"

definition forgetLimit :: "int \<Rightarrow> chatRateLimiter \<Rightarrow> chatRateLimiter" where
  "forgetLimit pid l = Mapping.delete pid l"

section \<open>Blocks\<close>

record chatBlockSet =
  cbPlayers :: "int set"
  cbAccounts :: "string set"

type_synonym chatBlocks = "(int, chatBlockSet) mapping"

definition blockSet :: "int \<Rightarrow> chatBlocks \<Rightarrow> chatBlockSet" where
  "blockSet blocker b =
     (case Mapping.lookup b blocker of None \<Rightarrow> \<lparr>cbPlayers = {}, cbAccounts = {}\<rparr> | Some s \<Rightarrow> s)"

definition seedAccounts :: "int \<Rightarrow> string list \<Rightarrow> chatBlocks \<Rightarrow> chatBlocks" where
  "seedAccounts blocker accounts b =
     (if accounts = [] then b
      else let s = blockSet blocker b
           in Mapping.update blocker (s\<lparr>cbAccounts := cbAccounts s \<union> (set accounts - {[]})\<rparr>) b)"

definition setBlock :: "int \<Rightarrow> int \<Rightarrow> string \<Rightarrow> bool \<Rightarrow> chatBlocks \<Rightarrow> bool \<times> chatBlocks" where
  "setBlock blocker target targetAccount blocked b =
     (if target = 0 \<or> target = blocker then (False, b)
      else let s = blockSet blocker b;
               s = (if blocked
                    then s\<lparr>cbPlayers := insert target (cbPlayers s),
                           cbAccounts := (if targetAccount \<noteq> [] then insert targetAccount (cbAccounts s) else cbAccounts s)\<rparr>
                    else s\<lparr>cbPlayers := cbPlayers s - {target},
                           cbAccounts := (if targetAccount \<noteq> [] then cbAccounts s - {targetAccount} else cbAccounts s)\<rparr>)
           in (targetAccount \<noteq> [], Mapping.update blocker s b))"

definition suppresses :: "int \<Rightarrow> int \<Rightarrow> string \<Rightarrow> chatBlocks \<Rightarrow> bool" where
  "suppresses recipient sender senderAccount b =
     (if recipient = sender then False
      else case Mapping.lookup b recipient of
        None \<Rightarrow> False
      | Some s \<Rightarrow> sender \<noteq> 0 \<and> sender \<in> cbPlayers s \<or> senderAccount \<noteq> [] \<and> senderAccount \<in> cbAccounts s)"

text \<open>The accounts come in any order in Go; every caller sorts them.\<close>

definition blockedAccounts :: "int \<Rightarrow> chatBlocks \<Rightarrow> string list" where
  "blockedAccounts blocker b =
     (case Mapping.lookup b blocker of None \<Rightarrow> [] | Some s \<Rightarrow> sorted_list_of_set (cbAccounts s))"

definition forgetBlocks :: "int \<Rightarrow> chatBlocks \<Rightarrow> chatBlocks" where
  "forgetBlocks blocker b = Mapping.delete blocker b"

section \<open>Mutes\<close>

record moderationMutes =
  muAccounts :: "string set"
  muPlayers :: "int set"

definition setMute :: "int \<Rightarrow> string \<Rightarrow> bool \<Rightarrow> moderationMutes \<Rightarrow> bool \<times> moderationMutes" where
  "setMute target account on m =
     (account \<noteq> [],
      if on then m\<lparr>muPlayers := (if target \<noteq> 0 then insert target (muPlayers m) else muPlayers m),
                   muAccounts := (if account \<noteq> [] then insert account (muAccounts m) else muAccounts m)\<rparr>
      else m\<lparr>muPlayers := muPlayers m - {target}, muAccounts := muAccounts m - {account}\<rparr>)"

definition muted :: "int \<Rightarrow> string \<Rightarrow> moderationMutes \<Rightarrow> bool" where
  "muted pid account m \<longleftrightarrow> pid \<noteq> 0 \<and> pid \<in> muPlayers m \<or> account \<noteq> [] \<and> account \<in> muAccounts m"

definition forgetMute :: "int \<Rightarrow> moderationMutes \<Rightarrow> moderationMutes" where
  "forgetMute pid m = m\<lparr>muPlayers := muPlayers m - {pid}\<rparr>"

section \<open>The log\<close>

record ChatRecord =
  crFrom :: string
  crText :: string
  crTimestamp :: int
  crPlayerID :: int
  crAccountID :: string

text \<open>
  \<open>GetRecentMessages\<close>: the last \<open>limit\<close> lines; a limit that is not positive asks for a slice past the
  end, whose negative or zero length Go refuses or returns empty.
\<close>

definition GetRecentMessages :: "int \<Rightarrow> ChatRecord list \<Rightarrow> ChatRecord list option" where
  "GetRecentMessages limit msgs =
     (let n = int (length msgs) in
      if n = 0 then Some []
      else let start = max 0 (n - limit) in if start > n then None else Some (drop (nat start) msgs))"

text \<open>
  A \<open>json.Decoder\<close> over the log. A value of the wrong shape is an error the decoder goes on after; a
  syntax error or a file that ends within a value is one it keeps returning.
\<close>

datatype LogEntry = Line ChatRecord | WrongShape | Broken

datatype Decoded = Value ChatRecord | DecodeError | EndOfFile

fun Decode :: "LogEntry list \<Rightarrow> Decoded \<times> LogEntry list" where
  "Decode [] = (EndOfFile, [])"
| "Decode (Line r # rest) = (Value r, rest)"
| "Decode (WrongShape # rest) = (DecodeError, rest)"
| "Decode (Broken # rest) = (DecodeError, Broken # rest)"

text \<open>The loop of \<open>NewFileChatDatabase\<close>, which goes on after any error but the end of the file.\<close>

partial_function (option) loadMessages :: "LogEntry list \<Rightarrow> ChatRecord list \<Rightarrow> ChatRecord list option" where
  "loadMessages input msgs =
     (case Decode input of
        (EndOfFile, _) \<Rightarrow> Some msgs
      | (DecodeError, rest) \<Rightarrow> loadMessages rest msgs
      | (Value r, rest) \<Rightarrow> loadMessages rest (msgs @ [r\<lparr>crPlayerID := 0\<rparr>]))"

section \<open>What is admitted\<close>

lemma ascii_printable: "\<forall>c\<in>set s. 0x20 \<le> ord c \<and> ord c < 0x7F \<Longrightarrow> ascii s"
  by (auto simp: ascii_def)

text \<open>
  An admitted line is not empty, has at most 120 characters, all of them printable ASCII, neither
  starts nor ends with a space, and would be admitted again as it is.
\<close>

theorem chat_admitted:
  assumes "admitChatText raw = Some t"
  shows "t \<noteq> [] \<and> length t \<le> 120 \<and> (\<forall>c\<in>set t. 0x20 \<le> ord c \<and> ord c < 0x7F) \<and> \<not> isSpace (ord (hd t)) \<and>
     \<not> isSpace (ord (last t)) \<and> admitChatText t = Some t"
proof -
  let ?trim = "trimBy (\<lambda>c. isSpace (ord c))"
  have p0: "\<forall>c\<in>set (foldWordmark raw). 0x20 \<le> ord c \<and> ord c < 0x7F" using foldWordmark_printable by blast
  define u where "u = ?trim (foldWordmark raw)"
  have pu: "\<forall>c\<in>set u. 0x20 \<le> ord c \<and> ord c < 0x7F"
    using p0 set_trimBy [of _ "foldWordmark raw"] by (auto simp: u_def)
  have pt: "\<forall>c\<in>set (take 120 u). 0x20 \<le> ord c \<and> ord c < 0x7F" using pu set_take_subset [of 120 u] by blast
  have t: "t = (if length u > 120 then ?trim (take 120 u) else u)" "t \<noteq> []"
    using assms TrimSpace_ascii [OF ascii_printable [OF p0]] TrimSpace_ascii [OF ascii_printable [OF pt]]
    by (auto simp: admitChatText_def u_def Let_def split: if_splits)
  have p: "\<forall>c\<in>set t. 0x20 \<le> ord c \<and> ord c < 0x7F"
    using t(1) pu pt set_trimBy [of _ "take 120 u"] by (auto split: if_splits)
  have len: "length t \<le> 120" using t(1) length_trimBy [of _ "take 120 u"] by (auto intro: order_trans)
  have ends: "\<not> isSpace (ord (hd t)) \<and> \<not> isSpace (ord (last t))"
    using t trimBy_hd [of "\<lambda>c. isSpace (ord c)"] trimBy_last [of "\<lambda>c. isSpace (ord c)"] by (auto simp: u_def split: if_splits)
  then have "TrimSpace t = t" using TrimSpace_ascii [OF ascii_printable [OF p]] trimBy_id [of t] by auto
  then have "admitChatText t = Some t"
    using t(2) len foldWordmark_ascii [OF p] by (simp add: admitChatText_def)
  then show ?thesis using t(2) len p ends by simp
qed

text \<open>A greeting in curly quotes with a no-break space after it.\<close>

theorem chat_admitted_witness:
  "admitChatText (map chr [0x20, 0xE2, 0x80, 0x9C, 104, 105, 0xE2, 0x80, 0x9D, 0xC2, 0xA0]) = Some (chr 34 # ''hi'' @ [chr 34]) \<and>
   admitChatText (chr 34 # ''hi'' @ [chr 34]) = Some (chr 34 # ''hi'' @ [chr 34])"
proof -
  have "admitChatText (map chr [0x20, 0xE2, 0x80, 0x9C, 104, 105, 0xE2, 0x80, 0x9D, 0xC2, 0xA0]) =
      Some (chr 34 # ''hi'' @ [chr 34])"
    by code_simp
  then show ?thesis using chat_admitted by blast
qed

section \<open>The rate\<close>

text \<open>
  What the server asks of a limiter: whether a line of a player at a time may pass, and to forget a player who left.
  \<open>runLimit\<close> has the lines that pass.
\<close>

datatype limitCall = Ask int int | Forget int

fun runLimit :: "limitCall list \<Rightarrow> chatRateLimiter \<Rightarrow> (int \<times> int) list" where
  "runLimit [] l = []"
| "runLimit (Ask pid now # calls) l =
     (case allow pid now l of (admitted, l) \<Rightarrow> (if admitted then [(pid, now)] else []) @ runLimit calls l)"
| "runLimit (Forget pid # calls) l = runLimit calls (forgetLimit pid l)"

fun clock :: "limitCall list \<Rightarrow> int list" where
  "clock [] = []"
| "clock (Ask pid now # calls) = now # clock calls"
| "clock (Forget pid # calls) = clock calls"

definition timesOf :: "int \<Rightarrow> (int \<times> int) list \<Rightarrow> int list" where
  "timesOf pid calls = map snd (filter (\<lambda>c. fst c = pid) calls)"

definition inWindow :: "int \<Rightarrow> int list \<Rightarrow> int list" where
  "inWindow a ts = filter (\<lambda>t. a \<le> t \<and> t < a + chatRateLimitWindow) ts"

text \<open>\<open>A\<close> are the times admitted since the player was last forgotten, the last call was at \<open>n\<close>.\<close>

definition limitOk :: "int \<Rightarrow> chatRateLimiter \<Rightarrow> int list \<Rightarrow> int \<Rightarrow> bool" where
  "limitOk pid l A n \<longleftrightarrow>
     (\<forall>now\<ge>n. filter (\<lambda>t. now - t < chatRateLimitWindow) (acceptedOf pid l) =
              filter (\<lambda>t. now - t < chatRateLimitWindow) A) \<and>
     (\<forall>t\<in>set A. t \<le> n) \<and> (\<forall>a. length (inWindow a A) \<le> chatRateLimitMax)"

lemma acceptedOf_update: "acceptedOf pid (Mapping.update i ts l) = (if i = pid then ts else acceptedOf pid l)"
  by (simp add: acceptedOf_def lookup_update')

lemma filter_later:
  "n \<le> now \<Longrightarrow> filter (\<lambda>t. n - t < w \<and> now - t < w) ts = filter (\<lambda>t. now - t < (w::int)) ts"
  by (auto intro!: filter_cong)

lemma limitOk_refused:
  assumes "limitOk pid l A n" and "n \<le> now"
  shows "limitOk pid (Mapping.update pid (filter (\<lambda>t. now - t < chatRateLimitWindow) (acceptedOf pid l)) l) A now"
  using assms by (auto simp: limitOk_def acceptedOf_update filter_later)

lemma limitOk_admitted:
  assumes ok: "limitOk pid l A n" and now: "n \<le> now"
    and few: "length (filter (\<lambda>t. now - t < chatRateLimitWindow) (acceptedOf pid l)) < chatRateLimitMax"
  shows "limitOk pid (Mapping.update pid (filter (\<lambda>t. now - t < chatRateLimitWindow) (acceptedOf pid l) @ [now]) l)
     (A @ [now]) now"
proof -
  have "length (inWindow a (A @ [now])) \<le> chatRateLimitMax" for a
  proof (cases "a \<le> now \<and> now < a + chatRateLimitWindow")
    case True
    have "length (inWindow a A) \<le> length (filter (\<lambda>t. now - t < chatRateLimitWindow) A)"
      unfolding inWindow_def using True by (induction A) auto
    then show ?thesis using few ok now True by (auto simp: limitOk_def inWindow_def)
  next
    case False
    then show ?thesis using ok by (auto simp: limitOk_def inWindow_def)
  qed
  then show ?thesis using ok now by (auto simp: limitOk_def acceptedOf_update filter_later)
qed

lemma limitOk_other: "limitOk pid l A n \<Longrightarrow> n \<le> now \<Longrightarrow> i \<noteq> pid \<Longrightarrow> limitOk pid (Mapping.update i ts l) A now"
  by (auto simp: limitOk_def acceptedOf_update)

lemma acceptedOf_forget: "acceptedOf pid (forgetLimit i l) = (if i = pid then [] else acceptedOf pid l)"
  by (simp add: acceptedOf_def forgetLimit_def lookup_delete_if)

lemma limitOk_forgotten: "limitOk pid (forgetLimit pid l) [] n"
  by (simp add: limitOk_def acceptedOf_forget inWindow_def)

lemma inWindow_append: "inWindow a (ts @ us) = inWindow a ts @ inWindow a us"
  by (simp add: inWindow_def)

lemma runLimit_bound:
  "limitOk pid l A n \<Longrightarrow> sorted (n # clock calls) \<Longrightarrow>
   length (inWindow a (A @ timesOf pid (runLimit calls l))) \<le> chatRateLimitMax * Suc (count_list calls (Forget pid))"
proof (induction calls arbitrary: l A n)
  case Nil
  then show ?case by (simp add: limitOk_def timesOf_def)
next
  case (Cons c calls)
  show ?case
  proof (cases c)
    case (Ask i now)
    have now: "n \<le> now" "sorted (now # clock calls)" using Cons.prems(2) Ask by auto
    show ?thesis
    proof (cases "i = pid")
      case False
      then show ?thesis
        using Cons.IH [OF limitOk_other [OF Cons.prems(1) now(1) False] now(2)]
        by (auto simp: Ask allow_def Let_def timesOf_def)
    next
      case True
      then show ?thesis
        using Cons.IH [OF limitOk_refused [OF Cons.prems(1) now(1)] now(2)]
          Cons.IH [OF limitOk_admitted [OF Cons.prems(1) now(1)] now(2)]
        by (auto simp: Ask allow_def Let_def timesOf_def not_le)
    qed
  next
    case (Forget i)
    have later: "sorted (n # clock calls)" using Cons.prems(2) Forget by simp
    show ?thesis
    proof (cases "i = pid")
      case False
      then have "limitOk pid (forgetLimit i l) A n" using Cons.prems(1) by (simp add: limitOk_def acceptedOf_forget)
      then show ?thesis using Cons.IH [OF _ later] False by (simp add: Forget)
    next
      case True
      have "length (inWindow a A) \<le> chatRateLimitMax" using Cons.prems(1) by (simp add: limitOk_def)
      then show ?thesis using Cons.IH [OF limitOk_forgotten [of pid l n] later] True by (simp add: Forget inWindow_append)
    qed
  qed
qed

text \<open>
  C39. On a clock that does not go back, however many lines the players send, however they interleave and whoever is
  forgotten in between: of any ten seconds, at most five lines of one player are admitted, and at most five more for
  each time the limiter was told to forget that player. A player who is never forgotten is held to five.
\<close>

theorem chat_rate_bounded:
  assumes "sorted (clock calls)"
  shows "length (inWindow a (timesOf pid (runLimit calls Mapping.empty))) \<le> 5 * (1 + count_list calls (Forget pid))"
proof -
  obtain n where n: "sorted (n # clock calls)" using assms by (cases "clock calls") auto
  have "limitOk pid Mapping.empty [] n" by (simp add: limitOk_def acceptedOf_def inWindow_def)
  then show ?thesis using runLimit_bound [of pid Mapping.empty "[]" n calls a] n by simp
qed

text \<open>Six lines in six seconds: the sixth is refused, unless the player is forgotten before it.\<close>

definition fiveLines :: "limitCall list" where
  "fiveLines = map (\<lambda>i. Ask 7 (i * 1000000000)) [0, 1, 2, 3, 4]"

theorem chat_rate_bounded_witness:
  "length (inWindow 0 (timesOf 7 (runLimit (fiveLines @ [Ask 7 5000000000]) Mapping.empty))) \<le> 5 \<and>
   timesOf 7 (runLimit (fiveLines @ [Ask 7 5000000000]) Mapping.empty) =
     [0, 1000000000, 2000000000, 3000000000, 4000000000] \<and>
   timesOf 7 (runLimit (fiveLines @ [Forget 7, Ask 7 5000000000]) Mapping.empty) =
     [0, 1000000000, 2000000000, 3000000000, 4000000000, 5000000000]"
  using chat_rate_bounded [of "fiveLines @ [Ask 7 5000000000]" 0 7]
  by (simp add: fiveLines_def allow_def forgetLimit_def acceptedOf_def chatRateLimitWindow_def timesOf_def lookup_update'
      lookup_delete_if Let_def)

section \<open>A damaged log\<close>

fun kept :: "LogEntry list \<Rightarrow> ChatRecord list" where
  "kept [] = []"
| "kept (Line r # rest) = r\<lparr>crPlayerID := 0\<rparr> # kept rest"
| "kept (_ # rest) = kept rest"

lemma loadMessages_broken: "loadMessages (Broken # rest) msgs = None"
proof -
  have "loadMessages input msgs = Some r \<Longrightarrow> input \<noteq> Broken # rest" for input msgs r
  proof (induction rule: loadMessages.raw_induct [rotated, consumes 1, case_names step])
    case (step f input msgs r)
    show ?case using step(2) by (auto split: Decoded.splits prod.splits dest: step(1))
  qed
  then show ?thesis by (cases "loadMessages (Broken # rest) msgs") blast+
qed

text \<open>
  C40. A log with a broken entry, a line cut short by a crash for instance, is never loaded: the loop of
  \<open>NewFileChatDatabase\<close> does not end. Every other log is, without the entries of the wrong shape and
  without the connection numbers of an earlier process.
\<close>

theorem chat_log_load:
  "loadMessages input msgs = (if Broken \<in> set input then None else Some (msgs @ kept input))"
proof (induction input arbitrary: msgs)
  case Nil
  then show ?case by (subst loadMessages.simps) simp
next
  case (Cons x rest)
  show ?case
  proof (cases x)
    case Broken
    then show ?thesis by (simp add: loadMessages_broken)
  qed (use Cons in \<open>(subst loadMessages.simps, simp)+\<close>)
qed

end
