(* ===== verification/Accounts.thy ===== *)
theory Accounts
  imports Challenges Chat
begin

text \<open>
  Accounts: profiles (\<open>engine/profile.go\<close>), comfort settings (\<open>comfort.go\<close>), the stores of preferences and player
  states (\<open>chat_db.go\<close>), the rights to a world (\<open>world_access.go\<close>) and the play counts (\<open>world_activity.go\<close>).
\<close>

section \<open>Profiles\<close>

record AccountProfilePreferences =
  prHandle :: string
  prDisplayName :: string
  prAbout :: "string list"

datatype PrefsError = InvalidHandle | HandleTaken | InvalidText | InvalidComfort | NoAccountID | WriteFailed

definition trimPrefix :: "string \<Rightarrow> string \<Rightarrow> string" where
  "trimPrefix p s = (if take (length p) s = p then drop (length p) s else s)"

definition handleChar :: "char \<Rightarrow> bool" where
  "handleChar c \<longleftrightarrow> 97 \<le> ord c \<and> ord c \<le> 122 \<or> 48 \<le> ord c \<and> ord c \<le> 57 \<or> c = CHR ''_''"

definition NormalizeProfileHandle :: "(int \<Rightarrow> int) \<Rightarrow> string \<Rightarrow> PrefsError + string" where
  "NormalizeProfileHandle lower raw =
     (let h = ToLower lower (trimPrefix ''@'' (TrimSpace raw)) in
      if h = [] then Inr []
      else if length h < 3 \<or> length h > 16 then Inl InvalidHandle
      else if list_all handleChar h then Inr h else Inl InvalidHandle)"

text \<open>A line cut to a number of characters.\<close>

definition fitProfileLine :: "nat \<Rightarrow> string \<Rightarrow> string" where
  "fitProfileLine n line =
     (if length (runesOf line) \<le> n then line else concat (map encodeRune (take n (runesOf line))))"

definition sanitizeProfileLine :: "nat \<Rightarrow> string \<Rightarrow> PrefsError + string" where
  "sanitizeProfileLine n raw =
     (let line = TrimSpace raw in
      if line = [] then Inr []
      else let line = fitProfileLine n line in
           if \<exists>r\<in>set (runesOf line). r < 32 \<or> r = 127 \<or> r > 126 then Inl InvalidText else Inr line)"

fun sanitizeAbout :: "string list \<Rightarrow> PrefsError + string list" where
  "sanitizeAbout [] = Inr []"
| "sanitizeAbout (l # ls) =
     (case sanitizeProfileLine 40 l of
        Inl e \<Rightarrow> Inl e
      | Inr clean \<Rightarrow> (case sanitizeAbout ls of
            Inl e \<Rightarrow> Inl e
          | Inr rest \<Rightarrow> Inr (if clean \<noteq> [] then clean # rest else rest)))"

definition SanitizeAccountProfile ::
  "(int \<Rightarrow> int) \<Rightarrow> AccountProfilePreferences \<Rightarrow> PrefsError + AccountProfilePreferences" where
  "SanitizeAccountProfile lower p =
     (case NormalizeProfileHandle lower (prHandle p) of
        Inl e \<Rightarrow> Inl e
      | Inr h \<Rightarrow>
          case sanitizeProfileLine 24 (prDisplayName p) of
            Inl e \<Rightarrow> Inl e
          | Inr d \<Rightarrow>
              if length (prAbout p) > 3 then Inl InvalidText
              else case sanitizeAbout (prAbout p) of
                Inl e \<Rightarrow> Inl e
              | Inr about \<Rightarrow> Inr \<lparr>prHandle = h, prDisplayName = d, prAbout = about\<rparr>)"

definition PublicProfileLines :: "string \<Rightarrow> AccountProfilePreferences \<Rightarrow> bool \<Rightarrow> string list" where
  "PublicProfileLines name profile found =
     (let pad = (\<lambda>l. ''  '' @ fitProfileLine 40 l) in
      if \<not> found then [[], pad (if TrimSpace name = [] then ''That player'' else name), ''  Guest, no profile.'', []]
      else let display = (if prDisplayName profile \<noteq> [] then prDisplayName profile
                          else if name \<noteq> [] then name else ''Player'');
               lines = [[], pad display];
               lines = (if prHandle profile \<noteq> [] then lines @ [''  @'' @ prHandle profile] else lines);
               lines = (if prAbout profile \<noteq> [] then lines @ [] # map pad (prAbout profile) else lines);
               lines = (if length lines = 2 then lines @ [''  No profile yet.''] else lines)
           in lines @ [[]])"

definition accountProfileHasPublicFields :: "AccountProfilePreferences \<Rightarrow> bool" where
  "accountProfileHasPublicFields p \<longleftrightarrow> prHandle p \<noteq> [] \<or> prDisplayName p \<noteq> [] \<or> prAbout p \<noteq> []"

section \<open>Comfort\<close>

record ComfortPreferences =
  cpKeyPreset :: string
  cpKeyBindings :: "(string, string list) mapping"
  cpReduceFlashing :: bool
  cpPalette :: string

definition comfortMovementActions :: "string list" where
  "comfortMovementActions = [''up'', ''down'', ''left'', ''right'', ''shoot'', ''shift'']"

definition comfortActions :: "string list" where
  "comfortActions = comfortMovementActions @
     [''enter'', ''escape'', ''torch'', ''pause'', ''sound'', ''save'', ''quit'', ''help'']"

definition keyChar :: "char \<Rightarrow> bool" where
  "keyChar c \<longleftrightarrow> 65 \<le> ord c \<and> ord c \<le> 90 \<or> 97 \<le> ord c \<and> ord c \<le> 122 \<or> 48 \<le> ord c \<and> ord c \<le> 57"

text \<open>\<open>keyCodePattern\<close>.\<close>

definition keyCode :: "string \<Rightarrow> bool" where
  "keyCode s \<longleftrightarrow>
     2 \<le> length s \<and> length s \<le> 32 \<and> keyChar (hd s) \<and> list_all (\<lambda>c. keyChar c \<or> c = CHR ''_'' \<or> c = CHR ''-'') (tl s)"

text \<open>A key serves movement or the other actions, not both; \<open>seen\<close> says which.\<close>

definition bindCode :: "bool \<Rightarrow> string \<Rightarrow> (string, bool) mapping \<Rightarrow> (string, bool) mapping option" where
  "bindCode isMovement code seen =
     (if \<not> keyCode code then None
      else case Mapping.lookup seen code of
        None \<Rightarrow> Some (Mapping.update code isMovement seen)
      | Some prior \<Rightarrow> if prior \<noteq> isMovement then None else Some (Mapping.update code isMovement seen))"

definition bindAction ::
  "ComfortPreferences \<Rightarrow> string \<Rightarrow> (string, bool) mapping \<times> (string, string list) mapping \<Rightarrow>
   ((string, bool) mapping \<times> (string, string list) mapping) option" where
  "bindAction prefs action s =
     (case s of (seen, out) \<Rightarrow>
      let codes = Mapping.lookup_default [] (cpKeyBindings prefs) action in
      if action \<notin> set comfortActions \<or> codes = [] \<or> length codes > 4 then None
      else do { seen \<leftarrow> foldM (bindCode (action \<in> set comfortMovementActions)) codes seen;
                Some (seen, Mapping.update action codes out) })"

definition SanitizeComfortPreferences :: "ComfortPreferences \<Rightarrow> ComfortPreferences option" where
  "SanitizeComfortPreferences prefs =
     (let bound = Mapping.ordered_keys (cpKeyBindings prefs);
          out = prefs\<lparr>cpKeyBindings := Mapping.empty\<rparr>
      in if cpKeyPreset out = [] \<and> cpPalette out = [] \<and> \<not> cpReduceFlashing out \<and> bound = [] then Some out
         else let out = (if cpKeyPreset out = [] then out\<lparr>cpKeyPreset := ''vanilla''\<rparr> else out) in
         if cpKeyPreset out \<notin> {''vanilla'', ''one-handed'', ''custom''} then None
         else let out = (if cpPalette out = [] then out\<lparr>cpPalette := ''vanilla''\<rparr> else out) in
         if cpPalette out \<notin> {''vanilla'', ''high-contrast'', ''colorblind-assist''} then None
         else if bound = [] then Some out
         else if length bound > length comfortActions then None
         else map_option (\<lambda>(_, keys). out\<lparr>cpKeyBindings := keys\<rparr>)
           (foldM (bindAction prefs) bound (Mapping.empty, Mapping.empty)))"

section \<open>The store of an account\<close>

record AccountHintPreferences =
  hintPlayers :: bool
  hintDeath :: bool
  hintChat :: bool

record AccountPreferences =
  apColor :: string
  apBlockedAccounts :: "string list"
  apHints :: AccountHintPreferences
  apProfile :: AccountProfilePreferences
  apFollowedAccounts :: "string list"
  apShareLocation :: bool
  apFavoriteWorlds :: "string list"
  apComfort :: ComfortPreferences

definition emptyProfile :: AccountProfilePreferences where
  "emptyProfile = \<lparr>prHandle = [], prDisplayName = [], prAbout = []\<rparr>"

definition emptyPreferences :: AccountPreferences where
  "emptyPreferences =
     \<lparr>apColor = [], apBlockedAccounts = [], apHints = \<lparr>hintPlayers = False, hintDeath = False, hintChat = False\<rparr>,
      apProfile = emptyProfile, apFollowedAccounts = [], apShareLocation = False, apFavoriteWorlds = [],
      apComfort = \<lparr>cpKeyPreset = [], cpKeyBindings = Mapping.empty, cpReduceFlashing = False, cpPalette = []\<rparr>\<rparr>"

text \<open>\<open>FileChatDatabase\<close>; \<open>handleOwners\<close> is \<open>None\<close> while the map has not been made.\<close>

record AccountStore =
  dbMessages :: "ChatRecord list"
  playerStates :: "(string, PlayerState) mapping"
  accountPrefs :: "(string, AccountPreferences) mapping"
  handleOwners :: "(string, string) mapping option"

definition accountPreferencesKey :: "string \<Rightarrow> string option" where
  "accountPreferencesKey account = (let key = TrimSpace account in if key = [] then None else Some key)"

definition playerStateKey :: "string \<Rightarrow> string \<Rightarrow> string" where
  "playerStateKey account world = world @ chr 9 # account"

definition AddMessage :: "bool \<Rightarrow> ChatRecord \<Rightarrow> AccountStore \<Rightarrow> AccountStore" where
  "AddMessage written rec db = (if written then db\<lparr>dbMessages := dbMessages db @ [rec]\<rparr> else db)"

definition PutPlayerState :: "string \<Rightarrow> string \<Rightarrow> PlayerState \<Rightarrow> AccountStore \<Rightarrow> AccountStore" where
  "PutPlayerState account world st db =
     db\<lparr>playerStates := Mapping.update (playerStateKey account world) st (playerStates db)\<rparr>"

definition GetPlayerState :: "string \<Rightarrow> string \<Rightarrow> AccountStore \<Rightarrow> PlayerState option" where
  "GetPlayerState account world db = Mapping.lookup (playerStates db) (playerStateKey account world)"

definition GetAccountPreferences :: "string \<Rightarrow> AccountStore \<Rightarrow> (PrefsError + AccountPreferences option)" where
  "GetAccountPreferences account db =
     (case accountPreferencesKey account of
        None \<Rightarrow> Inl NoAccountID
      | Some key \<Rightarrow> Inr (Mapping.lookup (accountPrefs db) key))"

fun favoriteLoop :: "string list \<Rightarrow> string list \<Rightarrow> string list" where
  "favoriteLoop [] out = out"
| "favoriteLoop (w # ws) out =
     (case SanitizeSaveName w of
        None \<Rightarrow> favoriteLoop ws out
      | Some safe \<Rightarrow>
          if safe \<in> set out then favoriteLoop ws out
          else let out = out @ [safe] in if length out \<ge> 32 then out else favoriteLoop ws out)"

definition sanitizeFavoriteWorlds :: "string list \<Rightarrow> string list" where
  "sanitizeFavoriteWorlds worlds = favoriteLoop worlds []"

definition followable :: "string \<Rightarrow> string \<Rightarrow> bool" where
  "followable self account \<longleftrightarrow>
     account \<noteq> [] \<and> account \<noteq> self \<and> length account \<le> 256 \<and> \<not> (\<exists>r\<in>set (runesOf account). r < 32 \<or> r = 127)"

definition sanitizeFollowedAccounts :: "string \<Rightarrow> string list \<Rightarrow> string list" where
  "sanitizeFollowedAccounts self accounts = sort (remdups (filter (followable self) (map TrimSpace accounts)))"

definition ownersMap :: "AccountStore \<Rightarrow> (string, string) mapping" where
  "ownersMap db =
     (case handleOwners db of
        Some owners \<Rightarrow> owners
      | None \<Rightarrow> fold (\<lambda>a owners. case Mapping.lookup (accountPrefs db) a of
            Some p \<Rightarrow> if prHandle (apProfile p) \<noteq> [] then Mapping.update (prHandle (apProfile p)) a owners else owners
          | None \<Rightarrow> owners) (Mapping.ordered_keys (accountPrefs db)) Mapping.empty)"

definition handleOf :: "string \<Rightarrow> AccountStore \<Rightarrow> string" where
  "handleOf account db =
     (case Mapping.lookup (accountPrefs db) account of Some p \<Rightarrow> prHandle (apProfile p) | None \<Rightarrow> [])"

definition cleanPreferences :: "(int \<Rightarrow> int) \<Rightarrow> string \<Rightarrow> AccountPreferences \<Rightarrow> PrefsError + AccountPreferences" where
  "cleanPreferences lower account p =
     (case SanitizeAccountProfile lower (apProfile p) of
        Inl e \<Rightarrow> Inl e
      | Inr profile \<Rightarrow>
          case SanitizeComfortPreferences (apComfort p) of
            None \<Rightarrow> Inl InvalidComfort
          | Some comfort \<Rightarrow> Inr (p\<lparr>apProfile := profile,
                apFollowedAccounts := sanitizeFollowedAccounts account (apFollowedAccounts p),
                apFavoriteWorlds := sanitizeFavoriteWorlds (apFavoriteWorlds p), apComfort := comfort\<rparr>))"

text \<open>\<open>putAccountPreferencesLocked\<close>: an error leaves the documents as they were.\<close>

definition ownerOf :: "string \<Rightarrow> (string, string) mapping \<Rightarrow> string" where
  "ownerOf h owners = Mapping.lookup_default [] owners h"

definition putAccountPreferencesLocked ::
  "(int \<Rightarrow> int) \<Rightarrow> string \<Rightarrow> AccountPreferences \<Rightarrow> AccountStore \<Rightarrow> PrefsError option \<times> AccountStore" where
  "putAccountPreferencesLocked lower account next db =
     (let owners = ownersMap db;
          db = db\<lparr>handleOwners := Some owners\<rparr>
      in case cleanPreferences lower account next of
           Inl e \<Rightarrow> (Some e, db)
         | Inr next \<Rightarrow>
             let old = handleOf account db;
                 new = prHandle (apProfile next)
             in if new \<noteq> [] \<and> ownerOf new owners \<noteq> [] \<and> ownerOf new owners \<noteq> account then (Some HandleTaken, db)
                else let owners = (if old \<noteq> [] \<and> old \<noteq> new then Mapping.delete old owners else owners);
                         owners = (if new \<noteq> [] then Mapping.update new account owners else owners)
                     in (None, db\<lparr>handleOwners := Some owners,
                                   accountPrefs := Mapping.update account next (accountPrefs db)\<rparr>))"

definition PutAccountPreferences ::
  "(int \<Rightarrow> int) \<Rightarrow> bool \<Rightarrow> string \<Rightarrow> AccountPreferences \<Rightarrow> AccountStore \<Rightarrow> PrefsError option \<times> AccountStore" where
  "PutAccountPreferences lower written account prefs db =
     (case accountPreferencesKey account of
        None \<Rightarrow> (Some NoAccountID, db)
      | Some key \<Rightarrow>
          case putAccountPreferencesLocked lower key prefs db of
            (Some e, db) \<Rightarrow> (Some e, db)
          | (None, db) \<Rightarrow> (if written then None else Some WriteFailed, db))"

text \<open>The document as it is read: the first account, in the order of their names, keeps a handle.\<close>

definition rebuildOne ::
  "(int \<Rightarrow> int) \<Rightarrow> string \<Rightarrow> (string, string) mapping \<times> (string, AccountPreferences) mapping \<Rightarrow>
   (string, string) mapping \<times> (string, AccountPreferences) mapping" where
  "rebuildOne lower account s =
     (case s of (owners, prefs) \<Rightarrow>
      case Mapping.lookup prefs account of
        None \<Rightarrow> s
      | Some p \<Rightarrow>
          let keep = (\<lambda>h. Mapping.update account (p\<lparr>apProfile := (apProfile p)\<lparr>prHandle := h\<rparr>\<rparr>) prefs) in
          case NormalizeProfileHandle lower (prHandle (apProfile p)) of
            Inl _ \<Rightarrow> (owners, keep [])
          | Inr h \<Rightarrow>
              if h = [] then (owners, keep [])
              else if ownerOf h owners \<noteq> [] \<and> ownerOf h owners \<noteq> account then (owners, keep [])
              else (Mapping.update h account owners, keep h))"

definition rebuildHandleOwnersLocked :: "(int \<Rightarrow> int) \<Rightarrow> AccountStore \<Rightarrow> AccountStore" where
  "rebuildHandleOwnersLocked lower db =
     (case fold (rebuildOne lower) (Mapping.ordered_keys (accountPrefs db)) (Mapping.empty, accountPrefs db) of
        (owners, prefs) \<Rightarrow> db\<lparr>handleOwners := Some owners, accountPrefs := prefs\<rparr>)"

section \<open>The rights to a world\<close>

record WorldAccess =
  OwnerAccountID :: string
  OwnerName :: string
  CollaboratorAccountIDs :: "string list"

definition CanEdit :: "WorldAccess \<Rightarrow> string \<Rightarrow> bool" where
  "CanEdit a account \<longleftrightarrow>
     (if OwnerAccountID a = [] then True
      else if account = [] then False
      else account = OwnerAccountID a \<or> account \<in> set (CollaboratorAccountIDs a))"

definition IsOwner :: "WorldAccess \<Rightarrow> string \<Rightarrow> bool" where
  "IsOwner a account \<longleftrightarrow> OwnerAccountID a \<noteq> [] \<and> account = OwnerAccountID a"

definition AddCollaborator :: "string \<Rightarrow> WorldAccess \<Rightarrow> WorldAccess" where
  "AddCollaborator account a =
     (if account = [] \<or> account = OwnerAccountID a \<or> account \<in> set (CollaboratorAccountIDs a) then a
      else a\<lparr>CollaboratorAccountIDs := CollaboratorAccountIDs a @ [account]\<rparr>)"

lemma CanEdit_AddCollaborator:
  "OwnerAccountID a \<noteq> [] \<Longrightarrow> CanEdit (AddCollaborator account a) b \<longleftrightarrow> CanEdit a b \<or> b = account \<and> b \<noteq> []"
  by (auto simp: CanEdit_def AddCollaborator_def)

section \<open>Play counts\<close>

text \<open>The counts as they are read from the file; a name that is not canonical is added to the one that is.\<close>

definition loadCount :: "string \<Rightarrow> (string, int) mapping \<Rightarrow> (string, int) mapping" where
  "loadCount world counts =
     (case Mapping.lookup counts world of
        None \<Rightarrow> counts
      | Some n \<Rightarrow>
          case SanitizeSaveName world of
            None \<Rightarrow> Mapping.delete world counts
          | Some safe \<Rightarrow>
              if n \<le> 0 then Mapping.delete world counts
              else if safe \<noteq> world
              then Mapping.delete world (Mapping.update safe (Mapping.lookup_default 0 counts safe + n) counts)
              else counts)"

definition NewWorldActivityStore :: "(string, int) mapping \<Rightarrow> (string, int) mapping" where
  "NewWorldActivityStore file = fold loadCount (Mapping.ordered_keys file) file"

definition IncrementPlay :: "string \<Rightarrow> (string, int) mapping \<Rightarrow> (bool \<times> (string, int) mapping)" where
  "IncrementPlay world counts =
     (case SanitizeSaveName world of
        None \<Rightarrow> (False, counts)
      | Some safe \<Rightarrow> (True, Mapping.update safe (Mapping.lookup_default 0 counts safe + 1) counts))"

section \<open>One account, one handle\<close>

definition properHandle :: "string \<Rightarrow> bool" where
  "properHandle h \<longleftrightarrow> 3 \<le> length h \<and> length h \<le> 16 \<and> list_all handleChar h"

lemma NormalizeProfileHandle_proper: "NormalizeProfileHandle lower raw = Inr h \<Longrightarrow> h \<noteq> [] \<Longrightarrow> properHandle h"
  by (auto simp: NormalizeProfileHandle_def properHandle_def Let_def split: if_splits)

text \<open>The owners of the handles are exactly the accounts that hold them.\<close>

definition holds :: "(string, AccountPreferences) mapping \<Rightarrow> string \<Rightarrow> string" where
  "holds prefs account = (case Mapping.lookup prefs account of Some p \<Rightarrow> prHandle (apProfile p) | None \<Rightarrow> [])"

definition ownersAgree :: "(string, string) mapping \<Rightarrow> (string, AccountPreferences) mapping \<Rightarrow> bool" where
  "ownersAgree owners prefs \<longleftrightarrow>
     (\<forall>h a. h \<noteq> [] \<longrightarrow> Mapping.lookup owners h = Some a \<longleftrightarrow> holds prefs a = h) \<and>
     (\<forall>a. holds prefs a \<noteq> [] \<longrightarrow> a \<noteq> [] \<and> properHandle (holds prefs a))"

lemma holds_update: "holds (Mapping.update a p prefs) b = (if b = a then prHandle (apProfile p) else holds prefs b)"
  by (simp add: holds_def lookup_update')

lemma ownerOf_lookup: "ownerOf h owners = (case Mapping.lookup owners h of Some a \<Rightarrow> a | None \<Rightarrow> [])"
  by (simp add: ownerOf_def Mapping.lookup_default_def)

text \<open>Giving a free handle to an account, and taking away the one it had.\<close>

lemma ownersAgree_take:
  assumes "ownersAgree owners prefs" and "h \<noteq> []" and "properHandle h" and "a \<noteq> []"
    and free: "ownerOf h owners = [] \<or> ownerOf h owners = a"
    and p: "prHandle (apProfile p) = h"
    and old: "owners' = (if holds prefs a \<noteq> [] \<and> holds prefs a \<noteq> h then Mapping.delete (holds prefs a) owners else owners)"
  shows "ownersAgree (Mapping.update h a owners') (Mapping.update a p prefs)"
proof -
  have l: "Mapping.lookup owners k = Some b \<longleftrightarrow> holds prefs b = k" if "k \<noteq> []" for k b
    using assms(1) that by (simp add: ownersAgree_def)
  have free': "holds prefs b = h \<Longrightarrow> b = a" for b
  proof -
    assume b: "holds prefs b = h"
    then have "Mapping.lookup owners h = Some b" using l assms(2) by blast
    moreover have "b \<noteq> []" using assms(1,2) b by (auto simp: ownersAgree_def)
    ultimately show "b = a" using free by (simp add: ownerOf_lookup)
  qed
  have look: "k \<noteq> [] \<Longrightarrow> Mapping.lookup (Mapping.update h a owners') k =
      (if k = h then Some a else if k = holds prefs a then None else Mapping.lookup owners k)" for k
    by (auto simp: old lookup_update' lookup_delete_if)
  have uniq: "holds prefs b = holds prefs a \<Longrightarrow> holds prefs a \<noteq> [] \<Longrightarrow> b = a" for b
    using l by (metis option.inject)
  have "Mapping.lookup (Mapping.update h a owners') k = Some b \<longleftrightarrow> holds (Mapping.update a p prefs) b = k"
    if k: "k \<noteq> []" for k b
  proof (cases "k = h")
    case True
    then show ?thesis using look [OF k] free' [of b] p by (auto simp: holds_update)
  next
    case False
    then show ?thesis using look [OF k] l [OF k, of b] uniq [of b] k p by (auto simp: holds_update)
  qed
  then show ?thesis
    using assms(1-4) p by (simp add: ownersAgree_def holds_update)
qed

lemma ownersAgree_drop:
  assumes "ownersAgree owners prefs" and p: "prHandle (apProfile p) = []"
    and old: "owners' = (if holds prefs a \<noteq> [] then Mapping.delete (holds prefs a) owners else owners)"
  shows "ownersAgree owners' (Mapping.update a p prefs)"
proof -
  have l: "Mapping.lookup owners k = Some b \<longleftrightarrow> holds prefs b = k" if "k \<noteq> []" for k b
    using assms(1) that by (simp add: ownersAgree_def)
  have look: "k \<noteq> [] \<Longrightarrow> Mapping.lookup owners' k =
      (if k = holds prefs a then None else Mapping.lookup owners k)" for k
    by (auto simp: old lookup_delete_if)
  have uniq: "holds prefs b = holds prefs a \<Longrightarrow> holds prefs a \<noteq> [] \<Longrightarrow> b = a" for b
    using l by (metis option.inject)
  have "Mapping.lookup owners' k = Some b \<longleftrightarrow> holds (Mapping.update a p prefs) b = k" if k: "k \<noteq> []" for k b
    using look [OF k] l [OF k, of b] uniq [of b] k p by (auto simp: holds_update)
  then show ?thesis
    using assms(1) p by (simp add: ownersAgree_def holds_update)
qed

text \<open>A store that has made its map of owners, and one that has not.\<close>

definition handlesOk :: "AccountStore \<Rightarrow> bool" where
  "handlesOk db \<longleftrightarrow> ownersAgree (ownersMap db) (accountPrefs db)"

lemma cleanPreferences_handle:
  assumes "cleanPreferences lower account next = Inr p" and "prHandle (apProfile p) \<noteq> []"
  shows "properHandle (prHandle (apProfile p))"
  using assms NormalizeProfileHandle_proper
  by (auto simp: cleanPreferences_def SanitizeAccountProfile_def split: sum.splits option.splits if_splits)

lemma putAccountPreferencesLocked_ok:
  assumes "handlesOk db" and "account \<noteq> []"
  shows "handlesOk (snd (putAccountPreferencesLocked lower account next db))"
proof -
  have agree: "ownersAgree (ownersMap db) (accountPrefs db)" using assms(1) by (simp add: handlesOk_def)
  have made: "handlesOk (db\<lparr>handleOwners := Some (ownersMap db)\<rparr>)" using agree by (simp add: handlesOk_def ownersMap_def)
  have hold: "handleOf account (db\<lparr>handleOwners := x\<rparr>) = holds (accountPrefs db) account" for x
    by (simp add: handleOf_def holds_def)
  show ?thesis
  proof (cases "cleanPreferences lower account next")
    case (Inl e)
    then show ?thesis using made by (simp add: putAccountPreferencesLocked_def)
  next
    case (Inr p)
    let ?h = "prHandle (apProfile p)"
    show ?thesis
    proof (cases "?h = []")
      case True
      then show ?thesis
        using ownersAgree_drop [OF agree True refl, of account] Inr
        by (auto simp: putAccountPreferencesLocked_def handlesOk_def ownersMap_def hold Let_def)
    next
      case False
      then show ?thesis
        using made Inr ownersAgree_take [OF agree False cleanPreferences_handle [OF Inr False] assms(2) _ refl refl]
        by (auto simp: putAccountPreferencesLocked_def handlesOk_def ownersMap_def hold Let_def)
    qed
  qed
qed

lemma PutAccountPreferences_ok:
  "handlesOk db \<Longrightarrow> handlesOk (snd (PutAccountPreferences lower written account prefs db))"
  using putAccountPreferencesLocked_ok [of db]
  by (auto simp: PutAccountPreferences_def accountPreferencesKey_def Let_def split: option.splits prod.splits)
    (metis snd_conv)+

text \<open>Reading the document: the accounts still to come hold nothing yet in the map.\<close>

definition holdsIn :: "string set \<Rightarrow> (string, AccountPreferences) mapping \<Rightarrow> (string, AccountPreferences) mapping" where
  "holdsIn A prefs = Mapping.filter (\<lambda>a _. a \<in> A) prefs"

lemma holds_holdsIn: "holds (holdsIn A prefs) a = (if a \<in> A then holds prefs a else [])"
  by (simp add: holds_def holdsIn_def lookup_filter split: option.splits)

lemma rebuildOne_ok:
  assumes "ownersAgree owners (holdsIn A prefs)" and "a \<notin> A" and "a \<noteq> []"
    and r: "rebuildOne lower a (owners, prefs) = (owners', prefs')"
  shows "ownersAgree owners' (holdsIn (insert a A) prefs')"
proof (cases "Mapping.lookup prefs a")
  case None
  then have "holds prefs a = []" by (simp add: holds_def)
  then have "holds (holdsIn (insert a A) prefs) = holds (holdsIn A prefs)" by (auto simp: holds_holdsIn)
  then show ?thesis
    using assms(1) r None by (simp add: rebuildOne_def ownersAgree_def)
next
  case (Some p)
  have a: "holds (holdsIn A prefs) a = []" using assms(2) by (simp add: holds_holdsIn)
  have ext: "ownersAgree ow (Mapping.update a q (holdsIn A prefs)) \<Longrightarrow>
      ownersAgree ow (holdsIn (insert a A) (Mapping.update a q prefs))" for ow q
  proof -
    have "holds (Mapping.update a q (holdsIn A prefs)) = holds (holdsIn (insert a A) (Mapping.update a q prefs))"
      by (auto simp: holds_update holds_holdsIn)
    then show "ownersAgree ow (Mapping.update a q (holdsIn A prefs)) \<Longrightarrow>
        ownersAgree ow (holdsIn (insert a A) (Mapping.update a q prefs))" by (simp add: ownersAgree_def)
  qed
  have drop: "ownersAgree owners (holdsIn (insert a A) (Mapping.update a (p\<lparr>apProfile := (apProfile p)\<lparr>prHandle := []\<rparr>\<rparr>) prefs))"
    by (rule ext, rule ownersAgree_drop [OF assms(1)]) (simp_all add: a)
  have take: "ownersAgree (Mapping.update h a owners)
      (holdsIn (insert a A) (Mapping.update a (p\<lparr>apProfile := (apProfile p)\<lparr>prHandle := h\<rparr>\<rparr>) prefs))"
    if "h \<noteq> []" "properHandle h" "ownerOf h owners = [] \<or> ownerOf h owners = a" for h
    by (rule ext, rule ownersAgree_take [OF assms(1) that(1,2) assms(3) that(3)]) (simp_all add: a)
  show ?thesis
    using r Some drop take NormalizeProfileHandle_proper
    by (auto simp: rebuildOne_def Let_def split: sum.splits if_splits)
qed

lemma rebuild_ok:
  "ownersAgree owners (holdsIn A prefs) \<Longrightarrow> set as \<inter> A = {} \<Longrightarrow> distinct as \<Longrightarrow> [] \<notin> set as \<Longrightarrow>
   fold (rebuildOne lower) as (owners, prefs) = (owners', prefs') \<Longrightarrow>
   ownersAgree owners' (holdsIn (A \<union> set as) prefs') \<and> Mapping.keys prefs' = Mapping.keys prefs"
proof (induction as arbitrary: owners prefs A)
  case (Cons a as)
  obtain ow1 p1 where r: "rebuildOne lower a (owners, prefs) = (ow1, p1)" by force
  have "Mapping.keys p1 = Mapping.keys prefs"
    using r by (auto simp: rebuildOne_def keys_dom_lookup lookup_update' Let_def split: option.splits sum.splits if_splits)
  moreover have "ownersAgree ow1 (holdsIn (insert a A) p1)"
    using rebuildOne_ok [OF Cons.prems(1) _ _ r] Cons.prems by auto
  ultimately show ?case using Cons.IH [of ow1 "insert a A" p1] Cons.prems r by auto
qed simp

lemma rebuildHandleOwnersLocked_ok:
  assumes "finite (Mapping.keys (accountPrefs db))" and "[] \<notin> Mapping.keys (accountPrefs db)"
  shows "handlesOk (rebuildHandleOwnersLocked lower db)"
proof -
  obtain ow prefs where f: "fold (rebuildOne lower) (Mapping.ordered_keys (accountPrefs db)) (Mapping.empty, accountPrefs db) =
      (ow, prefs)" by force
  have "ownersAgree Mapping.empty (holdsIn {} (accountPrefs db))"
    by (simp add: ownersAgree_def holds_holdsIn lookup_empty)
  from rebuild_ok [OF this _ _ _ f] have
    "ownersAgree ow (holdsIn (Mapping.keys (accountPrefs db)) prefs)" "Mapping.keys prefs = Mapping.keys (accountPrefs db)"
    using assms by (auto simp: Mapping.ordered_keys_def)
  moreover have "holds (holdsIn (Mapping.keys prefs) prefs) a = holds prefs a" for a
    unfolding holds_holdsIn by (simp add: holds_def keys_dom_lookup domIff)
  ultimately show ?thesis
    using f by (simp add: rebuildHandleOwnersLocked_def handlesOk_def ownersMap_def ownersAgree_def)
qed

fun runPuts :: "(int \<Rightarrow> int) \<Rightarrow> (bool \<times> string \<times> AccountPreferences) list \<Rightarrow> AccountStore \<Rightarrow> AccountStore" where
  "runPuts lower [] db = db"
| "runPuts lower ((written, account, prefs) # puts) db =
     runPuts lower puts (snd (PutAccountPreferences lower written account prefs db))"

lemma runPuts_ok: "handlesOk db \<Longrightarrow> handlesOk (runPuts lower puts db)"
  by (induction puts arbitrary: db) (auto simp: PutAccountPreferences_ok)

lemma handlesOk_unique:
  assumes "handlesOk db" and "handleOf a db \<noteq> []"
  shows "properHandle (handleOf a db)" and "handleOf b db = handleOf a db \<Longrightarrow> b = a"
proof -
  have h: "handleOf c db = holds (accountPrefs db) c" for c by (simp add: handleOf_def holds_def)
  have own: "k \<noteq> [] \<Longrightarrow> Mapping.lookup (ownersMap db) k = Some c \<longleftrightarrow> handleOf c db = k" for k c
    using assms(1) by (simp add: handlesOk_def ownersAgree_def h)
  show "properHandle (handleOf a db)" using assms by (simp add: handlesOk_def ownersAgree_def h)
  show "b = a" if "handleOf b db = handleOf a db" using own [OF assms(2)] that by (metis option.inject)
qed

text \<open>
  C37. One account, one handle. Whatever the stored document says (an account has a name) and whatever profiles
  are stored afterwards, in any order, written to disk or not: no two accounts hold the same handle, and
  every handle has 3 to 16 characters, all of them lower-case letters, digits and underscores.
\<close>

theorem handles_unique:
  assumes "finite (Mapping.keys (accountPrefs db))" and "[] \<notin> Mapping.keys (accountPrefs db)"
    and "db' = runPuts lower puts (rebuildHandleOwnersLocked lower db)" and "handleOf a db' \<noteq> []"
  shows "properHandle (handleOf a db') \<and> (\<forall>b. handleOf b db' = handleOf a db' \<longrightarrow> b = a)"
  using handlesOk_unique [of db'] assms rebuildHandleOwnersLocked_ok [OF assms(1,2)] runPuts_ok by blast

text \<open>Two accounts of a hand-edited document claim the same handle; the first keeps it.\<close>

theorem handles_unique_witness:
  "\<exists>db. handleOf ''u1'' db = ''@Ann'' \<and> handleOf ''u2'' db = '' ANN'' \<and>
     handleOf ''u1'' (rebuildHandleOwnersLocked id db) = ''ann'' \<and> handleOf ''u2'' (rebuildHandleOwnersLocked id db) \<noteq> ''ann''"
proof -
  define own where "own = (\<lambda>h. emptyPreferences\<lparr>apProfile := emptyProfile\<lparr>prHandle := h\<rparr>\<rparr>)"
  define db where "db = \<lparr>dbMessages = [], playerStates = Mapping.empty,
     accountPrefs = Mapping.update ''u1'' (own ''@Ann'') (Mapping.update ''u2'' (own '' ANN'') Mapping.empty),
     handleOwners = None\<rparr>"
  have n: "NormalizeProfileHandle id ''@Ann'' = Inr ''ann''" "NormalizeProfileHandle id '' ANN'' = Inr ''ann''"
    by code_simp+
  have k: "Mapping.keys (accountPrefs db) = {''u1'', ''u2''}"
    by (auto simp: db_def keys_dom_lookup lookup_update' lookup_empty split: if_splits)
  have s: "sorted_list_of_set {''u1'', ''u2''} = [''u1'', ''u2'']" by code_simp
  have u1: "handleOf ''u1'' (rebuildHandleOwnersLocked id db) = ''ann''"
    unfolding rebuildHandleOwnersLocked_def Mapping.ordered_keys_def k s
    by (simp add: db_def rebuildOne_def lookup_update' n own_def ownerOf_def Mapping.lookup_default_def lookup_empty
        handleOf_def)
  have unique: "\<forall>b. handleOf b (rebuildHandleOwnersLocked id db) = handleOf ''u1'' (rebuildHandleOwnersLocked id db) \<longrightarrow> b = ''u1''"
  proof -
    have "finite (Mapping.keys (accountPrefs db))" "[] \<notin> Mapping.keys (accountPrefs db)" unfolding k by simp_all
    moreover have "rebuildHandleOwnersLocked id db = runPuts id [] (rebuildHandleOwnersLocked id db)" by simp
    moreover have "handleOf ''u1'' (rebuildHandleOwnersLocked id db) \<noteq> []" unfolding u1 by simp
    ultimately show ?thesis using handles_unique by blast
  qed
  have "handleOf ''u2'' (rebuildHandleOwnersLocked id db) \<noteq> ''ann''"
  proof
    assume "handleOf ''u2'' (rebuildHandleOwnersLocked id db) = ''ann''"
    then have "''u2'' = ''u1''" using unique u1 by presburger
    then show False by simp
  qed
  moreover have "handleOf ''u1'' db = ''@Ann''" "handleOf ''u2'' db = '' ANN''"
    by (simp_all add: db_def handleOf_def lookup_update' own_def)
  ultimately show ?thesis using u1 by blast
qed

end
