(* ===== verification/Instances.thy ===== *)
theory Instances
  imports Challenges Chat
begin

text \<open>
  A hosted world and its connections (\<open>WorldInstance\<close> of \<open>engine/websocket_server.go\<close>): joining, the
  reconnect grace, watchers, and the tick that steps the rooms and addresses the frames. The
  instance's mutex makes each operation one step. A connection is a number; messages are
  values, and writing them to a socket is the environment's.
\<close>

section \<open>The state\<close>

record webSocketClient =
  wcConn :: int
  wcPlayerID :: int
  wcBoardID :: int
  wcAccountID :: string
  wcWorldName :: string

text \<open>\<open>spEngine\<close> is which engine a watcher's last frame came from, an identity of the engine.\<close>

record spectator =
  spClient :: int
  spBoardID :: int
  spEngine :: "int option"
  spSentWatchers :: int

record WorldInstance =
  wiName :: string
  SourceWorld :: TWorld
  wiRooms :: RoomManager
  Clients :: "(int, webSocketClient) mapping"
  Inputs :: "(int, PlayerInput) mapping"
  Detached :: "(int, int) mapping"
  ResumeTokens :: "(string, int) mapping"
  TokensByPlayer :: "(int, string) mapping"
  Spectators :: "(int, spectator) mapping"
  spectatorDrops :: int
  titleSubs :: int
  idleTicks :: int
  autosaving :: bool
  Private :: bool
  Challenge :: "ChallengeRun option"
  RecordWorld :: string
  RecordID :: string

abbreviation ReconnectGraceTicks :: int where
  "ReconnectGraceTicks \<equiv> 545"

definition onRooms :: "(RoomManager \<Rightarrow> RoomManager option) \<Rightarrow> WorldInstance \<Rightarrow> WorldInstance option" where
  "onRooms f inst = map_option (\<lambda>rm. inst\<lparr>wiRooms := rm\<rparr>) (f (wiRooms inst))"

definition inRooms :: "(RoomManager \<Rightarrow> ('a \<times> RoomManager) option) \<Rightarrow> WorldInstance \<Rightarrow> ('a \<times> WorldInstance) option" where
  "inRooms f inst = map_option (\<lambda>(v, rm). (v, inst\<lparr>wiRooms := rm\<rparr>)) (f (wiRooms inst))"

definition publicWorldName :: "WorldInstance \<Rightarrow> string" where
  "publicWorldName inst = (case Challenge inst of Some run \<Rightarrow> cdWorld (runDef run) | None \<Rightarrow> wiName inst)"

section \<open>Input\<close>

record InputMessage =
  imDeltaX :: int
  imDeltaY :: int
  imShift :: bool
  imKey :: int
  imKeymask :: int

text \<open>The keys of the arrows.\<close>

abbreviation KEY_UP :: int where
  "KEY_UP \<equiv> 200"

abbreviation KEY_LEFT :: int where
  "KEY_LEFT \<equiv> 203"

abbreviation KEY_RIGHT :: int where
  "KEY_RIGHT \<equiv> 205"

abbreviation KEY_DOWN :: int where
  "KEY_DOWN \<equiv> 208"

definition maskBit :: "nat \<Rightarrow> int \<Rightarrow> bool" where
  "maskBit n m \<longleftrightarrow> odd (m div 2 ^ n)"

text \<open>The masks are up 1, down 2, left 4, right 8, shift 16 and shoot 32.\<close>

definition inputMessageToPlayerInput :: "InputMessage \<Rightarrow> PlayerInput" where
  "inputMessageToPlayerInput m =
     (let k = imKeymask m;
          still = \<lparr>iDeltaX = 0, iDeltaY = 0, iShift = maskBit 4 k \<or> maskBit 5 k, iKey = 0\<rparr>
      in if k = 0 then \<lparr>iDeltaX = imDeltaX m, iDeltaY = imDeltaY m, iShift = imShift m, iKey = imKey m\<rparr>
         else if maskBit 0 k then still\<lparr>iDeltaY := -1, iKey := KEY_UP\<rparr>
         else if maskBit 1 k then still\<lparr>iDeltaY := 1, iKey := KEY_DOWN\<rparr>
         else if maskBit 2 k then still\<lparr>iDeltaX := -1, iKey := KEY_LEFT\<rparr>
         else if maskBit 3 k then still\<lparr>iDeltaX := 1, iKey := KEY_RIGHT\<rparr>
         else if maskBit 5 k then still\<lparr>iKey := 32\<rparr>
         else still)"

definition isClient :: "int \<Rightarrow> WorldInstance \<Rightarrow> bool" where
  "isClient p inst \<longleftrightarrow> Mapping.lookup (Clients inst) p \<noteq> None"

definition instSetInput :: "int \<Rightarrow> PlayerInput \<Rightarrow> WorldInstance \<Rightarrow> WorldInstance" where
  "instSetInput p i inst = (if isClient p inst then inst\<lparr>Inputs := Mapping.update p i (Inputs inst)\<rparr> else inst)"

section \<open>Resume tokens\<close>

text \<open>\<open>token\<close> is what the random source yields.\<close>

definition mintResumeToken :: "string \<Rightarrow> int \<Rightarrow> WorldInstance \<Rightarrow> string \<times> WorldInstance" where
  "mintResumeToken token p inst =
     (case Mapping.lookup (TokensByPlayer inst) p of
        Some t \<Rightarrow> (t, inst)
      | None \<Rightarrow> (token, inst\<lparr>ResumeTokens := Mapping.update token p (ResumeTokens inst),
                            TokensByPlayer := Mapping.update p token (TokensByPlayer inst)\<rparr>))"

definition deleteResumeToken :: "int \<Rightarrow> WorldInstance \<Rightarrow> WorldInstance" where
  "deleteResumeToken p inst =
     (case Mapping.lookup (TokensByPlayer inst) p of
        None \<Rightarrow> inst
      | Some t \<Rightarrow> inst\<lparr>ResumeTokens := Mapping.delete t (ResumeTokens inst),
                       TokensByPlayer := Mapping.delete p (TokensByPlayer inst)\<rparr>)"

definition undetach :: "int \<Rightarrow> WorldInstance \<Rightarrow> WorldInstance" where
  "undetach p inst = inst\<lparr>Detached := Mapping.delete p (Detached inst)\<rparr>"

definition dropClient :: "int \<Rightarrow> WorldInstance \<Rightarrow> WorldInstance" where
  "dropClient p inst = inst\<lparr>Clients := Mapping.delete p (Clients inst), Inputs := Mapping.delete p (Inputs inst)\<rparr>"

definition putClient :: "int \<Rightarrow> webSocketClient \<Rightarrow> WorldInstance \<Rightarrow> WorldInstance" where
  "putClient p c inst = inst\<lparr>Clients := Mapping.update p c (Clients inst)\<rparr>"

section \<open>Joining and coming back\<close>

text \<open>
  \<open>tryResume\<close>: the player, their frame and the connection that was displaced. \<open>Inl\<close> is a failure, the
  instance tidied up.
\<close>

definition tryResume ::
  "(string \<Rightarrow> string list) \<Rightarrow> webSocketClient \<Rightarrow> string \<Rightarrow> WorldInstance \<Rightarrow>
   ((unit + int \<times> SnapshotMessage \<times> int option) \<times> WorldInstance) option" where
  "tryResume help client token inst =
     (case Mapping.lookup (ResumeTokens inst) token of
        None \<Rightarrow> Some (Inl (), inst)
      | Some p \<Rightarrow>
          if playerAt p (wiRooms inst) = None
          then Some (Inl (), undetach p (deleteResumeToken p inst))
          else do {
            let old = map_option wcConn (Mapping.lookup (Clients inst) p);
            let client = client\<lparr>wcPlayerID := p\<rparr>;
            let inst = putClient p client (undetach p inst);
            (snap, inst) \<leftarrow> inRooms (RoomSnapshot help p) (inst\<lparr>wiRooms := snd (DrainPlayerEvents p (wiRooms inst))\<rparr>);
            case snap of
              None \<Rightarrow> Some (Inl (), inst)
            | Some s \<Rightarrow>
                Some (Inr (p, s, if old = Some (wcConn client) then None else old),
                  putClient p (client\<lparr>wcBoardID := smBoardID s\<rparr>) inst) })"

text \<open>Who joins: a signed-in account with a name, the state stored for it, its handle and
  whether it has a profile; or a guest with a name.\<close>

datatype Joining =
    Guest string
  | SignedIn string string "PlayerState option" string bool

definition identify :: "int \<Rightarrow> Joining \<Rightarrow> string \<Rightarrow> RoomManager \<Rightarrow> RoomManager option" where
  "identify p who color rm =
     (case who of
        Guest name \<Rightarrow> Some (SetPlayerColor p color (SetPlayerName p name rm))
      | SignedIn account name st handle has \<Rightarrow> do {
          let rm = SetPlayerIdentity p account name rm;
          rm \<leftarrow> (case st of None \<Rightarrow> Some rm | Some state \<Rightarrow> map_option snd (ApplyPlayerState p state rm));
          Some (SetPlayerProfileSummary p handle has (SetPlayerColor p color rm)) })"

definition resolveJoinBoard :: "int \<Rightarrow> int \<Rightarrow> WorldInstance \<Rightarrow> int" where
  "resolveJoinBoard defaultBoard board inst =
     (if board \<noteq> 0 then board
      else let b = CurrentBoard (wInfo (rmWorld (wiRooms inst)));
               b = (if b = 0 then defaultBoard else b)
           in if b = 0 then 1 else b)"

definition resolveWatchBoard :: "int \<Rightarrow> int \<Rightarrow> WorldInstance \<Rightarrow> int" where
  "resolveWatchBoard defaultBoard board inst =
     (let n = BoardCount (rmWorld (wiRooms inst));
          r = resolveJoinBoard defaultBoard board inst;
          r = (if r < 0 \<or> r > n then resolveJoinBoard defaultBoard 0 inst else r)
      in if r < 0 \<or> r > n then 0 else r)"

text \<open>
  The fresh join of \<open>ServeHTTP\<close> and of a transit: the player's token and frame; no frame and the
  player is taken out again.
\<close>

definition removeClientFromInstance :: "int \<Rightarrow> WorldInstance \<Rightarrow> WorldInstance option" where
  "removeClientFromInstance p inst =
     do { let inst = undetach p (deleteResumeToken p (dropClient p inst));
          onRooms (\<lambda>rm. do { (_, rm) \<leftarrow> LeavePlayer p rm; Some (DiscardPendingScore p rm) }) inst }"

definition joinFresh ::
  "(string \<Rightarrow> string list) \<Rightarrow> string \<Rightarrow> webSocketClient \<Rightarrow> int \<Rightarrow> int \<Rightarrow> Joining \<Rightarrow> string \<Rightarrow> WorldInstance \<Rightarrow>
   ((string \<times> SnapshotMessage) option \<times> WorldInstance) option" where
  "joinFresh help token client p board who color inst =
     do { inst \<leftarrow> onRooms (\<lambda>rm. do { (_, rm) \<leftarrow> JoinPlayerWithID p board 0 0 rm; identify p who color rm }) inst;
          let client = client\<lparr>wcPlayerID := p\<rparr>;
          let inst = putClient p client inst;
          let (t, inst) = mintResumeToken token p inst;
          (snap, inst) \<leftarrow> inRooms (RoomSnapshot help p) inst;
          case snap of
            None \<Rightarrow> map_option (\<lambda>inst. (None, inst)) (removeClientFromInstance p inst)
          | Some s \<Rightarrow> Some (Some (t, s), putClient p (client\<lparr>wcBoardID := smBoardID s\<rparr>) inst) }"

section \<open>Losing a connection\<close>

record ChatService =
  chatLimiter :: chatRateLimiter
  blockers :: chatBlocks
  mutes :: moderationMutes

definition forgetConnection :: "int \<Rightarrow> ChatService \<Rightarrow> ChatService" where
  "forgetConnection p cs =
     cs\<lparr>chatLimiter := forgetLimit p (chatLimiter cs), blockers := forgetBlocks p (blockers cs),
        mutes := forgetMute p (mutes cs)\<rparr>"

text \<open>
  \<open>handleReadLoopExit\<close>: the inventory to persist, if there is one, the chat service and the instance. The
  forgetting comes before the check whether the connection still speaks for the player.
\<close>

definition detach :: "int \<Rightarrow> WorldInstance \<Rightarrow> ((string \<times> string \<times> PlayerState) option \<times> WorldInstance) option" where
  "detach p inst =
     (let inst = dropClient p inst in
      case playerAt p (wiRooms inst) of
        None \<Rightarrow> Some (None, undetach p (deleteResumeToken p inst))
      | Some rp \<Rightarrow> do {
          st \<leftarrow> PlayerState_of p (wiRooms inst);
          let inst = inst\<lparr>wiRooms := snd (DrainPlayerEvents p (wiRooms inst)),
                          Detached := Mapping.update p ReconnectGraceTicks (Detached inst)\<rparr>;
          Some (case st of
              Some state \<Rightarrow> if rpAccountID rp \<noteq> [] then Some (rpAccountID rp, wiName inst, state) else None
            | None \<Rightarrow> None, inst) })"

definition handleReadLoopExit ::
  "int \<Rightarrow> int \<Rightarrow> ChatService \<Rightarrow> WorldInstance \<Rightarrow>
   ((string \<times> string \<times> PlayerState) option \<times> ChatService \<times> WorldInstance) option" where
  "handleReadLoopExit conn p cs inst =
     (let cs = forgetConnection p cs in
      if map_option wcConn (Mapping.lookup (Clients inst) p) \<noteq> Some conn then Some (None, cs, inst)
      else map_option (\<lambda>(save, inst). (save, cs, inst)) (detach p inst))"

definition removeDetached :: "int \<Rightarrow> WorldInstance \<Rightarrow> WorldInstance option" where
  "removeDetached p inst =
     onRooms (\<lambda>rm. do { (_, rm) \<leftarrow> LeavePlayer p rm; Some (DiscardPendingScore p rm) })
       (deleteResumeToken p (undetach p inst))"

definition expirePlayer :: "int \<Rightarrow> WorldInstance \<Rightarrow> WorldInstance option" where
  "expirePlayer p inst =
     (case Mapping.lookup (Detached inst) p of
        None \<Rightarrow> Some inst
      | Some ticks \<Rightarrow>
          if ticks \<le> 1 then removeDetached p inst
          else Some (inst\<lparr>Detached := Mapping.update p (ticks - 1) (Detached inst)\<rparr>))"

text \<open>Players in the order of their numbers; in Go it is that of the map.\<close>

definition expireDetached :: "WorldInstance \<Rightarrow> WorldInstance option" where
  "expireDetached inst = foldM expirePlayer (Mapping.ordered_keys (Detached inst)) inst"

section \<open>Watchers\<close>

definition watcherCount :: "int \<Rightarrow> WorldInstance \<Rightarrow> int" where
  "watcherCount b inst =
     int (length (filter (\<lambda>c. map_option spBoardID (Mapping.lookup (Spectators inst) c) = Some b)
       (Mapping.ordered_keys (Spectators inst))))"

datatype ServerMessage =
    DiffFrame DiffMessage int
  | BoardChangeFrame string SnapshotMessage int
  | EventFrame ProtocolEvent
  | WatchSnapshot SnapshotMessage int
  | WatchIdle int int

text \<open>
  One watcher's frame. \<open>engines\<close> gives the identity of the engine that runs a board, \<open>None\<close> when nobody is
  on it; an engine is new when its room was made or made again.
\<close>

definition spectatorMessage ::
  "(int \<Rightarrow> int option) \<Rightarrow> (int, DiffMessage) mapping \<Rightarrow> int \<Rightarrow> int \<times> (int \<times> ServerMessage) list \<times> WorldInstance \<Rightarrow>
   (int \<times> (int \<times> ServerMessage) list \<times> WorldInstance) option" where
  "spectatorMessage engines diffs c acc =
     (case acc of (n, out, inst) \<Rightarrow>
      case Mapping.lookup (Spectators inst) c of
        None \<Rightarrow> Some (n, out, inst)
      | Some sub \<Rightarrow>
          let b = spBoardID sub; count = watcherCount b inst; engine = engines b;
              put = (\<lambda>sub inst. inst\<lparr>Spectators := Mapping.update c sub (Spectators inst)\<rparr>)
          in if engine \<noteq> spEngine sub then
               (if engine = None then Some (n, out, put (sub\<lparr>spEngine := None\<rparr>) inst)
                else do {
                  (snap, _, rm) \<leftarrow> SpectatorSnapshot b (wiRooms inst);
                  Some (n + 1, out @ [(c, WatchSnapshot snap count)],
                    put (sub\<lparr>spEngine := engine, spSentWatchers := count\<rparr>) (inst\<lparr>wiRooms := rm\<rparr>)) })
             else if engine \<noteq> None then
               (case Mapping.lookup diffs b of
                  None \<Rightarrow> Some (n, out, inst)
                | Some d \<Rightarrow> Some (n + 1, out @ [(c, DiffFrame d count)], put (sub\<lparr>spSentWatchers := count\<rparr>) inst))
             else if count \<noteq> spSentWatchers sub
             then Some (n + 1, out @ [(c, WatchIdle b count)], put (sub\<lparr>spSentWatchers := count\<rparr>) inst)
             else Some (n, out, inst))"

definition spectatorMessages ::
  "(int \<Rightarrow> int option) \<Rightarrow> (int, DiffMessage) mapping \<Rightarrow> WorldInstance \<Rightarrow> ((int \<times> ServerMessage) list \<times> WorldInstance) option" where
  "spectatorMessages engines diffs inst =
     map_option snd (foldM (spectatorMessage engines diffs) (Mapping.ordered_keys (Spectators inst)) (0, [], inst))"

definition addSpectator :: "(int \<Rightarrow> int option) \<Rightarrow> int \<Rightarrow> int \<Rightarrow> WorldInstance \<Rightarrow> (SnapshotMessage \<times> int \<times> WorldInstance) option" where
  "addSpectator engines c b inst =
     do { let inst = inst\<lparr>Spectators := Mapping.update c \<lparr>spClient = c, spBoardID = b, spEngine = None, spSentWatchers = 0\<rparr>
                       (Spectators inst)\<rparr>;
          (snap, _, rm) \<leftarrow> SpectatorSnapshot b (wiRooms inst);
          let n = watcherCount b inst;
          Some (snap, n, inst\<lparr>wiRooms := rm, Spectators := Mapping.update c
            \<lparr>spClient = c, spBoardID = b, spEngine = engines b, spSentWatchers = n\<rparr> (Spectators inst)\<rparr>) }"

definition removeSpectator :: "int \<Rightarrow> WorldInstance \<Rightarrow> WorldInstance" where
  "removeSpectator c inst = inst\<lparr>Spectators := Mapping.delete c (Spectators inst)\<rparr>"

text \<open>What a watcher sends is counted and discarded.\<close>

definition spectatorSends :: "WorldInstance \<Rightarrow> WorldInstance" where
  "spectatorSends inst = inst\<lparr>spectatorDrops := spectatorDrops inst + 1\<rparr>"

section \<open>The tick\<close>

text \<open>\<open>safeStepDiffs\<close>: a panic outside the rooms is recovered; \<open>torn\<close> is the manager it leaves.\<close>

definition safeStepDiffs ::
  "(RoomManager \<Rightarrow> RoomManager) \<Rightarrow> (string \<Rightarrow> bool) \<Rightarrow> (string \<Rightarrow> string list) \<Rightarrow> (int \<times> PlayerInput) list \<Rightarrow>
   RoomManager \<Rightarrow> Frames \<times> RoomManager" where
  "safeStepDiffs torn created help inputs rm =
     (case StepDiffsWithBoards created help inputs rm of
        Some r \<Rightarrow> r | None \<Rightarrow> ((Mapping.empty, Mapping.empty), torn rm))"

text \<open>The frame of one player: a snapshot when they changed boards, the diff otherwise.\<close>

definition diffFrame ::
  "(string \<Rightarrow> string list) \<Rightarrow> int \<Rightarrow> webSocketClient \<Rightarrow> DiffMessage \<Rightarrow> WorldInstance \<Rightarrow> ServerMessage \<times> WorldInstance" where
  "diffFrame help p client d inst =
     (let inst = putClient p (client\<lparr>wcBoardID := dmBoardID d\<rparr>) inst;
          (events, rm) = DrainPlayerEvents p (wiRooms inst)
      in (DiffFrame (d\<lparr>dmEvents := dmEvents d @ ProtocolEvents help events\<rparr>) (watcherCount (dmBoardID d) inst),
          inst\<lparr>wiRooms := rm\<rparr>))"

definition playerFrame ::
  "(string \<Rightarrow> string list) \<Rightarrow> int \<times> DiffMessage \<Rightarrow> (int \<times> ServerMessage) list \<times> WorldInstance \<Rightarrow>
   ((int \<times> ServerMessage) list \<times> WorldInstance) option" where
  "playerFrame help pd acc =
     (case pd of (p, d) \<Rightarrow> case acc of (out, inst) \<Rightarrow>
      case Mapping.lookup (Clients inst) p of
        None \<Rightarrow> Some (out, inst)
      | Some client \<Rightarrow>
          if wcBoardID client \<noteq> 0 \<and> wcBoardID client \<noteq> dmBoardID d then do {
            (snap, inst) \<leftarrow> inRooms (RoomSnapshot help p) inst;
            case snap of
              None \<Rightarrow> (let (msg, inst) = diffFrame help p client d inst in Some (out @ [(p, msg)], inst))
            | Some s \<Rightarrow>
                let inst = putClient p (client\<lparr>wcBoardID := smBoardID s\<rparr>) inst;
                    (events, rm) = DrainPlayerEvents p (wiRooms inst)
                in Some (out @ [(p, BoardChangeFrame (publicWorldName inst) (s\<lparr>smEvents := smEvents s @ ProtocolEvents help events\<rparr>)
                       (watcherCount (smBoardID s) inst))], inst\<lparr>wiRooms := rm\<rparr>) }
          else (let (msg, inst) = diffFrame help p client d inst in Some (out @ [(p, msg)], inst)))"

definition quitOutcome :: "RoomManager \<Rightarrow> QuitResult \<Rightarrow> ProtocolEvent" where
  "quitOutcome rm q =
     (if qrListPos q > 0
      then (wireEvent ''highScoreEntry'')\<lparr>peScore := qrScore q, peListPos := qrListPos q,
             peTitle := ''New high score for '' @ WorldName rm, peLines := HighScoreLines (qrListPos q) (qrScore q) rm\<rparr>
      else (wireEvent ''quit'')\<lparr>peScore := qrScore q\<rparr>)"

text \<open>\<open>messages\<close> is a map by player in Go, so an outcome replaces the frame of its player.\<close>

definition putMessage :: "int \<Rightarrow> ServerMessage \<Rightarrow> (int \<times> ServerMessage) list \<Rightarrow> (int \<times> ServerMessage) list" where
  "putMessage p m out = filter (\<lambda>x. fst x \<noteq> p) out @ [(p, m)]"

record TickOut =
  toMessages :: "(int \<times> ServerMessage) list"
  toWatched :: "(int \<times> ServerMessage) list"
  toTransits :: "WorldTransit list"
  toNotices :: "RoomNotice list"
  toNotables :: "(string \<times> string \<times> string) list"
  toCompleted :: bool

definition accountOf :: "int \<Rightarrow> WorldInstance \<Rightarrow> string" where
  "accountOf p inst = (case Mapping.lookup (Clients inst) p of Some c \<Rightarrow> wcAccountID c | None \<Rightarrow> [])"

definition advanceChallengeLocked :: "WorldInstance \<Rightarrow> (bool \<times> WorldInstance) option" where
  "advanceChallengeLocked inst =
     (case Challenge inst of
        None \<Rightarrow> Some (False, inst)
      | Some run \<Rightarrow> do {
          (ok, run, rm) \<leftarrow> advanceChallenge run (wiRooms inst);
          Some (ok, inst\<lparr>Challenge := Some run, wiRooms := rm\<rparr>) })"

text \<open>The locked part of \<open>WorldInstance.Tick\<close>; the deliveries after it are in the result.\<close>

definition instanceTick ::
  "(RoomManager \<Rightarrow> RoomManager) \<Rightarrow> (string \<Rightarrow> bool) \<Rightarrow> (string \<Rightarrow> string list) \<Rightarrow> (int \<Rightarrow> int option) \<Rightarrow> WorldInstance \<Rightarrow>
   (TickOut \<times> WorldInstance) option" where
  "instanceTick torn created help engines inst =
     do { let inputs = Mapping.ordered_entries (Inputs inst);
          let ((diffs, boardDiffs), rm) = safeStepDiffs torn created help inputs (wiRooms inst);
          let inst = inst\<lparr>Inputs := Mapping.empty, wiRooms := rm\<rparr>;
          (out, inst) \<leftarrow> foldM (playerFrame help) (Mapping.ordered_entries diffs) ([], inst);
          let (quits, rm) = DrainQuits (wiRooms inst);
          let out = fold (\<lambda>q out. if isClient (qrPlayerID q) inst
                then putMessage (qrPlayerID q) (EventFrame (quitOutcome rm q)) out else out) quits out;
          (watched, inst) \<leftarrow> spectatorMessages engines boardDiffs (inst\<lparr>wiRooms := rm\<rparr>);
          let (transits, rm) = DrainWorldTransits (wiRooms inst);
          let (notices, rm) = DrainNotices rm;
          let (notables, rm) = DrainNotables rm;
          let news = (if Challenge inst = None \<and> \<not> Private inst
                then map (\<lambda>n. (rnKind n, wiName inst, accountOf (rnPlayerID n) inst)) notables else []);
          (completed, inst) \<leftarrow> advanceChallengeLocked (inst\<lparr>wiRooms := rm\<rparr>);
          Some (\<lparr>toMessages = out, toWatched = watched, toTransits = transits, toNotices = notices,
                 toNotables = news, toCompleted = completed\<rparr>, inst) }"

section \<open>Requests of a connected player\<close>

definition instQuitReply :: "int \<Rightarrow> bool \<Rightarrow> WorldInstance \<Rightarrow> WorldInstance option" where
  "instQuitReply p quit inst =
     (if isClient p inst then onRooms (\<lambda>rm. map_option snd (RoomSubmitQuitReply p quit rm)) inst else Some inst)"

definition instDebugCommand :: "int \<Rightarrow> string \<Rightarrow> WorldInstance \<Rightarrow> WorldInstance option" where
  "instDebugCommand p cmd inst =
     (if isClient p inst \<and> Challenge inst = None
      then onRooms (\<lambda>rm. map_option snd (RoomSubmitDebugCommand p cmd rm)) inst else Some inst)"

definition instScrollReply :: "int \<Rightarrow> int \<Rightarrow> string \<Rightarrow> WorldInstance \<Rightarrow> WorldInstance option" where
  "instScrollReply p statID label inst =
     (if isClient p inst then onRooms (\<lambda>rm. map_option snd (RoomSubmitScrollReply p statID label rm)) inst else Some inst)"

text \<open>The list sent back, and the deed for the Gazette.\<close>

definition instHighScoreName ::
  "int \<Rightarrow> string \<Rightarrow> WorldInstance \<Rightarrow> ((ProtocolEvent \<times> (string \<times> string) option) option \<times> WorldInstance) option" where
  "instHighScoreName p name inst =
     (if \<not> isClient p inst then Some (None, inst)
      else do {
        (ok, inst) \<leftarrow> inRooms (RecordHighScore p name) inst;
        if \<not> ok then Some (None, inst)
        else Some (Some ((wireEvent ''highScores'')\<lparr>peTitle := ''High scores for '' @ WorldName (wiRooms inst),
                 peLines := HighScoreLines 0 0 (wiRooms inst)\<rparr>,
               if Challenge inst = None \<and> \<not> Private inst then Some (wiName inst, accountOf p inst) else None), inst) })"

text \<open>The reply to a save, and the inventory to persist; \<open>errText\<close> words an error.\<close>

definition saveResultEvent :: "(SaveError \<Rightarrow> string) \<Rightarrow> SaveError + string \<times> 'a \<Rightarrow> ProtocolEvent" where
  "saveResultEvent errText r =
     (case r of
        Inl err \<Rightarrow> (wireEvent ''saveResult'')\<lparr>peError := errText err\<rparr>
      | Inr (path, _) \<Rightarrow> (wireEvent ''saveResult'')\<lparr>peFilename := trimSuffix ''.SAV'' (pathBase path)\<rparr>)"

definition instSaveFilename ::
  "(SaveError \<Rightarrow> string) \<Rightarrow> bool \<Rightarrow> bool \<Rightarrow> string \<Rightarrow> int \<Rightarrow> string \<Rightarrow> WorldInstance \<Rightarrow>
   ((ProtocolEvent \<times> (string \<times> string \<times> PlayerState) option) option \<times> WorldInstance) option" where
  "instSaveFilename errText written sidecar dir p name inst =
     (if \<not> isClient p inst \<or> name = [] then Some (None, inst)
      else if Challenge inst \<noteq> None
      then Some (Some ((wireEvent ''saveResult'')\<lparr>peError := ''a challenge run cannot be saved''\<rparr>, None), inst)
      else do {
        st \<leftarrow> PlayerState_of p (wiRooms inst);
        let account = (case PlayerIdentity p (wiRooms inst) of Some (a, _) \<Rightarrow> a | None \<Rightarrow> []);
        (r, inst) \<leftarrow> inRooms (SaveSnapshot written sidecar dir name p) inst;
        Some (Some (saveResultEvent errText r,
            case (r, st) of (Inr _, Some state) \<Rightarrow> if account \<noteq> [] then Some (account, wiName inst, state) else None
                          | _ \<Rightarrow> None), inst) })"

section \<open>Eviction\<close>

definition evictableIdle :: "WorldInstance \<Rightarrow> bool" where
  "evictableIdle inst \<longleftrightarrow>
     Mapping.keys (Clients inst) = {} \<and> Mapping.keys (Inputs inst) = {} \<and> Mapping.keys (Detached inst) = {} \<and>
     Mapping.keys (Spectators inst) = {} \<and> \<not> autosaving inst \<and> titleSubs inst = 0 \<and>
     Mapping.keys (rmPlayers (wiRooms inst)) = {}"

definition advanceIdleEviction :: "int \<Rightarrow> WorldInstance \<Rightarrow> bool \<times> WorldInstance" where
  "advanceIdleEviction limit inst =
     (if \<not> evictableIdle inst then (False, inst\<lparr>idleTicks := 0\<rparr>)
      else let inst = inst\<lparr>idleTicks := idleTicks inst + 1\<rparr>
           in if idleTicks inst < limit then (False, inst)
              else (True, inst\<lparr>wiRooms := SetRecorder None (wiRooms inst)\<rparr>))"

end
