(* ===== verification/Moderation.thy ===== *)
theory Moderation
  imports Accounts Instances Authoring
begin

text \<open>
  The server around its worlds: who is where, chat, private messages, blocks and follows, and moderation with
  its refusals and audit (\<open>engine/websocket_server.go\<close>, \<open>engine/moderation.go\<close>).
\<close>

section \<open>Refusals\<close>

record RefusedAccount =
  raAccount :: string
  raName :: string
  raBy :: string
  raByName :: string
  raWorld :: string
  raAt :: int

type_synonym RefusalStore = "(string, RefusedAccount) mapping"

text \<open>The document as it was read, or nothing when it could not be.\<close>

definition NewRefusalStore :: "(string, RefusedAccount) mapping option \<Rightarrow> RefusalStore" where
  "NewRefusalStore file = (case file of None \<Rightarrow> Mapping.empty | Some loaded \<Rightarrow> Mapping.delete [] loaded)"

definition Refuses :: "string \<Rightarrow> RefusalStore \<Rightarrow> bool" where
  "Refuses account s \<longleftrightarrow> account \<noteq> [] \<and> Mapping.lookup s account \<noteq> None"

definition Refuse :: "bool \<Rightarrow> RefusedAccount \<Rightarrow> RefusalStore \<Rightarrow> PrefsError option \<times> RefusalStore" where
  "Refuse written rec s =
     (if raAccount rec = [] then (Some NoAccountID, s)
      else (if written then None else Some WriteFailed, Mapping.update (raAccount rec) rec s))"

definition ListRefusals :: "RefusalStore \<Rightarrow> RefusedAccount list" where
  "ListRefusals s =
     sort_key (\<lambda>r. (raAt r, raAccount r)) (map (\<lambda>(account, r). r\<lparr>raAccount := account\<rparr>) (Mapping.ordered_entries s))"

text \<open>A lift that could not be written is taken back.\<close>

definition Lift :: "bool \<Rightarrow> string \<Rightarrow> RefusalStore \<Rightarrow> (PrefsError + RefusedAccount option) \<times> RefusalStore" where
  "Lift written account s =
     (if account = [] then (Inr None, s)
      else case Mapping.lookup s account of
        None \<Rightarrow> (Inr None, s)
      | Some r \<Rightarrow>
          let r = r\<lparr>raAccount := account\<rparr>; rest = Mapping.delete account s
          in if written then (Inr (Some r), rest) else (Inl WriteFailed, Mapping.update account r rest))"

lemma Lift_refuses: "Refuses a (snd (Lift written account s)) \<longleftrightarrow>
    Refuses a s \<and> \<not> (written \<and> a = account)"
  by (auto simp: Lift_def Refuses_def Let_def lookup_update' lookup_delete_if split: option.splits)

definition isListSeparator :: "char \<Rightarrow> bool" where
  "isListSeparator c \<longleftrightarrow> c \<in> {CHR '','', CHR '';'', CHR '' '', chr 9, chr 10, chr 13}"

fun fieldsBy :: "(char \<Rightarrow> bool) \<Rightarrow> string \<Rightarrow> string \<Rightarrow> string list" where
  "fieldsBy sep [] field = (if field = [] then [] else [field])"
| "fieldsBy sep (c # s) field =
     (if sep c then (if field = [] then fieldsBy sep s [] else field # fieldsBy sep s []) else fieldsBy sep s (field @ [c]))"

definition parseModeratorAccounts :: "string \<Rightarrow> string set" where
  "parseModeratorAccounts raw = set (map TrimSpace (fieldsBy isListSeparator raw [])) - {[]}"

section \<open>The audit\<close>

datatype AuditResult = Applied | Denied | NoOp | Failed

record ModerationAuditEntry =
  maAt :: int
  maAction :: string
  maResult :: AuditResult
  maOperator :: string
  maOperatorID :: int
  maOperatorName :: string
  maTarget :: int
  maTargetAccount :: string
  maTargetName :: string
  maWorld :: string
  maTick :: int
  maDetail :: string

definition ModerationAuditTail :: nat where
  "ModerationAuditTail = 256"

definition Record :: "ModerationAuditEntry \<Rightarrow> ModerationAuditEntry list \<Rightarrow> ModerationAuditEntry list" where
  "Record entry tail = (let es = tail @ [entry] in drop (length es - ModerationAuditTail) es)"

lemma last_Record [simp]: "last (Record entry es) = entry" and Record_nonempty [simp]: "Record entry es \<noteq> []"
  by (simp_all add: Record_def Let_def ModerationAuditTail_def)

section \<open>The server\<close>

text \<open>
  \<open>svDefault\<close> is the name of the world that is never evicted, while it is still hosted; \<open>svChatDB\<close> is missing on a server
  without a store, \<open>svActivity\<close> on one without play counts.
\<close>

record Server =
  svInstances :: "(string, WorldInstance) mapping"
  svDefault :: "string option"
  svDefaultBoard :: int
  svNextPlayerID :: int
  svFriendlyFire :: bool
  svChatDB :: "AccountStore option"
  svActivity :: "(string, int) mapping option"
  svWorldsDir :: string
  svSavesDir :: string
  svRecordDir :: string
  svRecordStamp :: string
  svEvictIdleTicks :: int
  svAutosaveEveryTicks :: int
  svAutosaveTicks :: int
  svChallengeSeq :: int
  svChallengeStore :: "ChallengeStore option"
  svChat :: ChatService
  moderateLimiter :: chatRateLimiter
  Moderators :: "string set"
  Refusals :: RefusalStore
  Audit :: "ModerationAuditEntry list"

datatype Reply =
    ChatLine string int string
  | PrivateLine string int string int string bool
  | PrivateResult int bool string
  | BlockResult int string bool bool string
  | FollowResult int string bool string
  | ProfileResult int string string "string list"
  | ModerateResult string int string bool bool string
  | ModerationNotice string string bool
  | Announce string int
  | Joined string string SnapshotMessage "int list" "int list" bool
  | Told ProtocolEvent
  | Frame ServerMessage
  | ChallengeOutcome ChallengeResult bool int string
  | ChallengeError string

datatype Effect = Send int Reply | EndConnection int

text \<open>A player, wherever they are: in Go the worlds are asked in any order, but an id is in one at most.\<close>

record moderationTarget =
  mtClient :: "webSocketClient option"
  mtAccount :: string
  mtName :: string
  mtWorld :: string
  mtTick :: int

definition targetIn :: "int \<Rightarrow> WorldInstance \<Rightarrow> moderationTarget option" where
  "targetIn p inst =
     map_option (\<lambda>(account, name).
         \<lparr>mtClient = Mapping.lookup (Clients inst) p, mtAccount = account, mtName = name, mtWorld = wiName inst,
          mtTick = (case PlayerLocation p (wiRooms inst) of
              Some (b, _) \<Rightarrow> (case roomAt b (wiRooms inst) of Some room \<Rightarrow> CurrentTick (rEngine room) | None \<Rightarrow> 0)
            | None \<Rightarrow> 0)\<rparr>)
       (PlayerIdentity p (wiRooms inst))"

definition instances :: "Server \<Rightarrow> WorldInstance list" where
  "instances sv = map snd (Mapping.ordered_entries (svInstances sv))"

definition locatePlayer :: "int \<Rightarrow> Server \<Rightarrow> moderationTarget option" where
  "locatePlayer p sv = (case List.map_filter (targetIn p) (instances sv) of [] \<Rightarrow> None | t # _ \<Rightarrow> Some t)"

definition identifyPlayer :: "int \<Rightarrow> Server \<Rightarrow> (string \<times> string) option" where
  "identifyPlayer p sv = map_option (\<lambda>t. (mtAccount t, mtName t)) (locatePlayer p sv)"

definition isOperator :: "string \<Rightarrow> Server \<Rightarrow> bool" where
  "isOperator account sv \<longleftrightarrow> account \<noteq> [] \<and> account \<in> Moderators sv"

definition refusedAtTheDoor :: "string option \<Rightarrow> Server \<Rightarrow> Reply option" where
  "refusedAtTheDoor account sv =
     (case account of
        None \<Rightarrow> None
      | Some a \<Rightarrow> if Refuses a (Refusals sv)
          then Some (ModerationNotice ''refuse'' ''A moderator has refused this account.'' True) else None)"

definition tellPlayer :: "webSocketClient option \<Rightarrow> string \<Rightarrow> string \<Rightarrow> bool \<Rightarrow> Effect list" where
  "tellPlayer client action msg ended =
     (case client of None \<Rightarrow> [] | Some c \<Rightarrow> [Send (wcConn c) (ModerationNotice action msg ended)])"

definition endConnection :: "webSocketClient option \<Rightarrow> Effect list" where
  "endConnection client = (case client of None \<Rightarrow> [] | Some c \<Rightarrow> [EndConnection (wcConn c)])"

section \<open>Moderation\<close>

definition nameOr :: "string \<Rightarrow> string \<Rightarrow> string" where
  "nameOr fallback name = (if name = [] then fallback else name)"

definition setMuteOf :: "int \<Rightarrow> string \<Rightarrow> bool \<Rightarrow> Server \<Rightarrow> bool \<times> Server" where
  "setMuteOf p account on sv =
     (case setMute p account on (mutes (svChat sv)) of
        (durable, m) \<Rightarrow> (durable, sv\<lparr>svChat := (svChat sv)\<lparr>mutes := m\<rparr>\<rparr>))"

definition audited :: "ModerationAuditEntry \<Rightarrow> Server \<Rightarrow> Server" where
  "audited entry sv = sv\<lparr>Audit := Record entry (Audit sv)\<rparr>"

text \<open>The action on a target that was found; \<open>failure\<close> is the error of writing a refusal, if there is one.\<close>

definition applyModeration ::
  "string option \<Rightarrow> int \<Rightarrow> webSocketClient \<Rightarrow> string \<Rightarrow> int \<Rightarrow> moderationTarget \<Rightarrow> ModerationAuditEntry \<Rightarrow> Server \<Rightarrow>
   Effect list \<times> Server" where
  "applyModeration failure now client action p target audit sv =
     (let name = nameOr ''that player'' (mtName target);
          kick = tellPlayer (mtClient target) ''kick'' ''A moderator has removed you from the game.'' True @
                 endConnection (mtClient target);
          reply = (\<lambda>durable msg. Send (wcConn client) (ModerateResult action p (mtName target) True durable msg));
          finish = (\<lambda>effects durable msg audit sv. (effects @ [reply durable msg], audited (audit\<lparr>maResult := Applied\<rparr>) sv))
      in if action = ''mute'' then
           (case setMuteOf p (mtAccount target) True sv of (durable, sv) \<Rightarrow>
             finish (tellPlayer (mtClient target) action ''A moderator has muted you in chat.'' False) durable
               (''Muted '' @ name @ (if durable then ''.'' else '' for this session.'')) audit sv)
         else if action = ''unmute'' then
           (case setMuteOf p (mtAccount target) False sv of (durable, sv) \<Rightarrow>
             finish (tellPlayer (mtClient target) action ''A moderator has unmuted you.'' False) durable
               (''Unmuted '' @ name @ ''.'') audit sv)
         else if action = ''kick'' then finish kick False (''Kicked '' @ name @ ''.'') audit sv
         else if mtAccount target = [] then
           finish kick False (''Kicked '' @ name @ '': a guest cannot be refused.'')
             (audit\<lparr>maDetail := ''guest: kicked, not refused''\<rparr>) sv
         else
           (let rec = \<lparr>raAccount = mtAccount target, raName = mtName target, raBy = wcAccountID client,
                  raByName = maOperatorName audit, raWorld = mtWorld target, raAt = now\<rparr>;
                sv = sv\<lparr>Refusals := snd (Refuse (failure = None) rec (Refusals sv))\<rparr>
            in case failure of
                 Some err \<Rightarrow> ([Send (wcConn client) (ModerateResult action p (mtName target) False False
                     ''Could not record the refusal.'')], audited (audit\<lparr>maResult := Failed, maDetail := err\<rparr>) sv)
               | None \<Rightarrow> finish (tellPlayer (mtClient target) action ''A moderator has refused this account.'' True @
                     endConnection (mtClient target)) True (''Refused '' @ name @ ''. They cannot rejoin.'') audit sv))"

definition submitModeration ::
  "(int \<Rightarrow> int) \<Rightarrow> string option \<Rightarrow> int \<Rightarrow> webSocketClient \<Rightarrow> int \<Rightarrow> string \<Rightarrow> int \<Rightarrow> Server \<Rightarrow> Effect list \<times> Server" where
  "submitModeration lower failure now client operator raw p sv =
     (let action = ToLower lower (TrimSpace raw) in
      if action \<notin> {''mute'', ''unmute'', ''kick'', ''refuse''} then ([], sv)
      else case allow operator now (moderateLimiter sv) of (admitted, limiter) \<Rightarrow>
      let sv = sv\<lparr>moderateLimiter := limiter\<rparr>;
          audit = \<lparr>maAt = now, maAction = action, maResult = Denied, maOperator = wcAccountID client, maOperatorID = operator,
            maOperatorName = [], maTarget = p, maTargetAccount = [], maTargetName = [], maWorld = wcWorldName client,
            maTick = 0, maDetail = []\<rparr>;
          refuse = (\<lambda>msg audit. ([Send (wcConn client) (ModerateResult action p [] False False msg)], audited audit sv))
      in if \<not> admitted then ([], sv)
         else if \<not> isOperator (wcAccountID client) sv
         then refuse ''You are not a moderator.'' (audit\<lparr>maDetail := ''not on the moderator allowlist''\<rparr>)
         else if p = 0 \<or> p = operator
         then refuse ''You cannot moderate yourself.'' (audit\<lparr>maDetail := ''target is the operator or nobody''\<rparr>)
         else let audit = audit\<lparr>maOperatorName := (case identifyPlayer operator sv of Some (_, n) \<Rightarrow> n | None \<Rightarrow> [])\<rparr> in
           case locatePlayer p sv of
             None \<Rightarrow> refuse ''That player has already left.'' (audit\<lparr>maResult := NoOp, maDetail := ''target not connected''\<rparr>)
           | Some t \<Rightarrow> applyModeration failure now client action p t
               (audit\<lparr>maTargetAccount := mtAccount t, maTargetName := mtName t, maWorld := mtWorld t, maTick := mtTick t\<rparr>) sv)"

section \<open>The store behind the server\<close>

definition withDB :: "(AccountStore \<Rightarrow> AccountStore) \<Rightarrow> Server \<Rightarrow> Server" where
  "withDB f sv = sv\<lparr>svChatDB := map_option f (svChatDB sv)\<rparr>"

definition loadAccountPlayerState :: "string \<Rightarrow> string \<Rightarrow> Server \<Rightarrow> PlayerState option" where
  "loadAccountPlayerState account world sv =
     (case svChatDB sv of
        None \<Rightarrow> None
      | Some db \<Rightarrow> if account = [] \<or> isChallengeRunKey world then None else GetPlayerState account world db)"

definition persistAccountPlayerState :: "string \<Rightarrow> string \<Rightarrow> PlayerState \<Rightarrow> Server \<Rightarrow> Server" where
  "persistAccountPlayerState account world st sv =
     (if account = [] \<or> isChallengeRunKey world then sv else withDB (PutPlayerState account world st) sv)"

definition loadAccountPreferences :: "Server \<Rightarrow> string \<Rightarrow> AccountPreferences option" where
  "loadAccountPreferences sv account =
     (case svChatDB sv of
        None \<Rightarrow> None
      | Some db \<Rightarrow>
          if account = [] then None
          else case GetAccountPreferences account db of Inl _ \<Rightarrow> None | Inr prefs \<Rightarrow> prefs)"

definition persistAccountPreferences ::
  "(int \<Rightarrow> int) \<Rightarrow> bool \<Rightarrow> string \<Rightarrow> AccountPreferences \<Rightarrow> Server \<Rightarrow> Server" where
  "persistAccountPreferences lower written account prefs sv =
     (if account = [] then sv else withDB (\<lambda>db. snd (PutAccountPreferences lower written account prefs db)) sv)"

definition resolveAccountPlayerColor :: "(int \<Rightarrow> int) \<Rightarrow> bool \<Rightarrow> string \<Rightarrow> string \<Rightarrow> Server \<Rightarrow> string \<times> Server" where
  "resolveAccountPlayerColor lower written account joinColor sv =
     (case loadAccountPreferences sv account of
        Some prefs \<Rightarrow> (apColor prefs, sv)
      | None \<Rightarrow> (joinColor,
          if joinColor \<noteq> [] then persistAccountPreferences lower written account (emptyPreferences\<lparr>apColor := joinColor\<rparr>) sv
          else sv))"

definition accountProfileSummary :: "Server \<Rightarrow> string \<Rightarrow> string \<times> bool" where
  "accountProfileSummary sv account =
     (case loadAccountPreferences sv account of
        None \<Rightarrow> ([], False)
      | Some prefs \<Rightarrow> (prHandle (apProfile prefs), accountProfileHasPublicFields (apProfile prefs)))"

definition onInstances :: "(WorldInstance \<Rightarrow> WorldInstance) \<Rightarrow> Server \<Rightarrow> Server" where
  "onInstances f sv = sv\<lparr>svInstances := Mapping.map_values (\<lambda>_. f) (svInstances sv)\<rparr>"

definition refreshAccountProfile :: "string \<Rightarrow> AccountProfilePreferences \<Rightarrow> Server \<Rightarrow> Server" where
  "refreshAccountProfile account profile sv =
     (if account = [] then sv
      else onInstances (\<lambda>inst. inst\<lparr>wiRooms := fold (\<lambda>p rm.
             if map_option rpAccountID (playerAt p rm) = Some account
             then SetPlayerProfileSummary p (prHandle profile) (accountProfileHasPublicFields profile) rm else rm)
           (playerIDs (wiRooms inst)) (wiRooms inst)\<rparr>) sv)"

section \<open>Chat\<close>

definition onChat :: "(ChatService \<Rightarrow> ChatService) \<Rightarrow> Server \<Rightarrow> Server" where
  "onChat f sv = sv\<lparr>svChat := f (svChat sv)\<rparr>"

definition allClients :: "WorldInstance list \<Rightarrow> webSocketClient list" where
  "allClients insts = concat (map (\<lambda>inst. map snd (Mapping.ordered_entries (Clients inst))) insts)"

text \<open>The author: name, player and account.\<close>

definition BroadcastGlobalChat :: "string \<Rightarrow> int \<Rightarrow> string \<Rightarrow> string \<Rightarrow> Server \<Rightarrow> Effect list" where
  "BroadcastGlobalChat name p account msg sv =
     map (\<lambda>c. Send (wcConn c) (ChatLine name p msg))
       (filter (\<lambda>c. \<not> suppresses (wcPlayerID c) p account (blockers (svChat sv))) (allClients (instances sv)))"

definition admitPlayerChatLikeText ::
  "int \<Rightarrow> webSocketClient \<Rightarrow> int \<Rightarrow> string \<Rightarrow> bool \<Rightarrow> Server \<Rightarrow> string option \<times> Effect list \<times> Server" where
  "admitPlayerChatLikeText now client p raw reportRate sv =
     (if muted p (wcAccountID client) (mutes (svChat sv))
      then (None, tellPlayer (Some client) ''mute'' ''You are muted by a moderator. Your message was not sent.'' False, sv)
      else case admitChatText raw of
        None \<Rightarrow> (None, [], sv)
      | Some msg \<Rightarrow>
          (case allow p now (chatLimiter (svChat sv)) of (admitted, limiter) \<Rightarrow>
           let sv = onChat (\<lambda>cs. cs\<lparr>chatLimiter := limiter\<rparr>) sv in
           if admitted then (Some msg, [], sv)
           else (None, if reportRate
               then [Send (wcConn client) (PrivateResult 0 False ''You are sending messages too quickly.'')] else [], sv)))"

text \<open>The chat case of the read loop, on the world the connection is in.\<close>

definition submitChat :: "int \<Rightarrow> bool \<Rightarrow> webSocketClient \<Rightarrow> int \<Rightarrow> string \<Rightarrow> WorldInstance \<Rightarrow> Server \<Rightarrow> Effect list \<times> Server" where
  "submitChat now written client p raw inst sv =
     (case admitPlayerChatLikeText now client p raw False sv of
        (None, effects, sv) \<Rightarrow> (effects, sv)
      | (Some msg, effects, sv) \<Rightarrow>
          let name = (case playerAt p (wiRooms inst) of Some rp \<Rightarrow> nameOr ''browser'' (rpName rp) | None \<Rightarrow> ''browser'');
              rec = \<lparr>crFrom = name, crText = msg, crTimestamp = now, crPlayerID = p, crAccountID = wcAccountID client\<rparr>;
              sv = withDB (AddMessage written rec) sv
          in (effects @ BroadcastGlobalChat name p (wcAccountID client) msg sv, sv))"

text \<open>\<open>reached\<close> says whether the write to the target's connection succeeded.\<close>

definition submitPrivateMessage ::
  "int \<Rightarrow> bool \<Rightarrow> webSocketClient \<Rightarrow> int \<Rightarrow> int \<Rightarrow> string \<Rightarrow> Server \<Rightarrow> Effect list \<times> Server" where
  "submitPrivateMessage now reached client sender p raw sv =
     (if p = 0 \<or> p = sender then ([], sv)
      else case admitPlayerChatLikeText now client sender raw True sv of
        (None, effects, sv) \<Rightarrow> (effects, sv)
      | (Some msg, _, sv) \<Rightarrow>
          let failed = (\<lambda>why. ([Send (wcConn client) (PrivateResult p False why)], sv)) in
          case locatePlayer p sv of
            None \<Rightarrow> failed ''That player has already left.''
          | Some target \<Rightarrow>
              (case mtClient target of
                 None \<Rightarrow> failed ''That player has already left.''
               | Some tc \<Rightarrow>
                   let source = locatePlayer sender sv;
                       senderName = (case source of Some t \<Rightarrow> nameOr ''browser'' (mtName t) | None \<Rightarrow> ''browser'');
                       senderAccount = (case source of Some t \<Rightarrow> nameOr (wcAccountID client) (mtAccount t)
                         | None \<Rightarrow> wcAccountID client);
                       line = PrivateLine senderName sender (nameOr ''that player'' (mtName target)) p msg
                   in if suppresses p sender senderAccount (blockers (svChat sv)) then failed ''That player is not available.''
                      else if \<not> reached
                      then ([Send (wcConn tc) (line False), Send (wcConn client) (PrivateResult p False ''That player is not available.'')], sv)
                      else ([Send (wcConn tc) (line False), Send (wcConn client) (line True)], sv)))"

section \<open>Blocks and follows\<close>

definition seedAccountBlocks :: "int \<Rightarrow> string \<Rightarrow> Server \<Rightarrow> Server" where
  "seedAccountBlocks p account sv =
     (case loadAccountPreferences sv account of
        None \<Rightarrow> sv
      | Some prefs \<Rightarrow> onChat (\<lambda>cs. cs\<lparr>blockers := seedAccounts p (apBlockedAccounts prefs) (blockers cs)\<rparr>) sv)"

definition persistBlockedAccounts :: "(int \<Rightarrow> int) \<Rightarrow> bool \<Rightarrow> string \<Rightarrow> int \<Rightarrow> Server \<Rightarrow> Server" where
  "persistBlockedAccounts lower written account blocker sv =
     (case svChatDB sv of
        None \<Rightarrow> sv
      | Some db \<Rightarrow>
          if account = [] then sv
          else case GetAccountPreferences account db of
            Inl _ \<Rightarrow> sv
          | Inr stored \<Rightarrow>
              let prefs = (case stored of Some p \<Rightarrow> p | None \<Rightarrow> emptyPreferences);
                  prefs = prefs\<lparr>apBlockedAccounts := blockedAccounts blocker (blockers (svChat sv))\<rparr>
              in persistAccountPreferences lower written account prefs sv)"

definition submitChatBlock ::
  "(int \<Rightarrow> int) \<Rightarrow> bool \<Rightarrow> webSocketClient \<Rightarrow> int \<Rightarrow> int \<Rightarrow> bool \<Rightarrow> Server \<Rightarrow> Effect list \<times> Server" where
  "submitChatBlock lower written client blocker p blocked sv =
     (if p = 0 \<or> p = blocker then ([], sv)
      else case identifyPlayer p sv of
        None \<Rightarrow> ([Send (wcConn client) (BlockResult p [] False False ''That player has already left.'')], sv)
      | Some (account, found) \<Rightarrow>
          let name = nameOr ''that player'' found in
          (case setBlock blocker p account blocked (blockers (svChat sv)) of (keyed, b) \<Rightarrow>
           let sv = onChat (\<lambda>cs. cs\<lparr>blockers := b\<rparr>) sv;
               durable = (keyed \<and> wcAccountID client \<noteq> []);
               sv = (if durable then persistBlockedAccounts lower written (wcAccountID client) blocker sv else sv);
               msg = (if blocked \<and> durable then ''Blocked '' @ name @ ''.''
                      else if \<not> blocked then ''Unblocked '' @ name @ ''.''
                      else ''Blocked '' @ name @ '' for this session.'')
           in ([Send (wcConn client) (BlockResult p name blocked durable msg)], sv)))"

definition submitProfileRequest :: "webSocketClient \<Rightarrow> int \<Rightarrow> Server \<Rightarrow> Effect list" where
  "submitProfileRequest client p sv =
     (if p = 0 then []
      else let reply = (\<lambda>name handle lines. [Send (wcConn client) (ProfileResult p name handle lines)]) in
      case locatePlayer p sv of
        None \<Rightarrow> reply [] [] [[], ''  That player has already left.'', []]
      | Some t \<Rightarrow>
          (case svChatDB sv of
             None \<Rightarrow> reply (mtName t) [] (PublicProfileLines (mtName t) emptyProfile False)
           | Some db \<Rightarrow>
               if mtAccount t = [] then reply (mtName t) [] (PublicProfileLines (mtName t) emptyProfile False)
               else case GetAccountPreferences (mtAccount t) db of
                 Inl _ \<Rightarrow> reply (mtName t) [] [[], ''  Profile unavailable.'', []]
               | Inr stored \<Rightarrow>
                   let profile = (case stored of Some p \<Rightarrow> apProfile p | None \<Rightarrow> emptyProfile)
                   in reply (mtName t) (prHandle profile)
                        (PublicProfileLines (mtName t) profile (stored \<noteq> None \<and> accountProfileHasPublicFields profile))))"

definition addAccountID :: "string list \<Rightarrow> string \<Rightarrow> string list" where
  "addAccountID accounts account =
     (let account = TrimSpace account in
      if account = [] \<or> account \<in> set accounts then sanitizeFollowedAccounts [] accounts
      else sanitizeFollowedAccounts [] (accounts @ [account]))"

definition removeAccountID :: "string list \<Rightarrow> string \<Rightarrow> string list" where
  "removeAccountID accounts account = sanitizeFollowedAccounts [] (filter (\<lambda>a. a \<noteq> account) accounts)"

definition publicAccountName :: "string \<Rightarrow> AccountPreferences option \<Rightarrow> string" where
  "publicAccountName fallback prefs =
     (let other = (if TrimSpace fallback \<noteq> [] then fallback else ''that player'') in
      case prefs of
        None \<Rightarrow> other
      | Some p \<Rightarrow>
          if prHandle (apProfile p) \<noteq> [] then CHR ''@'' # prHandle (apProfile p)
          else if prDisplayName (apProfile p) \<noteq> [] then prDisplayName (apProfile p) else other)"

definition submitFollow ::
  "(int \<Rightarrow> int) \<Rightarrow> bool \<Rightarrow> webSocketClient \<Rightarrow> int \<Rightarrow> int \<Rightarrow> bool \<Rightarrow> Server \<Rightarrow> Effect list \<times> Server" where
  "submitFollow lower written client follower p follow sv =
     (let reply = (\<lambda>name followed msg. [Send (wcConn client) (FollowResult p name followed msg)]) in
      case svChatDB sv of
        None \<Rightarrow> (reply [] False ''Sign in to follow players.'', sv)
      | Some db \<Rightarrow>
          if wcAccountID client = [] then (reply [] False ''Sign in to follow players.'', sv)
          else if p = 0 \<or> p = follower then (reply [] False ''You cannot follow yourself.'', sv)
          else case locatePlayer p sv of
            None \<Rightarrow> (reply [] False ''That player has already left.'', sv)
          | Some t \<Rightarrow>
              if mtAccount t = [] then (reply (mtName t) False ''Guests cannot be followed.'', sv)
              else if mtAccount t = wcAccountID client then (reply (mtName t) False ''You cannot follow yourself.'', sv)
              else case GetAccountPreferences (wcAccountID client) db of
                Inl _ \<Rightarrow> (reply [] False ''Could not update follows.'', sv)
              | Inr stored \<Rightarrow>
                  let prefs = (case stored of Some p \<Rightarrow> p | None \<Rightarrow> emptyPreferences);
                      prefs = prefs\<lparr>apFollowedAccounts :=
                        (if follow then addAccountID else removeAccountID) (apFollowedAccounts prefs) (mtAccount t)\<rparr>
                  in case PutAccountPreferences lower written (wcAccountID client) prefs db of
                       (Some _, db) \<Rightarrow> (reply [] False ''Could not update follows.'', sv\<lparr>svChatDB := Some db\<rparr>)
                     | (None, db) \<Rightarrow>
                         let sv = sv\<lparr>svChatDB := Some db\<rparr>;
                             name = publicAccountName (mtName t) (loadAccountPreferences sv (mtAccount t))
                         in (reply (mtName t) follow ((if follow then ''Following '' else ''Unfollowed '') @ name @ ''.''), sv))"

section \<open>What a roster says\<close>

definition rosterAccounts :: "int \<Rightarrow> WorldInstance \<Rightarrow> int list \<Rightarrow> (int \<times> string) list" where
  "rosterAccounts recipient inst roster =
     map (\<lambda>p. (p, case PlayerIdentity p (wiRooms inst) of Some (a, _) \<Rightarrow> a | None \<Rightarrow> []))
       (filter (\<lambda>p. p \<noteq> 0 \<and> p \<noteq> recipient) roster)"

definition blockedInRoster :: "int \<Rightarrow> WorldInstance \<Rightarrow> int list \<Rightarrow> Server \<Rightarrow> int list" where
  "blockedInRoster recipient inst roster sv =
     map fst (filter (\<lambda>(p, a). suppresses recipient p a (blockers (svChat sv))) (rosterAccounts recipient inst roster))"

definition followedInRoster :: "int \<Rightarrow> WorldInstance \<Rightarrow> int list \<Rightarrow> Server \<Rightarrow> int list" where
  "followedInRoster recipient inst roster sv =
     (case PlayerIdentity recipient (wiRooms inst) of
        None \<Rightarrow> []
      | Some (account, _) \<Rightarrow>
          case loadAccountPreferences sv account of
            None \<Rightarrow> []
          | Some prefs \<Rightarrow> map fst (filter (\<lambda>(_, a). a \<noteq> [] \<and> a \<in> set (apFollowedAccounts prefs))
              (rosterAccounts recipient inst roster)))"

text \<open>Where the accounts somebody follows are playing, as far as they share it: name and handle by world.\<close>

definition presenceIn :: "string list \<Rightarrow> Server \<Rightarrow> WorldInstance \<Rightarrow> (string \<times> string) list" where
  "presenceIn followed sv inst =
     List.map_filter (\<lambda>(account, name).
         case loadAccountPreferences sv account of
           None \<Rightarrow> None
         | Some prefs \<Rightarrow>
             if \<not> apShareLocation prefs then None
             else let h = prHandle (apProfile prefs); d = prDisplayName (apProfile prefs)
                  in Some (nameOr (if h \<noteq> [] then CHR ''@'' # h else ''Player'') (nameOr name d), h))
       (fold (\<lambda>p out. case PlayerIdentity p (wiRooms inst) of
            None \<Rightarrow> out
          | Some (account, name) \<Rightarrow>
              if account = [] \<or> account \<notin> set followed \<or> account \<in> fst ` set out then out else out @ [(account, name)])
         (playerIDs (wiRooms inst)) [])"

definition friendPresenceByWorld :: "(string \<Rightarrow> string) \<Rightarrow> string \<Rightarrow> Server \<Rightarrow> (string \<times> (string \<times> string) list) list" where
  "friendPresenceByWorld unicode account sv =
     (case loadAccountPreferences sv account of
        None \<Rightarrow> []
      | Some prefs \<Rightarrow>
          filter (\<lambda>(_, friends). friends \<noteq> [])
            (map (\<lambda>inst. (wiName inst, sort_key (\<lambda>(name, h). (h, if h = [] then ToUpper unicode name else []))
                 (presenceIn (apFollowedAccounts prefs) sv inst)))
               (filter (\<lambda>inst. Challenge inst = None) (instances sv))))"

text \<open>\<open>AnnounceShutdown\<close>: the worlds whose lock could be had.\<close>

definition AnnounceShutdown :: "(WorldInstance \<Rightarrow> bool) \<Rightarrow> int \<Rightarrow> string \<Rightarrow> Server \<Rightarrow> int \<times> Effect list" where
  "AnnounceShutdown free seconds msg sv =
     (let cs = allClients (filter free (instances sv))
      in (int (length cs), map (\<lambda>c. Send (wcConn c) (Announce msg seconds)) cs))"

section \<open>No sanction off the record\<close>

text \<open>A sanction: somebody is muted, unmuted or refused, or a connection is ended.\<close>

definition sanctions :: "Effect list \<Rightarrow> Server \<Rightarrow> Server \<Rightarrow> bool" where
  "sanctions effects sv sv' \<longleftrightarrow>
     mutes (svChat sv') \<noteq> mutes (svChat sv) \<or> Refusals sv' \<noteq> Refusals sv \<or> (\<exists>c. EndConnection c \<in> set effects)"

definition recorded :: "webSocketClient \<Rightarrow> int \<Rightarrow> int \<Rightarrow> int \<Rightarrow> Server \<Rightarrow> Server \<Rightarrow> bool" where
  "recorded client operator p now sv sv' \<longleftrightarrow>
     (\<exists>e. Audit sv' = Record e (Audit sv) \<and> maOperator e = wcAccountID client \<and> maOperatorID e = operator \<and>
        maTarget e = p \<and> maAt e = now \<and> maResult e \<in> {Applied, Failed})"

lemma setMuteOf_same [simp]:
  "Audit (snd (setMuteOf p a on sv)) = Audit sv" "svInstances (snd (setMuteOf p a on sv)) = svInstances sv"
  "Moderators (snd (setMuteOf p a on sv)) = Moderators sv"
  by (simp_all add: setMuteOf_def split: prod.splits)

lemma applyModeration_recorded:
  assumes "applyModeration failure now client action p t audit sv = (effects, sv')"
    and "maOperator audit = wcAccountID client" "maOperatorID audit = operator" "maTarget audit = p" "maAt audit = now"
  shows "recorded client operator p now sv sv' \<and> svInstances sv' = svInstances sv"
proof -
  obtain d1 s1 d2 s2 where m: "setMuteOf p (mtAccount t) True sv = (d1, s1)" "setMuteOf p (mtAccount t) False sv = (d2, s2)"
    by force
  then have "svInstances s1 = svInstances sv" "svInstances s2 = svInstances sv" "Audit s1 = Audit sv" "Audit s2 = Audit sv"
    using setMuteOf_same(1,2) by (metis snd_conv)+
  then show ?thesis
    using assms by (auto simp: applyModeration_def m recorded_def audited_def Let_def split: if_splits option.splits)
qed

lemma submitModeration_reaches:
  assumes "submitModeration lower failure now client operator raw p sv = (effects, sv')"
    and "sanctions effects sv sv'"
  shows "isOperator (wcAccountID client) sv \<and> p \<noteq> operator \<and>
    (\<exists>action t audit sv0. applyModeration failure now client action p t audit sv0 = (effects, sv') \<and>
       maOperator audit = wcAccountID client \<and> maOperatorID audit = operator \<and> maTarget audit = p \<and> maAt audit = now \<and>
       Audit sv0 = Audit sv \<and> svInstances sv0 = svInstances sv)"
proof -
  obtain admitted limiter where l: "allow operator now (moderateLimiter sv) = (admitted, limiter)" by force
  let ?sv = "sv\<lparr>moderateLimiter := limiter\<rparr>"
  let ?action = "ToLower lower (TrimSpace raw)"
  have act: "?action \<in> {''mute'', ''unmute'', ''kick'', ''refuse''}"
    using assms by (auto simp: submitModeration_def sanctions_def Let_def split: if_splits)
  have adm: admitted
    using assms l act by (auto simp: submitModeration_def sanctions_def Let_def split: if_splits)
  have op: "isOperator (wcAccountID client) sv \<and> p \<noteq> operator"
    using assms l act adm by (auto simp: submitModeration_def sanctions_def audited_def isOperator_def Let_def
      split: if_splits option.splits)
  obtain t where "locatePlayer p ?sv = Some t"
    using assms l act adm by (cases "locatePlayer p ?sv") (auto simp: submitModeration_def sanctions_def audited_def Let_def
      split: if_splits)
  then show ?thesis
    using op assms l act adm unfolding submitModeration_def
    by (fastforce simp: sanctions_def audited_def isOperator_def Let_def split: if_splits)
qed

text \<open>
  C36. No sanction off the record. Whatever a connection asks for: if somebody is muted, unmuted or refused, or a
  connection is ended, then the connection speaks for an account of the allowlist and not about itself, and the last
  line of the audit names the operator, the target and the time, as applied or failed. No world is
  touched by the request itself.
\<close>

theorem moderation_recorded:
  assumes "submitModeration lower failure now client operator raw p sv = (effects, sv')"
    and "sanctions effects sv sv'"
  shows "isOperator (wcAccountID client) sv \<and> p \<noteq> operator \<and> recorded client operator p now sv sv' \<and>
     svInstances sv' = svInstances sv"
  using submitModeration_reaches [OF assms] applyModeration_recorded
  by (auto simp: recorded_def) metis+

text \<open>An operator mutes a guest of another world.\<close>

theorem moderation_recorded_witness:
  "\<exists>sv client effects sv'. submitModeration id None 7 client 1 '' Mute '' 2 sv = (effects, sv') \<and>
     \<not> muted 2 [] (mutes (svChat sv)) \<and> muted 2 [] (mutes (svChat sv')) \<and> recorded client 1 2 7 sv sv'"
proof -
  define client :: webSocketClient where
    "client = \<lparr>wcConn = 3, wcPlayerID = 1, wcBoardID = 1, wcAccountID = ''op'', wcWorldName = ''TOWN''\<rparr>"
  define inst :: WorldInstance where "inst = undefined\<lparr>wiName := ''CAVES'', Clients := Mapping.empty,
     wiRooms := undefined\<lparr>rmPlayers := Mapping.update 2 (undefined\<lparr>rpAccountID := [], rpName := []\<rparr>) Mapping.empty\<rparr>\<rparr>"
  define sv :: Server where "sv = undefined\<lparr>svInstances := Mapping.update ''CAVES'' inst Mapping.empty,
     Moderators := {''op''}, moderateLimiter := Mapping.empty, Audit := [],
     svChat := \<lparr>chatLimiter = Mapping.empty, blockers = Mapping.empty, mutes = \<lparr>muAccounts = {}, muPlayers = {}\<rparr>\<rparr>\<rparr>"
  have a: "ToLower id (TrimSpace '' Mute '') = ''mute''" by code_simp
  have insts: "instances sv' = [inst]" if "svInstances sv' = svInstances sv" for sv' :: Server
    using that by (simp add: instances_def sv_def insort_insert_key_def)
  have t: "\<exists>t. targetIn 2 inst = Some t \<and> mtAccount t = []"
    by (simp add: targetIn_def inst_def PlayerIdentity_def playerAt_def)
  then obtain t where loc: "\<And>sv'::Server. svInstances sv' = svInstances sv \<Longrightarrow> locatePlayer 2 sv' = Some t" "mtAccount t = []"
    using insts by (force simp: locatePlayer_def List.map_filter_def)
  obtain effects sv' where r: "submitModeration id None 7 client 1 '' Mute '' 2 sv = (effects, sv')" by force
  have m: "\<not> muted 2 [] (mutes (svChat sv))" by (simp add: sv_def muted_def)
  have m': "muted 2 [] (mutes (svChat sv'))"
    using r loc unfolding submitModeration_def a
    by (auto simp: sv_def allow_def acceptedOf_def isOperator_def client_def applyModeration_def setMuteOf_def setMute_def
        muted_def audited_def lookup_empty Let_def split: option.splits)
  then have "sanctions effects sv sv'" using m by (auto simp: sanctions_def)
  then show ?thesis using moderation_recorded [OF r] r m m' by blast
qed

end
