(* ===== verification/Hosting.thy ===== *)
theory Hosting
  imports Moderation
begin

text \<open>
  The registry of hosted worlds (\<open>engine/websocket_server.go\<close>, \<open>challenge_run.go\<close>): worlds made on demand, hosted, recorded,
  evicted and restored, players entering them, travelling between them and running challenges in them.
\<close>

section \<open>Instances\<close>

definition emptyInstance :: "string \<Rightarrow> TWorld \<Rightarrow> RoomManager \<Rightarrow> WorldInstance" where
  "emptyInstance name world rm =
     \<lparr>wiName = name, SourceWorld = world, wiRooms = rm, Clients = Mapping.empty, Inputs = Mapping.empty,
      Detached = Mapping.empty, ResumeTokens = Mapping.empty, TokensByPlayer = Mapping.empty, Spectators = Mapping.empty,
      spectatorDrops = 0, titleSubs = 0, idleTicks = 0, autosaving = False, Private = False, Challenge = None,
      RecordWorld = [], RecordID = []\<rparr>"

definition instanceOf :: "string \<Rightarrow> Server \<Rightarrow> WorldInstance option" where
  "instanceOf key sv = Mapping.lookup (svInstances sv) key"

definition putInstance :: "string \<Rightarrow> WorldInstance \<Rightarrow> Server \<Rightarrow> Server" where
  "putInstance key inst sv = sv\<lparr>svInstances := Mapping.update key inst (svInstances sv)\<rparr>"

definition dropInstance :: "string \<Rightarrow> Server \<Rightarrow> Server" where
  "dropInstance key sv = sv\<lparr>svInstances := Mapping.delete key (svInstances sv)\<rparr>"

text \<open>A step of one world; there is none when the world is not hosted.\<close>

definition inWorld :: "string \<Rightarrow> (WorldInstance \<Rightarrow> ('a \<times> WorldInstance) option) \<Rightarrow> Server \<Rightarrow> ('a option \<times> Server) option" where
  "inWorld key f sv =
     (case instanceOf key sv of
        None \<Rightarrow> Some (None, sv)
      | Some inst \<Rightarrow> do { (v, inst) \<leftarrow> f inst; Some (Some v, putInstance key inst sv) })"

definition mintPlayerID :: "Server \<Rightarrow> int \<times> Server" where
  "mintPlayerID sv = (svNextPlayerID sv + 1, sv\<lparr>svNextPlayerID := svNextPlayerID sv + 1\<rparr>)"

definition worldIsOccupied :: "string \<Rightarrow> Server \<Rightarrow> bool" where
  "worldIsOccupied name sv \<longleftrightarrow>
     (case instanceOf name sv of None \<Rightarrow> False | Some inst \<Rightarrow> Mapping.keys (Clients inst) \<noteq> {})"

section \<open>Recording\<close>

text \<open>
  What the file system does: \<open>created\<close> says whether a file could be made and its header written, \<open>full\<close> when its
  queue overflows, \<open>files\<close> what the files hold.
\<close>

record Disk =
  dkFiles :: "string \<Rightarrow> int list option"
  dkCreated :: "string \<Rightarrow> bool"
  dkFull :: "string \<Rightarrow> int \<Rightarrow> bool"

text \<open>The recording that was opened, its path and its header, and the instance.\<close>

definition attachRecorderLocked ::
  "Disk \<Rightarrow> Server \<Rightarrow> WorldInstance \<Rightarrow> ((string \<times> recHeader) option \<times> WorldInstance) option" where
  "attachRecorderLocked disk sv inst =
     (if svRecordDir sv = [] \<or> rmRecorder (wiRooms inst) \<noteq> None then Some (None, inst)
      else do {
        header \<leftarrow> newSessionHeader (nameOr (wiName inst) (RecordWorld inst)) (rmWorld (wiRooms inst));
        let header = header\<lparr>rhFriendlyFire := rmFriendlyFire (wiRooms inst)\<rparr>;
        let stem = nameOr (wiName inst @ ''-'' @ svRecordStamp sv) (RecordID inst);
        let path = joinPath (svRecordDir sv) (stem @ ''.jsonl'');
        if \<not> dkCreated disk path then Some (None, inst)
        else Some (Some (path, header), inst\<lparr>wiRooms :=
               SetRecorder (Some (NewSessionRecorder (dkFull disk path))) (wiRooms inst)\<rparr>) })"

definition EnableRecording :: "Disk \<Rightarrow> string \<Rightarrow> string \<Rightarrow> Server \<Rightarrow> Server option" where
  "EnableRecording disk dir stamp sv =
     (if dir = [] then Some sv
      else let sv = sv\<lparr>svRecordDir := dir, svRecordStamp := stamp\<rparr> in
           foldM (\<lambda>key sv. map_option snd (inWorld key (attachRecorderLocked disk sv) sv))
             (Mapping.ordered_keys (svInstances sv)) sv)"

definition CloseRecorders :: "Server \<Rightarrow> Server" where
  "CloseRecorders sv = onInstances (\<lambda>inst. inst\<lparr>wiRooms := SetRecorder None (wiRooms inst)\<rparr>) sv"

section \<open>Worlds made and hosted\<close>

datatype HostError = HostInvalidName | HostOccupied

definition worldsDir :: "Server \<Rightarrow> string" where
  "worldsDir sv = nameOr ''.'' (svWorldsDir sv)"

definition hostGeneratedWorld ::
  "Disk \<Rightarrow> string \<Rightarrow> TWorld \<Rightarrow> bool \<Rightarrow> Server \<Rightarrow> (HostError option \<times> Server) option" where
  "hostGeneratedWorld disk name world private sv =
     (case SanitizeSaveName name of
        None \<Rightarrow> Some (Some HostInvalidName, sv)
      | Some safe \<Rightarrow>
          if worldIsOccupied safe sv then Some (Some HostOccupied, sv)
          else do {
            let rm = (NewRoomManagerForWorld world safe)\<lparr>rmFriendlyFire := svFriendlyFire sv\<rparr>;
            (_, inst) \<leftarrow> attachRecorderLocked disk sv ((emptyInstance safe world rm)\<lparr>Private := private\<rparr>);
            let sv = (if svDefault sv = Some safe then sv\<lparr>svDefault := None\<rparr> else sv);
            Some (None, putInstance safe inst sv) })"

definition GetOrCreateInstance :: "Disk \<Rightarrow> string \<Rightarrow> Server \<Rightarrow> (SaveError option \<times> Server) option" where
  "GetOrCreateInstance disk name sv =
     (if instanceOf name sv \<noteq> None then Some (None, sv)
      else do {
        r \<leftarrow> LoadPristineWorld (dkFiles disk) (worldsDir sv) name;
        case r of
          Inl err \<Rightarrow> Some (Some err, sv)
        | Inr world \<Rightarrow> do {
            rm \<leftarrow> LoadHighScores (dkFiles disk) ((NewRoomManagerForWorld world name)
              \<lparr>rmFriendlyFire := svFriendlyFire sv, HighScorePath := joinPath (worldsDir sv) (name @ ''.HI'')\<rparr>);
            (_, inst) \<leftarrow> attachRecorderLocked disk sv (emptyInstance name world rm);
            Some (None, putInstance name inst sv) } })"

definition SetServerFriendlyFire :: "bool \<Rightarrow> Server \<Rightarrow> Server" where
  "SetServerFriendlyFire on sv =
     onInstances (\<lambda>inst. inst\<lparr>wiRooms := SetFriendlyFire on (wiRooms inst)\<rparr>) (sv\<lparr>svFriendlyFire := on\<rparr>)"

definition evictOne :: "string \<Rightarrow> Server \<Rightarrow> Server" where
  "evictOne key sv =
     (case instanceOf key sv of
        None \<Rightarrow> sv
      | Some inst \<Rightarrow>
          if svDefault sv = Some key then sv
          else case advanceIdleEviction (svEvictIdleTicks sv) inst of
            (True, _) \<Rightarrow> dropInstance key sv
          | (False, inst) \<Rightarrow> putInstance key inst sv)"

definition evictIdleInstances :: "Server \<Rightarrow> Server" where
  "evictIdleInstances sv =
     (if svEvictIdleTicks sv \<le> 0 then sv else fold evictOne (Mapping.ordered_keys (svInstances sv)) sv)"

section \<open>Saving every world\<close>

text \<open>
  \<open>Autosave\<close>: the copies are taken world by world, and written afterwards; the files written, by path. \<open>autosaving\<close> is set
  in between, which a sequence of steps does not see.
\<close>

definition autosaveDir :: "Server \<Rightarrow> string" where
  "autosaveDir sv = (if svSavesDir sv = [] then [] else joinPath (svSavesDir sv) ''autosave'')"

definition autosaveJob :: "WorldInstance \<Rightarrow> (string \<times> TWorld) option option" where
  "autosaveJob inst =
     (if Challenge inst \<noteq> None \<or> Mapping.keys (Clients inst) = {} then Some None
      else case SanitizeSaveName (wiName inst) of
        None \<Rightarrow> Some None
      | Some name \<Rightarrow> map_option (\<lambda>w. Some (name, w)) (snapshotWorldNoSaver (wiRooms inst)))"

definition Autosave :: "Disk \<Rightarrow> Server \<Rightarrow> (string \<times> int list) list option" where
  "Autosave disk sv =
     (if autosaveDir sv = [] then Some []
      else do {
        jobs \<leftarrow> foldM (\<lambda>inst jobs. map_option (\<lambda>job. case job of None \<Rightarrow> jobs | Some j \<Rightarrow> jobs @ [j]) (autosaveJob inst))
          (instances sv) [];
        foldM (\<lambda>(name, world) out. do {
            r \<leftarrow> writeWorldSnapshot (dkCreated disk (joinPath (autosaveDir sv) (name @ ''.SAV''))) (autosaveDir sv) name world;
            Some (case r of Inl _ \<Rightarrow> out | Inr file \<Rightarrow> out @ [file]) }) jobs [] })"

definition maybeAutosave :: "Disk \<Rightarrow> Server \<Rightarrow> ((string \<times> int list) list \<times> Server) option" where
  "maybeAutosave disk sv =
     (if svAutosaveEveryTicks sv \<le> 0 then Some ([], sv)
      else let sv = sv\<lparr>svAutosaveTicks := svAutosaveTicks sv + 1\<rparr> in
           if svAutosaveTicks sv < svAutosaveEveryTicks sv then Some ([], sv)
           else let sv = sv\<lparr>svAutosaveTicks := 0\<rparr> in map_option (\<lambda>out. (out, sv)) (Autosave disk sv))"

text \<open>A panic while a snapshot is read is an error; nothing has been stored by then.\<close>

definition safeRestoreSnapshot :: "Disk \<Rightarrow> string \<Rightarrow> string \<Rightarrow> RoomManager \<Rightarrow> bool \<times> RoomManager" where
  "safeRestoreSnapshot disk dir name rm =
     (case RestoreSnapshot (dkFiles disk) dir name rm of
        None \<Rightarrow> (False, rm)
      | Some (err, rm) \<Rightarrow> (err = None, rm))"

definition restoreOne :: "Disk \<Rightarrow> string \<Rightarrow> Server \<Rightarrow> Server option" where
  "restoreOne disk name sv =
     do { (err, sv) \<leftarrow> GetOrCreateInstance disk name sv;
          case err of
            Some _ \<Rightarrow> Some sv
          | None \<Rightarrow> map_option snd (inWorld name (inRooms (\<lambda>rm. Some (safeRestoreSnapshot disk (autosaveDir sv) name rm))) sv) }"

definition RestoreAutosaves :: "Disk \<Rightarrow> (string \<times> bool) list option \<Rightarrow> Server \<Rightarrow> Server option" where
  "RestoreAutosaves disk listing sv =
     (if autosaveDir sv = [] then Some sv
      else foldM (restoreOne disk) (ListSnapshots (autosaveDir sv) listing) sv)"

section \<open>Challenge runs\<close>

datatype ChallengeRefusal = RefUnknown | RefWorldUnavailable | RefRecordingDisabled | RefBusy | RefRunEnded | RefNotYours

abbreviation challengeMaxConcurrentRuns :: nat where
  "challengeMaxConcurrentRuns \<equiv> 24"

text \<open>\<open>owned\<close> is the owner a world's access file names, empty when there is none.\<close>

definition ResolveChallengeWorld ::
  "Disk \<Rightarrow> (string \<Rightarrow> string) \<Rightarrow> ChallengeDefinition \<Rightarrow> Server \<Rightarrow> (ChallengeRefusal + string \<times> TWorld) option" where
  "ResolveChallengeWorld disk owned def sv =
     (case SanitizeSaveName (cdWorld def) of
        None \<Rightarrow> Some (Inl RefWorldUnavailable)
      | Some safe \<Rightarrow>
          if owned safe \<noteq> [] then Some (Inl RefWorldUnavailable)
          else do {
            r \<leftarrow> LoadPristineWorld (dkFiles disk) (worldsDir sv) safe;
            Some (case r of Inl _ \<Rightarrow> Inl RefWorldUnavailable | Inr world \<Rightarrow> Inr (safe, world)) })"

definition liveRuns :: "Server \<Rightarrow> nat" where
  "liveRuns sv = length (filter isChallengeRunKey (Mapping.ordered_keys (svInstances sv)))"

definition discardChallengeRun :: "string \<Rightarrow> Server \<Rightarrow> Server" where
  "discardChallengeRun key sv = (if isChallengeRunKey key then dropInstance key sv else sv)"

definition StartChallengeRun ::
  "Disk \<Rightarrow> (string \<Rightarrow> string) \<Rightarrow> (int \<Rightarrow> int) \<Rightarrow> ChallengeDefinition \<Rightarrow> string \<Rightarrow> string \<Rightarrow> Server \<Rightarrow>
   ((ChallengeRefusal + string) \<times> Server) option" where
  "StartChallengeRun disk owned lower def account name sv =
     (if ChallengeByID lower (cdID def) = None then Some (Inl RefUnknown, sv)
      else do {
        r \<leftarrow> ResolveChallengeWorld disk owned def sv;
        case r of
          Inl err \<Rightarrow> Some (Inl err, sv)
        | Inr (worldName, world) \<Rightarrow>
            if svRecordDir sv = [] then Some (Inl RefRecordingDisabled, sv)
            else if liveRuns sv \<ge> challengeMaxConcurrentRuns then Some (Inl RefBusy, sv)
            else do {
              let sv = sv\<lparr>svChallengeSeq := svChallengeSeq sv + 1\<rparr>;
              let key = challengeRunKey (cdID def) (svChallengeSeq sv);
              let run = \<lparr>runKey = key, runDef = def,
                   runRecordingID = challengeRecordingID (cdID def) (svChallengeSeq sv) (svRecordStamp sv),
                   runAccountID = account, runName = name, runTicks = 0, runPlayerID = 0, runFinished = False, runResult = None\<rparr>;
              let inst = (emptyInstance key world (NewRoomManagerForWorld world worldName))
                   \<lparr>Challenge := Some run, RecordWorld := worldName, RecordID := runRecordingID run\<rparr>;
              (_, inst) \<leftarrow> attachRecorderLocked disk sv inst;
              let sv = putInstance key inst sv;
              if rmRecorder (wiRooms inst) = None then Some (Inl RefRecordingDisabled, discardChallengeRun key sv)
              else Some (Inr key, sv) } })"

definition ChallengeRunInstance :: "string \<Rightarrow> Server \<Rightarrow> WorldInstance option" where
  "ChallengeRunInstance key sv =
     (if \<not> isChallengeRunKey key then None
      else case instanceOf key sv of
        None \<Rightarrow> None
      | Some inst \<Rightarrow> if Challenge inst = None then None else Some inst)"

text \<open>Who asks: the id and the display name of an account, or nobody.\<close>

definition resolveChallengeJoin ::
  "Disk \<Rightarrow> (string \<Rightarrow> string) \<Rightarrow> (int \<Rightarrow> int) \<Rightarrow> string \<Rightarrow> string \<Rightarrow> (string \<times> string) option \<Rightarrow> Server \<Rightarrow>
   ((ChallengeRefusal + string) \<times> Server) option" where
  "resolveChallengeJoin disk owned lower challengeID key who sv =
     (let account = (case who of None \<Rightarrow> [] | Some (a, _) \<Rightarrow> a);
          name = (case who of None \<Rightarrow> ''player'' | Some (_, n) \<Rightarrow> n)
      in if key \<noteq> [] then
           Some (case ChallengeRunInstance key sv of
               None \<Rightarrow> (Inl RefRunEnded, sv)
             | Some inst \<Rightarrow>
                 if map_option runAccountID (Challenge inst) \<noteq> Some account then (Inl RefNotYours, sv) else (Inr key, sv))
         else case ChallengeByID lower challengeID of
           None \<Rightarrow> Some (Inl RefUnknown, sv)
         | Some def \<Rightarrow>
             let (handle, has) = (case who of None \<Rightarrow> ([], False) | Some (a, _) \<Rightarrow> accountProfileSummary sv a)
             in StartChallengeRun disk owned lower def account (if has \<and> handle \<noteq> [] then handle else name) sv)"

text \<open>
  \<open>finishChallengeRun\<close>: the outcome told to the player, and whether it goes to the Gazette; \<open>written\<close> says whether the
  leaderboard reached its file.
\<close>

definition finishChallengeRun ::
  "(int \<Rightarrow> int) \<Rightarrow> bool \<Rightarrow> string \<Rightarrow> ChallengeRun \<Rightarrow> ChallengeResult \<Rightarrow> Server \<Rightarrow> Reply \<times> bool \<times> Server" where
  "finishChallengeRun lower written key run result sv =
     (let sv = (case instanceOf key sv of
            None \<Rightarrow> sv | Some inst \<Rightarrow> putInstance key (inst\<lparr>wiRooms := SetRecorder None (wiRooms inst)\<rparr>) sv);
          refused = (\<lambda>why sv. (ChallengeOutcome result False 0 why, False, sv))
      in if runAccountID run = [] then refused ''Sign in to post a time.'' sv
         else case svChallengeStore sv of
           None \<Rightarrow> refused ''Leaderboard unavailable.'' sv
         | Some store \<Rightarrow>
             (case Submit lower written result store of
                (_, Some _, store) \<Rightarrow> refused ''Result not stored.'' (sv\<lparr>svChallengeStore := Some store\<rparr>)
              | (rank, None, store) \<Rightarrow>
                  (ChallengeOutcome result True rank [], True, sv\<lparr>svChallengeStore := Some store\<rparr>)))"

section \<open>Entering a world\<close>

record JoinMessage =
  jmName :: string
  jmColor :: string
  jmBoard :: int
  jmResumeToken :: string

definition rosterOf :: "SnapshotMessage \<Rightarrow> int list" where
  "rosterOf snap = map psID (smPlayers snap)"

text \<open>The first frame, with what only the recipient is told.\<close>

definition joinedReply :: "webSocketClient \<Rightarrow> string \<Rightarrow> int \<Rightarrow> SnapshotMessage \<Rightarrow> string \<Rightarrow> Server \<Rightarrow> Effect list" where
  "joinedReply client key p snap token sv =
     (case instanceOf key sv of
        None \<Rightarrow> []
      | Some inst \<Rightarrow>
          [Send (wcConn client) (Joined (publicWorldName inst) token snap (blockedInRoster p inst (rosterOf snap) sv)
             (followedInRoster p inst (rosterOf snap) sv) (isOperator (wcAccountID client) sv))])"

text \<open>A signed-in player of a resumed run gets the identity and colour of this connection.\<close>

definition resumeIn ::
  "(string \<Rightarrow> string list) \<Rightarrow> webSocketClient \<Rightarrow> (string \<times> string) option \<Rightarrow> string \<Rightarrow> string \<times> bool \<Rightarrow> string \<Rightarrow> WorldInstance \<Rightarrow>
   ((int \<times> SnapshotMessage \<times> int option) option \<times> WorldInstance) option" where
  "resumeIn help client who color profile token inst =
     do { (r, inst) \<leftarrow> tryResume help client token inst;
          Some (case r of
              Inl _ \<Rightarrow> (None, inst)
            | Inr (p, snap, old) \<Rightarrow>
                let rm = wiRooms inst;
                    rm = (case who of None \<Rightarrow> rm | Some (account, name) \<Rightarrow> SetPlayerIdentity p account name rm);
                    rm = SetPlayerColor p color rm;
                    rm = (if who = None then rm else SetPlayerProfileSummary p (fst profile) (snd profile) rm)
                in (Some (p, snap, old), inst\<lparr>wiRooms := rm\<rparr>)) }"

definition setRunPlayer :: "int \<Rightarrow> WorldInstance \<Rightarrow> WorldInstance" where
  "setRunPlayer p inst = inst\<lparr>Challenge := map_option (\<lambda>run. run\<lparr>runPlayerID := p\<rparr>) (Challenge inst)\<rparr>"

definition boardToJoin :: "int \<Rightarrow> int \<Rightarrow> WorldInstance \<Rightarrow> int" where
  "boardToJoin defaultBoard board inst =
     (case Challenge inst of Some run \<Rightarrow> cdBoard (runDef run) | None \<Rightarrow> resolveJoinBoard defaultBoard board inst)"

text \<open>
  The part of \<open>ServeHTTP\<close> between the first message of a connection and its read loop, for a player: the door, the
  account, the resumed run or the fresh one. \<open>who\<close> is the account the request proves, \<open>runKeyGiven\<close> says that a run
  key was given, so that only a resume will do, \<open>token\<close> is a new random token. The player's id is in the result when they are in.
\<close>

definition enterWorld ::
  "Disk \<Rightarrow> (string \<Rightarrow> string list) \<Rightarrow> (int \<Rightarrow> int) \<Rightarrow> bool \<Rightarrow> string \<Rightarrow> int \<Rightarrow> (string \<times> string) option \<Rightarrow> JoinMessage \<Rightarrow> string \<Rightarrow>
   bool \<Rightarrow> Server \<Rightarrow> (int option \<times> Effect list \<times> Server) option" where
  "enterWorld disk help lower written token conn who join key runKeyGiven sv =
     (case refusedAtTheDoor (map_option fst who) sv of
        Some notice \<Rightarrow> Some (None, [Send conn notice], sv)
      | None \<Rightarrow> do {
          let account = (case who of None \<Rightarrow> [] | Some (a, _) \<Rightarrow> a);
          let client = \<lparr>wcConn = conn, wcPlayerID = 0, wcBoardID = 0, wcAccountID = account, wcWorldName = key\<rparr>;
          let stored = (if who = None then None else loadAccountPlayerState account key sv);
          let color = SanitizePlayerColor (jmColor join);
          let (color, sv) = (if who = None then (color, sv) else resolveAccountPlayerColor lower written account color sv);
          let profile = accountProfileSummary sv account;
          (resumed, sv) \<leftarrow> (if jmResumeToken join = [] then Some (None, sv)
             else inWorld key (resumeIn help client who color profile (jmResumeToken join)) sv);
          case resumed of
            Some (Some (p, snap, old)) \<Rightarrow> do {
              (_, sv) \<leftarrow> inWorld key (\<lambda>inst. Some ((), setRunPlayer p inst)) sv;
              let sv = (if who = None then sv else seedAccountBlocks p account sv);
              Some (Some p, (case old of None \<Rightarrow> [] | Some c \<Rightarrow> [EndConnection c]) @
                 joinedReply client key p snap (jmResumeToken join) sv, sv) }
          | _ \<Rightarrow>
              if runKeyGiven then Some (None, [Send conn (ChallengeError ''That run has ended.'')], sv)
              else do {
                let (p, sv) = mintPlayerID sv;
                let identity = (case who of None \<Rightarrow> Guest (jmName join)
                  | Some (_, name) \<Rightarrow> SignedIn account name stored (fst profile) (snd profile));
                (r, sv) \<leftarrow> inWorld key (\<lambda>inst.
                   joinFresh help token client p (boardToJoin (svDefaultBoard sv) (jmBoard join) inst) identity color inst) sv;
                case r of
                  Some (Some (tok, snap)) \<Rightarrow> do {
                    (_, sv) \<leftarrow> inWorld key (\<lambda>inst. Some ((), setRunPlayer p inst)) sv;
                    let sv = (if who = None then sv else seedAccountBlocks p account sv);
                    let counted = (case instanceOf key sv of Some inst \<Rightarrow> Challenge inst = None | None \<Rightarrow> False);
                    let effects = joinedReply client key p snap tok sv;
                    Some (Some p, effects,
                       if counted then sv\<lparr>svActivity := map_option (\<lambda>counts. snd (IncrementPlay key counts)) (svActivity sv)\<rparr> else sv) }
                | _ \<Rightarrow> Some (None, [], discardChallengeRun key sv) } })"

section \<open>Travelling between worlds\<close>

definition refuseWorldTransit :: "string \<Rightarrow> int \<Rightarrow> string \<Rightarrow> string \<Rightarrow> Server \<Rightarrow> Effect list" where
  "refuseWorldTransit key p destination why sv =
     (case instanceOf key sv of
        None \<Rightarrow> []
      | Some source \<Rightarrow>
          case Mapping.lookup (Clients source) p of
            None \<Rightarrow> []
          | Some client \<Rightarrow> [Send (wcConn client) (Told ((wireEvent ''scroll'')
              \<lparr>pePlayerStatID := -1, peTitle := ''Transit'',
               peLines := [[], ''  That gate is closed.'', ''  '' @ destination @ '' is not joinable right now.'', ''  '' @ why]\<rparr>))])"

text \<open>What the traveller takes out of the world they leave.\<close>

definition departure ::
  "int \<Rightarrow> WorldInstance \<Rightarrow> ((webSocketClient \<times> roomPlayer \<times> PlayerState option) option \<times> WorldInstance) option" where
  "departure p inst =
     (case (Mapping.lookup (Clients inst) p, playerAt p (wiRooms inst)) of
        (Some client, Some rp) \<Rightarrow> do {
          st \<leftarrow> PlayerState_of p (wiRooms inst);
          inst \<leftarrow> removeClientFromInstance p inst;
          Some (Some (client, rp, st), inst) }
      | _ \<Rightarrow> Some (None, inst))"

definition completeWorldTransit ::
  "Disk \<Rightarrow> (string \<Rightarrow> string list) \<Rightarrow> (SaveError \<Rightarrow> string) \<Rightarrow> string \<Rightarrow> string \<Rightarrow> WorldTransit \<Rightarrow> Server \<Rightarrow>
   (Effect list \<times> Server) option" where
  "completeWorldTransit disk help errText token key transit sv =
     (let p = wtPlayerID transit; wanted = wtDestinationWorld transit in
      if (case instanceOf key sv of None \<Rightarrow> False | Some source \<Rightarrow> Challenge source \<noteq> None)
      then Some (refuseWorldTransit key p wanted ''a challenge run stays in its own world'' sv, sv)
      else case SanitizeSaveName wanted of
        None \<Rightarrow> Some (refuseWorldTransit key p wanted (errText ErrInvalidSaveName) sv, sv)
      | Some destination \<Rightarrow> do {
          (err, sv) \<leftarrow> GetOrCreateInstance disk destination sv;
          case err of
            Some e \<Rightarrow> Some (refuseWorldTransit key p destination (errText e) sv, sv)
          | None \<Rightarrow> do {
              (left, sv) \<leftarrow> inWorld key (departure p) sv;
              case left of
                Some (Some (client, rp, st)) \<Rightarrow> do {
                  let account = rpAccountID rp;
                  let sourceName = (case instanceOf key sv of Some inst \<Rightarrow> wiName inst | None \<Rightarrow> key);
                  let sv = (case st of None \<Rightarrow> sv | Some state \<Rightarrow> persistAccountPlayerState account sourceName state sv);
                  let stored = loadAccountPlayerState account destination sv;
                  let profile = accountProfileSummary sv account;
                  let identity = (if account = [] then Guest (rpName rp)
                        else SignedIn account (rpName rp) stored (fst profile) (snd profile));
                  let client = client\<lparr>wcWorldName := destination\<rparr>;
                  (r, sv) \<leftarrow> inWorld destination (\<lambda>dest.
                     joinFresh help token client p (resolveJoinBoard (svDefaultBoard sv) 0 dest) identity (rpColor rp) dest) sv;
                  case r of
                    Some (Some (tok, snap)) \<Rightarrow>
                      Some (joinedReply client destination p snap tok sv,
                        sv\<lparr>svActivity := map_option (\<lambda>counts. snd (IncrementPlay destination counts)) (svActivity sv)\<rparr>)
                  | _ \<Rightarrow> Some ([], sv) }
              | _ \<Rightarrow> Some ([], sv) } })"

section \<open>The server's tick\<close>

definition serverExpireDetached :: "Server \<Rightarrow> Server option" where
  "serverExpireDetached sv =
     foldM (\<lambda>key sv. map_option snd (inWorld key (\<lambda>inst. map_option (Pair ()) (expireDetached inst)) sv))
       (Mapping.ordered_keys (svInstances sv)) sv"

text \<open>
  One world: its frames, its travellers, and the end of a challenge. \<open>torn\<close> and \<open>engines\<close> are as for \<open>instanceTick\<close>; \<open>tokens\<close>
  yields a random token for a traveller.
\<close>

definition frameEffects :: "WorldInstance \<Rightarrow> TickOut \<Rightarrow> Effect list" where
  "frameEffects inst out =
     concat (map (\<lambda>(p, msg). case Mapping.lookup (Clients inst) p of
         None \<Rightarrow> [] | Some c \<Rightarrow> [Send (wcConn c) (Frame msg)]) (toMessages out)) @
     map (\<lambda>(c, msg). Send c (Frame msg)) (toWatched out)"

definition tickWorld ::
  "(RoomManager \<Rightarrow> RoomManager) \<Rightarrow> Disk \<Rightarrow> (string \<Rightarrow> string list) \<Rightarrow> (SaveError \<Rightarrow> string) \<Rightarrow> (int \<Rightarrow> int) \<Rightarrow> bool \<Rightarrow>
   (int \<Rightarrow> string) \<Rightarrow> (int \<Rightarrow> int option) \<Rightarrow> string \<Rightarrow> Server \<Rightarrow> (Effect list \<times> Server) option" where
  "tickWorld torn disk help errText lower written tokens engines key sv =
     (case instanceOf key sv of
        None \<Rightarrow> Some ([], sv)
      | Some before \<Rightarrow> do {
          (out, inst) \<leftarrow> instanceTick torn (dkCreated disk) help engines before;
          let sv = putInstance key inst sv;
          let effects = frameEffects inst out;
          (effects, sv) \<leftarrow> foldM (\<lambda>transit (effects, sv). do {
              (more, sv) \<leftarrow> completeWorldTransit disk help errText (tokens (wtPlayerID transit)) key transit sv;
              Some (effects @ more, sv) }) (toTransits out) (effects, sv);
          (case (toCompleted out, Challenge inst) of
             (True, Some run) \<Rightarrow>
               (case runResult run of
                  None \<Rightarrow> Some (effects, sv)
                | Some result \<Rightarrow>
                    (case finishChallengeRun lower written key run result sv of (reply, _, sv) \<Rightarrow>
                     Some (effects @ (case instanceOf key sv of None \<Rightarrow> []
                        | Some inst \<Rightarrow> (case Mapping.lookup (Clients inst) (runPlayerID run) of
                             None \<Rightarrow> [] | Some c \<Rightarrow> [Send (wcConn c) reply])), sv)))
           | _ \<Rightarrow> Some (effects, sv)) })"

definition serverTick ::
  "(RoomManager \<Rightarrow> RoomManager) \<Rightarrow> Disk \<Rightarrow> (string \<Rightarrow> string list) \<Rightarrow> (SaveError \<Rightarrow> string) \<Rightarrow> (int \<Rightarrow> int) \<Rightarrow> bool \<Rightarrow>
   (int \<Rightarrow> string) \<Rightarrow> (string \<Rightarrow> int \<Rightarrow> int option) \<Rightarrow> Server \<Rightarrow> (Effect list \<times> (string \<times> int list) list \<times> Server) option" where
  "serverTick torn disk help errText lower written tokens engines sv =
     do { sv \<leftarrow> serverExpireDetached sv;
          (effects, sv) \<leftarrow> foldM (\<lambda>key (effects, sv). do {
              (more, sv) \<leftarrow> tickWorld torn disk help errText lower written tokens (engines key) key sv;
              Some (effects @ more, sv) }) (Mapping.ordered_keys (svInstances sv)) ([], sv);
          (saved, sv) \<leftarrow> maybeAutosave disk sv;
          Some (effects, saved, evictIdleInstances sv) }"

end
