(* ===== verification/NetScreen.thy ===== *)
theory NetScreen
  imports Protocol
begin

text \<open>
  What a client is told of the screen: the drained frame of a tick and the whole screen of a snapshot
  carry the squares they should, once each, as they are drawn, and never an element the board hides.
\<close>

lemma foldM_collect:
  "foldM (\<lambda>x acc. if P x then do { c \<leftarrow> f x; Some (acc @ [c]) } else Some acc) xs acc = Some res \<Longrightarrow>
   \<exists>cs. res = acc @ cs \<and> list_all2 (\<lambda>x c. f x = Some c) (filter P xs) cs"
proof (induction xs arbitrary: acc)
  case (Cons x xs)
  show ?case
  proof (cases "P x")
    case True
    with Cons.prems obtain c where c: "f x = Some c"
      and rest: "foldM (\<lambda>x acc. if P x then do { c \<leftarrow> f x; Some (acc @ [c]) } else Some acc) xs (acc @ [c]) = Some res"
      by (auto simp: bind_eq_Some_conv)
    obtain cs where "res = (acc @ [c]) @ cs" "list_all2 (\<lambda>x c. f x = Some c) (filter P xs) cs"
      using Cons.IH [OF rest] by blast
    then show ?thesis using True c by (intro exI [of _ "c # cs"]) simp
  qed (use Cons in simp)
qed simp

lemma foldM_collect_rows:
  "foldM (\<lambda>y. foldM (\<lambda>x acc. if P x y then do { c \<leftarrow> f x y; Some (acc @ [c]) } else Some acc) xs) ys acc = Some res \<Longrightarrow>
   \<exists>cs. res = acc @ cs \<and>
     list_all2 (\<lambda>(x, y) c. f x y = Some c) (filter (\<lambda>(x, y). P x y) (concat (map (\<lambda>y. map (\<lambda>x. (x, y)) xs) ys))) cs"
proof (induction ys arbitrary: acc)
  case (Cons y ys)
  then obtain mid where row: "foldM (\<lambda>x acc. if P x y then do { c \<leftarrow> f x y; Some (acc @ [c]) } else Some acc) xs acc = Some mid"
    and rest: "foldM (\<lambda>y. foldM (\<lambda>x acc. if P x y then do { c \<leftarrow> f x y; Some (acc @ [c]) } else Some acc) xs) ys mid = Some res"
    by (auto simp: bind_eq_Some_conv)
  obtain cs where cs: "mid = acc @ cs" "list_all2 (\<lambda>x c. f x y = Some c) (filter (\<lambda>x. P x y) xs) cs"
    using foldM_collect [OF row] by blast
  obtain ds where ds: "res = mid @ ds" "list_all2 (\<lambda>(x, y) c. f x y = Some c)
      (filter (\<lambda>(x, y). P x y) (concat (map (\<lambda>y. map (\<lambda>x. (x, y)) xs) ys))) ds"
    using Cons.IH [OF rest] by blast
  have "list_all2 (\<lambda>(x, y) c. f x y = Some c) (filter (\<lambda>(x, y). P x y) (map (\<lambda>x. (x, y)) xs)) cs"
    using cs(2) by (simp add: filter_map comp_def list_all2_map1)
  then show ?case using cs(1) ds by (intro exI [of _ "cs @ ds"]) (simp add: list_all2_appendI)
qed simp

text \<open>The squares of a screen in the order they are sent.\<close>

definition netSquares :: "Engine \<Rightarrow> (int \<times> int) list" where
  "netSquares e = concat (map (\<lambda>y. map (\<lambda>x. (x, y)) [0..netScreenWidth e - 1]) [0..24])"

lemma netSquares_set: "(x, y) \<in> set (netSquares e) \<longleftrightarrow> 0 \<le> x \<and> x < netScreenWidth e \<and> 0 \<le> y \<and> y < 25"
  unfolding netSquares_def set_concat set_map set_upto image_image UN_iff by (auto intro!: image_eqI)

lemma distinct_squares: "distinct xs \<Longrightarrow> distinct ys \<Longrightarrow> distinct (concat (map (\<lambda>y. map (\<lambda>x. (x, y)) xs) ys))"
  by (induction ys) (auto simp: distinct_map inj_on_def)

lemma netSquares_distinct: "distinct (netSquares e)"
  unfolding netSquares_def by (rule distinct_squares) (rule distinct_upto)+

text \<open>A cell tells the truth, and hides what the screen hides.\<close>

definition honest :: "Engine \<Rightarrow> ScreenCell \<Rightarrow> bool" where
  "honest e c \<longleftrightarrow>
     Screen e (cX c) (cY c) = (cCh c, cColor c) \<and>
     (cElement c \<noteq> 0 \<longrightarrow>
        0 \<le> cX c \<and> cX c < BOARD_WIDTH \<and> 0 \<le> cY c \<and> cY c < BOARD_HEIGHT \<and>
        cElement c = Element (Tiles (Board e) (cX c + 1) (cY c + 1)) \<and>
        \<not> (cCh c = 176 \<and> cColor c = 7) \<and> cCh c \<noteq> 32)"

lemma screenCell_honest:
  "screenCell x y e = Some c \<Longrightarrow> cX c = x \<and> cY c = y \<and> honest e c"
  by (auto simp: screenCell_def disclosedElement_def honest_def elementAt_def tileAt_def Let_def
      split: Option.bind_splits if_splits prod.splits)

lemma collected_cells:
  assumes "list_all2 (\<lambda>(x, y) c. screenCell x y e = Some c) sqs cells"
  shows "map (\<lambda>c. (cX c, cY c)) cells = sqs" "list_all (honest e) cells"
proof -
  have "(cX c, cY c) = sq \<and> honest e c" if "(\<lambda>(x, y) c. screenCell x y e = Some c) sq c" for sq c
    using that by (auto dest: screenCell_honest)
  then have "list_all2 (\<lambda>sq c. (cX c, cY c) = sq \<and> honest e c) sqs cells"
    using assms by (auto elim!: list_all2_mono)
  then show "map (\<lambda>c. (cX c, cY c)) cells = sqs" "list_all (honest e) cells"
    by (induction rule: list_all2_induct) auto
qed

lemma drained_frame:
  assumes "DrainScreenDirty e = Some (cells, e')"
  shows "map (\<lambda>c. (cX c, cY c)) cells = filter (\<lambda>p. p \<in> set (screenDirty e)) (netSquares e) \<and>
     distinct (map (\<lambda>c. (cX c, cY c)) cells) \<and> list_all (honest e) cells \<and>
     e' = e\<lparr>screenDirty := []\<rparr> \<and> (MultiRoom e \<longrightarrow> (\<forall>c\<in>set cells. cX c < BOARD_WIDTH))"
proof -
  have squares: "map (\<lambda>c. (cX c, cY c)) cells = filter (\<lambda>p. p \<in> set (screenDirty e)) (netSquares e) \<and>
      list_all (honest e) cells \<and> e' = e\<lparr>screenDirty := []\<rparr>"
  proof (cases "screenDirty e = []")
    case True
    then show ?thesis using assms by (simp add: DrainScreenDirty_def)
  next
    case False
    let ?e = "e\<lparr>screenDirty := []\<rparr>"
    let ?P = "\<lambda>x y. (x, y) \<in> set (screenDirty e) \<and> 0 \<le> x \<and> x < 80 \<and> 0 \<le> y \<and> y < 25"
    have drained: "foldM (\<lambda>y. foldM (\<lambda>x cells. if ?P x y then do { c \<leftarrow> screenCell x y ?e; Some (cells @ [c]) } else Some cells)
        [0..netScreenWidth ?e - 1]) [0..24] [] = Some cells" and e': "e' = ?e"
      using assms False by (auto simp: DrainScreenDirty_def Let_def simp del: upto_rec_numeral split: Option.bind_splits)
    obtain cs where "cells = [] @ cs" "list_all2 (\<lambda>(x, y) c. screenCell x y ?e = Some c)
        (filter (\<lambda>(x, y). ?P x y) (concat (map (\<lambda>y. map (\<lambda>x. (x, y)) [0..netScreenWidth ?e - 1]) [0..24]))) cs"
      using foldM_collect_rows [OF drained] by blast
    then have all: "list_all2 (\<lambda>(x, y) c. screenCell x y ?e = Some c) (filter (\<lambda>(x, y). ?P x y) (netSquares ?e)) cells"
      by (simp only: append_Nil netSquares_def)
    have "netSquares ?e = netSquares e" by (simp only: netSquares_def netScreenWidth_def) simp
    moreover have "filter (\<lambda>(x, y). ?P x y) (netSquares e) = filter (\<lambda>p. p \<in> set (screenDirty e)) (netSquares e)"
      by (rule filter_cong [OF refl]) (auto simp: netSquares_set netScreenWidth_def split: if_splits)
    moreover have "honest ?e = honest e" by (simp add: honest_def fun_eq_iff)
    ultimately show ?thesis using collected_cells [OF all] e' by simp
  qed
  then have "(cX c, cY c) \<in> set (netSquares e)" if "c \<in> set cells" for c
    using that by (metis (no_types, lifting) filter_is_subset in_set_conv_decomp list.set_intros(1) list.simps(9) map_append set_append subsetD UnCI)
  then show ?thesis
    using squares netSquares_distinct by (auto simp: netSquares_set netScreenWidth_def)
qed

lemma foldM_total: "(\<And>x s. f x s \<noteq> None) \<Longrightarrow> foldM f xs s \<noteq> None"
  by (induction xs arbitrary: s) (auto split: Option.bind_splits)

lemma screenCell_total: "screenCell x y e \<noteq> None"
  by (auto simp: screenCell_def disclosedElement_def elementAt_def tileAt_def inTiles_def Let_def
      split: Option.bind_splits if_splits prod.splits)

lemma DrainScreenDirty_total: "DrainScreenDirty e \<noteq> None"
proof -
  have "foldM (\<lambda>y. foldM (\<lambda>x cells. if P x y then do { c \<leftarrow> screenCell x y e; Some (cells @ [c]) } else Some cells)
      xs) ys [] \<noteq> None" for P xs ys e
    by (intro foldM_total) (auto simp: screenCell_total split: Option.bind_splits)
  note cells = this
  have bind: "m \<noteq> None \<Longrightarrow> (\<And>x. f x \<noteq> None) \<Longrightarrow> m \<bind> f \<noteq> None" for m :: "ScreenCell list option" and f
    by (cases m) auto
  show ?thesis
    unfolding DrainScreenDirty_def Let_def
    by (cases "screenDirty e = []", simp, simp only: if_False) (rule bind, rule cells, simp)
qed

text \<open>
  C23. The frame drained after a tick is always drawn: the dirty squares of the network screen, each once and in
  reading order, with the character and colour on the screen; an element is named only when it stands
  on the board there and is neither in the dark nor drawn blank. Draining empties the list and
  touches nothing else; in a room the sidebar columns never leave.
\<close>

theorem DrainScreenDirty_frame:
  "\<exists>cells. DrainScreenDirty e = Some (cells, e\<lparr>screenDirty := []\<rparr>) \<and>
     map (\<lambda>c. (cX c, cY c)) cells = filter (\<lambda>p. p \<in> set (screenDirty e)) (netSquares e) \<and>
     distinct (map (\<lambda>c. (cX c, cY c)) cells) \<and> list_all (honest e) cells \<and>
     (MultiRoom e \<longrightarrow> (\<forall>c\<in>set cells. cX c < BOARD_WIDTH))"
proof -
  obtain cells e' where d: "DrainScreenDirty e = Some (cells, e')" using DrainScreenDirty_total by fastforce
  have e': "e' = e\<lparr>screenDirty := []\<rparr>" using drained_frame [OF d] by blast
  show ?thesis using drained_frame [OF d] d unfolding e' by blast
qed

theorem DrainScreenDirty_frame_witness:
  "\<exists>cells. DrainScreenDirty (NewEngine\<lparr>MultiRoom := True, screenDirty := [(3, 4), (70, 4)]\<rparr>) =
      Some (cells, NewEngine\<lparr>MultiRoom := True, screenDirty := []\<rparr>) \<and> (\<forall>c\<in>set cells. cX c < BOARD_WIDTH)"
  using DrainScreenDirty_frame [of "NewEngine\<lparr>MultiRoom := True, screenDirty := [(3, 4), (70, 4)]\<rparr>"] by auto

end
