(* ===== verification/Spawning.thy ===== *)
theory Spawning
  imports StatArray Drawable Keeps
begin

text \<open>
  Spawning a player into an engine: on a sane board with room it always succeeds, and adds one fresh
  player and nothing else; on a full board the newcomer is given the last stat there is.
\<close>

lemma AddStat_returns:
  assumes "onBoard tx ty" and "standing e" and "soundTransporters e" and "StatCount (Board e) < MAX_STAT"
    and "\<exists>d. elemDef (Element (Tiles (Board e) tx ty)) = Some d" and "\<exists>d. elemDef el = Some d" and "el \<noteq> E_TRANSPORTER"
    and "Data template = []"
  shows "\<exists>e0 e'. AddStat tx ty el color tcycle template e = Some e' \<and> drawn e0 e' \<and> standing e0 \<and>
     soundTransporters e0 \<and> Players e0 = Players e \<and> PHeap e0 = PHeap e \<and> PNext e0 = PNext e \<and>
     IsDark (bInfo (Board e0)) = IsDark (bInfo (Board e))"
proof -
  let ?n = "StatCount (Board e) + 1" and ?under = "Tiles (Board e) tx ty"
  obtain d where d: "elemDef (Element ?under) = Some d" using assms(5) by blast
  have in': "inTiles tx ty" "u8 tx = tx" "u8 ty = ty" "ty > 0"
    using assms(1) by (auto simp: onBoard_def inTiles_def u8_def)
  have el: "0 \<le> el" "el \<le> MAX_ELEMENT" using assms(6) by (simp_all only: elemDef_Some_iff)
  have n: "inStats ?n" using assms(2,4) by (simp add: standing_def inStats_def)
  define c where "c = (if PlaceableOnTop d then u8 (fgOf color + bgOf (Color ?under)) else u8 color)"
  define e0 where "e0 = putTile tx ty (?under\<lparr>Color := c, Element := el\<rparr>)
    (putStat ?n (template\<lparr>sX := tx, sY := ty, sCycle := tcycle, Under := ?under, DataPos := 0\<rparr>)
      (setStatCount ?n e))"
  have add: "AddStat tx ty el color tcycle template e = BoardDrawTile tx ty e0"
    using assms(4,8) n in' d
    by (simp add: AddStat_def Let_def modStat_def statAt_def putStat_def setStatCount_def tileAt_def setColor_def
        setElement_def setTile_def putTile_def e0_def c_def)
  have stats: "StatCount (Board e0) = ?n"
    "Stats (Board e0) = (Stats (Board e))(?n := template\<lparr>sX := tx, sY := ty, sCycle := tcycle, Under := ?under, DataPos := 0\<rparr>)"
    "Tiles (Board e0) x y = (if x = tx \<and> y = ty then ?under\<lparr>Color := c, Element := el\<rparr> else Tiles (Board e) x y)"
    "CurrentTick e0 = CurrentTick e" for x y
    by (auto simp: e0_def putTile_def putStat_def setStatCount_def)
  have "standing e0" using assms(2,4) in' by (auto simp: standing_def stats)
  moreover have "soundTransporters e0" using assms(3,7) by (auto simp: soundTransporters_def stats Let_def)
  moreover obtain e' where draw: "BoardDrawTile tx ty e0 = Some e'"
    using drawing_total [OF assms(1) calculation] el by (auto simp: stats)
  moreover have "drawn e0 e'" using BoardDrawTile_drawn [OF draw.refl, of e0 tx ty] draw by (simp add: ok_def)
  ultimately show ?thesis
    using add by (intro exI [of _ e0] exI [of _ e']) (simp add: e0_def putTile_def putStat_def setStatCount_def)
qed

text \<open>The states of the other stats are left alone, and the new one is a fresh player's.\<close>

definition freshState :: "PlayerState \<Rightarrow> bool" where
  "freshState p \<longleftrightarrow>
     pHealth p = 100 \<and> pAmmo p = 0 \<and> pGems p = 0 \<and> pTorches p = 0 \<and> pTorchTicks p = 0 \<and>
     pEnergizerTicks p = 0 \<and> pScore p = 0 \<and> pBoardTimeSec p = 0 \<and> pBoardTimeHsec p = 0 \<and>
     (\<forall>i. 0 \<le> i \<longrightarrow> i \<le> 6 \<longrightarrow> \<not> pKeys p i) \<and> \<not> Paused p"

text \<open>\<open>ResetPlayerState\<close> and \<open>SetReenterPoint\<close> of one stat.\<close>

lemma reset_reenter:
  assumes "heapOk e"
    and "e' = SetReenterPoint i x y (ResetPlayerState i e)"
  shows "Board e' = Board e" "CurrentTick e' = CurrentTick e" "heapOk e'"
    "\<exists>ps. Players e' i = Some ps \<and> freshState (PHeap e' ps)"
    "\<And>j ps. Players e j = Some ps \<Longrightarrow> Players e' j = Some ps"
    "\<And>j ps. Players e j = Some ps \<Longrightarrow> (\<And>k. Players e k = Some ps \<Longrightarrow> k = j) \<Longrightarrow> j \<noteq> i \<Longrightarrow> PHeap e' ps = PHeap e ps"
proof -
  obtain ps e1 where p: "PlayerFor i e = (ps, e1)" by force
  have ok: "Players e j = Some q \<Longrightarrow> q < PNext e" for j q using assms(1) by (simp add: heapOk_def)
  have new: "Players e j \<noteq> Some (PNext e)" for j using ok by blast
  have at: "Players e1 i = Some ps" and e1: "Board e1 = Board e" "CurrentTick e1 = CurrentTick e"
    and alloc: "\<And>j q. Players e j = Some q \<Longrightarrow> Players e1 j = Some q \<and> PHeap e1 q = PHeap e q"
    and own: "Players e i = Some ps \<or> (\<forall>j. Players e j \<noteq> Some ps)"
    using p ok new by (auto simp: PlayerFor_def split: option.splits)
  have ok1: "heapOk e1"
    using p ok by (auto simp: PlayerFor_def heapOk_def less_imp_le dest: ok split: option.splits if_splits)
  have again: "PlayerFor i (modPlayer ps f e1) = (ps, modPlayer ps f e1)" for f
    using at by (simp add: PlayerFor_def modPlayer_def)
  define st where "st = PHeap e' ps"
  have e': "e' = modPlayer ps (\<lambda>_. st) e1" and st: "freshState st"
    by (simp_all add: st_def assms(2) SetReenterPoint_def ResetPlayerState_def p again)
       (simp_all add: modPlayer_def freshState_def resetMessageFlags_def)
  show "Board e' = Board e" "CurrentTick e' = CurrentTick e" "heapOk e'"
    using e1 ok1 by (simp_all add: e' modPlayer_def heapOk_def)
  show "\<exists>ps. Players e' i = Some ps \<and> freshState (PHeap e' ps)"
    using at st by (simp add: e' modPlayer_def)
  show "Players e' j = Some q" if "Players e j = Some q" for j q
    using alloc [OF that] by (simp add: e' modPlayer_def)
  show "PHeap e' q = PHeap e q"
    if q: "Players e j = Some q" and "\<And>k. Players e k = Some q \<Longrightarrow> k = j" and "j \<noteq> i" for j q
  proof -
    have "q \<noteq> ps" using own that by metis
    then show ?thesis using alloc [OF q] by (simp add: e' modPlayer_def)
  qed
qed

text \<open>
  The square \<open>SpawnPlayer\<close> uses: the board's start square, or the middle when that is off the board.
\<close>

definition startSquare :: "Engine \<Rightarrow> int \<times> int" where
  "startSquare e =
     (let x = StartPlayerX (bInfo (Board e)); y = StartPlayerY (bInfo (Board e))
      in if onBoard x y then (x, y) else (BOARD_WIDTH div 2, BOARD_HEIGHT div 2))"

lemma startSquare_onBoard: "startSquare e = (x, y) \<Longrightarrow> onBoard x y"
  by (auto simp: startSquare_def Let_def onBoard_def split: if_splits)

lemma SpawnPlayer_at:
  assumes "startSquare e = (x, y)"
  shows "SpawnPlayer e = do {
     e \<leftarrow> AddStat x y E_PLAYER 31 1 StatTemplateDefault e;
     let i = StatCount (Board e);
     e \<leftarrow> setTile x y \<lparr>Element = E_PLAYER, Color = 31\<rparr> e;
     e \<leftarrow> BoardDrawTile x y (SetReenterPoint i x y (ResetPlayerState i e));
     Some (i, e) }"
proof -
  have "(if StartPlayerX (bInfo (Board e)) < 1 \<or> StartPlayerX (bInfo (Board e)) > BOARD_WIDTH \<or>
      StartPlayerY (bInfo (Board e)) < 1 \<or> StartPlayerY (bInfo (Board e)) > BOARD_HEIGHT
    then (BOARD_WIDTH div 2, BOARD_HEIGHT div 2)
    else (StartPlayerX (bInfo (Board e)), StartPlayerY (bInfo (Board e)))) = (x, y)"
    using assms by (auto simp: startSquare_def Let_def onBoard_def split: if_splits)
  then show ?thesis
    by (simp only: SpawnPlayer_def Let_def prod.case elemDef_eval bind.bind_lunit) (simp add: ElementDef_4_def ElementDef_default_def)
qed


text \<open>The states of different stats are different objects.\<close>

definition ownStates :: "Engine \<Rightarrow> bool" where
  "ownStates e \<longleftrightarrow> (\<forall>i j a. Players e i = Some a \<longrightarrow> Players e j = Some a \<longrightarrow> i = j)"

text \<open>A sane board: what is on it can be drawn, and its players have states of their own.\<close>

definition sane :: "Engine \<Rightarrow> bool" where
  "sane e \<longleftrightarrow> standing e \<and> soundTransporters e \<and> heapOk e \<and> ownStates e \<and>
     (\<forall>x y. onBoard x y \<longrightarrow> 0 \<le> Element (Tiles (Board e) x y) \<and> Element (Tiles (Board e) x y) \<le> MAX_ELEMENT)"

text \<open>The last part of a spawn, on the board the stat was added to.\<close>

lemma spawn_tail:
  assumes "onBoard x y" and "standing e" and "soundTransporters e" and "heapOk e"
    and "i = StatCount (Board e)"
  shows "\<exists>e'. (do { e \<leftarrow> setTile x y \<lparr>Element = E_PLAYER, Color = 31\<rparr> e;
       e \<leftarrow> BoardDrawTile x y (SetReenterPoint i x y (ResetPlayerState i e));
       Some (i, e) }) = Some (i, e') \<and>
     Stats (Board e') = Stats (Board e) \<and> StatCount (Board e') = StatCount (Board e) \<and>
     IsDark (bInfo (Board e')) = IsDark (bInfo (Board e)) \<and>
     Element (Tiles (Board e') x y) = E_PLAYER \<and> heapOk e' \<and>
     (\<exists>ps. Players e' i = Some ps \<and> freshState (PHeap e' ps)) \<and>
     (\<forall>j ps. Players e j = Some ps \<longrightarrow> Players e' j = Some ps \<and>
        ((\<forall>k. Players e k = Some ps \<longrightarrow> k = j) \<longrightarrow> j \<noteq> i \<longrightarrow> PHeap e' ps = PHeap e ps))"
proof -
  have in': "inTiles x y" using assms(1) by (auto simp: onBoard_def inTiles_def)
  define e1 where "e1 = putTile x y \<lparr>Element = E_PLAYER, Color = 31\<rparr> e"
  define e2 where "e2 = SetReenterPoint i x y (ResetPlayerState i e1)"
  have e1: "setTile x y \<lparr>Element = E_PLAYER, Color = 31\<rparr> e = Some e1" using in' by (simp add: setTile_def e1_def)
  have b1: "Stats (Board e1) = Stats (Board e)" "StatCount (Board e1) = StatCount (Board e)"
    "bInfo (Board e1) = bInfo (Board e)" "CurrentTick e1 = CurrentTick e" "Players e1 = Players e" "PHeap e1 = PHeap e"
    "Element (Tiles (Board e1) u v) = (if u = x \<and> v = y then E_PLAYER else Element (Tiles (Board e) u v))" for u v
    by (auto simp: e1_def putTile_def)
  have "heapOk e1" using assms(4) by (simp add: heapOk_def b1(5)) (simp add: e1_def putTile_def)
  note r = reset_reenter [OF this e2_def]
  have "standing e2" "soundTransporters e2"
    using assms(2,3) by (auto simp: standing_def soundTransporters_def r(1,2) b1 Let_def)
  then obtain e' where draw: "BoardDrawTile x y e2 = Some e'"
    using drawing_total [OF assms(1), of e2] by (auto simp: r(1) b1)
  note keep = BoardDrawTile_keeps_board [OF draw]
  have alloc: "allocated e2 e'" using BoardDrawTile_drawn [OF draw.refl, of e2 x y] draw by (simp add: ok_def drawn_def)
  have state: "Players e' j = Some ps \<and> PHeap e' ps = PHeap e2 ps" if "Players e2 j = Some ps" for j ps
    using alloc r(3) that by (simp add: allocated_def heapOk_def)
  obtain ps where ps: "Players e2 i = Some ps" "freshState (PHeap e2 ps)" using r(4) by blast
  have "heapOk e'" using alloc r(3) by (fastforce simp: allocated_def heapOk_def)
  moreover have "Players e' i = Some ps \<and> freshState (PHeap e' ps)" using state [OF ps(1)] ps(2) by simp
  moreover have "Players e' j = Some q \<and>
      ((\<forall>k. Players e k = Some q \<longrightarrow> k = j) \<longrightarrow> j \<noteq> i \<longrightarrow> PHeap e' q = PHeap e q)" if q: "Players e j = Some q" for j q
  proof -
    have q1: "Players e1 j = Some q" using q by (simp add: b1)
    have "PHeap e2 q = PHeap e q" if "\<forall>k. Players e k = Some q \<longrightarrow> k = j" "j \<noteq> i"
      using r(6) [OF q1] that by (simp add: b1)
    then show ?thesis using state [OF r(5) [OF q1]] by simp
  qed
  moreover have "Stats (Board e') = Stats (Board e)" "StatCount (Board e') = StatCount (Board e)"
    "IsDark (bInfo (Board e')) = IsDark (bInfo (Board e))" "Element (Tiles (Board e') x y) = E_PLAYER"
    using keep(1-4) by (simp_all add: r(1) b1)
  moreover have "do { e \<leftarrow> setTile x y \<lparr>Element = E_PLAYER, Color = 31\<rparr> e;
       e \<leftarrow> BoardDrawTile x y (SetReenterPoint i x y (ResetPlayerState i e));
       Some (i, e) } = Some (i, e')"
    by (simp only: e1 e2_def [symmetric] bind.bind_lunit draw)
  ultimately show ?thesis by blast
qed

text \<open>
  C21. A player can always join a sane board with room for a stat: \<open>SpawnPlayer\<close> returns, the player is
  the new last stat, on the start square (or the middle of the board when the start square is off
  it), over what was there, with the inventory of a new player; the other stats keep their place and
  every other player keeps the very state they had.
\<close>

theorem SpawnPlayer_joins:
  assumes "sane e" and "StatCount (Board e) < MAX_STAT" and "startSquare e = (x, y)"
  shows "\<exists>e'. SpawnPlayer e = Some (StatCount (Board e) + 1, e') \<and>
     StatCount (Board e') = StatCount (Board e) + 1 \<and> Element (Tiles (Board e') x y) = E_PLAYER \<and>
     Stats (Board e') = (Stats (Board e))(StatCount (Board e) + 1 :=
       StatTemplateDefault\<lparr>sX := x, sY := y, sCycle := 1, Under := Tiles (Board e) x y\<rparr>) \<and>
     (\<exists>ps. Players e' (StatCount (Board e) + 1) = Some ps \<and> freshState (PHeap e' ps)) \<and>
     (\<forall>j ps. j \<noteq> StatCount (Board e) + 1 \<longrightarrow> Players e j = Some ps \<longrightarrow>
        Players e' j = Some ps \<and> PHeap e' ps = PHeap e ps) \<and>
     IsDark (bInfo (Board e')) = IsDark (bInfo (Board e)) \<and> heapOk e'"
proof -
  let ?n = "StatCount (Board e) + 1" and ?under = "Tiles (Board e) x y"
  have e: "standing e" "soundTransporters e" "heapOk e" "ownStates e" using assms(1) by (simp_all add: sane_def)
  have on: "onBoard x y" using assms(3) by (rule startSquare_onBoard)
  then have xy: "u8 x = x" "u8 y = y" by (auto simp: onBoard_def u8_def)
  have known: "\<exists>d. elemDef (Element ?under) = Some d" "\<exists>d. elemDef E_PLAYER = Some d"
    using assms(1) on by (simp_all add: sane_def elemDef_Some_iff)
  obtain e0 e1 where add: "AddStat x y E_PLAYER 31 1 StatTemplateDefault e = Some e1" and d: "drawn e0 e1"
    and e0: "standing e0" "soundTransporters e0" "Players e0 = Players e" "PHeap e0 = PHeap e" "PNext e0 = PNext e"
      "IsDark (bInfo (Board e0)) = IsDark (bInfo (Board e))"
    using AddStat_returns [OF on e(1,2) assms(2) known, of StatTemplateDefault 31 1]
    by (auto simp: StatTemplateDefault_def)
  have list: "StatCount (Board e1) = ?n" "Stats (Board e1) = (Stats (Board e))(?n := StatTemplateDefault\<lparr>sX := x, sY := y, sCycle := 1, Under := ?under\<rparr>)"
    using AddStat_list [OF add] assms(2) e(1) by (simp_all add: standing_def xy StatTemplateDefault_def)
  have sane1: "standing e1" "soundTransporters e1"
    using e0(1,2) by (simp_all add: standing_def soundTransporters_def drawn_Board [OF d] drawn_rest_eq [OF d])
  have alloc: "allocated e0 e1" using d by (simp add: drawn_def)
  have heap1: "heapOk e1" using alloc e(3) by (fastforce simp: allocated_def heapOk_def e0)
  have keep1: "Players e1 j = Some q \<and> PHeap e1 q = PHeap e q \<and> (\<forall>k. Players e1 k = Some q \<longrightarrow> k = j)"
    if q: "Players e j = Some q" for j q
  proof -
    have "q < PNext e" using q e(3) by (simp add: heapOk_def)
    then have "Players e k = Some q" if "Players e1 k = Some q" for k
      using alloc that by (fastforce simp: allocated_def e0)
    moreover have "Players e1 j = Some q" "PHeap e1 q = PHeap e q"
      using alloc q \<open>q < PNext e\<close> by (simp_all add: allocated_def e0)
    ultimately show ?thesis using q e(4) unfolding ownStates_def by blast
  qed
  from spawn_tail [OF on sane1 heap1 refl]
  obtain e' where tail: "do { e \<leftarrow> setTile x y \<lparr>Element = E_PLAYER, Color = 31\<rparr> e1;
       e \<leftarrow> BoardDrawTile x y (SetReenterPoint ?n x y (ResetPlayerState ?n e));
       Some (?n, e) } = Some (?n, e')"
    and e': "Stats (Board e') = Stats (Board e1)" "StatCount (Board e') = ?n"
      "IsDark (bInfo (Board e')) = IsDark (bInfo (Board e1))" "Element (Tiles (Board e') x y) = E_PLAYER" "heapOk e'"
      "\<exists>ps. Players e' ?n = Some ps \<and> freshState (PHeap e' ps)"
      "\<forall>j ps. Players e1 j = Some ps \<longrightarrow> Players e' j = Some ps \<and>
        ((\<forall>k. Players e1 k = Some ps \<longrightarrow> k = j) \<longrightarrow> j \<noteq> ?n \<longrightarrow> PHeap e' ps = PHeap e1 ps)"
    unfolding list(1) by blast
  have "SpawnPlayer e = Some (?n, e')"
    unfolding SpawnPlayer_at [OF assms(3)] add bind.bind_lunit Let_def list(1) by (rule tail)
  moreover have "Players e' j = Some q \<and> PHeap e' q = PHeap e q" if "j \<noteq> ?n" "Players e j = Some q" for j q
    using keep1 [OF that(2)] e'(7) that(1) by metis
  moreover have "IsDark (bInfo (Board e')) = IsDark (bInfo (Board e))"
    using drawn_Board [OF d] by (simp add: e'(3) e0)
  ultimately show ?thesis using e'(1,2,4,5,6) list by (intro exI [of _ e'] conjI allI impI) simp_all
qed


lemma sane_NewEngine: "sane NewEngine"
  by (simp add: sane_def standing_def soundTransporters_def heapOk_def ownStates_def NewEngine_def zeroBoard_def
      zeroTile_def zeroStat_def inTiles_def Let_def)

theorem SpawnPlayer_joins_witness:
  "\<exists>e'. SpawnPlayer NewEngine = Some (1, e') \<and> StatCount (Board e') = 1 \<and>
     Element (Tiles (Board e') 30 12) = E_PLAYER \<and>
     (\<exists>ps. Players e' 1 = Some ps \<and> pHealth (PHeap e' ps) = 100)"
proof -
  have "StatCount (Board NewEngine) = 0" "startSquare NewEngine = (30, 12)"
    by (simp_all add: NewEngine_def zeroBoard_def startSquare_def onBoard_def Let_def)
  then show ?thesis
    using SpawnPlayer_joins [OF sane_NewEngine, of 30 12] by (auto simp: freshState_def)
qed

text \<open>
  A full board has no place for a newcomer, and says so to nobody: \<open>AddStat\<close> does nothing, and
  \<open>SpawnPlayer\<close> goes on with the stat that is last already. Its id is what the newcomer is given, and the
  player who owned it loses health, ammunition, gems, keys and score to the inventory of a new player.
\<close>

theorem SpawnPlayer_full_board:
  assumes "sane e" and "StatCount (Board e) = MAX_STAT" and "Players e MAX_STAT = Some ps"
  shows "\<exists>e'. SpawnPlayer e = Some (MAX_STAT, e') \<and> StatCount (Board e') = MAX_STAT \<and>
     Stats (Board e') = Stats (Board e) \<and> Players e' MAX_STAT = Some ps \<and> freshState (PHeap e' ps)"
proof -
  obtain x y where at: "startSquare e = (x, y)" by force
  then have on: "onBoard x y" by (rule startSquare_onBoard)
  have add: "AddStat x y E_PLAYER 31 1 StatTemplateDefault e = Some e"
    using assms(2) by (simp add: AddStat_def)
  have e: "standing e" "soundTransporters e" "heapOk e" using assms(1) by (simp_all add: sane_def)
  obtain e' where tail: "do { e \<leftarrow> setTile x y \<lparr>Element = E_PLAYER, Color = 31\<rparr> e;
       e \<leftarrow> BoardDrawTile x y (SetReenterPoint MAX_STAT x y (ResetPlayerState MAX_STAT e));
       Some (MAX_STAT, e) } = Some (MAX_STAT, e')"
    and e': "Stats (Board e') = Stats (Board e)" "StatCount (Board e') = MAX_STAT"
      "\<exists>ps. Players e' MAX_STAT = Some ps \<and> freshState (PHeap e' ps)"
      "\<forall>j ps. Players e j = Some ps \<longrightarrow> Players e' j = Some ps"
    using spawn_tail [OF on e refl] unfolding assms(2) by blast
  moreover have "Players e' MAX_STAT = Some ps" using e'(4) assms(3) by blast
  ultimately have "Players e' MAX_STAT = Some ps \<and> freshState (PHeap e' ps)" by auto
  then show ?thesis
    unfolding SpawnPlayer_at [OF at] add bind.bind_lunit Let_def assms(2) using tail e'(1,2) by blast
qed

definition fullEngine :: Engine where
  "fullEngine = NewEngine\<lparr>Board := (Board NewEngine)\<lparr>StatCount := MAX_STAT, Stats := (\<lambda>_. StatTemplateDefault)\<rparr>,
     Players := [MAX_STAT \<mapsto> 0], PHeap := (\<lambda>_. newPlayerState\<lparr>pAmmo := 50\<rparr>), PNext := 1\<rparr>"

theorem SpawnPlayer_full_board_witness:
  "Players fullEngine MAX_STAT = Some 0 \<and> pAmmo (PHeap fullEngine 0) = 50 \<and>
   (\<exists>e'. SpawnPlayer fullEngine = Some (MAX_STAT, e') \<and> pAmmo (PHeap e' 0) = 0)"
proof -
  have "sane fullEngine"
    by (simp add: sane_def standing_def soundTransporters_def heapOk_def ownStates_def NewEngine_def zeroBoard_def
      zeroTile_def inTiles_def Let_def fullEngine_def StatTemplateDefault_def)
  moreover have "StatCount (Board fullEngine) = MAX_STAT" "Players fullEngine MAX_STAT = Some 0" "pAmmo (PHeap fullEngine 0) = 50"
    by (simp_all add: fullEngine_def)
  ultimately show ?thesis using SpawnPlayer_full_board [of fullEngine 0] by (auto simp: freshState_def)
qed

end
