(* ===== verification/Travel.thy ===== *)
theory Travel
  imports RoomInv Spawning
begin

text \<open>
  A traveller's belongings. A transfer copies the player's state out of one engine and into another,
  removes a stat, renumbers the others, spawns, draws, and may freeze the board left behind. What
  comes out is the state the old engine held at the stat id on record: the player's own when the record is up to
  date, as the end of every tick makes it, and somebody else's when stats have moved since.
\<close>

section \<open>Drawing leaves every state alone\<close>

lemma arrival_drawn:
  assumes "drawPlayerArrivalSurroundings i e = Some e'"
  shows "drawn e e'"
proof -
  have "ok (drawn e) (drawPlayerArrivalSurroundings i e)"
    unfolding drawPlayerArrivalSurroundings_def DrawPlayerSurroundings_0 Let_def
    by (rule ok_paths draw.paths drawn_rules draw.refl | assumption)+
  then show ?thesis using assms by (simp add: ok_def)
qed

section \<open>A seat in a room\<close>

text \<open>
  What the freezing of another board may not touch: the players, and the occupants and player states of
  the room of board \<open>b\<close>.
\<close>

definition sameSeat :: "int \<Rightarrow> RoomManager \<Rightarrow> RoomManager \<Rightarrow> bool" where
  "sameSeat b rm rm' \<longleftrightarrow>
     rmPlayers rm' = rmPlayers rm \<and>
     map_option (\<lambda>room. (rPlayers room, PHeap (rEngine room), Players (rEngine room))) (roomAt b rm') =
       map_option (\<lambda>room. (rPlayers room, PHeap (rEngine room), Players (rEngine room))) (roomAt b rm)"

interpretation seat: frame "sameSeat b" for b
  by unfold_locales (auto simp: sameSeat_def)

lemma sameSeat_onRoom:
  assumes "onRoom c f rm = Some rm'" and "c = b \<Longrightarrow> (\<And>e e'. f e = Some e' \<Longrightarrow> PHeap e' = PHeap e \<and> Players e' = Players e)"
  shows "sameSeat b rm rm'"
  using assms
  by (auto simp: onRoom_def sameSeat_def roomAt_putRoom putRoom_def [of c] roomAt_def lookup_update'
      split: Option.bind_splits)

lemma adoptScope_heap [simp]: "PHeap (adoptScope w e) = PHeap e" "Players (adoptScope w e) = Players e"
  by (simp_all add: adoptScope_def modWorldInfo_def)

lemma sameSeat_refresh: "sameSeat b rm (refreshRoomWorldScope c rm)"
  by (simp add: sameSeat_def refreshRoomWorldScope_def roomAt_def lookup_map_entry' modRoomEngine_def
      option.map_comp comp_def)

lemma sameSeat_publish: "sameSeat b rm (publishRoomWorldScope c rm)"
  by (simp add: sameSeat_def publishRoomWorldScope_def Let_def roomAt_def lookup_map_values modRoomEngine_def
      option.map_comp comp_def split: option.split)

lemma sameSeat_sync:
  assumes "syncFrozenBoardToLiveRooms c rm = Some rm'"
  shows "sameSeat b rm rm'"
proof -
  have "ok (sameSeat b rm) (syncFrozenBoardToLiveRooms c rm)"
    unfolding syncFrozenBoardToLiveRooms_def
  proof (rule ok_foldM)
    fix d s assume s: "sameSeat b rm s"
    show "ok (sameSeat b rm) (do {
         check (inBoards c);
         s \<leftarrow> onRoom d (\<lambda>e. Some (e\<lparr>World := (World e)
                \<lparr>BoardData := (BoardData (World e))(c := BoardData (rmWorld s) c),
                 BoardLen := (BoardLen (World e))(c := BoardLen (rmWorld s) c)\<rparr>\<rparr>)) s;
         Some (refreshRoomWorldScope d s) })"
      using seat.trans [OF s] sameSeat_refresh seat.trans
      by (auto simp: ok_def split: Option.bind_splits dest!: sameSeat_onRoom [where b = b])
  qed (rule seat.refl)
  then show ?thesis using assms by (simp add: ok_def)
qed

lemma sameSeat_freeze:
  assumes "freezeRoomIfEmpty c rm = Some rm'" and "occupants b rm = Some ps" and "ps \<noteq> {}"
  shows "sameSeat b rm rm'"
proof (cases "occupants c rm = Some {}")
  case False
  then show ?thesis
    using assms(1) by (auto simp: freezeRoomIfEmpty_def occupants_def seat.refl split: option.splits if_splits)
next
  case True
  then have other: "c \<noteq> b" using assms(2,3) by auto
  obtain rm1 w where close: "onRoom c BoardClose rm = Some rm1"
    and sync: "syncFrozenBoardToLiveRooms c
      ((publishRoomWorldScope c (rm1\<lparr>rmWorld := w\<rparr>))\<lparr>rmRooms :=
        Mapping.delete c (rmRooms (publishRoomWorldScope c (rm1\<lparr>rmWorld := w\<rparr>)))\<rparr>) = Some rm'"
    using assms(1) True
    by (auto simp: freezeRoomIfEmpty_def occupants_def Let_def split: Option.bind_splits if_splits)
  have "sameSeat b rm rm1" by (rule sameSeat_onRoom [OF close]) (use other in simp)
  moreover have "sameSeat b rm1 (rm1\<lparr>rmWorld := w\<rparr>)" by (simp add: sameSeat_def)
  moreover note sameSeat_publish [of b "rm1\<lparr>rmWorld := w\<rparr>" c]
  moreover have "sameSeat b s (s\<lparr>rmRooms := Mapping.delete c (rmRooms s)\<rparr>)" for s
    using other by (simp add: sameSeat_def roomAt_def lookup_delete_if)
  moreover note sameSeat_sync [OF sync, of b]
  ultimately show ?thesis by (meson seat.trans)
qed

section \<open>The journey\<close>

text \<open>A player whose stat id and state pointer agree in the engine of their room.\<close>

definition seated :: "int \<Rightarrow> RoomManager \<Rightarrow> bool" where
  "seated p rm \<longleftrightarrow>
     (\<exists>pl room. playerAt p rm = Some pl \<and> roomAt (rpBoardID pl) rm = Some room \<and>
        Players (rEngine room) (rpStatID pl) = Some (rpState pl))"

lemma ensureRoom_reads:
  assumes "ensureRoom b rm = Some rm'"
  shows "roomAt c rm = Some room \<Longrightarrow> roomAt c rm' = Some room" "playerAt p rm' = playerAt p rm"
  using assms by (auto simp: ensureRoom_def roomAt_putRoom split: option.splits Option.bind_splits)

lemma tends_boardOf: "ok (tends rm) m \<Longrightarrow> m = Some rm' \<Longrightarrow> boardOf p rm' = boardOf p rm"
  "ok (mgr.R2 rm) n \<Longrightarrow> n = Some (v, rm') \<Longrightarrow> boardOf p rm' = boardOf p rm"
  by (auto simp: ok_def mgr.R2_def tends_def)

text \<open>The hand-over of a state to a stat of a fit engine.\<close>

lemma handed_over:
  assumes "(let (ps, e) = PlayerFor i e in drawPlayerArrivalSurroundings i (modPlayer ps (\<lambda>_. st) e)) = Some e'"
    and "heapOk e"
  shows "\<exists>ps. Players e' i = Some ps \<and> PHeap e' ps = st"
proof -
  obtain ps e1 where p: "PlayerFor i e = (ps, e1)" by force
  have at: "Players e1 i = Some ps" and below: "ps < PNext e1"
    using p assms(2) by (auto simp: PlayerFor_def heapOk_def split: option.splits)
  let ?e = "modPlayer ps (\<lambda>_. st) e1"
  have "allocated ?e e'" using assms(1) p arrival_drawn by (auto simp: drawn_def)
  then show ?thesis using at below by (auto simp: allocated_def modPlayer_def)
qed

text \<open>The steps in the new room: the state is handed over, the player is listed and pointed at it.\<close>

lemma arrives:
  assumes hand: "onRoom b (\<lambda>e. let (ps, e) = PlayerFor new e in
          drawPlayerArrivalSurroundings new (modPlayer ps (\<lambda>_. st) e)) rm6 = Some rm7"
    and room: "roomAt b rm7 = Some room"
    and ask: "inRoom b (\<lambda>e. Some (PlayerFor new e))
          (putRoom b (room\<lparr>rPlayers := insert p (rPlayers room)\<rparr>) rm7) = Some (ps, rm9)"
    and house: "housed P rm6"
  shows "roomAt b rm9 = Some (room\<lparr>rPlayers := insert p (rPlayers room)\<rparr>) \<and>
     Players (rEngine room) new = Some ps \<and> PHeap (rEngine room) ps = st"
proof -
  obtain room6 e7 where room6: "roomAt b rm6 = Some room6" and room7: "room = room6\<lparr>rEngine := e7\<rparr>"
    and e7: "(let (ps, e) = PlayerFor new (rEngine room6) in drawPlayerArrivalSurroundings new (modPlayer ps (\<lambda>_. st) e)) = Some e7"
    using hand room by (auto simp: onRoom_def roomAt_putRoom bind_eq_Some_conv)
  have "heapOk (rEngine room6)" using room_of(2) [OF room6 house] by (simp add: fit_def)
  from handed_over [OF e7 this] obtain ps7 where "Players e7 new = Some ps7" "PHeap e7 ps7 = st" by blast
  then show ?thesis using ask room7 by (auto simp: inRoom_def roomAt_putRoom PlayerFor_def)
qed

text \<open>The freezing of the old board leaves the arrived player as they are.\<close>

lemma settles:
  assumes freeze: "freezeRoomIfEmpty c (modRoomPlayer p (\<lambda>p. p\<lparr>rpBoardID := b, rpStatID := new, rpState := ps\<rparr>) rm9) = Some rm'"
    and room: "roomAt b rm9 = Some room" "p \<in> rPlayers room" and player: "playerAt p rm9 = Some pl"
  shows "playerAt p rm' = Some (pl\<lparr>rpBoardID := b, rpStatID := new, rpState := ps\<rparr>) \<and>
     (\<exists>room'. roomAt b rm' = Some room' \<and> p \<in> rPlayers room' \<and> PHeap (rEngine room') = PHeap (rEngine room) \<and>
        Players (rEngine room') = Players (rEngine room))"
proof -
  let ?s = "modRoomPlayer p (\<lambda>p. p\<lparr>rpBoardID := b, rpStatID := new, rpState := ps\<rparr>) rm9"
  have "sameSeat b ?s rm'"
    by (rule sameSeat_freeze [OF freeze, of _ "rPlayers room"]) (use room in \<open>auto simp: occupants_def\<close>)
  moreover have "playerAt p ?s = Some (pl\<lparr>rpBoardID := b, rpStatID := new, rpState := ps\<rparr>)" "roomAt b ?s = Some room"
    by (simp_all add: playerAt_update player room(1))
  ultimately show ?thesis using room by (auto simp: sameSeat_def playerAt_def)
qed

text \<open>The state an engine holds for a stat: a new one, when it knows no player there.\<close>

definition stateAt :: "int \<Rightarrow> Engine \<Rightarrow> PlayerState" where
  "stateAt i e = (case Players e i of None \<Rightarrow> newPlayerState | Some a \<Rightarrow> PHeap e a)"

text \<open>The end of a tick seats every player whose state the engine of their room still has.\<close>

lemma sync_seats:
  assumes "syncPlayerStatIDs rm = Some rm'" and "finite (Mapping.keys (rmPlayers rm))"
    and "playerAt p rm = Some pl" and "roomAt (rpBoardID pl) rm = Some room"
    and "Players (rEngine room) i = Some (rpState pl)" and "is_i16 i"
  shows "seated p rm'"
proof -
  let ?f = "\<lambda>pid rm. do {
         p \<leftarrow> playerAt pid rm;
         case roomAt (rpBoardID p) rm of
           None \<Rightarrow> Some rm
         | Some room \<Rightarrow>
             (case statOfState (rpState p) (rEngine room) of
                Some i \<Rightarrow> Some (modRoomPlayer pid (\<lambda>p. p\<lparr>rpStatID := i\<rparr>) rm)
              | None \<Rightarrow> Some rm) }"
  define here where "here s \<longleftrightarrow> roomAt (rpBoardID pl) s = Some room \<and>
      (\<exists>q. playerAt p s = Some q \<and> rpBoardID q = rpBoardID pl \<and> rpState q = rpState pl)" for s
  have found: "\<exists>j. statOfState (rpState pl) (rEngine room) = Some j \<and> Players (rEngine room) j = Some (rpState pl)"
  proof -
    have "i \<in> set [-32768..32767]" unfolding set_upto using assms(6) by (simp add: is_i16_def)
    then have "statOfState (rpState pl) (rEngine room) \<noteq> None"
      using assms(5) unfolding statOfState_def find_None_iff by blast
    moreover have "find P xs = Some j \<Longrightarrow> P j" for P and xs :: "int list" and j by (auto simp: find_Some_iff)
    ultimately show ?thesis unfolding statOfState_def by blast
  qed
  have step: "here t \<and> (pid = p \<or> seated p s \<longrightarrow> seated p t)" if "here s" "?f pid s = Some t" for pid s t
  proof (cases "pid = p")
    case True
    then show ?thesis
      using that found by (auto simp: here_def seated_def playerAt_update)
  next
    case False
    then show ?thesis
      using that by (auto simp: here_def seated_def playerAt_update split: option.splits Option.bind_splits)
  qed
  have all: "foldM ?f pids s = Some t \<Longrightarrow> here s \<Longrightarrow> p \<in> set pids \<or> seated p s \<Longrightarrow> seated p t" for pids s t
  proof (induction pids arbitrary: s)
    case (Cons pid pids)
    then obtain u where u: "?f pid s = Some u" "foldM ?f pids u = Some t" by (auto simp: bind_eq_Some_conv)
    show ?case using Cons.IH [OF u(2)] step [OF Cons.prems(2) u(1)] Cons.prems(3) by auto
  qed simp
  have "p \<in> set (playerIDs rm)"
    using assms(2,3) by (simp add: playerIDs_def Mapping.ordered_keys_def playerAt_def keys_dom_lookup domI)
  then show ?thesis using all assms(1,3,4) unfolding syncPlayerStatIDs_def by (force simp: here_def)
qed

text \<open>
  C20. A player who travels to another board, or to another square of their own, arrives with the state that the engine
  of the room they leave holds at the stat id on record for them: health, ammunition, gems, keys, torches, score and
  clock. That is their own state when the record is up to date (\<open>seated\<close>, which \<open>sync_seats\<close> shows of the end of every
  tick), and the state of whoever has moved to that stat, or a new one, when stats were removed earlier in the same
  tick. The arriving player is on the new board, listed by its room, and seated.
\<close>

theorem transferPlayer_keeps_state:
  assumes "transferPlayer p b x y rm = Some rm'" and "housed {} rm" and "PlayerLocation p rm = Some (c, i)"
    and "roomAt c rm = Some src"
  shows "PlayerState_of p rm' = Some (Some (stateAt i (rEngine src))) \<and> seated p rm' \<and>
     (\<exists>j room. PlayerLocation p rm' = Some (b, j) \<and> roomAt b rm' = Some room \<and> p \<in> rPlayers room) \<and>
     (seated p rm \<longrightarrow> PlayerState_of p rm' = PlayerState_of p rm)"
proof -
  obtain pl where pl: "playerAt p rm = Some pl" and loc: "rpBoardID pl = c" "rpStatID pl = i"
    using assms(3) by (auto simp: PlayerLocation_def)
  have src: "roomAt (rpBoardID pl) rm = Some src" using assms(4) loc by simp
  let ?start = "modRoomPlayer p (\<lambda>p. p\<lparr>rpScrollOpen := False\<rparr>) rm" and ?st = "stateAt i (rEngine src)"
  have own: "PlayerState_of p rm = Some (Some ?st)" if "seated p rm"
    using that pl src loc by (auto simp: seated_def PlayerState_of_def stateAt_def)
  show ?thesis
  proof (rule transferE [OF assms(1) pl])
    show "roomAt (rpBoardID pl) rm \<noteq> None" using src by simp
    fix rm1 st rm2 rm3 rm4 rm5 new rm6 rm7 room ps rm9
    assume ensure: "ensureRoom b ?start = Some rm1"
      and copy: "inRoom (rpBoardID pl) (\<lambda>e. let (ps, e) = PlayerFor (rpStatID pl) e in Some (PHeap e ps, e)) rm1 = Some (st, rm2)"
      and remove: "onRoom (rpBoardID pl) (RemovePlayer (rpStatID pl)) rm2 = Some rm3"
      and leave: "leaveRoomSet (rpBoardID pl) p rm3 = Some rm4"
      and reindex: "reindexRoomPlayers (rpBoardID pl) (rpStatID pl) rm4 = Some rm5"
      and spawn: "spawnPlayerInRoom b x y rm5 = Some (new, rm6)"
      and hand: "onRoom b (\<lambda>e. let (ps, e) = PlayerFor new e in
          drawPlayerArrivalSurroundings new (modPlayer ps (\<lambda>_. st) e)) rm6 = Some rm7"
      and room: "roomAt b rm7 = Some room"
      and ask: "inRoom b (\<lambda>e. Some (PlayerFor new e))
          (putRoom b (room\<lparr>rPlayers := insert p (rPlayers room)\<rparr>) rm7) = Some (ps, rm9)"
      and freeze: "freezeRoomIfEmpty (rpBoardID pl)
          (modRoomPlayer p (\<lambda>p. p\<lparr>rpBoardID := b, rpStatID := new, rpState := ps\<rparr>) rm9) = Some rm'"
    have st: "st = ?st"
      using copy ensureRoom_reads(1) [OF ensure, of "rpBoardID pl" src] src loc
      by (auto simp: inRoom_def PlayerFor_def stateAt_def split: option.splits)
    have "moves {} {} rm ?start" by (rule tends_moves) (simp add: mod_tends mgr.refl)
    also note ensureRoom_moves [OF ensure]
    also note inRoom_moves [OF copy hand_over_fit(1)]
    also note onRoom_moves [OF remove engine_fit(1)]
    also note leaveRoomSet_moves [OF leave]
    also note reindex_moves [OF reindex]
    also note spawn_moves [OF spawn]
    finally have house: "housed {p} rm6" using assms(2) by (simp add: moves_def)
    note there = arrives [OF hand room ask house, unfolded st]
    have "boardOf p rm9 = boardOf p rm1"
      using tends_boardOf(2) [OF inRoom_tends [OF mgr.refl hand_over_fit(1)] copy, of p]
        tends_boardOf(1) [OF onRoom_tends [OF mgr.refl engine_fit(1)] remove, of p] leaveRoomSet_boards [OF leave, of p]
        tends_boardOf(1) [OF reindexRoomPlayers_tends [OF mgr.refl] reindex, of p]
        tends_boardOf(2) [OF spawnPlayerInRoom_tends [OF mgr.refl] spawn, of p]
        tends_boardOf(1) [OF onRoom_tends [OF mgr.refl hand_over_fit(2)] hand, of p]
        tends_boardOf(2) [OF inRoom_tends [OF mgr.refl engine_fit(9)] ask, of p] by (simp add: occupants_putRoom)
    then obtain pl9 where pl9: "playerAt p rm9 = Some pl9"
      using pl ensureRoom_reads(2) [OF ensure, of p] by (auto simp: boardOf_def playerAt_update)
    show ?thesis
      using settles [OF freeze _ _ pl9, of "room\<lparr>rPlayers := insert p (rPlayers room)\<rparr>"] there pl src own
      by (auto simp: PlayerState_of_def seated_def PlayerLocation_def)
  qed
qed

text \<open>
  An example: a player walks from board 3 to board 7, on record as stat 1 and with the state 0, which has fifty rounds of
  ammunition; \<open>m\<close> is what the engine has by then.
\<close>

definition hallEngine :: Engine where
  "hallEngine = NewEngine\<lparr>Headless := True, MultiRoom := True\<rparr>"

definition hallPlayer :: roomPlayer where
  "hallPlayer = \<lparr>rpId = 1, rpBoardID = 3, rpStatID = 1, rpState = 0, rpName = ''Ann'', rpAccountID = [],
     rpColor = [], rpHandle = [], rpHasProfile = False, rpScrollOpen = True\<rparr>"

definition hallHeap :: "int \<Rightarrow> PlayerState" where
  "hallHeap a = newPlayerState\<lparr>pAmmo := if a = 0 then 50 else 7\<rparr>"

definition hallManager :: "(int \<Rightarrow> int option) \<Rightarrow> RoomManager" where
  "hallManager m = (NewRoomManagerForWorld (World NewEngine) ''TOWN'')
     \<lparr>rmRooms := Mapping.update 7 \<lparr>rBoardID = 7, rEngine = hallEngine, rPlayers = {3}\<rparr>
        (Mapping.update 3 \<lparr>rBoardID = 3,
           rEngine = hallEngine\<lparr>Players := m, PHeap := hallHeap, PNext := 2\<rparr>, rPlayers = {1, 2}\<rparr> Mapping.empty),
      rmPlayers := Mapping.update 1 hallPlayer Mapping.empty\<rparr>"

lemma hallEngine_simps:
  "StatCount (Board hallEngine) = 0" "Stats (Board hallEngine) = (\<lambda>_. zeroStat)"
  "Tiles (Board hallEngine) = (\<lambda>_ _. zeroTile)" "CurrentTick hallEngine = 0" "Players hallEngine = (\<lambda>_. None)"
  "IsDark (bInfo (Board hallEngine)) = False" "PNext hallEngine = 0" "Headless hallEngine" "MultiRoom hallEngine"
  "FriendlyFire hallEngine"
  by (simp_all add: hallEngine_def NewEngine_def zeroBoard_def)

lemma hall_spawn: "\<exists>e'. spawnAt 10 10 hallEngine = Some (1, e') \<and> \<not> IsDark (bInfo (Board e'))"
proof -
  let ?e = "modInfo (\<lambda>i. i\<lparr>StartPlayerX := 10, StartPlayerY := 10\<rparr>) hallEngine"
  have "sane ?e"
    by (simp add: sane_def standing_def soundTransporters_def heapOk_def ownStates_def hallEngine_simps modInfo_def
      zeroTile_def zeroStat_def inTiles_def Let_def)
  moreover have "startSquare ?e = (10, 10)" "StatCount (Board ?e) = 0" "\<not> IsDark (bInfo (Board ?e))"
    by (simp_all add: startSquare_def onBoard_def modInfo_def Let_def hallEngine_simps)
  ultimately obtain e' where "SpawnPlayer ?e = Some (1, e')" "\<not> IsDark (bInfo (Board e'))"
    using SpawnPlayer_joins [of ?e 10 10] by auto
  then show ?thesis
    by (simp add: spawnAt_def Let_def u8_def modInfo_def drawPlayerArrivalSurroundings_def)
qed

lemma hall_square: "roomSpawn \<lparr>rBoardID = 7, rEngine = hallEngine, rPlayers = {3}\<rparr> 10 10 = Some (10, 10)"
  by (simp add: roomSpawn_def spawnCandidate_def PlacementOpen_def onBoard_def elementAt_def tileAt_def inTiles_def
      hallEngine_simps zeroTile_def StatAt_def statAt_def inStats_def zeroStat_def)

lemma undark_arrival: "\<not> IsDark (bInfo (Board e)) \<Longrightarrow> drawPlayerArrivalSurroundings i e = Some e"
  by (simp add: drawPlayerArrivalSurroundings_def)

lemma hall_transfer:
  assumes "m 1 = Some a"
  shows "transferPlayer 1 7 10 10 (hallManager m) \<noteq> None"
proof -
  obtain e' where spawn: "spawnAt 10 10 hallEngine = Some (1, e')" and lit: "\<not> IsDark (bInfo (Board e'))"
    using hall_spawn by blast
  obtain ps e1 where p: "PlayerFor 1 e' = (ps, e1)" by force
  then have "Board e1 = Board e'" by (auto simp: PlayerFor_def split: option.splits)
  then show ?thesis
    using lit
    by (simp add: transferPlayer_def hallManager_def playerAt_def hallPlayer_def modRoomPlayer_def roomAt_def lookup_update'
        ensureRoom_def inRoom_def onRoom_def putRoom_def PlayerFor_def [of _ "hallEngine\<lparr>Players := _, PHeap := _, PNext := _\<rparr>"] RemovePlayer_def hallEngine_simps leaveRoomSet_def
        reindexRoomPlayers_def playerIDs_def map_entry_code spawnPlayerInRoom_def hall_square spawn p Let_def
        undark_arrival modPlayer_def freezeRoomIfEmpty_def assms split: prod.splits)
qed

text \<open>
  With the state where the record has it, the player keeps the fifty rounds; after a stat before theirs is gone, their
  state is at 0 and the other player's at 1, and they arrive with the other player's seven.
\<close>

theorem transferPlayer_keeps_state_witness:
  "(\<exists>rm ps. transferPlayer 1 7 10 10 (hallManager [1 \<mapsto> 0]) = Some rm \<and> PlayerState_of 1 rm = Some (Some ps) \<and> pAmmo ps = 50) \<and>
   (\<exists>rm ps. transferPlayer 1 7 10 10 (hallManager [0 \<mapsto> 0, 1 \<mapsto> 1]) = Some rm \<and> PlayerState_of 1 rm = Some (Some ps) \<and> pAmmo ps = 7)"
proof -
  have house: "housed {} (hallManager m)" if "ran m \<subseteq> {0, 1}" for m
    using that by (auto simp: housed_def hallManager_def NewRoomManagerForWorld_def enginesFit_def roomAt_def lookup_update'
        boardOf_def playerAt_def hallPlayer_def occupants_def fit_def hallEngine_simps statsFit_def heapOk_def ran_def
        split: if_splits)
  have at: "PlayerLocation 1 (hallManager m) = Some (3, 1)"
    "roomAt 3 (hallManager m) = Some \<lparr>rBoardID = 3, rEngine = hallEngine\<lparr>Players := m, PHeap := hallHeap, PNext := 2\<rparr>,
       rPlayers = {1, 2}\<rparr>" for m
    by (simp_all add: PlayerLocation_def hallManager_def playerAt_def hallPlayer_def roomAt_def lookup_update')
  have arrives: "\<exists>rm ps. transferPlayer 1 7 10 10 (hallManager m) = Some rm \<and> PlayerState_of 1 rm = Some (Some ps) \<and>
      pAmmo ps = (if a = 0 then 50 else 7)" if m: "m 1 = Some a" "ran m \<subseteq> {0, 1}" for m a
  proof -
    obtain rm where rm: "transferPlayer 1 7 10 10 (hallManager m) = Some rm" using hall_transfer [of m a] m(1) by blast
    then show ?thesis
      using transferPlayer_keeps_state [OF rm house [OF m(2)] at] m(1) by (simp add: stateAt_def hallHeap_def)
  qed
  show ?thesis using arrives [of "[1 \<mapsto> 0]" 0] arrives [of "[0 \<mapsto> 0, 1 \<mapsto> 1]" 1] by auto
qed

end
