(* ===== verification/InstProps.thy ===== *)
theory InstProps
  imports Instances Travel
begin

text \<open>
  What a connection that ends takes with it, and the grace a disconnected player is given.
\<close>

section \<open>Who is where after a player leaves\<close>

lemma freezeRoomIfEmpty_boards:
  assumes "freezeRoomIfEmpty b rm = Some rm'"
  shows "boardOf q rm' = boardOf q rm"
proof (cases "occupants b rm = Some {}")
  case False
  then show ?thesis
    using assms by (auto simp: freezeRoomIfEmpty_def occupants_def split: option.splits if_splits)
next
  case True
  then obtain rm1 w where close: "onRoom b BoardClose rm = Some rm1"
    and sync: "syncFrozenBoardToLiveRooms b
      ((publishRoomWorldScope b (rm1\<lparr>rmWorld := w\<rparr>))\<lparr>rmRooms :=
        Mapping.delete b (rmRooms (publishRoomWorldScope b (rm1\<lparr>rmWorld := w\<rparr>)))\<rparr>) = Some rm'"
    using assms
    by (auto simp: freezeRoomIfEmpty_def occupants_def Let_def split: Option.bind_splits if_splits)
  let ?rm2 = "publishRoomWorldScope b (rm1\<lparr>rmWorld := w\<rparr>)"
  have "tends rm rm1" using close onRoom_tends [OF mgr.refl engine_fit(2)] by (auto simp: ok_def)
  then have "tends rm ?rm2" by (intro tends_rules)
  then have "boardOf q (?rm2\<lparr>rmRooms := Mapping.delete b (rmRooms ?rm2)\<rparr>) = boardOf q rm"
    by (simp add: tends_def boardOf_def playerAt_def)
  then show ?thesis using tends_boardOf(1) [OF syncFrozen_tends [OF mgr.refl] sync] by simp
qed

lemma boardOf_fields [simp]:
  "boardOf q (rm\<lparr>pendingPlayerEvents := pe\<rparr>) = boardOf q rm" "boardOf q (rm\<lparr>pendingScores := ps\<rparr>) = boardOf q rm"
  "boardOf q (recordRM op rm) = boardOf q rm"
  by (simp_all add: boardOf_def playerAt_def recordRM_def)

lemma LeavePlayer_boards:
  assumes "LeavePlayer p rm = Some (left, rm')"
  shows "boardOf q rm' = (if q = p then None else boardOf q rm)"
proof (cases "playerAt p rm")
  case None
  then show ?thesis using assms by (simp add: LeavePlayer_def boardOf_def)
next
  case (Some player)
  let ?rm = "if recSuppressLeave rm then rm else recordRM (RecLeave p) rm"
  let ?b = "rpBoardID player"
  have same: "boardOf q ?rm = boardOf q rm" by simp
  show ?thesis
  proof (cases "roomAt ?b ?rm")
    case None
    then show ?thesis
      using assms Some same by (auto simp: LeavePlayer_def Let_def boardOf_simps)
  next
    case (Some room)
    then obtain rm1 rm2 rm3 where leave: "onRoom ?b (RemovePlayer (rpStatID player)) ?rm = Some rm1"
        "leaveRoomSet ?b p rm1 = Some rm2"
      and reindex: "reindexRoomPlayers ?b (rpStatID player) (rm2\<lparr>rmPlayers := Mapping.delete p (rmPlayers rm2),
           pendingPlayerEvents := Mapping.delete p (pendingPlayerEvents rm2)\<rparr>) = Some rm3"
      and freeze: "freezeRoomIfEmpty ?b rm3 = Some rm'"
      using assms \<open>playerAt p rm = _\<close> by (auto simp: LeavePlayer_def Let_def split: Option.bind_splits)
    have "boardOf q rm1 = boardOf q ?rm"
      using leave(1) by (auto simp: onRoom_def occupants_putRoom split: Option.bind_splits)
    then show ?thesis
      using leaveRoomSet_boards [OF leave(2), of q] same freezeRoomIfEmpty_boards [OF freeze, of q]
        tends_boardOf(1) [OF reindexRoomPlayers_tends [OF mgr.refl] reindex, of q]
      by (simp add: boardOf_simps)
  qed
qed

section \<open>The grace of a disconnected player\<close>

text \<open>A player's standing with an instance: ticks of grace left, board and resume token.\<close>

definition standing :: "int \<Rightarrow> WorldInstance \<Rightarrow> int option \<times> int option \<times> string option" where
  "standing p inst =
     (Mapping.lookup (Detached inst) p, boardOf p (wiRooms inst), Mapping.lookup (TokensByPlayer inst) p)"

definition waited :: "int option \<times> int option \<times> string option \<Rightarrow> int option \<times> int option \<times> string option" where
  "waited s =
     (case s of
        (None, place) \<Rightarrow> (None, place)
      | (Some ticks, place) \<Rightarrow> if ticks \<le> 1 then (None, None, None) else (Some (ticks - 1), place))"

lemma expirePlayer_standing:
  assumes "expirePlayer p inst = Some inst'"
  shows "standing q inst' = (if q = p then waited (standing p inst) else standing q inst)"
proof (cases "Mapping.lookup (Detached inst) p")
  case None
  then show ?thesis using assms by (simp add: expirePlayer_def standing_def waited_def)
next
  case (Some ticks)
  show ?thesis
  proof (cases "ticks \<le> 1")
    case False
    then show ?thesis using assms Some
      by (auto simp: expirePlayer_def standing_def waited_def lookup_update')
  next
    case True
    then obtain left rm where l: "LeavePlayer p (wiRooms (deleteResumeToken p (undetach p inst))) = Some (left, rm)"
      and i: "inst' = (deleteResumeToken p (undetach p inst))\<lparr>wiRooms := DiscardPendingScore p rm\<rparr>"
      using assms Some
      by (auto simp: expirePlayer_def removeDetached_def onRooms_def split: Option.bind_splits)
    have "wiRooms (deleteResumeToken p (undetach p inst)) = wiRooms inst"
      by (simp add: deleteResumeToken_def undetach_def split: option.splits)
    then show ?thesis
      using Some True LeavePlayer_boards [OF l, of q]
      by (auto simp: i standing_def waited_def DiscardPendingScore_def deleteResumeToken_def undetach_def
          lookup_delete_if split: option.splits)
  qed
qed

lemma expirePlayers_standing:
  "foldM expirePlayer ps inst = Some inst' \<Longrightarrow> distinct ps \<Longrightarrow>
   standing q inst' = (if q \<in> set ps then waited (standing q inst) else standing q inst)"
proof (induction ps arbitrary: inst)
  case (Cons p ps)
  then obtain inst1 where "expirePlayer p inst = Some inst1" "foldM expirePlayer ps inst1 = Some inst'"
    by (auto split: Option.bind_splits)
  then show ?case using Cons.IH [of inst1] Cons.prems(2) expirePlayer_standing [of p inst inst1 q] by auto
qed simp

lemma expireDetached_standing:
  assumes "expireDetached inst = Some inst'" and "finite (Mapping.keys (Detached inst))"
  shows "standing p inst' = waited (standing p inst)"
    and "finite (Mapping.keys (Detached inst'))"
proof -
  have f: "foldM expirePlayer (Mapping.ordered_keys (Detached inst)) inst = Some inst'"
    using assms(1) by (simp add: expireDetached_def)
  have d: "distinct (Mapping.ordered_keys (Detached inst))" by simp
  have s: "standing q inst' = waited (standing q inst)" for q
    using expirePlayers_standing [OF f d, of q] assms(2)
    by (auto simp: waited_def standing_def keys_dom_lookup Mapping.ordered_keys_def split: option.splits)
  then show "standing p inst' = waited (standing p inst)" .
  have "Mapping.keys (Detached inst') \<subseteq> Mapping.keys (Detached inst)"
    using s by (force simp: standing_def waited_def keys_dom_lookup split: option.splits if_splits)
  then show "finite (Mapping.keys (Detached inst'))" using assms(2) finite_subset by blast
qed

text \<open>The grace as ticks pass.\<close>

fun expireTimes :: "nat \<Rightarrow> WorldInstance \<Rightarrow> WorldInstance option" where
  "expireTimes 0 inst = Some inst"
| "expireTimes (Suc n) inst = Option.bind (expireDetached inst) (expireTimes n)"

lemma expireTimes_standing:
  "expireTimes n inst = Some inst' \<Longrightarrow> finite (Mapping.keys (Detached inst)) \<Longrightarrow>
   standing p inst' = (waited ^^ n) (standing p inst)"
proof (induction n arbitrary: inst)
  case (Suc n)
  then obtain inst1 where e: "expireDetached inst = Some inst1" "expireTimes n inst1 = Some inst'"
    by (auto split: Option.bind_splits)
  show ?case
    using Suc.IH [OF e(2)] expireDetached_standing [OF e(1) Suc.prems(2)] by (simp add: funpow_swap1)
qed simp

lemma waited_gone: "(waited ^^ n) (None, place) = (None, place)"
  by (induction n) (simp_all add: waited_def)

lemma waited_many:
  "0 < t \<Longrightarrow> (waited ^^ n) (Some t, place) = (if int n < t then (Some (t - int n), place) else (None, None, None))"
proof (induction n)
  case (Suc n)
  then show ?case by (auto simp: waited_def)
qed simp

text \<open>
  C34. A player whose connection was lost with \<open>t\<close> ticks of grace keeps their place on the board and their
  resume token for \<open>t - 1\<close> runs of \<open>expireDetached\<close>, one less tick left after each; the \<open>t\<close>th takes them off
  the board, forgets the token and forgets the grace, and later runs change nothing. A player whose connection was not lost is never
  touched, whoever else expires.
\<close>

theorem reconnect_grace:
  assumes "expireTimes n inst = Some inst'" and "finite (Mapping.keys (Detached inst))"
    and "\<And>t. Mapping.lookup (Detached inst) p = Some t \<Longrightarrow> 0 < t"
  shows "standing p inst' =
    (case Mapping.lookup (Detached inst) p of
       None \<Rightarrow> standing p inst
     | Some t \<Rightarrow>
         if int n < t then (Some (t - int n), boardOf p (wiRooms inst), Mapping.lookup (TokensByPlayer inst) p)
         else (None, None, None))"
  using expireTimes_standing [OF assms(1,2), of p] assms(3)
  by (simp add: standing_def waited_gone waited_many split: option.splits)

text \<open>One player with three ticks left and one with a single tick, after two runs.\<close>

theorem reconnect_grace_witness:
  "\<exists>inst inst'. Mapping.lookup (Detached inst) 7 = Some 3 \<and> Mapping.lookup (Detached inst) 9 = Some 1 \<and>
     expireTimes 2 inst = Some inst' \<and> standing 7 inst' = (Some 1, None, Some ''k'') \<and> standing 9 inst' = (None, None, None)"
proof -
  define i0 :: WorldInstance where "i0 = undefined
    \<lparr>Detached := Mapping.update 7 3 (Mapping.update 9 1 Mapping.empty),
     TokensByPlayer := Mapping.update 7 ''k'' Mapping.empty, wiRooms := (undefined \<lparr>rmPlayers := Mapping.empty\<rparr>)\<rparr>"
  have k: "Mapping.keys (Detached i0) = {7, 9}" by (auto simp: i0_def keys_dom_lookup lookup_update' lookup_empty split: if_splits)
  have l: "Mapping.lookup (Detached i0) 7 = Some 3" "Mapping.lookup (Detached i0) 9 = Some 1"
    by (simp_all add: i0_def lookup_update')
  have r: "playerAt q (wiRooms i0) = None" "boardOf q (wiRooms i0) = None" for q
    by (simp_all add: i0_def playerAt_def boardOf_def)
  have t: "Mapping.lookup (TokensByPlayer i0) 7 = Some ''k''" "Mapping.lookup (TokensByPlayer i0) 9 = None"
    by (simp_all add: i0_def lookup_update' lookup_empty)
  let ?i1 = "i0\<lparr>Detached := Mapping.update 7 2 (Detached i0)\<rparr>"
  obtain i1 where one: "removeDetached 9 ?i1 = Some i1" "Detached i1 = Mapping.delete 9 (Detached ?i1)"
    using r(1) t
    by (simp add: removeDetached_def onRooms_def deleteResumeToken_def undetach_def LeavePlayer_def)
  have k1: "Mapping.keys (Detached i1) = {7}" "Mapping.lookup (Detached i1) 7 = Some 2"
    by (auto simp: one(2) i0_def keys_dom_lookup lookup_update' lookup_delete_if lookup_empty split: if_splits)
  have "expireDetached i0 = Some i1"
    using one l by (simp add: expireDetached_def Mapping.ordered_keys_def k expirePlayer_def lookup_update')
  moreover have "\<exists>i2. expireDetached i1 = Some i2"
    using k1 by (simp add: expireDetached_def Mapping.ordered_keys_def expirePlayer_def)
  ultimately obtain inst' where e: "expireTimes 2 i0 = Some inst'"
    by (auto simp: numeral_2_eq_2)
  show ?thesis
    using reconnect_grace [OF e, of 7] reconnect_grace [OF e, of 9] k l r t e by auto
qed

section \<open>A late exit\<close>

text \<open>
  C33. A guest who is muted and comes back on a second connection before the first one's loop ends: that loop's
  exit finds that another connection speaks for the player, leaves the instance as it is, and has
  by then forgotten the guest's mute, their blocks and their chat limit, whoever holds the connection now.
\<close>

theorem stale_exit_forgets:
  assumes "Mapping.lookup (Clients inst) p = Some client" and "wcConn client \<noteq> conn"
  shows "\<exists>cs'. handleReadLoopExit conn p cs inst = Some (None, cs', inst) \<and>
     \<not> muted p [] (mutes cs') \<and> \<not> suppresses p sender account (blockers cs') \<and> acceptedOf p (chatLimiter cs') = []"
  using assms
  by (auto simp: handleReadLoopExit_def forgetConnection_def muted_def forgetMute_def suppresses_def forgetBlocks_def
      acceptedOf_def forgetLimit_def lookup_delete_if)

text \<open>The guest is muted, resumes on connection 2, and may speak once connection 1 is noticed to be gone.\<close>

theorem stale_exit_forgets_witness:
  "\<exists>inst client cs cs'. Mapping.lookup (Clients inst) 5 = Some client \<and> wcConn client = 2 \<and> muted 5 [] (mutes cs) \<and>
     handleReadLoopExit 1 5 cs inst = Some (None, cs', inst) \<and> \<not> muted 5 [] (mutes cs')"
proof -
  define inst :: WorldInstance where
    "inst = undefined\<lparr>Clients := Mapping.update 5 (undefined\<lparr>wcConn := 2\<rparr>) Mapping.empty\<rparr>"
  define cs where "cs = \<lparr>chatLimiter = Mapping.empty, blockers = Mapping.empty,
    mutes = snd (setMute 5 [] True \<lparr>muAccounts = {}, muPlayers = {}\<rparr>)\<rparr>"
  have c: "Mapping.lookup (Clients inst) 5 = Some (undefined\<lparr>wcConn := 2\<rparr>)" by (simp add: inst_def)
  have "muted 5 [] (mutes cs)" by (simp add: cs_def setMute_def muted_def)
  then show ?thesis using c stale_exit_forgets [OF c, of 1 cs] by fastforce
qed

end
