(* ===== verification/Doors.thy ===== *)
theory Doors
  imports Hosting NetScreen InstProps
begin

text \<open>
  The door of the server: a snapshot always succeeds on a sane room, and who gets in.
\<close>

section \<open>A snapshot always succeeds\<close>

lemma foldM_keeps:
  assumes "I s" and "\<And>x s. x \<in> set xs \<Longrightarrow> I s \<Longrightarrow> \<exists>s'. f x s = Some s' \<and> I s'"
  shows "\<exists>s'. foldM f xs s = Some s' \<and> I s'"
  using assms
proof (induction xs arbitrary: s)
  case (Cons x xs)
  obtain s1 where "f x s = Some s1" "I s1" using Cons.prems by fastforce
  then show ?case using Cons.IH [of s1] Cons.prems(2) by auto
qed simp

text \<open>A room whose stats, and those of its players, are within the array.\<close>

definition roomReady :: "int \<Rightarrow> RoomManager \<Rightarrow> bool" where
  "roomReady b rm \<longleftrightarrow>
     (\<exists>room. roomAt b rm = Some room \<and> StatCount (Board (rEngine room)) \<le> MAX_STAT) \<and>
     (\<forall>q pl. playerAt q rm = Some pl \<longrightarrow> rpBoardID pl = b \<longrightarrow> inStats (rpStatID pl))"

lemma PlayerFor_board [simp]: "Board (snd (PlayerFor i e)) = Board e"
  by (simp add: PlayerFor_def split: option.splits)

lemma inRoom_ready:
  assumes "roomReady b rm" and "\<And>e. StatCount (Board e) \<le> MAX_STAT \<Longrightarrow> \<exists>v e'. f e = Some (v, e') \<and> StatCount (Board e') \<le> MAX_STAT"
  shows "\<exists>v rm'. inRoom b f rm = Some (v, rm') \<and> roomReady b rm' \<and> rmPlayers rm' = rmPlayers rm"
proof -
  obtain room where room: "roomAt b rm = Some room" "StatCount (Board (rEngine room)) \<le> MAX_STAT"
    using assms(1) by (auto simp: roomReady_def)
  obtain v e' where "f (rEngine room) = Some (v, e')" "StatCount (Board e') \<le> MAX_STAT" using assms(2) room(2) by blast
  then show ?thesis
    using assms(1) room by (auto simp: inRoom_def roomReady_def roomAt_putRoom putRoom_def playerAt_def roomAt_def lookup_update')
qed

lemma onRoom_ready:
  assumes "roomReady b rm" and "\<And>e. StatCount (Board e) \<le> MAX_STAT \<Longrightarrow> \<exists>e'. f e = Some e' \<and> StatCount (Board e') \<le> MAX_STAT"
  shows "\<exists>rm'. onRoom b f rm = Some rm' \<and> roomReady b rm' \<and> rmPlayers rm' = rmPlayers rm"
proof -
  obtain room where room: "roomAt b rm = Some room" "StatCount (Board (rEngine room)) \<le> MAX_STAT"
    using assms(1) by (auto simp: roomReady_def)
  obtain e' where "f (rEngine room) = Some e'" "StatCount (Board e') \<le> MAX_STAT" using assms(2) room(2) by blast
  then show ?thesis
    using assms(1) room by (auto simp: onRoom_def roomReady_def roomAt_putRoom putRoom_def playerAt_def roomAt_def lookup_update')
qed

lemma playerSnapshot_total:
  assumes "inStats i"
  shows "\<exists>v e'. playerSnapshot p i e = Some (v, e') \<and> Board e' = Board e"
proof -
  obtain ps e1 where "PlayerFor i e = (ps, e1)" by force
  then show ?thesis
    using PlayerFor_board [of i e] assms by (simp add: playerSnapshot_def statAt_def)
qed

lemma StateHash_total:
  assumes "StatCount (Board e) \<le> MAX_STAT"
  shows "\<exists>h e'. StateHash e = Some (h, e') \<and> Board e' = Board e"
proof -
  define e1 where "e1 = (case Players e 0 of Some ps \<Rightarrow> modWorldInfo (publishPlayer (PHeap e ps)) e | None \<Rightarrow> e)"
  have b: "Board e1 = Board e" by (simp add: e1_def modWorldInfo_def split: option.splits)
  have "\<exists>bs. foldM (\<lambda>i bs. do { s \<leftarrow> statAt i e1; Some (bs @ hashStat s) }) [0..StatCount (Board e)] [] = Some bs \<and> True"
    by (rule foldM_keeps) (use assms in \<open>auto simp: statAt_def inStats_def\<close>)
  then show ?thesis unfolding StateHash_def e1_def [symmetric] Let_def using b by auto
qed

lemma screenCells_total: "\<exists>cells. screenCells e = Some cells"
proof -
  have "foldM (\<lambda>y. foldM (\<lambda>x cells. do { c \<leftarrow> screenCell x y e; Some (cells @ [c]) }) [0..netScreenWidth e - 1]) [0..24] [] \<noteq> None"
    by (rule foldM_total, rule foldM_total) (use screenCell_total in \<open>auto split: Option.bind_splits\<close>)
  then show ?thesis by (auto simp: screenCells_def)
qed

lemma playerSnapshotsForRoom_total:
  assumes "roomReady b rm"
  shows "\<exists>snaps rm'. playerSnapshotsForRoom b rm = Some (snaps, rm') \<and> roomReady b rm' \<and> rmPlayers rm' = rmPlayers rm"
proof -
  define row where "row pid s = (case s of (snaps :: PlayerSnapshot list, rm) \<Rightarrow> do {
         p \<leftarrow> playerAt pid rm;
         if rpBoardID p = b then do {
           (snap, rm) \<leftarrow> inRoom b (playerSnapshot pid (rpStatID p)) rm;
           Some (snaps @ [snap\<lparr>psName := rpName p, psColor := rpColor p, psHandle := rpHandle p,
                               psHasProfile := rpHasProfile p\<rparr>], rm) }
         else Some (snaps, rm) })" for pid s
  have "\<exists>s. foldM row (playerIDs rm) ([], rm) = Some s \<and> roomReady b (snd s) \<and> rmPlayers (snd s) = rmPlayers rm"
  proof (rule foldM_keeps)
    fix pid and s :: "PlayerSnapshot list \<times> RoomManager"
    assume pid: "pid \<in> set (playerIDs rm)" and s: "roomReady b (snd s) \<and> rmPlayers (snd s) = rmPlayers rm"
    obtain snaps rm1 where sn: "s = (snaps, rm1)" by force
    have "pid \<in> Mapping.keys (rmPlayers rm)" using pid
      by (cases "finite (Mapping.keys (rmPlayers rm))") (auto simp: playerIDs_def Mapping.ordered_keys_def)
    then obtain p where p: "playerAt pid rm1 = Some p" using s sn by (auto simp: playerAt_def keys_dom_lookup)
    have "rpBoardID p = b \<Longrightarrow> inStats (rpStatID p)" using s sn p by (auto simp: roomReady_def)
    then have "rpBoardID p = b \<Longrightarrow> \<exists>v rm2. inRoom b (playerSnapshot pid (rpStatID p)) rm1 = Some (v, rm2) \<and>
        roomReady b rm2 \<and> rmPlayers rm2 = rmPlayers rm1"
      using inRoom_ready [of b rm1 "playerSnapshot pid (rpStatID p)"] playerSnapshot_total [of "rpStatID p" pid] s sn
      by (metis snd_conv)
    then show "\<exists>s'. row pid s = Some s' \<and> roomReady b (snd s') \<and> rmPlayers (snd s') = rmPlayers rm"
      using s sn p by (cases "rpBoardID p = b") (auto simp: row_def)
  qed (use assms in simp)
  moreover have "playerSnapshotsForRoom b rm = foldM row (playerIDs rm) ([], rm)"
    by (simp add: playerSnapshotsForRoom_def row_def [abs_def])
  ultimately show ?thesis by (metis prod.collapse)
qed

lemma NewSnapshotMessage_total:
  assumes "StatCount (Board e) \<le> MAX_STAT" and "inStats i"
  shows "\<exists>v e'. NewSnapshotMessage help b p i players e = Some (v, e') \<and> StatCount (Board e') \<le> MAX_STAT"
proof -
  obtain h e1 where h: "StateHash e = Some (h, e1)" "Board e1 = Board e" using StateHash_total [OF assms(1)] by blast
  obtain you e2 where y: "playerSnapshot p i e1 = Some (you, e2)" "Board e2 = Board e1"
    using playerSnapshot_total [OF assms(2)] by blast
  obtain hud e3 where d: "hudSnapshot i e2 = (hud, e3)" by force
  then obtain ps where "PlayerFor i e2 = (ps, e3)" by (auto simp: hudSnapshot_def Let_def split: prod.splits)
  then have "Board e3 = Board e2" using PlayerFor_board [of i e2] by simp
  moreover obtain cells where "screenCells e3 = Some cells" using screenCells_total by blast
  ultimately show ?thesis using h y d assms(1) by (simp add: NewSnapshotMessage_def)
qed

lemma RoomSnapshot_total:
  assumes ready: "roomReady b rm" and p: "playerAt p rm = Some rp" and b: "rpBoardID rp = b"
  shows "\<exists>snap rm'. RoomSnapshot help p rm = Some (Some snap, rm') \<and> rmPlayers rm' = rmPlayers rm"
proof -
  obtain players rm1 where r1: "playerSnapshotsForRoom b rm = Some (players, rm1)" "roomReady b rm1" "rmPlayers rm1 = rmPlayers rm"
    using playerSnapshotsForRoom_total [OF ready] by blast
  have i: "inStats (rpStatID rp)" using ready p b by (auto simp: roomReady_def)
  obtain snap rm2 where r2: "inRoom b (NewSnapshotMessage help b p (rpStatID rp) players) rm1 = Some (snap, rm2)" "roomReady b rm2"
    "rmPlayers rm2 = rmPlayers rm1"
    using inRoom_ready [OF r1(2), of "NewSnapshotMessage help b p (rpStatID rp) players"] NewSnapshotMessage_total [OF _ i] by blast
  obtain room where room: "roomAt b rm2 = Some room" using r2(2) by (auto simp: roomReady_def)
  have drain: "\<exists>e'. map_option snd (DrainScreenDirty e) = Some e' \<and> StatCount (Board e') \<le> MAX_STAT"
    if "StatCount (Board e) \<le> MAX_STAT" for e
  proof -
    obtain cells e' where d: "DrainScreenDirty e = Some (cells, e')" using DrainScreenDirty_total [of e] by auto
    then have "e' = e\<lparr>screenDirty := []\<rparr>" using drained_frame [OF d] by simp
    then show ?thesis using d that by simp
  qed
  obtain rm3 where r3: "(if rPlayers room = {p} then onRoom b (\<lambda>e. map_option snd (DrainScreenDirty e)) rm2 else Some rm2) = Some rm3"
    "roomReady b rm3" "rmPlayers rm3 = rmPlayers rm2"
    using onRoom_ready [OF r2(2), of "\<lambda>e. map_option snd (DrainScreenDirty e)"] drain r2(2)
    by (cases "rPlayers room = {p}") auto
  obtain rm4 where r4: "onRoom b (\<lambda>e. Some (snd (DrainEvents e))) rm3 = Some rm4" "rmPlayers rm4 = rmPlayers rm3"
    using onRoom_ready [OF r3(2), of "\<lambda>e. Some (snd (DrainEvents e))"] by (auto simp: DrainEvents_def)
  have "roomAt b rm \<noteq> None" using ready by (auto simp: roomReady_def)
  then show ?thesis
    using r1 r2 r3 r4 room p b by (simp add: RoomSnapshot_def Let_def)
qed

section \<open>A refusal and the token\<close>

lemma tryResume_total:
  assumes "Mapping.lookup (ResumeTokens inst) token = Some p" and "playerAt p (wiRooms inst) = Some rp"
    and "roomReady (rpBoardID rp) (wiRooms inst)"
  shows "\<exists>snap old inst'. tryResume help client token inst = Some (Inr (p, snap, old), inst') \<and>
    rmPlayers (wiRooms inst') = rmPlayers (wiRooms inst) \<and> isClient p inst'"
proof -
  let ?rm = "snd (DrainPlayerEvents p (wiRooms inst))"
  have same: "rmPlayers ?rm = rmPlayers (wiRooms inst)" "roomAt b ?rm = roomAt b (wiRooms inst)" for b
    by (simp_all add: DrainPlayerEvents_def roomAt_def)
  have "roomReady (rpBoardID rp) ?rm" using assms(3) by (simp add: roomReady_def same playerAt_def)
  moreover have "playerAt p ?rm = Some rp" using assms(2) by (simp add: playerAt_def same)
  ultimately obtain snap rm' where "RoomSnapshot help p ?rm = Some (Some snap, rm')" "rmPlayers rm' = rmPlayers ?rm"
    using RoomSnapshot_total by blast
  then show ?thesis
    using assms same
    by (simp add: tryResume_def inRooms_def undetach_def putClient_def isClient_def lookup_update' Let_def)
qed

lemma playerAt_sets:
  "map_option rpAccountID (playerAt q (SetPlayerColor p c rm)) = map_option rpAccountID (playerAt q rm)"
  by (auto simp: SetPlayerColor_def modRoomPlayer_def playerAt_def lookup_map_entry' option.map_comp comp_def
      intro!: option.map_cong)

text \<open>
  C35. A refusal does not hold against its own resume token. Take any player of a hosted world who is within
  the reconnect grace, whose account a moderator has refused, and whose board is sane. A connection that shows the
  account is turned away at the door. The same browser signed out, with the resume token it still has, is
  let in, and plays on as that player, with that account.
\<close>

theorem refused_resumes:
  assumes "instanceOf key sv = Some inst" and "Mapping.lookup (ResumeTokens inst) (jmResumeToken join) = Some p"
    and "jmResumeToken join \<noteq> []" and "playerAt p (wiRooms inst) = Some rp" and "roomReady (rpBoardID rp) (wiRooms inst)"
    and "Refuses (rpAccountID rp) (Refusals sv)"
  shows "enterWorld disk help lower written token conn (Some (rpAccountID rp, name)) join key runKeyGiven sv =
       Some (None, [Send conn (ModerationNotice ''refuse'' ''A moderator has refused this account.'' True)], sv) \<and>
     (\<exists>effects sv' inst'. enterWorld disk help lower written token conn None join key runKeyGiven sv = Some (Some p, effects, sv') \<and>
        Refuses (rpAccountID rp) (Refusals sv') \<and> instanceOf key sv' = Some inst' \<and> isClient p inst' \<and>
        map_option rpAccountID (playerAt p (wiRooms inst')) = Some (rpAccountID rp))"
proof
  show "enterWorld disk help lower written token conn (Some (rpAccountID rp, name)) join key runKeyGiven sv =
       Some (None, [Send conn (ModerationNotice ''refuse'' ''A moderator has refused this account.'' True)], sv)"
    using assms(6) by (simp add: enterWorld_def refusedAtTheDoor_def)
  let ?client = "\<lparr>wcConn = conn, wcPlayerID = 0, wcBoardID = 0, wcAccountID = [], wcWorldName = key\<rparr>"
  obtain snap old inst1 where r: "tryResume help ?client (jmResumeToken join) inst = Some (Inr (p, snap, old), inst1)"
    "rmPlayers (wiRooms inst1) = rmPlayers (wiRooms inst)" "isClient p inst1"
    using tryResume_total [OF assms(2,4,5)] by blast
  have a: "map_option rpAccountID (playerAt p (SetPlayerColor p c (wiRooms inst1))) = Some (rpAccountID rp)" for c
    unfolding playerAt_sets using r(2) assms(4) by (simp add: playerAt_def)
  show "\<exists>effects sv' inst'. enterWorld disk help lower written token conn None join key runKeyGiven sv = Some (Some p, effects, sv') \<and>
        Refuses (rpAccountID rp) (Refusals sv') \<and> instanceOf key sv' = Some inst' \<and> isClient p inst' \<and>
        map_option rpAccountID (playerAt p (wiRooms inst')) = Some (rpAccountID rp)"
    using assms(1,3,6) r a
    by (simp add: enterWorld_def refusedAtTheDoor_def inWorld_def resumeIn_def setRunPlayer_def putInstance_def instanceOf_def
        lookup_update' isClient_def Let_def split: prod.splits)
qed

text \<open>The account of player 4 is refused.\<close>

theorem refused_resumes_witness:
  "\<exists>sv inst join effects sv'. instanceOf ''TOWN'' sv = Some inst \<and> Refuses ''bob'' (Refusals sv) \<and>
     enterWorld \<lparr>dkFiles = \<lambda>_. None, dkCreated = \<lambda>_. False, dkFull = \<lambda>_ _. False\<rparr> (\<lambda>_. []) id True [] 9 None join ''TOWN'' False sv = Some (Some 4, effects, sv')"
proof -
  define rp :: roomPlayer where "rp = undefined\<lparr>rpAccountID := ''bob'', rpBoardID := 1, rpStatID := 0\<rparr>"
  define room :: Room where "room = undefined\<lparr>rEngine := NewEngine\<rparr>"
  define inst :: WorldInstance where "inst = (emptyInstance ''TOWN'' undefined
      (undefined\<lparr>rmRooms := Mapping.update 1 room Mapping.empty, rmPlayers := Mapping.update 4 rp Mapping.empty\<rparr>))
      \<lparr>ResumeTokens := Mapping.update ''k'' 4 Mapping.empty\<rparr>"
  define sv :: Server where "sv = undefined\<lparr>svInstances := Mapping.update ''TOWN'' inst Mapping.empty,
      Refusals := Mapping.update ''bob'' undefined Mapping.empty\<rparr>"
  define join where "join = \<lparr>jmName = [], jmColor = [], jmBoard = 0, jmResumeToken = ''k''\<rparr>"
  have hosted: "instanceOf ''TOWN'' sv = Some inst" by (simp add: sv_def instanceOf_def)
  have tok: "Mapping.lookup (ResumeTokens inst) (jmResumeToken join) = Some 4" "jmResumeToken join \<noteq> []"
    by (simp_all add: inst_def join_def)
  have player: "playerAt 4 (wiRooms inst) = Some rp" by (simp add: inst_def emptyInstance_def playerAt_def)
  have ready: "roomReady (rpBoardID rp) (wiRooms inst)"
    by (auto simp: inst_def emptyInstance_def roomReady_def roomAt_def playerAt_def rp_def room_def NewEngine_def zeroBoard_def inStats_def
        lookup_update' lookup_empty split: if_splits)
  have refused: "Refuses (rpAccountID rp) (Refusals sv)" by (simp add: rp_def sv_def Refuses_def)
  have bob: "Refuses ''bob'' (Refusals sv)" by (simp add: sv_def Refuses_def)
  show ?thesis using refused_resumes [OF hosted tok player ready refused, of "\<lparr>dkFiles = \<lambda>_. None, dkCreated = \<lambda>_. False, dkFull = \<lambda>_ _. False\<rparr>" "\<lambda>_. []" id True "[]" 9 _ False] hosted bob by blast
qed

end
