(* ===== verification/ZwdDecompile.thy ===== *)
theory ZwdDecompile
  imports ZwdCompile
begin

text \<open>
  A world written back as ZWD text (\<open>engine/zwd_decompile.go\<close>): the header of a board, its legend with a key
  for every kind of square, its grid, its stats and their programs; and the gate that hands out only text
  that compiles. Diagnostics keep their board and kind, the wording is left out.
\<close>

section \<open>Values\<close>

definition newline :: string where
  "newline = [chr 10]"

definition upperHex :: "int \<Rightarrow> char" where
  "upperHex n = (if n < 10 then chr (48 + n) else chr (55 + n))"

definition zwdColorStr :: "int \<Rightarrow> string" where
  "zwdColorStr color = ''0x'' @ [upperHex (color div 16), upperHex (color mod 16)]"

definition zwdByteStr :: "int \<Rightarrow> string" where
  "zwdByteStr v = ''cp437:0x'' @ [upperHex (v div 16), upperHex (v mod 16)]"

definition zwdStepStr :: "int \<Rightarrow> int \<Rightarrow> string" where
  "zwdStepStr dx dy =
     (if dx = 0 \<and> dy = 0 then ''idle''
      else if dx = 0 \<and> dy = -1 then ''north''
      else if dx = 0 \<and> dy = 1 then ''south''
      else if dx = -1 \<and> dy = 0 then ''west''
      else if dx = 1 \<and> dy = 0 then ''east''
      else Str dx @ '','' @ Str dy)"

definition quoteZWD :: "string \<Rightarrow> string" where
  "quoteZWD s =
     [quoteChar] @ concat (map (\<lambda>c. if c = quoteChar \<or> c = backslash then [backslash, c] else [c]) s) @ [quoteChar]"

definition boolStr :: "bool \<Rightarrow> string" where
  "boolStr v = (if v then ''true'' else ''false'')"

definition textElementNames :: "string list" where
  "textElementNames =
     [''Text-Blue'', ''Text-Green'', ''Text-Cyan'', ''Text-Red'', ''Text-Purple'', ''Text-Yellow'', ''Text-White'']"

definition zwdElementIsNamed :: "int \<Rightarrow> bool" where
  "zwdElementIsNamed el \<longleftrightarrow> E_TEXT_MIN \<le> el \<and> el \<le> E_TEXT_WHITE \<or> el \<le> MAX_ELEMENT \<and> elementName el \<noteq> []"

definition zwdElementName :: "int \<Rightarrow> string" where
  "zwdElementName el =
     (if E_TEXT_MIN \<le> el \<and> el \<le> E_TEXT_WHITE then textElementNames ! nat (el - E_TEXT_MIN)
      else if el \<le> MAX_ELEMENT \<and> elementName el \<noteq> [] then elementName el
      else ''Empty'')"

definition validZWDCoord :: "int \<Rightarrow> int \<Rightarrow> bool" where
  "validZWDCoord x y \<longleftrightarrow> x \<ge> 1 \<and> x \<le> BOARD_WIDTH \<and> y \<ge> 1 \<and> y \<le> BOARD_HEIGHT"

section \<open>The header of a board\<close>

text \<open>The square of the player, or the respawn point when that is off the board.\<close>

definition startSquareOf :: "TBoard \<Rightarrow> int \<times> int" where
  "startSquareOf b =
     (let x = sX (Stats b 0); y = sY (Stats b 0) in
      if x = 0 \<or> y = 0 \<or> x > BOARD_WIDTH \<or> y > BOARD_HEIGHT
      then (StartPlayerX (bInfo b), StartPlayerY (bInfo b)) else (x, y))"

definition exitName :: "int \<Rightarrow> (int \<Rightarrow> string) \<Rightarrow> TBoard \<Rightarrow> int \<Rightarrow> string" where
  "exitName boardCount boardNames b i =
     (let nb = NeighborBoards (bInfo b) i in
      if nb \<noteq> 0 \<and> nb \<le> boardCount then quoteZWD (boardNames nb) else ''none'')"

definition decompileHeader :: "int \<Rightarrow> (int \<Rightarrow> string) \<Rightarrow> TBoard \<Rightarrow> string" where
  "decompileHeader boardCount boardNames b =
     (let (startX, startY) = startSquareOf b;
          respawnX = StartPlayerX (bInfo b); respawnY = StartPlayerY (bInfo b);
          exit = exitName boardCount boardNames b in
      ''board '' @ quoteZWD (bName b) @ newline @
      ''  start player at '' @ Str startX @ '','' @ Str startY @ newline @
      (if (respawnX \<noteq> startX \<or> respawnY \<noteq> startY) \<and> validZWDCoord respawnX respawnY
       then ''  respawn at '' @ Str respawnX @ '','' @ Str respawnY @ newline else []) @
      ''  max-shots '' @ Str (MaxShots (bInfo b)) @ newline @
      ''  dark '' @ boolStr (IsDark (bInfo b)) @ newline @
      ''  reenter '' @ boolStr (ReenterWhenZapped (bInfo b)) @ newline @
      ''  time-limit '' @ Str (TimeLimitSec (bInfo b)) @ newline @
      ''  exits north '' @ exit 0 @ '' south '' @ exit 1 @ '' west '' @ exit 2 @ '' east '' @ exit 3 @ newline @
      (if bMessage (bInfo b) \<noteq> [] then ''  message '' @ quoteZWD (bMessage (bInfo b)) @ newline else []))"

section \<open>The legend\<close>

text \<open>
  A kind of square. The entry of the legend that belongs to a key of the code's map has the fields of the key,
  and a tile under it exactly when it is the player, so the key stands for both.
\<close>

record legendKey =
  lkElement :: int
  lkColor :: int
  lkUnderElem :: int
  lkUnderColor :: int
  lkToBoard :: string

text \<open>The last stat on a square, as the map from squares to stats has it.\<close>

definition lastStatOn :: "TBoard \<Rightarrow> int \<Rightarrow> int \<Rightarrow> TStat option" where
  "lastStatOn b x y =
     map_option (Stats b) (find (\<lambda>i. sX (Stats b i) = x \<and> sY (Stats b i) = y) (rev [0..StatCount b]))"

definition squareKey :: "int \<Rightarrow> (int \<Rightarrow> string) \<Rightarrow> TBoard \<Rightarrow> int \<Rightarrow> int \<Rightarrow> legendKey" where
  "squareKey boardCount boardNames b x y =
     (let tile = Tiles b x y;
          ck = \<lparr>lkElement = Element tile, lkColor = Color tile, lkUnderElem = 0, lkUnderColor = 0, lkToBoard = []\<rparr> in
      case lastStatOn b x y of
        None \<Rightarrow> ck
      | Some s \<Rightarrow>
          let ck = (if Element tile = E_PLAYER
                    then ck\<lparr>lkUnderElem := Element (Under s), lkUnderColor := Color (Under s)\<rparr> else ck)
          in if Element tile = E_PASSAGE \<and> P3 s \<noteq> 0 \<and> P3 s \<le> boardCount then ck\<lparr>lkToBoard := boardNames (P3 s)\<rparr> else ck)"

definition legendOrder :: "int \<Rightarrow> (int \<Rightarrow> string) \<Rightarrow> TBoard \<Rightarrow> legendKey list" where
  "legendOrder boardCount boardNames b =
     fold (\<lambda>q ks. let ck = squareKey boardCount boardNames b (fst q) (snd q) in if ck \<in> set ks then ks else ks @ [ck])
       scanSquares []"

definition preferredChars :: "(int \<times> char) list" where
  "preferredChars =
     [(E_EMPTY, CHR ''.''), (E_SOLID, CHR ''#''), (E_NORMAL, CHR ''N''), (E_BREAKABLE, CHR ''B''), (E_PLAYER, CHR ''@''),
      (E_OBJECT, CHR ''o''), (E_SCROLL, CHR ''!''), (E_PASSAGE, CHR ''p''), (E_GEM, CHR ''g''), (E_KEY, CHR ''k''),
      (E_DOOR, CHR ''+''), (E_AMMO, CHR ''a''), (E_TORCH, CHR ''t''), (E_ENERGIZER, CHR ''e''), (E_BOMB, CHR ''b''),
      (E_BEAR, CHR ''R''), (E_RUFFIAN, CHR ''r''), (E_LION, CHR ''L''), (E_TIGER, CHR ''T''), (E_SHARK, CHR ''S''),
      (E_SLIME, CHR ''s''), (E_BOULDER, CHR ''O''), (E_PUSHER, CHR ''P''), (E_DUPLICATOR, CHR ''d''), (E_WATER, CHR ''~''),
      (E_FOREST, CHR ''f''), (E_FAKE, CHR ''F''), (E_INVISIBLE, CHR ''i''), (E_LINE, CHR ''l''), (E_RICOCHET, CHR ''*''),
      (E_MONITOR, CHR ''M''), (E_CONVEYOR_CW, CHR ''/''), (E_CONVEYOR_CCW, backslash), (E_BLINK_WALL, CHR ''W''),
      (E_TRANSPORTER, CHR ''X''), (E_SPINNING_GUN, CHR ''G''), (E_SLIDER_NS, CHR ''n''), (E_SLIDER_EW, CHR ''w''),
      (E_CENTIPEDE_HEAD, CHR ''H''), (E_CENTIPEDE_SEGMENT, CHR ''c''), (E_BULLET, CHR ''u''), (E_STAR, CHR ''x'')]"

definition isPrintableASCII :: "char \<Rightarrow> bool" where
  "isPrintableASCII ch \<longleftrightarrow> ord ch \<ge> 0x21 \<and> ord ch \<le> 0x7E"

definition buildFallbackPool :: "char list" where
  "buildFallbackPool =
     map chr [97..122] @ map chr [65..90] @ map chr [48..57] @ ''!@#$%&*+-=~^_:;,./'' @ [backslash] @ ''|<>?`'' @ [chr 39] @ ''()[]{}''"

text \<open>Characters given out so far: \<open>charForKey\<close> and \<open>usedChars\<close>.\<close>

record legendChars =
  lcChars :: "(legendKey \<times> char) list"
  lcUsed :: "char set"

definition giveChar :: "legendKey \<Rightarrow> char \<Rightarrow> legendChars \<Rightarrow> legendChars" where
  "giveChar ck ch lc = lc\<lparr>lcChars := (ck, ch) # lcChars lc, lcUsed := insert ch (lcUsed lc)\<rparr>"

definition givePreferred :: "legendKey \<Rightarrow> legendChars \<Rightarrow> legendChars" where
  "givePreferred ck lc =
     (let ch = chr (lkColor ck) in
      if E_TEXT_MIN \<le> lkElement ck \<and> lkElement ck \<le> E_TEXT_WHITE \<and> isPrintableASCII ch \<and> ch \<notin> lcUsed lc
      then giveChar ck ch lc
      else case map_of preferredChars (lkElement ck) of
             Some pref \<Rightarrow> if pref \<notin> lcUsed lc then giveChar ck pref lc else lc
           | None \<Rightarrow> lc)"

definition giveShortcut :: "legendKey \<Rightarrow> legendChars \<Rightarrow> legendChars" where
  "giveShortcut ck lc =
     (if map_of (lcChars lc) ck \<noteq> None then lc
      else case (if lkElement ck \<le> MAX_ELEMENT then elemDef (lkElement ck) else None) of
             None \<Rightarrow> lc
           | Some d \<Rightarrow>
               let sc = chr (EditorShortcut d)
               in if isPrintableASCII sc \<and> sc \<notin> lcUsed lc then giveChar ck sc lc else lc)"

text \<open>The pool is read from the front; past its end the bytes from 0x80 are tried.\<close>

definition giveFallback :: "legendKey \<Rightarrow> char list \<times> legendChars \<Rightarrow> char list \<times> legendChars" where
  "giveFallback ck s =
     (case s of (pool, lc) \<Rightarrow>
        if map_of (lcChars lc) ck \<noteq> None then (pool, lc)
        else case dropWhile (\<lambda>ch. ch \<in> lcUsed lc) pool of
               ch # pool \<Rightarrow> (pool, giveChar ck ch lc)
             | [] \<Rightarrow> ([], case find (\<lambda>v. chr v \<notin> lcUsed lc) [0x80..0xFE] of
                           Some v \<Rightarrow> giveChar ck (chr v) lc
                         | None \<Rightarrow> lc))"

definition assignChars :: "legendKey list \<Rightarrow> legendChars" where
  "assignChars ks =
     (let lc = fold givePreferred ks \<lparr>lcChars = [], lcUsed = {}\<rparr>;
          lc = fold giveShortcut ks lc
      in snd (fold giveFallback ks (buildFallbackPool, lc)))"

text \<open>A key without a character reads the zero byte of the map.\<close>

definition charOf :: "legendChars \<Rightarrow> legendKey \<Rightarrow> char" where
  "charOf lc ck = (case map_of (lcChars lc) ck of Some ch \<Rightarrow> ch | None \<Rightarrow> chr 0)"

definition gridText :: "int \<Rightarrow> (int \<Rightarrow> string) \<Rightarrow> legendChars \<Rightarrow> TBoard \<Rightarrow> string" where
  "gridText boardCount boardNames lc b =
     newline @ ''  grid'' @ newline @
     concat (map (\<lambda>y. map (\<lambda>x. charOf lc (squareKey boardCount boardNames b x y)) [1..BOARD_WIDTH] @ newline) [1..BOARD_HEIGHT]) @
     ''  end'' @ newline"

definition legendLine :: "char \<Rightarrow> legendKey \<Rightarrow> string" where
  "legendLine ch ck =
     ''    '' @ (if isPrintableASCII ch then [ch] else zwdByteStr (ord ch)) @
     '' = '' @ zwdElementName (lkElement ck) @ '' color '' @ zwdColorStr (lkColor ck) @
     (if lkElement ck = E_PLAYER
      then '' under '' @ zwdElementName (lkUnderElem ck) @ '' color '' @ zwdColorStr (lkUnderColor ck) else []) @
     (if lkToBoard ck \<noteq> [] then '' to '' @ quoteZWD (lkToBoard ck) else [])"

definition legendText :: "legendChars \<Rightarrow> legendKey list \<Rightarrow> string" where
  "legendText lc ks =
     newline @ ''  legend'' @ newline @ concat (map (\<lambda>ck. legendLine (charOf lc ck) ck @ newline) ks) @ ''  end'' @ newline"

section \<open>The stats\<close>

definition decompileStatIsRepresentable :: "TBoard \<Rightarrow> int \<Rightarrow> bool" where
  "decompileStatIsRepresentable b i =
     (let s = Stats b i in
      if sX s = 0 \<or> sY s = 0 \<or> sX s > BOARD_WIDTH \<or> sY s > BOARD_HEIGHT then False
      else elementNeedsStat (Element (Tiles b (sX s) (sY s))))"

definition remapDecompiledStatRef :: "int \<Rightarrow> (int \<Rightarrow> int option) \<Rightarrow> int" where
  "remapDecompiledStatRef ref emitted = (if ref \<le> 0 then ref else case emitted ref of Some m \<Rightarrow> m | None \<Rightarrow> -1)"

text \<open>The index a written stat will have in the compiled board.\<close>

definition emittedStatIndex :: "TBoard \<Rightarrow> int \<Rightarrow> int option" where
  "emittedStatIndex b =
     fst (fold (\<lambda>i (emitted, n). if decompileStatIsRepresentable b i then (emitted(i := Some n), n + 1) else (emitted, n))
       [1..StatCount b] (Map.empty, 1))"

definition defaultP1 :: "int \<Rightarrow> int" where
  "defaultP1 elem = (if elem = E_OBJECT then 1 else if elem = E_BEAR then 8 else 0)"

definition paramBoardName :: "int \<Rightarrow> string" where
  "paramBoardName elem = (case elemDef elem of None \<Rightarrow> [] | Some d \<Rightarrow> ParamBoardName d)"

text \<open>The optional fields of a stat line, each with the blank before it.\<close>

definition statLine :: "int \<Rightarrow> (int \<Rightarrow> string) \<Rightarrow> (int \<Rightarrow> int option) \<Rightarrow> int \<Rightarrow> TStat \<Rightarrow> string" where
  "statLine boardCount boardNames emitted elem s =
     (let follower = remapDecompiledStatRef (Follower s) emitted;
          leader = remapDecompiledStatRef (Leader s) emitted in
      ''    stat at '' @ Str (sX s) @ '','' @ Str (sY s) @ '' element '' @ zwdElementName elem @
      (if elementCycle elem < 0 \<or> sCycle s \<noteq> elementCycle elem then '' cycle '' @ Str (sCycle s) else []) @
      (if P1 s \<noteq> defaultP1 elem
       then '' p1 '' @ (if elem = E_OBJECT then zwdByteStr (P1 s) else Str (P1 s)) else []) @
      (if P2 s \<noteq> 0 then '' p2 '' @ Str (P2 s) else []) @
      (if P3 s \<noteq> 0
       then if paramBoardName elem \<noteq> [] \<and> P3 s \<le> boardCount then '' p3 board '' @ quoteZWD (boardNames (P3 s))
            else '' p3 '' @ Str (P3 s) else []) @
      (if zwdStepStr (StepX s) (StepY s) \<noteq> ''idle'' then '' step '' @ zwdStepStr (StepX s) (StepY s) else []) @
      (if Element (Under s) \<noteq> E_EMPTY \<or> Color (Under s) \<noteq> 0
       then '' under '' @ zwdElementName (Element (Under s)) @ '' color '' @ zwdColorStr (Color (Under s)) else []) @
      (if follower \<noteq> -1 then '' follower '' @ Str follower else []) @
      (if leader \<noteq> -1 then '' leader '' @ Str leader else []) @
      (if DataPos s \<noteq> 0 then '' data-pos '' @ Str (DataPos s) else []) @
      (if DataLen s < 0 then '' bind '' @ Str (i16 (- DataLen s)) else []))"

definition oopText :: "TStat \<Rightarrow> string" where
  "oopText s =
     (if DataLen s > 0 \<and> Data s \<noteq> []
      then ''    oop'' @ newline @
           concat (map (\<lambda>l. l @ newline) (splitOn (chr 13)
             (case wrapZWDTextWindowLines (Data s) of None \<Rightarrow> Data s | Some d \<Rightarrow> d))) @
           ''    end'' @ newline
      else [])"

definition statsText :: "int \<Rightarrow> (int \<Rightarrow> string) \<Rightarrow> TBoard \<Rightarrow> string" where
  "statsText boardCount boardNames b =
     newline @ ''  stats'' @ newline @
     concat (map (\<lambda>i. let s = Stats b i in
         statLine boardCount boardNames (emittedStatIndex b) (Element (Tiles b (sX s) (sY s))) s @ newline @ oopText s)
       (filter (decompileStatIsRepresentable b) [1..StatCount b])) @
     ''  end'' @ newline"

section \<open>A world\<close>

text \<open>The array of stats has \<open>MAX_STAT + 2\<close> entries.\<close>

definition decompileBoard :: "int \<Rightarrow> (int \<Rightarrow> string) \<Rightarrow> TBoard \<Rightarrow> string option" where
  "decompileBoard boardCount boardNames b =
     do { check (StatCount b < MAX_STAT + 2);
          let ks = legendOrder boardCount boardNames b;
          let lc = assignChars ks;
          Some (decompileHeader boardCount boardNames b @ gridText boardCount boardNames lc b @ legendText lc ks @
                statsText boardCount boardNames b @ ''end'' @ newline) }"

definition decompileZWD :: "TWorld \<Rightarrow> string option" where
  "decompileZWD world =
     do { check (0 \<le> BoardCount world + 1);
          (boardNames, e) \<leftarrow> foldM (\<lambda>i (names, e). do {
              e \<leftarrow> BoardOpen i e; Some (names(i := bName (Board e)), e) })
            [0..BoardCount world] (\<lambda>_. [], NewEngine\<lparr>Headless := True, World := world\<rparr>);
          (out, _) \<leftarrow> foldM (\<lambda>i (out, e). do {
              e \<leftarrow> BoardOpen i e;
              s \<leftarrow> decompileBoard (BoardCount world) boardNames (Board e);
              Some (out @ newline @ s, e) })
            [0..BoardCount world] (''zwd 1'' @ newline @ ''world '' @ quoteZWD (wName (wInfo world)) @ newline, e);
          Some out }"

datatype ZWDDecompileDiagnostic =
  RespawnOmitted int | LoweredToEmpty int int int int | StatOmitted int int | NotAuthorable zwdError

definition boardLowerings :: "int \<Rightarrow> TBoard \<Rightarrow> ZWDDecompileDiagnostic list" where
  "boardLowerings boardID b =
     (let x = StartPlayerX (bInfo b); y = StartPlayerY (bInfo b) in
      (if (x \<noteq> 0 \<or> y \<noteq> 0) \<and> \<not> validZWDCoord x y then [RespawnOmitted boardID] else []) @
      concat (map (\<lambda>(x, y). let elem = Element (Tiles b x y) in
        if zwdElementIsNamed elem then [] else [LoweredToEmpty boardID elem x y]) scanSquares) @
      map (StatOmitted boardID) (filter (\<lambda>i. \<not> decompileStatIsRepresentable b i) [1..StatCount b]))"

definition inspectZWDDecompileLowerings :: "TWorld \<Rightarrow> ZWDDecompileDiagnostic list option" where
  "inspectZWDDecompileLowerings world =
     map_option fst (foldM (\<lambda>i (ds, e). do {
         e \<leftarrow> BoardOpen i e;
         check (StatCount (Board e) < MAX_STAT + 2);
         Some (ds @ boardLowerings i (Board e), e) })
       [0..BoardCount world] ([], (InitElementsGame (NewEngine\<lparr>Headless := True\<rparr>))\<lparr>World := world\<rparr>))"

definition DecompileZWDAuthorable :: "TWorld \<Rightarrow> (string \<times> ZWDDecompileDiagnostic list) option" where
  "DecompileZWDAuthorable world =
     do { diagnostics \<leftarrow> inspectZWDDecompileLowerings world;
          src \<leftarrow> decompileZWD world;
          r \<leftarrow> CompileZWD src;
          Some (case r of
                  Inl err \<Rightarrow> ([], diagnostics @ [NotAuthorable err])
                | Inr _ \<Rightarrow> (src, diagnostics)) }"

definition DecompileZWD :: "TWorld \<Rightarrow> string option" where
  "DecompileZWD world = map_option fst (DecompileZWDAuthorable world)"

end
