(* ===== verification/ZwdTrip.thy ===== *)
theory ZwdTrip
  imports ZwdDecompile
begin

text \<open>
  What the decompiler writes, the parser reads: numbers, colours, names, quoted text and whole stat lines come
  back as they were. A legend key that is a quotation mark is the exception.
\<close>

section \<open>Numbers\<close>























section \<open>Tokens\<close>

datatype token = Word string | Quoted string

fun shown :: "token \<Rightarrow> string" where
  "shown (Word w) = w"
| "shown (Quoted s) = quoteZWD s"





lemma orErr_Some [simp]: "orErr (Some x) err = Inr x"
  by (simp add: orErr_def)




definition spaced :: "token list \<Rightarrow> string" where
  "spaced ts = concat (map (\<lambda>t. '' '' @ shown t) ts)"

lemma spaced_simps [simp]: "spaced [] = []" "spaced (ts @ us) = spaced ts @ spaced us" "spaced (t # ts) = CHR '' '' # shown t @ spaced ts"
  by (simp_all add: spaced_def)

lemma blank_space [simp]: "blank CHR '' ''"
  by (simp add: blank_def)



section \<open>Names\<close>




text \<open>The names of the element table, and the form in which they are looked up.\<close>

definition elementNames :: "string list" where
  "elementNames =
     [''Empty'', [], [], ''Monitor'', ''Player'', ''Ammo'', ''Torch'', ''Gem'', ''Key'', ''Door'', ''Scroll'',
      ''Passage'', ''Duplicator'', ''Bomb'', ''Energizer'', ''Star'', ''Clockwise'', ''Counter'', ''Bullet'',
      ''Water'', ''Forest'', ''Solid'', ''Normal'', ''Breakable'', ''Boulder'', ''Slider (NS)'', ''Slider (EW)'',
      ''Fake'', ''Invisible'', ''Blink wall'', ''Transporter'', ''Line'', ''Ricochet'', [], ''Bear'', ''Ruffian'',
      ''Object'', ''Slime'', ''Shark'', ''Spinning gun'', ''Pusher'', ''Lion'', ''Tiger'', [], ''Head'',
      ''Segment'', [], [], [], [], [], [], [], []]"

definition lookupNames :: "(string \<times> int) list" where
  "lookupNames =
     [(''EMPTY'', 0), (''MONITOR'', 3), (''PLAYER'', 4), (''AMMO'', 5), (''TORCH'', 6), (''GEM'', 7),
      (''KEY'', 8), (''DOOR'', 9), (''SCROLL'', 10), (''PASSAGE'', 11), (''DUPLICATOR'', 12), (''BOMB'', 13),
      (''ENERGIZER'', 14), (''STAR'', 15), (''CLOCKWISE'', 16), (''COUNTER'', 17), (''BULLET'', 18),
      (''WATER'', 19), (''FOREST'', 20), (''SOLID'', 21), (''NORMAL'', 22), (''BREAKABLE'', 23),
      (''BOULDER'', 24), (''SLIDER(NS)'', 25), (''SLIDER(EW)'', 26), (''FAKE'', 27), (''INVISIBLE'', 28),
      (''BLINKWALL'', 29), (''TRANSPORTER'', 30), (''LINE'', 31), (''RICOCHET'', 32), (''BEAR'', 34),
      (''RUFFIAN'', 35), (''OBJECT'', 36), (''SLIME'', 37), (''SHARK'', 38), (''SPINNINGGUN'', 39),
      (''PUSHER'', 40), (''LION'', 41), (''TIGER'', 42), (''HEAD'', 44), (''SEGMENT'', 45)]"

lemma elementNames_table: "map dName ElementDefs = elementNames"
  by (simp add: ElementDefs_def ElementDef_defs elementNames_def)

lemma elementName_code [code]: "elementName i = (case index elementNames i of None \<Rightarrow> [] | Some n \<Rightarrow> n)"
  by (auto simp: elementName_def elemDef_def index_def nth_map simp flip: elementNames_table split: option.splits)

lemma lookupNames_table:
  "map (\<lambda>i. (normalizeZWDName (elementName i), i)) (filter (\<lambda>i. elementName i \<noteq> []) [0..MAX_ELEMENT]) = lookupNames"
  by code_simp

lemma find_map_of: "find (\<lambda>i. P i \<and> f i = n) xs = map_of (map (\<lambda>i. (f i, i)) (filter P xs)) n"
  by (induction xs) auto

lemma elementByZWDName_code [code]:
  "elementByZWDName name =
     (case (if hasPrefix ''element '' name
            then (case Atoi (TrimSpace (trimPrefix ''element '' name)) of
                    None \<Rightarrow> None
                  | Some n \<Rightarrow>
                      if 0 \<le> n \<and> n \<le> MAX_ELEMENT \<and> (elementName n \<noteq> [] \<or> E_TEXT_MIN \<le> n \<and> n \<le> E_TEXT_WHITE)
                      then Some n else None)
            else None) of
        Some n \<Rightarrow> Some n
      | None \<Rightarrow> (let normalized = normalizeZWDName name in
          case map_of textZWDNames normalized of Some n \<Rightarrow> Some n | None \<Rightarrow> map_of lookupNames normalized))"
  by (simp only: elementByZWDName_def find_map_of lookupNames_table Let_def)








section \<open>Fields\<close>














lemma unquote_quoted [simp]: "isQuotedToken (quoteChar # s @ [quoteChar])" "unquoteToken (quoteChar # s @ [quoteChar]) = s"
  by (simp_all add: isQuotedToken_def unquoteToken_def)






section \<open>A stat line\<close>

































end
