(* ===== verification/Spec2Isabelle.thy ===== *)
theory Spec2Isabelle
  imports Codec EvalProps Runs StatArray Scores RoomProps EditInv Doors ZwdTrip
begin

text \<open>
  A model of ZZTMMO, the multiplayer server of the game ZZT (\<open>src/engine\<close>, Go).

  \<^bold>\<open>The program.\<close> An \<open>Engine\<close> is one running board: tiles, stats, players, screen. \<open>GameStepWithInputs\<close> runs a
  cycle of it, stat by stat; the stats' programs are ZZT-OOP. A \<open>RoomManager\<close> holds one world and an
  engine for every board somebody is on, moves players between them, and hands the server a frame per
  tick. An \<open>EditorSession\<close> is an engine that is edited instead of run. Around them stand the services of
  the server: chat and moderation, saved games and recordings, challenges. The web server connects all
  of these to browsers.

  \<^bold>\<open>How it is modelled.\<close> State is passed explicitly, in an \<open>option\<close>: \<open>None\<close> is a Go panic, or, where a
  definition is a \<^theory_text>\<open>partial_function\<close>, a call that does not return. Structs are records with the source's
  field names (prefixed where two records share one), Go's integers are \<open>int\<close> reduced by \<open>i16\<close>, \<open>u8\<close>, \<open>u16\<close> and
  \<open>u32\<close> where the code stores or wraps them, arrays are functions behind bounds-checked accessors, byte slices
  and strings are lists. A player state is reached through an address (\<open>Players\<close>, \<open>PHeap\<close>), because two stats could share one. The global
  input and sound variables of the package are fields of the engine. Go maps are \<open>mapping\<close>s; where the
  code ranges over one, the order is a parameter or the result is shown not to depend on it.
  A mutex makes an operation one step, so a server is a sequence of operations.
  Parameters stand for what is outside: whether a file could be created or written, the bytes of files, the
  help texts, random tokens, the clock.

  \<^bold>\<open>The theories, in the order of their imports.\<close>
  \<^item> \<^theory_text>\<open>Prelude\<close>, \<^theory_text>\<open>Types\<close>, \<^theory_text>\<open>Lib\<close>: folds and searches in \<open>option\<close>, the integer widths, slices; the records of
    \<open>gamevars.go\<close>; the Turbo Pascal routines of \<open>lib.go\<close>. \<^theory_text>\<open>Elements_Table\<close> is the table of \<open>elements.go\<close>.
  \<^item> \<^theory_text>\<open>Serialize\<close>, \<^theory_text>\<open>Codec\<close>, \<^theory_text>\<open>BoardFile\<close>: the byte codecs (\<open>serialize.go\<close>), a locale of codecs and its
    interpretations, boards and world files (\<open>BoardOpen\<close>, \<open>BoardClose\<close>, \<open>worldReadFrom\<close>, \<open>worldWriteTo\<close> of \<open>game.go\<close>).
  \<^item> \<^theory_text>\<open>Sounds\<close>, \<^theory_text>\<open>Draw\<close>, \<^theory_text>\<open>Stats\<close>, \<^theory_text>\<open>Combat\<close>, \<^theory_text>\<open>Push\<close>: the \<open>#PLAY\<close> parser; the screen and the draw procedures; adding,
    moving and removing stats and placing players (\<open>placement.go\<close>); damage and shots; pushing.
  \<^item> \<^theory_text>\<open>Oop\<close>, \<^theory_text>\<open>OopExec\<close>: the readers of ZZT-OOP and \<open>OopExecute\<close> (\<open>oop.go\<close>).
  \<^item> \<^theory_text>\<open>Creatures\<close>, \<^theory_text>\<open>Touch\<close>, \<^theory_text>\<open>Ticks\<close>, \<^theory_text>\<open>Game\<close>: the tick and touch procedures (\<open>elements.go\<close>), the cycle and the
    queued replies (\<open>game.go\<close>).
  \<^item> \<^theory_text>\<open>Frame\<close> is the locale of what an operation leaves alone, with rules that walk through a monadic definition;
    \<^theory_text>\<open>Drawn\<close> (drawing), \<^theory_text>\<open>Keeps\<close>, \<^theory_text>\<open>KeepsOop\<close>, \<^theory_text>\<open>KeepsBoard\<close>, \<^theory_text>\<open>KeepsGame\<close> and \<^theory_text>\<open>Runs\<close> (a cycle and a whole run of a host) interpret it.
  \<^item> \<^theory_text>\<open>Lookup\<close>, \<^theory_text>\<open>StatArray\<close>, \<^theory_text>\<open>Drawable\<close>, \<^theory_text>\<open>Spawning\<close>: searches against their specification, the stat array as a list,
    boards whose drawing cannot panic, spawning.
  \<^item> \<^theory_text>\<open>Protocol\<close>, \<^theory_text>\<open>SessionRecord\<close>, \<^theory_text>\<open>Rooms\<close>, \<^theory_text>\<open>RoomStep\<close>, \<^theory_text>\<open>RoomSave\<close>: frames and state hashes (\<open>protocol.go\<close>,
    \<open>state_hash.go\<close>), the recorder, the room manager (\<open>room_manager.go\<close>), its tick, snapshots and replays.
  \<^item> \<^theory_text>\<open>Similar\<close>, \<^theory_text>\<open>RoomFrame\<close>, \<^theory_text>\<open>RoomInv\<close>, \<^theory_text>\<open>Sessions\<close>, \<^theory_text>\<open>Scores\<close>, \<^theory_text>\<open>RoomProps\<close>, \<^theory_text>\<open>NetScreen\<close>, \<^theory_text>\<open>Travel\<close>: that a manager does not depend on
    its recorder, the invariant of its rooms, sessions of a hosted world, replays, high scores, frames, travelling.
  \<^item> \<^theory_text>\<open>Editor\<close>, \<^theory_text>\<open>Authoring\<close>: the editing operations (\<open>editor_session.go\<close>) and the analysis of programs
    (\<open>oop_authoring.go\<close>). \<^theory_text>\<open>EditSession\<close>, \<^theory_text>\<open>EditOps\<close>, \<^theory_text>\<open>EditWorld\<close>: the members, leases and rights of a session, what a
    member may do to tiles, stats and programs, and to whole boards and worlds, with the gate of \<open>generation.go\<close>.
  \<^item> \<^theory_text>\<open>FanOut\<close>, \<^theory_text>\<open>EditInv\<close>: the order in which edits are broadcast, as a step relation with the ticket that is lost when an
    edit panics; the invariant of a session.

  \<^item> \<^theory_text>\<open>Texts\<close>, \<^theory_text>\<open>Chat\<close>, \<^theory_text>\<open>Challenges\<close>, \<^theory_text>\<open>Accounts\<close>: UTF-8 and the trimming of strings; what chat admits, its blocks, mutes
    and log (\<open>chat_*.go\<close>); challenges, their leaderboard and runs (\<open>challenge*.go\<close>); profiles, settings and the stores of an
    account (\<open>profile.go\<close>, \<open>comfort.go\<close>, \<open>chat_db.go\<close>, \<open>world_access.go\<close>, \<open>world_activity.go\<close>).
  \<^item> \<^theory_text>\<open>Instances\<close>, \<^theory_text>\<open>Moderation\<close>, \<^theory_text>\<open>Hosting\<close>: a hosted world with its connections, watchers and tick; the server around its
    worlds, with the requests of players and moderators (\<open>moderation.go\<close>); the registry of worlds, entering and leaving them
    (\<open>websocket_server.go\<close>, \<open>challenge_run.go\<close>). \<^theory_text>\<open>InstProps\<close>, \<^theory_text>\<open>Doors\<close>: the grace of a lost connection, who is let in.

  \<^item> \<^theory_text>\<open>BoardTrip\<close>: the bytes \<open>BoardClose\<close> packs, and that \<open>BoardOpen\<close> has the board back from them.
  \<^item> \<^theory_text>\<open>Zwd\<close>, \<^theory_text>\<open>ZwdParse\<close>, \<^theory_text>\<open>ZwdDoc\<close>, \<^theory_text>\<open>ZwdCompile\<close>: the text format of worlds (\<open>zwd.go\<close>): tokens and values, the sections
    of a board, what the parser promises, the compiler. \<^theory_text>\<open>ZwdSafe\<close>, \<^theory_text>\<open>ZwdProps\<close>: it cannot panic, and its boards open
    with the tiles, stats and programs as written. \<^theory_text>\<open>ZwdDecompile\<close>, \<^theory_text>\<open>ZwdTrip\<close>: worlds written back as text
    (\<open>zwd_decompile.go\<close>), and that the line of a stat is read back as that stat.
  \<^item> \<^theory_text>\<open>EvalWorld\<close>, \<^theory_text>\<open>EvalProps\<close>: the acceptance gate of generated worlds (\<open>eval.go\<close>), with a locale of worklist searches that
    its flood fill and its walk over boards interpret.

  \<^bold>\<open>Bounds and fuel.\<close> No definition runs on fuel. Loops are structural or carry a measure; \<open>OopExecute\<close> is a
  \<open>while_option\<close>, and pushing, condition and direction words, sends, flood fill and the analysis of programs are partial functions, because
  the code can run for ever there (\<open>push_nowhere_diverges\<close> proves one case).

  \<^bold>\<open>Not modelled.\<close> The terminal program (\<open>tcell\<close>, the modal windows, the keyboard), goroutines and their timing, HTTP and
  WebSocket transport, JSON and base64, SQL, OAuth, rendering, and the language model behind world generation: input and
  output, or code that is not in the repository. A room whose step panics is dropped, as the code
  does; one whose step never returns, or overflows the stack, would hang or end the process, and is dropped in the
  model too: the \<open>None\<close> of a step does not tell these apart. The range over the notes of a
  \<open>#PLAY\<close> string visits bytes: no two note bytes form a multi-byte character. The theorem on replays is for any order in which the input maps are visited, when recorded and
  when played back, as long as no two players drive one stat; sessions that change the friendly-fire policy, have
  transit gates or notice tiles, or take snapshots between ticks are outside it, since the recorder does not write
  these down.
\<close>

text \<open>
  A stat record written by \<open>StoreStat\<close> into its 33 bytes is what \<open>LoadStat\<close> reads back.
\<close>

theorem stat_roundtrip:
  assumes "length dest = 33" and "validStat s"
  shows "do { bs \<leftarrow> StoreStat dest s; LoadStat bs old } = Some (s\<lparr>Data := Data old\<rparr>)"
  using assms by (rule stat.roundtrip)

theorem stat_roundtrip_witness:
  "do { bs \<leftarrow> StoreStat (replicate 33 7) StatTemplateDefault; LoadStat bs StatTemplateDefault } =
     Some StatTemplateDefault"
  using stat_roundtrip [of "replicate 33 7" StatTemplateDefault StatTemplateDefault]
  by (simp add: validStat_def StatTemplateDefault_def is_i16_def)

end
